(* ===== verification/Prelude.thy ===== *)
theory Prelude
  imports Main "HOL-Library.Multiset"
begin

section \<open>Shared vocabulary of the development\<close>

text \<open>
  What the components share: the collections of facts the proofs draw on, the parts of the
  JavaScript string and array library the sources use, and the interface of an event-driven
  component (a step function over events that emits effects) with the lemmas that lift a
  one-step invariant to every run.

  A JavaScript string is modelled by its UTF-8 encoding, a list of bytes (\<open>string\<close> is
  \<open>char list\<close> and a \<open>char\<close> is a byte). This is the form in which \<open>encodeURIComponent\<close>,
  \<open>URLSearchParams\<close> and \<open>TextDecoder\<close> see it. A number the code only compares, adds or prints
  is an \<open>int\<close>.
\<close>

named_theorems js_defs \<open>definitions of the string and array library\<close>
named_theorems step_defs \<open>definitions of the step functions and the handlers they call\<close>
named_theorems url_defs \<open>definitions of the request paths\<close>

subsection \<open>Truthiness and defaults\<close>

text \<open>\<open>a || b\<close> on strings, where the empty string is falsy, and on optional strings, where
  \<open>undefined\<close> is falsy too.\<close>

definition str_or :: "string \<Rightarrow> string \<Rightarrow> string" where
  "str_or a b = (if a = [] then b else a)"

definition opt_str_or :: "string option \<Rightarrow> string \<Rightarrow> string" where
  "opt_str_or a b = (case a of None \<Rightarrow> b | Some s \<Rightarrow> str_or s b)"

definition opt_or :: "'a option \<Rightarrow> 'a \<Rightarrow> 'a" where
  \<comment> \<open>\<open>a ?? b\<close>, and \<open>a || b\<close> where every value of the type is truthy (arrays, objects)\<close>
  "opt_or a b = (case a of None \<Rightarrow> b | Some x \<Rightarrow> x)"

definition truthy_str :: "string option \<Rightarrow> bool" where
  "truthy_str a = (case a of None \<Rightarrow> False | Some s \<Rightarrow> s \<noteq> [])"

definition truthy_num :: "int option \<Rightarrow> bool" where
  "truthy_num a = (case a of None \<Rightarrow> False | Some n \<Rightarrow> n \<noteq> 0)"

definition truthy_bool :: "bool option \<Rightarrow> bool" where
  "truthy_bool a = (a = Some True)"

lemma str_or_simps [simp]: "str_or [] b = b" "a \<noteq> [] \<Longrightarrow> str_or a b = a"
  by (simp_all add: str_or_def)

lemma opt_or_simps [simp]: "opt_or None b = b" "opt_or (Some a) b = a"
  by (simp_all add: opt_or_def)

lemma truthy_simps [simp]:
  "\<not> truthy_str None" "truthy_str (Some s) = (s \<noteq> [])"
  "\<not> truthy_num None" "truthy_num (Some n) = (n \<noteq> 0)"
  "\<not> truthy_bool None" "truthy_bool (Some b) = b"
  by (simp_all add: truthy_str_def truthy_num_def truthy_bool_def)

subsection \<open>Decimal numerals: \<open>String(n)\<close>\<close>

definition digit_char :: "nat \<Rightarrow> char" where
  "digit_char d = char_of (48 + d)"

definition char_digit :: "char \<Rightarrow> nat" where
  "char_digit c = of_char c - 48"

definition is_digit :: "char \<Rightarrow> bool" where
  "is_digit c = (48 \<le> (of_char c :: nat) \<and> (of_char c :: nat) \<le> 57)"

fun nat_str :: "nat \<Rightarrow> string" where
  "nat_str n = (if n < 10 then [digit_char n] else nat_str (n div 10) @ [digit_char (n mod 10)])"

declare nat_str.simps [simp del]

definition int_str :: "int \<Rightarrow> string" where
  "int_str i = (if i < 0 then CHR ''-'' # nat_str (nat (- i)) else nat_str (nat i))"

definition digits_nat :: "string \<Rightarrow> nat" where
  "digits_nat s = foldl (\<lambda>a c. 10 * a + char_digit c) 0 s"

lemma of_digit_char: "d < 10 \<Longrightarrow> of_char (digit_char d) = 48 + d"
  by (simp add: digit_char_def)

lemma is_digit_digit_char [simp]: "d < 10 \<Longrightarrow> is_digit (digit_char d)"
  by (simp add: is_digit_def of_digit_char)

lemma char_digit_digit_char [simp]: "d < 10 \<Longrightarrow> char_digit (digit_char d) = d"
  by (simp add: char_digit_def of_digit_char)

lemma nat_str_nonempty [simp]: "nat_str n \<noteq> []"
  by (subst nat_str.simps) simp

lemma nat_str_digits: "\<forall>c \<in> set (nat_str n). is_digit c"
proof (induction n rule: nat_str.induct)
  case (1 n)
  then show ?case
    by (cases "n < 10") (auto simp: nat_str.simps [of n])
qed

lemma digits_nat_snoc: "digits_nat (s @ [c]) = 10 * digits_nat s + char_digit c"
  by (simp add: digits_nat_def)

lemma digits_nat_str [simp]: "digits_nat (nat_str n) = n"
proof (induction n rule: nat_str.induct)
  case (1 n)
  then show ?case
    by (cases "n < 10") (simp_all add: nat_str.simps [of n] digits_nat_snoc, simp add: digits_nat_def)
qed

lemma nat_str_inject [simp]: "nat_str m = nat_str n \<longleftrightarrow> m = n"
  by (metis digits_nat_str)

lemma hd_nat_str_digit: "is_digit (hd (nat_str n))"
  using nat_str_digits [of n] by (cases "nat_str n") auto

lemma minus_not_digit [simp]: "\<not> is_digit (CHR ''-'')"
  by (simp add: is_digit_def)

lemma int_str_inject [simp]: "int_str i = int_str j \<longleftrightarrow> i = j"
proof
  assume eq: "int_str i = int_str j"
  have "nat_str n \<noteq> CHR ''-'' # s" for n s
    using hd_nat_str_digit [of n] by (cases "nat_str n") auto
  with eq have "i < 0 \<longleftrightarrow> j < 0"
    unfolding int_str_def by (metis)
  with eq show "i = j"
    by (auto simp: int_str_def split: if_splits)
qed simp

lemma int_str_nonempty [simp]: "int_str i \<noteq> []"
  by (simp add: int_str_def)

subsection \<open>Arrays: \<open>find\<close>, \<open>new Set\<close>, \<open>flatMap\<close>\<close>

text \<open>\<open>Array.from(new Set(xs))\<close>: a \<open>Set\<close> iterates in insertion order and adding a member twice
  has no effect, so the first occurrence of each value is kept.\<close>

definition js_set_add :: "'a list \<Rightarrow> 'a \<Rightarrow> 'a list" where
  "js_set_add s x = (if x \<in> set s then s else s @ [x])"

definition js_set_of :: "'a list \<Rightarrow> 'a list" where
  "js_set_of xs = foldl js_set_add [] xs"

definition js_set_delete :: "'a list \<Rightarrow> 'a \<Rightarrow> 'a list" where
  "js_set_delete s x = filter (\<lambda>y. y \<noteq> x) s"

lemma set_js_set_add [simp]: "set (js_set_add s x) = insert x (set s)"
  by (auto simp: js_set_add_def)

lemma distinct_js_set_add [simp]: "distinct (js_set_add s x) = distinct s"
  by (auto simp: js_set_add_def)

lemma foldl_js_set_add:
  "set (foldl js_set_add s xs) = set s \<union> set xs"
  "distinct s \<Longrightarrow> distinct (foldl js_set_add s xs)"
  by (induction xs arbitrary: s) auto

lemma set_js_set_of [simp]: "set (js_set_of xs) = set xs"
  by (simp add: js_set_of_def foldl_js_set_add)

lemma distinct_js_set_of [simp]: "distinct (js_set_of xs)"
  by (simp add: js_set_of_def foldl_js_set_add)

lemma foldl_js_set_add_distinct:
  "distinct xs \<Longrightarrow> set s \<inter> set xs = {} \<Longrightarrow> foldl js_set_add s xs = s @ xs"
  by (induction xs arbitrary: s) (auto simp: js_set_add_def)

lemma js_set_of_distinct: "distinct xs \<Longrightarrow> js_set_of xs = xs"
  by (simp add: js_set_of_def foldl_js_set_add_distinct)

lemma set_js_set_delete [simp]: "set (js_set_delete s x) = set s - {x}"
  by (auto simp: js_set_delete_def)

lemma distinct_js_set_delete [simp]: "distinct s \<Longrightarrow> distinct (js_set_delete s x)"
  by (simp add: js_set_delete_def)

lemma find_SomeD: "find P xs = Some x \<Longrightarrow> x \<in> set xs \<and> P x"
  by (auto simp: find_Some_iff)

lemma find_NoneD: "find P xs = None \<Longrightarrow> x \<in> set xs \<Longrightarrow> \<not> P x"
  by (auto simp: find_None_iff)

subsection \<open>Requests in flight\<close>

text \<open>The continuations waiting for a request are kept in a list; settling the \<open>i\<close>-th removes it.\<close>

definition remove_at :: "nat \<Rightarrow> 'a list \<Rightarrow> 'a list" where
  "remove_at i xs = take i xs @ drop (Suc i) xs"

definition count_if :: "('a \<Rightarrow> bool) \<Rightarrow> 'a list \<Rightarrow> nat" where
  "count_if P xs = length (filter P xs)"

lemma count_if_simps [simp]:
  "count_if P [] = 0" "count_if P (x # xs) = (if P x then Suc (count_if P xs) else count_if P xs)"
  "count_if P (xs @ ys) = count_if P xs + count_if P ys"
  by (simp_all add: count_if_def)

lemma count_if_0: "count_if P xs = 0 \<longleftrightarrow> (\<forall>x \<in> set xs. \<not> P x)"
  by (auto simp: count_if_def filter_empty_conv)

lemma count_if_pos: "x \<in> set xs \<Longrightarrow> P x \<Longrightarrow> 0 < count_if P xs"
  using count_if_0 [of P xs] by auto

lemma set_remove_at: "set (remove_at i xs) \<subseteq> set xs"
  by (auto simp: remove_at_def dest: in_set_takeD in_set_dropD)

lemma count_remove_at:
  assumes "i < length xs"
  shows "count_if P (remove_at i xs) = (if P (xs ! i) then count_if P xs - 1 else count_if P xs)"
proof -
  have "xs = take i xs @ xs ! i # drop (Suc i) xs"
    using assms by (rule id_take_nth_drop)
  then have "count_if P xs = count_if P (take i xs) + count_if P (xs ! i # drop (Suc i) xs)"
    using count_if_simps(3) by metis
  then show ?thesis by (simp add: remove_at_def)
qed

lemma count_remove_at_le: "count_if P (remove_at i xs) \<le> count_if P xs"
proof (cases "i < length xs")
  case False
  then show ?thesis by (simp add: remove_at_def)
qed (simp add: count_remove_at)

text \<open>When at most one operation is pending, settling one leaves none.\<close>

lemma settle_awaited:
  assumes "i < length xs" and "P (xs ! i)" and "n + count_if P xs \<le> 1"
  shows "n = 0" and "count_if P (remove_at i xs) = 0"
proof -
  have "0 < count_if P xs"
    using assms(2) nth_mem [OF assms(1)] by (rule count_if_pos [rotated])
  with assms show "n = 0" "count_if P (remove_at i xs) = 0"
    by (simp_all add: count_remove_at)
qed

lemma settle_mutation:
  assumes "i < length ms" and "length ms + n \<le> 1"
  shows "remove_at i ms = []" and "n = 0" and "length ms = 1"
  using assms by (simp_all add: remove_at_def)

lemma count_if_update:
  "i < length xs \<Longrightarrow>
   count_if P (xs[i := x]) + (if P (xs ! i) then 1 else 0) = count_if P xs + (if P x then 1 else 0)"
proof (induction xs arbitrary: i)
  case Nil
  then show ?case by simp
next
  case (Cons y xs)
  then show ?case by (cases i) auto
qed

lemma sum_list_update_nat:
  "i < length xs \<Longrightarrow> sum_list (map f (xs[i := x])) + f (xs ! i) = sum_list (map f xs) + (f x :: nat)"
proof (induction xs arbitrary: i)
  case Nil
  then show ?case by simp
next
  case (Cons y xs)
  then show ?case by (cases i) auto
qed

lemma in_remove_at_unique:
  assumes "i < length xs" and "P (xs ! i)" and "count_if P xs \<le> 1" and "x \<in> set (remove_at i xs)"
  shows "\<not> P x"
  using assms count_remove_at [of i xs P] count_if_0 [of P "remove_at i xs"] by auto

subsection \<open>Event-driven components\<close>

text \<open>
  A page or dialog is a step function: it takes the state and an event (a click, an input, the
  settling of a request) and gives the next state and the effects the handlers performed, in
  order. A run is a sequence of events.
\<close>

fun run :: "('s \<Rightarrow> 'e \<Rightarrow> 's \<times> 'o list) \<Rightarrow> 's \<Rightarrow> 'e list \<Rightarrow> 's \<times> 'o list" where
  "run step s [] = (s, [])"
| "run step s (e # es) =
     (case step s e of (s', os) \<Rightarrow> (case run step s' es of (s'', os') \<Rightarrow> (s'', os @ os')))"

abbreviation after :: "('s \<Rightarrow> 'e \<Rightarrow> 's \<times> 'o list) \<Rightarrow> 's \<Rightarrow> 'e list \<Rightarrow> 's" where
  "after step s es \<equiv> fst (run step s es)"

lemma run_Cons:
  "fst (run step s (e # es)) = fst (run step (fst (step s e)) es)"
  "snd (run step s (e # es)) = snd (step s e) @ snd (run step (fst (step s e)) es)"
  by (simp_all split: prod.splits)

lemma run_append:
  "run step s (es @ fs) =
     (case run step s es of (s', os) \<Rightarrow> (case run step s' fs of (s'', os') \<Rightarrow> (s'', os @ os')))"
  by (induction es arbitrary: s) (auto split: prod.splits)

lemma after_snoc: "after step s (es @ [e]) = fst (step (after step s es) e)"
  by (simp add: run_append split: prod.splits)

text \<open>
  The contract of such a component: an invariant that the initial states satisfy and every step
  keeps, and a guarantee that every effect emitted from a state satisfying it is allowed there.
\<close>

locale guarded_component =
  fixes step :: "'s \<Rightarrow> 'e \<Rightarrow> 's \<times> 'o list"
    and init :: "'s \<Rightarrow> bool"
    and inv :: "'s \<Rightarrow> bool"
    and allowed :: "'s \<Rightarrow> 'o \<Rightarrow> bool"
  assumes inv_init: "init s \<Longrightarrow> inv s"
    and inv_step: "inv s \<Longrightarrow> inv (fst (step s e))"
    and allowed_step: "inv s \<Longrightarrow> x \<in> set (snd (step s e)) \<Longrightarrow> allowed s x"
begin

lemma inv_after: "inv s \<Longrightarrow> inv (after step s es)"
proof (induction es rule: rev_induct)
  case Nil
  then show ?case by simp
next
  case (snoc e es)
  then show ?case by (simp only: after_snoc inv_step)
qed

lemma inv_reachable: "init s \<Longrightarrow> inv (after step s es)"
  by (rule inv_after) (rule inv_init)

lemma allowed_reachable:
  "init s \<Longrightarrow> x \<in> set (snd (step (after step s es) e)) \<Longrightarrow> allowed (after step s es) x"
  by (rule allowed_step [OF inv_reachable])

end

end
