(* ===== verification/Js_Text.thy ===== *)
theory Js_Text
  imports Prelude
begin

section \<open>The string library\<close>

text \<open>
  The methods of JavaScript strings and the URL encoders the sources call, on UTF-8 bytes:
  \<open>trim\<close>, \<open>startsWith\<close>, \<open>endsWith\<close>, \<open>includes\<close>, \<open>toUpperCase\<close>, \<open>toLowerCase\<close>, \<open>split\<close>,
  \<open>encodeURIComponent\<close> and the serialiser of \<open>URLSearchParams\<close>. The facts the components use
  are that trimming is idempotent and that both encoders are injective, so that two different
  keys never reach the same path or query.
\<close>

subsection \<open>Trimming\<close>

text \<open>The encodings of the white space and line terminator code points that \<open>trim\<close> removes.\<close>

definition ws_seqs :: "string list" where
  "ws_seqs =
     [[CHR 0x09], [CHR 0x0A], [CHR 0x0B], [CHR 0x0C], [CHR 0x0D], [CHR 0x20],
      [CHR 0xC2, CHR 0xA0], [CHR 0xE1, CHR 0x9A, CHR 0x80],
      [CHR 0xE2, CHR 0x80, CHR 0x80], [CHR 0xE2, CHR 0x80, CHR 0x81],
      [CHR 0xE2, CHR 0x80, CHR 0x82], [CHR 0xE2, CHR 0x80, CHR 0x83],
      [CHR 0xE2, CHR 0x80, CHR 0x84], [CHR 0xE2, CHR 0x80, CHR 0x85],
      [CHR 0xE2, CHR 0x80, CHR 0x86], [CHR 0xE2, CHR 0x80, CHR 0x87],
      [CHR 0xE2, CHR 0x80, CHR 0x88], [CHR 0xE2, CHR 0x80, CHR 0x89],
      [CHR 0xE2, CHR 0x80, CHR 0x8A], [CHR 0xE2, CHR 0x80, CHR 0xA8],
      [CHR 0xE2, CHR 0x80, CHR 0xA9], [CHR 0xE2, CHR 0x80, CHR 0xAF],
      [CHR 0xE2, CHR 0x81, CHR 0x9F], [CHR 0xE3, CHR 0x80, CHR 0x80],
      [CHR 0xEF, CHR 0xBB, CHR 0xBF]]"

definition lead_len :: "string list \<Rightarrow> string \<Rightarrow> nat" where
  "lead_len ws s = (case find (\<lambda>w. take (length w) s = w) ws of None \<Rightarrow> 0 | Some w \<Rightarrow> length w)"

lemma lead_len_Nil [simp]: "lead_len ws [] = 0"
  by (auto simp: lead_len_def find_Some_iff split: option.splits)

function strip_lead :: "string list \<Rightarrow> string \<Rightarrow> string" where
  "strip_lead ws s = (if lead_len ws s = 0 then s else strip_lead ws (drop (lead_len ws s) s))"
  by pat_completeness auto
termination
proof (relation "measure (\<lambda>(ws, s). length s)")
  fix ws s assume "lead_len ws s \<noteq> 0"
  moreover from this have "s \<noteq> []" by auto
  ultimately show "((ws, drop (lead_len ws s) s), (ws, s)) \<in> measure (\<lambda>(ws, s). length s)"
    by simp
qed simp

declare strip_lead.simps [simp del]

definition strip_trail :: "string list \<Rightarrow> string \<Rightarrow> string" where
  "strip_trail ws s = rev (strip_lead (map rev ws) (rev s))"

definition js_trim :: "string \<Rightarrow> string" where
  "js_trim s = strip_trail ws_seqs (strip_lead ws_seqs s)"

lemma lead_len_0_iff: "lead_len ws s = 0 \<longleftrightarrow> (\<forall>w \<in> set ws. w \<noteq> [] \<longrightarrow> take (length w) s \<noteq> w) \<or>
    (\<exists>w. find (\<lambda>w. take (length w) s = w) ws = Some w \<and> w = [])"
proof (cases "find (\<lambda>w. take (length w) s = w) ws")
  case None
  then have "lead_len ws s = 0" and "\<forall>w \<in> set ws. take (length w) s \<noteq> w"
    by (simp add: lead_len_def, auto simp: find_None_iff)
  then show ?thesis by blast
next
  case (Some w)
  then have "lead_len ws s = length w" and "w \<in> set ws \<and> take (length w) s = w"
    by (simp add: lead_len_def, rule find_SomeD)
  with Some show ?thesis by auto
qed

lemma lead_len_strip_lead [simp]: "lead_len ws (strip_lead ws s) = 0"
proof (induction ws s rule: strip_lead.induct)
  case (1 ws s)
  then show ?case
    by (cases "lead_len ws s = 0") (simp_all add: strip_lead.simps [of ws s])
qed

lemma strip_lead_suffix: "\<exists>p. s = p @ strip_lead ws s"
proof (induction ws s rule: strip_lead.induct)
  case (1 ws s)
  show ?case
  proof (cases "lead_len ws s = 0")
    case True
    then show ?thesis by (simp add: strip_lead.simps [of ws s])
  next
    case False
    then obtain p where p: "drop (lead_len ws s) s = p @ strip_lead ws s"
      using "1.IH" by (auto simp: strip_lead.simps [of ws s])
    have "s = (take (lead_len ws s) s @ p) @ strip_lead ws s"
      using p by (metis append.assoc append_take_drop_id)
    then show ?thesis by blast
  qed
qed

lemma strip_lead_id: "lead_len ws s = 0 \<Longrightarrow> strip_lead ws s = s"
  by (simp add: strip_lead.simps)

lemma strip_trail_prefix: "\<exists>q. s = strip_trail ws s @ q"
proof -
  obtain p where "rev s = p @ strip_lead (map rev ws) (rev s)"
    using strip_lead_suffix by blast
  then have "s = rev (strip_lead (map rev ws) (rev s)) @ rev p"
    by (metis rev_append rev_rev_ident)
  then show ?thesis unfolding strip_trail_def by blast
qed

text \<open>Removing a suffix cannot uncover white space at the front.\<close>

lemma lead_len_prefix:
  assumes "[] \<notin> set ws" and "lead_len ws (s @ q) = 0"
  shows "lead_len ws s = 0"
proof -
  from assms have none: "\<forall>w \<in> set ws. take (length w) (s @ q) \<noteq> w"
    by (auto simp: lead_len_0_iff dest: find_SomeD)
  have "take (length w) s \<noteq> w" if w: "w \<in> set ws" for w
  proof
    assume eq: "take (length w) s = w"
    then have "length w \<le> length s"
      by (metis length_take min.cobounded1)
    then have "take (length w) (s @ q) = w" by (simp add: eq)
    with none w show False by blast
  qed
  with assms(1) show ?thesis
    by (simp add: lead_len_0_iff)
qed

lemma ws_seqs_nonempty: "[] \<notin> set ws_seqs"
  by (simp add: ws_seqs_def)

lemma js_trim_idem [simp]: "js_trim (js_trim s) = js_trim s"
proof -
  let ?u = "strip_lead ws_seqs s"
  obtain q where q: "?u = js_trim s @ q"
    unfolding js_trim_def using strip_trail_prefix by blast
  have "lead_len ws_seqs (js_trim s @ q) = 0"
    by (simp flip: q)
  then have "lead_len ws_seqs (js_trim s) = 0"
    by (rule lead_len_prefix [OF ws_seqs_nonempty])
  moreover have "strip_trail ws_seqs (js_trim s) = js_trim s"
    unfolding js_trim_def strip_trail_def by (simp add: strip_lead_id)
  ultimately show ?thesis
    unfolding js_trim_def [of "js_trim s"] by (simp add: strip_lead_id)
qed

lemma js_trim_Nil [simp]: "js_trim [] = []"
  by (simp add: js_trim_def strip_trail_def strip_lead_id)

lemma js_trim_infix: "\<exists>p q. s = p @ js_trim s @ q"
  using strip_lead_suffix [of s ws_seqs] strip_trail_prefix [of "strip_lead ws_seqs s" ws_seqs]
  unfolding js_trim_def by metis

subsection \<open>Searching, splitting, case\<close>

definition js_startsWith :: "string \<Rightarrow> string \<Rightarrow> bool" where
  "js_startsWith s p = (take (length p) s = p)"

definition js_endsWith :: "string \<Rightarrow> string \<Rightarrow> bool" where
  "js_endsWith s p = js_startsWith (rev s) (rev p)"

fun js_includes :: "string \<Rightarrow> string \<Rightarrow> bool" where
  "js_includes s p = (js_startsWith s p \<or> (case s of [] \<Rightarrow> False | c # s' \<Rightarrow> js_includes s' p))"

declare js_includes.simps [simp del]

lemma js_startsWith_iff: "js_startsWith s p \<longleftrightarrow> (\<exists>r. s = p @ r)"
  unfolding js_startsWith_def by (metis append_eq_conv_conj append_take_drop_id)

lemma js_endsWith_iff: "js_endsWith s p \<longleftrightarrow> (\<exists>r. s = r @ p)"
  unfolding js_endsWith_def js_startsWith_iff by (metis rev_append rev_rev_ident)

lemma js_includes_iff: "js_includes s p \<longleftrightarrow> (\<exists>a b. s = a @ p @ b)"
proof (induction s)
  case Nil
  then show ?case by (auto simp: js_includes.simps [of "[]"] js_startsWith_iff)
next
  case (Cons c s)
  have "(\<exists>a b. c # s = a @ p @ b) \<longleftrightarrow> (\<exists>b. c # s = p @ b) \<or> (\<exists>a b. s = a @ p @ b)"
    by (metis append_Cons append_Nil append_eq_Cons_conv)
  with Cons show ?case
    by (simp add: js_includes.simps [of "c # s"] js_startsWith_iff)
qed

definition upper_char :: "char \<Rightarrow> char" where
  "upper_char c = (let n = of_char c :: nat in if 97 \<le> n \<and> n \<le> 122 then char_of (n - 32) else c)"

definition lower_char :: "char \<Rightarrow> char" where
  "lower_char c = (let n = of_char c :: nat in if 65 \<le> n \<and> n \<le> 90 then char_of (n + 32) else c)"

text \<open>
  \<open>toUpperCase\<close>: ASCII letters, and the two other code points whose upper case is an ASCII
  letter, U+0131 (to \<open>I\<close>) and U+017F (to \<open>S\<close>). Every other code point is left as it is: its
  upper case never is an ASCII letter of the names the code compares the result with.
  \<open>toLowerCase\<close> is the ASCII mapping, and U+212A to \<open>k\<close>.
\<close>

fun js_toUpperCase :: "string \<Rightarrow> string" where
  "js_toUpperCase (a # b # s) =
     (if a = CHR 0xC4 \<and> b = CHR 0xB1 then CHR ''I'' # js_toUpperCase s
      else if a = CHR 0xC5 \<and> b = CHR 0xBF then CHR ''S'' # js_toUpperCase s
      else upper_char a # js_toUpperCase (b # s))"
| "js_toUpperCase [a] = [upper_char a]"
| "js_toUpperCase [] = []"

fun js_toLowerCase :: "string \<Rightarrow> string" where
  "js_toLowerCase (a # b # c # s) =
     (if a = CHR 0xE2 \<and> b = CHR 0x84 \<and> c = CHR 0xAA then CHR ''k'' # js_toLowerCase s
      else lower_char a # js_toLowerCase (b # c # s))"
| "js_toLowerCase [a, b] = [lower_char a, lower_char b]"
| "js_toLowerCase [a] = [lower_char a]"
| "js_toLowerCase [] = []"

text \<open>\<open>s.split(sep)\<close> for a set of one-byte separators.\<close>

fun split_on :: "(char \<Rightarrow> bool) \<Rightarrow> string \<Rightarrow> string list" where
  "split_on p [] = [[]]"
| "split_on p (c # s) =
     (if p c then [] # split_on p s
      else case split_on p s of [] \<Rightarrow> [[c]] | w # ws \<Rightarrow> (c # w) # ws)"

lemma split_on_nonempty [simp]: "split_on p s \<noteq> []"
  by (cases s) (auto split: list.splits)

lemma split_on_no_sep: "w \<in> set (split_on p s) \<Longrightarrow> c \<in> set w \<Longrightarrow> \<not> p c"
proof (induction p s arbitrary: w c rule: split_on.induct)
  case (2 p d s)
  show ?case
  proof (cases "p d")
    case True
    with "2.prems" "2.IH"(1) show ?thesis by auto
  next
    case False
    obtain v vs where v: "split_on p s = v # vs"
      by (cases "split_on p s") auto
    have IH: "\<not> p e" if "u \<in> set (split_on p s)" "e \<in> set u" for u e
      using "2.IH"(2) [OF False] that by blast
    from v False "2.prems" consider "w = d # v" | "w \<in> set vs" by auto
    then show ?thesis
    proof cases
      case 1
      with "2.prems"(2) False IH [of v] v show ?thesis by auto
    next
      case 2
      with "2.prems"(2) IH [of w] v show ?thesis by simp
    qed
  qed
qed simp

subsection \<open>URL encoding\<close>

definition hex_digit :: "nat \<Rightarrow> char" where
  "hex_digit d = char_of (if d < 10 then 48 + d else 55 + d)"

definition percent :: "char \<Rightarrow> string" where
  "percent c = (let n = of_char c :: nat in [CHR ''%'', hex_digit (n div 16), hex_digit (n mod 16)])"

definition is_alnum :: "char \<Rightarrow> bool" where
  "is_alnum c = (let n = of_char c :: nat in
     (48 \<le> n \<and> n \<le> 57) \<or> (65 \<le> n \<and> n \<le> 90) \<or> (97 \<le> n \<and> n \<le> 122))"

definition is_unreserved :: "char \<Rightarrow> bool" where
  "is_unreserved c = (is_alnum c \<or> c \<in> set ''-_.!~*()'' \<or> c = CHR 0x27)"

definition uri_char :: "char \<Rightarrow> string" where
  "uri_char c = (if is_unreserved c then [c] else percent c)"

definition encodeURIComponent :: "string \<Rightarrow> string" where
  "encodeURIComponent s = concat (map uri_char s)"

text \<open>The \<open>application/x-www-form-urlencoded\<close> serialiser behind \<open>URLSearchParams.toString\<close>.\<close>

definition is_form_safe :: "char \<Rightarrow> bool" where
  "is_form_safe c = (is_alnum c \<or> c \<in> set ''*-._'')"

definition form_char :: "char \<Rightarrow> string" where
  "form_char c = (if c = CHR '' '' then ''+'' else if is_form_safe c then [c] else percent c)"

definition form_encode :: "string \<Rightarrow> string" where
  "form_encode s = concat (map form_char s)"

fun join :: "string \<Rightarrow> string list \<Rightarrow> string" where
  "join sep [] = []"
| "join sep [w] = w"
| "join sep (w # v # ws) = w @ sep @ join sep (v # ws)"

definition search_params :: "(string \<times> string) list \<Rightarrow> string" where
  "search_params kvs = join ''&'' (map (\<lambda>(k, v). form_encode k @ ''='' @ form_encode v) kvs)"

lemma hex_digit_inject: "a < 16 \<Longrightarrow> b < 16 \<Longrightarrow> hex_digit a = hex_digit b \<longleftrightarrow> a = b"
proof -
  assume "a < 16" "b < 16"
  then have "of_char (hex_digit a) = (if a < 10 then 48 + a else 55 + a)"
    and "of_char (hex_digit b) = (if b < 10 then 48 + b else 55 + b)"
    by (auto simp: hex_digit_def)
  then have "of_char (hex_digit a) = (of_char (hex_digit b) :: nat) \<longleftrightarrow> a = b"
    by (simp split: if_splits)
  then show ?thesis by simp
qed

lemma percent_inject: "percent c = percent d \<longleftrightarrow> c = d"
proof
  assume eq: "percent c = percent d"
  let ?n = "of_char c :: nat" and ?m = "of_char d :: nat"
  have "?n div 16 < 16" "?m div 16 < 16"
    using nat_of_char_less_256 [of c] nat_of_char_less_256 [of d] by linarith+
  then have "?n div 16 = ?m div 16" "?n mod 16 = ?m mod 16"
    using eq by (simp_all add: percent_def Let_def hex_digit_inject)
  then have "?n = ?m" by (metis div_mod_decomp)
  then show "c = d" by simp
qed simp

text \<open>
  A byte encoder whose codes tell the next byte apart, whatever follows, is injective on
  strings. The interface of both URL encoders.
\<close>

locale byte_code =
  fixes enc :: "char \<Rightarrow> string"
  assumes enc_next: "enc c @ x = enc d @ y \<Longrightarrow> c = d \<and> x = y"
    and enc_nonempty: "enc c \<noteq> []"
begin

lemma concat_inject: "concat (map enc s) = concat (map enc t) \<longleftrightarrow> s = t"
proof (induction s arbitrary: t)
  case Nil
  then show ?case by (cases t) (auto simp: enc_nonempty)
next
  case (Cons c s)
  then show ?case by (cases t) (auto simp: enc_nonempty dest: enc_next)
qed

end

lemma percent_next: "percent c @ x = percent d @ y \<Longrightarrow> c = d \<and> x = y"
proof -
  assume eq: "percent c @ x = percent d @ y"
  have "length (percent c) = length (percent d)" by (simp add: percent_def Let_def)
  with eq have "percent c = percent d" "x = y" by simp_all
  then show ?thesis by (simp add: percent_inject)
qed

lemma percent_neq: "c \<noteq> CHR ''%'' \<Longrightarrow> percent d @ y \<noteq> c # x"
  by (simp add: percent_def Let_def)

lemma percent_single [simp]: "[b] \<noteq> percent d" "percent d \<noteq> [b]"
  by (simp_all add: percent_def Let_def)

text \<open>Codes that are one byte other than the percent sign, or a percent escape.\<close>

lemma code_next:
  assumes eq: "enc c @ x = enc d @ y"
    and c: "enc c = percent c \<or> (\<exists>b. enc c = [b] \<and> b \<noteq> CHR ''%'')"
    and d: "enc d = percent d \<or> (\<exists>b. enc d = [b] \<and> b \<noteq> CHR ''%'')"
    and single: "enc c = enc d \<Longrightarrow> enc c \<noteq> percent c \<Longrightarrow> c = d"
  shows "c = d \<and> x = y"
proof (cases "enc c = percent c")
  case True
  have "enc d \<noteq> [b]" if "b \<noteq> CHR ''%''" for b
  proof
    assume "enc d = [b]"
    with eq True have "percent c @ x = b # y" by simp
    with percent_neq [OF that] show False by simp
  qed
  with d have "enc d = percent d" by blast
  with True eq show ?thesis by (simp add: percent_next)
next
  case False
  with c obtain b where b: "enc c = [b]" "b \<noteq> CHR ''%''" by blast
  have "enc d \<noteq> percent d"
  proof
    assume "enc d = percent d"
    with eq b have "percent d @ y = b # x" by simp
    with percent_neq [OF b(2)] show False by simp
  qed
  with d obtain b' where "enc d = [b']" by blast
  with b eq have "enc c = enc d" "x = y" by simp_all
  with single [OF _ False] show ?thesis by simp
qed

interpretation uri: byte_code uri_char
proof
  show "uri_char c @ x = uri_char d @ y \<Longrightarrow> c = d \<and> x = y" for c d x y
  proof -
    assume eq: "uri_char c @ x = uri_char d @ y"
    have "\<not> is_unreserved (CHR ''%'')" by (simp add: is_unreserved_def is_alnum_def)
    then have single: "uri_char c = percent c \<or> (\<exists>b. uri_char c = [b] \<and> b \<noteq> CHR ''%'')" for c
      by (auto simp: uri_char_def)
    show ?thesis
      by (rule code_next [OF eq single single]) (simp add: uri_char_def split: if_splits)
  qed
  show "uri_char c \<noteq> []" for c by (simp add: uri_char_def percent_def Let_def)
qed

interpretation form: byte_code form_char
proof
  show "form_char c @ x = form_char d @ y \<Longrightarrow> c = d \<and> x = y" for c d x y
  proof -
    assume eq: "form_char c @ x = form_char d @ y"
    have safe: "\<not> is_form_safe (CHR ''%'')" "\<not> is_form_safe (CHR ''+'')"
      by (simp_all add: is_form_safe_def is_alnum_def)
    have single: "form_char c = percent c \<or> (\<exists>b. form_char c = [b] \<and> b \<noteq> CHR ''%'')" for c
      using safe(1) by (auto simp: form_char_def)
    show ?thesis
    proof (rule code_next [OF eq single single])
      assume "form_char c = form_char d" "form_char c \<noteq> percent c"
      then show "c = d"
        using safe(2) by (auto simp: form_char_def split: if_splits)
    qed
  qed
  show "form_char c \<noteq> []" for c by (simp add: form_char_def percent_def Let_def)
qed

lemma encodeURIComponent_inject [simp]:
  "encodeURIComponent s = encodeURIComponent t \<longleftrightarrow> s = t"
  by (simp add: encodeURIComponent_def uri.concat_inject)

lemma form_encode_inject [simp]: "form_encode s = form_encode t \<longleftrightarrow> s = t"
  by (simp add: form_encode_def form.concat_inject)

text \<open>An encoded component holds none of the characters that delimit path segments and queries.\<close>

lemma hex_digit_alnum: "d < 16 \<Longrightarrow> is_alnum (hex_digit d)"
  by (auto simp: is_alnum_def hex_digit_def Let_def)

lemma percent_chars: "b \<in> set (percent c) \<Longrightarrow> b = CHR ''%'' \<or> is_alnum b"
proof -
  have "(of_char c :: nat) div 16 < 16"
    using nat_of_char_less_256 [of c] by linarith
  then show "b \<in> set (percent c) \<Longrightarrow> b = CHR ''%'' \<or> is_alnum b"
    by (auto simp: percent_def Let_def hex_digit_alnum)
qed

lemma uri_char_chars: "b \<in> set (uri_char c) \<Longrightarrow> b = CHR ''%'' \<or> is_unreserved b"
  using percent_chars [of b c]
  by (cases "is_unreserved c") (auto simp: uri_char_def is_unreserved_def [of b])

lemma uri_chars: "b \<in> set (encodeURIComponent s) \<Longrightarrow> b = CHR ''%'' \<or> is_unreserved b"
  unfolding encodeURIComponent_def by (auto dest!: uri_char_chars)

lemma encodeURIComponent_no_delim:
  "CHR ''/'' \<notin> set (encodeURIComponent s)" "CHR ''?'' \<notin> set (encodeURIComponent s)"
  using uri_chars [of "CHR ''/''" s] uri_chars [of "CHR ''?''" s]
  by (auto simp: is_unreserved_def is_alnum_def)

lemma encodeURIComponent_Nil_iff [simp]: "encodeURIComponent s = [] \<longleftrightarrow> s = []"
  by (cases s) (auto simp: encodeURIComponent_def uri.enc_nonempty)

lemma form_char_chars: "b \<in> set (form_char c) \<Longrightarrow> b = CHR ''%'' \<or> b = CHR ''+'' \<or> is_form_safe b"
proof -
  have "is_alnum b \<Longrightarrow> is_form_safe b" by (simp add: is_form_safe_def)
  then show "b \<in> set (form_char c) \<Longrightarrow> b = CHR ''%'' \<or> b = CHR ''+'' \<or> is_form_safe b"
    using percent_chars [of b c] by (auto simp: form_char_def split: if_splits)
qed

lemma form_encode_chars: "b \<in> set (form_encode s) \<Longrightarrow> b = CHR ''%'' \<or> b = CHR ''+'' \<or> is_form_safe b"
  unfolding form_encode_def by (auto dest!: form_char_chars)

lemma form_encode_no_delim: "CHR ''&'' \<notin> set (form_encode s)" "CHR ''='' \<notin> set (form_encode s)"
  using form_encode_chars [of "CHR ''&''" s] form_encode_chars [of "CHR ''=''" s]
  by (auto simp: is_form_safe_def is_alnum_def)

text \<open>Texts joined by a delimiter that occurs in none of them can be told apart.\<close>

lemma delim_split:
  "d \<notin> set x \<Longrightarrow> d \<notin> set y \<Longrightarrow> x @ d # r = y @ d # s \<longleftrightarrow> x = y \<and> r = s"
proof (induction x arbitrary: y)
  case Nil
  then show ?case by (cases y) auto
next
  case (Cons c x)
  then show ?case by (cases y) auto
qed

lemma delim_end: "d \<notin> set x \<Longrightarrow> x \<noteq> y @ d # s" "d \<notin> set x \<Longrightarrow> y @ d # s \<noteq> x"
  by auto

lemma join_inject:
  "(\<forall>w \<in> set ws. w \<noteq> [] \<and> d \<notin> set w) \<Longrightarrow> (\<forall>w \<in> set vs. w \<noteq> [] \<and> d \<notin> set w) \<Longrightarrow>
   join [d] ws = join [d] vs \<longleftrightarrow> ws = vs"
proof (induction "[d]" ws arbitrary: vs rule: join.induct)
  case 1
  then show ?case by (cases "([d], vs)" rule: join.cases) auto
next
  case (2 w)
  then show ?case by (cases "([d], vs)" rule: join.cases) (auto dest: delim_end)
next
  case (3 w v ws)
  show ?case
  proof (cases "([d], vs)" rule: join.cases)
    case (3 sep w' v' ws')
    then show ?thesis using "3.hyps" "3.prems" by (auto simp: delim_split)
  qed (use 3 in \<open>auto dest: delim_end\<close>)
qed

lemma search_params_inject: "search_params kvs = search_params kvs' \<longleftrightarrow> kvs = kvs'"
proof -
  let ?f = "\<lambda>(k, v). form_encode k @ ''='' @ form_encode v"
  have pair: "?f p = ?f q \<longleftrightarrow> p = q" for p q
    using form_encode_no_delim by (auto simp: delim_split split: prod.splits)
  have "\<forall>w \<in> set (map ?f kvs). w \<noteq> [] \<and> CHR ''&'' \<notin> set w" for kvs
    using form_encode_no_delim by auto
  from join_inject [OF this this] have "search_params kvs = search_params kvs' \<longleftrightarrow> map ?f kvs = map ?f kvs'"
    by (simp add: search_params_def)
  also have "\<dots> \<longleftrightarrow> kvs = kvs'"
    using pair by (intro inj_map_eq_map) (simp add: inj_def)
  finally show ?thesis .
qed

lemma search_params_Nil_iff: "search_params kvs = [] \<longleftrightarrow> kvs = []"
  using search_params_inject [of kvs "[]"] by (simp add: search_params_def)

end
