(* ===== verification/Js_Json.thy ===== *)
theory Js_Json
  imports Js_Text
begin

section \<open>JSON: \<open>JSON.stringify\<close> and \<open>JSON.parse\<close>\<close>

text \<open>
  The two JSON functions of the language, which the session store, the settings store, the
  request bodies and the JSON validator rest on. The parser is the grammar of RFC 8259 by
  recursive descent over the bytes, with fuel; \<open>json_value_fuel\<close> shows that twice the length of the
  text is enough fuel, so \<open>None\<close> always means a syntax error. A number literal with a fraction or
  an exponent is kept as its text (\<open>JDec\<close>). Objects are association lists in insertion order,
  and a repeated key overwrites the earlier value in place.
\<close>

datatype json =
    JNull
  | JBool bool
  | JNum int
  | JDec string
  | JStr string
  | JArr "json list"
  | JObj "(string \<times> json) list"

subsection \<open>Printing\<close>

definition lower_hex :: "nat \<Rightarrow> char" where
  "lower_hex d = char_of (if d < 10 then 48 + d else 87 + d)"

definition short_escapes :: "(char \<times> char) list" where
  "short_escapes = [(CHR 0x22, CHR 0x22), (CHR 0x5C, CHR 0x5C), (CHR 0x08, CHR ''b''),
     (CHR 0x0C, CHR ''f''), (CHR 0x0A, CHR ''n''), (CHR 0x0D, CHR ''r''), (CHR 0x09, CHR ''t'')]"

definition escape_char :: "char \<Rightarrow> string" where
  "escape_char c = (case map_of short_escapes c of
       Some e \<Rightarrow> [CHR 0x5C, e]
     | None \<Rightarrow> (let n = of_char c :: nat in
         if n < 32 then [CHR 0x5C, CHR ''u'', CHR ''0'', CHR ''0'', lower_hex (n div 16), lower_hex (n mod 16)]
         else [c]))"

definition quote :: "string \<Rightarrow> string" where
  "quote s = CHR 0x22 # concat (map escape_char s) @ [CHR 0x22]"

fun json_stringify :: "json \<Rightarrow> string"
  and stringify_elems :: "json list \<Rightarrow> string"
  and stringify_members :: "(string \<times> json) list \<Rightarrow> string" where
  "json_stringify JNull = ''null''"
| "json_stringify (JBool b) = (if b then ''true'' else ''false'')"
| "json_stringify (JNum n) = int_str n"
| "json_stringify (JDec s) = s"
| "json_stringify (JStr s) = quote s"
| "json_stringify (JArr vs) = CHR ''['' # stringify_elems vs"
| "json_stringify (JObj kvs) = CHR ''{'' # stringify_members kvs"
| "stringify_elems [] = '']''"
| "stringify_elems (v # vs) = json_stringify v @ (if vs = [] then '']'' else CHR '','' # stringify_elems vs)"
| "stringify_members [] = ''}''"
| "stringify_members ((k, v) # kvs) =
     quote k @ CHR '':'' # json_stringify v @ (if kvs = [] then ''}'' else CHR '','' # stringify_members kvs)"

subsection \<open>Parsing\<close>

definition is_jws :: "char \<Rightarrow> bool" where
  "is_jws c = (c = CHR '' '' \<or> c = CHR 0x09 \<or> c = CHR 0x0A \<or> c = CHR 0x0D)"

definition skip_ws :: "string \<Rightarrow> string" where
  "skip_ws s = dropWhile is_jws s"

definition hex_value :: "char \<Rightarrow> nat option" where
  "hex_value c = (let n = of_char c :: nat in
     if 48 \<le> n \<and> n \<le> 57 then Some (n - 48)
     else if 65 \<le> n \<and> n \<le> 70 then Some (n - 55)
     else if 97 \<le> n \<and> n \<le> 102 then Some (n - 87) else None)"

text \<open>The body of a string literal: plain bytes and the UTF-16 code units of \<open>\u\<close> escapes.\<close>

datatype str_item = Byte char | CodeUnit nat

fun json_string :: "string \<Rightarrow> (str_item list \<times> string) option" where
  "json_string [] = None"
| "json_string (c # s) =
     (if c = CHR 0x22 then Some ([], s)
      else if c = CHR 0x5C then
        (case s of
           [] \<Rightarrow> None
         | e # s' \<Rightarrow>
             if e = CHR ''u'' then
               (case s' of
                  a # b # c' # d # s'' \<Rightarrow>
                    (case (hex_value a, hex_value b, hex_value c', hex_value d) of
                       (Some w, Some x, Some y, Some z) \<Rightarrow>
                         map_option (apfst ((#) (CodeUnit (((w * 16 + x) * 16 + y) * 16 + z)))) (json_string s'')
                     | _ \<Rightarrow> None)
                | _ \<Rightarrow> None)
             else if e = CHR ''/'' then map_option (apfst ((#) (Byte e))) (json_string s')
             else (case map_of (map prod.swap short_escapes) e of
                     Some b \<Rightarrow> map_option (apfst ((#) (Byte b))) (json_string s')
                   | None \<Rightarrow> None))
      else if (of_char c :: nat) < 32 then None
      else map_option (apfst ((#) (Byte c))) (json_string s))"

definition utf8_of :: "nat \<Rightarrow> string" where
  "utf8_of n = map char_of
     (if n < 128 then [n]
      else if n < 2048 then [192 + n div 64, 128 + n mod 64]
      else if n < 65536 then [224 + n div 4096, 128 + n div 64 mod 64, 128 + n mod 64]
      else [240 + n div 262144, 128 + n div 4096 mod 64, 128 + n div 64 mod 64, 128 + n mod 64])"

fun items_text :: "str_item list \<Rightarrow> string" where
  "items_text [] = []"
| "items_text (Byte c # is) = c # items_text is"
| "items_text (CodeUnit u # CodeUnit v # is) =
     (if 55296 \<le> u \<and> u \<le> 56319 \<and> 56320 \<le> v \<and> v \<le> 57343
      then utf8_of (65536 + (u - 55296) * 1024 + (v - 56320)) @ items_text is
      else utf8_of u @ items_text (CodeUnit v # is))"
| "items_text (CodeUnit u # is) = utf8_of u @ items_text is"

definition json_frac :: "string \<Rightarrow> (string \<times> string) option" where
  \<comment> \<open>an optional fraction: its text and the rest\<close>
  "json_frac s = (case s of [] \<Rightarrow> Some ([], [])
     | c # r \<Rightarrow> if c \<noteq> CHR ''.'' then Some ([], s)
         else if takeWhile is_digit r = [] then None
         else Some (c # takeWhile is_digit r, dropWhile is_digit r))"

definition json_sign :: "string \<Rightarrow> string" where
  "json_sign s = (case s of [] \<Rightarrow> [] | c # _ \<Rightarrow> if c = CHR ''+'' \<or> c = CHR ''-'' then [c] else [])"

definition json_exp :: "string \<Rightarrow> (string \<times> string) option" where
  \<comment> \<open>an optional exponent\<close>
  "json_exp s = (case s of [] \<Rightarrow> Some ([], [])
     | e # r \<Rightarrow> if e \<noteq> CHR ''e'' \<and> e \<noteq> CHR ''E'' then Some ([], s)
         else let ds = drop (length (json_sign r)) r in
           if takeWhile is_digit ds = [] then None
           else Some (e # json_sign r @ takeWhile is_digit ds, dropWhile is_digit ds))"

definition json_fraction :: "string \<Rightarrow> (string \<times> string) option" where
  "json_fraction s = (case json_frac s of None \<Rightarrow> None
     | Some (f, r) \<Rightarrow> map_option (apfst ((@) f)) (json_exp r))"

definition int_digits :: "string \<Rightarrow> string" where
  \<comment> \<open>\<open>0\<close>, or a digit other than 0 and all that follow\<close>
  "int_digits u = (case u of [] \<Rightarrow> []
     | c # _ \<Rightarrow> if c = CHR ''0'' then [c] else takeWhile is_digit u)"

definition json_number :: "string \<Rightarrow> (json \<times> string) option" where
  "json_number s =
     (let neg = (case s of c # _ \<Rightarrow> c = CHR ''-'' | [] \<Rightarrow> False);
          u = (if neg then tl s else s);
          ds = int_digits u;
          r = drop (length ds) u;
          i = (if neg then - int (digits_nat ds) else int (digits_nat ds))
      in if ds = [] then None
         else case json_fraction r of None \<Rightarrow> None
              | Some (f, r') \<Rightarrow>
                  if f = [] then Some (JNum i, r')
                  else Some (JDec ((if neg then ''-'' else []) @ ds @ f), r'))"

fun upsert :: "'k \<Rightarrow> 'v \<Rightarrow> ('k \<times> 'v) list \<Rightarrow> ('k \<times> 'v) list" where
  "upsert k v [] = [(k, v)]"
| "upsert k v ((k', v') # kvs) = (if k = k' then (k, v) # kvs else (k', v') # upsert k v kvs)"

definition jobj_of :: "(string \<times> json) list \<Rightarrow> json" where
  "jobj_of kvs = JObj (foldl (\<lambda>acc (k, v). upsert k v acc) [] kvs)"

fun json_value :: "nat \<Rightarrow> string \<Rightarrow> (json \<times> string) option"
  and json_elems :: "nat \<Rightarrow> string \<Rightarrow> (json list \<times> string) option"
  and json_members :: "nat \<Rightarrow> string \<Rightarrow> ((string \<times> json) list \<times> string) option" where
  "json_value 0 s = None"
| "json_value (Suc n) s =
     (case skip_ws s of
        [] \<Rightarrow> None
      | c # r \<Rightarrow>
          if c = CHR ''['' then
            (case skip_ws r of
               [] \<Rightarrow> None
             | d # r' \<Rightarrow> if d = CHR '']'' then Some (JArr [], r')
                         else map_option (apfst JArr) (json_elems n r))
          else if c = CHR ''{'' then
            (case skip_ws r of
               [] \<Rightarrow> None
             | d # r' \<Rightarrow> if d = CHR ''}'' then Some (JObj [], r')
                         else map_option (apfst jobj_of) (json_members n r))
          else if c = CHR 0x22 then map_option (apfst (\<lambda>is. JStr (items_text is))) (json_string r)
          else if js_startsWith (c # r) ''true'' then Some (JBool True, drop 4 (c # r))
          else if js_startsWith (c # r) ''false'' then Some (JBool False, drop 5 (c # r))
          else if js_startsWith (c # r) ''null'' then Some (JNull, drop 4 (c # r))
          else json_number (c # r))"
| "json_elems 0 s = None"
| "json_elems (Suc n) s =
     (case json_value n s of
        None \<Rightarrow> None
      | Some (v, r) \<Rightarrow>
          (case skip_ws r of
             [] \<Rightarrow> None
           | d # r' \<Rightarrow> if d = CHR '']'' then Some ([v], r')
                       else if d = CHR '','' then map_option (apfst ((#) v)) (json_elems n r')
                       else None))"
| "json_members 0 s = None"
| "json_members (Suc n) s =
     (case skip_ws s of
        [] \<Rightarrow> None
      | c # q \<Rightarrow>
          if c \<noteq> CHR 0x22 then None
          else (case json_string q of
             None \<Rightarrow> None
           | Some (k, q') \<Rightarrow>
               (case skip_ws q' of
                  [] \<Rightarrow> None
                | d # q'' \<Rightarrow>
                    if d \<noteq> CHR '':'' then None
                    else (case json_value n q'' of
                       None \<Rightarrow> None
                     | Some (v, r) \<Rightarrow>
                         (case skip_ws r of
                            [] \<Rightarrow> None
                          | e # r' \<Rightarrow>
                              if e = CHR ''}'' then Some ([(items_text k, v)], r')
                              else if e = CHR '','' then
                                map_option (apfst ((#) (items_text k, v))) (json_members n r')
                              else None)))))"

definition json_parse :: "string \<Rightarrow> json option" where
  "json_parse s = (case json_value (2 * length s + 2) s of
       Some (v, r) \<Rightarrow> if skip_ws r = [] then Some v else None
     | None \<Rightarrow> None)"

subsection \<open>The parser consumes its input and has enough fuel\<close>

lemma skip_ws_length: "length (skip_ws s) \<le> length s"
  by (simp add: skip_ws_def length_dropWhile_le)

lemma skip_ws_Cons_length: "skip_ws s = c # r \<Longrightarrow> length r < length s"
  using skip_ws_length [of s] by simp

lemma json_string_length: "json_string s = Some (is, r) \<Longrightarrow> length r < length s"
proof (induction s arbitrary: "is" r rule: json_string.induct)
  case (2 c s)
  then show ?case
    by (fastforce split: if_splits list.splits option.splits prod.splits)
qed simp

lemma json_frac_length: "json_frac s = Some (f, r) \<Longrightarrow> length r \<le> length s"
  using length_dropWhile_le [of is_digit "tl s"]
  by (cases s) (auto simp: json_frac_def split: if_splits)

lemma json_exp_length: "json_exp s = Some (f, r) \<Longrightarrow> length r \<le> length s"
proof -
  have "length (dropWhile is_digit (drop n t)) \<le> length t" for n t
    using length_dropWhile_le [of is_digit "drop n t"] by simp
  then show "json_exp s = Some (f, r) \<Longrightarrow> length r \<le> length s"
    by (cases s) (auto simp: json_exp_def Let_def le_SucI split: if_splits)
qed

lemma json_fraction_length: "json_fraction s = Some (f, r) \<Longrightarrow> length r \<le> length s"
  by (fastforce simp: json_fraction_def split: option.splits dest: json_frac_length json_exp_length)

lemma json_number_length: "json_number s = Some (v, r) \<Longrightarrow> length r < length s"
proof -
  assume a: "json_number s = Some (v, r)"
  define u where "u = (if (case s of c # _ \<Rightarrow> c = CHR ''-'' | [] \<Rightarrow> False) then tl s else s)"
  define ds where "ds = int_digits u"
  from a have ds: "ds \<noteq> []" and "\<exists>f. json_fraction (drop (length ds) u) = Some (f, r)"
    unfolding json_number_def Let_def u_def ds_def by (auto split: if_splits option.splits)
  then have "length r \<le> length u - length ds"
    using json_fraction_length by fastforce
  moreover from ds have "u \<noteq> []" by (auto simp: ds_def int_digits_def)
  moreover have "length u \<le> length s" by (simp add: u_def)
  ultimately show ?thesis using ds by (cases u; cases ds) auto
qed

lemma json_lengths:
  "json_value n s = Some (v, r) \<Longrightarrow> length r < length s"
  "json_elems n s = Some (vs, r) \<Longrightarrow> length r < length s"
  "json_members n s = Some (kvs, r) \<Longrightarrow> length r < length s"
proof (induction n s and n s and n s arbitrary: v r and vs r and kvs r
    rule: json_value_json_elems_json_members.induct)
  case (2 n s)
  from "2.prems" obtain c q where q: "skip_ws s = c # q" "length q < length s"
    using skip_ws_Cons_length by (auto split: list.splits)
  have lit: "length (drop 4 (c # q)) < length s" "length (drop 5 (c # q)) < length s"
    using q by simp_all
  show ?case
    using "2.prems" "2.IH"(1) [OF q(1)] "2.IH"(2) [OF q(1)] q lit skip_ws_Cons_length [of q]
      json_string_length [of q] json_number_length [of "c # q"] skip_ws_length [of s]
    by (fastforce split: if_splits list.splits)
next
  case (4 n s)
  then show ?case
    by (fastforce split: if_splits list.splits option.splits prod.splits dest: skip_ws_Cons_length)
next
  case (6 n s)
  then show ?case
    by (fastforce split: if_splits list.splits option.splits prod.splits
        dest!: skip_ws_Cons_length json_string_length)
qed simp_all

text \<open>More fuel than twice the length never changes a result.\<close>

lemma json_value_fuel:
  "2 * length s < n \<Longrightarrow> 2 * length s < m \<Longrightarrow> json_value n s = json_value m s"
  "2 * length s + 1 < n \<Longrightarrow> 2 * length s + 1 < m \<Longrightarrow> json_elems n s = json_elems m s"
  "2 * length s < n \<Longrightarrow> 2 * length s < m \<Longrightarrow> json_members n s = json_members m s"
proof (induction n arbitrary: s m)
  case (Suc n)
  {
    case 1
    then obtain m' where m: "m = Suc m'" by (cases m) auto
    have "json_elems n q = json_elems m' q" "json_members n q = json_members m' q"
      if "skip_ws s = c # q" for c q
      using Suc.IH(2,3) [of q m'] skip_ws_Cons_length [OF that] 1 m by auto
    then show ?case by (simp add: m split: list.split)
  next
    case 2
    then obtain m' where m: "m = Suc m'" by (cases m) auto
    have v: "json_value n s = json_value m' s"
      using Suc.IH(1) [of s m'] 2 m by auto
    have "json_elems n q = json_elems m' q"
      if "json_value m' s = Some (v, r)" "skip_ws r = c # q" for v r c q
      using Suc.IH(2) [of q m'] json_lengths(1) [OF that(1)] skip_ws_Cons_length [OF that(2)] 2 m
      by auto
    then show ?case by (simp add: m v split: list.split option.split)
  next
    case 3
    then obtain m' where m: "m = Suc m'" by (cases m) auto
    have v: "json_value n q'' = json_value m' q''"
      and e: "json_value m' q'' = Some (v, r) \<Longrightarrow> skip_ws r = e # r' \<Longrightarrow> json_members n r' = json_members m' r'"
      if "skip_ws s = c # q" "json_string q = Some (k, q')" "skip_ws q' = d # q''"
      for c q k q' d q'' v r e r'
    proof -
      have l: "length q'' < length s"
        using skip_ws_Cons_length [OF that(1)] json_string_length [OF that(2)]
          skip_ws_Cons_length [OF that(3)] by simp
      then show "json_value n q'' = json_value m' q''"
        using Suc.IH(1) [of q'' m'] 3 m by auto
      show "json_value m' q'' = Some (v, r) \<Longrightarrow> skip_ws r = e # r' \<Longrightarrow> json_members n r' = json_members m' r'"
        using Suc.IH(3) [of r' m'] json_lengths(1) [of m' q'' v r] skip_ws_Cons_length [of r e r'] l 3 m
        by auto
    qed
    show ?case
      by (auto simp: m v e split: list.split option.split)
  }
qed simp_all

lemma map_of_upsert: "map_of (upsert k v kvs) = (map_of kvs)(k \<mapsto> v)"
  by (induction kvs) auto

lemma map_fst_upsert:
  "map fst (upsert k v kvs) = (if k \<in> set (map fst kvs) then map fst kvs else map fst kvs @ [k])"
  by (induction k v kvs rule: upsert.induct) auto

lemma distinct_upsert: "distinct (map fst kvs) \<Longrightarrow> distinct (map fst (upsert k v kvs))"
  by (simp add: map_fst_upsert)

subsection \<open>Printing and parsing are inverse\<close>

definition char_item :: "char \<Rightarrow> str_item" where
  "char_item c = (if map_of short_escapes c = None \<and> (of_char c :: nat) < 32
     then CodeUnit (of_char c) else Byte c)"

lemma hex_value_lower_hex: "d < 16 \<Longrightarrow> hex_value (lower_hex d) = Some d"
  by (auto simp: hex_value_def lower_hex_def)

lemma short_escapes_swap:
  "map_of short_escapes c = Some e \<Longrightarrow>
   e \<noteq> CHR ''u'' \<and> e \<noteq> CHR ''/'' \<and> map_of (map prod.swap short_escapes) e = Some c"
  by (auto simp: short_escapes_def split: if_splits)

lemma json_string_escape:
  "json_string (escape_char c @ s) = map_option (apfst ((#) (char_item c))) (json_string s)"
proof (cases "map_of short_escapes c")
  case None
  then have nq: "c \<noteq> CHR 0x22" "c \<noteq> CHR 0x5C" by (auto simp: short_escapes_def)
  let ?n = "of_char c :: nat"
  have hd: "?n mod 16 < 16" "?n < 32 \<Longrightarrow> ?n div 16 < 16" by auto
  have z: "hex_value (CHR ''0'') = Some 0" by (simp add: hex_value_def)
  show ?thesis
  proof (cases "?n < 32")
    case True
    then have "escape_char c = [CHR 0x5C, CHR ''u'', CHR ''0'', CHR ''0'', lower_hex (?n div 16), lower_hex (?n mod 16)]"
      using None by (simp add: escape_char_def Let_def)
    moreover have "?n div 16 * 16 + ?n mod 16 = ?n" by simp
    ultimately show ?thesis
      using True None hd by (simp add: hex_value_lower_hex z char_item_def)
  next
    case False
    with None nq show ?thesis by (simp add: escape_char_def char_item_def)
  qed
next
  case (Some e)
  with short_escapes_swap [OF Some] show ?thesis
    by (simp add: escape_char_def char_item_def)
qed

lemma json_string_quote:
  "json_string (concat (map escape_char s) @ CHR 0x22 # r) = Some (map char_item s, r)"
  by (induction s) (simp_all add: json_string_escape)

lemma items_text_char_item [simp]: "items_text (map char_item s) = s"
proof -
  have u: "utf8_of (of_char c) = [c]" if "(of_char c :: nat) < 32" for c
    using that by (simp add: utf8_of_def)
  show ?thesis
  proof (induction s rule: induct_list012)
    case (2 c)
    then show ?case by (simp add: char_item_def u)
  next
    case (3 c d s)
    then show ?case by (cases "char_item d") (auto simp: char_item_def u split: if_splits)
  qed simp
qed

text \<open>Values \<open>JSON.stringify\<close> prints and \<open>JSON.parse\<close> reads back: no literal decimals, and no
  repeated key in an object.\<close>

fun json_wf :: "json \<Rightarrow> bool" where
  "json_wf (JDec s) = False"
| "json_wf (JArr vs) = (\<forall>v \<in> set vs. json_wf v)"
| "json_wf (JObj kvs) = (distinct (map fst kvs) \<and> (\<forall>kv \<in> set kvs. json_wf (snd kv)))"
| "json_wf v = True"

lemma upsert_new: "k \<notin> set (map fst kvs) \<Longrightarrow> upsert k v kvs = kvs @ [(k, v)]"
  by (induction kvs) auto

lemma jobj_of_distinct: "distinct (map fst kvs) \<Longrightarrow> jobj_of kvs = JObj kvs"
proof -
  have "distinct (map fst (acc @ kvs)) \<Longrightarrow>
    foldl (\<lambda>acc (k, v). upsert k v acc) acc kvs = acc @ kvs" for acc
    by (induction kvs arbitrary: acc) (auto simp: upsert_new)
  from this [of "[]"] show "distinct (map fst kvs) \<Longrightarrow> jobj_of kvs = JObj kvs"
    by (simp add: jobj_of_def)
qed

definition value_end :: "string \<Rightarrow> bool" where
  \<comment> \<open>what may follow a value: nothing that would extend a number\<close>
  "value_end r = (case r of [] \<Rightarrow> True
     | c # _ \<Rightarrow> \<not> is_digit c \<and> c \<noteq> CHR ''.'' \<and> c \<noteq> CHR ''e'' \<and> c \<noteq> CHR ''E'')"

lemma takeWhile_digits:
  assumes "\<forall>c \<in> set ds. is_digit c" and "value_end r"
  shows "takeWhile is_digit (ds @ r) = ds" "dropWhile is_digit (ds @ r) = r"
  using assms by (auto simp: takeWhile_append dropWhile_append value_end_def takeWhile_eq_Nil_iff
      dropWhile_eq_self_iff split: list.splits)

lemma json_fraction_end: "value_end r \<Longrightarrow> json_fraction r = Some ([], r)"
  by (cases r) (auto simp: json_fraction_def json_frac_def json_exp_def value_end_def)

lemma nat_str_zero: "hd (nat_str n) = CHR ''0'' \<longleftrightarrow> n = 0"
proof (induction n rule: nat_str.induct)
  case (1 n)
  have z: "digit_char d = CHR ''0'' \<longleftrightarrow> d = 0" if "d < 10" for d
  proof -
    have "digit_char d = CHR ''0'' \<longleftrightarrow> of_char (digit_char d) = (of_char (CHR ''0'') :: nat)"
      by (simp only: of_char_eq_iff)
    with of_digit_char [OF that] show ?thesis by simp
  qed
  show ?case
  proof (cases "n < 10")
    case True
    then show ?thesis by (simp add: nat_str.simps [of n] z)
  next
    case False
    with 1 show ?thesis by (simp add: nat_str.simps [of n])
  qed
qed

lemma json_number_int: "value_end r \<Longrightarrow> json_number (int_str i @ r) = Some (JNum i, r)"
proof -
  assume e: "value_end r"
  have u: "int_digits (nat_str k @ r) = nat_str k" for k
  proof (cases "k = 0")
    case True
    then have "nat_str k = [digit_char 0]" by (simp add: nat_str.simps [of 0])
    moreover have "digit_char 0 = CHR ''0''"
      using nat_str_zero [of 0] by (simp add: nat_str.simps [of 0])
    ultimately show ?thesis by (simp add: int_digits_def)
  next
    case False
    then show ?thesis
      using nat_str_zero [of k] takeWhile_digits(1) [OF nat_str_digits e, of k]
      by (cases "nat_str k") (auto simp: int_digits_def)
  qed
  have h: "nat_str k @ r = c # x \<Longrightarrow> c \<noteq> CHR ''-''" for k c x
    using hd_nat_str_digit [of k] by (cases "nat_str k") auto
  show ?thesis
  proof (cases "i < 0")
    case True
    then show ?thesis
      using u [of "nat (- i)"] by (simp add: json_number_def int_str_def Let_def json_fraction_end [OF e])
  next
    case False
    have "\<not> (case nat_str (nat i) @ r of [] \<Rightarrow> False | c # _ \<Rightarrow> c = CHR ''-'')"
      using h [of "nat i"] by (simp split: list.split)
    with False show ?thesis
      using u [of "nat i"] by (simp add: json_number_def int_str_def Let_def json_fraction_end [OF e])
  qed
qed

definition value_start :: "char \<Rightarrow> bool" where
  "value_start c = (is_digit c \<or> c \<in> {CHR ''-'', CHR ''n'', CHR ''t'', CHR ''f'', CHR 0x22, CHR ''['', CHR ''{''})"

lemma value_start_simps [simp]:
  "value_start c \<Longrightarrow> \<not> is_jws c" "value_start c \<Longrightarrow> c \<noteq> CHR '']''" "value_start c \<Longrightarrow> c \<noteq> CHR ''}''"
  by (auto simp: value_start_def is_jws_def is_digit_def)

lemma stringify_start: "json_wf v \<Longrightarrow> \<exists>c s. json_stringify v = c # s \<and> value_start c"
proof (cases v)
  case (JNum i)
  then show ?thesis
    using hd_nat_str_digit [of "nat i"]
    by (cases "nat_str (nat i)") (auto simp: value_start_def int_str_def)
qed (auto simp: value_start_def quote_def)

lemma stringify_skip:
  assumes "json_wf v"
  shows "\<exists>c s. skip_ws (json_stringify v @ r) = c # s @ r \<and> json_stringify v = c # s \<and> value_start c"
  using stringify_start [OF assms] by (auto simp: skip_ws_def)

lemma skip_ws_simps [simp]:
  "skip_ws (CHR '']'' # r) = CHR '']'' # r" "skip_ws (CHR ''}'' # r) = CHR ''}'' # r"
  "skip_ws (CHR '','' # r) = CHR '','' # r" "skip_ws (CHR '':'' # r) = CHR '':'' # r"
  "skip_ws (CHR 0x22 # r) = CHR 0x22 # r" "skip_ws [] = []"
  by (simp_all add: skip_ws_def is_jws_def)

lemma value_end_simps [simp]:
  "value_end (CHR '']'' # r)" "value_end (CHR ''}'' # r)" "value_end (CHR '','' # r)" "value_end []"
  by (simp_all add: value_end_def is_digit_def)

lemma skip_ws_stringify_num: "skip_ws (int_str i @ r) = int_str i @ r"
  using stringify_skip [of "JNum i" r] by auto

lemma json_value_num:
  "value_end r \<Longrightarrow> json_value (Suc n) (int_str i @ r) = Some (JNum i, r)"
proof -
  assume e: "value_end r"
  obtain c s where c: "int_str i = c # s" "is_digit c \<or> c = CHR ''-''"
    using hd_nat_str_digit [of "nat i"]
    by (cases "nat_str (nat i)"; cases "i < 0") (simp_all add: int_str_def)
  then have "\<not> js_startsWith (c # s @ r) ''true''" "\<not> js_startsWith (c # s @ r) ''false''"
    "\<not> js_startsWith (c # s @ r) ''null''" "c \<noteq> CHR ''[''" "c \<noteq> CHR ''{''" "c \<noteq> CHR 0x22"
    by (auto simp: js_startsWith_def is_digit_def)
  moreover have "skip_ws (c # s @ r) = c # s @ r"
    using skip_ws_stringify_num [of i r] c(1) by simp
  ultimately show ?thesis
    using json_number_int [OF e, of i] c(1) by simp
qed

lemma json_roundtrip_aux:
  "json_wf v \<Longrightarrow> value_end r \<Longrightarrow> 2 * length (json_stringify v) \<le> n \<Longrightarrow>
     json_value n (json_stringify v @ r) = Some (v, r)"
  "\<forall>v \<in> set vs. json_wf v \<Longrightarrow> vs \<noteq> [] \<Longrightarrow> 2 * length (stringify_elems vs) \<le> n \<Longrightarrow>
     json_elems n (stringify_elems vs @ r) = Some (vs, r)"
  "\<forall>kv \<in> set kvs. json_wf (snd kv) \<Longrightarrow> kvs \<noteq> [] \<Longrightarrow> 2 * length (stringify_members kvs) \<le> n \<Longrightarrow>
     json_members n (stringify_members kvs @ r) = Some (kvs, r)"
proof (induction v and vs and kvs arbitrary: n r and n r and n r
    rule: json_stringify_stringify_elems_stringify_members.induct)
  case 1
  then show ?case by (cases n) (simp_all add: skip_ws_def is_jws_def js_startsWith_def)
next
  case (2 b)
  then show ?case by (cases n; cases b) (simp_all add: skip_ws_def is_jws_def js_startsWith_def)
next
  case (3 i)
  then obtain m where "n = Suc m"
    using int_str_nonempty [of i] by (cases n) auto
  with 3 show ?case by (simp only: json_stringify.simps json_value_num)
next
  case (5 s)
  then show ?case by (cases n) (simp_all add: quote_def json_string_quote)
next
  case (6 vs)
  then obtain m where n: "n = Suc m" by (cases n) auto
  have b: "skip_ws (CHR ''['' # x) = CHR ''['' # x" for x by (simp add: skip_ws_def is_jws_def)
  show ?case
  proof (cases vs)
    case Nil
    then show ?thesis by (simp add: n b)
  next
    case (Cons v ws)
    with "6.prems" have "json_wf v" by simp
    from stringify_skip [OF this, of "(if ws = [] then '']'' else CHR '','' # stringify_elems ws) @ r"] Cons
    obtain c s where c: "skip_ws (stringify_elems vs @ r) = c # s" "c \<noteq> CHR '']''"
      by auto
    have "json_elems m (stringify_elems vs @ r) = Some (vs, r)"
      using "6.IH" [of m r] "6.prems" Cons n by simp
    with c show ?thesis by (simp add: n b)
  qed
next
  case (7 kvs)
  then obtain m where n: "n = Suc m" by (cases n) auto
  have b: "skip_ws (CHR ''{'' # x) = CHR ''{'' # x" for x by (simp add: skip_ws_def is_jws_def)
  show ?case
  proof (cases kvs)
    case Nil
    then show ?thesis by (simp add: n b)
  next
    case (Cons kv ws)
    then have c: "\<exists>s. skip_ws (stringify_members kvs @ r) = CHR 0x22 # s"
      by (cases kv) (simp add: quote_def)
    have "json_members m (stringify_members kvs @ r) = Some (kvs, r)"
      using "7.IH" [of m r] "7.prems" Cons n by simp
    with c "7.prems" show ?thesis by (auto simp: n b jobj_of_distinct)
  qed
next
  case (9 v vs)
  then obtain m where n: "n = Suc m" by (cases n) (auto split: if_splits)
  show ?case
  proof (cases "vs = []")
    case True
    with 9 n show ?thesis by simp
  next
    case False
    then have "json_value m (json_stringify v @ CHR '','' # stringify_elems vs @ r) = Some (v, CHR '','' # stringify_elems vs @ r)"
      using 9 n by simp
    moreover have "json_elems m (stringify_elems vs @ r) = Some (vs, r)"
      using 9 n False by simp
    ultimately show ?thesis using False n by simp
  qed
next
  case (11 k v kvs)
  then obtain m where n: "n = Suc m" by (cases n) auto
  have v: "json_value m (json_stringify v @ t) = Some (v, t)" if "value_end t" for t
    using "11.IH"(1) [OF _ that] "11.prems" n by simp
  show ?case
  proof (cases "kvs = []")
    case True
    with v show ?thesis by (simp add: n quote_def json_string_quote)
  next
    case False
    moreover have "json_members m (stringify_members kvs @ r) = Some (kvs, r)"
      using "11.IH"(2) "11.prems" n False by simp
    ultimately show ?thesis using v by (simp add: n quote_def json_string_quote)
  qed
qed simp_all

lemma json_parse_stringify: "json_wf v \<Longrightarrow> json_parse (json_stringify v) = Some v"
  using json_roundtrip_aux(1) [of v "[]" "2 * length (json_stringify v) + 2"]
  by (simp add: json_parse_def)

end
