(* ===== verification/Domain_Types.thy ===== *)
theory Domain_Types
  imports Prelude
begin

section \<open>The data model: \<open>domain/types.ts\<close>\<close>

text \<open>
  The records the admin API sends, with the optional fields of the TypeScript types as options.
  A version number is a \<open>js_number\<close>: an integer on the wire, with the non-finite values kept
  because the code tests for them with \<open>Number.isFinite\<close>.
\<close>

subsection \<open>Numbers that may not be finite\<close>

datatype js_number = Num int | NaN | PosInf | NegInf

definition num_isFinite :: "js_number \<Rightarrow> bool" where
  "num_isFinite n = (case n of Num _ \<Rightarrow> True | _ \<Rightarrow> False)"

definition num_positive :: "js_number \<Rightarrow> bool" where
  \<comment> \<open>\<open>n > 0\<close>\<close>
  "num_positive n = (case n of Num i \<Rightarrow> 0 < i | NaN \<Rightarrow> False | PosInf \<Rightarrow> True | NegInf \<Rightarrow> False)"

definition num_le_zero :: "js_number \<Rightarrow> bool" where
  \<comment> \<open>\<open>n <= 0\<close>, false for \<open>NaN\<close> as \<open>n > 0\<close> is\<close>
  "num_le_zero n = (case n of Num i \<Rightarrow> i \<le> 0 | NaN \<Rightarrow> False | PosInf \<Rightarrow> False | NegInf \<Rightarrow> True)"

definition num_truthy :: "js_number option \<Rightarrow> bool" where
  "num_truthy n = (case n of None \<Rightarrow> False | Some (Num i) \<Rightarrow> i \<noteq> 0 | Some NaN \<Rightarrow> False | Some _ \<Rightarrow> True)"

definition num_str :: "js_number \<Rightarrow> string" where
  "num_str n = (case n of Num i \<Rightarrow> int_str i | NaN \<Rightarrow> ''NaN'' | PosInf \<Rightarrow> ''Infinity''
     | NegInf \<Rightarrow> ''-Infinity'')"

definition num_gt :: "js_number \<Rightarrow> js_number \<Rightarrow> bool" where
  \<comment> \<open>\<open>m > n\<close>, false when either is \<open>NaN\<close>\<close>
  "num_gt m n = (case (m, n) of
       (NaN, _) \<Rightarrow> False
     | (_, NaN) \<Rightarrow> False
     | (Num i, Num j) \<Rightarrow> j < i
     | (Num _, PosInf) \<Rightarrow> False
     | (Num _, NegInf) \<Rightarrow> True
     | (PosInf, PosInf) \<Rightarrow> False
     | (PosInf, _) \<Rightarrow> True
     | (NegInf, _) \<Rightarrow> False)"

definition num_or_zero :: "js_number option \<Rightarrow> js_number" where
  \<comment> \<open>\<open>n || 0\<close>\<close>
  "num_or_zero n = (if num_truthy n then the n else Num 0)"

lemmas num_defs = num_isFinite_def num_positive_def num_le_zero_def num_truthy_def num_str_def

subsection \<open>Responses and records\<close>

record 'a CommonResponse =
  errcode :: "int option"
  errmsg :: "string option"
  data :: "'a option"

record UserAccessBinding =
  ub_role :: string
  ub_domain :: string

record User =
  us_account :: string
  us_nickname :: "string option"
  us_status :: "int option"
  us_roles :: "string list option"
  us_bindingCount :: "int option"
  us_accessSummary :: "UserAccessBinding list option"

record LoginResponse =
  lr_user :: User
  lr_session :: string

record UsersResponse =
  ur_users :: "User list option"

record UserAccessResponse =
  ua_bindings :: "UserAccessBinding list option"

record DomainOptionsResponse =
  do_domains :: "string list option"

record AppMetadata =
  am_id :: string
  am_description :: "string option"
  am_createdAt :: "int option"
  am_creator :: "string option"
  am_owner :: "string option"

record AppsResponse =
  ar_apps :: "AppMetadata list option"
  ar_hasMore :: "bool option"
  ar_nextSeek :: "string option"

record EnvsResponse =
  er_envs :: "string list option"

datatype ContentType = CTNum int | CTStr string

record ElementMetadata =
  em_key :: string
  em_latestVersion :: "js_number option"
  em_usingVersion :: "js_number option"
  em_unpublishedVersion :: "js_number option"
  em_contentType :: "ContentType option"

record Element =
  el_metadata :: ElementMetadata
  el_raw :: "string option"
  el_version :: "js_number option"
  el_published :: "bool option"

definition formatVersionLabel :: "js_number option \<Rightarrow> string" where
  "formatVersionLabel version =
     (if num_truthy version then ''v'' @ num_str (the version) else ''-'')"

record ElementsResponse =
  es_elements :: "Element list option"
  es_hasMore :: "bool option"
  es_nextSeek :: "string option"

datatype OperationCode = OpNum int | OpStr string

record ElementOperation =
  eo_operator :: "string option"
  eo_op :: "OperationCode option"
  eo_lastVersion :: "js_number option"
  eo_currentVersion :: "js_number option"
  eo_operatedAt :: "int option"

record ElementOperationsResponse =
  or_operations :: "ElementOperation list option"

record RetentionPolicy =
  rp_enabled :: bool
  rp_keepVersionCount :: int
  rp_keepVersionDays :: int
  rp_keepOperationDays :: int
  rp_versionPolicy :: string
  rp_operationPolicy :: string

text \<open>A health state is one of three names; a server may send another string.\<close>

type_synonym HealthState = string

record AgentNode =
  an_agentId :: "string option"
  an_addr :: "string option"
  an_ip :: "string option"
  an_health :: "string option"

record DBNode =
  dn_id :: "string option"
  dn_addr :: "string option"
  dn_ip :: "string option"
  dn_health :: "string option"

record InstanceTarget =
  it_app :: "string option"
  it_env :: "string option"
  it_key :: "string option"

record Instance =
  in_id :: "string option"
  in_clientId :: "string option"
  in_agentId :: "string option"
  in_clientIp :: "string option"
  in_targets :: "InstanceTarget list option"
  in_health :: "string option"
  in_lastRenewTimestamp :: "int option"

record InstancesResponse =
  ir_instances :: "Instance list option"

record AgentsResponse =
  as_agents :: "AgentNode list option"

record ClusterTopologyResponse =
  ct_dbs :: "DBNode list option"
  ct_agents :: "AgentNode list option"
  ct_instances :: "Instance list option"

definition contentTypes :: "(int \<times> string) list" where
  "contentTypes = [(1, ''JSON''), (2, ''TOML''), (3, ''INI''), (4, ''PLAINTEXT'')]"

definition roleOptions :: "(string \<times> string) list" where
  "roleOptions = [(''superadmin'', ''Super Admin''), (''admin'', ''Admin''),
     (''appowner'', ''App Owner''), (''appdeveloper'', ''Developer'')]"

lemma formatVersionLabel_dash:
  "formatVersionLabel v = ''-'' \<longleftrightarrow> \<not> num_truthy v"
  by (auto simp: formatVersionLabel_def)

end
