(* ===== verification/Api_Client.thy ===== *)
theory Api_Client
  imports Js_Json Domain_Types
begin

section \<open>The API client: \<open>lib/session.ts\<close>, \<open>lib/api.ts\<close>, \<open>lib/assets.ts\<close>, \<open>lib/routerBase.ts\<close>\<close>

text \<open>
  The session kept in the browser's local storage, the requests built from it, and what a
  response does: the payload it yields or the \<open>ApiError\<close> it throws, and the clearing of the
  session when the response says that the session is no longer valid. \<open>fetch\<close> itself is the
  environment: its outcome is the argument \<open>fetched\<close> of \<open>apiRequest\<close>.
\<close>

subsection \<open>Local storage\<close>

type_synonym storage = "string \<rightharpoonup> string"

definition getItem :: "storage \<Rightarrow> string \<Rightarrow> string option" where
  "getItem st k = st k"

definition setItem :: "string \<Rightarrow> string \<Rightarrow> storage \<Rightarrow> storage" where
  "setItem k v st = st(k \<mapsto> v)"

definition removeItem :: "string \<Rightarrow> storage \<Rightarrow> storage" where
  "removeItem k st = st(k := None)"

text \<open>The contract of the Web Storage interface that the session and the settings rely on.\<close>

locale web_storage =
  fixes get :: "'st \<Rightarrow> string \<Rightarrow> string option"
    and put :: "string \<Rightarrow> string \<Rightarrow> 'st \<Rightarrow> 'st"
    and remove :: "string \<Rightarrow> 'st \<Rightarrow> 'st"
  assumes get_put: "get (put k v st) k' = (if k = k' then Some v else get st k')"
    and get_remove: "get (remove k st) k' = (if k = k' then None else get st k')"
begin

lemma get_put_put: "k \<noteq> l \<Longrightarrow> get (put l w (put k v st)) k = Some v"
  by (simp add: get_put)

lemma get_remove_remove: "get (remove l (remove k st)) k = None"
  by (simp add: get_remove)

lemma remove_frame: "k' \<noteq> k \<Longrightarrow> k' \<noteq> l \<Longrightarrow> get (remove l (remove k st)) k' = get st k'"
  by (simp add: get_remove)

lemma put_frame: "k' \<noteq> k \<Longrightarrow> k' \<noteq> l \<Longrightarrow> get (put l w (put k v st)) k' = get st k'"
  by (simp add: get_put)

end

interpretation local_storage: web_storage getItem setItem removeItem
  by unfold_locales (simp_all add: getItem_def setItem_def removeItem_def)

subsection \<open>The session\<close>

definition sessionKey :: string where
  "sessionKey = ''cassem.session''"

definition userKey :: string where
  "userKey = ''cassem.user''"

definition getSession :: "storage \<Rightarrow> string" where
  "getSession st = opt_str_or (getItem st sessionKey) []"

definition getStoredUser :: "storage \<Rightarrow> json \<times> storage" where
  \<comment> \<open>the parsed value, unchecked, or \<open>null\<close>; a corrupt entry is removed\<close>
  "getStoredUser st =
     (if \<not> truthy_str (getItem st userKey) then (JNull, st)
      else case json_parse (the (getItem st userKey)) of
          Some user \<Rightarrow> (user, st)
        | None \<Rightarrow> (JNull, removeItem userKey st))"

definition storeSession :: "string \<Rightarrow> json \<Rightarrow> storage \<Rightarrow> storage" where
  "storeSession session user st =
     setItem userKey (json_stringify user) (setItem sessionKey session st)"

definition clearSession :: "storage \<Rightarrow> storage" where
  "clearSession st = removeItem userKey (removeItem sessionKey st)"

subsection \<open>Building requests\<close>

datatype Primitive = PrimStr string | PrimNum int | PrimBool bool

datatype QueryValue = QPrim Primitive | QList "Primitive list" | QUndefined | QNull

definition prim_str :: "Primitive \<Rightarrow> string" where
  "prim_str p = (case p of PrimStr s \<Rightarrow> s | PrimNum n \<Rightarrow> int_str n
     | PrimBool b \<Rightarrow> if b then ''true'' else ''false'')"

definition query_pairs :: "string \<times> QueryValue \<Rightarrow> (string \<times> string) list" where
  "query_pairs kv = (case snd kv of
       QUndefined \<Rightarrow> []
     | QNull \<Rightarrow> []
     | QList items \<Rightarrow> map (\<lambda>item. (fst kv, prim_str item)) items
     | QPrim p \<Rightarrow> if p = PrimStr [] then [] else [(fst kv, prim_str p)])"

definition buildQuery :: "(string \<times> QueryValue) list \<Rightarrow> string" where
  "buildQuery params =
     (let query = search_params (concat (map query_pairs params)) in
      if query = [] then [] else CHR ''?'' # query)"

abbreviation qstr :: "string \<Rightarrow> QueryValue" where
  "qstr s \<equiv> QPrim (PrimStr s)"

abbreviation qnum :: "int \<Rightarrow> QueryValue" where
  "qnum n \<equiv> QPrim (PrimNum n)"

abbreviation qopt :: "string \<Rightarrow> QueryValue" where
  \<comment> \<open>\<open>s || undefined\<close>\<close>
  "qopt s \<equiv> (if s = [] then QUndefined else QPrim (PrimStr s))"

datatype HeadersInit =
    NoHeaders
  | HeadersEntries "(string \<times> string) list"
  | HeadersList "(string \<times> string) list"
  | HeadersRecord "(string \<times> string) list"

record RequestInit =
  ri_method :: "string option"
  ri_headers :: HeadersInit
  ri_body :: "string option"

definition noInit :: RequestInit where
  "noInit = \<lparr>ri_method = None, ri_headers = NoHeaders, ri_body = None\<rparr>"

definition methodInit :: "string \<Rightarrow> RequestInit" where
  "methodInit m = \<lparr>ri_method = Some m, ri_headers = NoHeaders, ri_body = None\<rparr>"

definition jsonBody :: "json \<Rightarrow> RequestInit" where
  "jsonBody body = \<lparr>ri_method = Some ''POST'',
     ri_headers = HeadersRecord [(''Content-Type'', ''application/json'')],
     ri_body = Some (json_stringify body)\<rparr>"

definition fromEntries :: "('k \<times> 'v) list \<Rightarrow> ('k \<times> 'v) list" where
  "fromEntries kvs = foldl (\<lambda>acc (k, v). upsert k v acc) [] kvs"

definition normalizeHeaders :: "HeadersInit \<Rightarrow> (string \<times> string) list" where
  "normalizeHeaders h = (case h of
       NoHeaders \<Rightarrow> []
     | HeadersEntries kvs \<Rightarrow> fromEntries kvs
     | HeadersList kvs \<Rightarrow> fromEntries kvs
     | HeadersRecord kvs \<Rightarrow> kvs)"

definition requestHeaders :: "storage \<Rightarrow> RequestInit \<Rightarrow> (string \<times> string) list" where
  \<comment> \<open>the headers \<open>apiRequest\<close> passes to \<open>fetch\<close>\<close>
  "requestHeaders st options =
     (let headers = upsert ''Accept'' ''application/json'' (normalizeHeaders (ri_headers options));
          session = getSession st
      in if session \<noteq> [] then upsert ''X-CASSEM-SESSION'' session headers else headers)"

subsection \<open>Reading responses\<close>

record ApiError =
  ae_message :: string
  ae_code :: int
  ae_status :: int
  ae_auth :: bool

text \<open>What an awaited request rejects with: an \<open>ApiError\<close>, or any other exception.\<close>

datatype failure = ApiFailure ApiError | OtherFailure string

datatype 'a body = Unparseable | NullBody | Payload "'a CommonResponse"

datatype 'a fetched = NetworkFailure string | Fetched int "'a body"

definition auth_patterns :: "string list" where
  "auth_patterns = [''unauthenticated'', ''session expired'', ''invalid session'']"

definition isAuthError :: "int \<Rightarrow> 'a CommonResponse \<Rightarrow> bool" where
  "isAuthError status payload =
     (status = 401 \<or> errcode payload = Some 16 \<or>
      (\<exists>p \<in> set auth_patterns. js_includes (map lower_char (opt_str_or (errmsg payload) [])) p))"

definition response_ok :: "int \<Rightarrow> bool" where
  "response_ok status = (200 \<le> status \<and> status \<le> 299)"

definition http_message :: "int \<Rightarrow> string" where
  "http_message status = ''HTTP '' @ int_str status"

definition finish_response :: "storage \<Rightarrow> int \<Rightarrow> 'a CommonResponse \<Rightarrow> (failure + 'a option) \<times> storage" where
  "finish_response st status payload =
     (let auth = isAuthError status payload;
          st' = (if auth then clearSession st else st)
      in if \<not> response_ok status \<or> errcode payload \<noteq> Some 0
         then (Inl (ApiFailure \<lparr>ae_message = opt_str_or (errmsg payload) (http_message status),
                 ae_code = opt_or (errcode payload) (-1), ae_status = status, ae_auth = auth\<rparr>), st')
         else (Inr (data payload), st'))"

text \<open>A body \<open>null\<close> has no fields: with the status 401 the session is cleared before the first of them is read.\<close>

definition apiRequest :: "storage \<Rightarrow> 'a fetched \<Rightarrow> (failure + 'a option) \<times> storage" where
  "apiRequest st f = (case f of
       NetworkFailure m \<Rightarrow> (Inl (OtherFailure m), st)
     | Fetched status b \<Rightarrow> (case b of
           NullBody \<Rightarrow> (Inl (OtherFailure ''TypeError''), if status = 401 then clearSession st else st)
         | Unparseable \<Rightarrow> finish_response st status
             \<lparr>errcode = Some (-1), errmsg = Some (http_message status), data = None\<rparr>
         | Payload p \<Rightarrow> finish_response st status p))"

text \<open>Reading a field of the result: \<open>undefined\<close> has none.\<close>

definition deref :: "failure + 'a option \<Rightarrow> failure + 'a" where
  "deref r = (case r of Inl f \<Rightarrow> Inl f | Inr None \<Rightarrow> Inl (OtherFailure ''TypeError'') | Inr (Some d) \<Rightarrow> Inr d)"

definition getErrorMessage :: "failure \<Rightarrow> string \<Rightarrow> string" where
  "getErrorMessage f fallback = (case f of ApiFailure e \<Rightarrow> ae_message e | OtherFailure _ \<Rightarrow> fallback)"

subsection \<open>Base paths\<close>

definition assetUrl :: "string \<Rightarrow> string \<Rightarrow> string" where
  "assetUrl path baseUrl =
     (let assetPath = (if js_startsWith path ''/'' then drop 1 path else path);
          base = (if baseUrl = [] \<or> baseUrl = ''/'' then ''/''
                  else if js_endsWith baseUrl ''/'' then baseUrl else baseUrl @ ''/'')
      in base @ assetPath)"

definition resolveRouterBasename :: "string \<Rightarrow> string" where
  "resolveRouterBasename baseUrl =
     (if baseUrl = [] \<or> baseUrl = ''/'' then ''/''
      else if js_endsWith baseUrl ''/'' then butlast baseUrl else baseUrl)"

subsection \<open>Effects of the handlers\<close>

text \<open>
  What a handler does besides changing its state: show a toast, send a request, navigate, or call
  one of the callbacks a parent passes to a dialog (\<open>onBusyChange\<close>, \<open>onClose\<close>, \<open>onFinished\<close>).
\<close>

datatype severity = Success | Error | Warning | Info

datatype effect =
    ShowToast string severity
  | Request string RequestInit
  | Navigate string
  | BusyChange bool
  | CloseDialog
  | Refresh

subsection \<open>Facts\<close>

lemma keys_differ [simp]: "sessionKey \<noteq> userKey" "userKey \<noteq> sessionKey"
  by (simp_all add: sessionKey_def userKey_def)

lemma getSession_storeSession [simp]: "getSession (storeSession s u st) = s"
  using local_storage.get_put_put [of sessionKey userKey "json_stringify u" s st]
  by (simp add: getSession_def storeSession_def opt_str_or_def str_or_def)

lemma getSession_clearSession [simp]: "getSession (clearSession st) = []"
  using local_storage.get_remove_remove [of userKey sessionKey st]
  by (simp add: getSession_def clearSession_def opt_str_or_def)

lemma json_stringify_nonempty: "json_wf v \<Longrightarrow> json_stringify v \<noteq> []"
  using stringify_start by fastforce

lemma getItem_user_store [simp]: "getItem (storeSession s u st) userKey = Some (json_stringify u)"
  by (simp add: storeSession_def local_storage.get_put)

lemma session_frame:
  assumes "k \<noteq> sessionKey" and "k \<noteq> userKey"
  shows "getItem (storeSession s u st) k = getItem st k" "getItem (clearSession st) k = getItem st k"
  using local_storage.put_frame [OF assms] local_storage.remove_frame [OF assms]
  by (simp_all add: storeSession_def clearSession_def)

lemma finish_response_storage:
  "snd (finish_response st status p) = (if isAuthError status p then clearSession st else st)"
  by (simp add: finish_response_def Let_def)

lemma map_of_requestHeaders:
  "map_of (requestHeaders st options) ''X-CASSEM-SESSION'' =
     (if getSession st \<noteq> [] then Some (getSession st)
      else map_of (normalizeHeaders (ri_headers options)) ''X-CASSEM-SESSION'')"
  by (simp add: requestHeaders_def Let_def map_of_upsert)

subsection \<open>Properties\<close>

text \<open>Two query strings are equal exactly when they carry the same key and value pairs in the same
  order, where \<open>undefined\<close>, \<open>null\<close> and the empty string contribute none and an array one pair per
  item: nothing in a name or value can be mistaken for a delimiter.\<close>

theorem buildQuery_inject:
  "buildQuery ps = buildQuery qs \<longleftrightarrow> concat (map query_pairs ps) = concat (map query_pairs qs)"
proof -
  have "buildQuery rs = (if concat (map query_pairs rs) = [] then []
      else CHR ''?'' # search_params (concat (map query_pairs rs)))" for rs
    by (simp only: buildQuery_def Let_def search_params_Nil_iff)
  then show ?thesis
    using search_params_inject [of "concat (map query_pairs ps)" "concat (map query_pairs qs)"]
    by (simp del: concat_eq_Nil_conv Nil_eq_concat_conv)
qed

text \<open>A stored session and user are read back as they were, clearing removes both, and neither
  touches any other entry of the storage.\<close>

theorem session_roundtrip:
  assumes "json_wf user"
  shows "getSession (storeSession s user st) = s \<and>
    getStoredUser (storeSession s user st) = (user, storeSession s user st) \<and>
    getSession (clearSession (storeSession s user st)) = [] \<and>
    fst (getStoredUser (clearSession (storeSession s user st))) = JNull \<and>
    (\<forall>k. k \<noteq> sessionKey \<longrightarrow> k \<noteq> userKey \<longrightarrow>
       getItem (clearSession (storeSession s user st)) k = getItem st k)"
proof -
  have "getItem (clearSession st') userKey = None" for st'
    using local_storage.get_remove by (simp add: clearSession_def)
  moreover have "json_stringify user \<noteq> []" using assms by (rule json_stringify_nonempty)
  ultimately show ?thesis
    using assms by (simp add: getStoredUser_def json_parse_stringify session_frame)
qed

theorem session_roundtrip_witness:
  "getStoredUser (storeSession ''s'' (JObj [(''account'', JStr ''root'')]) Map.empty) =
     (JObj [(''account'', JStr ''root'')], storeSession ''s'' (JObj [(''account'', JStr ''root'')]) Map.empty)"
  using session_roundtrip [of "JObj [(''account'', JStr ''root'')]"] by simp

definition session_rejected :: "'a fetched \<Rightarrow> bool" where
  \<comment> \<open>what a response must be to end the session: the status 401, the code 16, or one of three phrases in the message\<close>
  "session_rejected f = (case f of
       NetworkFailure _ \<Rightarrow> False
     | Fetched status b \<Rightarrow> status = 401 \<or> (case b of
         Payload p \<Rightarrow> errcode p = Some 16 \<or>
           (\<exists>m \<in> set_option (errmsg p). \<exists>phrase \<in> {''unauthenticated'', ''session expired'', ''invalid session''}.
              \<exists>before after. map lower_char m = before @ phrase @ after)
       | _ \<Rightarrow> False))"

lemma http_message_no_phrase: "p \<in> set auth_patterns \<Longrightarrow> \<not> js_includes (map lower_char (http_message status)) p"
proof -
  assume p: "p \<in> set auth_patterns"
  have low: "lower_char c = c" if "of_char c < (65 :: nat)" for c using that by (simp add: lower_char_def Let_def)
  have "of_char c < (65 :: nat)" if "c \<in> set (int_str status)" for c
    using that nat_str_digits by (fastforce simp: int_str_def is_digit_def split: if_splits)
  then have "of_char c < (65 :: nat)" if "c \<in> set (map lower_char (int_str status))" for c using that low by auto
  from this [of "CHR ''i''"] this [of "CHR ''u''"]
  have none: "CHR ''i'' \<notin> set (map lower_char (int_str status))" "CHR ''u'' \<notin> set (map lower_char (int_str status))" by auto
  have "map lower_char ''HTTP '' = ''http ''" by code_simp
  then have "set (map lower_char (http_message status)) = set ''http '' \<union> set (map lower_char (int_str status))"
    unfolding http_message_def map_append set_append by simp
  with none have "CHR ''i'' \<notin> set (map lower_char (http_message status))" "CHR ''u'' \<notin> set (map lower_char (http_message status))"
    by simp_all
  moreover have "CHR ''i'' \<in> set p \<or> CHR ''u'' \<in> set p" using p by (auto simp: auth_patterns_def)
  ultimately show ?thesis unfolding js_includes_iff by (metis Un_iff set_append)
qed

lemma http_nonempty: "http_message status \<noteq> []"
  by (simp add: http_message_def)

lemma ApiError_eq:
  "e = \<lparr>ae_message = m, ae_code = c, ae_status = n, ae_auth = a\<rparr> \<longleftrightarrow>
     ae_message e = m \<and> ae_code e = c \<and> ae_status e = n \<and> ae_auth e = a"
  "\<lparr>ae_message = m, ae_code = c, ae_status = n, ae_auth = a\<rparr> = e \<longleftrightarrow>
     ae_message e = m \<and> ae_code e = c \<and> ae_status e = n \<and> ae_auth e = a"
  by (cases e; auto)+

lemma isAuthError_rejected: "isAuthError status p \<longleftrightarrow> session_rejected (Fetched status (Payload p))"
  by (auto simp: isAuthError_def session_rejected_def auth_patterns_def js_includes_iff opt_str_or_def str_or_def split: option.splits)

lemma isAuthError_unparseable:
  "isAuthError status \<lparr>errcode = Some (-1), errmsg = Some (http_message status), data = None\<rparr> \<longleftrightarrow> status = 401"
  using http_message_no_phrase [of _ status] by (auto simp: isAuthError_def opt_str_or_def str_or_def http_nonempty)

lemma apiRequest_storage: "snd (apiRequest st f) = (if session_rejected f then clearSession st else st)"
proof (cases f)
  case (Fetched status b)
  then show ?thesis
    by (cases b) (simp_all add: apiRequest_def finish_response_storage isAuthError_unparseable,
        simp_all add: session_rejected_def isAuthError_rejected)
qed (simp add: apiRequest_def session_rejected_def)

lemma clearSession_twice [simp]: "clearSession (clearSession st) = clearSession st"
  by (auto simp: clearSession_def removeItem_def)

text \<open>C38: What a request yields. Data exactly for a response with a status of success and the code 0; an \<open>ApiError\<close>
  exactly for every other response that has a body other than \<open>null\<close>, with the server's message and code
  or, where it gives none, the status and \<open>-1\<close>, and marked as an authentication error when the session was rejected; another
  failure exactly when the request itself failed or the body was \<open>null\<close>. In every case the stored session is
  cleared if and only if the response rejects it, and no other entry of the storage changes.\<close>

theorem apiRequest_outcome:
  assumes "apiRequest st f = (r, st')"
  shows "(\<forall>d. r = Inr d \<longleftrightarrow> (\<exists>status p. f = Fetched status (Payload p) \<and>
        200 \<le> status \<and> status \<le> 299 \<and> errcode p = Some 0 \<and> data p = d)) \<and>
    (\<forall>e. r = Inl (ApiFailure e) \<longleftrightarrow> (\<exists>status b. f = Fetched status b \<and> ae_status e = status \<and> ae_auth e = session_rejected f \<and>
        (b = Unparseable \<and> ae_message e = ''HTTP '' @ int_str status \<and> ae_code e = -1 \<or>
         (\<exists>p. b = Payload p \<and> \<not> (200 \<le> status \<and> status \<le> 299 \<and> errcode p = Some 0) \<and>
            ae_message e = (case errmsg p of Some (c # m) \<Rightarrow> c # m | _ \<Rightarrow> ''HTTP '' @ int_str status) \<and>
            ae_code e = (case errcode p of Some c \<Rightarrow> c | None \<Rightarrow> -1))))) \<and>
    (\<forall>m. r = Inl (OtherFailure m) \<longleftrightarrow> f = NetworkFailure m \<or> (\<exists>status. f = Fetched status NullBody) \<and> m = ''TypeError'') \<and>
    st' = (if session_rejected f then clearSession st else st)"
proof -
  consider (network) m where "f = NetworkFailure m" | (null) status where "f = Fetched status NullBody"
    | (unparseable) status where "f = Fetched status Unparseable" | (payload) status p where "f = Fetched status (Payload p)"
    by (metis body.exhaust fetched.exhaust)
  then show ?thesis
  proof cases
    case (unparseable status)
    then have r: "apiRequest st f = (Inl (ApiFailure \<lparr>ae_message = http_message status, ae_code = -1, ae_status = status,
        ae_auth = (status = 401)\<rparr>), if status = 401 then clearSession st else st)"
      by (simp add: apiRequest_def finish_response_def isAuthError_unparseable Let_def opt_str_or_def str_or_def opt_or_def http_nonempty)
    have rej: "session_rejected f \<longleftrightarrow> status = 401" using unparseable by (simp add: session_rejected_def)
    show ?thesis using assms unparseable unfolding r rej http_message_def by (auto simp: ApiError_eq)
  next
    case (payload status p)
    let ?ok = "200 \<le> status \<and> status \<le> 299 \<and> errcode p = Some 0"
    let ?e = "\<lparr>ae_message = (case errmsg p of Some (c # m) \<Rightarrow> c # m | _ \<Rightarrow> ''HTTP '' @ int_str status),
        ae_code = (case errcode p of Some c \<Rightarrow> c | None \<Rightarrow> -1), ae_status = status, ae_auth = session_rejected f\<rparr>"
    have "opt_str_or (errmsg p) (http_message status) = (case errmsg p of Some (c # m) \<Rightarrow> c # m | _ \<Rightarrow> ''HTTP '' @ int_str status)"
      by (simp add: opt_str_or_def str_or_def http_message_def split: option.split list.split)
    then have r: "apiRequest st f = (if ?ok then Inr (data p) else Inl (ApiFailure ?e), if session_rejected f then clearSession st else st)"
      using payload by (auto simp: apiRequest_def finish_response_def isAuthError_rejected response_ok_def Let_def opt_or_def)
    show ?thesis using assms payload unfolding r by (auto simp: ApiError_eq split: if_splits)
  qed (use assms in \<open>auto simp: apiRequest_def session_rejected_def\<close>)
qed

theorem apiRequest_outcome_witness:
  "getSession (snd (apiRequest (storeSession ''s'' JNull Map.empty)
     (Fetched 401 (NullBody :: unit body)))) = []"
proof -
  let ?st = "storeSession ''s'' JNull Map.empty" and ?f = "Fetched 401 (NullBody :: unit body)"
  have "snd (apiRequest ?st ?f) = (if session_rejected ?f then clearSession ?st else ?st)"
    using apiRequest_outcome [of ?st ?f, OF surjective_pairing] by blast
  then show ?thesis by (simp add: session_rejected_def)
qed

text \<open>A JSON request carries the stored session in its header when there is one, and no session
  header otherwise, beside its accept and content types.\<close>

theorem requestHeaders_session:
  "map_of (requestHeaders st (jsonBody b)) ''X-CASSEM-SESSION'' =
     (if getSession st = [] then None else Some (getSession st)) \<and>
   map_of (requestHeaders st (jsonBody b)) ''Accept'' = Some ''application/json'' \<and>
   map_of (requestHeaders st (jsonBody b)) ''Content-Type'' = Some ''application/json''"
  by (simp add: requestHeaders_def jsonBody_def normalizeHeaders_def Let_def map_of_upsert)

end
