(* ===== verification/I18n.thy ===== *)
theory I18n
  imports Js_Text
begin

section \<open>Locales and messages: \<open>i18n/locale.ts\<close>, \<open>i18n/store.ts\<close>, \<open>i18n/I18nProvider.tsx\<close>\<close>

text \<open>
  The translator: the catalogue lookup with its two fallbacks and the placeholder substitution
  (\<open>/\{(\w+)\}/g\<close> with a callback), the choice of the locale from the browser's languages and
  from storage, and the locale store with its listeners. The two message catalogues are the
  arguments \<open>en\<close> and \<open>zhCN\<close>: partial maps from message keys to texts.
\<close>

datatype Locale = En | ZhCN

datatype param = PStr string | PNum int

type_synonym TranslationParams = "(string \<times> param) list"
type_synonym Translator = "string \<Rightarrow> TranslationParams \<Rightarrow> string"
type_synonym catalogue = "string \<rightharpoonup> string"

definition locale_value :: "Locale \<Rightarrow> string" where
  "locale_value l = (case l of En \<Rightarrow> ''en'' | ZhCN \<Rightarrow> ''zh-CN'')"

definition parse_locale :: "string option \<Rightarrow> Locale option" where
  "parse_locale v = (if v = Some ''en'' then Some En else if v = Some ''zh-CN'' then Some ZhCN else None)"

definition isLocale :: "string option \<Rightarrow> bool" where
  "isLocale value = (value = Some ''en'' \<or> value = Some ''zh-CN'')"

definition localeStorageKey :: string where
  "localeStorageKey = ''cassem.locale''"

subsection \<open>Choosing a locale\<close>

definition language_is :: "string \<Rightarrow> string \<Rightarrow> bool" where
  \<comment> \<open>\<open>/^p(?:-|$)/i.test(language)\<close> for a lower-case \<open>p\<close>\<close>
  "language_is p language =
     (map lower_char (take (length p) language) = p \<and>
      (case drop (length p) language of [] \<Rightarrow> True | c # _ \<Rightarrow> c = CHR ''-''))"

fun first_supported :: "string list \<Rightarrow> Locale" where
  "first_supported [] = En"
| "first_supported (language # languages) =
     (if language_is ''zh'' language then ZhCN
      else if language_is ''en'' language then En
      else first_supported languages)"

record navigator =
  nv_languages :: "string list option"
  nv_language :: string

definition browserLocale :: "navigator option \<Rightarrow> Locale" where
  "browserLocale nv = (case nv of None \<Rightarrow> En
     | Some n \<Rightarrow> first_supported
         (case nv_languages n of Some (l # ls) \<Rightarrow> l # ls | _ \<Rightarrow> [nv_language n]))"

definition readLocale :: "(string \<rightharpoonup> string) option \<Rightarrow> navigator option \<Rightarrow> Locale" where
  \<comment> \<open>a storage of \<open>None\<close> is one whose access throws\<close>
  "readLocale storage nv =
     (case storage of None \<Rightarrow> browserLocale nv
      | Some m \<Rightarrow> (case parse_locale (m localeStorageKey) of Some l \<Rightarrow> l | None \<Rightarrow> browserLocale nv))"

subsection \<open>Translation\<close>

definition is_word :: "char \<Rightarrow> bool" where
  "is_word c = (is_alnum c \<or> c = CHR ''_'')"

definition param_str :: "param \<Rightarrow> string" where
  "param_str p = (case p of PStr s \<Rightarrow> s | PNum n \<Rightarrow> int_str n)"

function subst_placeholders :: "(string \<Rightarrow> string) \<Rightarrow> string \<Rightarrow> string" where
  "subst_placeholders f [] = []"
| "subst_placeholders f (c # s) =
     (let name = takeWhile is_word s; rest = dropWhile is_word s in
      if c = CHR ''{'' \<and> name \<noteq> [] \<and> rest \<noteq> [] \<and> hd rest = CHR ''}''
      then f name @ subst_placeholders f (tl rest)
      else c # subst_placeholders f s)"
  by pat_completeness auto
termination
proof (relation "measure (\<lambda>(f, s). length s)")
  fix f :: "string \<Rightarrow> string" and c s name rest
  assume "rest = dropWhile is_word s"
  then have "length (tl rest) < length (c # s)"
    using length_dropWhile_le [of is_word s] by simp
  then show "((f, tl rest), f, c # s) \<in> measure (\<lambda>(f, s). length s)" by simp
qed simp_all

definition placeholder_value :: "TranslationParams \<Rightarrow> string \<Rightarrow> string" where
  "placeholder_value params name =
     (case map_of params name of Some p \<Rightarrow> param_str p | None \<Rightarrow> ''{'' @ name @ ''}'')"

definition translate :: "catalogue \<Rightarrow> catalogue \<Rightarrow> Locale \<Rightarrow> string \<Rightarrow> TranslationParams \<Rightarrow> string" where
  "translate en zhCN locale key params =
     (let message = (case locale of ZhCN \<Rightarrow> zhCN key | En \<Rightarrow> en key) in
      subst_placeholders (placeholder_value params) (opt_or message (opt_or (en key) key)))"

subsection \<open>The locale store\<close>

record locale_store =
  ls_locale :: Locale
  ls_listeners :: "nat list"

definition createLocaleStore :: "(string \<rightharpoonup> string) option \<Rightarrow> navigator option \<Rightarrow> locale_store" where
  "createLocaleStore storage nv = \<lparr>ls_locale = readLocale storage nv, ls_listeners = []\<rparr>"

definition store_subscribe :: "nat \<Rightarrow> locale_store \<Rightarrow> locale_store" where
  "store_subscribe listener st = st\<lparr>ls_listeners := js_set_add (ls_listeners st) listener\<rparr>"

definition store_unsubscribe :: "nat \<Rightarrow> locale_store \<Rightarrow> locale_store" where
  "store_unsubscribe listener st = st\<lparr>ls_listeners := js_set_delete (ls_listeners st) listener\<rparr>"

definition store_setLocale :: "string \<Rightarrow> locale_store \<Rightarrow> locale_store \<times> nat list" where
  \<comment> \<open>the new store and the listeners called, in order\<close>
  "store_setLocale next st =
     (case parse_locale (Some next) of None \<Rightarrow> (st, [])
      | Some l \<Rightarrow> if l = ls_locale st then (st, []) else (st\<lparr>ls_locale := l\<rparr>, ls_listeners st))"

definition provider_setLocale ::
    "string \<Rightarrow> locale_store \<Rightarrow> (string \<rightharpoonup> string) option \<Rightarrow>
     locale_store \<times> nat list \<times> (string \<rightharpoonup> string) option" where
  "provider_setLocale next st storage =
     (if \<not> isLocale (Some next) then (st, [], storage)
      else case store_setLocale next st of (st', ns) \<Rightarrow>
        (st', ns, map_option (\<lambda>m. m(localeStorageKey \<mapsto> next)) storage))"

definition syncLocale ::
    "navigator option \<Rightarrow> string option \<Rightarrow> string option \<Rightarrow> locale_store \<Rightarrow> locale_store \<times> nat list" where
  \<comment> \<open>the handler of \<open>storage\<close> events of other tabs, with the event's key and new value\<close>
  "syncLocale nv key newValue st =
     (if key \<noteq> Some localeStorageKey \<and> key \<noteq> None then (st, [])
      else store_setLocale
        (locale_value (case parse_locale newValue of Some l \<Rightarrow> l | None \<Rightarrow> browserLocale nv)) st)"

subsection \<open>Facts\<close>

lemma parse_locale_value [simp]: "parse_locale (Some (locale_value l)) = Some l"
  by (cases l) (simp_all add: parse_locale_def locale_value_def)

lemma isLocale_iff: "isLocale v \<longleftrightarrow> (\<exists>l. parse_locale v = Some l)"
  by (auto simp: isLocale_def parse_locale_def)

lemma isLocale_value [simp]: "isLocale (Some (locale_value l))"
  by (auto simp: isLocale_iff)

text \<open>A message as the catalogue author writes it: literal text and placeholders.\<close>

datatype segment = Lit string | Placeholder string

primrec segment_text :: "segment \<Rightarrow> string" where
  "segment_text (Lit s) = s"
| "segment_text (Placeholder n) = ''{'' @ n @ ''}''"

primrec segment_ok :: "segment \<Rightarrow> bool" where
  "segment_ok (Lit s) = (CHR ''{'' \<notin> set s)"
| "segment_ok (Placeholder n) = (n \<noteq> [] \<and> (\<forall>c \<in> set n. is_word c))"

primrec segment_value :: "(string \<Rightarrow> string) \<Rightarrow> segment \<Rightarrow> string" where
  "segment_value f (Lit s) = s"
| "segment_value f (Placeholder n) = f n"

lemma not_word_brace [simp]: "\<not> is_word (CHR ''}'')"
  by (simp add: is_word_def is_alnum_def)

lemma subst_literal:
  "CHR ''{'' \<notin> set s \<Longrightarrow> subst_placeholders f (s @ r) = s @ subst_placeholders f r"
  by (induction s) (auto simp: Let_def)

lemma subst_placeholder:
  assumes "n \<noteq> []" and "\<forall>c \<in> set n. is_word c"
  shows "subst_placeholders f (''{'' @ n @ ''}'' @ r) = f n @ subst_placeholders f r"
proof -
  have "takeWhile is_word (n @ CHR ''}'' # r) = n"
    and "dropWhile is_word (n @ CHR ''}'' # r) = CHR ''}'' # r"
    using assms(2) by (simp_all add: takeWhile_append2 dropWhile_append2)
  with assms(1) show ?thesis by (simp add: Let_def)
qed

lemma subst_segments:
  "\<forall>g \<in> set gs. segment_ok g \<Longrightarrow>
   subst_placeholders f (concat (map segment_text gs)) = concat (map (segment_value f) gs)"
proof (induction gs)
  case Nil
  then show ?case by simp
next
  case (Cons g gs)
  then have IH: "subst_placeholders f (concat (map segment_text gs)) = concat (map (segment_value f) gs)"
    by simp
  show ?case
  proof (cases g)
    case (Lit s)
    with Cons.prems IH show ?thesis by (simp add: subst_literal)
  next
    case (Placeholder n)
    with Cons.prems IH subst_placeholder [of n f "concat (map segment_text gs)"] show ?thesis
      by simp
  qed
qed

lemma store_setLocale_distinct:
  "distinct (ls_listeners st) \<Longrightarrow> distinct (snd (store_setLocale next st))"
  by (auto simp: store_setLocale_def split: option.splits)

subsection \<open>Properties\<close>

text \<open>The translation of a message made of literal text and placeholders is that text with every
  placeholder replaced by its parameter (or left as it is when there is none), the message
  being the one of the chosen language, or the English one where that is missing.\<close>

theorem translate_message:
  assumes "\<forall>g \<in> set gs. segment_ok g"
    and "(case locale of ZhCN \<Rightarrow> zhCN key | En \<Rightarrow> en key) = Some (concat (map segment_text gs)) \<or>
      (case locale of ZhCN \<Rightarrow> zhCN key | En \<Rightarrow> en key) = None \<and> en key = Some (concat (map segment_text gs))"
  shows "translate en zhCN locale key params = concat (map (segment_value (placeholder_value params)) gs)"
  using assms by (auto simp: translate_def Let_def subst_segments)

theorem translate_message_witness:
  "translate [''k'' \<mapsto> ''v{n}!''] Map.empty ZhCN ''k'' [(''n'', PNum 3)] = ''v3!''"
proof -
  have w: "concat (map segment_text [Lit ''v'', Placeholder ''n'', Lit ''!'']) = ''v{n}!''"
    by simp
  have "translate [''k'' \<mapsto> ''v{n}!''] Map.empty ZhCN ''k'' [(''n'', PNum 3)] =
    concat (map (segment_value (placeholder_value [(''n'', PNum 3)])) [Lit ''v'', Placeholder ''n'', Lit ''!''])"
    by (rule translate_message) (simp_all add: is_word_def is_alnum_def)
  moreover have "char_of (51 :: nat) = CHR ''3''" by code_simp
  ultimately show ?thesis
    by (simp add: placeholder_value_def param_str_def int_str_def nat_str.simps digit_char_def)
qed

text \<open>Choosing a language makes it current, calls every listener exactly when it changes, and is
  what the next visit reads back from the storage.\<close>

theorem locale_choice_persists:
  assumes "provider_setLocale (locale_value l) st (Some storage) = (st', called, storage')"
  shows "ls_locale st' = l \<and> readLocale storage' nv = l \<and>
    called = (if l = ls_locale st then [] else ls_listeners st)"
  using assms by (auto simp: provider_setLocale_def store_setLocale_def readLocale_def split: if_splits)

theorem locale_choice_persists_witness:
  "readLocale (snd (snd (provider_setLocale (locale_value ZhCN) \<lparr>ls_locale = En, ls_listeners = [7]\<rparr> (Some Map.empty)))) None = ZhCN"
proof -
  let ?st = "\<lparr>ls_locale = En, ls_listeners = [7]\<rparr>"
  have eq: "provider_setLocale (locale_value ZhCN) ?st (Some Map.empty) =
    (?st\<lparr>ls_locale := ZhCN\<rparr>, [7], Some [localeStorageKey \<mapsto> locale_value ZhCN])"
    by (simp add: provider_setLocale_def store_setLocale_def)
  from locale_choice_persists [OF eq, of None] eq show ?thesis by simp
qed

end
