(* ===== verification/Ui.thy ===== *)
theory Ui
  imports Domain_Types I18n
begin

section \<open>What a page shows, and the shared components\<close>

text \<open>
  A page's rendering is a list of \<open>ui\<close> nodes: the texts, inputs, buttons and tables the JSX
  expression produces, without layout and style. The shared components follow: the breadcrumbs
  (\<open>components/AppBreadcrumbs.tsx\<close>), the confirmation dialog
  (\<open>components/DangerConfirmDialog.tsx\<close>) and the frame of the wizards
  (\<open>components/WizardLayout.tsx\<close>).
\<close>

record MenuEntry =
  me_value :: string
  me_disabled :: bool
  me_ariaLabel :: string
  me_text :: string
  me_current :: "string option"
  me_status :: string
  me_statusText :: string

record DiffViewerProps =
  dv_oldValue :: string
  dv_newValue :: string
  dv_baseLabel :: "string option"
  dv_compareLabel :: "string option"
  dv_contentType :: "ContentType option"

datatype ui =
    UHeading string
  | UText string
  | UError string
  | ULabelled string "ui list"
  | USelect string string bool string "MenuEntry list"
  | URadios string "(string \<times> string \<times> string) list"
  | UMulti string "string list" "string list" bool string
  | UInput string string bool string
  | UChips "string list"
  | UDiff DiffViewerProps
  | ULink string string
  | UButton string bool
  | UTable "string list" "ui list list"
  | UDialog string "ui list"

subsection \<open>Breadcrumbs\<close>

record BreadcrumbItem =
  bi_label :: string
  bi_to :: "string option"

fun crumbs :: "string \<Rightarrow> BreadcrumbItem list \<Rightarrow> ui list" where
  "crumbs pathname [] = []"
| "crumbs pathname (item # items) =
     (if items = [] \<or> \<not> truthy_str (bi_to item) \<or> bi_to item = Some pathname then UText (bi_label item)
      else ULink (bi_label item) (the (bi_to item))) # crumbs pathname items"

definition AppBreadcrumbs :: "Translator \<Rightarrow> string \<Rightarrow> BreadcrumbItem list \<Rightarrow> ui" where
  "AppBreadcrumbs t pathname items = ULabelled (t ''common.breadcrumb'' []) (crumbs pathname items)"

subsection \<open>The confirmation dialog\<close>

definition DangerConfirmDialog ::
  "Translator \<Rightarrow> bool \<Rightarrow> string \<Rightarrow> ui list \<Rightarrow> string \<Rightarrow> bool \<Rightarrow> ui list" where
  "DangerConfirmDialog t open title description confirmLabel loading =
     (if open then [UDialog title (description @
        [UButton (t ''common.cancel'' []) loading, UButton confirmLabel loading])] else [])"

definition danger_closable :: "bool \<Rightarrow> bool" where
  \<comment> \<open>whether a click beside the dialog or the escape key closes it: \<open>loading ? undefined : onClose\<close>\<close>
  "danger_closable loading = (\<not> loading)"

subsection \<open>The frame of a wizard\<close>

record WizardLayoutProps =
  wl_title :: string
  wl_steps :: "string list"
  wl_activeStep :: nat
  wl_onBack :: bool
  wl_onNext :: bool
  wl_onCancel :: bool
  wl_nextLabel :: "string option"
  wl_backDisabled :: bool
  wl_nextDisabled :: bool

definition wizard_back_disabled :: "WizardLayoutProps \<Rightarrow> bool" where
  "wizard_back_disabled w = (\<not> wl_onBack w \<or> wl_backDisabled w)"

definition wizard_next_disabled :: "WizardLayoutProps \<Rightarrow> bool" where
  "wizard_next_disabled w = (\<not> wl_onNext w \<or> wl_nextDisabled w)"

definition WizardLayout :: "Translator \<Rightarrow> WizardLayoutProps \<Rightarrow> bool \<Rightarrow> ui list \<Rightarrow> ui list" where
  "WizardLayout t w cancelOpen content =
     [UText (t ''common.workflow'' []), UHeading (wl_title w)] @
     (if wl_onCancel w then [UButton (t ''common.cancel'' []) False] else []) @
     DangerConfirmDialog t cancelOpen (t ''common.cancelWorkflow'' [])
       [UText (t ''common.cancelWorkflowDescription'' [])] (t ''common.confirmCancel'' []) False @
     map UText (wl_steps w) @ content @
     [UButton (t ''common.back'' []) (wizard_back_disabled w),
      UButton (opt_or (wl_nextLabel w) (t ''common.next'' [])) (wizard_next_disabled w)]"

lemma crumbs_length [simp]: "length (crumbs pathname items) = length items"
  by (induction items) auto

lemma crumbs_links:
  "ULink l p \<in> set (crumbs pathname items) \<Longrightarrow>
     p \<noteq> pathname \<and> p \<noteq> [] \<and> (\<exists>item \<in> set (butlast items). bi_label item = l \<and> bi_to item = Some p)"
  by (induction items) (auto split: if_splits simp: truthy_str_def split: option.splits)

end
