(* ===== verification/Workflow_Options.thy ===== *)
theory Workflow_Options
  imports Api_Client Ui
begin

section \<open>Request paths and workflow options: \<open>publish/workflowOptions.ts\<close>, \<open>publish/VersionMenuItem.tsx\<close>\<close>

text \<open>
  The resource paths the pages request, and the options the publish and rollback wizards offer:
  the versions of an element, newest first, with the version in use, and the agent and instance
  identifiers. The facts: paths of different resources differ, the version list is a descending
  stable permutation of the elements that carry a positive version, and an option is determined
  by the value the select box reports.
\<close>

subsection \<open>Resource paths\<close>

definition appPath :: "string \<Rightarrow> string" where
  "appPath appId = ''/api/apps/'' @ encodeURIComponent appId"

definition envPath :: "string \<Rightarrow> string \<Rightarrow> string" where
  "envPath appId env = appPath appId @ ''/envs/'' @ encodeURIComponent env"

definition elementPath :: "string \<Rightarrow> string \<Rightarrow> string \<Rightarrow> string" where
  "elementPath appId env key = envPath appId env @ ''/elements/'' @ encodeURIComponent key"

definition buildDetailPath :: "string \<Rightarrow> string \<Rightarrow> string \<Rightarrow> string" where
  "buildDetailPath appId env key = ''/apps/'' @ encodeURIComponent appId @ ''/envs/'' @ encodeURIComponent env
     @ ''/elements/'' @ encodeURIComponent key"

definition versionsPath :: "string \<Rightarrow> string \<Rightarrow> string \<Rightarrow> string" where
  "versionsPath appId env key = elementPath appId env key @ ''/versions'' @ buildQuery [(''limit'', qnum 100)]"

definition requestElementVersion :: "string \<Rightarrow> string \<Rightarrow> string \<Rightarrow> int \<Rightarrow> effect" where
  "requestElementVersion appId env key version =
     Request (elementPath appId env key @ buildQuery [(''version'', qnum version)]) noInit"

definition requestComparisonElement :: "string \<Rightarrow> string \<Rightarrow> string \<Rightarrow> int \<Rightarrow> effect" where
  "requestComparisonElement appId env key version = requestElementVersion appId env key version"

subsection \<open>Version options\<close>

record VersionOption =
  vo_value :: string
  vo_label :: string
  vo_version :: int
  vo_published :: bool
  vo_element :: Element

definition getVersionLabel :: "VersionOption \<Rightarrow> Translator \<Rightarrow> string" where
  "getVersionLabel option t =
     (if vo_version option \<le> 0 then vo_label option
      else t ''operations.versionLabel''
        [(''version'', PNum (vo_version option)),
         (''status'', PStr (t (if vo_published option then ''operations.versionPublished''
                               else ''operations.versionDraft'') []))])"

definition uniqueStrings :: "string list \<Rightarrow> string list" where
  "uniqueStrings values = js_set_of (filter (\<lambda>v. v \<noteq> []) values)"

definition toVersionOption :: "Element \<Rightarrow> VersionOption option" where
  "toVersionOption element = (case el_version element of
       None \<Rightarrow> None
     | Some n \<Rightarrow>
         if \<not> num_isFinite n \<or> num_le_zero n then None
         else case n of
             Num v \<Rightarrow> Some \<lparr>vo_value = int_str v,
               vo_label = ''v'' @ int_str v @ '' '' @
                 (if truthy_bool (el_published element) then ''published'' else ''draft''),
               vo_version = v,
               vo_published = truthy_bool (el_published element),
               vo_element = element\<rparr>
           | _ \<Rightarrow> None)"

definition toVersionOptions :: "Element list \<Rightarrow> VersionOption list" where
  "toVersionOptions elements =
     sort_key (\<lambda>option. - vo_version option)
       (concat (map (\<lambda>element. case toVersionOption element of Some option \<Rightarrow> [option] | None \<Rightarrow> []) elements))"

fun getUsingVersion :: "Element list \<Rightarrow> int option" where
  "getUsingVersion [] = None"
| "getUsingVersion (element # elements) =
     (case em_usingVersion (el_metadata element) of
        Some (Num v) \<Rightarrow> if 0 < v then Some v else getUsingVersion elements
      | _ \<Rightarrow> getUsingVersion elements)"

definition requestVersionOptions :: "ElementsResponse \<Rightarrow> VersionOption list \<times> int option" where
  \<comment> \<open>what is made of the response to \<open>versionsPath\<close>\<close>
  "requestVersionOptions d =
     (let elements = opt_or (es_elements d) [] in (toVersionOptions elements, getUsingVersion elements))"

definition agentsPath :: string where
  "agentsPath = ''/api/cluster/agents'' @ buildQuery [(''limit'', qnum 100)]"

definition requestAgentIdOptions :: "AgentsResponse \<Rightarrow> string list" where
  "requestAgentIdOptions d =
     uniqueStrings (map (\<lambda>agent. opt_str_or (an_agentId agent) []) (opt_or (as_agents d) []))"

definition instancesFilterPath :: "string \<Rightarrow> string \<Rightarrow> string \<Rightarrow> string" where
  "instancesFilterPath appId env key = ''/api/cluster/instances/filter'' @
     buildQuery [(''app'', qstr appId), (''env'', qstr env), (''key'', qstr key)]"

definition requestInstanceIdOptions :: "InstancesResponse \<Rightarrow> string list" where
  "requestInstanceIdOptions d =
     uniqueStrings (map (\<lambda>instance. opt_str_or (in_clientId instance) []) (opt_or (ir_instances d) []))"

subsection \<open>The menu entry of a version\<close>

definition renderVersionMenuItem :: "VersionOption \<Rightarrow> Translator \<Rightarrow> bool \<Rightarrow> bool \<Rightarrow> MenuEntry" where
  "renderVersionMenuItem option t disabled current =
     \<lparr>me_value = vo_value option,
      me_disabled = disabled,
      me_ariaLabel = getVersionLabel option t,
      me_text = (if vo_version option > 0 then ''v'' @ int_str (vo_version option) else vo_label option),
      me_current = (if current then Some (t ''operations.versionCurrent'' []) else None),
      me_status = (if vo_published option then ''published'' else ''draft''),
      me_statusText = t (if vo_published option then ''operations.versionPublished''
                         else ''operations.versionDraft'') []\<rparr>"

subsection \<open>Facts\<close>

lemma elementPath_inject:
  "elementPath a e k = elementPath a' e' k' \<longleftrightarrow> a = a' \<and> e = e' \<and> k = k'"
  by (simp add: elementPath_def envPath_def appPath_def delim_split encodeURIComponent_no_delim)

lemma buildDetailPath_inject:
  "buildDetailPath a e k = buildDetailPath a' e' k' \<longleftrightarrow> a = a' \<and> e = e' \<and> k = k'"
  by (simp add: buildDetailPath_def delim_split encodeURIComponent_no_delim)

lemma toVersionOption_Some:
  "toVersionOption element = Some option \<longleftrightarrow>
   (\<exists>v. el_version element = Some (Num v) \<and> 0 < v \<and>
      option = \<lparr>vo_value = int_str v,
        vo_label = ''v'' @ int_str v @ '' '' @
          (if truthy_bool (el_published element) then ''published'' else ''draft''),
        vo_version = v, vo_published = truthy_bool (el_published element), vo_element = element\<rparr>)"
  by (auto simp: toVersionOption_def num_defs split: option.splits js_number.splits)

lemma set_toVersionOptions:
  "set (toVersionOptions elements) = {option. \<exists>element \<in> set elements. toVersionOption element = Some option}"
  by (force simp: toVersionOptions_def split: option.splits)

text \<open>What holds of every option of the list.\<close>

lemma toVersionOptionsD:
  assumes "option \<in> set (toVersionOptions elements)"
  shows "vo_value option = int_str (vo_version option)" "0 < vo_version option"
    "el_version (vo_element option) = Some (Num (vo_version option))"
    "vo_published option = truthy_bool (el_published (vo_element option))"
  using assms by (auto simp: set_toVersionOptions toVersionOption_Some)

lemma toVersionOptions_sorted: "sorted_wrt (\<ge>) (map vo_version (toVersionOptions elements))"
proof -
  let ?f = "\<lambda>option. - vo_version option"
  have "sorted (map ?f (toVersionOptions elements))"
    by (simp add: toVersionOptions_def)
  then show ?thesis
    by (simp add: sorted_wrt_map)
qed

lemma getUsingVersion_positive: "getUsingVersion elements = Some v \<Longrightarrow> 0 < v"
  by (induction elements rule: getUsingVersion.induct)
    (auto split: option.splits js_number.splits if_splits)

lemma set_uniqueStrings: "set (uniqueStrings xs) = set xs - {[]}"
  by (auto simp: uniqueStrings_def)

lemma distinct_uniqueStrings: "distinct (uniqueStrings xs)"
  by (simp add: uniqueStrings_def)

subsection \<open>Properties\<close>

text \<open>The version options are the elements with a positive finite version, each once, newest
  first; the value of an option is the numeral of its version, and its element is one of the
  elements received.\<close>

theorem toVersionOptions_spec:
  "sorted_wrt (\<ge>) (map vo_version (toVersionOptions elements)) \<and>
   mset (toVersionOptions elements) = mset (List.map_filter toVersionOption elements) \<and>
   (\<forall>x \<in> set (toVersionOptions elements). vo_value x = int_str (vo_version x) \<and> 0 < vo_version x \<and>
      vo_element x \<in> set elements \<and> el_version (vo_element x) = Some (Num (vo_version x)))"
proof -
  have "concat (map (\<lambda>e. case toVersionOption e of Some x \<Rightarrow> [x] | None \<Rightarrow> []) es) = List.map_filter toVersionOption es" for es
    by (induction es) (auto simp: List.map_filter_simps split: option.splits)
  then have "mset (toVersionOptions elements) = mset (List.map_filter toVersionOption elements)"
    by (simp add: toVersionOptions_def)
  moreover have "vo_element x \<in> set elements" if "x \<in> set (toVersionOptions elements)" for x
    using that by (auto simp: set_toVersionOptions toVersionOption_Some)
  ultimately show ?thesis
    using toVersionOptions_sorted [of elements] toVersionOptionsD by blast
qed

theorem toVersionOptions_spec_witness:
  "sorted_wrt (\<ge>) (map vo_version (toVersionOptions
     [\<lparr>el_metadata = \<lparr>em_key = ''k'', em_latestVersion = None, em_usingVersion = None,
       em_unpublishedVersion = None, em_contentType = None\<rparr>, el_raw = None, el_version = Some (Num 3), el_published = None\<rparr>]))"
  using toVersionOptions_spec by blast

text \<open>Different elements have different request paths and different detail pages, whatever
  characters the identifiers contain.\<close>

theorem paths_inject:
  "(elementPath a e k = elementPath a' e' k' \<longleftrightarrow> a = a' \<and> e = e' \<and> k = k') \<and>
   (buildDetailPath a e k = buildDetailPath a' e' k' \<longleftrightarrow> a = a' \<and> e = e' \<and> k = k')"
  by (simp add: elementPath_inject buildDetailPath_inject)

end
