(* ===== verification/Raw_Codec.thy ===== *)
theory Raw_Codec
  imports Js_Text
begin

section \<open>Raw content: \<open>lib/raw.ts\<close>\<close>

text \<open>
  \<open>decodeRaw\<close> reads the base64 text in which the server sends an element's content: \<open>atob\<close> (the
  forgiving base64 decoder of the Infra standard), then a fatal UTF-8 \<open>TextDecoder\<close>; when either
  rejects, the input is returned as it came. Since strings are modelled by their UTF-8 bytes, a
  successful decoding yields the bytes themselves, less a byte order mark. The reference encoder
  \<open>b64_encode\<close> is standard base64 with padding, which the server's JSON encoding uses for byte
  fields.
\<close>

definition b64_alphabet :: string where
  "b64_alphabet = ''ABCDEFGHIJKLMNOPQRSTUVWXYZabcdefghijklmnopqrstuvwxyz0123456789+/''"

definition b64_index :: "char \<Rightarrow> nat option" where
  "b64_index c = map_of (zip b64_alphabet [0..<64]) c"

definition ascii_ws :: "char \<Rightarrow> bool" where
  "ascii_ws c = (c \<in> {CHR 0x09, CHR 0x0A, CHR 0x0C, CHR 0x0D, CHR 0x20})"

fun b64_bytes :: "nat list \<Rightarrow> nat list" where
  "b64_bytes (a # b # c # d # r) =
     [a * 4 + b div 16, b mod 16 * 16 + c div 4, c mod 4 * 64 + d] @ b64_bytes r"
| "b64_bytes [a, b, c] = [a * 4 + b div 16, b mod 16 * 16 + c div 4]"
| "b64_bytes [a, b] = [a * 4 + b div 16]"
| "b64_bytes _ = []"

definition strip_padding :: "string \<Rightarrow> string" where
  "strip_padding s =
     (if length s mod 4 \<noteq> 0 then s
      else if js_endsWith s ''=='' then butlast (butlast s)
      else if js_endsWith s ''='' then butlast s else s)"

definition atob :: "string \<Rightarrow> nat list option" where
  "atob s = (let u = strip_padding (filter (\<lambda>c. \<not> ascii_ws c) s) in
     if length u mod 4 = 1 then None else map_option b64_bytes (those (map b64_index u)))"

definition cont :: "nat \<Rightarrow> bool" where
  "cont b = (128 \<le> b \<and> b \<le> 191)"

fun utf8_valid :: "nat list \<Rightarrow> bool" where
  "utf8_valid [] = True"
| "utf8_valid (a # r) =
     (if a < 128 then utf8_valid r
      else if 194 \<le> a \<and> a \<le> 223 then
        (case r of b # r' \<Rightarrow> cont b \<and> utf8_valid r' | [] \<Rightarrow> False)
      else if 224 \<le> a \<and> a \<le> 239 then
        (case r of b # c # r' \<Rightarrow> cont b \<and> cont c \<and> (a = 224 \<longrightarrow> 160 \<le> b) \<and> (a = 237 \<longrightarrow> b \<le> 159) \<and> utf8_valid r'
         | _ \<Rightarrow> False)
      else if 240 \<le> a \<and> a \<le> 244 then
        (case r of b # c # d # r' \<Rightarrow> cont b \<and> cont c \<and> cont d \<and> (a = 240 \<longrightarrow> 144 \<le> b) \<and> (a = 244 \<longrightarrow> b \<le> 143)
           \<and> utf8_valid r'
         | _ \<Rightarrow> False)
      else False)"

definition strip_bom :: "nat list \<Rightarrow> nat list" where
  "strip_bom bs = (if take 3 bs = [239, 187, 191] then drop 3 bs else bs)"

definition decode_utf8 :: "nat list \<Rightarrow> string option" where
  "decode_utf8 bs = (if utf8_valid bs then Some (map char_of (strip_bom bs)) else None)"

definition decodeRaw :: "string option \<Rightarrow> string" where
  "decodeRaw raw =
     (if \<not> truthy_str raw then []
      else case atob (the raw) of
          None \<Rightarrow> the raw
        | Some bytes \<Rightarrow> (case decode_utf8 bytes of None \<Rightarrow> the raw | Some s \<Rightarrow> s))"

subsection \<open>The reference encoder\<close>

definition b64_char :: "nat \<Rightarrow> char" where
  "b64_char i = b64_alphabet ! i"

fun b64_sextets :: "nat list \<Rightarrow> nat list" where
  "b64_sextets (a # b # c # r) =
     [a div 4, a mod 4 * 16 + b div 16, b mod 16 * 4 + c div 64, c mod 64] @ b64_sextets r"
| "b64_sextets [a, b] = [a div 4, a mod 4 * 16 + b div 16, b mod 16 * 4]"
| "b64_sextets [a] = [a div 4, a mod 4 * 16]"
| "b64_sextets [] = []"

definition b64_encode :: "string \<Rightarrow> string" where
  "b64_encode s = map b64_char (b64_sextets (map of_char s)) @
     (if length s mod 3 = 1 then ''=='' else if length s mod 3 = 2 then ''='' else [])"

definition utf8_text :: "string \<Rightarrow> bool" where
  "utf8_text s = utf8_valid (map of_char s)"

subsection \<open>Decoding inverts encoding\<close>

lemma alphabet_length [simp]: "length b64_alphabet = 64"
  by (simp add: b64_alphabet_def)

lemma alphabet_distinct: "distinct b64_alphabet"
  unfolding b64_alphabet_def by code_simp

lemma b64_index_char: "i < 64 \<Longrightarrow> b64_index (b64_char i) = Some i"
  using map_of_zip_nth [of b64_alphabet "[0..<64]" i] alphabet_distinct
  by (simp add: b64_index_def b64_char_def)

lemma b64_char_plain: "i < 64 \<Longrightarrow> \<not> ascii_ws (b64_char i) \<and> b64_char i \<noteq> CHR ''=''"
proof -
  assume "i < 64"
  then have "b64_char i \<in> set b64_alphabet" by (simp add: b64_char_def)
  moreover have "\<forall>c \<in> set b64_alphabet. \<not> ascii_ws c \<and> c \<noteq> CHR ''=''"
    by (simp add: b64_alphabet_def ascii_ws_def)
  ultimately show ?thesis by blast
qed

lemma byte_parts:
  assumes "b < (256::nat)"
  shows "b div 4 < 64" "b div 16 < 16" "b div 64 < 4"
  using assms by simp_all

lemma pack_bound:
  assumes "k < (m::nat)" and "x < n"
  shows "x * m + k < n * m"
proof -
  have "x * m + k < (x + 1) * m" using assms(1) by simp
  also have "\<dots> \<le> n * m" using assms(2) by (intro mult_right_mono) simp_all
  finally show ?thesis .
qed

lemma sextet_bounds:
  assumes "a < (256::nat)" and "b < (256::nat)"
  shows "a div 4 < 64" "a mod 4 * 16 + b div 16 < 64" "a mod 16 * 4 + b div 64 < 64"
    "a mod 4 * 16 < 64" "a mod 16 * 4 < 64"
  using byte_parts [OF assms(1)] byte_parts [OF assms(2)]
    pack_bound [of "b div 16" 16 "a mod 4" 4] pack_bound [of "b div 64" 4 "a mod 16" 16]
    pack_bound [of 0 16 "a mod 4" 4] pack_bound [of 0 4 "a mod 16" 16]
  by simp_all

lemma sextets_bound:
  "\<forall>b \<in> set bs. b < 256 \<Longrightarrow> \<forall>i \<in> set (b64_sextets bs). i < 64"
  by (induction bs rule: b64_sextets.induct) (simp_all add: sextet_bounds byte_parts)

lemma byte_small:
  assumes "b < (256::nat)"
  shows "b div 16 div 16 = 0" "b div 16 mod 16 = b div 16" "b div 64 div 4 = 0" "b div 64 mod 4 = b div 64"
  using byte_parts [OF assms] by simp_all

lemma bytes_sextets: "\<forall>b \<in> set bs. b < 256 \<Longrightarrow> b64_bytes (b64_sextets bs) = bs"
  by (induction bs rule: b64_sextets.induct) (simp_all add: byte_small)

lemma sextets_length:
  "length (b64_sextets bs) mod 4 =
     (if length bs mod 3 = 0 then 0 else if length bs mod 3 = 1 then 2 else 3)"
proof (induction bs rule: b64_sextets.induct)
  case (1 a b c r)
  have "length (b64_sextets (a # b # c # r)) = length (b64_sextets r) + 4"
    and "length (a # b # c # r) = length r + 3" by simp_all
  with 1 show ?case by (simp only: mod_add_self2)
qed simp_all

lemma strip_padding_encode:
  assumes "\<forall>c \<in> set u. c \<noteq> CHR ''=''"
    and "length u mod 4 = (if m = 0 then 0 else if m = 1 then 2 else 3)" and "m < 3"
  shows "strip_padding (u @ (if m = 1 then ''=='' else if m = (2::nat) then ''='' else [])) = u"
proof -
  have e: "js_endsWith (u @ p) p" for p by (simp add: js_endsWith_iff)
  have eq: "(x @ ''=='') = (x @ ''='') @ ''=''" for x by simp
  have n1: "\<not> js_endsWith u ''=''"
    using assms(1) unfolding js_endsWith_iff by (metis in_set_conv_decomp)
  then have n3: "\<not> js_endsWith u ''==''"
    unfolding js_endsWith_iff by (metis eq)
  have n2: "\<not> js_endsWith (u @ ''='') ''==''"
    using n1 unfolding js_endsWith_iff eq by simp
  from assms(3) consider "m = 0" | "m = 1" | "m = 2" by linarith
  then show ?thesis
  proof cases
    case 1
    with assms n1 n3 show ?thesis by (simp add: strip_padding_def)
  next
    case 2
    then have "(length u + 2) mod 4 = 0" using assms(2) by presburger
    with 2 e [of "''==''"] show ?thesis
      by (simp add: strip_padding_def butlast_append)
  next
    case 3
    then have "(length u + 1) mod 4 = 0" using assms(2) by presburger
    with 3 n2 e [of "''=''"] show ?thesis
      by (simp add: strip_padding_def)
  qed
qed

lemma those_map_Some: "those (map (\<lambda>x. Some (f x)) xs) = Some (map f xs)"
  by (induction xs) auto

lemma atob_encode: "atob (b64_encode s) = Some (map of_char s)"
proof -
  let ?bs = "map of_char s :: nat list" and ?u = "map b64_char (b64_sextets (map of_char s))"
  let ?p = "if length s mod 3 = 1 then ''=='' else if length s mod 3 = 2 then ''='' else []"
  have b: "\<forall>b \<in> set ?bs. b < 256" by auto
  note sx = sextets_bound [OF b]
  have "filter (\<lambda>c. \<not> ascii_ws c) ?u = ?u"
    using sx b64_char_plain by (auto intro!: filter_True)
  moreover have "filter (\<lambda>c. \<not> ascii_ws c) ?p = ?p"
    by (simp add: ascii_ws_def)
  ultimately have f: "filter (\<lambda>c. \<not> ascii_ws c) (b64_encode s) = ?u @ ?p"
    by (simp add: b64_encode_def)
  have len: "length ?u mod 4 = (if length s mod 3 = 0 then 0 else if length s mod 3 = 1 then 2 else 3)"
    using sextets_length [of ?bs] by simp
  have "strip_padding (?u @ ?p) = ?u"
    using sx b64_char_plain by (intro strip_padding_encode len) auto
  moreover have "those (map b64_index ?u) = Some (b64_sextets ?bs)"
  proof -
    have "map (b64_index \<circ> b64_char) (b64_sextets ?bs) = map (\<lambda>i. Some (id i)) (b64_sextets ?bs)"
      using sx by (intro map_cong) (simp_all add: b64_index_char)
    then show ?thesis using those_map_Some [of id "b64_sextets ?bs"] by (simp del: map_eq_conv)
  qed
  ultimately show ?thesis
    using len bytes_sextets [OF b] by (simp add: atob_def f Let_def)
qed

lemma b64_encode_Nil_iff: "b64_encode s = [] \<longleftrightarrow> s = []"
  by (cases s rule: rev_cases; cases "map of_char s :: nat list" rule: b64_sextets.cases)
    (auto simp: b64_encode_def)

subsection \<open>Properties\<close>

text \<open>C37: What becomes of content the server sends in its base64 form, for every sequence of bytes:
  content that is UTF-8 text is shown as it was written, except that a byte order mark at its start is
  removed (so content without one is given back exactly); content that is not UTF-8 text is shown in
  its base64 form.\<close>

theorem decodeRaw_encode:
  "decodeRaw (Some (b64_encode s)) =
     (if \<not> utf8_text s then b64_encode s
      else if take 3 s = [CHR 0xEF, CHR 0xBB, CHR 0xBF] then drop 3 s
      else s)"
proof -
  have bom: "take 3 (map of_char s) = [239, 187, 191 :: nat] \<longleftrightarrow> take 3 s = [CHR 0xEF, CHR 0xBB, CHR 0xBF]"
  proof -
    have "map (of_char :: char \<Rightarrow> nat) [CHR 0xEF, CHR 0xBB, CHR 0xBF] = [239, 187, 191]" by simp
    then show ?thesis unfolding take_map by (metis inj_map_eq_map inj_of_char)
  qed
  have bytes: "map char_of (map (of_char :: char \<Rightarrow> nat) xs) = xs" for xs
    by (simp add: comp_def)
  show ?thesis
  proof (cases "s = []")
    case False
    then have enc: "decodeRaw (Some (b64_encode s)) = (case decode_utf8 (map of_char s) of None \<Rightarrow> b64_encode s | Some u \<Rightarrow> u)"
      by (simp add: decodeRaw_def b64_encode_Nil_iff atob_encode option.sel cong: option.case_cong)
    show ?thesis unfolding enc decode_utf8_def utf8_text_def strip_bom_def bom using bytes [of s] bytes [of "drop 3 s"]
      by (simp add: drop_map)
  qed (simp add: decodeRaw_def b64_encode_Nil_iff utf8_text_def)
qed

end
