(* ===== verification/Wizard_Common.thy ===== *)
theory Wizard_Common
  imports Workflow_Options Raw_Codec
begin

section \<open>What the publish and the rollback wizard share\<close>

text \<open>
  The parameters of a wizard (its route), the pair of elements it compares, the parts of the
  panels both render, and the conditions on the loaded options and on the loaded difference that
  the invariants of the two wizards use.
\<close>

record WizardProps =
  wp_appId :: string
  wp_env :: string
  wp_elementKey :: string

record DiffPair =
  dp_base :: Element
  dp_compare :: Element

definition wp_missingParams :: "WizardProps \<Rightarrow> bool" where
  "wp_missingParams p = (wp_appId p = [] \<or> wp_env p = [] \<or> wp_elementKey p = [])"

definition wp_detailPath :: "WizardProps \<Rightarrow> string" where
  "wp_detailPath p = buildDetailPath (wp_appId p) (wp_env p) (wp_elementKey p)"

definition wp_loadKey :: "WizardProps \<Rightarrow> string" where
  "wp_loadKey p = json_stringify (JObj [(''appId'', JStr (wp_appId p)),
     (''elementKey'', JStr (wp_elementKey p)), (''env'', JStr (wp_env p))])"

definition no_version_option :: "WizardProps \<Rightarrow> string \<Rightarrow> VersionOption" where
  \<comment> \<open>the entry shown when there are no versions\<close>
  "no_version_option p label =
     \<lparr>vo_value = [], vo_label = label, vo_version = 0, vo_published = True,
      vo_element = \<lparr>el_metadata = \<lparr>em_key = wp_elementKey p, em_latestVersion = None,
          em_usingVersion = None, em_unpublishedVersion = None, em_contentType = None\<rparr>,
        el_raw = None, el_version = None, el_published = None\<rparr>\<rparr>"

definition version_or_dash :: "int option \<Rightarrow> string" where
  "version_or_dash v = (case v of Some n \<Rightarrow> int_str n | None \<Rightarrow> ''-'')"

definition selected_label :: "Translator \<Rightarrow> VersionOption option \<Rightarrow> string \<Rightarrow> string" where
  "selected_label t sel none = (case sel of Some option \<Rightarrow> getVersionLabel option t | None \<Rightarrow> none)"

definition diff_props :: "Translator \<Rightarrow> DiffPair \<Rightarrow> int option \<Rightarrow> string \<Rightarrow> DiffViewerProps" where
  "diff_props t pair currentVersion compareLabel =
     \<lparr>dv_oldValue = decodeRaw (el_raw (dp_base pair)),
      dv_newValue = decodeRaw (el_raw (dp_compare pair)),
      dv_baseLabel = Some (t ''operations.currentVersionLabel''
        [(''version'', case currentVersion of Some v \<Rightarrow> PNum v | None \<Rightarrow> PStr ''-'')]),
      dv_compareLabel = Some compareLabel,
      dv_contentType = em_contentType (el_metadata (dp_compare pair))\<rparr>"

definition wizard_crumbs :: "Translator \<Rightarrow> WizardProps \<Rightarrow> string \<Rightarrow> BreadcrumbItem list" where
  "wizard_crumbs t p lastKey =
     [\<lparr>bi_label = t ''operations.apps'' [], bi_to = Some ''/apps''\<rparr>,
      \<lparr>bi_label = str_or (wp_appId p) (t ''operations.unknown'' []),
       bi_to = Some (''/apps/'' @ encodeURIComponent (wp_appId p) @ ''/envs'')\<rparr>,
      \<lparr>bi_label = str_or (wp_env p) (t ''operations.unknown'' []),
       bi_to = Some (''/apps/'' @ encodeURIComponent (wp_appId p) @ ''/envs/'' @
                     encodeURIComponent (wp_env p) @ ''/elements'')\<rparr>,
      \<lparr>bi_label = str_or (wp_elementKey p) (t ''operations.unknown'' []), bi_to = Some (wp_detailPath p)\<rparr>,
      \<lparr>bi_label = t lastKey [], bi_to = None\<rparr>]"

definition options_ok :: "VersionOption list \<Rightarrow> bool" where
  "options_ok os = (\<forall>x \<in> set os. vo_value x = int_str (vo_version x) \<and> 0 < vo_version x \<and>
     el_version (vo_element x) = Some (Num (vo_version x)))"

text \<open>The loaded difference is the one between the version in use and the given option.\<close>

definition base_ok :: "int option \<Rightarrow> Element \<Rightarrow> bool" where
  "base_ok usingVersion base = (case usingVersion of
       Some u \<Rightarrow> el_version base = Some (Num u)
     | None \<Rightarrow> el_raw base = Some [])"

definition pair_shows :: "int option \<Rightarrow> DiffPair option \<Rightarrow> VersionOption \<Rightarrow> bool" where
  "pair_shows usingVersion pair x = (case pair of
       None \<Rightarrow> False
     | Some d \<Rightarrow> dp_compare d = vo_element x \<and> base_ok usingVersion (dp_base d))"

lemma options_ok_request: "options_ok (fst (requestVersionOptions d))"
  by (auto simp: options_ok_def requestVersionOptions_def Let_def dest: toVersionOptionsD)

lemma options_ok_Nil [simp]: "options_ok []"
  by (simp add: options_ok_def)

text \<open>The empty value selects nothing.\<close>

lemma find_empty_value: "options_ok os \<Longrightarrow> find (\<lambda>x. vo_value x = []) os = None"
  by (auto simp: options_ok_def find_None_iff)

lemma find_live:
  "options_ok os \<Longrightarrow> find (\<lambda>x. vo_version x = u) os = Some live \<Longrightarrow> el_version (vo_element live) = Some (Num u)"
  by (auto simp: options_ok_def dest!: find_SomeD)

definition demo_meta :: ElementMetadata where
  "demo_meta = \<lparr>em_key = ''k'', em_latestVersion = None, em_usingVersion = Some (Num 1),
     em_unpublishedVersion = None, em_contentType = Some (CTNum 1)\<rparr>"

definition demo_versions :: ElementsResponse where
  "demo_versions = \<lparr>es_elements = Some
     [\<lparr>el_metadata = demo_meta, el_raw = Some ''e30='', el_version = Some (Num 1), el_published = Some True\<rparr>,
      \<lparr>el_metadata = demo_meta, el_raw = Some ''W10='', el_version = Some (Num 2), el_published = None\<rparr>],
     es_hasMore = None, es_nextSeek = None\<rparr>"

definition demo_props :: WizardProps where
  "demo_props = \<lparr>wp_appId = ''a'', wp_env = ''e'', wp_elementKey = ''k''\<rparr>"

definition is_post :: "effect \<Rightarrow> bool" where
  "is_post x = (case x of Request _ ri \<Rightarrow> ri_method ri = Some ''POST'' | _ \<Rightarrow> False)"

end
