(* ===== verification/Publish_Wizard.thy ===== *)
theory Publish_Wizard
  imports Wizard_Common
begin

section \<open>The publish wizard: \<open>publish/PublishWizardPage.tsx\<close>\<close>

text \<open>
  The wizard as a step function over events: mounting, the queued loading of the options, the
  user's input, and the settling of the requests in flight. An asynchronous handler is split at
  its \<open>await\<close>: the part before it emits the request and appends what the continuation captured
  to \<open>pw_pending\<close>; settling the \<open>i\<close>-th pending request runs the part after it. A control reacts
  only while the page is mounted and shows the control enabled. The values an \<open>onChange\<close> reports
  are arbitrary, so nothing rests on the menu refusing a disabled entry.

  The main facts: every modifying request the wizard sends is the publishing of the selected
  version, which is newer than the one in use and whose difference has been loaded for review;
  no two are in flight at once; and what the confirmation panel shows is what is sent.
\<close>

subsection \<open>State\<close>

datatype PublishPending =
    AwaitPublishOptions
  | AwaitPublishDiff VersionOption int
  | AwaitPublish "int option" int

record PublishState =
  pw_activeStep :: nat
  pw_version :: string
  pw_versionOptions :: "VersionOption list"
  pw_agentOptions :: "string list"
  pw_instanceOptions :: "string list"
  pw_usingVersion :: "int option"
  pw_agentIds :: "string list"
  pw_instanceIds :: "string list"
  pw_publishMode :: int
  pw_diffPair :: "DiffPair option"
  pw_diffLoaded :: bool
  pw_diffLoading :: bool
  pw_currentVersion :: "int option"
  pw_optionsLoading :: bool
  pw_submitting :: bool
  pw_mounted :: bool
  pw_lastLoadKey :: string
  pw_cancelOpen :: bool
  pw_queued :: nat
  pw_pending :: "PublishPending list"

definition initPublish :: PublishState where
  "initPublish = \<lparr>pw_activeStep = 0, pw_version = [], pw_versionOptions = [], pw_agentOptions = [],
     pw_instanceOptions = [], pw_usingVersion = None, pw_agentIds = [], pw_instanceIds = [],
     pw_publishMode = 2, pw_diffPair = None, pw_diffLoaded = False, pw_diffLoading = False,
     pw_currentVersion = None, pw_optionsLoading = False, pw_submitting = False, pw_mounted = False,
     pw_lastLoadKey = [], pw_cancelOpen = False, pw_queued = 0, pw_pending = []\<rparr>"

definition publishStepKeys :: "string list" where
  "publishStepKeys = [''operations.version'', ''operations.strategy'', ''operations.targets'',
     ''operations.reviewDiff'', ''operations.impactConfirmation'', ''operations.result'']"

definition getStrategyLabel :: "int \<Rightarrow> Translator \<Rightarrow> string" where
  "getStrategyLabel publishMode t =
     t (if publishMode = 1 then ''operations.publish.gray'' else ''operations.publish.full'') []"

definition isPublishVersionDisabled :: "VersionOption \<Rightarrow> int option \<Rightarrow> bool" where
  "isPublishVersionDisabled option usingVersion = (case usingVersion of
       None \<Rightarrow> vo_published option
     | Some u \<Rightarrow> vo_version option \<le> u)"

subsection \<open>Values derived at each rendering\<close>

definition pw_selectedVersion :: "PublishState \<Rightarrow> VersionOption option" where
  "pw_selectedVersion s = find (\<lambda>option. vo_value option = pw_version s) (pw_versionOptions s)"

definition pw_parsedVersion :: "PublishState \<Rightarrow> int option" where
  "pw_parsedVersion s = map_option vo_version (pw_selectedVersion s)"

definition pw_versionIsValid :: "PublishState \<Rightarrow> bool" where
  "pw_versionIsValid s = (case pw_selectedVersion s of
       None \<Rightarrow> False
     | Some option \<Rightarrow> \<not> isPublishVersionDisabled option (pw_usingVersion s))"

definition pw_hasExplicitTargets :: "PublishState \<Rightarrow> bool" where
  "pw_hasExplicitTargets s = (0 < length (pw_agentIds s) \<or> 0 < length (pw_instanceIds s))"

definition pw_grayTargetsAreValid :: "PublishState \<Rightarrow> bool" where
  "pw_grayTargetsAreValid s = (pw_publishMode s \<noteq> 1 \<or> pw_hasExplicitTargets s)"

definition pw_nextDisabled :: "WizardProps \<Rightarrow> PublishState \<Rightarrow> bool" where
  "pw_nextDisabled p s =
     (wp_missingParams p \<or> pw_submitting s \<or> pw_diffLoading s \<or>
      (pw_activeStep s = 0 \<and> (pw_optionsLoading s \<or> \<not> pw_versionIsValid s)) \<or>
      (pw_activeStep s = 2 \<and> \<not> pw_grayTargetsAreValid s) \<or>
      (pw_activeStep s = 3 \<and> \<not> pw_diffLoaded s))"

definition pw_backDisabled :: "PublishState \<Rightarrow> bool" where
  "pw_backDisabled s =
     (pw_activeStep s = 0 \<or> pw_activeStep s = 5 \<or> pw_submitting s \<or> pw_diffLoading s)"

subsection \<open>Loading the options\<close>

type_synonym publish_handler = "PublishState \<Rightarrow> PublishState \<times> effect list"

definition pw_loadOptions :: "WizardProps \<Rightarrow> publish_handler" where
  "pw_loadOptions p s =
     (if wp_missingParams p then (s, [])
      else (s\<lparr>pw_optionsLoading := True, pw_pending := pw_pending s @ [AwaitPublishOptions]\<rparr>,
            [Request (versionsPath (wp_appId p) (wp_env p) (wp_elementKey p)) noInit,
             Request agentsPath noInit,
             Request (instancesFilterPath (wp_appId p) (wp_env p) (wp_elementKey p)) noInit]))"

definition pw_optionsLoaded ::
  "Translator \<Rightarrow> failure + (ElementsResponse \<times> AgentsResponse \<times> InstancesResponse) \<Rightarrow> publish_handler" where
  "pw_optionsLoaded t outcome s =
     (if \<not> pw_mounted s then (s, [])
      else case outcome of
          Inr (versions, agents, instances) \<Rightarrow>
            (s\<lparr>pw_versionOptions := fst (requestVersionOptions versions),
               pw_usingVersion := snd (requestVersionOptions versions),
               pw_agentOptions := requestAgentIdOptions agents,
               pw_instanceOptions := requestInstanceIdOptions instances,
               pw_version := [], pw_agentIds := [], pw_instanceIds := [],
               pw_optionsLoading := False\<rparr>, [])
        | Inl err \<Rightarrow>
            (s\<lparr>pw_versionOptions := [], pw_usingVersion := None, pw_agentOptions := [],
               pw_instanceOptions := [], pw_optionsLoading := False\<rparr>,
             [ShowToast (getErrorMessage err (t ''operations.publish.loadFailed'' [])) Error]))"

definition pw_mountEffect :: "WizardProps \<Rightarrow> publish_handler" where
  "pw_mountEffect p s =
     (let s' = s\<lparr>pw_mounted := True\<rparr> in
      if pw_lastLoadKey s \<noteq> wp_loadKey p
      then (s'\<lparr>pw_lastLoadKey := wp_loadKey p, pw_queued := pw_queued s + 1\<rparr>, [])
      else (s', []))"

definition pw_cleanup :: publish_handler where
  "pw_cleanup s = (s\<lparr>pw_mounted := False\<rparr>, [])"

subsection \<open>Loading the difference\<close>

definition draft_base :: "VersionOption \<Rightarrow> Element" where
  "draft_base target = \<lparr>el_metadata = el_metadata (vo_element target), el_raw = Some [],
     el_version = Some (Num 0), el_published = Some True\<rparr>"

definition pw_showDiff :: "int option \<Rightarrow> Element \<Rightarrow> VersionOption \<Rightarrow> PublishState \<Rightarrow> PublishState" where
  "pw_showDiff current base target s =
     s\<lparr>pw_currentVersion := current,
       pw_diffPair := Some \<lparr>dp_base = base, dp_compare = vo_element target\<rparr>,
       pw_diffLoaded := True, pw_activeStep := 3, pw_diffLoading := False\<rparr>"

definition pw_handleLoadDiffAndAdvance :: "Translator \<Rightarrow> WizardProps \<Rightarrow> publish_handler" where
  "pw_handleLoadDiffAndAdvance t p s =
     (if wp_missingParams p \<or> \<not> pw_versionIsValid s \<or> pw_diffLoading s \<or> pw_submitting s then (s, [])
      else
        let liveVersion = (case pw_usingVersion s of None \<Rightarrow> None
              | Some u \<Rightarrow> find (\<lambda>option. vo_version option = u) (pw_versionOptions s));
            s' = s\<lparr>pw_diffLoading := True, pw_diffLoaded := False, pw_diffPair := None,
                   pw_currentVersion := None\<rparr>
        in case pw_selectedVersion s of
            None \<Rightarrow> (s'\<lparr>pw_diffLoading := False\<rparr>,
                     [ShowToast (t ''operations.publish.selectVersion'' []) Error])
          | Some target \<Rightarrow> (case liveVersion of
              Some live \<Rightarrow> (pw_showDiff (pw_usingVersion s) (vo_element live) target s', [])
            | None \<Rightarrow> (case pw_usingVersion s of
                None \<Rightarrow>
                  if \<not> vo_published target then (pw_showDiff None (draft_base target) target s', [])
                  else (s'\<lparr>pw_diffLoading := False\<rparr>,
                        [ShowToast (t ''operations.publish.noComparison'' []) Error])
              | Some u \<Rightarrow>
                  (s'\<lparr>pw_pending := pw_pending s @ [AwaitPublishDiff target u]\<rparr>,
                   [requestComparisonElement (wp_appId p) (wp_env p) (wp_elementKey p) u]))))"

definition pw_diffSettled ::
  "Translator \<Rightarrow> VersionOption \<Rightarrow> int \<Rightarrow> failure + Element option \<Rightarrow> publish_handler" where
  "pw_diffSettled t target u outcome s =
     (if \<not> pw_mounted s then (s, [])
      else case deref outcome of
          Inl err \<Rightarrow> (s\<lparr>pw_diffLoading := False\<rparr>,
                     [ShowToast (getErrorMessage err (t ''operations.publish.noComparison'' [])) Error])
        | Inr currentVersionData \<Rightarrow>
            if el_version currentVersionData \<noteq> Some (Num u)
            then (s\<lparr>pw_diffLoading := False\<rparr>,
                  [ShowToast (t ''operations.publish.noComparison'' []) Error])
            else (pw_showDiff (Some u) currentVersionData target s, []))"

subsection \<open>Publishing\<close>

definition publishPath :: "WizardProps \<Rightarrow> string" where
  "publishPath p = elementPath (wp_appId p) (wp_env p) (wp_elementKey p) @ ''/publish''"

definition publishPayload :: "PublishState \<Rightarrow> json" where
  "publishPayload s = JObj
     ([(''version'', case pw_parsedVersion s of Some v \<Rightarrow> JNum v | None \<Rightarrow> JNull),
       (''publishMode'', JNum (pw_publishMode s))] @
      (if pw_publishMode s = 1
       then [(''agentId'', JArr (map JStr (pw_agentIds s))),
             (''instanceId'', JArr (map JStr (pw_instanceIds s)))]
       else []))"

definition pw_handlePublish :: "WizardProps \<Rightarrow> publish_handler" where
  "pw_handlePublish p s =
     (if wp_missingParams p \<or> \<not> pw_versionIsValid s \<or> \<not> pw_grayTargetsAreValid s \<or> pw_submitting s
      then (s, [])
      else (s\<lparr>pw_submitting := True,
              pw_pending := pw_pending s @ [AwaitPublish (pw_parsedVersion s) (pw_publishMode s)]\<rparr>,
            [Request (publishPath p) (jsonBody (publishPayload s))]))"

definition pw_publishSettled ::
  "Translator \<Rightarrow> int option \<Rightarrow> int \<Rightarrow> failure + unit \<Rightarrow> publish_handler" where
  "pw_publishSettled t parsedVersion publishMode outcome s =
     (if \<not> pw_mounted s then (s, [])
      else case outcome of
          Inr _ \<Rightarrow> (s\<lparr>pw_activeStep := 5, pw_submitting := False\<rparr>,
            [ShowToast (t ''operations.publish.queued''
               [(''version'', case parsedVersion of Some v \<Rightarrow> PNum v | None \<Rightarrow> PStr ''-''),
                (''strategy'', PStr (js_toLowerCase (getStrategyLabel publishMode t)))]) Success])
        | Inl err \<Rightarrow> (s\<lparr>pw_submitting := False\<rparr>,
            [ShowToast (getErrorMessage err (t ''operations.publish.failed'' [])) Error]))"

subsection \<open>Navigation\<close>

definition pw_handleNext :: "Translator \<Rightarrow> WizardProps \<Rightarrow> publish_handler" where
  "pw_handleNext t p s =
     (if pw_submitting s \<or> pw_diffLoading s then (s, [])
      else if wp_missingParams p then (s, [ShowToast (t ''operations.missingParams'' []) Error])
      else if pw_activeStep s = 0 then
        if \<not> pw_versionIsValid s then (s, [ShowToast (t ''operations.publish.selectVersion'' []) Error])
        else (s\<lparr>pw_activeStep := 1\<rparr>, [])
      else if pw_activeStep s = 1 then (s\<lparr>pw_activeStep := 2\<rparr>, [])
      else if pw_activeStep s = 2 then
        if \<not> pw_grayTargetsAreValid s
        then (s, [ShowToast (t ''operations.publish.targetsRequired'' []) Error])
        else pw_handleLoadDiffAndAdvance t p s
      else if pw_activeStep s = 3 then (s\<lparr>pw_activeStep := 4\<rparr>, [])
      else if pw_activeStep s = 4 then pw_handlePublish p s
      else (s, [Navigate (wp_detailPath p)]))"

definition pw_handleBack :: publish_handler where
  "pw_handleBack s = (if pw_submitting s then (s, []) else (s\<lparr>pw_activeStep := pw_activeStep s - 1\<rparr>, []))"

subsection \<open>The controls of the panels\<close>

definition pw_changeVersion :: "string \<Rightarrow> publish_handler" where
  "pw_changeVersion v s =
     (s\<lparr>pw_version := v, pw_diffLoaded := False, pw_diffPair := None, pw_currentVersion := None\<rparr>, [])"

definition radio_modes :: "(string \<times> int) list" where
  \<comment> \<open>the two radio buttons, with \<open>Number\<close> of their values\<close>
  "radio_modes = [(''2'', 2), (''1'', 1)]"

definition pw_changeMode :: "int \<Rightarrow> publish_handler" where
  "pw_changeMode nextPublishMode s =
     (let s' = s\<lparr>pw_publishMode := nextPublishMode\<rparr> in
      if nextPublishMode = 2 then (s'\<lparr>pw_agentIds := [], pw_instanceIds := []\<rparr>, []) else (s', []))"

definition pw_selectDisabled :: "WizardProps \<Rightarrow> PublishState \<Rightarrow> bool" where
  "pw_selectDisabled p s = (pw_submitting s \<or> pw_diffLoading s \<or> wp_missingParams p \<or> pw_optionsLoading s)"

definition pw_targetsDisabled :: "WizardProps \<Rightarrow> PublishState \<Rightarrow> bool" where
  "pw_targetsDisabled p s = (pw_submitting s \<or> pw_diffLoading s \<or> wp_missingParams p)"

subsection \<open>The step function\<close>

datatype PublishEvent =
    PMount
  | PUnmount
  | PMicrotask
  | PSettleOptions nat "failure + (ElementsResponse \<times> AgentsResponse \<times> InstancesResponse)"
  | PSettleDiff nat "failure + Element option"
  | PSettlePublish nat "failure + unit"
  | PSelectVersion string
  | PSelectMode string
  | PChangeAgents "string list"
  | PChangeInstances "string list"
  | PNext
  | PBack
  | PCancel
  | PCancelClose
  | PCancelConfirm

definition pw_settle :: "nat \<Rightarrow> PublishState \<Rightarrow> PublishState" where
  "pw_settle i s = s\<lparr>pw_pending := remove_at i (pw_pending s)\<rparr>"

definition pw_ui :: "Translator \<Rightarrow> WizardProps \<Rightarrow> PublishState \<Rightarrow> PublishEvent \<Rightarrow> PublishState \<times> effect list" where
  \<comment> \<open>the controls; an event of a control that is hidden or disabled does nothing\<close>
  "pw_ui t p s e = (case e of
       PSelectVersion v \<Rightarrow>
         if pw_activeStep s = 0 \<and> \<not> pw_selectDisabled p s then pw_changeVersion v s else (s, [])
     | PSelectMode v \<Rightarrow>
         (case map_of radio_modes v of
            Some m \<Rightarrow> if pw_activeStep s = 1 then pw_changeMode m s else (s, [])
          | None \<Rightarrow> (s, []))
     | PChangeAgents ids \<Rightarrow>
         if pw_activeStep s = 2 \<and> pw_publishMode s = 1 \<and> \<not> pw_targetsDisabled p s
         then (s\<lparr>pw_agentIds := ids\<rparr>, []) else (s, [])
     | PChangeInstances ids \<Rightarrow>
         if pw_activeStep s = 2 \<and> pw_publishMode s = 1 \<and> \<not> pw_targetsDisabled p s
         then (s\<lparr>pw_instanceIds := ids\<rparr>, []) else (s, [])
     | PNext \<Rightarrow> if pw_nextDisabled p s then (s, []) else pw_handleNext t p s
     | PBack \<Rightarrow> if pw_backDisabled s then (s, []) else pw_handleBack s
     | PCancel \<Rightarrow> (s\<lparr>pw_cancelOpen := True\<rparr>, [])
     | PCancelClose \<Rightarrow> (s\<lparr>pw_cancelOpen := False\<rparr>, [])
     | PCancelConfirm \<Rightarrow>
         if pw_cancelOpen s then (s\<lparr>pw_cancelOpen := False\<rparr>, [Navigate (wp_detailPath p)]) else (s, [])
     | _ \<Rightarrow> (s, []))"

definition publish_step :: "Translator \<Rightarrow> WizardProps \<Rightarrow> PublishState \<Rightarrow> PublishEvent \<Rightarrow> PublishState \<times> effect list" where
  "publish_step t p s e = (case e of
       PMount \<Rightarrow> pw_mountEffect p s
     | PUnmount \<Rightarrow> pw_cleanup s
     | PMicrotask \<Rightarrow>
         if pw_queued s = 0 then (s, []) else pw_loadOptions p (s\<lparr>pw_queued := pw_queued s - 1\<rparr>)
     | PSettleOptions i outcome \<Rightarrow>
         if i < length (pw_pending s) \<and> pw_pending s ! i = AwaitPublishOptions
         then pw_optionsLoaded t outcome (pw_settle i s) else (s, [])
     | PSettleDiff i outcome \<Rightarrow>
         if i < length (pw_pending s) then
           (case pw_pending s ! i of
              AwaitPublishDiff target u \<Rightarrow> pw_diffSettled t target u outcome (pw_settle i s)
            | _ \<Rightarrow> (s, []))
         else (s, [])
     | PSettlePublish i outcome \<Rightarrow>
         if i < length (pw_pending s) then
           (case pw_pending s ! i of
              AwaitPublish v m \<Rightarrow> pw_publishSettled t v m outcome (pw_settle i s)
            | _ \<Rightarrow> (s, []))
         else (s, [])
     | _ \<Rightarrow> if pw_mounted s then pw_ui t p s e else (s, []))"

subsection \<open>The panels\<close>

definition chip_box :: "string \<Rightarrow> string list \<Rightarrow> string \<Rightarrow> ui" where
  \<comment> \<open>a captioned row of chips, or a remark when there are none\<close>
  "chip_box caption ids none = ULabelled caption (if 0 < length ids then [UChips ids] else [UText none])"

definition pw_versionPanel :: "Translator \<Rightarrow> WizardProps \<Rightarrow> PublishState \<Rightarrow> ui list" where
  "pw_versionPanel t p s =
     [UHeading (t ''operations.publish.chooseVersion'' []),
      UText (t ''operations.publish.versionDescription'' []),
      USelect (t ''operations.version'' []) (pw_version s) (pw_selectDisabled p s)
        (if pw_optionsLoading s then t ''operations.loadingVersions'' []
         else if list_ex (\<lambda>option. \<not> isPublishVersionDisabled option (pw_usingVersion s)) (pw_versionOptions s)
         then t ''operations.publish.selectNewerVersion'' []
         else t ''operations.publish.noNewerVersion'' [])
        (if 0 < length (pw_versionOptions s)
         then map (\<lambda>option. renderVersionMenuItem option t (isPublishVersionDisabled option (pw_usingVersion s))
                (Some (vo_version option) = pw_usingVersion s)) (pw_versionOptions s)
         else [renderVersionMenuItem (no_version_option p (t ''operations.publish.noVersionCandidates'' [])) t True False])]"

definition pw_strategyPanel :: "Translator \<Rightarrow> PublishState \<Rightarrow> ui list" where
  "pw_strategyPanel t s =
     [UHeading (t ''operations.publish.chooseStrategy'' []),
      UText (t ''operations.publish.strategyDescription'' []),
      URadios (int_str (pw_publishMode s))
        [(''2'', t ''operations.publish.full'' [], t ''operations.publish.fullDescription'' []),
         (''1'', t ''operations.publish.gray'' [], t ''operations.publish.grayDescription'' [])]]"

definition pw_targetsPanel :: "Translator \<Rightarrow> WizardProps \<Rightarrow> PublishState \<Rightarrow> ui list" where
  "pw_targetsPanel t p s =
     UHeading (t ''operations.publish.defineTargets'' []) #
     (if pw_publishMode s = 1 then
        UText (t ''operations.publish.targetsDescription'' []) #
        (if \<not> pw_hasExplicitTargets s then [UError (t ''operations.publish.targetsRequired'' [])] else []) @
        [UMulti (t ''operations.publish.agentIds'' []) (pw_agentOptions s) (pw_agentIds s)
           (pw_targetsDisabled p s)
           (if 0 < length (pw_agentOptions s) then t ''operations.publish.selectAgents'' []
            else t ''operations.publish.noAgentCandidates'' []),
         UMulti (t ''operations.publish.instanceIds'' []) (pw_instanceOptions s) (pw_instanceIds s)
           (pw_targetsDisabled p s)
           (if 0 < length (pw_instanceOptions s) then t ''operations.publish.selectInstances'' []
            else t ''operations.publish.noInstanceCandidates'' [])]
      else [UText (t ''operations.publish.fullTargetsDescription'' [])])"

definition pw_diffPanel :: "Translator \<Rightarrow> PublishState \<Rightarrow> ui list" where
  "pw_diffPanel t s =
     [UHeading (t ''operations.reviewDiff'' []),
      UText (t ''operations.publish.diffDescription'' []),
      ULabelled (t ''operations.currentVersion'' []) [UText (version_or_dash (pw_currentVersion s))],
      ULabelled (t ''operations.publishVersion'' []) [UText (selected_label t (pw_selectedVersion s) ''-'')],
      (case (pw_diffLoaded s, pw_diffPair s) of
         (True, Some pair) \<Rightarrow> UDiff (diff_props t pair (pw_currentVersion s)
             (selected_label t (pw_selectedVersion s) (t ''operations.publishVersion'' [])))
       | _ \<Rightarrow> if pw_diffLoading s then UText (t ''operations.loadingDiff'' [])
              else UText (t ''operations.noDiff'' []))]"

definition pw_agentBox :: "Translator \<Rightarrow> PublishState \<Rightarrow> ui" where
  "pw_agentBox t s =
     chip_box (t ''operations.publish.agentIds'' []) (pw_agentIds s) (t ''operations.publish.noAgentTargets'' [])"

definition pw_instanceBox :: "Translator \<Rightarrow> PublishState \<Rightarrow> ui" where
  "pw_instanceBox t s =
     chip_box (t ''operations.publish.instanceIds'' []) (pw_instanceIds s)
       (t ''operations.publish.noInstanceTargets'' [])"

definition pw_impactPanel :: "Translator \<Rightarrow> WizardProps \<Rightarrow> PublishState \<Rightarrow> ui list" where
  "pw_impactPanel t p s =
     [UHeading (t ''operations.impactConfirmation'' []),
      UText (t ''operations.publish.impactDescription'' []),
      ULabelled (t ''operations.app'' []) [UText (str_or (wp_appId p) ''-'')],
      ULabelled (t ''operations.env'' []) [UText (str_or (wp_env p) ''-'')],
      ULabelled (t ''operations.key'' []) [UText (str_or (wp_elementKey p) ''-'')],
      ULabelled (t ''operations.version'' []) [UText (selected_label t (pw_selectedVersion s) ''-'')],
      ULabelled (t ''operations.strategy'' []) [UText (getStrategyLabel (pw_publishMode s) t)],
      pw_agentBox t s, pw_instanceBox t s]"

definition pw_nextLabel :: "Translator \<Rightarrow> PublishState \<Rightarrow> string" where
  "pw_nextLabel t s =
     (if pw_activeStep s = 4 then t ''operations.publish'' []
      else if pw_activeStep s = 5 then t ''operations.done'' [] else t ''operations.next'' [])"

definition PublishWizardFlow_view :: "Translator \<Rightarrow> string \<Rightarrow> WizardProps \<Rightarrow> PublishState \<Rightarrow> ui list" where
  "PublishWizardFlow_view t pathname p s =
     AppBreadcrumbs t pathname (wizard_crumbs t p ''operations.publish'') #
     WizardLayout t
       \<lparr>wl_title = t ''operations.publish.title'' [], wl_steps = map (\<lambda>key. t key []) publishStepKeys,
        wl_activeStep = pw_activeStep s, wl_onBack = True, wl_onNext = True, wl_onCancel = True,
        wl_nextLabel = Some (pw_nextLabel t s), wl_backDisabled = pw_backDisabled s,
        wl_nextDisabled = pw_nextDisabled p s\<rparr>
       (pw_cancelOpen s)
       (if pw_activeStep s = 0 then pw_versionPanel t p s
        else if pw_activeStep s = 1 then pw_strategyPanel t s
        else if pw_activeStep s = 2 then pw_targetsPanel t p s
        else if pw_activeStep s = 3 then pw_diffPanel t s
        else if pw_activeStep s = 4 then pw_impactPanel t p s
        else if pw_activeStep s = 5 then
          [UHeading (t ''operations.result'' []), UText (t ''operations.publish.resultDescription'' [])]
        else [])"

subsection \<open>The invariant\<close>

definition is_publish_diff :: "PublishPending \<Rightarrow> bool" where
  "is_publish_diff q = (case q of AwaitPublishDiff _ _ \<Rightarrow> True | _ \<Rightarrow> False)"

definition is_publish_post :: "PublishPending \<Rightarrow> bool" where
  "is_publish_post q = (case q of AwaitPublish _ _ \<Rightarrow> True | _ \<Rightarrow> False)"

definition pw_stepInv :: "PublishState \<Rightarrow> bool" where
  "pw_stepInv s =
     (pw_activeStep s \<le> 5 \<and> (3 \<le> pw_activeStep s \<longrightarrow> pw_diffLoaded s) \<and>
      (pw_diffLoaded s \<longrightarrow> (\<forall>x. pw_selectedVersion s = Some x \<longrightarrow>
         pair_shows (pw_usingVersion s) (pw_diffPair s) x)))"

definition pw_modeInv :: "PublishState \<Rightarrow> bool" where
  "pw_modeInv s =
     (pw_publishMode s \<in> {1, 2} \<and>
      (pw_publishMode s = 2 \<longrightarrow> pw_agentIds s = [] \<and> pw_instanceIds s = []))"

definition pw_pendingInv :: "PublishState \<Rightarrow> bool" where
  "pw_pendingInv s =
     (count_if is_publish_diff (pw_pending s) \<le> 1 \<and> count_if is_publish_post (pw_pending s) \<le> 1 \<and>
      (\<forall>target u. AwaitPublishDiff target u \<in> set (pw_pending s) \<longrightarrow>
         pw_diffLoading s \<and> pw_activeStep s = 2 \<and>
         (pw_selectedVersion s = None \<or>
          pw_selectedVersion s = Some target \<and> pw_usingVersion s = Some u)) \<and>
      (\<forall>v m. AwaitPublish v m \<in> set (pw_pending s) \<longrightarrow> pw_submitting s \<and> pw_activeStep s = 4))"

definition publish_inv :: "PublishState \<Rightarrow> bool" where
  "publish_inv s \<longleftrightarrow>
     options_ok (pw_versionOptions s) \<and> pw_stepInv s \<and> pw_modeInv s \<and> pw_pendingInv s"

lemmas publish_inv_defs = publish_inv_def pw_stepInv_def pw_modeInv_def pw_pendingInv_def

lemma publish_inv_init: "publish_inv initPublish"
  by (simp add: publish_inv_defs initPublish_def)

lemma inv_cong:
  assumes "publish_inv s"
    and "pw_activeStep s' = pw_activeStep s" "pw_version s' = pw_version s"
    "pw_versionOptions s' = pw_versionOptions s" "pw_usingVersion s' = pw_usingVersion s"
    "pw_agentIds s' = pw_agentIds s" "pw_instanceIds s' = pw_instanceIds s"
    "pw_publishMode s' = pw_publishMode s" "pw_diffPair s' = pw_diffPair s"
    "pw_diffLoaded s' = pw_diffLoaded s" "pw_diffLoading s' = pw_diffLoading s"
    "pw_submitting s' = pw_submitting s" "pw_pending s' = pw_pending s"
  shows "publish_inv s'"
  using assms by (simp add: publish_inv_defs pw_selectedVersion_def)

lemma inv_mount: "publish_inv s \<Longrightarrow> publish_inv (fst (pw_mountEffect p s))"
  by (erule inv_cong) (simp_all add: pw_mountEffect_def Let_def)

lemma inv_cleanup: "publish_inv s \<Longrightarrow> publish_inv (fst (pw_cleanup s))"
  by (erule inv_cong) (simp_all add: pw_cleanup_def)

lemma inv_loadOptions: "publish_inv s \<Longrightarrow> publish_inv (fst (pw_loadOptions p s))"
  by (auto simp: publish_inv_defs pw_loadOptions_def pw_selectedVersion_def
      is_publish_diff_def is_publish_post_def)

lemma inv_queued: "publish_inv s \<Longrightarrow> publish_inv (s\<lparr>pw_queued := n\<rparr>)"
  by (erule inv_cong) simp_all

lemma inv_settle:
  assumes "publish_inv s" and "i < length (pw_pending s)"
  shows "publish_inv (pw_settle i s)"
  using assms set_remove_at [of i "pw_pending s"]
  by (auto simp: publish_inv_defs pw_settle_def pw_selectedVersion_def count_remove_at)

lemma inv_optionsLoaded: "publish_inv s \<Longrightarrow> publish_inv (fst (pw_optionsLoaded t outcome s))"
  using find_empty_value [OF options_ok_request]
  by (auto simp: publish_inv_defs pw_optionsLoaded_def pw_selectedVersion_def options_ok_request
      split: sum.splits)

lemma inv_handleBack: "publish_inv s \<Longrightarrow> \<not> pw_backDisabled s \<Longrightarrow> publish_inv (fst (pw_handleBack s))"
  by (auto simp: publish_inv_defs pw_handleBack_def pw_backDisabled_def pw_selectedVersion_def)

lemma inv_changeVersion:
  "publish_inv s \<Longrightarrow> pw_activeStep s = 0 \<Longrightarrow> publish_inv (fst (pw_changeVersion v s))"
  by (auto simp: publish_inv_defs pw_changeVersion_def)

lemma inv_changeMode:
  "publish_inv s \<Longrightarrow> m \<in> {1, 2} \<Longrightarrow> publish_inv (fst (pw_changeMode m s))"
  by (auto simp: publish_inv_defs pw_changeMode_def Let_def pw_selectedVersion_def)

lemma inv_changeTargets:
  assumes "publish_inv s" and "pw_publishMode s = 1"
  shows "publish_inv (s\<lparr>pw_agentIds := ids\<rparr>)" "publish_inv (s\<lparr>pw_instanceIds := ids\<rparr>)"
  using assms by (auto simp: publish_inv_defs pw_selectedVersion_def)

lemma no_diff_pending:
  "pw_pendingInv s \<Longrightarrow> \<not> pw_diffLoading s \<Longrightarrow> count_if is_publish_diff (pw_pending s) = 0"
  by (auto simp: pw_pendingInv_def count_if_0 is_publish_diff_def split: PublishPending.splits)

lemma no_post_pending:
  "pw_pendingInv s \<Longrightarrow> \<not> pw_submitting s \<Longrightarrow> count_if is_publish_post (pw_pending s) = 0"
  by (auto simp: pw_pendingInv_def count_if_0 is_publish_post_def split: PublishPending.splits)

lemma diff_in_count0: "count_if is_publish_diff xs = 0 \<Longrightarrow> AwaitPublishDiff target u \<notin> set xs"
  by (auto simp: count_if_0 is_publish_diff_def)

lemma post_in_count0: "count_if is_publish_post xs = 0 \<Longrightarrow> AwaitPublish v m \<notin> set xs"
  by (auto simp: count_if_0 is_publish_post_def)

text \<open>Showing a difference for a target that is, or can no longer become, the selected version.\<close>

lemma inv_showDiff:
  assumes "publish_inv s"
    and "count_if is_publish_diff (pw_pending s) = 0" "count_if is_publish_post (pw_pending s) = 0"
    and "\<And>x. pw_selectedVersion s = Some x \<Longrightarrow> x = target \<and> base_ok (pw_usingVersion s) base"
  shows "publish_inv (pw_showDiff current base target s)"
  using assms diff_in_count0 [OF assms(2)] post_in_count0 [OF assms(3)]
  by (auto simp: publish_inv_defs pw_showDiff_def pw_selectedVersion_def pair_shows_def)

lemma inv_clearDiff:
  assumes "publish_inv s" and "pw_activeStep s = 2"
    and "count_if is_publish_diff (pw_pending s) = 0"
  shows "publish_inv (s\<lparr>pw_diffLoading := b, pw_diffLoaded := False, pw_diffPair := None,
                   pw_currentVersion := None\<rparr>)"
  using assms diff_in_count0 [OF assms(3)] by (auto simp: publish_inv_defs pw_selectedVersion_def)

lemma inv_awaitDiff:
  assumes "publish_inv s" and "count_if is_publish_diff (pw_pending s) = 0" and "pw_diffLoading s"
    and "pw_activeStep s = 2" and "pw_selectedVersion s = Some target" and "pw_usingVersion s = Some u"
  shows "publish_inv (s\<lparr>pw_pending := pw_pending s @ [AwaitPublishDiff target u]\<rparr>)"
  using assms diff_in_count0 [OF assms(2)]
  by (auto simp: publish_inv_defs pw_selectedVersion_def is_publish_post_def is_publish_diff_def)

lemma inv_handleLoadDiff:
  assumes inv: "publish_inv s" and step: "pw_activeStep s = 2"
  shows "publish_inv (fst (pw_handleLoadDiffAndAdvance t p s))"
proof (cases "wp_missingParams p \<or> \<not> pw_versionIsValid s \<or> pw_diffLoading s \<or> pw_submitting s")
  case True
  with inv show ?thesis by (simp add: pw_handleLoadDiffAndAdvance_def)
next
  case False
  let ?s = "\<lambda>b. s\<lparr>pw_diffLoading := b, pw_diffLoaded := False, pw_diffPair := None, pw_currentVersion := None\<rparr>"
  from inv have pend: "pw_pendingInv s" and ok: "options_ok (pw_versionOptions s)"
    by (simp_all add: publish_inv_def)
  note n = no_diff_pending [OF pend] no_post_pending [OF pend]
  with False have c: "publish_inv (?s b)" for b using inv_clearDiff [OF inv step] by simp
  have c': "publish_inv (s\<lparr>pw_diffLoaded := False, pw_diffPair := None, pw_currentVersion := None,
      pw_diffLoading := False\<rparr>)"
    by (rule inv_cong [OF c [of False]]) simp_all
  have sel: "pw_selectedVersion (?s b) = pw_selectedVersion s" for b by (simp add: pw_selectedVersion_def)
  from False obtain target where target: "pw_selectedVersion s = Some target"
    by (auto simp: pw_versionIsValid_def split: option.splits)
  have "publish_inv (pw_showDiff current base target (?s True))"
    if "base_ok (pw_usingVersion s) base" for current base
    using inv_showDiff [OF c [of True], of target base] that n False target by (simp add: sel)
  moreover have "publish_inv (?s True\<lparr>pw_pending := pw_pending s @ [AwaitPublishDiff target u]\<rparr>)"
    if "pw_usingVersion s = Some u" for u
    using inv_awaitDiff [OF c [of True], of target u] that n False target step by (simp add: sel)
  ultimately show ?thesis
    using c' False target find_live [OF ok]
    by (auto simp: pw_handleLoadDiffAndAdvance_def Let_def base_ok_def draft_base_def split: option.splits)
qed

lemma inv_diffSettled:
  assumes inv: "publish_inv s" and i: "i < length (pw_pending s)" "pw_pending s ! i = AwaitPublishDiff target u"
  shows "publish_inv (fst (pw_diffSettled t target u outcome (pw_settle i s)))"
proof -
  let ?s = "pw_settle i s"
  from i have q: "AwaitPublishDiff target u \<in> set (pw_pending s)" by (metis nth_mem)
  have inv': "publish_inv ?s" by (rule inv_settle [OF inv i(1)])
  from inv have pend: "pw_pendingInv s" by (simp add: publish_inv_def)
  have c: "count_if is_publish_diff (pw_pending ?s) = 0"
    using pend i by (simp add: pw_settle_def count_remove_at is_publish_diff_def pw_pendingInv_def)
  have d: "count_if is_publish_post (pw_pending ?s) = 0"
    using inv' q pend by (auto simp: publish_inv_def pw_pendingInv_def count_if_0 pw_settle_def is_publish_post_def split: PublishPending.splits)
  have "publish_inv (?s\<lparr>pw_diffLoading := False\<rparr>)"
    using inv' diff_in_count0 [OF c] by (auto simp: publish_inv_defs pw_selectedVersion_def)
  moreover have "publish_inv (pw_showDiff (Some u) base target ?s)" if "el_version base = Some (Num u)" for base
    by (rule inv_showDiff [OF inv' c d])
      (use pend q that in \<open>auto simp: pw_pendingInv_def pw_settle_def pw_selectedVersion_def base_ok_def\<close>)
  ultimately show ?thesis
    using inv' by (auto simp: pw_diffSettled_def split: sum.splits)
qed

lemma inv_handlePublish:
  assumes inv: "publish_inv s" and step: "pw_activeStep s = 4"
  shows "publish_inv (fst (pw_handlePublish p s))"
proof (cases "pw_submitting s")
  case False
  with inv have c: "count_if is_publish_post (pw_pending s) = 0"
    using no_post_pending by (simp add: publish_inv_def)
  show ?thesis
    using inv step c post_in_count0 [OF c]
    by (auto simp: pw_handlePublish_def publish_inv_defs pw_selectedVersion_def is_publish_diff_def is_publish_post_def)
qed (simp add: pw_handlePublish_def inv)

lemma inv_publishSettled:
  assumes inv: "publish_inv s" and i: "i < length (pw_pending s)" "pw_pending s ! i = AwaitPublish v m"
  shows "publish_inv (fst (pw_publishSettled t v m outcome (pw_settle i s)))"
proof -
  let ?s = "pw_settle i s"
  from i have q: "AwaitPublish v m \<in> set (pw_pending s)" by (metis nth_mem)
  have inv': "publish_inv ?s" by (rule inv_settle [OF inv i(1)])
  from inv have pend: "pw_pendingInv s" by (simp add: publish_inv_def)
  then have step: "pw_activeStep s = 4" using q by (auto simp: pw_pendingInv_def)
  have c: "count_if is_publish_post (pw_pending ?s) = 0"
    using pend i by (simp add: pw_settle_def count_remove_at is_publish_post_def pw_pendingInv_def)
  have d: "count_if is_publish_diff (pw_pending ?s) = 0"
    using inv' step by (auto simp: publish_inv_def pw_pendingInv_def count_if_0 pw_settle_def is_publish_diff_def split: PublishPending.splits)
  show ?thesis
    using inv' step diff_in_count0 [OF d] post_in_count0 [OF c]
    by (auto simp: pw_publishSettled_def publish_inv_defs pw_selectedVersion_def pw_settle_def split: sum.splits)
qed

lemma inv_setStep:
  assumes "publish_inv s" and "\<not> pw_submitting s" "\<not> pw_diffLoading s" and "n \<le> 5" "3 \<le> n \<Longrightarrow> pw_diffLoaded s"
  shows "publish_inv (s\<lparr>pw_activeStep := n\<rparr>)"
  using assms by (auto simp: publish_inv_defs pw_selectedVersion_def)

lemma inv_handleNext:
  assumes "publish_inv s" and "\<not> pw_nextDisabled p s"
  shows "publish_inv (fst (pw_handleNext t p s))"
  using assms inv_setStep [OF assms(1)] inv_handleLoadDiff [OF assms(1)] inv_handlePublish [OF assms(1)]
  by (simp add: pw_handleNext_def pw_nextDisabled_def)

lemma inv_ui: "publish_inv s \<Longrightarrow> publish_inv (fst (pw_ui t p s e))"
  by (cases e)
    (auto simp: pw_ui_def radio_modes_def intro: inv_changeVersion inv_changeMode inv_changeTargets inv_handleNext
      inv_handleBack inv_cong split: option.splits)

lemma publish_inv_step: "publish_inv s \<Longrightarrow> publish_inv (fst (publish_step t p s e))"
  by (cases e)
    (auto simp: publish_step_def intro: inv_mount inv_cleanup inv_ui inv_diffSettled inv_publishSettled
      inv_optionsLoaded inv_settle inv_loadOptions inv_queued split: PublishPending.splits)

subsection \<open>What the wizard sends\<close>

definition publish_allowed :: "WizardProps \<Rightarrow> PublishState \<Rightarrow> effect \<Rightarrow> bool" where
  "publish_allowed p s x = (case x of
       Request path ri \<Rightarrow> ri_method ri = Some ''POST'' \<longrightarrow>
         pw_activeStep s = 4 \<and> pw_mounted s \<and> path = publishPath p \<and> ri = jsonBody (publishPayload s) \<and>
         count_if is_publish_post (pw_pending s) = 0 \<and> pw_grayTargetsAreValid s \<and>
         (\<exists>x. pw_selectedVersion s = Some x \<and> \<not> isPublishVersionDisabled x (pw_usingVersion s) \<and>
            pair_shows (pw_usingVersion s) (pw_diffPair s) x)
     | Navigate path \<Rightarrow> path = wp_detailPath p
     | ShowToast _ _ \<Rightarrow> True
     | _ \<Rightarrow> False)"

lemma get_requests_allowed [simp]:
  "publish_allowed p s (Request path noInit)" "publish_allowed p s (ShowToast m sev)"
  "publish_allowed p s (requestComparisonElement a e k v)"
  by (simp_all add: publish_allowed_def noInit_def requestComparisonElement_def requestElementVersion_def)

lemma allowed_handlePublish:
  assumes "publish_inv s" and "pw_activeStep s = 4" and "pw_mounted s" and "x \<in> set (snd (pw_handlePublish p s))"
  shows "publish_allowed p s x"
proof -
  from assms(4) have g: "pw_versionIsValid s" "pw_grayTargetsAreValid s" "\<not> pw_submitting s"
    and x: "x = Request (publishPath p) (jsonBody (publishPayload s))"
    by (auto simp: pw_handlePublish_def split: if_splits)
  from g(1) obtain y where y: "pw_selectedVersion s = Some y" "\<not> isPublishVersionDisabled y (pw_usingVersion s)"
    by (auto simp: pw_versionIsValid_def split: option.splits)
  have "count_if is_publish_post (pw_pending s) = 0"
    using assms(1) g(3) no_post_pending by (simp add: publish_inv_def)
  moreover have "pair_shows (pw_usingVersion s) (pw_diffPair s) y"
    using assms(1,2) y by (simp add: publish_inv_defs)
  ultimately show ?thesis
    using assms(2,3) g x y by (simp add: publish_allowed_def)
qed

lemma allowed_handleNext:
  assumes "publish_inv s" and "pw_mounted s" and "x \<in> set (snd (pw_handleNext t p s))"
  shows "publish_allowed p s x"
  using assms allowed_handlePublish [of s x p]
  by (auto simp: pw_handleNext_def pw_handleLoadDiffAndAdvance_def Let_def publish_allowed_def [of p s "Navigate q" for q]
      split: if_splits option.splits)

lemma allowed_ui:
  "publish_inv s \<Longrightarrow> pw_mounted s \<Longrightarrow> x \<in> set (snd (pw_ui t p s e)) \<Longrightarrow> publish_allowed p s x"
  by (cases e)
    (auto simp: pw_ui_def pw_handleBack_def pw_changeVersion_def pw_changeMode_def Let_def
      publish_allowed_def [of p s "Navigate q" for q]
      intro: allowed_handleNext split: if_splits option.splits)

lemma publish_allowed_step:
  "publish_inv s \<Longrightarrow> x \<in> set (snd (publish_step t p s e)) \<Longrightarrow> publish_allowed p s x"
  by (cases e)
    (auto simp: publish_step_def pw_mountEffect_def pw_cleanup_def pw_loadOptions_def pw_optionsLoaded_def
      pw_diffSettled_def pw_publishSettled_def Let_def
      intro: allowed_ui split: if_splits sum.splits PublishPending.splits)

interpretation publish: guarded_component "publish_step t p" "\<lambda>s. s = initPublish" publish_inv "publish_allowed p"
  for t p
  by unfold_locales (simp_all add: publish_inv_init publish_inv_step publish_allowed_step)

subsection \<open>Properties\<close>

lemma publish_payload_cases:
  assumes "pw_modeInv s" and "pw_grayTargetsAreValid s" and "pw_selectedVersion s = Some x"
  shows "publishPayload s = JObj [(''version'', JNum (vo_version x)), (''publishMode'', JNum 2)] \<or>
    (\<exists>as is. (as \<noteq> [] \<or> is \<noteq> []) \<and>
      publishPayload s = JObj [(''version'', JNum (vo_version x)), (''publishMode'', JNum 1),
        (''agentId'', JArr (map JStr as)), (''instanceId'', JArr (map JStr is))])"
  using assms
  by (auto simp: publishPayload_def pw_parsedVersion_def pw_modeInv_def pw_grayTargetsAreValid_def
      pw_hasExplicitTargets_def)

text \<open>C1: Whatever the user does and however the requests interleave, a modifying request the publish
  wizard sends is the publishing of the selected version of this element, sent from the
  confirmation step; that version is newer than the one in use (or unpublished when none is in
  use); the difference between exactly these two has been loaded; a gray publish names at least
  one target and a full publish none.\<close>

theorem publish_request_reviewed:
  assumes "s = after (publish_step t p) initPublish es"
    and "Request path ri \<in> set (snd (publish_step t p s e))" and "ri_method ri = Some ''POST''"
  shows "path = publishPath p \<and> pw_activeStep s = 4 \<and>
    (\<exists>x. pw_selectedVersion s = Some x \<and>
      (case pw_usingVersion s of Some u \<Rightarrow> u < vo_version x | None \<Rightarrow> \<not> vo_published x) \<and>
      pair_shows (pw_usingVersion s) (pw_diffPair s) x \<and>
      (ri = jsonBody (JObj [(''version'', JNum (vo_version x)), (''publishMode'', JNum 2)]) \<or>
       (\<exists>as is. (as \<noteq> [] \<or> is \<noteq> []) \<and>
         ri = jsonBody (JObj [(''version'', JNum (vo_version x)), (''publishMode'', JNum 1),
           (''agentId'', JArr (map JStr as)), (''instanceId'', JArr (map JStr is))]))))"
proof -
  have inv: "publish_inv s" using publish.inv_reachable assms(1) by blast
  have "publish_allowed p s (Request path ri)"
    by (rule publish.allowed_step [OF inv assms(2)])
  then have al: "path = publishPath p" "pw_activeStep s = 4" "ri = jsonBody (publishPayload s)"
    "pw_grayTargetsAreValid s" and "\<exists>x. pw_selectedVersion s = Some x \<and>
       \<not> isPublishVersionDisabled x (pw_usingVersion s) \<and> pair_shows (pw_usingVersion s) (pw_diffPair s) x"
    using assms(3) by (simp_all add: publish_allowed_def)
  then obtain x where x: "pw_selectedVersion s = Some x" "\<not> isPublishVersionDisabled x (pw_usingVersion s)"
    "pair_shows (pw_usingVersion s) (pw_diffPair s) x" by blast
  moreover have "case pw_usingVersion s of Some u \<Rightarrow> u < vo_version x | None \<Rightarrow> \<not> vo_published x"
    using x(2) by (simp add: isPublishVersionDisabled_def split: option.splits)
  moreover have "pw_modeInv s" using inv by (simp add: publish_inv_def)
  note publish_payload_cases [OF this al(4) x(1)]
  ultimately show ?thesis using al(1-3) by metis
qed

definition demo_publish_run :: "PublishEvent list" where
  "demo_publish_run = [PMount, PMicrotask,
     PSettleOptions 0 (Inr (demo_versions, \<lparr>as_agents = None\<rparr>, \<lparr>ir_instances = None\<rparr>)),
     PSelectVersion ''2'', PNext, PNext, PNext, PNext]"

definition demo_publish :: PublishState where
  "demo_publish = after (publish_step (\<lambda>k ps. k) demo_props) initPublish demo_publish_run"

lemma demo_publish_next:
  "snd (publish_step (\<lambda>k ps. k) demo_props demo_publish PNext) =
     [Request (publishPath demo_props) (jsonBody (publishPayload demo_publish))]"
  by code_simp

theorem publish_request_reviewed_witness:
  "pw_activeStep demo_publish = 4 \<and> (\<exists>x. pw_selectedVersion demo_publish = Some x \<and>
     pair_shows (pw_usingVersion demo_publish) (pw_diffPair demo_publish) x)"
  using publish_request_reviewed [OF demo_publish_def [unfolded demo_publish_run_def],
      of "publishPath demo_props" "jsonBody (publishPayload demo_publish)" PNext]
  by (auto simp: demo_publish_next jsonBody_def)

text \<open>At most one publish request and one comparison request are in flight at any time.\<close>

theorem publish_single_flight:
  "count_if is_publish_post (pw_pending (after (publish_step t p) initPublish es)) \<le> 1 \<and>
   count_if is_publish_diff (pw_pending (after (publish_step t p) initPublish es)) \<le> 1"
  using publish.inv_reachable [of initPublish t p es] by (simp add: publish_inv_def pw_pendingInv_def)

definition chips :: "ui \<Rightarrow> string list" where
  "chips u = (case u of ULabelled _ [UChips ids] \<Rightarrow> ids | _ \<Rightarrow> [])"

definition json_text :: "json \<Rightarrow> string" where
  "json_text v = (case v of JStr s \<Rightarrow> s | _ \<Rightarrow> [])"

lemma json_text_JStr [simp]: "map (json_text \<circ> JStr) xs = xs"
  by (simp add: json_text_def comp_def)

definition payload_ids :: "string \<Rightarrow> json \<Rightarrow> string list" where
  "payload_ids k j = (case j of JObj kvs \<Rightarrow> (case map_of kvs k of
       Some (JArr vs) \<Rightarrow> map json_text vs | _ \<Rightarrow> []) | _ \<Rightarrow> [])"

lemma chips_chip_box: "chips (chip_box c ids none) = ids"
  by (cases ids) (simp_all add: chips_def chip_box_def)

text \<open>C27: The agents and instances the confirmation panel lists are those the publish request would
  carry, in every state the wizard can reach.\<close>

theorem publish_impact_is_payload:
  "chips (pw_agentBox t (after (publish_step t p) initPublish es)) =
     payload_ids ''agentId'' (publishPayload (after (publish_step t p) initPublish es)) \<and>
   chips (pw_instanceBox t (after (publish_step t p) initPublish es)) =
     payload_ids ''instanceId'' (publishPayload (after (publish_step t p) initPublish es))"
  using publish.inv_reachable [of initPublish t p es]
  by (auto simp: publish_inv_def pw_modeInv_def pw_agentBox_def pw_instanceBox_def chips_chip_box
      payload_ids_def publishPayload_def)

text \<open>C16: A wizard at its first step that has loaded its options, with no request in flight, a valid
  version selected, a target named if the mode is gray, and the version in use (if there is one) among
  the versions listed, completes the publish: five clicks on Next and the server's acceptance lead
  to the result step, and exactly one modifying request is sent, for that version, mode and
  targets.\<close>

theorem publish_completes:
  assumes "\<not> wp_missingParams p" and "pw_mounted s" and "pw_activeStep s = 0"
    and "\<not> pw_optionsLoading s" "\<not> pw_submitting s" "\<not> pw_diffLoading s" and "pw_pending s = []"
    and "pw_grayTargetsAreValid s" and "pw_versionIsValid s"
    and "\<And>u. pw_usingVersion s = Some u \<Longrightarrow> \<exists>x \<in> set (pw_versionOptions s). vo_version x = u"
  shows "pw_activeStep (after (publish_step t p) s [PNext, PNext, PNext, PNext, PNext, PSettlePublish 0 (Inr ())]) = 5 \<and>
    filter is_post (snd (run (publish_step t p) s [PNext, PNext, PNext, PNext, PNext, PSettlePublish 0 (Inr ())])) =
      [Request (publishPath p) (jsonBody (publishPayload s))]"
proof -
  from assms(9) obtain x where x: "find (\<lambda>y. vo_value y = pw_version s) (pw_versionOptions s) = Some x"
    "\<not> isPublishVersionDisabled x (pw_usingVersion s)"
    by (auto simp: pw_versionIsValid_def pw_selectedVersion_def split: option.splits)
  have live: "\<exists>y. find (\<lambda>y. vo_version y = u) (pw_versionOptions s) = Some y" if "pw_usingVersion s = Some u" for u
    using assms(10) [OF that] by (cases "find (\<lambda>y. vo_version y = u) (pw_versionOptions s)") (auto dest: find_NoneD)
  note d = publish_step_def pw_ui_def pw_nextDisabled_def pw_handleNext_def pw_versionIsValid_def
    pw_selectedVersion_def pw_grayTargetsAreValid_def pw_hasExplicitTargets_def pw_handlePublish_def
    pw_settle_def pw_publishSettled_def publishPayload_def pw_parsedVersion_def is_post_def jsonBody_def
  show ?thesis
  proof (cases "pw_usingVersion s")
    case None
    with assms x show ?thesis
      by (simp add: d pw_handleLoadDiffAndAdvance_def Let_def pw_showDiff_def isPublishVersionDisabled_def)
  next
    case (Some u)
    with live obtain y where "find (\<lambda>y. vo_version y = u) (pw_versionOptions s) = Some y" by blast
    with Some assms x show ?thesis
      by (simp add: d pw_handleLoadDiffAndAdvance_def Let_def pw_showDiff_def isPublishVersionDisabled_def)
  qed
qed

definition demo_chosen :: PublishState where
  "demo_chosen = after (publish_step (\<lambda>k ps. k) demo_props) initPublish (take 4 demo_publish_run)"

lemma demo_chosen_ready:
  "\<not> wp_missingParams demo_props" "pw_mounted demo_chosen" "pw_activeStep demo_chosen = 0"
  "\<not> pw_optionsLoading demo_chosen" "\<not> pw_submitting demo_chosen" "\<not> pw_diffLoading demo_chosen"
  "pw_pending demo_chosen = []" "pw_grayTargetsAreValid demo_chosen" "pw_versionIsValid demo_chosen"
  "pw_usingVersion demo_chosen = Some 1" "list_ex (\<lambda>x. vo_version x = 1) (pw_versionOptions demo_chosen)"
  by code_simp+

theorem publish_completes_witness:
  "pw_activeStep (after (publish_step (\<lambda>k ps. k) demo_props) demo_chosen
     [PNext, PNext, PNext, PNext, PNext, PSettlePublish 0 (Inr ())]) = 5"
proof -
  have "\<exists>x \<in> set (pw_versionOptions demo_chosen). vo_version x = u"
    if "pw_usingVersion demo_chosen = Some u" for u
    using that demo_chosen_ready(10,11) by (auto simp: list_ex_iff)
  from publish_completes [OF demo_chosen_ready(1-9) this, of "\<lambda>k ps. k"] show ?thesis by simp
qed

end
