(* ===== verification/Rollback_Wizard.thy ===== *)
theory Rollback_Wizard
  imports Wizard_Common
begin

section \<open>The rollback wizard: \<open>publish/RollbackWizardPage.tsx\<close>\<close>

text \<open>
  The wizard as a step function over events, in the form of \<open>Publish_Wizard\<close>. Its comparison
  request carries a sequence number, and a response with another number than the latest is
  dropped. The main facts: every modifying request the wizard sends rolls back to the selected
  version, which is published, older than the version in use, and whose difference to it has
  been loaded; no two are in flight at once; a response is never dropped while its page waits
  for it; and a wizard with a valid selection completes.
\<close>

subsection \<open>State\<close>

datatype RollbackPending =
    AwaitRollbackOptions
  | AwaitRollbackDiff VersionOption int nat
  | AwaitRollback "int option"

record RollbackState =
  rw_activeStep :: nat
  rw_version :: string
  rw_versionOptions :: "VersionOption list"
  rw_usingVersion :: "int option"
  rw_optionsLoading :: bool
  rw_currentVersion :: "int option"
  rw_diffPair :: "DiffPair option"
  rw_diffLoaded :: bool
  rw_diffLoading :: bool
  rw_submitting :: bool
  rw_mounted :: bool
  rw_lastLoadKey :: string
  rw_diffRequestSeq :: nat
  rw_cancelOpen :: bool
  rw_queued :: nat
  rw_pending :: "RollbackPending list"

definition initRollback :: RollbackState where
  "initRollback = \<lparr>rw_activeStep = 0, rw_version = [], rw_versionOptions = [], rw_usingVersion = None,
     rw_optionsLoading = False, rw_currentVersion = None, rw_diffPair = None, rw_diffLoaded = False,
     rw_diffLoading = False, rw_submitting = False, rw_mounted = False, rw_lastLoadKey = [],
     rw_diffRequestSeq = 0, rw_cancelOpen = False, rw_queued = 0, rw_pending = []\<rparr>"

definition rollbackStepKeys :: "string list" where
  "rollbackStepKeys = [''operations.version'', ''operations.reviewDiff'',
     ''operations.impactConfirmation'', ''operations.result'']"

definition isRollbackVersionDisabled :: "VersionOption \<Rightarrow> int option \<Rightarrow> bool" where
  "isRollbackVersionDisabled option usingVersion =
     (if \<not> vo_published option then True
      else case usingVersion of None \<Rightarrow> False | Some u \<Rightarrow> u \<le> vo_version option)"

definition rw_selectedVersion :: "RollbackState \<Rightarrow> VersionOption option" where
  "rw_selectedVersion s = find (\<lambda>option. vo_value option = rw_version s) (rw_versionOptions s)"

definition rw_parsedVersion :: "RollbackState \<Rightarrow> int option" where
  "rw_parsedVersion s = map_option vo_version (rw_selectedVersion s)"

definition rw_versionIsValid :: "RollbackState \<Rightarrow> bool" where
  "rw_versionIsValid s = (case rw_selectedVersion s of
       None \<Rightarrow> False
     | Some option \<Rightarrow> \<not> isRollbackVersionDisabled option (rw_usingVersion s))"

definition rw_nextDisabled :: "WizardProps \<Rightarrow> RollbackState \<Rightarrow> bool" where
  "rw_nextDisabled p s =
     (wp_missingParams p \<or> rw_submitting s \<or> rw_diffLoading s \<or>
      (rw_activeStep s = 0 \<and> (rw_optionsLoading s \<or> \<not> rw_versionIsValid s)) \<or>
      (rw_activeStep s = 1 \<and> \<not> rw_diffLoaded s))"

definition rw_backDisabled :: "RollbackState \<Rightarrow> bool" where
  "rw_backDisabled s =
     (rw_activeStep s = 0 \<or> rw_activeStep s = 3 \<or> rw_submitting s \<or> rw_diffLoading s)"

subsection \<open>Loading the options\<close>

type_synonym rollback_handler = "RollbackState \<Rightarrow> RollbackState \<times> effect list"

definition rw_loadOptions :: "WizardProps \<Rightarrow> rollback_handler" where
  "rw_loadOptions p s =
     (if wp_missingParams p then (s, [])
      else (s\<lparr>rw_optionsLoading := True, rw_pending := rw_pending s @ [AwaitRollbackOptions]\<rparr>,
            [Request (versionsPath (wp_appId p) (wp_env p) (wp_elementKey p)) noInit]))"

definition rw_optionsLoaded :: "Translator \<Rightarrow> failure + ElementsResponse \<Rightarrow> rollback_handler" where
  "rw_optionsLoaded t outcome s =
     (if \<not> rw_mounted s then (s, [])
      else case outcome of
          Inr versions \<Rightarrow>
            (s\<lparr>rw_versionOptions := fst (requestVersionOptions versions),
               rw_usingVersion := snd (requestVersionOptions versions),
               rw_version := [], rw_optionsLoading := False\<rparr>, [])
        | Inl err \<Rightarrow>
            (s\<lparr>rw_versionOptions := [], rw_usingVersion := None, rw_optionsLoading := False\<rparr>,
             [ShowToast (getErrorMessage err (t ''operations.rollback.loadFailed'' [])) Error]))"

definition rw_mountEffect :: "WizardProps \<Rightarrow> rollback_handler" where
  "rw_mountEffect p s =
     (let s' = s\<lparr>rw_mounted := True\<rparr> in
      if rw_lastLoadKey s \<noteq> wp_loadKey p
      then (s'\<lparr>rw_lastLoadKey := wp_loadKey p, rw_queued := rw_queued s + 1\<rparr>, [])
      else (s', []))"

definition rw_cleanup :: rollback_handler where
  "rw_cleanup s = (s\<lparr>rw_mounted := False\<rparr>, [])"

subsection \<open>Loading the difference\<close>

definition rw_showDiff :: "int option \<Rightarrow> Element \<Rightarrow> VersionOption \<Rightarrow> RollbackState \<Rightarrow> RollbackState" where
  "rw_showDiff current base target s =
     s\<lparr>rw_currentVersion := current,
       rw_diffPair := Some \<lparr>dp_base = base, dp_compare = vo_element target\<rparr>,
       rw_diffLoaded := True, rw_activeStep := 1, rw_diffLoading := False\<rparr>"

definition rw_handleLoadDiffAndAdvance :: "Translator \<Rightarrow> WizardProps \<Rightarrow> rollback_handler" where
  "rw_handleLoadDiffAndAdvance t p s =
     (if wp_missingParams p \<or> \<not> rw_versionIsValid s \<or> rw_diffLoading s \<or> rw_submitting s then (s, [])
      else
        let liveVersion = (case rw_usingVersion s of None \<Rightarrow> None
              | Some u \<Rightarrow> find (\<lambda>option. vo_version option = u) (rw_versionOptions s));
            requestId = rw_diffRequestSeq s + 1;
            s' = s\<lparr>rw_diffRequestSeq := requestId, rw_diffLoading := True, rw_diffLoaded := False,
                   rw_diffPair := None, rw_currentVersion := None\<rparr>
        in case rw_selectedVersion s of
            None \<Rightarrow> (s'\<lparr>rw_diffLoading := False\<rparr>,
                     [ShowToast (t ''operations.rollback.selectVersion'' []) Error])
          | Some target \<Rightarrow> (case liveVersion of
              Some live \<Rightarrow>
                if vo_version live \<le> vo_version target
                then (s'\<lparr>rw_diffLoading := False\<rparr>,
                      [ShowToast (t ''operations.rollback.olderRequired'' []) Error])
                else (rw_showDiff (rw_usingVersion s) (vo_element live) target s', [])
            | None \<Rightarrow> (case rw_usingVersion s of
                None \<Rightarrow> (s'\<lparr>rw_diffLoading := False\<rparr>,
                         [ShowToast (t ''operations.rollback.noComparison'' []) Error])
              | Some u \<Rightarrow>
                  (s'\<lparr>rw_pending := rw_pending s @ [AwaitRollbackDiff target u requestId]\<rparr>,
                   [requestComparisonElement (wp_appId p) (wp_env p) (wp_elementKey p) u]))))"

definition rw_diffSettled ::
  "Translator \<Rightarrow> VersionOption \<Rightarrow> int \<Rightarrow> nat \<Rightarrow> failure + Element option \<Rightarrow> rollback_handler" where
  "rw_diffSettled t target u requestId outcome s =
     (if \<not> rw_mounted s \<or> rw_diffRequestSeq s \<noteq> requestId then (s, [])
      else case deref outcome of
          Inl err \<Rightarrow> (s\<lparr>rw_diffLoading := False\<rparr>,
                     [ShowToast (getErrorMessage err (t ''operations.rollback.noComparison'' [])) Error])
        | Inr currentVersionData \<Rightarrow>
            if el_version currentVersionData \<noteq> Some (Num u)
            then (s\<lparr>rw_diffLoading := False\<rparr>,
                  [ShowToast (t ''operations.rollback.noComparison'' []) Error])
            else if u \<le> vo_version target
            then (s\<lparr>rw_diffLoading := False\<rparr>,
                  [ShowToast (t ''operations.rollback.olderRequired'' []) Error])
            else (rw_showDiff (Some u) currentVersionData target s, []))"

subsection \<open>Rolling back\<close>

definition rollbackPath :: "WizardProps \<Rightarrow> string" where
  "rollbackPath p = elementPath (wp_appId p) (wp_env p) (wp_elementKey p) @ ''/rollback''"

definition rollbackPayload :: "RollbackState \<Rightarrow> json" where
  "rollbackPayload s =
     JObj [(''version'', case rw_parsedVersion s of Some v \<Rightarrow> JNum v | None \<Rightarrow> JNull)]"

definition rw_handleRollback :: "WizardProps \<Rightarrow> rollback_handler" where
  "rw_handleRollback p s =
     (if wp_missingParams p \<or> \<not> rw_versionIsValid s \<or> rw_submitting s then (s, [])
      else (s\<lparr>rw_submitting := True, rw_pending := rw_pending s @ [AwaitRollback (rw_parsedVersion s)]\<rparr>,
            [Request (rollbackPath p) (jsonBody (rollbackPayload s))]))"

definition rw_rollbackSettled :: "Translator \<Rightarrow> int option \<Rightarrow> failure + unit \<Rightarrow> rollback_handler" where
  "rw_rollbackSettled t parsedVersion outcome s =
     (if \<not> rw_mounted s then (s, [])
      else case outcome of
          Inr _ \<Rightarrow> (s\<lparr>rw_activeStep := 3, rw_submitting := False\<rparr>,
            [ShowToast (t ''operations.rollback.success''
               [(''version'', case parsedVersion of Some v \<Rightarrow> PNum v | None \<Rightarrow> PStr ''-'')]) Success])
        | Inl err \<Rightarrow> (s\<lparr>rw_submitting := False\<rparr>,
            [ShowToast (getErrorMessage err (t ''operations.rollback.failed'' [])) Error]))"

subsection \<open>Navigation and the step function\<close>

definition rw_handleNext :: "Translator \<Rightarrow> WizardProps \<Rightarrow> rollback_handler" where
  "rw_handleNext t p s =
     (if rw_submitting s \<or> rw_diffLoading s then (s, [])
      else if wp_missingParams p then (s, [ShowToast (t ''operations.missingParams'' []) Error])
      else if rw_activeStep s = 0 then
        if \<not> rw_versionIsValid s then (s, [ShowToast (t ''operations.rollback.selectVersion'' []) Error])
        else rw_handleLoadDiffAndAdvance t p s
      else if rw_activeStep s = 1 then (s\<lparr>rw_activeStep := 2\<rparr>, [])
      else if rw_activeStep s = 2 then rw_handleRollback p s
      else (s, [Navigate (wp_detailPath p)]))"

definition rw_handleBack :: rollback_handler where
  "rw_handleBack s = (if rw_submitting s then (s, []) else (s\<lparr>rw_activeStep := rw_activeStep s - 1\<rparr>, []))"

definition rw_changeVersion :: "string \<Rightarrow> rollback_handler" where
  "rw_changeVersion v s =
     (s\<lparr>rw_version := v, rw_diffLoaded := False, rw_diffPair := None, rw_currentVersion := None\<rparr>, [])"

definition rw_selectDisabled :: "WizardProps \<Rightarrow> RollbackState \<Rightarrow> bool" where
  "rw_selectDisabled p s = (rw_submitting s \<or> rw_diffLoading s \<or> wp_missingParams p \<or> rw_optionsLoading s)"

datatype RollbackEvent =
    RMount
  | RUnmount
  | RMicrotask
  | RSettleOptions nat "failure + ElementsResponse"
  | RSettleDiff nat "failure + Element option"
  | RSettleRollback nat "failure + unit"
  | RSelectVersion string
  | RNext
  | RBack
  | RCancel
  | RCancelClose
  | RCancelConfirm

definition rw_settle :: "nat \<Rightarrow> RollbackState \<Rightarrow> RollbackState" where
  "rw_settle i s = s\<lparr>rw_pending := remove_at i (rw_pending s)\<rparr>"

definition rw_ui :: "Translator \<Rightarrow> WizardProps \<Rightarrow> RollbackState \<Rightarrow> RollbackEvent \<Rightarrow> RollbackState \<times> effect list" where
  "rw_ui t p s e = (case e of
       RSelectVersion v \<Rightarrow>
         if rw_activeStep s = 0 \<and> \<not> rw_selectDisabled p s then rw_changeVersion v s else (s, [])
     | RNext \<Rightarrow> if rw_nextDisabled p s then (s, []) else rw_handleNext t p s
     | RBack \<Rightarrow> if rw_backDisabled s then (s, []) else rw_handleBack s
     | RCancel \<Rightarrow> (s\<lparr>rw_cancelOpen := True\<rparr>, [])
     | RCancelClose \<Rightarrow> (s\<lparr>rw_cancelOpen := False\<rparr>, [])
     | RCancelConfirm \<Rightarrow>
         if rw_cancelOpen s then (s\<lparr>rw_cancelOpen := False\<rparr>, [Navigate (wp_detailPath p)]) else (s, [])
     | _ \<Rightarrow> (s, []))"

definition rollback_step :: "Translator \<Rightarrow> WizardProps \<Rightarrow> RollbackState \<Rightarrow> RollbackEvent \<Rightarrow> RollbackState \<times> effect list" where
  "rollback_step t p s e = (case e of
       RMount \<Rightarrow> rw_mountEffect p s
     | RUnmount \<Rightarrow> rw_cleanup s
     | RMicrotask \<Rightarrow>
         if rw_queued s = 0 then (s, []) else rw_loadOptions p (s\<lparr>rw_queued := rw_queued s - 1\<rparr>)
     | RSettleOptions i outcome \<Rightarrow>
         if i < length (rw_pending s) \<and> rw_pending s ! i = AwaitRollbackOptions
         then rw_optionsLoaded t outcome (rw_settle i s) else (s, [])
     | RSettleDiff i outcome \<Rightarrow>
         if i < length (rw_pending s) then
           (case rw_pending s ! i of
              AwaitRollbackDiff target u requestId \<Rightarrow> rw_diffSettled t target u requestId outcome (rw_settle i s)
            | _ \<Rightarrow> (s, []))
         else (s, [])
     | RSettleRollback i outcome \<Rightarrow>
         if i < length (rw_pending s) then
           (case rw_pending s ! i of
              AwaitRollback v \<Rightarrow> rw_rollbackSettled t v outcome (rw_settle i s)
            | _ \<Rightarrow> (s, []))
         else (s, [])
     | _ \<Rightarrow> if rw_mounted s then rw_ui t p s e else (s, []))"

subsection \<open>The panels\<close>

definition rw_versionPanel :: "Translator \<Rightarrow> WizardProps \<Rightarrow> RollbackState \<Rightarrow> ui list" where
  "rw_versionPanel t p s =
     [UHeading (t ''operations.rollback.chooseVersion'' []),
      UText (t ''operations.rollback.versionDescription'' []),
      USelect (t ''operations.targetVersion'' []) (rw_version s) (rw_selectDisabled p s)
        (if rw_optionsLoading s then t ''operations.loadingVersions'' []
         else if list_ex (\<lambda>option. \<not> isRollbackVersionDisabled option (rw_usingVersion s)) (rw_versionOptions s)
         then t ''operations.rollback.selectOlderVersion'' []
         else t ''operations.rollback.noPublishedVersion'' [])
        (if 0 < length (rw_versionOptions s)
         then map (\<lambda>option. renderVersionMenuItem option t (isRollbackVersionDisabled option (rw_usingVersion s))
                (Some (vo_version option) = rw_usingVersion s)) (rw_versionOptions s)
         else [renderVersionMenuItem (no_version_option p (t ''operations.rollback.noTargetVersions'' [])) t True False])]"

definition rw_diffPanel :: "Translator \<Rightarrow> RollbackState \<Rightarrow> ui list" where
  "rw_diffPanel t s =
     [UHeading (t ''operations.reviewDiff'' []),
      UText (t ''operations.rollback.diffDescription'' []),
      ULabelled (t ''operations.currentVersion'' []) [UText (version_or_dash (rw_currentVersion s))],
      ULabelled (t ''operations.targetVersion'' []) [UText (selected_label t (rw_selectedVersion s) ''-'')],
      (case (rw_diffLoaded s, rw_diffPair s) of
         (True, Some pair) \<Rightarrow> UDiff (diff_props t pair (rw_currentVersion s)
             (selected_label t (rw_selectedVersion s) (t ''operations.target'' [])))
       | _ \<Rightarrow> if rw_diffLoading s then UText (t ''operations.loadingDiff'' [])
              else UText (t ''operations.noDiff'' []))]"

definition rw_impactPanel :: "Translator \<Rightarrow> WizardProps \<Rightarrow> RollbackState \<Rightarrow> ui list" where
  "rw_impactPanel t p s =
     [UHeading (t ''operations.impactConfirmation'' []),
      UText (t ''operations.rollback.impactDescription'' []),
      ULabelled (t ''operations.app'' []) [UText (str_or (wp_appId p) ''-'')],
      ULabelled (t ''operations.env'' []) [UText (str_or (wp_env p) ''-'')],
      ULabelled (t ''operations.key'' []) [UText (str_or (wp_elementKey p) ''-'')],
      ULabelled (t ''operations.targetVersion'' []) [UText (selected_label t (rw_selectedVersion s) ''-'')]]"

definition rw_resultPanel :: "Translator \<Rightarrow> ui list" where
  "rw_resultPanel t = [UHeading (t ''operations.result'' []), UText (t ''operations.rollback.resultDescription'' [])]"

definition rw_nextLabel :: "Translator \<Rightarrow> RollbackState \<Rightarrow> string" where
  "rw_nextLabel t s =
     (if rw_activeStep s = 2 then t ''operations.rollback'' []
      else if rw_activeStep s = 3 then t ''operations.done'' [] else t ''operations.next'' [])"

definition RollbackWizardFlow_view :: "Translator \<Rightarrow> string \<Rightarrow> WizardProps \<Rightarrow> RollbackState \<Rightarrow> ui list" where
  "RollbackWizardFlow_view t pathname p s =
     AppBreadcrumbs t pathname (wizard_crumbs t p ''operations.rollback'') #
     WizardLayout t
       \<lparr>wl_title = t ''operations.rollback.title'' [], wl_steps = map (\<lambda>key. t key []) rollbackStepKeys,
        wl_activeStep = rw_activeStep s, wl_onBack = True, wl_onNext = True, wl_onCancel = True,
        wl_nextLabel = Some (rw_nextLabel t s), wl_backDisabled = rw_backDisabled s,
        wl_nextDisabled = rw_nextDisabled p s\<rparr>
       (rw_cancelOpen s)
       (if rw_activeStep s = 0 then rw_versionPanel t p s
        else if rw_activeStep s = 1 then rw_diffPanel t s
        else if rw_activeStep s = 2 then rw_impactPanel t p s
        else if rw_activeStep s = 3 then rw_resultPanel t
        else [])"

subsection \<open>The invariant\<close>

definition is_rollback_diff :: "RollbackPending \<Rightarrow> bool" where
  "is_rollback_diff q = (case q of AwaitRollbackDiff _ _ _ \<Rightarrow> True | _ \<Rightarrow> False)"

definition is_rollback_post :: "RollbackPending \<Rightarrow> bool" where
  "is_rollback_post q = (case q of AwaitRollback _ \<Rightarrow> True | _ \<Rightarrow> False)"

definition rw_stepInv :: "RollbackState \<Rightarrow> bool" where
  "rw_stepInv s =
     (rw_activeStep s \<le> 3 \<and> (1 \<le> rw_activeStep s \<longrightarrow> rw_diffLoaded s) \<and>
      (rw_diffLoaded s \<longrightarrow> (\<forall>x. rw_selectedVersion s = Some x \<longrightarrow>
         rw_usingVersion s \<noteq> None \<and> pair_shows (rw_usingVersion s) (rw_diffPair s) x)))"

definition rw_pendingInv :: "RollbackState \<Rightarrow> bool" where
  "rw_pendingInv s =
     (count_if is_rollback_diff (rw_pending s) \<le> 1 \<and> count_if is_rollback_post (rw_pending s) \<le> 1 \<and>
      (\<forall>target u r. AwaitRollbackDiff target u r \<in> set (rw_pending s) \<longrightarrow>
         rw_diffLoading s \<and> rw_activeStep s = 0 \<and> r = rw_diffRequestSeq s \<and>
         (rw_selectedVersion s = None \<or>
          rw_selectedVersion s = Some target \<and> rw_usingVersion s = Some u)) \<and>
      (\<forall>v. AwaitRollback v \<in> set (rw_pending s) \<longrightarrow> rw_submitting s \<and> rw_activeStep s = 2))"

definition rollback_inv :: "RollbackState \<Rightarrow> bool" where
  "rollback_inv s \<longleftrightarrow> options_ok (rw_versionOptions s) \<and> rw_stepInv s \<and> rw_pendingInv s"

lemmas rollback_inv_defs = rollback_inv_def rw_stepInv_def rw_pendingInv_def

lemma rollback_inv_init: "rollback_inv initRollback"
  by (simp add: rollback_inv_defs initRollback_def)

lemma rinv_cong:
  assumes "rollback_inv s"
    and "rw_activeStep s' = rw_activeStep s" "rw_version s' = rw_version s"
    "rw_versionOptions s' = rw_versionOptions s" "rw_usingVersion s' = rw_usingVersion s"
    "rw_diffPair s' = rw_diffPair s" "rw_diffLoaded s' = rw_diffLoaded s"
    "rw_diffLoading s' = rw_diffLoading s" "rw_submitting s' = rw_submitting s"
    "rw_diffRequestSeq s' = rw_diffRequestSeq s" "rw_pending s' = rw_pending s"
  shows "rollback_inv s'"
  using assms by (simp add: rollback_inv_defs rw_selectedVersion_def)

lemma rinv_mount: "rollback_inv s \<Longrightarrow> rollback_inv (fst (rw_mountEffect p s))"
  by (erule rinv_cong) (simp_all add: rw_mountEffect_def Let_def)

lemma rinv_cleanup: "rollback_inv s \<Longrightarrow> rollback_inv (fst (rw_cleanup s))"
  by (erule rinv_cong) (simp_all add: rw_cleanup_def)

lemma rinv_loadOptions: "rollback_inv s \<Longrightarrow> rollback_inv (fst (rw_loadOptions p s))"
  by (auto simp: rollback_inv_defs rw_loadOptions_def rw_selectedVersion_def
      is_rollback_diff_def is_rollback_post_def)

lemma rinv_queued: "rollback_inv s \<Longrightarrow> rollback_inv (s\<lparr>rw_queued := n\<rparr>)"
  by (erule rinv_cong) simp_all

lemma rinv_settle:
  assumes "rollback_inv s" and "i < length (rw_pending s)"
  shows "rollback_inv (rw_settle i s)"
  using assms set_remove_at [of i "rw_pending s"]
  by (auto simp: rollback_inv_defs rw_settle_def rw_selectedVersion_def count_remove_at)

lemma rinv_optionsLoaded: "rollback_inv s \<Longrightarrow> rollback_inv (fst (rw_optionsLoaded t outcome s))"
  using find_empty_value [OF options_ok_request]
  by (auto simp: rollback_inv_defs rw_optionsLoaded_def rw_selectedVersion_def options_ok_request
      split: sum.splits)

lemma rinv_handleBack: "rollback_inv s \<Longrightarrow> \<not> rw_backDisabled s \<Longrightarrow> rollback_inv (fst (rw_handleBack s))"
  by (auto simp: rollback_inv_defs rw_handleBack_def rw_backDisabled_def rw_selectedVersion_def)

lemma rinv_changeVersion:
  "rollback_inv s \<Longrightarrow> rw_activeStep s = 0 \<Longrightarrow> \<not> rw_diffLoading s \<Longrightarrow> rollback_inv (fst (rw_changeVersion v s))"
  by (auto simp: rollback_inv_defs rw_changeVersion_def)

lemma no_rollback_diff:
  "rw_pendingInv s \<Longrightarrow> \<not> rw_diffLoading s \<Longrightarrow> count_if is_rollback_diff (rw_pending s) = 0"
  by (auto simp: rw_pendingInv_def count_if_0 is_rollback_diff_def split: RollbackPending.splits)

lemma no_rollback_post:
  "rw_pendingInv s \<Longrightarrow> \<not> rw_submitting s \<Longrightarrow> count_if is_rollback_post (rw_pending s) = 0"
  by (auto simp: rw_pendingInv_def count_if_0 is_rollback_post_def split: RollbackPending.splits)

lemma rollback_diff_count0: "count_if is_rollback_diff xs = 0 \<Longrightarrow> AwaitRollbackDiff target u r \<notin> set xs"
  by (auto simp: count_if_0 is_rollback_diff_def)

lemma rollback_post_count0: "count_if is_rollback_post xs = 0 \<Longrightarrow> AwaitRollback v \<notin> set xs"
  by (auto simp: count_if_0 is_rollback_post_def)

lemma rinv_showDiff:
  assumes "rollback_inv s"
    and "count_if is_rollback_diff (rw_pending s) = 0" "count_if is_rollback_post (rw_pending s) = 0"
    and "\<And>x. rw_selectedVersion s = Some x \<Longrightarrow>
      x = target \<and> rw_usingVersion s \<noteq> None \<and> base_ok (rw_usingVersion s) base"
  shows "rollback_inv (rw_showDiff current base target s)"
  using assms rollback_diff_count0 [OF assms(2)] rollback_post_count0 [OF assms(3)]
  by (auto simp: rollback_inv_defs rw_showDiff_def rw_selectedVersion_def pair_shows_def)

lemma rinv_clearDiff:
  assumes "rollback_inv s" and "rw_activeStep s = 0"
    and "count_if is_rollback_diff (rw_pending s) = 0"
  shows "rollback_inv (s\<lparr>rw_diffRequestSeq := n, rw_diffLoading := b, rw_diffLoaded := False,
                   rw_diffPair := None, rw_currentVersion := None\<rparr>)"
  using assms rollback_diff_count0 [OF assms(3)] by (auto simp: rollback_inv_defs rw_selectedVersion_def)

lemma rinv_awaitDiff:
  assumes "rollback_inv s" and "count_if is_rollback_diff (rw_pending s) = 0" and "rw_diffLoading s"
    and "rw_activeStep s = 0" and "rw_selectedVersion s = Some target" and "rw_usingVersion s = Some u"
  shows "rollback_inv (s\<lparr>rw_pending := rw_pending s @ [AwaitRollbackDiff target u (rw_diffRequestSeq s)]\<rparr>)"
  using assms rollback_diff_count0 [OF assms(2)]
  by (auto simp: rollback_inv_defs rw_selectedVersion_def is_rollback_post_def is_rollback_diff_def)

lemma rinv_handleLoadDiff:
  assumes inv: "rollback_inv s" and step: "rw_activeStep s = 0"
  shows "rollback_inv (fst (rw_handleLoadDiffAndAdvance t p s))"
proof (cases "wp_missingParams p \<or> \<not> rw_versionIsValid s \<or> rw_diffLoading s \<or> rw_submitting s")
  case True
  with inv show ?thesis by (simp add: rw_handleLoadDiffAndAdvance_def)
next
  case False
  let ?n = "Suc (rw_diffRequestSeq s)"
  let ?s = "\<lambda>b. s\<lparr>rw_diffRequestSeq := ?n, rw_diffLoading := b, rw_diffLoaded := False, rw_diffPair := None,
    rw_currentVersion := None\<rparr>"
  from inv have pend: "rw_pendingInv s" and ok: "options_ok (rw_versionOptions s)"
    by (simp_all add: rollback_inv_def)
  note n = no_rollback_diff [OF pend] no_rollback_post [OF pend]
  with False have c: "rollback_inv (?s b)" for b using rinv_clearDiff [OF inv step] by simp
  have c': "rollback_inv (s\<lparr>rw_diffRequestSeq := ?n, rw_diffLoaded := False, rw_diffPair := None,
      rw_currentVersion := None, rw_diffLoading := False\<rparr>)"
    by (rule rinv_cong [OF c [of False]]) simp_all
  have sel: "rw_selectedVersion (?s b) = rw_selectedVersion s" for b by (simp add: rw_selectedVersion_def)
  from False obtain target where target: "rw_selectedVersion s = Some target"
    by (auto simp: rw_versionIsValid_def split: option.splits)
  have "rollback_inv (rw_showDiff current base target (?s True))"
    if "rw_usingVersion s = Some u" "el_version base = Some (Num u)" for current base u
    using rinv_showDiff [OF c [of True], of target base] that n False target by (simp add: sel base_ok_def)
  moreover have "rollback_inv (?s True\<lparr>rw_pending := rw_pending s @ [AwaitRollbackDiff target u ?n]\<rparr>)"
    if "rw_usingVersion s = Some u" for u
    using rinv_awaitDiff [OF c [of True], of target u] that n False target step by (simp add: sel)
  ultimately show ?thesis
    using c' False target find_live [OF ok]
    by (auto simp: rw_handleLoadDiffAndAdvance_def Let_def split: option.splits)
qed

lemma rinv_diffSettled:
  assumes inv: "rollback_inv s" and i: "i < length (rw_pending s)" "rw_pending s ! i = AwaitRollbackDiff target u r"
  shows "rollback_inv (fst (rw_diffSettled t target u r outcome (rw_settle i s)))"
proof -
  let ?s = "rw_settle i s"
  from i have q: "AwaitRollbackDiff target u r \<in> set (rw_pending s)" by (metis nth_mem)
  have inv': "rollback_inv ?s" by (rule rinv_settle [OF inv i(1)])
  from inv have pend: "rw_pendingInv s" by (simp add: rollback_inv_def)
  have c: "count_if is_rollback_diff (rw_pending ?s) = 0"
    using pend i by (simp add: rw_settle_def count_remove_at is_rollback_diff_def rw_pendingInv_def)
  have d: "count_if is_rollback_post (rw_pending ?s) = 0"
    using inv' q pend
    by (auto simp: rollback_inv_def rw_pendingInv_def count_if_0 rw_settle_def is_rollback_post_def
        split: RollbackPending.splits)
  have "rollback_inv (?s\<lparr>rw_diffLoading := False\<rparr>)"
    using inv' rollback_diff_count0 [OF c] by (auto simp: rollback_inv_defs rw_selectedVersion_def)
  moreover have "rollback_inv (rw_showDiff (Some u) base target ?s)" if "el_version base = Some (Num u)" for base
    by (rule rinv_showDiff [OF inv' c d])
      (use pend q that in \<open>auto simp: rw_pendingInv_def rw_settle_def rw_selectedVersion_def base_ok_def\<close>)
  ultimately show ?thesis
    using inv' by (auto simp: rw_diffSettled_def split: sum.splits)
qed

lemma rinv_handleRollback:
  assumes inv: "rollback_inv s" and step: "rw_activeStep s = 2"
  shows "rollback_inv (fst (rw_handleRollback p s))"
proof (cases "rw_submitting s")
  case False
  with inv have c: "count_if is_rollback_post (rw_pending s) = 0"
    using no_rollback_post by (simp add: rollback_inv_def)
  show ?thesis
    using inv step c rollback_post_count0 [OF c]
    by (auto simp: rw_handleRollback_def rollback_inv_defs rw_selectedVersion_def is_rollback_diff_def is_rollback_post_def)
qed (simp add: rw_handleRollback_def inv)

lemma rinv_rollbackSettled:
  assumes inv: "rollback_inv s" and i: "i < length (rw_pending s)" "rw_pending s ! i = AwaitRollback v"
  shows "rollback_inv (fst (rw_rollbackSettled t v outcome (rw_settle i s)))"
proof -
  let ?s = "rw_settle i s"
  from i have q: "AwaitRollback v \<in> set (rw_pending s)" by (metis nth_mem)
  have inv': "rollback_inv ?s" by (rule rinv_settle [OF inv i(1)])
  from inv have pend: "rw_pendingInv s" by (simp add: rollback_inv_def)
  then have step: "rw_activeStep s = 2" using q by (auto simp: rw_pendingInv_def)
  have c: "count_if is_rollback_post (rw_pending ?s) = 0"
    using pend i by (simp add: rw_settle_def count_remove_at is_rollback_post_def rw_pendingInv_def)
  have d: "count_if is_rollback_diff (rw_pending ?s) = 0"
    using inv' step
    by (auto simp: rollback_inv_def rw_pendingInv_def count_if_0 rw_settle_def is_rollback_diff_def
        split: RollbackPending.splits)
  show ?thesis
    using inv' step rollback_diff_count0 [OF d] rollback_post_count0 [OF c]
    by (auto simp: rw_rollbackSettled_def rollback_inv_defs rw_selectedVersion_def rw_settle_def split: sum.splits)
qed

lemma rinv_setStep:
  assumes "rollback_inv s" and "\<not> rw_submitting s" "\<not> rw_diffLoading s" and "n \<le> 3" "1 \<le> n \<Longrightarrow> rw_diffLoaded s"
  shows "rollback_inv (s\<lparr>rw_activeStep := n\<rparr>)"
  using assms by (auto simp: rollback_inv_defs rw_selectedVersion_def)

lemma rinv_handleNext:
  assumes "rollback_inv s" and "\<not> rw_nextDisabled p s"
  shows "rollback_inv (fst (rw_handleNext t p s))"
  using assms rinv_setStep [OF assms(1)] rinv_handleLoadDiff [OF assms(1)] rinv_handleRollback [OF assms(1)]
  by (simp add: rw_handleNext_def rw_nextDisabled_def)

lemma rinv_ui: "rollback_inv s \<Longrightarrow> rollback_inv (fst (rw_ui t p s e))"
  by (cases e)
    (auto simp: rw_ui_def rw_selectDisabled_def intro: rinv_changeVersion rinv_handleNext rinv_handleBack rinv_cong)

lemma rollback_inv_step: "rollback_inv s \<Longrightarrow> rollback_inv (fst (rollback_step t p s e))"
  by (cases e)
    (auto simp: rollback_step_def intro: rinv_mount rinv_cleanup rinv_ui rinv_diffSettled rinv_rollbackSettled
      rinv_optionsLoaded rinv_settle rinv_loadOptions rinv_queued split: RollbackPending.splits)

subsection \<open>What the wizard sends\<close>

definition rollback_allowed :: "WizardProps \<Rightarrow> RollbackState \<Rightarrow> effect \<Rightarrow> bool" where
  "rollback_allowed p s x = (case x of
       Request path ri \<Rightarrow> ri_method ri = Some ''POST'' \<longrightarrow>
         rw_activeStep s = 2 \<and> rw_mounted s \<and> path = rollbackPath p \<and> ri = jsonBody (rollbackPayload s) \<and>
         count_if is_rollback_post (rw_pending s) = 0 \<and>
         (\<exists>x u. rw_selectedVersion s = Some x \<and> rw_usingVersion s = Some u \<and>
            vo_published x \<and> vo_version x < u \<and> pair_shows (Some u) (rw_diffPair s) x)
     | Navigate path \<Rightarrow> path = wp_detailPath p
     | ShowToast _ _ \<Rightarrow> True
     | _ \<Rightarrow> False)"

lemma rollback_reads_allowed [simp]:
  "rollback_allowed p s (Request path noInit)" "rollback_allowed p s (ShowToast m sev)"
  "rollback_allowed p s (requestComparisonElement a e k v)"
  by (simp_all add: rollback_allowed_def noInit_def requestComparisonElement_def requestElementVersion_def)

lemma allowed_handleRollback:
  assumes "rollback_inv s" and "rw_activeStep s = 2" and "rw_mounted s" and "x \<in> set (snd (rw_handleRollback p s))"
  shows "rollback_allowed p s x"
proof -
  from assms(4) have g: "rw_versionIsValid s" "\<not> rw_submitting s"
    and x: "x = Request (rollbackPath p) (jsonBody (rollbackPayload s))"
    by (auto simp: rw_handleRollback_def split: if_splits)
  from g(1) obtain y where y: "rw_selectedVersion s = Some y" "\<not> isRollbackVersionDisabled y (rw_usingVersion s)"
    by (auto simp: rw_versionIsValid_def split: option.splits)
  have n: "count_if is_rollback_post (rw_pending s) = 0"
    using assms(1) g(2) no_rollback_post by (simp add: rollback_inv_def)
  have "rw_usingVersion s \<noteq> None" and sh: "pair_shows (rw_usingVersion s) (rw_diffPair s) y"
    using assms(1,2) y by (simp_all add: rollback_inv_defs)
  then obtain u where u: "rw_usingVersion s = Some u" by blast
  with y have "vo_published y" "vo_version y < u"
    by (auto simp: isRollbackVersionDisabled_def split: if_splits)
  then show ?thesis
    using assms(2,3) n sh x y u by (simp add: rollback_allowed_def)
qed

lemma allowed_rollbackNext:
  assumes "rollback_inv s" and "rw_mounted s" and "x \<in> set (snd (rw_handleNext t p s))"
  shows "rollback_allowed p s x"
  using assms allowed_handleRollback [of s x p]
  by (auto simp: rw_handleNext_def rw_handleLoadDiffAndAdvance_def Let_def rollback_allowed_def [of p s "Navigate q" for q]
      split: if_splits option.splits)

lemma allowed_rollback_ui:
  "rollback_inv s \<Longrightarrow> rw_mounted s \<Longrightarrow> x \<in> set (snd (rw_ui t p s e)) \<Longrightarrow> rollback_allowed p s x"
  by (cases e)
    (auto simp: rw_ui_def rw_handleBack_def rw_changeVersion_def rollback_allowed_def [of p s "Navigate q" for q]
      intro: allowed_rollbackNext split: if_splits option.splits)

lemma rollback_allowed_step:
  "rollback_inv s \<Longrightarrow> x \<in> set (snd (rollback_step t p s e)) \<Longrightarrow> rollback_allowed p s x"
  by (cases e)
    (auto simp: rollback_step_def rw_mountEffect_def rw_cleanup_def rw_loadOptions_def rw_optionsLoaded_def
      rw_diffSettled_def rw_rollbackSettled_def Let_def
      intro: allowed_rollback_ui split: if_splits sum.splits RollbackPending.splits)

interpretation rollback: guarded_component "rollback_step t p" "\<lambda>s. s = initRollback" rollback_inv "rollback_allowed p"
  for t p
  by unfold_locales (simp_all add: rollback_inv_init rollback_inv_step rollback_allowed_step)

subsection \<open>Properties\<close>

definition demo_rollback_versions :: ElementsResponse where
  "demo_rollback_versions = \<lparr>es_elements = Some
     [\<lparr>el_metadata = demo_meta\<lparr>em_usingVersion := Some (Num 2)\<rparr>, el_raw = Some ''e30='',
       el_version = Some (Num 1), el_published = Some True\<rparr>,
      \<lparr>el_metadata = demo_meta\<lparr>em_usingVersion := Some (Num 2)\<rparr>, el_raw = Some ''W10='',
       el_version = Some (Num 2), el_published = Some True\<rparr>],
     es_hasMore = None, es_nextSeek = None\<rparr>"

definition demo_rollback_chosen :: RollbackState where
  "demo_rollback_chosen = after (rollback_step (\<lambda>k ps. k) demo_props) initRollback
     [RMount, RMicrotask, RSettleOptions 0 (Inr demo_rollback_versions), RSelectVersion ''1'']"

definition demo_rollback :: RollbackState where
  "demo_rollback = after (rollback_step (\<lambda>k ps. k) demo_props) initRollback
     [RMount, RMicrotask, RSettleOptions 0 (Inr demo_rollback_versions), RSelectVersion ''1'', RNext, RNext]"

lemma demo_rollback_next:
  "snd (rollback_step (\<lambda>k ps. k) demo_props demo_rollback RNext) =
     [Request (rollbackPath demo_props) (jsonBody (rollbackPayload demo_rollback))]"
  by code_simp

text \<open>C2: Whatever the user does and however the requests interleave, a modifying request the
  rollback wizard sends asks to roll this element back to the selected version, from the
  confirmation step; some version is in use, the selected one is published and strictly older, and
  the difference between exactly these two has been loaded.\<close>

theorem rollback_request_reviewed:
  assumes "s = after (rollback_step t p) initRollback es"
    and "Request path ri \<in> set (snd (rollback_step t p s e))" and "ri_method ri = Some ''POST''"
  shows "path = rollbackPath p \<and> rw_activeStep s = 2 \<and>
    (\<exists>x u. rw_selectedVersion s = Some x \<and> rw_usingVersion s = Some u \<and> vo_published x \<and> vo_version x < u \<and>
      pair_shows (Some u) (rw_diffPair s) x \<and>
      ri = jsonBody (JObj [(''version'', JNum (vo_version x))]))"
proof -
  have "rollback_inv s" using rollback.inv_reachable assms(1) by blast
  from rollback.allowed_step [OF this assms(2)] have "rollback_allowed p s (Request path ri)" .
  then show ?thesis
    using assms(3) by (auto simp: rollback_allowed_def rollbackPayload_def rw_parsedVersion_def)
qed

theorem rollback_request_reviewed_witness:
  "rw_activeStep demo_rollback = 2 \<and> (\<exists>x u. rw_selectedVersion demo_rollback = Some x \<and>
     rw_usingVersion demo_rollback = Some u \<and> vo_version x < u)"
  using rollback_request_reviewed [OF demo_rollback_def,
      of "rollbackPath demo_props" "jsonBody (rollbackPayload demo_rollback)" RNext]
  by (auto simp: demo_rollback_next jsonBody_def)

text \<open>At most one rollback request is in flight, and at most one comparison request; the one in
  flight carries the latest sequence number, so its response is never discarded as outdated.\<close>

theorem rollback_single_flight:
  assumes "s = after (rollback_step t p) initRollback es"
  shows "count_if is_rollback_post (rw_pending s) \<le> 1 \<and> count_if is_rollback_diff (rw_pending s) \<le> 1 \<and>
    (\<forall>target u r. AwaitRollbackDiff target u r \<in> set (rw_pending s) \<longrightarrow> r = rw_diffRequestSeq s)"
  using rollback.inv_reachable [of initRollback t p es] assms by (simp add: rollback_inv_def rw_pendingInv_def)

theorem rollback_single_flight_witness:
  "count_if is_rollback_post (rw_pending demo_rollback) \<le> 1"
  using rollback_single_flight [OF demo_rollback_def] by simp

text \<open>A wizard that has its options and a valid version selected, with the version in use among
  the options and no request in flight, completes: three clicks on Next and the server's
  acceptance lead to the result step, and exactly one modifying request is sent, for that version.\<close>

theorem rollback_completes:
  assumes "\<not> wp_missingParams p" and "rw_mounted s" and "rw_activeStep s = 0"
    and "\<not> rw_optionsLoading s" "\<not> rw_submitting s" "\<not> rw_diffLoading s" and "rw_pending s = []"
    and "rw_versionIsValid s" and "rw_usingVersion s = Some u"
    and "\<exists>x \<in> set (rw_versionOptions s). vo_version x = u"
  shows "rw_activeStep (after (rollback_step t p) s [RNext, RNext, RNext, RSettleRollback 0 (Inr ())]) = 3 \<and>
    filter is_post (snd (run (rollback_step t p) s [RNext, RNext, RNext, RSettleRollback 0 (Inr ())])) =
      [Request (rollbackPath p) (jsonBody (rollbackPayload s))]"
proof -
  from assms(8) obtain x where x: "find (\<lambda>y. vo_value y = rw_version s) (rw_versionOptions s) = Some x"
    "\<not> isRollbackVersionDisabled x (rw_usingVersion s)"
    by (auto simp: rw_versionIsValid_def rw_selectedVersion_def split: option.splits)
  from assms(10) obtain y where y: "find (\<lambda>y. vo_version y = u) (rw_versionOptions s) = Some y"
    by (cases "find (\<lambda>y. vo_version y = u) (rw_versionOptions s)") (auto dest: find_NoneD)
  then have "vo_version y = u" by (auto dest: find_SomeD)
  moreover have "vo_version x < u"
    using x(2) assms(9) by (auto simp: isRollbackVersionDisabled_def split: if_splits)
  ultimately show ?thesis
    using assms x y
    by (simp add: rollback_step_def rw_ui_def rw_nextDisabled_def rw_handleNext_def rw_versionIsValid_def
        rw_selectedVersion_def rw_handleRollback_def rw_settle_def rw_rollbackSettled_def rollbackPayload_def
        rw_parsedVersion_def is_post_def jsonBody_def rw_handleLoadDiffAndAdvance_def Let_def rw_showDiff_def)
qed

lemma demo_rollback_ready:
  "\<not> wp_missingParams demo_props" "rw_mounted demo_rollback_chosen" "rw_activeStep demo_rollback_chosen = 0"
  "\<not> rw_optionsLoading demo_rollback_chosen" "\<not> rw_submitting demo_rollback_chosen"
  "\<not> rw_diffLoading demo_rollback_chosen" "rw_pending demo_rollback_chosen = []"
  "rw_versionIsValid demo_rollback_chosen" "rw_usingVersion demo_rollback_chosen = Some 2"
  "\<exists>x \<in> set (rw_versionOptions demo_rollback_chosen). vo_version x = 2"
  by code_simp+

theorem rollback_completes_witness:
  "rw_activeStep (after (rollback_step (\<lambda>k ps. k) demo_props) demo_rollback_chosen
     [RNext, RNext, RNext, RSettleRollback 0 (Inr ())]) = 3"
  using rollback_completes [OF demo_rollback_ready, of "\<lambda>k ps. k"] by simp

end
