(* ===== verification/Js_Number.thy ===== *)
theory Js_Number
  imports Js_Text Domain_Types
begin

section \<open>Reading a content type: \<open>Number(contentType)\<close>\<close>

text \<open>
  A content type is a number or a name. The pages convert it with \<open>Number\<close> and compare the
  result with the codes of \<open>contentTypes\<close>. The conversion of a text follows the standard's
  \<open>StringToNumber\<close> and gives an exact fraction; the comparison with a code takes the rounding to
  a double into account: the fraction lies no further from the code than half the distance to
  the neighbouring doubles (a tie rounds to the code, whose significand is even).
\<close>

datatype js_parsed = NotANumber | Infinite bool | Ratio int int

definition all_of :: "(char \<Rightarrow> bool) \<Rightarrow> string \<Rightarrow> bool" where
  "all_of p s = (s \<noteq> [] \<and> (\<forall>c \<in> set s. p c))"

definition radix_value :: "char \<Rightarrow> nat option" where
  "radix_value c = (let n = of_char c :: nat in
     if 48 \<le> n \<and> n \<le> 57 then Some (n - 48)
     else if 65 \<le> n \<and> n \<le> 70 then Some (n - 55)
     else if 97 \<le> n \<and> n \<le> 102 then Some (n - 87) else None)"

definition in_radix :: "nat \<Rightarrow> char \<Rightarrow> bool" where
  "in_radix b c = (case radix_value c of Some d \<Rightarrow> d < b | None \<Rightarrow> False)"

definition radix_nat :: "nat \<Rightarrow> string \<Rightarrow> nat" where
  "radix_nat b s = foldl (\<lambda>a c. b * a + the (radix_value c)) 0 s"

definition radix_prefix :: "string \<Rightarrow> nat option" where
  "radix_prefix s = map_of [(''0x'', 16), (''0X'', 16), (''0o'', 8), (''0O'', 8), (''0b'', 2), (''0B'', 2)] (take 2 s)"

definition sign_split :: "string \<Rightarrow> int \<times> string" where
  "sign_split s = (case s of
       c # r \<Rightarrow> if c = CHR ''-'' then (-1, r) else if c = CHR ''+'' then (1, r) else (1, s)
     | [] \<Rightarrow> (1, s))"

definition exponent_of :: "string \<Rightarrow> int option" where
  \<comment> \<open>an optional exponent part that uses up the text\<close>
  "exponent_of s = (case s of
       [] \<Rightarrow> Some 0
     | c # r \<Rightarrow>
         if c \<in> {CHR ''e'', CHR ''E''} then
           (case sign_split r of (sg, ds) \<Rightarrow> if all_of is_digit ds then Some (sg * int (digits_nat ds)) else None)
         else None)"

definition ratio10 :: "int \<Rightarrow> int \<Rightarrow> js_parsed" where
  "ratio10 m e = (if 0 \<le> e then Ratio (m * 10 ^ nat e) 1 else Ratio m (10 ^ nat (- e)))"

definition decimal_of :: "string \<Rightarrow> js_parsed" where
  "decimal_of s =
     (let whole = takeWhile is_digit s; r = dropWhile is_digit s;
          frac = (if take 1 r = ''.'' then takeWhile is_digit (tl r) else []);
          r' = (if take 1 r = ''.'' then dropWhile is_digit (tl r) else r)
      in if whole = [] \<and> frac = [] then NotANumber
         else case exponent_of r' of
             None \<Rightarrow> NotANumber
           | Some e \<Rightarrow> ratio10 (int (digits_nat (whole @ frac))) (e - int (length frac)))"

definition negate :: "int \<Rightarrow> js_parsed \<Rightarrow> js_parsed" where
  "negate sg v = (case v of Ratio n d \<Rightarrow> Ratio (sg * n) d | _ \<Rightarrow> v)"

definition parse_number :: "string \<Rightarrow> js_parsed" where
  "parse_number str =
     (let s = js_trim str in
      if s = [] then Ratio 0 1
      else case radix_prefix s of
          Some b \<Rightarrow> if all_of (in_radix b) (drop 2 s) then Ratio (int (radix_nat b (drop 2 s))) 1 else NotANumber
        | None \<Rightarrow> (case sign_split s of (sg, r) \<Rightarrow>
            if r = ''Infinity'' then Infinite (0 < sg) else negate sg (decimal_of r)))"

definition Number_of :: "ContentType option \<Rightarrow> js_parsed" where
  "Number_of contentType = (case contentType of
       None \<Rightarrow> NotANumber
     | Some (CTNum n) \<Rightarrow> Ratio n 1
     | Some (CTStr s) \<Rightarrow> parse_number s)"

text \<open>Half the distance to the next double below and above the codes, as negative powers of two.\<close>

definition code_gaps :: "(int \<times> nat \<times> nat) list" where
  "code_gaps = [(1, 54, 53), (2, 53, 52), (3, 52, 52), (4, 52, 51)]"

definition number_is :: "int \<Rightarrow> js_parsed \<Rightarrow> bool" where
  "number_is k v = (case v of
       Ratio n d \<Rightarrow> (case map_of code_gaps k of
           Some (lo, hi) \<Rightarrow> - d \<le> (n - k * d) * 2 ^ lo \<and> (n - k * d) * 2 ^ hi \<le> d
         | None \<Rightarrow> n = k * d)
     | _ \<Rightarrow> False)"

definition code_label :: "js_parsed \<Rightarrow> string option" where
  \<comment> \<open>\<open>contentTypes.find((item) => item.value === value)?.label\<close>\<close>
  "code_label v = map_option snd (find (\<lambda>item. number_is (fst item) v) contentTypes)"

definition content_type_text :: "ContentType option \<Rightarrow> string" where
  \<comment> \<open>\<open>String(contentType || '-')\<close>\<close>
  "content_type_text contentType = (case contentType of
       None \<Rightarrow> ''-''
     | Some (CTNum n) \<Rightarrow> if n = 0 then ''-'' else int_str n
     | Some (CTStr s) \<Rightarrow> str_or s ''-'')"

definition getContentTypeLabel :: "ContentType option \<Rightarrow> string" where
  "getContentTypeLabel contentType =
     opt_str_or (code_label (Number_of contentType)) (content_type_text contentType)"

lemma number_is_int: "k \<in> {1, 2, 3, 4} \<Longrightarrow> number_is k (Ratio n 1) \<longleftrightarrow> n = k"
proof -
  have step: "- 1 \<le> z * 2 ^ lo \<and> z * 2 ^ hi \<le> 1 \<longleftrightarrow> z = 0"
    if "1 \<le> lo" "1 \<le> hi" for z :: int and lo hi :: nat
  proof -
    have p: "(2 :: int) \<le> 2 ^ e" if "1 \<le> e" for e :: nat
      using power_increasing [OF that, of "2 :: int"] by simp
    have "z * 2 ^ hi \<ge> 2" if "0 < z"
      using mult_mono [of 1 z 2 "2 ^ hi"] p [OF \<open>1 \<le> hi\<close>] that by simp
    moreover have "z * 2 ^ lo \<le> - 2" if "z < 0"
      using mult_mono [of 1 "- z" 2 "2 ^ lo"] p [OF \<open>1 \<le> lo\<close>] that by simp
    ultimately show ?thesis by fastforce
  qed
  show "k \<in> {1, 2, 3, 4} \<Longrightarrow> number_is k (Ratio n 1) \<longleftrightarrow> n = k"
    using step [of 54 53 "n - 1"] step [of 53 52 "n - 2"] step [of 52 52 "n - 3"] step [of 52 51 "n - 4"]
    by (auto simp: number_is_def code_gaps_def)
qed

lemma code_label_num:
  "code_label (Ratio n 1) = map_of contentTypes n"
  by (simp add: code_label_def contentTypes_def number_is_int)

end
