(* ===== verification/Copy_Pool.thy ===== *)
theory Copy_Pool
  imports Workflow_Options Raw_Codec Js_Number
begin

section \<open>Copying the elements of an environment: the helpers and \<open>runWorkers\<close> of \<open>envs/CopyEnvDialog.tsx\<close>\<close>

text \<open>
  The requests the copy dialog sends, the loop that collects all pages of the element list, and
  the pool of workers that copies the chosen elements: at most four workers share a cursor into
  the list; each takes the next element, fetches it, creates it in the target environment, and
  records a result. A worker is suspended at one of its two requests; the event \<open>PoolFetched i\<close>
  or \<open>PoolCreated i\<close> settles the request of worker \<open>i\<close>, with the value of \<open>isActive()\<close> at that
  moment. The facts: whatever the interleaving, every element gets exactly one result, no
  element is created twice, empty elements are not created when they are to be skipped, and the
  pool comes to an end.
\<close>

subsection \<open>Helpers\<close>

definition elementPageLimit :: int where
  "elementPageLimit = 100"

definition workerCount :: nat where
  "workerCount = 4"

datatype EmptyElementStrategy = SkipEmpty | CopyEmpty

datatype CopyResultStatus = CopySuccess | CopySkipped | CopyFailed

record CopyResult =
  cr_key :: string
  cr_status :: CopyResultStatus
  cr_message :: "string option"
  cr_messageKey :: "string option"

definition getElementKey :: "Element \<Rightarrow> string" where
  "getElementKey element = em_key (el_metadata element)"

definition isElementEmpty :: "Element \<Rightarrow> bool" where
  "isElementEmpty element =
     (\<not> num_truthy (em_usingVersion (el_metadata element)) \<or> el_raw element = Some [])"

definition elementsPath :: "string \<Rightarrow> string \<Rightarrow> string \<Rightarrow> string" where
  "elementsPath appId env seek = envPath appId env @ ''/elements'' @
     buildQuery [(''limit'', qnum elementPageLimit), (''seek'', qopt seek)]"

definition requestElements :: "string \<Rightarrow> string \<Rightarrow> string \<Rightarrow> effect" where
  "requestElements appId env seek = Request (elementsPath appId env seek) noInit"

definition requestElement :: "string \<Rightarrow> string \<Rightarrow> string \<Rightarrow> effect" where
  "requestElement appId env key = Request (elementPath appId env key) noInit"

definition normalizeContentType :: "ContentType option \<Rightarrow> json" where
  "normalizeContentType contentType = (case contentType of
       Some (CTNum n) \<Rightarrow> JNum n
     | Some (CTStr s) \<Rightarrow> (case find (\<lambda>option. snd option = js_toUpperCase s) contentTypes of
           Some matched \<Rightarrow> JNum (fst matched)
         | None \<Rightarrow> JStr s)
     | None \<Rightarrow> JNum (fst (hd contentTypes)))"

definition createEnv :: "string \<Rightarrow> string \<Rightarrow> effect" where
  "createEnv appId env = Request (envPath appId env) (methodInit ''POST'')"

definition createElementBody :: "Element \<Rightarrow> json" where
  "createElementBody element = JObj
     [(''raw'', JStr (decodeRaw (Some (opt_str_or (el_raw element) [])))),
      (''contentType'', normalizeContentType (em_contentType (el_metadata element)))]"

definition createElement :: "string \<Rightarrow> string \<Rightarrow> string \<Rightarrow> Element \<Rightarrow> effect" where
  "createElement appId env key element =
     Request (elementPath appId env key) (jsonBody (createElementBody element))"

subsection \<open>Collecting all pages\<close>

text \<open>One turn of the loop in \<open>requestAllElements\<close>: the elements so far, and the next seek
  position unless this was the last page.\<close>

definition page_step :: "Element list \<Rightarrow> ElementsResponse \<Rightarrow> Element list \<times> string option" where
  "page_step elements d =
     (elements @ opt_or (es_elements d) [],
      if \<not> truthy_bool (es_hasMore d) \<or> \<not> truthy_str (es_nextSeek d) then None else es_nextSeek d)"

text \<open>The loop itself, over a server given as a function from the seek position to its answer; it
  need not end, which is the value \<open>None\<close>.\<close>

partial_function (option) request_pages ::
  "(string \<Rightarrow> failure + ElementsResponse) \<Rightarrow> string \<Rightarrow> Element list \<Rightarrow> (failure + Element list) option" where
  [code]: "request_pages server seek elements = (case server seek of
       Inl err \<Rightarrow> Some (Inl err)
     | Inr d \<Rightarrow> (case page_step elements d of
           (elements', None) \<Rightarrow> Some (Inr elements')
         | (elements', Some next) \<Rightarrow> request_pages server next elements'))"

definition requestAllElements :: "(string \<Rightarrow> failure + ElementsResponse) \<Rightarrow> (failure + Element list) option" where
  "requestAllElements server = request_pages server [] []"

subsection \<open>The pool\<close>

record CopyConfig =
  cc_appId :: string
  cc_sourceEnv :: string
  cc_targetEnv :: string
  cc_emptyStrategy :: EmptyElementStrategy
  cc_items :: "Element list"

datatype WorkerState = WFetching string | WCreating string | WDone

record Pool =
  pl_cursor :: nat
  pl_workers :: "WorkerState list"
  pl_results :: "CopyResult list"

datatype pool_output = PoolEffect effect | PoolProgress CopyResult

datatype PoolEvent =
    PoolFetched nat "failure + Element option"
  | PoolCreated nat "failure + unit"

definition take_item :: "CopyConfig \<Rightarrow> Pool \<Rightarrow> WorkerState \<times> Pool \<times> pool_output list" where
  \<comment> \<open>the head of the loop in \<open>worker\<close>, up to the first request of \<open>copyElement\<close>\<close>
  "take_item cfg pl =
     (let index = pl_cursor pl; pl' = pl\<lparr>pl_cursor := index + 1\<rparr> in
      if index < length (cc_items cfg)
      then (let key = getElementKey (cc_items cfg ! index) in
            (WFetching key, pl', [PoolEffect (requestElement (cc_appId cfg) (cc_sourceEnv cfg) key)]))
      else (WDone, pl', []))"

definition start_worker :: "CopyConfig \<Rightarrow> Pool \<times> pool_output list \<Rightarrow> Pool \<times> pool_output list" where
  "start_worker cfg po = (case po of (pl, os) \<Rightarrow> (case take_item cfg pl of
     (w, pl', os') \<Rightarrow> (pl'\<lparr>pl_workers := pl_workers pl' @ [w]\<rparr>, os @ os')))"

definition start_pool :: "CopyConfig \<Rightarrow> Pool \<times> pool_output list" where
  "start_pool cfg = (start_worker cfg ^^ min workerCount (length (cc_items cfg)))
     (\<lparr>pl_cursor = 0, pl_workers = [], pl_results = []\<rparr>, [])"

definition finish_item :: "CopyConfig \<Rightarrow> bool \<Rightarrow> nat \<Rightarrow> CopyResult \<Rightarrow> Pool \<Rightarrow> Pool \<times> pool_output list" where
  \<comment> \<open>the rest of the loop in \<open>worker\<close>, once \<open>copyElement\<close> has returned\<close>
  "finish_item cfg active i result pl =
     (let pl' = pl\<lparr>pl_results := pl_results pl @ [result]\<rparr> in
      if \<not> active then (pl'\<lparr>pl_workers := (pl_workers pl)[i := WDone]\<rparr>, [])
      else case take_item cfg pl' of
          (w, pl'', os) \<Rightarrow> (pl''\<lparr>pl_workers := (pl_workers pl)[i := w]\<rparr>, PoolProgress result # os))"

definition success_result :: "string \<Rightarrow> CopyResult" where
  "success_result key = \<lparr>cr_key = key, cr_status = CopySuccess, cr_message = None, cr_messageKey = None\<rparr>"

definition skipped_result :: "string \<Rightarrow> CopyResult" where
  "skipped_result key = \<lparr>cr_key = key, cr_status = CopySkipped, cr_message = None,
     cr_messageKey = Some ''management.copy.emptySkipped''\<rparr>"

definition failed_result :: "string \<Rightarrow> failure \<Rightarrow> CopyResult" where
  "failed_result key err = \<lparr>cr_key = key, cr_status = CopyFailed,
     cr_message = Some (getErrorMessage err []),
     cr_messageKey = (case err of ApiFailure _ \<Rightarrow> None | OtherFailure _ \<Rightarrow> Some ''management.copy.elementFailed'')\<rparr>"

definition copy_fetched ::
  "CopyConfig \<Rightarrow> bool \<Rightarrow> nat \<Rightarrow> string \<Rightarrow> failure + Element option \<Rightarrow> Pool \<Rightarrow> Pool \<times> pool_output list" where
  \<comment> \<open>\<open>copyElement\<close> after its first \<open>await\<close>\<close>
  "copy_fetched cfg active i key outcome pl = (case deref outcome of
       Inl err \<Rightarrow> finish_item cfg active i (failed_result key err) pl
     | Inr detail \<Rightarrow>
         if isElementEmpty detail \<and> cc_emptyStrategy cfg = SkipEmpty
         then finish_item cfg active i (skipped_result key) pl
         else (pl\<lparr>pl_workers := (pl_workers pl)[i := WCreating key]\<rparr>,
               [PoolEffect (createElement (cc_appId cfg) (cc_targetEnv cfg) key detail)]))"

definition copy_created ::
  "CopyConfig \<Rightarrow> bool \<Rightarrow> nat \<Rightarrow> string \<Rightarrow> failure + unit \<Rightarrow> Pool \<Rightarrow> Pool \<times> pool_output list" where
  \<comment> \<open>\<open>copyElement\<close> after its second \<open>await\<close>\<close>
  "copy_created cfg active i key outcome pl = (case outcome of
       Inl err \<Rightarrow> finish_item cfg active i (failed_result key err) pl
     | Inr _ \<Rightarrow> finish_item cfg active i (success_result key) pl)"

definition pool_step :: "CopyConfig \<Rightarrow> Pool \<Rightarrow> bool \<times> PoolEvent \<Rightarrow> Pool \<times> pool_output list" where
  "pool_step cfg pl ae = (case snd ae of
       PoolFetched i outcome \<Rightarrow>
         if i < length (pl_workers pl) then
           (case pl_workers pl ! i of
              WFetching key \<Rightarrow> copy_fetched cfg (fst ae) i key outcome pl
            | _ \<Rightarrow> (pl, []))
         else (pl, [])
     | PoolCreated i outcome \<Rightarrow>
         if i < length (pl_workers pl) then
           (case pl_workers pl ! i of
              WCreating key \<Rightarrow> copy_created cfg (fst ae) i key outcome pl
            | _ \<Rightarrow> (pl, []))
         else (pl, []))"

definition pool_done :: "Pool \<Rightarrow> bool" where
  \<comment> \<open>\<open>Promise.all\<close> of the workers has resolved\<close>
  "pool_done pl = (\<forall>w \<in> set (pl_workers pl). w = WDone)"

subsection \<open>All pages are collected\<close>

text \<open>An idealised server that lists \<open>xs\<close> in pages of \<open>n\<close> elements. Its seek position is the
  offset; the client only hands a seek position back, so the form of the position (the server of
  the repository uses keys) plays no part in what is collected.\<close>

definition paging_server :: "nat \<Rightarrow> Element list \<Rightarrow> string \<Rightarrow> failure + ElementsResponse" where
  "paging_server n xs seek =
     (let off = digits_nat seek in
      Inr \<lparr>es_elements = Some (take n (drop off xs)), es_hasMore = Some (off + n < length xs),
           es_nextSeek = Some (nat_str (off + n))\<rparr>)"

lemma request_pages_paging:
  assumes "0 < n"
  shows "request_pages (paging_server n xs) seek elements =
    Some (Inr (elements @ drop (digits_nat seek) xs))"
proof (induction "length xs - digits_nat seek" arbitrary: seek elements rule: less_induct)
  case less
  let ?off = "digits_nat seek"
  show ?case
  proof (cases "?off + n < length xs")
    case True
    have "request_pages (paging_server n xs) seek elements =
      request_pages (paging_server n xs) (nat_str (?off + n)) (elements @ take n (drop ?off xs))"
      using True by (subst request_pages.simps) (simp add: paging_server_def page_step_def Let_def)
    also have "\<dots> = Some (Inr ((elements @ take n (drop ?off xs)) @ drop (?off + n) xs))"
      using less [of "nat_str (?off + n)"] True assms by simp
    finally show ?thesis
      using append_take_drop_id [of n "drop ?off xs"] by (simp add: add.commute)
  next
    case False
    then show ?thesis
      by (subst request_pages.simps) (simp add: paging_server_def page_step_def Let_def)
  qed
qed

text \<open>A server whose seek positions make progress is read to the end, whatever it answers.\<close>

lemma request_pages_terminates:
  fixes rank :: "string \<Rightarrow> nat"
  assumes "\<And>seek d n. server seek = Inr d \<Longrightarrow> snd (page_step [] d) = Some n \<Longrightarrow> rank n < rank seek"
  shows "\<exists>r. request_pages server seek elements = Some r"
proof (induction "rank seek" arbitrary: seek elements rule: less_induct)
  case less
  show ?case
  proof (cases "server seek")
    case (Inl err)
    then show ?thesis by (subst request_pages.simps) simp
  next
    case (Inr d)
    show ?thesis
    proof (cases "snd (page_step elements d)")
      case None
      with Inr show ?thesis by (subst request_pages.simps) (auto split: prod.splits)
    next
      case (Some next')
      have "snd (page_step [] d) = snd (page_step elements d)" by (simp add: page_step_def)
      with Inr Some have "rank next' < rank seek" using assms by metis
      with less [of next' "fst (page_step elements d)"] Inr Some show ?thesis
        by (subst request_pages.simps) (auto split: prod.splits)
    qed
  qed
qed

subsection \<open>Every element gets one result\<close>

primrec worker_key :: "WorkerState \<Rightarrow> string list" where
  "worker_key (WFetching k) = [k]"
| "worker_key (WCreating k) = [k]"
| "worker_key WDone = []"

definition inflight :: "WorkerState list \<Rightarrow> string multiset" where
  "inflight ws = mset (concat (map worker_key ws))"

definition pool_inv :: "CopyConfig \<Rightarrow> Pool \<Rightarrow> bool" where
  "pool_inv cfg pl \<longleftrightarrow>
     length (pl_workers pl) = min workerCount (length (cc_items cfg)) \<and>
     mset (map cr_key (pl_results pl)) + inflight (pl_workers pl) =
       mset (map getElementKey (take (pl_cursor pl) (cc_items cfg)))"

lemma inflight_simps [simp]:
  "inflight [] = {#}" "inflight (ws @ [w]) = inflight ws + mset (worker_key w)"
  by (simp_all add: inflight_def)

lemma inflight_update:
  "i < length ws \<Longrightarrow> inflight (ws[i := w]) + mset (worker_key (ws ! i)) = inflight ws + mset (worker_key w)"
proof (induction ws arbitrary: i)
  case Nil
  then show ?case by simp
next
  case (Cons v ws)
  then show ?case by (cases i) (auto simp: inflight_def ac_simps)
qed

lemma take_item_keys:
  assumes "take_item cfg pl = (w, pl', os)"
  shows "mset (map getElementKey (take (pl_cursor pl') (cc_items cfg))) =
      mset (map getElementKey (take (pl_cursor pl) (cc_items cfg))) + mset (worker_key w)"
    and "pl_results pl' = pl_results pl" "pl_workers pl' = pl_workers pl" "pl_cursor pl' = Suc (pl_cursor pl)"
  using assms by (auto simp: take_item_def Let_def take_Suc_conv_app_nth split: if_splits)

definition pool_started :: "CopyConfig \<Rightarrow> nat \<Rightarrow> Pool \<Rightarrow> bool" where
  "pool_started cfg n pl \<longleftrightarrow> length (pl_workers pl) = n \<and> pl_results pl = [] \<and> pl_cursor pl = n \<and>
     inflight (pl_workers pl) = mset (map getElementKey (take n (cc_items cfg)))"

lemma start_workers:
  "pool_started cfg n (fst ((start_worker cfg ^^ n) (\<lparr>pl_cursor = 0, pl_workers = [], pl_results = []\<rparr>, [])))"
proof (induction n)
  case 0
  then show ?case by (simp add: pool_started_def)
next
  case (Suc n)
  obtain pl os where pl: "(start_worker cfg ^^ n) (\<lparr>pl_cursor = 0, pl_workers = [], pl_results = []\<rparr>, []) = (pl, os)"
    by fastforce
  obtain w pl' os' where t: "take_item cfg pl = (w, pl', os')" by (metis prod_cases3)
  from Suc pl have "pool_started cfg n pl" by simp
  moreover have "(start_worker cfg ^^ Suc n) (\<lparr>pl_cursor = 0, pl_workers = [], pl_results = []\<rparr>, []) =
      (pl'\<lparr>pl_workers := pl_workers pl' @ [w]\<rparr>, os @ os')"
    using pl t by (simp add: start_worker_def)
  ultimately show ?case
    using take_item_keys [OF t] by (simp add: pool_started_def)
qed

lemma pool_inv_start: "pool_inv cfg (fst (start_pool cfg))"
  using start_workers [of cfg "min workerCount (length (cc_items cfg))"]
  by (auto simp: pool_inv_def pool_started_def start_pool_def)

lemma mset_move:
  assumes "I' + {#k#} = I + W" and "R + I = T"
  shows "R + {#k#} + I' = T + W"
proof -
  have "R + {#k#} + I' = R + (I' + {#k#})" by simp
  also have "\<dots> = T + W" unfolding assms(1) assms(2) [symmetric] by (simp add: add.assoc)
  finally show ?thesis .
qed

lemma finish_item_inv:
  assumes inv: "pool_inv cfg pl" and i: "i < length (pl_workers pl)" "worker_key (pl_workers pl ! i) = [cr_key r]"
  shows "pool_inv cfg (fst (finish_item cfg active i r pl))"
proof -
  have up: "inflight ((pl_workers pl)[i := w]) + {#cr_key r#} = inflight (pl_workers pl) + mset (worker_key w)" for w
    using inflight_update [OF i(1), of w] i(2) by simp
  from inv have len: "length (pl_workers pl) = min workerCount (length (cc_items cfg))"
    and keys: "mset (map cr_key (pl_results pl)) + inflight (pl_workers pl) =
      mset (map getElementKey (take (pl_cursor pl) (cc_items cfg)))"
    by (simp_all add: pool_inv_def)
  show ?thesis
  proof (cases active)
    case True
    let ?pl = "pl\<lparr>pl_results := pl_results pl @ [r]\<rparr>"
    obtain w pl' os where t: "take_item cfg ?pl = (w, pl', os)" by (metis prod_cases3)
    from True t len take_item_keys [OF t] mset_move [OF up [of w] keys] show ?thesis
      by (simp add: pool_inv_def finish_item_def Let_def)
  next
    case False
    with len mset_move [OF up [of WDone] keys] show ?thesis
      by (simp add: pool_inv_def finish_item_def Let_def)
  qed
qed

lemma pool_inv_step: "pool_inv cfg pl \<Longrightarrow> pool_inv cfg (fst (pool_step cfg pl ae))"
proof (cases "snd ae")
  case (PoolFetched i outcome)
  assume inv: "pool_inv cfg pl"
  have "inflight ((pl_workers pl)[i := WCreating k]) = inflight (pl_workers pl)"
    if "i < length (pl_workers pl)" "pl_workers pl ! i = WFetching k" for k
    using inflight_update [OF that(1), of "WCreating k"] that(2) by simp
  with inv PoolFetched show ?thesis
    by (auto simp: pool_step_def copy_fetched_def failed_result_def skipped_result_def pool_inv_def [of _ "_\<lparr>pl_workers := _\<rparr>"]
        intro!: finish_item_inv split: WorkerState.splits sum.splits)
      (simp_all add: pool_inv_def)
next
  case (PoolCreated i outcome)
  assume "pool_inv cfg pl"
  with PoolCreated show ?thesis
    by (auto simp: pool_step_def copy_created_def failed_result_def success_result_def
        intro!: finish_item_inv split: WorkerState.splits sum.splits)
qed

subsection \<open>What the pool sends\<close>

definition pool_allowed :: "CopyConfig \<Rightarrow> Pool \<Rightarrow> pool_output \<Rightarrow> bool" where
  "pool_allowed cfg pl x = (case x of
       PoolProgress r \<Rightarrow> cr_key r \<in> getElementKey ` set (cc_items cfg)
     | PoolEffect ef \<Rightarrow> (\<exists>key \<in> getElementKey ` set (cc_items cfg).
           ef = requestElement (cc_appId cfg) (cc_sourceEnv cfg) key \<or>
           (\<exists>detail. ef = createElement (cc_appId cfg) (cc_targetEnv cfg) key detail \<and>
              (cc_emptyStrategy cfg = SkipEmpty \<longrightarrow> \<not> isElementEmpty detail))))"

lemma worker_key_item:
  assumes "pool_inv cfg pl" and "i < length (pl_workers pl)" and "worker_key (pl_workers pl ! i) = [k]"
  shows "k \<in> getElementKey ` set (cc_items cfg)"
proof -
  have "pl_workers pl ! i \<in> set (pl_workers pl)" using assms(2) by simp
  then have "k \<in># inflight (pl_workers pl)"
    using assms(3) unfolding inflight_def set_mset_mset set_concat set_map by (metis UN_I imageI list.set_intros(1))
  moreover from assms(1) have "inflight (pl_workers pl) \<subseteq># mset (map getElementKey (take (pl_cursor pl) (cc_items cfg)))"
    by (metis pool_inv_def mset_subset_eq_add_right)
  ultimately have "k \<in> set (map getElementKey (take (pl_cursor pl) (cc_items cfg)))"
    by (metis mset_subset_eqD set_mset_mset)
  then show ?thesis by (auto dest: in_set_takeD)
qed

lemma take_item_allowed:
  "x \<in> set (snd (snd (take_item cfg pl))) \<Longrightarrow> pool_allowed cfg pl' x"
  by (auto simp: take_item_def Let_def pool_allowed_def split: if_splits)

lemma finish_item_allowed:
  "cr_key r \<in> getElementKey ` set (cc_items cfg) \<Longrightarrow> x \<in> set (snd (finish_item cfg active i r pl)) \<Longrightarrow>
   pool_allowed cfg pl' x"
  using take_item_allowed [of x cfg "pl\<lparr>pl_results := pl_results pl @ [r]\<rparr>" pl']
  by (auto simp: finish_item_def Let_def pool_allowed_def [of _ _ "PoolProgress r"] split: if_splits prod.splits)

lemma create_allowed:
  assumes "key \<in> getElementKey ` set (cc_items cfg)" and "cc_emptyStrategy cfg = SkipEmpty \<Longrightarrow> \<not> isElementEmpty d"
  shows "pool_allowed cfg pl (PoolEffect (createElement (cc_appId cfg) (cc_targetEnv cfg) key d))"
  unfolding pool_allowed_def pool_output.case
  by (rule bexI [OF _ assms(1)]) (use assms(2) in blast)

lemma pool_allowed_step:
  assumes inv: "pool_inv cfg pl" and x: "x \<in> set (snd (pool_step cfg pl ae))"
  shows "pool_allowed cfg pl x"
proof -
  have key: "k \<in> getElementKey ` set (cc_items cfg)"
    if "i < length (pl_workers pl)" "pl_workers pl ! i = WFetching k \<or> pl_workers pl ! i = WCreating k" for i k
    using worker_key_item [OF inv that(1), of k] that(2) by auto
  show ?thesis
    using x key
    by (auto simp: pool_step_def copy_fetched_def copy_created_def failed_result_def skipped_result_def success_result_def
        intro: finish_item_allowed [rotated] create_allowed
        split: PoolEvent.splits if_splits WorkerState.splits sum.splits)
qed

interpretation copy_pool: guarded_component "pool_step cfg" "\<lambda>pl. pl = fst (start_pool cfg)" "pool_inv cfg"
  "pool_allowed cfg" for cfg
  by unfold_locales (simp_all add: pool_inv_start pool_inv_step pool_allowed_step)

subsection \<open>Completion of an active pool\<close>

definition pool_live :: "CopyConfig \<Rightarrow> Pool \<Rightarrow> bool" where
  "pool_live cfg pl \<longleftrightarrow> pool_inv cfg pl \<and> (WDone \<in> set (pl_workers pl) \<longrightarrow> length (cc_items cfg) \<le> pl_cursor pl)"

abbreviation live_step :: "CopyConfig \<Rightarrow> Pool \<Rightarrow> PoolEvent \<Rightarrow> Pool \<times> pool_output list" where
  "live_step cfg pl e \<equiv> pool_step cfg pl (True, e)"

lemma take_item_live: "take_item cfg pl = (WDone, pl', os) \<Longrightarrow> length (cc_items cfg) \<le> pl_cursor pl'"
  by (auto simp: take_item_def Let_def split: if_splits)

lemma start_workers_busy:
  "n \<le> length (cc_items cfg) \<Longrightarrow>
   WDone \<notin> set (pl_workers (fst ((start_worker cfg ^^ n) (\<lparr>pl_cursor = 0, pl_workers = [], pl_results = []\<rparr>, []))))"
proof (induction n)
  case (Suc n)
  obtain pl os where pl: "(start_worker cfg ^^ n) (\<lparr>pl_cursor = 0, pl_workers = [], pl_results = []\<rparr>, []) = (pl, os)"
    by fastforce
  have "pl_cursor pl = n" using start_workers [of cfg n] pl by (simp add: pool_started_def)
  moreover have "WDone \<notin> set (pl_workers pl)" using Suc pl by simp
  ultimately have "WDone \<notin> set (pl_workers (fst (start_worker cfg (pl, os))))"
    using Suc.prems by (simp add: start_worker_def take_item_def Let_def)
  with pl show ?case by simp
qed simp

lemma pool_live_start: "pool_live cfg (fst (start_pool cfg))"
  using start_workers_busy [of "min workerCount (length (cc_items cfg))" cfg] pool_inv_start [of cfg]
  by (simp add: pool_live_def start_pool_def)

lemma finish_item_live:
  assumes "WDone \<in> set (pl_workers pl) \<longrightarrow> length (cc_items cfg) \<le> pl_cursor pl"
    and "WDone \<in> set (pl_workers (fst (finish_item cfg True i r pl)))"
  shows "length (cc_items cfg) \<le> pl_cursor (fst (finish_item cfg True i r pl))"
proof -
  let ?pl = "pl\<lparr>pl_results := pl_results pl @ [r]\<rparr>"
  obtain w pl' os where t: "take_item cfg ?pl = (w, pl', os)" by (metis prod_cases3)
  have "w = WDone \<or> WDone \<in> set (pl_workers pl)"
    using assms(2) t set_update_subset_insert [of "pl_workers pl" i w] by (auto simp: finish_item_def Let_def)
  then show ?thesis
    using assms(1) t take_item_live [of cfg ?pl pl' os] take_item_keys(4) [OF t]
    by (auto simp: finish_item_def Let_def)
qed

lemma pool_live_step: "pool_live cfg pl \<Longrightarrow> pool_live cfg (fst (live_step cfg pl e))"
proof -
  assume live: "pool_live cfg pl"
  then have "WDone \<in> set (pl_workers (fst (live_step cfg pl e))) \<longrightarrow>
      length (cc_items cfg) \<le> pl_cursor (fst (live_step cfg pl e))"
    using set_update_subset_insert [of "pl_workers pl"]
    by (auto simp: pool_live_def pool_step_def copy_fetched_def copy_created_def
        split: PoolEvent.splits WorkerState.splits sum.splits intro!: finish_item_live)
  with live show ?thesis by (simp add: pool_live_def pool_inv_step)
qed

interpretation active_pool: guarded_component "live_step cfg" "\<lambda>pl. pl = fst (start_pool cfg)" "pool_live cfg"
  "pool_allowed cfg" for cfg
proof
  show "pool_live cfg s \<Longrightarrow> x \<in> set (snd (live_step cfg s e)) \<Longrightarrow> pool_allowed cfg s x" for cfg s x e
    by (simp add: pool_live_def pool_allowed_step)
qed (simp_all add: pool_live_start pool_live_step)

lemma pool_live_done:
  assumes "pool_live cfg pl" and "pool_done pl"
  shows "mset (map cr_key (pl_results pl)) = mset (map getElementKey (cc_items cfg))"
proof -
  have "inflight (pl_workers pl) = {#}"
    using assms(2) by (auto simp: pool_done_def inflight_def)
  then have eq: "mset (map cr_key (pl_results pl)) = mset (map getElementKey (take (pl_cursor pl) (cc_items cfg)))"
    using assms(1) by (simp add: pool_live_def pool_inv_def)
  show ?thesis
  proof (cases "cc_items cfg = []")
    case True
    with eq show ?thesis by simp
  next
    case False
    then have "pl_workers pl \<noteq> []"
      using assms(1) by (auto simp: pool_live_def pool_inv_def workerCount_def min_def split: if_splits)
    then have "WDone \<in> set (pl_workers pl)"
      using assms(2) by (cases "pl_workers pl") (auto simp: pool_done_def)
    with assms(1) eq show ?thesis by (simp add: pool_live_def)
  qed
qed

definition progress_of :: "pool_output list \<Rightarrow> CopyResult list" where
  "progress_of os = List.map_filter (\<lambda>x. case x of PoolProgress r \<Rightarrow> Some r | PoolEffect _ \<Rightarrow> None) os"

lemma progress_of_simps [simp]:
  "progress_of [] = []" "progress_of (PoolProgress r # os) = r # progress_of os"
  "progress_of (PoolEffect ef # os) = progress_of os" "progress_of (os @ os') = progress_of os @ progress_of os'"
  by (simp_all add: progress_of_def List.map_filter_def)

lemma finish_item_progress:
  "pl_results (fst (finish_item cfg True i r pl)) = pl_results pl @ progress_of (snd (finish_item cfg True i r pl))"
  by (simp add: finish_item_def take_item_def Let_def)

lemma live_step_progress:
  "pl_results (fst (live_step cfg pl e)) = pl_results pl @ progress_of (snd (live_step cfg pl e))"
  by (simp add: pool_step_def copy_fetched_def copy_created_def finish_item_progress
      split: PoolEvent.splits WorkerState.splits sum.splits)

lemma live_run_progress:
  "pl_results (after (live_step cfg) pl es) = pl_results pl @ progress_of (snd (run (live_step cfg) pl es))"
proof (induction es arbitrary: pl)
  case (Cons e es)
  show ?case
    using Cons [of "fst (live_step cfg pl e)"] live_step_progress [of cfg pl e]
    by (simp add: run_Cons del: run.simps)
qed simp

subsection \<open>Termination\<close>

primrec worker_weight :: "WorkerState \<Rightarrow> nat" where
  "worker_weight (WFetching k) = 2"
| "worker_weight (WCreating k) = 1"
| "worker_weight WDone = 0"

definition pool_measure :: "CopyConfig \<Rightarrow> Pool \<Rightarrow> nat" where
  "pool_measure cfg pl = 2 * (length (cc_items cfg) - pl_cursor pl) + sum_list (map worker_weight (pl_workers pl))"

text \<open>An event that settles a request a worker is waiting for.\<close>

definition effective :: "Pool \<Rightarrow> PoolEvent \<Rightarrow> bool" where
  "effective pl e = (case e of
       PoolFetched i _ \<Rightarrow> i < length (pl_workers pl) \<and> (case pl_workers pl ! i of WFetching _ \<Rightarrow> True | _ \<Rightarrow> False)
     | PoolCreated i _ \<Rightarrow> i < length (pl_workers pl) \<and> (case pl_workers pl ! i of WCreating _ \<Rightarrow> True | _ \<Rightarrow> False))"

fun effective_run :: "CopyConfig \<Rightarrow> Pool \<Rightarrow> (bool \<times> PoolEvent) list \<Rightarrow> bool" where
  "effective_run cfg pl [] = True"
| "effective_run cfg pl (ae # es) = (effective pl (snd ae) \<and> effective_run cfg (fst (pool_step cfg pl ae)) es)"

lemma take_item_measure:
  "take_item cfg pl = (w, pl', os) \<Longrightarrow>
   2 * (length (cc_items cfg) - pl_cursor pl') + worker_weight w = 2 * (length (cc_items cfg) - pl_cursor pl)"
  by (auto simp: take_item_def Let_def split: if_splits)

lemma finish_item_measure:
  assumes "i < length (pl_workers pl)"
  shows "pool_measure cfg (fst (finish_item cfg active i r pl)) + worker_weight (pl_workers pl ! i) =
    pool_measure cfg pl"
proof (cases active)
  case True
  let ?pl = "pl\<lparr>pl_results := pl_results pl @ [r]\<rparr>"
  obtain w pl' os where t: "take_item cfg ?pl = (w, pl', os)" by (metis prod_cases3)
  from True t take_item_measure [OF t] sum_list_update_nat [OF assms, of worker_weight w] show ?thesis
    by (simp add: pool_measure_def finish_item_def Let_def)
next
  case False
  with sum_list_update_nat [OF assms, of worker_weight WDone] show ?thesis
    by (simp add: pool_measure_def finish_item_def Let_def)
qed

lemma effective_measure:
  assumes "effective pl e"
  shows "pool_measure cfg (fst (pool_step cfg pl (active, e))) < pool_measure cfg pl"
proof (cases e)
  case (PoolFetched i outcome)
  with assms obtain k where k: "i < length (pl_workers pl)" "pl_workers pl ! i = WFetching k"
    by (auto simp: effective_def split: WorkerState.splits)
  have "pool_measure cfg (fst (finish_item cfg active i r pl)) < pool_measure cfg pl" for r
    using finish_item_measure [OF k(1), of cfg active r] k(2) by simp
  then show ?thesis
    using PoolFetched k sum_list_update_nat [OF k(1), of worker_weight "WCreating k"]
    by (auto simp: pool_step_def copy_fetched_def pool_measure_def split: sum.splits)
next
  case (PoolCreated i outcome)
  with assms obtain k where k: "i < length (pl_workers pl)" "pl_workers pl ! i = WCreating k"
    by (auto simp: effective_def split: WorkerState.splits)
  have "pool_measure cfg (fst (finish_item cfg active i r pl)) < pool_measure cfg pl" for r
    using finish_item_measure [OF k(1), of cfg active r] k(2) by simp
  then show ?thesis
    using PoolCreated k by (auto simp: pool_step_def copy_created_def split: sum.splits)
qed

lemma effective_run_length: "effective_run cfg pl es \<Longrightarrow> length es + pool_measure cfg (after (pool_step cfg) pl es) \<le> pool_measure cfg pl"
proof (induction es arbitrary: pl)
  case (Cons ae es)
  from Cons.prems have "pool_measure cfg (fst (pool_step cfg pl ae)) < pool_measure cfg pl"
    using effective_measure [of pl "snd ae" cfg "fst ae"] by simp
  with Cons.IH [of "fst (pool_step cfg pl ae)"] Cons.prems show ?case
    by (simp add: run_Cons del: run.simps)
qed simp

lemma start_workers_measure:
  "n \<le> length (cc_items cfg) \<Longrightarrow> pool_measure cfg
     (fst ((start_worker cfg ^^ n) (\<lparr>pl_cursor = 0, pl_workers = [], pl_results = []\<rparr>, []))) = 2 * length (cc_items cfg)"
proof (induction n)
  case (Suc n)
  obtain pl os where pl: "(start_worker cfg ^^ n) (\<lparr>pl_cursor = 0, pl_workers = [], pl_results = []\<rparr>, []) = (pl, os)"
    by fastforce
  obtain w pl' os' where t: "take_item cfg pl = (w, pl', os')" by (metis prod_cases3)
  have "start_worker cfg (pl, os) = (pl'\<lparr>pl_workers := pl_workers pl' @ [w]\<rparr>, os @ os')"
    using t by (simp add: start_worker_def)
  with Suc pl take_item_measure [OF t] take_item_keys(3) [OF t] show ?case
    by (simp add: pool_measure_def)
qed (simp add: pool_measure_def)

lemma start_measure: "pool_measure cfg (fst (start_pool cfg)) = 2 * length (cc_items cfg)"
  by (simp add: start_pool_def start_workers_measure)

lemma not_done_effective: "\<not> pool_done pl \<Longrightarrow> \<exists>e. effective pl e"
proof -
  assume "\<not> pool_done pl"
  then obtain i where i: "i < length (pl_workers pl)" "pl_workers pl ! i \<noteq> WDone"
    by (auto simp: pool_done_def in_set_conv_nth)
  show "\<exists>e. effective pl e"
  proof (cases "pl_workers pl ! i")
    case (WFetching k)
    with i have "effective pl (PoolFetched i (Inl (OtherFailure [])))" by (simp add: effective_def)
    then show ?thesis by blast
  next
    case (WCreating k)
    with i have "effective pl (PoolCreated i (Inr ()))" by (simp add: effective_def)
    then show ?thesis by blast
  qed (use i in simp)
qed

subsection \<open>No element is created twice\<close>

definition is_create :: "CopyConfig \<Rightarrow> string \<Rightarrow> pool_output \<Rightarrow> bool" where
  "is_create cfg k x = (case x of
       PoolEffect (Request path ri) \<Rightarrow>
         path = elementPath (cc_appId cfg) (cc_targetEnv cfg) k \<and> ri_method ri = Some ''POST''
     | _ \<Rightarrow> False)"

definition may_create :: "CopyConfig \<Rightarrow> string \<Rightarrow> Pool \<Rightarrow> nat" where
  "may_create cfg k pl = count_if (\<lambda>w. w = WFetching k) (pl_workers pl) +
     count_if (\<lambda>e. getElementKey e = k) (drop (pl_cursor pl) (cc_items cfg))"

lemma is_create_simps [simp]:
  "\<not> is_create cfg k (PoolProgress r)" "\<not> is_create cfg k (PoolEffect (requestElement a e k'))"
  "is_create cfg k (PoolEffect (createElement (cc_appId cfg) (cc_targetEnv cfg) k' d)) \<longleftrightarrow> k' = k"
  by (auto simp: is_create_def requestElement_def createElement_def noInit_def jsonBody_def elementPath_inject)

lemma take_item_creates:
  assumes "take_item cfg pl = (w, pl', os)"
  shows "count_if (is_create cfg k) os = 0"
    and "count_if (\<lambda>e. getElementKey e = k) (drop (pl_cursor pl') (cc_items cfg)) + (if w = WFetching k then 1 else 0) =
      count_if (\<lambda>e. getElementKey e = k) (drop (pl_cursor pl) (cc_items cfg))"
  using assms by (auto simp: take_item_def Let_def Cons_nth_drop_Suc [symmetric] split: if_splits)

lemma finish_item_creates:
  assumes "i < length (pl_workers pl)"
  shows "count_if (is_create cfg k) (snd (finish_item cfg active i r pl)) +
    may_create cfg k (fst (finish_item cfg active i r pl)) \<le> may_create cfg k pl"
proof (cases active)
  case True
  let ?pl = "pl\<lparr>pl_results := pl_results pl @ [r]\<rparr>"
  obtain w pl' os where t: "take_item cfg ?pl = (w, pl', os)" by (metis prod_cases3)
  from True t take_item_creates [OF t, of k] count_if_update [OF assms, of "\<lambda>w. w = WFetching k" w] show ?thesis
    by (simp add: may_create_def finish_item_def Let_def split: if_splits)
next
  case False
  with count_if_update [OF assms, of "\<lambda>w. w = WFetching k" WDone] show ?thesis
    by (simp add: may_create_def finish_item_def Let_def split: if_splits)
qed

lemma pool_step_creates:
  "count_if (is_create cfg k) (snd (pool_step cfg pl ae)) + may_create cfg k (fst (pool_step cfg pl ae)) \<le> may_create cfg k pl"
proof -
  have "count_if (\<lambda>w. w = WFetching k) ((pl_workers pl)[i := WCreating k']) + (if k' = k then 1 else 0) =
      count_if (\<lambda>w. w = WFetching k) (pl_workers pl)"
    if "i < length (pl_workers pl)" "pl_workers pl ! i = WFetching k'" for i k'
    using count_if_update [OF that(1), of "\<lambda>w. w = WFetching k" "WCreating k'"] that(2) by simp
  then show ?thesis
    by (auto simp: pool_step_def copy_fetched_def copy_created_def may_create_def [of cfg k "_\<lparr>pl_workers := _\<rparr>"]
        intro!: finish_item_creates split: PoolEvent.splits WorkerState.splits sum.splits)
      (fastforce simp: may_create_def)+
qed

lemma run_creates:
  "count_if (is_create cfg k) (snd (run (pool_step cfg) pl es)) \<le> may_create cfg k pl"
proof (induction es arbitrary: pl)
  case (Cons ae es)
  show ?case
    using Cons [of "fst (pool_step cfg pl ae)"] pool_step_creates [of cfg k pl ae]
    by (simp add: run_Cons del: run.simps)
qed simp

lemma start_workers_creates:
  "may_create cfg k (fst ((start_worker cfg ^^ n) (\<lparr>pl_cursor = 0, pl_workers = [], pl_results = []\<rparr>, []))) =
     count_if (\<lambda>e. getElementKey e = k) (cc_items cfg) \<and>
   count_if (is_create cfg k) (snd ((start_worker cfg ^^ n) (\<lparr>pl_cursor = 0, pl_workers = [], pl_results = []\<rparr>, []))) = 0"
proof (induction n)
  case (Suc n)
  obtain pl os where pl: "(start_worker cfg ^^ n) (\<lparr>pl_cursor = 0, pl_workers = [], pl_results = []\<rparr>, []) = (pl, os)"
    by fastforce
  obtain w pl' os' where t: "take_item cfg pl = (w, pl', os')" by (metis prod_cases3)
  have "start_worker cfg (pl, os) = (pl'\<lparr>pl_workers := pl_workers pl' @ [w]\<rparr>, os @ os')"
    using t by (simp add: start_worker_def)
  with Suc pl take_item_creates [OF t, of k] take_item_keys(3) [OF t] show ?case
    by (simp add: may_create_def split: if_splits)
qed (simp add: may_create_def)

lemma start_creates:
  "may_create cfg k (fst (start_pool cfg)) = count_if (\<lambda>e. getElementKey e = k) (cc_items cfg)"
  "count_if (is_create cfg k) (snd (start_pool cfg)) = 0"
  using start_workers_creates by (simp_all add: start_pool_def)

subsection \<open>Properties\<close>

definition demo_element :: "string \<Rightarrow> Element" where
  "demo_element k = \<lparr>el_metadata = \<lparr>em_key = k, em_latestVersion = None, em_usingVersion = Some (Num 1),
      em_unpublishedVersion = None, em_contentType = Some (CTStr ''json'')\<rparr>,
     el_raw = Some ''e30='', el_version = Some (Num 1), el_published = Some True\<rparr>"

definition demo_copy :: CopyConfig where
  "demo_copy = \<lparr>cc_appId = ''a'', cc_sourceEnv = ''s'', cc_targetEnv = ''t'', cc_emptyStrategy = SkipEmpty,
     cc_items = [demo_element ''x'', demo_element ''y'']\<rparr>"

definition demo_copy_run :: "PoolEvent list" where
  "demo_copy_run = [PoolFetched 1 (Inr (Some (demo_element ''y''))), PoolFetched 0 (Inl (OtherFailure [])),
     PoolCreated 1 (Inr ())]"

text \<open>C5: When the workers of an active dialog have all returned, every chosen element has exactly one
  result, whatever the order in which the requests were answered, and the progress shown lists
  these results in the order they came.\<close>

theorem copy_exactly_once:
  assumes "pl = after (live_step cfg) (fst (start_pool cfg)) es" and "pool_done pl"
  shows "mset (map cr_key (pl_results pl)) = mset (map getElementKey (cc_items cfg)) \<and>
    progress_of (snd (run (live_step cfg) (fst (start_pool cfg)) es)) = pl_results pl"
proof -
  have "pool_live cfg pl" using active_pool.inv_reachable assms(1) by blast
  moreover have "pl_results (fst (start_pool cfg)) = []"
    using start_workers [of cfg "min workerCount (length (cc_items cfg))"]
    by (simp add: start_pool_def pool_started_def)
  ultimately show ?thesis
    using pool_live_done [OF _ assms(2)] live_run_progress [of cfg "fst (start_pool cfg)" es] assms(1) by simp
qed

lemma demo_copy_done: "pool_done (after (live_step demo_copy) (fst (start_pool demo_copy)) demo_copy_run)"
  by code_simp

theorem copy_exactly_once_witness:
  "mset (map cr_key (pl_results (after (live_step demo_copy) (fst (start_pool demo_copy)) demo_copy_run))) =
     {#''x'', ''y''#}"
  using copy_exactly_once [OF refl demo_copy_done]
  by (simp add: demo_copy_def demo_element_def getElementKey_def)

text \<open>An element is created in the target environment at most as often as it was chosen, once for
  a key chosen once, in every run of the pool.\<close>

theorem copy_no_duplicate_create:
  "count_if (is_create cfg k) (snd (start_pool cfg) @ snd (run (pool_step cfg) (fst (start_pool cfg)) es)) \<le>
     count_if (\<lambda>e. getElementKey e = k) (cc_items cfg)"
  using run_creates [of cfg k "fst (start_pool cfg)" es] by (simp add: start_creates)

lemma take_item_posts:
  "PoolEffect (Request path ri) \<in> set (snd (snd (take_item cfg pl))) \<Longrightarrow> ri_method ri \<noteq> Some ''POST''"
  by (auto simp: take_item_def Let_def requestElement_def noInit_def split: if_splits)

lemma finish_item_posts:
  "PoolEffect (Request path ri) \<in> set (snd (finish_item cfg active i r pl)) \<Longrightarrow> ri_method ri \<noteq> Some ''POST''"
  using take_item_posts [of path ri cfg "pl\<lparr>pl_results := pl_results pl @ [r]\<rparr>"]
  by (auto simp: finish_item_def Let_def split: if_splits prod.splits)

lemma pool_step_posts:
  assumes "PoolEffect (Request path ri) \<in> set (snd (pool_step cfg pl ae))" and "ri_method ri = Some ''POST''"
  obtains i outcome key detail where "snd ae = PoolFetched i outcome" "i < length (pl_workers pl)"
    "pl_workers pl ! i = WFetching key" "deref outcome = Inr detail"
    "Request path ri = createElement (cc_appId cfg) (cc_targetEnv cfg) key detail"
    "cc_emptyStrategy cfg = SkipEmpty \<longrightarrow> \<not> isElementEmpty detail"
  using assms
  by (auto simp: pool_step_def copy_fetched_def copy_created_def dest: finish_item_posts
      split: PoolEvent.splits if_splits WorkerState.splits sum.splits)

text \<open>C17: Every modifying request of the pool is sent when the fetch of a worker is answered: it
  creates the chosen element this worker was fetching, under its own key, in the target
  environment, with the content and content type of that very answer; when empty elements are to
  be skipped, what was fetched is not empty.\<close>

theorem copy_requests:
  assumes "PoolEffect (Request path ri) \<in>
      set (snd (pool_step cfg (after (pool_step cfg) (fst (start_pool cfg)) es) ae))"
    and "ri_method ri = Some ''POST''"
  shows "\<exists>i outcome detail. \<exists>item \<in> set (cc_items cfg).
    snd ae = PoolFetched i outcome \<and> deref outcome = Inr detail \<and>
    i < length (pl_workers (after (pool_step cfg) (fst (start_pool cfg)) es)) \<and>
    pl_workers (after (pool_step cfg) (fst (start_pool cfg)) es) ! i = WFetching (getElementKey item) \<and>
    path = elementPath (cc_appId cfg) (cc_targetEnv cfg) (getElementKey item) \<and>
    ri = jsonBody (createElementBody detail) \<and>
    (cc_emptyStrategy cfg = SkipEmpty \<longrightarrow> \<not> isElementEmpty detail)"
proof -
  let ?pl = "after (pool_step cfg) (fst (start_pool cfg)) es"
  obtain i outcome key detail where p: "snd ae = PoolFetched i outcome" "i < length (pl_workers ?pl)"
    "pl_workers ?pl ! i = WFetching key" "deref outcome = Inr detail"
    "Request path ri = createElement (cc_appId cfg) (cc_targetEnv cfg) key detail"
    "cc_emptyStrategy cfg = SkipEmpty \<longrightarrow> \<not> isElementEmpty detail"
    by (rule pool_step_posts [OF assms])
  have "key \<in> getElementKey ` set (cc_items cfg)"
    using worker_key_item [OF copy_pool.inv_reachable [OF refl] p(2)] p(3) by simp
  with p show ?thesis by (auto simp: createElement_def)
qed

lemma demo_copy_creates:
  "snd (pool_step demo_copy (after (pool_step demo_copy) (fst (start_pool demo_copy)) [])
     (True, PoolFetched 1 (Inr (Some (demo_element ''y''))))) =
   [PoolEffect (createElement ''a'' ''t'' ''y'' (demo_element ''y''))]"
  by code_simp

theorem copy_requests_witness:
  "\<exists>i outcome detail. \<exists>item \<in> set (cc_items demo_copy).
     PoolFetched 1 (Inr (Some (demo_element ''y''))) = PoolFetched i outcome \<and> deref outcome = Inr detail \<and>
     pl_workers (fst (start_pool demo_copy)) ! i = WFetching (getElementKey item) \<and>
     elementPath ''a'' ''t'' ''y'' = elementPath (cc_appId demo_copy) (cc_targetEnv demo_copy) (getElementKey item) \<and>
     jsonBody (createElementBody (demo_element ''y'')) = jsonBody (createElementBody detail)"
proof -
  have "PoolEffect (Request (elementPath ''a'' ''t'' ''y'') (jsonBody (createElementBody (demo_element ''y'')))) \<in>
      set (snd (pool_step demo_copy (after (pool_step demo_copy) (fst (start_pool demo_copy)) [])
        (True, PoolFetched 1 (Inr (Some (demo_element ''y''))))))"
    unfolding demo_copy_creates createElement_def by (rule list.set_intros(1))
  from copy_requests [OF this] show ?thesis by (auto simp: jsonBody_def)
qed

text \<open>C25: The pool ends: it settles at most two requests per chosen element, and as long as a worker
  has not returned there is a request it waits for.\<close>

theorem copy_terminates:
  assumes "effective_run cfg (fst (start_pool cfg)) es"
  shows "length es \<le> 2 * length (cc_items cfg) \<and>
    (pool_done (after (pool_step cfg) (fst (start_pool cfg)) es) \<or>
     (\<exists>e. effective (after (pool_step cfg) (fst (start_pool cfg)) es) e))"
  using effective_run_length [OF assms] start_measure [of cfg] not_done_effective by fastforce

theorem copy_terminates_witness:
  "length (map (Pair True) demo_copy_run) \<le> 2 * length (cc_items demo_copy)"
proof -
  have "effective_run demo_copy (fst (start_pool demo_copy)) (map (Pair True) demo_copy_run)" by code_simp
  from copy_terminates [OF this] show ?thesis by blast
qed

text \<open>C26: Loading the elements of an environment page by page from a server that lists them in pages
  of any positive size yields exactly its elements, in order; and the loop ends for every server
  whose seek positions make progress.\<close>

theorem requestAllElements_complete:
  fixes rank :: "string \<Rightarrow> nat"
  assumes "0 < n"
    and "\<And>seek d next. server seek = Inr d \<Longrightarrow> snd (page_step [] d) = Some next \<Longrightarrow> rank next < rank seek"
  shows "requestAllElements (paging_server n xs) = Some (Inr xs) \<and> (\<exists>r. requestAllElements server = Some r)"
  using request_pages_paging [OF assms(1), of xs "[]" "[]"] request_pages_terminates [of server rank "[]" "[]"] assms(2)
  by (simp add: requestAllElements_def digits_nat_def)

theorem requestAllElements_complete_witness:
  "requestAllElements (paging_server 1 [demo_element ''x'', demo_element ''y'']) =
     Some (Inr [demo_element ''x'', demo_element ''y''])"
  using requestAllElements_complete [of 1 "\<lambda>seek. Inl (OtherFailure [])" length] by simp

end
