(* ===== verification/Copy_Dialog.thy ===== *)
theory Copy_Dialog
  imports Copy_Pool Ui
begin

section \<open>The copy dialog: \<open>CopyEnvDialog\<close> of \<open>envs/CopyEnvDialog.tsx\<close>\<close>

text \<open>
  The dialog around the pool: loading the elements of the source environment page by page with a
  sequence number, choosing elements, starting the copy, and following its progress. A job is a
  running call of \<open>startCopy\<close>, suspended at the creation of the environment, in the pool, or at the
  parent's refresh. After every event \<open>cd_commit\<close> runs the effects React runs after a rendering.
  The properties \<open>open\<close>, \<open>appId\<close> and \<open>envs\<close> belong to the parent, which may change them at any time; the
  select box reports only a value other than the present one. The fields \<open>cd_from\<close> and \<open>cd_fromApp\<close> are not
  in the code: they record which environment of which application the elements were loaded from, so that it
  can be stated which elements are copied.
\<close>

subsection \<open>State\<close>

datatype CopyStep = CreateStep | ExecuteStep

datatype ProgressState = PPending | PDoing | PDone | PFailed

record CopyProgress =
  cg_createEnv :: ProgressState
  cg_copyElements :: ProgressState
  cg_complete :: ProgressState
  cg_completed :: nat
  cg_total :: nat
  cg_results :: "CopyResult list"

record CopyLoad =
  cl_requestId :: nat
  cl_app :: string
  cl_env :: string
  cl_elements :: "Element list"

datatype CopyJob =
    JobCreatingEnv CopyConfig
  | JobCopying CopyConfig Pool
  | JobRefreshing
  | JobOver

record CopyState =
  cd_open :: bool
  cd_appId :: string
  cd_envs :: "string list"
  cd_step :: CopyStep
  cd_sourceEnv :: string
  cd_targetEnv :: string
  cd_elements :: "Element list"
  cd_selectedKeys :: "string list"
  cd_emptyStrategy :: EmptyElementStrategy
  cd_loadingElements :: bool
  cd_loadError :: "string option"
  cd_copying :: bool
  cd_copyError :: "string option"
  cd_progress :: CopyProgress
  cd_resultStatus :: CopyResultStatus
  cd_loadSeq :: nat
  cd_mounted :: bool
  cd_openRef :: bool
  cd_lastTargetError :: string
  cd_lastLoadError :: string
  cd_lastZeroCopyError :: string
  cd_lastCopyError :: string
  cd_loads :: "CopyLoad list"
  cd_jobs :: "CopyJob list"
  cd_from :: string
  cd_fromApp :: string

definition createInitialProgress :: "nat \<Rightarrow> CopyProgress" where
  "createInitialProgress n = \<lparr>cg_createEnv = PPending, cg_copyElements = PPending,
     cg_complete = PPending, cg_completed = 0, cg_total = n, cg_results = []\<rparr>"

definition initCopy :: "bool \<Rightarrow> string \<Rightarrow> string list \<Rightarrow> CopyState" where
  "initCopy open appId envs = \<lparr>cd_open = open, cd_appId = appId, cd_envs = envs, cd_step = CreateStep, cd_sourceEnv = [],
     cd_targetEnv = [], cd_elements = [], cd_selectedKeys = [], cd_emptyStrategy = SkipEmpty,
     cd_loadingElements = False, cd_loadError = None, cd_copying = False, cd_copyError = None,
     cd_progress = createInitialProgress 0, cd_resultStatus = CopySuccess, cd_loadSeq = 0,
     cd_mounted = False, cd_openRef = open, cd_lastTargetError = [], cd_lastLoadError = [],
     cd_lastZeroCopyError = [], cd_lastCopyError = [], cd_loads = [], cd_jobs = [], cd_from = [], cd_fromApp = []\<rparr>"

subsection \<open>Values derived at each rendering\<close>

definition cd_loadErrorMessage :: "Translator \<Rightarrow> CopyState \<Rightarrow> string" where
  "cd_loadErrorMessage t s = (case cd_loadError s of
     Some m \<Rightarrow> str_or m (t ''management.copy.loadFailed'' []) | None \<Rightarrow> [])"

definition cd_copyErrorMessage :: "Translator \<Rightarrow> CopyState \<Rightarrow> string" where
  "cd_copyErrorMessage t s = (case cd_copyError s of
     Some m \<Rightarrow> str_or m (t ''management.copy.createFailed'' []) | None \<Rightarrow> [])"

definition cd_selectedElements :: "CopyState \<Rightarrow> Element list" where
  "cd_selectedElements s = filter (\<lambda>element. getElementKey element \<in> set (cd_selectedKeys s)) (cd_elements s)"

definition cd_emptySelectedCount :: "CopyState \<Rightarrow> nat" where
  "cd_emptySelectedCount s = length (filter isElementEmpty (cd_selectedElements s))"

definition cd_skippedEstimate :: "CopyState \<Rightarrow> nat" where
  "cd_skippedEstimate s = (if cd_emptyStrategy s = SkipEmpty then cd_emptySelectedCount s else 0)"

definition cd_estimatedCopyCount :: "CopyState \<Rightarrow> int" where
  "cd_estimatedCopyCount s = int (length (cd_selectedElements s)) - int (cd_skippedEstimate s)"

definition cd_targetError :: "Translator \<Rightarrow> CopyState \<Rightarrow> string" where
  "cd_targetError t s =
     (let duplicateTarget = cd_targetEnv s \<noteq> [] \<and> cd_targetEnv s \<in> set (cd_envs s);
          sameTarget = cd_targetEnv s \<noteq> [] \<and> cd_sourceEnv s \<noteq> [] \<and> cd_targetEnv s = cd_sourceEnv s
      in if duplicateTarget then t ''management.copy.exists'' []
         else if sameTarget then t ''management.copy.sameEnv'' [] else [])"

definition cd_zeroCopyError :: "Translator \<Rightarrow> CopyState \<Rightarrow> string" where
  "cd_zeroCopyError t s =
     (if 0 < length (cd_selectedElements s) \<and> cd_estimatedCopyCount s = 0
      then t ''management.copy.zeroEstimate'' [] else [])"

definition cd_canStart :: "Translator \<Rightarrow> string \<Rightarrow> CopyState \<Rightarrow> bool" where
  "cd_canStart t appId s =
     (appId \<noteq> [] \<and> cd_sourceEnv s \<noteq> [] \<and> cd_targetEnv s \<noteq> [] \<and> cd_targetError t s = [] \<and>
      cd_zeroCopyError t s = [] \<and> \<not> cd_loadingElements s \<and> 0 < cd_estimatedCopyCount s \<and>
      cd_step s = CreateStep)"

definition cd_resultCount :: "CopyResultStatus \<Rightarrow> CopyState \<Rightarrow> nat" where
  "cd_resultCount status s = length (filter (\<lambda>r. cr_status r = status) (cg_results (cd_progress s)))"

definition cd_visibleResults :: "CopyState \<Rightarrow> CopyResult list" where
  "cd_visibleResults s = filter (\<lambda>r. cr_status r = cd_resultStatus s) (cg_results (cd_progress s))"

definition progressPercent :: "CopyProgress \<Rightarrow> nat" where
  \<comment> \<open>\<open>Math.round\<close> of a non-negative quotient, rounding halves up\<close>
  "progressPercent g =
     (if 0 < cg_total g then (2 * (cg_completed g * 100) + cg_total g) div (2 * cg_total g) else 0)"

definition activeProgressStep :: "CopyProgress \<Rightarrow> nat" where
  "activeProgressStep g =
     (if cg_createEnv g \<noteq> PDone then 0 else if cg_copyElements g \<noteq> PDone then 1 else 2)"

definition cd_isActive :: "CopyState \<Rightarrow> bool" where
  "cd_isActive s = (cd_mounted s \<and> cd_openRef s)"

definition cd_beforeUnload :: "Translator \<Rightarrow> CopyState \<Rightarrow> string option" where
  \<comment> \<open>the question the browser asks before leaving the page, while a copy runs\<close>
  "cd_beforeUnload t s = (if cd_copying s then Some (t ''management.copy.inProgress'' []) else None)"

subsection \<open>Effects after a rendering\<close>

definition dedupe_toast :: "severity \<Rightarrow> string \<Rightarrow> string \<Rightarrow> string \<times> effect list" where
  "dedupe_toast sev shown message =
     (if message = [] then ([], []) else if shown = message then (shown, []) else (message, [ShowToast message sev]))"

definition cd_toasts :: "Translator \<Rightarrow> CopyState \<Rightarrow> CopyState \<times> effect list" where
  "cd_toasts t s =
     (let (a, e1) = dedupe_toast Warning (cd_lastTargetError s) (cd_targetError t s);
          (b, e2) = dedupe_toast Error (cd_lastLoadError s) (cd_loadErrorMessage t s);
          (c, e3) = dedupe_toast Warning (cd_lastZeroCopyError s) (cd_zeroCopyError t s);
          (d, e4) = dedupe_toast Error (cd_lastCopyError s) (cd_copyErrorMessage t s)
      in (s\<lparr>cd_lastTargetError := a, cd_lastLoadError := b, cd_lastZeroCopyError := c, cd_lastCopyError := d\<rparr>,
          e1 @ e2 @ e3 @ e4))"

definition cd_startLoad :: "string \<Rightarrow> CopyState \<Rightarrow> CopyState \<times> effect list" where
  "cd_startLoad appId s =
     (if \<not> cd_open s \<or> appId = [] \<or> cd_sourceEnv s = [] then (s, [])
      else (s\<lparr>cd_loadSeq := cd_loadSeq s + 1,
              cd_loads := cd_loads s @ [\<lparr>cl_requestId = cd_loadSeq s + 1, cl_app = appId, cl_env = cd_sourceEnv s, cl_elements = []\<rparr>]\<rparr>,
            [requestElements appId (cd_sourceEnv s) []]))"

definition cd_commit :: "Translator \<Rightarrow> string \<Rightarrow> bool \<Rightarrow> CopyState \<Rightarrow> CopyState \<Rightarrow> CopyState \<times> effect list" where
  \<comment> \<open>the effects whose dependencies differ from the previous rendering \<open>s0\<close>, or all of them on mount\<close>
  "cd_commit t appId mount s0 s =
     (let s1 = s\<lparr>cd_openRef := cd_open s\<rparr>;
          busy = (if mount \<or> cd_copying s0 \<noteq> cd_copying s then [BusyChange (cd_copying s)] else []);
          (s2, load) = (if mount \<or> cd_open s0 \<noteq> cd_open s \<or> cd_appId s0 \<noteq> cd_appId s \<or> cd_sourceEnv s0 \<noteq> cd_sourceEnv s
                        then cd_startLoad appId s1 else (s1, []));
          (s3, toasts) = cd_toasts t s2
      in (s3, busy @ load @ toasts))"

subsection \<open>Loading the elements\<close>

definition cd_loaded :: "CopyLoad \<Rightarrow> failure + Element list \<Rightarrow> CopyState \<Rightarrow> CopyState" where
  "cd_loaded l outcome s =
     (if \<not> cd_isActive s \<or> cl_requestId l \<noteq> cd_loadSeq s then s
      else case outcome of
          Inr items \<Rightarrow> s\<lparr>cd_elements := items, cd_selectedKeys := js_set_of (map getElementKey items),
            cd_loadError := None, cd_loadingElements := False, cd_from := cl_env l, cd_fromApp := cl_app l\<rparr>
        | Inl err \<Rightarrow> s\<lparr>cd_elements := [], cd_selectedKeys := [],
            cd_loadError := Some (getErrorMessage err []), cd_loadingElements := False\<rparr>)"

definition cd_page :: "nat \<Rightarrow> failure + ElementsResponse option \<Rightarrow> CopyState \<Rightarrow> CopyState \<times> effect list" where
  "cd_page i outcome s =
     (if length (cd_loads s) \<le> i then (s, [])
      else let l = cd_loads s ! i; s' = s\<lparr>cd_loads := remove_at i (cd_loads s)\<rparr> in
        case deref outcome of
          Inl err \<Rightarrow> (cd_loaded l (Inl err) s', [])
        | Inr d \<Rightarrow> (case page_step (cl_elements l) d of
              (items, None) \<Rightarrow> (cd_loaded l (Inr items) s', [])
            | (items, Some seek) \<Rightarrow>
                (s\<lparr>cd_loads := (cd_loads s)[i := l\<lparr>cl_elements := items\<rparr>]\<rparr>,
                 [requestElements (cl_app l) (cl_env l) seek])))"

subsection \<open>Handlers\<close>

definition cd_reset :: "CopyState \<Rightarrow> CopyState" where
  "cd_reset s = s\<lparr>cd_step := CreateStep, cd_sourceEnv := [], cd_targetEnv := [], cd_elements := [],
     cd_selectedKeys := [], cd_emptyStrategy := SkipEmpty, cd_loadingElements := False,
     cd_loadError := None, cd_copying := False, cd_copyError := None,
     cd_progress := createInitialProgress 0, cd_resultStatus := CopySuccess\<rparr>"

definition cd_handleClose :: "CopyState \<Rightarrow> CopyState \<times> effect list" where
  "cd_handleClose s = (if cd_copying s then (s, []) else (s, [CloseDialog]))"

definition cd_handleSourceEnvChange :: "string \<Rightarrow> string \<Rightarrow> CopyState \<Rightarrow> CopyState" where
  "cd_handleSourceEnvChange appId value s =
     s\<lparr>cd_sourceEnv := value, cd_loadingElements := (cd_open s \<and> appId \<noteq> [] \<and> value \<noteq> []), cd_loadError := None\<rparr>"

definition cd_changeTarget :: "string \<Rightarrow> CopyState \<Rightarrow> CopyState" where
  "cd_changeTarget value s = s\<lparr>cd_targetEnv := js_toLowerCase (js_trim value)\<rparr>"

definition cd_toggleElement :: "string \<Rightarrow> CopyState \<Rightarrow> CopyState" where
  "cd_toggleElement key s = s\<lparr>cd_selectedKeys :=
     (if key \<in> set (cd_selectedKeys s) then js_set_delete (cd_selectedKeys s) key
      else js_set_add (cd_selectedKeys s) key)\<rparr>"

definition cd_toggleAll :: "bool \<Rightarrow> CopyState \<Rightarrow> CopyState" where
  "cd_toggleAll checked s =
     s\<lparr>cd_selectedKeys := (if checked then js_set_of (map getElementKey (cd_elements s)) else [])\<rparr>"

subsection \<open>The copy\<close>

definition cd_config :: "string \<Rightarrow> CopyState \<Rightarrow> CopyConfig" where
  \<comment> \<open>what the closure of \<open>startCopy\<close> captures\<close>
  "cd_config appId s = \<lparr>cc_appId = appId, cc_sourceEnv = cd_sourceEnv s, cc_targetEnv = cd_targetEnv s,
     cc_emptyStrategy = cd_emptyStrategy s, cc_items = cd_selectedElements s\<rparr>"

definition cd_startCopy :: "Translator \<Rightarrow> string \<Rightarrow> CopyState \<Rightarrow> CopyState \<times> effect list" where
  "cd_startCopy t appId s =
     (if \<not> cd_canStart t appId s then (s, [])
      else (s\<lparr>cd_step := ExecuteStep, cd_copying := True, cd_copyError := None,
              cd_progress := (createInitialProgress (length (cd_selectedElements s)))\<lparr>cg_createEnv := PDoing\<rparr>,
              cd_jobs := cd_jobs s @ [JobCreatingEnv (cd_config appId s)]\<rparr>,
            [createEnv appId (cd_targetEnv s)]))"

definition pool_effects :: "pool_output list \<Rightarrow> effect list" where
  "pool_effects os = List.map_filter (\<lambda>x. case x of PoolEffect ef \<Rightarrow> Some ef | PoolProgress _ \<Rightarrow> None) os"

definition add_progress :: "pool_output list \<Rightarrow> CopyState \<Rightarrow> CopyState" where
  "add_progress os s = s\<lparr>cd_progress := (cd_progress s)
     \<lparr>cg_completed := cg_completed (cd_progress s) + length (progress_of os),
      cg_results := cg_results (cd_progress s) @ progress_of os\<rparr>\<rparr>"

definition overall_status :: "CopyResult list \<Rightarrow> CopyResultStatus" where
  "overall_status results =
     (if list_ex (\<lambda>r. cr_status r = CopyFailed) results then CopyFailed
      else if list_ex (\<lambda>r. cr_status r = CopySkipped) results then CopySkipped else CopySuccess)"

definition job_in_pool :: "nat \<Rightarrow> CopyConfig \<Rightarrow> Pool \<Rightarrow> CopyState \<Rightarrow> CopyState \<times> effect list" where
  \<comment> \<open>\<open>startCopy\<close> after \<open>await runWorkers(items)\<close>, once every worker has returned\<close>
  "job_in_pool j cfg pl s =
     (if \<not> pool_done pl then (s\<lparr>cd_jobs := (cd_jobs s)[j := JobCopying cfg pl]\<rparr>, [])
      else if \<not> cd_isActive s then (s\<lparr>cd_jobs := (cd_jobs s)[j := JobOver]\<rparr>, [])
      else (s\<lparr>cd_resultStatus := overall_status (pl_results pl),
              cd_progress := (cd_progress s)\<lparr>cg_copyElements := PDone, cg_complete := PDone\<rparr>,
              cd_jobs := (cd_jobs s)[j := JobRefreshing]\<rparr>, [Refresh]))"

definition cd_envCreated :: "nat \<Rightarrow> CopyConfig \<Rightarrow> failure + unit \<Rightarrow> CopyState \<Rightarrow> CopyState \<times> effect list" where
  "cd_envCreated j cfg outcome s =
     (if \<not> cd_isActive s then (s\<lparr>cd_jobs := (cd_jobs s)[j := JobOver]\<rparr>, [])
      else case outcome of
          Inl err \<Rightarrow> (s\<lparr>cd_copyError := Some (getErrorMessage err []),
            cd_progress := (cd_progress s)\<lparr>cg_createEnv := PFailed, cg_copyElements := PPending, cg_complete := PPending\<rparr>,
            cd_copying := False, cd_jobs := (cd_jobs s)[j := JobOver]\<rparr>, [])
        | Inr _ \<Rightarrow>
            let s' = s\<lparr>cd_progress := (cd_progress s)\<lparr>cg_createEnv := PDone, cg_copyElements := PDoing\<rparr>\<rparr>;
                (pl, os) = start_pool cfg;
                (s'', efs) = job_in_pool j cfg pl s'
            in (s'', pool_effects os @ efs))"

definition cd_poolEvent :: "nat \<Rightarrow> CopyConfig \<Rightarrow> Pool \<Rightarrow> PoolEvent \<Rightarrow> CopyState \<Rightarrow> CopyState \<times> effect list" where
  "cd_poolEvent j cfg pl e s =
     (let (pl', os) = pool_step cfg pl (cd_isActive s, e);
          (s', efs) = job_in_pool j cfg pl' (add_progress os s)
      in (s', pool_effects os @ efs))"

definition cd_refreshed :: "nat \<Rightarrow> CopyState \<Rightarrow> CopyState" where
  "cd_refreshed j s =
     (let s' = s\<lparr>cd_jobs := (cd_jobs s)[j := JobOver]\<rparr> in
      if cd_mounted s then s'\<lparr>cd_copying := False\<rparr> else s')"

definition cd_viewCopiedEnv :: "string \<Rightarrow> CopyState \<Rightarrow> CopyState \<times> effect list" where
  "cd_viewCopiedEnv appId s =
     (s, [CloseDialog, Navigate (''/apps/'' @ encodeURIComponent appId @ ''/envs/'' @
        encodeURIComponent (cd_targetEnv s) @ ''/elements'')])"

subsection \<open>The step function\<close>

datatype CopyEvent =
    CMount
  | CUnmount
  | CProps bool string "string list"
  | CPage nat "failure + ElementsResponse option"
  | CEnvCreated nat "failure + unit"
  | CPool nat PoolEvent
  | CRefreshed nat
  | CSource string
  | CTarget string
  | CEmpty bool
  | CToggle string
  | CToggleAll bool
  | CStart
  | CClose
  | CView
  | CTab CopyResultStatus
  | CExited

definition cd_listShown :: "CopyState \<Rightarrow> bool" where
  "cd_listShown s = (cd_step s = CreateStep \<and> cd_sourceEnv s \<noteq> [] \<and> \<not> cd_loadingElements s \<and> cd_loadError s = None)"

definition cd_ui :: "Translator \<Rightarrow> string \<Rightarrow> CopyState \<Rightarrow> CopyEvent \<Rightarrow> CopyState \<times> effect list" where
  "cd_ui t appId s e = (case e of
       CSource value \<Rightarrow>
         if cd_step s = CreateStep \<and> appId \<noteq> [] \<and> \<not> cd_loadingElements s \<and> value \<in> set (cd_envs s) \<and> value \<noteq> cd_sourceEnv s
         then (cd_handleSourceEnvChange appId value s, []) else (s, [])
     | CTarget value \<Rightarrow>
         if cd_step s = CreateStep \<and> appId \<noteq> [] then (cd_changeTarget value s, []) else (s, [])
     | CEmpty checked \<Rightarrow>
         if cd_step s = CreateStep then (s\<lparr>cd_emptyStrategy := (if checked then CopyEmpty else SkipEmpty)\<rparr>, []) else (s, [])
     | CToggle key \<Rightarrow> if cd_listShown s then (cd_toggleElement key s, []) else (s, [])
     | CToggleAll checked \<Rightarrow> if cd_listShown s then (cd_toggleAll checked s, []) else (s, [])
     | CStart \<Rightarrow> if cd_step s = CreateStep \<and> cd_canStart t appId s then cd_startCopy t appId s else (s, [])
     | CClose \<Rightarrow> cd_handleClose s
     | CView \<Rightarrow>
         if cd_step s = ExecuteStep \<and> \<not> cd_copying s \<and> cg_createEnv (cd_progress s) = PDone
         then cd_viewCopiedEnv appId s else (s, [])
     | CTab status \<Rightarrow> (s\<lparr>cd_resultStatus := status\<rparr>, [])
     | _ \<Rightarrow> (s, []))"

definition cd_handle :: "Translator \<Rightarrow> string \<Rightarrow> CopyState \<Rightarrow> CopyEvent \<Rightarrow> CopyState \<times> effect list" where
  "cd_handle t appId s e = (case e of
       CMount \<Rightarrow> (s\<lparr>cd_mounted := True\<rparr>, [])
     | CUnmount \<Rightarrow> (s\<lparr>cd_mounted := False\<rparr>, [BusyChange False])
     | CProps open app envs \<Rightarrow> (s\<lparr>cd_open := open, cd_appId := app, cd_envs := envs\<rparr>, [])
     | CPage i outcome \<Rightarrow> cd_page i outcome s
     | CEnvCreated j outcome \<Rightarrow>
         if j < length (cd_jobs s) then
           (case cd_jobs s ! j of JobCreatingEnv cfg \<Rightarrow> cd_envCreated j cfg outcome s | _ \<Rightarrow> (s, []))
         else (s, [])
     | CPool j pe \<Rightarrow>
         if j < length (cd_jobs s) then
           (case cd_jobs s ! j of JobCopying cfg pl \<Rightarrow> cd_poolEvent j cfg pl pe s | _ \<Rightarrow> (s, []))
         else (s, [])
     | CRefreshed j \<Rightarrow>
         if j < length (cd_jobs s) \<and> cd_jobs s ! j = JobRefreshing then (cd_refreshed j s, []) else (s, [])
     | CExited \<Rightarrow> if cd_mounted s \<and> \<not> cd_open s then (cd_reset s, []) else (s, [])
     | _ \<Rightarrow> if cd_mounted s \<and> cd_open s then cd_ui t appId s e else (s, []))"

definition copy_step :: "Translator \<Rightarrow> CopyState \<Rightarrow> CopyEvent \<Rightarrow> CopyState \<times> effect list" where
  "copy_step t s e =
     (let (s', efs) = cd_handle t (cd_appId s) s e in
      if \<not> cd_mounted s' then (s', efs)
      else (let (s'', efs') = cd_commit t (cd_appId s') (e = CMount) s s' in (s'', efs @ efs')))"

subsection \<open>The view\<close>

definition status_labelKey :: "CopyResultStatus \<Rightarrow> string" where
  "status_labelKey status = (case status of
       CopySuccess \<Rightarrow> ''management.copy.success''
     | CopySkipped \<Rightarrow> ''management.copy.skipped''
     | CopyFailed \<Rightarrow> ''management.copy.failed'')"

definition CopyResultCount :: "Translator \<Rightarrow> (int \<Rightarrow> string) \<Rightarrow> CopyResultStatus \<Rightarrow> nat \<Rightarrow> string" where
  "CopyResultCount t formatNumber status n = t ''management.copy.resultCount''
     [(''status'', PStr (t (status_labelKey status) [])), (''count'', PStr (formatNumber (int n)))]"

definition CopyResultState :: "Translator \<Rightarrow> CopyResultStatus \<Rightarrow> string" where
  "CopyResultState t status = t (status_labelKey status) []"

definition progress_name :: "ProgressState \<Rightarrow> string" where
  "progress_name p = (case p of PPending \<Rightarrow> ''pending'' | PDoing \<Rightarrow> ''doing'' | PDone \<Rightarrow> ''done'' | PFailed \<Rightarrow> ''failed'')"

definition cd_elementSummary :: "Translator \<Rightarrow> Element \<Rightarrow> string" where
  "cd_elementSummary t element =
     t (if isElementEmpty element then ''management.copy.elementSummaryEmpty'' else ''management.copy.elementSummary'')
       [(''version'', PStr (if num_truthy (em_usingVersion (el_metadata element))
                            then num_str (the (em_usingVersion (el_metadata element))) else ''-'')),
        (''type'', PStr (getContentTypeLabel (em_contentType (el_metadata element))))]"

definition cd_allChecked :: "CopyState \<Rightarrow> bool" where
  "cd_allChecked s = (0 < length (cd_elements s) \<and> length (cd_selectedKeys s) = length (cd_elements s))"

definition cd_someChecked :: "CopyState \<Rightarrow> bool" where
  "cd_someChecked s = (0 < length (cd_selectedKeys s) \<and> length (cd_selectedKeys s) < length (cd_elements s))"

definition emptyStrategyDescription :: "Translator \<Rightarrow> CopyState \<Rightarrow> string" where
  "emptyStrategyDescription t s =
     (if cd_emptyStrategy s = CopyEmpty then t ''management.copy.emptyOn'' [] else t ''management.copy.emptyOff'' [])"

definition cd_createForm :: "Translator \<Rightarrow> (int \<Rightarrow> string) \<Rightarrow> string \<Rightarrow> CopyState \<Rightarrow> ui list" where
  "cd_createForm t formatNumber appId s =
     [USelect (t ''management.copy.sourceEnvRequired'' []) (cd_sourceEnv s) (appId = [] \<or> cd_loadingElements s) []
        (map (\<lambda>env. \<lparr>me_value = env, me_disabled = False, me_ariaLabel = [], me_text = env, me_current = None,
           me_status = [], me_statusText = []\<rparr>) (cd_envs s)),
      UInput (t ''management.copy.toEnv'' []) (cd_targetEnv s) (appId = [])
        (str_or (cd_targetError t s) (t ''management.copy.targetHelp'' [])),
      UText (t ''management.copy.skipEmpty'' []), UText (t ''management.copy.copyEmpty'' []),
      UText (emptyStrategyDescription t s)] @
     (if cd_loadingElements s then [UText (t ''management.copy.loadingElements'' [])] else []) @
     (if cd_sourceEnv s \<noteq> [] \<and> \<not> cd_loadingElements s \<and> cd_loadError s = None then
        UText (t ''management.copy.selectAll''
          [(''selected'', PStr (formatNumber (int (length (cd_selectedKeys s))))),
           (''total'', PStr (formatNumber (int (length (cd_elements s)))))]) #
        (if length (cd_elements s) = 0 then [UText (t ''management.copy.emptySource'' [])]
         else map (\<lambda>element. ULabelled (getElementKey element) [UText (cd_elementSummary t element)]) (cd_elements s))
      else []) @
     [UText (t ''management.copy.summary'' []),
      ULabelled (t ''management.copy.sourceEnv'' []) [UText (str_or (cd_sourceEnv s) ''-'')],
      ULabelled (t ''management.copy.targetEnv'' []) [UText (str_or (cd_targetEnv s) ''-'')],
      ULabelled (t ''management.copy.selectedElements'' []) [UText (formatNumber (int (length (cd_selectedElements s))))],
      ULabelled (t ''management.copy.emptyElements'' []) [UText (formatNumber (int (cd_emptySelectedCount s)))],
      ULabelled (t ''management.copy.estimatedSkipped'' []) [UText (formatNumber (int (cd_skippedEstimate s)))],
      ULabelled (t ''management.copy.estimatedCopy'' []) [UText (formatNumber (cd_estimatedCopyCount s))]]"

definition cd_resultReason :: "Translator \<Rightarrow> CopyResult \<Rightarrow> string" where
  "cd_resultReason t r = (case cr_messageKey r of
     Some k \<Rightarrow> if k = [] then opt_str_or (cr_message r) ''-'' else t k [] | None \<Rightarrow> opt_str_or (cr_message r) ''-'')"

definition cd_progressView :: "Translator \<Rightarrow> (int \<Rightarrow> string) \<Rightarrow> CopyState \<Rightarrow> ui list" where
  "cd_progressView t formatNumber s =
     (let g = cd_progress s in
      [UText (t ''management.copy.progress'' []),
       ULabelled (t ''management.copy.createEnv'' []) [UText (t (''management.copy.progress.'' @ progress_name (cg_createEnv g)) [])],
       ULabelled (t ''management.copy.copyElements'' []) [UText (t (''management.copy.progress.'' @ progress_name (cg_copyElements g)) [])],
       ULabelled (t ''management.copy.complete'' []) [UText (t (''management.copy.progress.'' @ progress_name (cg_complete g)) [])],
       ULabelled (t ''management.copy.elementsProgress'' []) [UText (nat_str (progressPercent g))],
       UText (t ''management.copy.processed''
         [(''completed'', PStr (formatNumber (int (cg_completed g)))), (''total'', PStr (formatNumber (int (cg_total g))))])] @
      (if 0 < length (cg_results g) then
         [UText (t ''management.copy.resultsTitle'' []),
          UChips (map (\<lambda>status. CopyResultCount t formatNumber status (cd_resultCount status s))
            [CopySuccess, CopySkipped, CopyFailed]),
          UTable [t ''management.copy.key'' [], t ''management.copy.state'' [], t ''management.copy.reason'' []]
            (map (\<lambda>r. [UText (cr_key r), UText (CopyResultState t (cr_status r)), UText (cd_resultReason t r)])
              (cd_visibleResults s))]
       else []))"

definition CopyEnvDialog_view :: "Translator \<Rightarrow> (int \<Rightarrow> string) \<Rightarrow> string \<Rightarrow> CopyState \<Rightarrow> ui list" where
  "CopyEnvDialog_view t formatNumber appId s =
     (if \<not> cd_open s then []
      else [UDialog (t ''management.copy.title'' [])
        ([UText (t ''management.copy.taskCreation'' []), UText (t ''management.copy.taskExecution'' [])] @
         (if cd_step s = CreateStep then cd_createForm t formatNumber appId s else cd_progressView t formatNumber s) @
         (if cd_step s = CreateStep
          then [UButton (t ''management.common.cancel'' []) (cd_copying s),
                UButton (t ''management.copy.start'' []) (\<not> cd_canStart t appId s)]
          else [UButton (t ''management.common.close'' []) (cd_copying s),
                UButton (t ''management.copy.viewEnv'' []) (cd_copying s \<or> cg_createEnv (cd_progress s) \<noteq> PDone)]))])"

subsection \<open>The invariant\<close>

text \<open>
  Nothing is copied from another environment than the chosen one: unless a load is under way, the
  elements shown were loaded from the source environment, and a load in flight with the latest
  number is one of the source environment. And every job works on elements of its source.
\<close>

definition cd_seqInv :: "CopyState \<Rightarrow> bool" where
  "cd_seqInv s \<longleftrightarrow>
     (\<not> cd_loadingElements s \<longrightarrow> cd_sourceEnv s \<noteq> [] \<longrightarrow> cd_elements s \<noteq> [] \<longrightarrow> cd_from s = cd_sourceEnv s) \<and>
     (\<forall>l \<in> set (cd_loads s). cl_requestId l \<le> cd_loadSeq s)"

definition cd_loadInv :: "CopyState \<Rightarrow> bool" where
  "cd_loadInv s \<longleftrightarrow> cd_seqInv s \<and>
     (\<forall>l \<in> set (cd_loads s). cl_requestId l = cd_loadSeq s \<longrightarrow> cd_sourceEnv s = [] \<or> cd_sourceEnv s = cl_env l)"

lemmas cd_inv_defs = cd_loadInv_def cd_seqInv_def

definition cd_reloads :: "string \<Rightarrow> bool \<Rightarrow> CopyState \<Rightarrow> CopyState \<Rightarrow> bool" where
  "cd_reloads appId mount s0 s \<longleftrightarrow>
     (mount \<or> cd_open s0 \<noteq> cd_open s \<or> cd_appId s0 \<noteq> cd_appId s \<or> cd_sourceEnv s0 \<noteq> cd_sourceEnv s) \<and>
     cd_open s \<and> cd_mounted s \<and> appId \<noteq> [] \<and> cd_sourceEnv s \<noteq> []"

lemma cd_inv_cong:
  assumes "cd_loadInv s" and "cd_loadingElements s' = cd_loadingElements s" "cd_sourceEnv s' = cd_sourceEnv s"
    "cd_elements s' = cd_elements s" "cd_from s' = cd_from s" "cd_loads s' = cd_loads s" "cd_loadSeq s' = cd_loadSeq s"
  shows "cd_loadInv s'"
  using assms by (simp add: cd_inv_defs)

lemma cd_toasts_inv: "cd_loadInv s \<Longrightarrow> cd_loadInv (fst (cd_toasts t s))"
  by (erule cd_inv_cong) (simp_all add: cd_toasts_def Let_def case_prod_unfold)

lemma cd_startLoad_inv:
  "cd_seqInv s \<Longrightarrow> cd_open s \<Longrightarrow> appId \<noteq> [] \<Longrightarrow> cd_sourceEnv s \<noteq> [] \<Longrightarrow> cd_loadInv (fst (cd_startLoad appId s))"
  by (auto simp: cd_startLoad_def cd_inv_defs)

lemma cd_commit_inv:
  assumes "cd_seqInv s" and "cd_loadInv s \<or> cd_reloads appId mount s0 s"
  shows "cd_loadInv (fst (cd_commit t appId mount s0 s))"
proof -
  let ?s1 = "s\<lparr>cd_openRef := cd_open s\<rparr>"
  let ?s2 = "fst (if mount \<or> cd_open s0 \<noteq> cd_open s \<or> cd_appId s0 \<noteq> cd_appId s \<or> cd_sourceEnv s0 \<noteq> cd_sourceEnv s
                  then cd_startLoad appId ?s1 else (?s1, []))"
  have "cd_seqInv ?s1" using assms(1) by (simp add: cd_seqInv_def)
  moreover have "cd_loadInv ?s1" if "cd_loadInv s" using that by (rule cd_inv_cong) simp_all
  ultimately have "cd_loadInv ?s2"
    using assms(2) cd_startLoad_inv [of ?s1 appId] by (auto simp: cd_reloads_def cd_startLoad_def)
  then have "cd_loadInv (fst (cd_toasts t ?s2))" by (rule cd_toasts_inv)
  then show ?thesis by (simp add: cd_commit_def Let_def case_prod_unfold)
qed

lemma cd_loaded_inv:
  assumes "cd_loadInv s" and "i < length (cd_loads s)"
  shows "cd_loadInv (cd_loaded (cd_loads s ! i) outcome (s\<lparr>cd_loads := remove_at i (cd_loads s)\<rparr>))"
proof -
  have "cd_loads s ! i \<in> set (cd_loads s)" using assms(2) by simp
  then show ?thesis
    using assms(1) set_remove_at [of i "cd_loads s"]
    by (auto simp: cd_inv_defs cd_loaded_def split: sum.splits)
qed

lemma cd_page_inv: "cd_loadInv s \<Longrightarrow> cd_loadInv (fst (cd_page i outcome s))"
proof (cases "i < length (cd_loads s)")
  case True
  assume inv: "cd_loadInv s"
  have "cd_loads s ! i \<in> set (cd_loads s)" using True by simp
  then have "cd_loadInv (s\<lparr>cd_loads := (cd_loads s)[i := (cd_loads s ! i)\<lparr>cl_elements := items\<rparr>]\<rparr>)" for items
    using inv by (auto simp: cd_inv_defs dest!: set_update_subset_insert [THEN subsetD])
  with inv True cd_loaded_inv [OF inv True] show ?thesis
    by (auto simp: cd_page_def Let_def split: sum.splits prod.splits option.splits)
qed (simp add: cd_page_def)

lemma job_in_pool_inv: "cd_loadInv s \<Longrightarrow> cd_loadInv (fst (job_in_pool j cfg pl s))"
  by (erule cd_inv_cong) (simp_all add: job_in_pool_def)

lemma cd_envCreated_inv: "cd_loadInv s \<Longrightarrow> cd_loadInv (fst (cd_envCreated j cfg outcome s))"
  by (erule cd_inv_cong) (simp_all add: cd_envCreated_def job_in_pool_def Let_def case_prod_unfold split: sum.splits)

lemma cd_poolEvent_inv: "cd_loadInv s \<Longrightarrow> cd_loadInv (fst (cd_poolEvent j cfg pl e s))"
  by (erule cd_inv_cong) (simp_all add: cd_poolEvent_def job_in_pool_def add_progress_def Let_def case_prod_unfold)

lemma cd_source_inv:
  assumes "cd_loadInv s" and "cd_open s" "cd_mounted s" "appId \<noteq> []" "value \<noteq> cd_sourceEnv s"
  shows "cd_seqInv (cd_handleSourceEnvChange appId value s) \<and>
    (cd_loadInv (cd_handleSourceEnvChange appId value s) \<or>
     cd_reloads appId m s (cd_handleSourceEnvChange appId value s))"
  using assms by (auto simp: cd_inv_defs cd_handleSourceEnvChange_def cd_reloads_def)

lemma cd_seq_of_load: "cd_loadInv s \<Longrightarrow> cd_seqInv s"
  by (simp add: cd_loadInv_def)

lemma cd_ui_inv:
  assumes "cd_loadInv s" and "cd_open s" and "cd_mounted s"
  shows "cd_seqInv (fst (cd_ui t appId s e)) \<and>
    (cd_loadInv (fst (cd_ui t appId s e)) \<or> cd_reloads appId m s (fst (cd_ui t appId s e)))"
proof (cases "\<exists>value. e = CSource value")
  case True
  then obtain v where "e = CSource v" by blast
  then show ?thesis
    using assms cd_source_inv [OF assms, of appId v m] cd_seq_of_load [OF assms(1)] by (simp add: cd_ui_def)
next
  case False
  have "cd_loadInv (fst (cd_ui t appId s e))"
    using assms(1)
    by (rule cd_inv_cong)
      (use False in \<open>auto simp: cd_ui_def cd_changeTarget_def cd_toggleElement_def cd_toggleAll_def cd_startCopy_def
        cd_handleClose_def cd_viewCopiedEnv_def split: CopyEvent.splits\<close>)
  then show ?thesis by (simp add: cd_seq_of_load)
qed

lemma cd_reset_inv: "cd_loadInv s \<Longrightarrow> cd_loadInv (cd_reset s)"
  by (auto simp: cd_inv_defs cd_reset_def)

lemma cd_fields_inv:
  assumes "cd_loadInv s"
  shows "cd_loadInv (s\<lparr>cd_mounted := b\<rparr>)" "cd_loadInv (s\<lparr>cd_open := o', cd_appId := a, cd_envs := es\<rparr>)" "cd_loadInv (cd_refreshed j s)"
  by (rule cd_inv_cong [OF assms]; simp add: cd_refreshed_def Let_def)+

lemma cd_handle_inv:
  assumes "cd_loadInv s"
  shows "cd_seqInv (fst (cd_handle t appId s e)) \<and>
    (cd_loadInv (fst (cd_handle t appId s e)) \<or> cd_reloads appId m s (fst (cd_handle t appId s e)))"
proof (cases "cd_mounted s \<and> cd_open s")
  case True
  note u = cd_ui_inv [OF assms, of t appId _ m]
  show ?thesis
    using assms True u cd_seq_of_load [OF assms]
    by (cases e) (auto simp: cd_handle_def cd_fields_inv cd_page_inv cd_envCreated_inv cd_poolEvent_inv cd_seq_of_load
        split: CopyJob.splits)
next
  case False
  have "cd_loadInv (fst (cd_handle t appId s e))"
    using assms False
    by (cases e) (auto simp: cd_handle_def cd_fields_inv cd_page_inv cd_envCreated_inv cd_poolEvent_inv cd_reset_inv
        split: CopyJob.splits)
  then show ?thesis by (simp add: cd_seq_of_load)
qed

lemma cd_appId_simps [simp]:
  "cd_appId (fst (cd_ui t appId s e)) = cd_appId s" "cd_appId (cd_handleSourceEnvChange appId v s) = cd_appId s"
  by (cases e) (simp_all add: cd_ui_def cd_handleSourceEnvChange_def cd_changeTarget_def cd_toggleElement_def cd_toggleAll_def
      cd_startCopy_def cd_handleClose_def cd_viewCopiedEnv_def)

lemma cd_handle_reloads:
  assumes "cd_loadInv s"
  shows "cd_loadInv (fst (cd_handle t (cd_appId s) s e)) \<or>
    cd_reloads (cd_appId (fst (cd_handle t (cd_appId s) s e))) m s (fst (cd_handle t (cd_appId s) s e))"
proof (cases "\<exists>v. e = CSource v")
  case True
  then obtain v where v: "e = CSource v" by blast
  then have "cd_appId (fst (cd_handle t (cd_appId s) s e)) = cd_appId s" by (simp add: cd_handle_def)
  then show ?thesis using cd_handle_inv [OF assms, of t "cd_appId s" e m] by simp
next
  case False
  have ui: "cd_loadInv (fst (cd_ui t (cd_appId s) s e))"
    using assms
    by (rule cd_inv_cong)
      (use False in \<open>auto simp: cd_ui_def cd_changeTarget_def cd_toggleElement_def cd_toggleAll_def cd_startCopy_def
        cd_handleClose_def cd_viewCopiedEnv_def split: CopyEvent.splits\<close>)
  have "cd_loadInv (fst (cd_handle t (cd_appId s) s e))"
    using assms ui
    by (cases e) (auto simp: cd_handle_def cd_fields_inv cd_page_inv cd_envCreated_inv cd_poolEvent_inv cd_reset_inv
        split: CopyJob.splits)
  then show ?thesis ..
qed

lemma copy_inv_step: "cd_loadInv s \<Longrightarrow> cd_loadInv (fst (copy_step t s e))"
proof -
  assume inv: "cd_loadInv s"
  let ?s = "fst (cd_handle t (cd_appId s) s e)"
  have h: "cd_seqInv ?s" "cd_loadInv ?s \<or> cd_reloads (cd_appId ?s) (e = CMount) s ?s"
    using cd_handle_inv [OF inv] cd_handle_reloads [OF inv] by blast+
  have "cd_loadInv ?s" if "\<not> cd_mounted ?s"
    using h(2) that by (simp add: cd_reloads_def)
  with cd_commit_inv [OF h] show ?thesis by (simp add: copy_step_def Let_def case_prod_unfold)
qed

text \<open>
  The elements shown in an open dialog are of the application shown too, unless the load for it is under way:
  a change of the application under the open dialog starts that load but keeps the elements.
\<close>

definition latest_load :: "CopyState \<Rightarrow> bool" where
  "latest_load s \<longleftrightarrow> (\<exists>l \<in> set (cd_loads s). cl_requestId l = cd_loadSeq s)"

definition cd_shows :: "CopyState \<Rightarrow> bool" where
  "cd_shows s \<longleftrightarrow> cd_mounted s \<and> cd_open s \<and> cd_appId s \<noteq> [] \<and> cd_sourceEnv s \<noteq> []"

definition cd_appInv :: "CopyState \<Rightarrow> bool" where
  "cd_appInv s \<longleftrightarrow>
     (\<forall>l \<in> set (cd_loads s). cl_requestId l \<le> cd_loadSeq s) \<and> (cd_mounted s \<longrightarrow> cd_openRef s = cd_open s) \<and>
     (cd_shows s \<longrightarrow> (cd_elements s \<noteq> [] \<longrightarrow> cd_fromApp s = cd_appId s \<or> latest_load s) \<and>
       (\<forall>l \<in> set (cd_loads s). cl_requestId l = cd_loadSeq s \<longrightarrow> cl_app l = cd_appId s \<and> cl_env l = cd_sourceEnv s))"

lemmas cd_appInv_defs = cd_appInv_def cd_shows_def latest_load_def

lemma set_remove_at_other: "x \<in> set xs \<Longrightarrow> x \<noteq> xs ! i \<Longrightarrow> i < length xs \<Longrightarrow> x \<in> set (remove_at i xs)"
  by (metis Un_iff append_take_drop_id id_take_nth_drop list.set_intros(1) remove_at_def set_ConsD set_append)

lemma cd_page_app:
  assumes "cd_appInv s"
  shows "cd_appInv (fst (cd_page i outcome s))"
proof (cases "i < length (cd_loads s)")
  case True
  let ?l = "cd_loads s ! i" and ?s = "s\<lparr>cd_loads := remove_at i (cd_loads s)\<rparr>"
  have mem: "?l \<in> set (cd_loads s)" using True by simp
  note sub = subsetD [OF set_remove_at [of i "cd_loads s"]] set_remove_at_other [OF _ _ True]
  have loaded: "cd_appInv (cd_loaded ?l out ?s)" for out
  proof (cases "cd_isActive ?s \<and> cl_requestId ?l = cd_loadSeq s")
    case True
    then show ?thesis
      using assms mem sub(1) by (cases out) (auto simp: cd_appInv_def cd_shows_def cd_loaded_def)
  next
    case False
    have "latest_load ?s" if "cd_shows s" "latest_load s"
    proof -
      have "cl_requestId ?l \<noteq> cd_loadSeq s"
        using False assms that(1) by (auto simp: cd_appInv_def cd_shows_def cd_isActive_def)
      with that(2) sub(2) show ?thesis by (auto simp: latest_load_def)
    qed
    with assms sub(1) have "cd_appInv ?s" by (auto simp: cd_appInv_def cd_shows_def)
    with False show ?thesis by (simp add: cd_loaded_def cd_isActive_def)
  qed
  have "cd_appInv (s\<lparr>cd_loads := (cd_loads s)[i := ?l\<lparr>cl_elements := items\<rparr>]\<rparr>)" for items
  proof -
    let ?ls = "(cd_loads s)[i := ?l\<lparr>cl_elements := items\<rparr>]" and ?f = "\<lambda>l. (cl_requestId l, cl_app l, cl_env l)"
    have "map ?f ?ls = map ?f (cd_loads s)" using True by (simp add: map_update list_update_same_conv)
    from arg_cong [OF this, of set] have image: "?f ` set ?ls = ?f ` set (cd_loads s)" by (simp only: list.set_map)
    have fwd: "\<exists>l' \<in> set (cd_loads s). ?f l = ?f l'" if "l \<in> set ?ls" for l
      using imageI [OF that, of ?f] unfolding image by (rule imageE) blast
    have bwd: "\<exists>l' \<in> set ?ls. ?f l = ?f l'" if "l \<in> set (cd_loads s)" for l
      using imageI [OF that, of ?f] unfolding image [symmetric] by (rule imageE) blast
    have latest: "latest_load (s\<lparr>cd_loads := ?ls\<rparr>)" if latest: "latest_load s"
    proof -
      obtain l where "l \<in> set (cd_loads s)" "cl_requestId l = cd_loadSeq s" using latest by (auto simp: latest_load_def)
      with bwd show ?thesis by (fastforce simp: latest_load_def)
    qed
    have fwd': "\<exists>l' \<in> set (cd_loads s). cl_requestId l = cl_requestId l' \<and> cl_app l = cl_app l' \<and> cl_env l = cl_env l'"
      if "l \<in> set ?ls" for l using fwd [OF that] by auto
    have "\<forall>l \<in> set ?ls. cl_requestId l \<le> cd_loadSeq s"
      using assms fwd' unfolding cd_appInv_def by metis
    moreover have "\<forall>l \<in> set ?ls. cl_requestId l = cd_loadSeq s \<longrightarrow> cl_app l = cd_appId s \<and> cl_env l = cd_sourceEnv s" if "cd_shows s"
      using assms fwd' that unfolding cd_appInv_def by metis
    ultimately show ?thesis using assms latest by (cases "latest_load s") (simp_all add: cd_appInv_def cd_shows_def)
  qed
  with loaded True show ?thesis
    by (auto simp: cd_page_def Let_def split: sum.splits prod.splits option.splits)
qed (simp add: cd_page_def assms)

lemma cd_app_cong:
  assumes "cd_appInv s" and "cd_loads s' = cd_loads s" "cd_loadSeq s' = cd_loadSeq s" "cd_mounted s' = cd_mounted s"
    "cd_openRef s' = cd_openRef s" "cd_open s' = cd_open s" "cd_appId s' = cd_appId s" "cd_sourceEnv s' = cd_sourceEnv s"
    "cd_elements s' = cd_elements s" "cd_fromApp s' = cd_fromApp s"
  shows "cd_appInv s'"
  using assms by (simp add: cd_appInv_defs)

lemma cd_toasts_app: "cd_appInv s \<Longrightarrow> cd_appInv (fst (cd_toasts t s))"
  by (erule cd_app_cong) (simp_all add: cd_toasts_def Let_def case_prod_unfold)

lemma cd_ui_frame:
  "cd_loads (fst (cd_ui t a s e)) = cd_loads s" "cd_loadSeq (fst (cd_ui t a s e)) = cd_loadSeq s"
  "cd_mounted (fst (cd_ui t a s e)) = cd_mounted s" "cd_openRef (fst (cd_ui t a s e)) = cd_openRef s"
  "cd_open (fst (cd_ui t a s e)) = cd_open s" "cd_elements (fst (cd_ui t a s e)) = cd_elements s"
  "cd_fromApp (fst (cd_ui t a s e)) = cd_fromApp s"
  by (cases e; simp add: cd_ui_def cd_handleSourceEnvChange_def cd_changeTarget_def
      cd_toggleElement_def cd_toggleAll_def cd_startCopy_def cd_handleClose_def cd_viewCopiedEnv_def)+

lemma cd_handle_app:
  assumes "cd_appInv s"
  shows "(\<forall>l \<in> set (cd_loads (fst (cd_handle t a s e))). cl_requestId l \<le> cd_loadSeq (fst (cd_handle t a s e))) \<and>
    (e \<noteq> CMount \<and> cd_open s = cd_open (fst (cd_handle t a s e)) \<and> cd_appId s = cd_appId (fst (cd_handle t a s e)) \<and>
     cd_sourceEnv s = cd_sourceEnv (fst (cd_handle t a s e)) \<longrightarrow> cd_appInv (fst (cd_handle t a s e)))"
proof -
  have ids: "\<forall>l \<in> set (cd_loads s). cl_requestId l \<le> cd_loadSeq s" using assms by (simp add: cd_appInv_def)
  have job: "cd_appInv (fst (cd_envCreated j cfg outcome s))" "cd_appInv (fst (cd_poolEvent j cfg pl pe s))" "cd_appInv (cd_refreshed j s)"
    for j cfg outcome pl pe
    by (rule cd_app_cong [OF assms];
        simp add: cd_envCreated_def cd_poolEvent_def cd_refreshed_def job_in_pool_def add_progress_def Let_def case_prod_unfold split: sum.splits)+
  note f = cd_ui_frame [of t a s e]
  have ui: "cd_appInv (fst (cd_ui t a s e))" if "cd_sourceEnv s = cd_sourceEnv (fst (cd_ui t a s e))"
    by (rule cd_app_cong [OF assms]) (simp_all add: f that)
  have reset: "cd_appInv (cd_reset s)" using assms by (simp add: cd_appInv_defs cd_reset_def)
  have ids_of: "\<forall>l \<in> set (cd_loads s'). cl_requestId l \<le> cd_loadSeq s'" if "cd_appInv s'" for s'
    using that by (simp add: cd_appInv_def)
  have unmount: "cd_appInv (s\<lparr>cd_mounted := False\<rparr>)" using assms by (simp add: cd_appInv_defs)
  have same: "cd_appInv (s\<lparr>cd_open := b, cd_appId := a', cd_envs := es\<rparr>)" if "b = cd_open s" "a' = cd_appId s" for b a' es
    by (rule cd_app_cong [OF assms]) (simp_all add: that)
  show ?thesis
  proof (cases e)
    case (CProps b a' es)
    have "cd_appInv (s\<lparr>cd_open := b, cd_appId := a', cd_envs := es\<rparr>)" if "cd_open s = b" "cd_appId s = a'"
      using that by (intro same) simp_all
    with ids CProps show ?thesis by (simp add: cd_handle_def)
  next
    case (CPage i outcome)
    with cd_page_app [OF assms] ids_of [OF cd_page_app [OF assms]] show ?thesis by (simp add: cd_handle_def)
  qed (use assms ids job ui f reset unmount ids_of [OF job(1)] ids_of [OF job(2)] ids_of [OF job(3)] ids_of [OF reset]
       in \<open>auto simp: cd_handle_def split: CopyJob.splits\<close>)
qed

lemma copy_app_step:
  assumes "cd_appInv s"
  shows "cd_appInv (fst (copy_step t s e))"
proof -
  let ?s = "fst (cd_handle t (cd_appId s) s e)"
  let ?changed = "e = CMount \<or> cd_open s \<noteq> cd_open ?s \<or> cd_appId s \<noteq> cd_appId ?s \<or> cd_sourceEnv s \<noteq> cd_sourceEnv ?s"
  let ?s1 = "?s\<lparr>cd_openRef := cd_open ?s\<rparr>"
  note h = cd_handle_app [OF assms, of t "cd_appId s" e]
  have ids: "\<forall>l \<in> set (cd_loads ?s). cl_requestId l \<le> cd_loadSeq ?s" using h by blast
  have keep: "cd_appInv ?s" if "\<not> ?changed" using h that by blast
  have load: "cd_appInv (fst (cd_startLoad (cd_appId ?s) ?s1))"
    using ids by (auto simp: cd_appInv_defs cd_startLoad_def)
  have "cd_appInv (fst (if ?changed then cd_startLoad (cd_appId ?s) ?s1 else (?s1, [])))" if "cd_mounted ?s"
    using load keep that by (auto simp: cd_appInv_defs)
  note toasts = cd_toasts_app [OF this, of t]
  have "cd_appInv ?s" if "\<not> cd_mounted ?s" using ids that by (simp add: cd_appInv_defs)
  with toasts show ?thesis by (simp add: copy_step_def cd_commit_def Let_def case_prod_unfold)
qed

subsection \<open>What the dialog does\<close>

definition copy_allowed :: "Translator \<Rightarrow> string \<Rightarrow> CopyState \<Rightarrow> effect \<Rightarrow> bool" where
  "copy_allowed t appId s x = (case x of
       Request path ri \<Rightarrow> ri_method ri = Some ''POST'' \<longrightarrow> ri_body ri = None \<longrightarrow>
         cd_canStart t appId s \<and> path = envPath appId (cd_targetEnv s)
     | CloseDialog \<Rightarrow> \<not> cd_copying s
     | _ \<Rightarrow> True)"

lemma copy_allowed_simps [simp]:
  "copy_allowed t appId s (ShowToast m sev)" "copy_allowed t appId s (BusyChange b)" "copy_allowed t appId s Refresh"
  "copy_allowed t appId s (Navigate path)"
  "copy_allowed t appId s (requestElements a e k)" "copy_allowed t appId s (requestElement a e k)"
  "copy_allowed t appId s (createElement a e k d)"
  "copy_allowed t appId s CloseDialog = (\<not> cd_copying s)"
  by (simp_all add: copy_allowed_def requestElements_def requestElement_def createElement_def noInit_def jsonBody_def)

lemma pool_effects_append [simp]: "pool_effects (os @ os') = pool_effects os @ pool_effects os'"
  by (simp add: pool_effects_def List.map_filter_def)

lemma pool_effects_Cons [simp]:
  "pool_effects [] = []" "pool_effects (PoolProgress r # os) = pool_effects os"
  "pool_effects (PoolEffect ef # os) = ef # pool_effects os"
  by (simp_all add: pool_effects_def List.map_filter_def)

lemma take_item_effects: "x \<in> set (pool_effects (snd (snd (take_item cfg pl)))) \<Longrightarrow> copy_allowed t appId s x"
  by (simp add: take_item_def Let_def split: if_splits)

lemma finish_item_effects: "x \<in> set (pool_effects (snd (finish_item cfg active i r pl))) \<Longrightarrow> copy_allowed t appId s x"
  using take_item_effects [of x cfg "pl\<lparr>pl_results := pl_results pl @ [r]\<rparr>"]
  by (auto simp: finish_item_def Let_def case_prod_unfold split: if_splits)

lemma pool_step_effects: "x \<in> set (pool_effects (snd (pool_step cfg pl ae))) \<Longrightarrow> copy_allowed t appId s x"
  by (auto simp: pool_step_def copy_fetched_def copy_created_def dest: finish_item_effects
      split: PoolEvent.splits if_splits WorkerState.splits sum.splits)

lemma start_workers_effects:
  "x \<in> set (pool_effects (snd ((start_worker cfg ^^ n) po))) \<Longrightarrow> x \<in> set (pool_effects (snd po)) \<or> copy_allowed t appId s x"
proof (induction n arbitrary: x)
  case (Suc n)
  let ?q = "(start_worker cfg ^^ n) po"
  have "pool_effects (snd (start_worker cfg ?q)) = pool_effects (snd ?q) @ pool_effects (snd (snd (take_item cfg (fst ?q))))"
    by (simp add: start_worker_def case_prod_unfold)
  with Suc show ?case by (auto dest: take_item_effects)
qed simp

lemma start_pool_effects: "x \<in> set (pool_effects (snd (start_pool cfg))) \<Longrightarrow> copy_allowed t appId s x"
  unfolding start_pool_def by (drule start_workers_effects) auto

lemma dedupe_toast_effects: "x \<in> set (snd (dedupe_toast sev shown m)) \<Longrightarrow> copy_allowed t appId s x"
  by (auto simp: dedupe_toast_def split: if_splits)

lemma cd_toasts_effects: "x \<in> set (snd (cd_toasts t s)) \<Longrightarrow> copy_allowed t' appId s' x"
  by (auto simp: cd_toasts_def case_prod_unfold Let_def dest: dedupe_toast_effects)

lemma cd_startLoad_effects: "x \<in> set (snd (cd_startLoad appId s)) \<Longrightarrow> copy_allowed t appId' s' x"
  by (simp add: cd_startLoad_def split: if_splits)

lemma cd_commit_effects: "x \<in> set (snd (cd_commit t appId m s0 s)) \<Longrightarrow> copy_allowed t appId' s' x"
  unfolding cd_commit_def Let_def case_prod_unfold
  by (auto dest: cd_toasts_effects cd_startLoad_effects split: if_splits)

lemma cd_ui_effects: "x \<in> set (snd (cd_ui t appId s e)) \<Longrightarrow> copy_allowed t appId s x"
  by (cases e)
    (auto simp: cd_ui_def cd_startCopy_def cd_handleClose_def cd_viewCopiedEnv_def createEnv_def
      copy_allowed_def [of t appId s "Request a b" for a b] split: if_splits)

lemma cd_handle_effects: "x \<in> set (snd (cd_handle t appId s e)) \<Longrightarrow> copy_allowed t appId s x"
  by (cases e)
    (auto simp: cd_handle_def cd_page_def cd_envCreated_def cd_poolEvent_def job_in_pool_def Let_def case_prod_unfold
      dest: start_pool_effects pool_step_effects intro: cd_ui_effects
      split: if_splits CopyJob.splits sum.splits option.splits)

lemma copy_allowed_step: "x \<in> set (snd (copy_step t s e)) \<Longrightarrow> copy_allowed t (cd_appId s) s x"
  by (auto simp: copy_step_def Let_def case_prod_unfold dest: cd_handle_effects cd_commit_effects split: if_splits)

lemma copy_post_shown:
  assumes "Request path (methodInit ''POST'') \<in> set (snd (copy_step t s e))"
  shows "cd_mounted s \<and> cd_open s"
proof (rule ccontr)
  assume hidden: "\<not> (cd_mounted s \<and> cd_open s)"
  let ?s = "s\<lparr>cd_step := ExecuteStep\<rparr>"
  have no: "Request path (methodInit ''POST'') \<notin> set (snd (cd_commit t a m s0 s1))" for a m s0 s1
    using cd_commit_effects [of "Request path (methodInit ''POST'')" t a m s0 s1 "[]" ?s]
    by (auto simp: copy_allowed_def methodInit_def cd_canStart_def)
  have "Request path (methodInit ''POST'') \<in> set (snd (cd_handle t (cd_appId s) s e))"
    using assms no by (auto simp: copy_step_def Let_def case_prod_unfold split: if_splits)
  then have "copy_allowed t [] ?s (Request path (methodInit ''POST''))"
    using hidden
    by (cases e)
      (auto simp: cd_handle_def cd_page_def cd_envCreated_def cd_poolEvent_def job_in_pool_def Let_def case_prod_unfold
        dest: start_pool_effects pool_step_effects split: if_splits CopyJob.splits sum.splits option.splits)
  then show False by (simp add: copy_allowed_def methodInit_def cd_canStart_def)
qed

lemma copy_inv_init: "cd_loadInv (initCopy open appId envs) \<and> cd_appInv (initCopy open appId envs)"
  by (simp add: cd_inv_defs cd_appInv_defs initCopy_def)

interpretation copy_dialog: guarded_component "copy_step t" "\<lambda>s. \<exists>open appId envs. s = initCopy open appId envs"
  "\<lambda>s. cd_loadInv s \<and> cd_appInv s" "\<lambda>s. copy_allowed t (cd_appId s) s" for t
  by unfold_locales (auto simp: copy_inv_init copy_inv_step copy_app_step copy_allowed_step)

subsection \<open>Properties\<close>

definition demo_env_page :: ElementsResponse where
  "demo_env_page = \<lparr>es_elements = Some [demo_element ''x''], es_hasMore = None, es_nextSeek = None\<rparr>"

definition demo_dialog :: CopyState where
  "demo_dialog = after (copy_step (\<lambda>k ps. k)) (initCopy True ''a'' [''s''])
     [CMount, CSource ''s'', CPage 0 (Inr (Some demo_env_page)), CTarget '' T '']"


lemma demo_dialog_start:
  "Request (envPath ''a'' ''t'') (methodInit ''POST'') \<in> set (snd (copy_step (\<lambda>k ps. k) demo_dialog CStart))"
  by code_simp


text \<open>That exception does happen: the application changes under the dialog, and a click on Start before the answer
  creates an environment in the new application for the elements of the first.\<close>

theorem copy_stale_application:
  "let s = after (copy_step (\<lambda>k ps. k)) demo_dialog [CProps True ''b'' [''s'']] in
   Request (envPath ''b'' ''t'') (methodInit ''POST'') \<in> set (snd (copy_step (\<lambda>k ps. k) s CStart)) \<and>
   cd_fromApp s = ''a'' \<and> map getElementKey (cd_selectedElements s) = [''x'']"
  by code_simp

text \<open>The dialog never asks its parent to close it while a copy is running.\<close>

theorem copy_keeps_open:
  assumes "CloseDialog \<in> set (snd (copy_step t s e))"
  shows "\<not> cd_copying s"
  using copy_allowed_step [OF assms] by simp

theorem copy_keeps_open_witness: "\<not> cd_copying demo_dialog"
proof -
  have "CloseDialog \<in> set (snd (copy_step (\<lambda>k ps. k) demo_dialog CClose))" by code_simp
  then show ?thesis by (rule copy_keeps_open)
qed

fun toast_run :: "severity \<Rightarrow> string \<Rightarrow> string list \<Rightarrow> effect list" where
  "toast_run sev shown [] = []"
| "toast_run sev shown (m # ms) = snd (dedupe_toast sev shown m) @ toast_run sev (fst (dedupe_toast sev shown m)) ms"

lemma remdups_adj_head: "\<exists>r. remdups_adj (m # ms) = m # r"
  by (simp add: remdups_adj_Cons split: list.split)

lemma toast_run_shown:
  "toast_run sev shown ms = map (\<lambda>m. ShowToast m sev) (filter (\<lambda>m. m \<noteq> []) (tl (remdups_adj (shown # ms))))"
proof (induction ms arbitrary: shown)
  case (Cons m ms)
  obtain r where r: "remdups_adj (m # ms) = m # r" using remdups_adj_head [of m ms] by (elim exE)
  with Cons [of m] show ?case
    by (cases "shown = m"; cases "m = []") (simp_all add: dedupe_toast_def)
qed simp

text \<open>Of the messages of successive renderings a toast is shown exactly when the message changes to
  a new one: the toasts are the messages with adjacent repetitions and empty messages removed.\<close>

theorem dedupe_toast_run:
  "toast_run sev [] ms = map (\<lambda>m. ShowToast m sev) (filter (\<lambda>m. m \<noteq> []) (remdups_adj ms))"
proof -
  have "filter (\<lambda>m. m \<noteq> []) (tl (remdups_adj ([] # ms))) = filter (\<lambda>m. m \<noteq> []) (remdups_adj ms)"
  proof (cases ms)
    case (Cons m ms')
    show ?thesis
    proof (cases "m = []")
      case True
      obtain r where "remdups_adj (m # ms') = m # r" using remdups_adj_head [of m ms'] by (elim exE)
      with True Cons show ?thesis by simp
    qed (simp add: Cons)
  qed simp
  then show ?thesis by (simp add: toast_run_shown)
qed

text \<open>The progress bar stays between 0 and 100 percent, and stands at 100 when everything is done.\<close>

theorem progressPercent_bounds:
  assumes "cg_completed g \<le> cg_total g"
  shows "progressPercent g \<le> 100 \<and> (0 < cg_total g \<longrightarrow> cg_completed g = cg_total g \<longrightarrow> progressPercent g = 100)"
proof (cases "0 < cg_total g")
  case True
  let ?n = "cg_total g"
  have "(2 * (cg_completed g * 100) + ?n) div (2 * ?n) \<le> (2 * (?n * 100) + ?n) div (2 * ?n)"
    using assms by (intro div_le_mono) simp
  moreover have "(2 * (?n * 100) + ?n) div (2 * ?n) = 100"
  proof -
    have "2 * (?n * 100) + ?n = ?n + 100 * (2 * ?n)" by simp
    then show ?thesis using True by (simp add: div_mult_self3)
  qed
  ultimately show ?thesis using True by (simp add: progressPercent_def)
qed (simp add: progressPercent_def)

theorem progressPercent_bounds_witness: "progressPercent (createInitialProgress 3) \<le> 100"
  using progressPercent_bounds [of "createInitialProgress 3"] by (simp add: createInitialProgress_def)

end
