(* ===== verification/Latest_Loader.thy ===== *)
theory Latest_Loader
  imports Prelude
begin

section \<open>Only the latest response counts\<close>

text \<open>
  The interface the list pages share for their loads. A page numbers its loads
  (\<open>++requestSeq.current\<close>), keeps what each load in flight was started with, and applies a
  response only if it carries the latest number. \<open>wanted\<close> is what the latest load was started
  with. A client that starts and settles loads through the two operations of the interface keeps
  the fact that the load with the latest number is one for what is wanted.
\<close>

locale latest_loader =
  fixes seq :: "'s \<Rightarrow> nat"
    and loads :: "'s \<Rightarrow> 'l list"
    and wanted :: "'s \<Rightarrow> 'k"
    and ident :: "'l \<Rightarrow> nat"
    and key :: "'l \<Rightarrow> 'k"
    and start :: "'l \<Rightarrow> 's \<Rightarrow> 's"
    and settle :: "nat \<Rightarrow> 's \<Rightarrow> 's"
  assumes seq_start: "ident l = Suc (seq s) \<Longrightarrow> seq (start l s) = Suc (seq s)"
    and loads_start: "loads (start l s) = loads s @ [l]"
    and wanted_start: "wanted (start l s) = key l"
    and seq_settle: "seq (settle i s) = seq s"
    and loads_settle: "loads (settle i s) = remove_at i (loads s)"
    and wanted_settle: "wanted (settle i s) = wanted s"
begin

definition latest :: "'s \<Rightarrow> bool" where
  "latest s \<longleftrightarrow> (\<forall>l \<in> set (loads s). ident l \<le> seq s \<and> (ident l = seq s \<longrightarrow> key l = wanted s))"

lemma latest_start:
  assumes "latest s" and "ident l = Suc (seq s)"
  shows "latest (start l s)"
  using assms by (auto simp: latest_def seq_start loads_start wanted_start)

lemma latest_settle: "latest s \<Longrightarrow> latest (settle i s)"
  using set_remove_at [of i "loads s"] by (auto simp: latest_def seq_settle loads_settle wanted_settle)

lemma latest_cong:
  "latest s \<Longrightarrow> loads s' = loads s \<Longrightarrow> seq s' = seq s \<Longrightarrow> wanted s' = wanted s \<Longrightarrow> latest s'"
  by (simp add: latest_def)

lemma latest_empty: "loads s = [] \<Longrightarrow> latest s"
  by (simp add: latest_def)

lemma latest_skip:
  \<comment> \<open>a number is taken and no request sent\<close>
  assumes "latest s" and "loads s' = loads s" and "seq s' = Suc (seq s)"
  shows "latest s'"
  using assms by (fastforce simp: latest_def)

lemma latest_applied:
  "latest s \<Longrightarrow> i < length (loads s) \<Longrightarrow> ident (loads s ! i) = seq s \<Longrightarrow> key (loads s ! i) = wanted s"
  by (simp add: latest_def)

end

end
