(* ===== verification/Feedback.thy ===== *)
theory Feedback
  imports Api_Client Ui
begin

section \<open>Feedback: \<open>components/useErrorState.ts\<close>, \<open>components/StateView.tsx\<close>, \<open>components/ToastProvider.tsx\<close>\<close>

text \<open>
  The error a page reports (a message with the number of the report), the component that turns a
  reported error into a toast once, and the provider that shows one toast at a time. The facts:
  different reports have different deduplication keys, so that no report is swallowed by an
  earlier one with the same text, and the toast shown is the last one that was not blank.
\<close>

subsection \<open>Reported errors\<close>

record ErrorFeedback =
  ef_message :: string
  ef_eventKey :: nat
  ef_seq :: nat

definition initError :: ErrorFeedback where
  "initError = \<lparr>ef_message = [], ef_eventKey = 0, ef_seq = 0\<rparr>"

definition reportError :: "string \<Rightarrow> ErrorFeedback \<Rightarrow> ErrorFeedback" where
  "reportError message e = \<lparr>ef_message = message, ef_eventKey = ef_seq e + 1, ef_seq = ef_seq e + 1\<rparr>"

definition clearError :: "ErrorFeedback \<Rightarrow> ErrorFeedback" where
  "clearError e = e\<lparr>ef_message := []\<rparr>"

subsection \<open>The error component\<close>

text \<open>The module's set of recently emitted messages, and the timers that will remove one each.\<close>

record Emitted =
  rm_recent :: "string list"
  rm_timers :: "string list"

definition dedupeKey :: "string \<Rightarrow> nat option \<Rightarrow> string" where
  "dedupeKey message eventKey = (case eventKey of
       None \<Rightarrow> js_trim message
     | Some n \<Rightarrow> nat_str n @ '':'' @ js_trim message)"

definition ErrorState_effect :: "string \<Rightarrow> nat option \<Rightarrow> Emitted \<Rightarrow> Emitted \<times> effect list" where
  "ErrorState_effect message eventKey m =
     (let key = dedupeKey message eventKey in
      if js_trim message = [] \<or> key \<in> set (rm_recent m) then (m, [])
      else (\<lparr>rm_recent = js_set_add (rm_recent m) key, rm_timers = rm_timers m @ [key]\<rparr>,
            [ShowToast (js_trim message) Error]))"

definition ErrorState_timer :: "nat \<Rightarrow> Emitted \<Rightarrow> Emitted" where
  "ErrorState_timer i m =
     (if i < length (rm_timers m)
      then \<lparr>rm_recent = js_set_delete (rm_recent m) (rm_timers m ! i), rm_timers = remove_at i (rm_timers m)\<rparr>
      else m)"

definition LoadingState :: "Translator \<Rightarrow> string option \<Rightarrow> ui list" where
  "LoadingState t label = [UText (opt_or label (t ''common.loading'' []))]"

definition EmptyState :: "string \<Rightarrow> string option \<Rightarrow> ui list" where
  "EmptyState title description =
     UHeading title # (if truthy_str description then [UText (the description)] else [])"

subsection \<open>The toast provider\<close>

record Toast =
  to_id :: nat
  to_message :: string
  to_severity :: severity

record ToastState =
  ts_toast :: "Toast option"
  ts_id :: nat

definition initToast :: ToastState where
  "initToast = \<lparr>ts_toast = None, ts_id = 0\<rparr>"

definition closeToast :: "string option \<Rightarrow> ToastState \<Rightarrow> ToastState" where
  "closeToast reason s = (if reason = Some ''clickaway'' then s else s\<lparr>ts_toast := None\<rparr>)"

definition showToast :: "string \<Rightarrow> severity \<Rightarrow> ToastState \<Rightarrow> ToastState" where
  "showToast message sev s =
     (let trimmedMessage = js_trim message in
      if trimmedMessage = [] then s
      else s\<lparr>ts_id := ts_id s + 1,
             ts_toast := Some \<lparr>to_id = ts_id s + 1, to_message = trimmedMessage, to_severity = sev\<rparr>\<rparr>)"

definition toast_view :: "ToastState \<Rightarrow> ui list" where
  "toast_view s = (case ts_toast s of Some x \<Rightarrow> [UText (to_message x)] | None \<Rightarrow> [])"

subsection \<open>Facts\<close>

lemma colon_not_digit: "\<not> is_digit (CHR '':'')"
  by (simp add: is_digit_def)

lemma colon_nat_str: "CHR '':'' \<notin> set (nat_str n)"
  using nat_str_digits [of n] colon_not_digit by blast

lemma dedupeKey_inject:
  "dedupeKey m (Some n) = dedupeKey m' (Some n') \<longleftrightarrow> n = n' \<and> js_trim m = js_trim m'"
  by (simp add: dedupeKey_def delim_split colon_nat_str)

lemma error_keys_fresh: "ef_eventKey e \<le> ef_seq e \<Longrightarrow> ef_eventKey (reportError m e) = ef_seq e + 1"
  by (simp add: reportError_def)

subsection \<open>Properties\<close>

fun report_all :: "string list \<Rightarrow> ErrorFeedback \<Rightarrow> Emitted \<Rightarrow> Emitted \<times> effect list" where
  \<comment> \<open>reports in a row, each rendered once\<close>
  "report_all [] e m = (m, [])"
| "report_all (x # xs) e m =
     (let e' = reportError x e; (m', es) = ErrorState_effect (ef_message e') (Some (ef_eventKey e')) m;
          (m'', es') = report_all xs e' m'
      in (m'', es @ es'))"

definition keys_below :: "nat \<Rightarrow> Emitted \<Rightarrow> bool" where
  "keys_below n m = (\<forall>k \<in> set (rm_recent m). \<exists>i \<le> n. \<exists>x. k = dedupeKey x (Some i))"

lemma ErrorState_fresh:
  assumes "keys_below n m" and "js_trim x \<noteq> []"
  shows "snd (ErrorState_effect x (Some (Suc n)) m) = [ShowToast (js_trim x) Error]"
  using assms by (auto simp: ErrorState_effect_def Let_def keys_below_def dedupeKey_inject)

lemma ErrorState_keys_below: "keys_below n m \<Longrightarrow> keys_below (Suc n) (fst (ErrorState_effect x (Some (Suc n)) m))"
proof -
  assume below: "keys_below n m"
  then have "\<exists>i \<le> Suc n. \<exists>y. k = dedupeKey y (Some i)" if "k \<in> set (rm_recent m)" for k
    using that le_SucI unfolding keys_below_def by blast
  moreover have "\<exists>i \<le> Suc n. \<exists>y. dedupeKey x (Some (Suc n)) = dedupeKey y (Some i)" by blast
  ultimately show ?thesis
    by (simp add: keys_below_def ErrorState_effect_def Let_def)
qed

lemma report_all_emits:
  "keys_below (ef_seq e) m \<Longrightarrow>
   snd (report_all xs e m) = map (\<lambda>x. ShowToast (js_trim x) Error) (filter (\<lambda>x. js_trim x \<noteq> []) xs)"
proof (induction xs arbitrary: e m)
  case (Cons x xs)
  let ?m = "fst (ErrorState_effect x (Some (Suc (ef_seq e))) m)"
  have "keys_below (ef_seq (reportError x e)) ?m"
    using ErrorState_keys_below [OF Cons.prems] by (simp add: reportError_def)
  note IH = Cons.IH [OF this]
  show ?case
  proof (cases "js_trim x = []")
    case True
    with IH show ?thesis by (simp add: Let_def case_prod_unfold reportError_def ErrorState_effect_def)
  next
    case False
    with IH ErrorState_fresh [OF Cons.prems False] show ?thesis
      by (simp add: Let_def case_prod_unfold reportError_def)
  qed
qed simp

text \<open>Every error a page reports is shown as a toast, in order, also when the same message is
  reported several times in a row; blank messages are not shown.\<close>

theorem every_report_toasted:
  "snd (report_all xs initError \<lparr>rm_recent = [], rm_timers = []\<rparr>) =
     map (\<lambda>x. ShowToast (js_trim x) Error) (filter (\<lambda>x. js_trim x \<noteq> []) xs)"
  by (rule report_all_emits) (simp add: keys_below_def)

text \<open>After any sequence of calls the toast shown is the last message that was not blank, trimmed,
  and its identifier counts the messages shown, so that no two toasts share one.\<close>

theorem last_toast_shown:
  "fold (\<lambda>(m, sev). showToast m sev) calls initToast =
     (let shown = filter (\<lambda>(m, sev). js_trim m \<noteq> []) calls in
      \<lparr>ts_toast = (if shown = [] then None
                   else Some \<lparr>to_id = length shown, to_message = js_trim (fst (last shown)),
                             to_severity = snd (last shown)\<rparr>),
       ts_id = length shown\<rparr>)"
proof (induction calls rule: rev_induct)
  case Nil
  then show ?case by (simp add: initToast_def Let_def)
next
  case (snoc c calls)
  then show ?case by (cases c) (simp add: showToast_def Let_def)
qed

end
