(* ===== verification/Apps_Page.thy ===== *)
theory Apps_Page
  imports Latest_Loader Feedback Workflow_Options
begin

section \<open>The applications page: \<open>apps/AppsPage.tsx\<close>\<close>

text \<open>
  The page lists the applications one page at a time, remembering the seek positions of the
  earlier pages, and creates and deletes applications. A load is suspended at its request with
  the page parameters of the rendering that started it; a create or delete is suspended at its
  request and then at the load that follows it. After every event the effect of the rendering
  starts a load when the page parameters changed. A dialog that is open blocks the controls of
  the page behind it.

  The facts: a response that changes the list answers a request for the parameters shown; the
  page number is one more than the number of remembered positions; going to the next page and
  back restores the position; and a modifying request creates or deletes what the dialog shows.
\<close>

subsection \<open>State\<close>

record AppsParams =
  pp_pageSize :: int
  pp_query :: string
  pp_seek :: string

record AppsLoad =
  al_requestId :: nat
  al_params :: AppsParams
  al_key :: string
  al_awaited :: bool

datatype AppsMutation = AwaitCreateApp AppsParams | AwaitDeleteApp AppsParams

record AppsState =
  ap_apps :: "AppMetadata list"
  ap_loading :: bool
  ap_submitting :: bool
  ap_error :: ErrorFeedback
  ap_createOpen :: bool
  ap_deleteTarget :: "AppMetadata option"
  ap_appId :: string
  ap_description :: string
  ap_queryInput :: string
  ap_query :: string
  ap_pageSize :: int
  ap_seek :: string
  ap_seekStack :: "string list"
  ap_pageIndex :: nat
  ap_hasMore :: bool
  ap_nextSeek :: string
  ap_requestSeq :: nat
  ap_mounted :: bool
  ap_lastLoadKey :: string
  ap_loads :: "AppsLoad list"
  ap_mutations :: "AppsMutation list"
  ap_started :: string

text \<open>\<open>ap_started\<close> is not in the code: it is the key of the latest load, which the invariant compares
  with \<open>ap_lastLoadKey\<close>.\<close>

definition initApps :: AppsState where
  "initApps = \<lparr>ap_apps = [], ap_loading = True, ap_submitting = False, ap_error = initError,
     ap_createOpen = False, ap_deleteTarget = None, ap_appId = [], ap_description = [],
     ap_queryInput = [], ap_query = [], ap_pageSize = 15, ap_seek = [], ap_seekStack = [],
     ap_pageIndex = 1, ap_hasMore = False, ap_nextSeek = [], ap_requestSeq = 0, ap_mounted = False,
     ap_lastLoadKey = [], ap_loads = [], ap_mutations = [], ap_started = []\<rparr>"

definition pageSizeOptions :: "int list" where
  "pageSizeOptions = [15, 30, 50, 100]"

definition appsPath :: "AppsParams \<Rightarrow> string" where
  "appsPath p = ''/api/apps'' @ buildQuery
     [(''limit'', qnum (pp_pageSize p)), (''query'', qopt (pp_query p)), (''seek'', qopt (pp_seek p))]"

definition ap_params :: "AppsState \<Rightarrow> AppsParams" where
  "ap_params s = \<lparr>pp_pageSize = ap_pageSize s, pp_query = ap_query s, pp_seek = ap_seek s\<rparr>"

definition apps_loadKey :: "AppsParams \<Rightarrow> string" where
  "apps_loadKey p = json_stringify (JObj [(''pageSize'', JNum (pp_pageSize p)),
     (''query'', JStr (pp_query p)), (''seek'', JStr (pp_seek p))])"

subsection \<open>Loading\<close>

type_synonym apps_handler = "AppsState \<Rightarrow> AppsState \<times> effect list"

definition ap_start :: "AppsLoad \<Rightarrow> AppsState \<Rightarrow> AppsState" where
  "ap_start l s = s\<lparr>ap_requestSeq := al_requestId l, ap_loads := ap_loads s @ [l], ap_started := al_key l\<rparr>"

definition ap_settle :: "nat \<Rightarrow> AppsState \<Rightarrow> AppsState" where
  "ap_settle i s = s\<lparr>ap_loads := remove_at i (ap_loads s)\<rparr>"

definition loadApps :: "AppsParams \<Rightarrow> bool \<Rightarrow> apps_handler" where
  \<comment> \<open>with the parameters its closure captured, and whether a mutation awaits it\<close>
  "loadApps p awaited s =
     (ap_start \<lparr>al_requestId = Suc (ap_requestSeq s), al_params = p, al_key = apps_loadKey p, al_awaited = awaited\<rparr> s,
      [Request (appsPath p) noInit])"

definition ap_apply :: "Translator \<Rightarrow> AppsLoad \<Rightarrow> failure + AppsResponse option \<Rightarrow> AppsState \<Rightarrow> AppsState" where
  "ap_apply t l outcome s =
     (if \<not> ap_mounted s \<or> al_requestId l \<noteq> ap_requestSeq s then s
      else case deref outcome of
          Inr d \<Rightarrow> s\<lparr>ap_apps := opt_or (ar_apps d) [], ap_hasMore := truthy_bool (ar_hasMore d),
            ap_nextSeek := opt_str_or (ar_nextSeek d) [], ap_error := reportError [] (ap_error s), ap_loading := False\<rparr>
        | Inl err \<Rightarrow> s\<lparr>ap_apps := [], ap_hasMore := False, ap_nextSeek := [],
            ap_error := reportError (getErrorMessage err (t ''management.apps.loadFailed'' [])) (ap_error s),
            ap_loading := False\<rparr>)"

definition ap_loaded :: "Translator \<Rightarrow> nat \<Rightarrow> failure + AppsResponse option \<Rightarrow> apps_handler" where
  "ap_loaded t i outcome s =
     (if i < length (ap_loads s) then
        (let l = ap_loads s ! i; s' = ap_apply t l outcome (ap_settle i s) in
         (if al_awaited l then s'\<lparr>ap_submitting := False\<rparr> else s', []))
      else (s, []))"

definition ap_commit :: apps_handler where
  \<comment> \<open>the effect after a rendering\<close>
  "ap_commit s =
     (let key = apps_loadKey (ap_params s) in
      if ap_lastLoadKey s \<noteq> key then loadApps (ap_params s) False (s\<lparr>ap_lastLoadKey := key\<rparr>) else (s, []))"

subsection \<open>Handlers\<close>

definition ap_closeCreateDialog :: "AppsState \<Rightarrow> AppsState" where
  "ap_closeCreateDialog s =
     (if ap_submitting s then s else s\<lparr>ap_createOpen := False, ap_appId := [], ap_description := []\<rparr>)"

definition ap_closeDeleteDialog :: "AppsState \<Rightarrow> AppsState" where
  "ap_closeDeleteDialog s = (if ap_submitting s then s else s\<lparr>ap_deleteTarget := None\<rparr>)"

definition resetPaging :: "AppsState \<Rightarrow> AppsState" where
  "resetPaging s = s\<lparr>ap_seek := [], ap_seekStack := [], ap_pageIndex := 1\<rparr>"

definition ap_handleSearch :: "AppsState \<Rightarrow> AppsState" where
  "ap_handleSearch s = resetPaging (s\<lparr>ap_query := js_trim (ap_queryInput s)\<rparr>)"

definition ap_handleClearSearch :: "AppsState \<Rightarrow> AppsState" where
  "ap_handleClearSearch s = resetPaging (s\<lparr>ap_queryInput := [], ap_query := []\<rparr>)"

definition handleNextPage :: "AppsState \<Rightarrow> AppsState" where
  "handleNextPage s =
     (if \<not> ap_hasMore s \<or> ap_nextSeek s = [] then s
      else s\<lparr>ap_seekStack := ap_seekStack s @ [ap_seek s], ap_seek := ap_nextSeek s,
             ap_pageIndex := ap_pageIndex s + 1\<rparr>)"

definition handlePreviousPage :: "AppsState \<Rightarrow> AppsState" where
  "handlePreviousPage s =
     (if length (ap_seekStack s) = 0 then s
      else s\<lparr>ap_seek := last (ap_seekStack s), ap_seekStack := butlast (ap_seekStack s),
             ap_pageIndex := max 1 (ap_pageIndex s - 1)\<rparr>)"

definition ap_handlePageSizeChange :: "int \<Rightarrow> AppsState \<Rightarrow> AppsState" where
  "ap_handlePageSizeChange v s = resetPaging (s\<lparr>ap_pageSize := v\<rparr>)"

definition ap_handleCreate :: apps_handler where
  "ap_handleCreate s =
     (let nextAppId = js_trim (ap_appId s); nextDescription = js_trim (ap_description s) in
      if nextAppId = [] \<or> nextDescription = [] then (s, [])
      else (s\<lparr>ap_submitting := True, ap_error := reportError [] (ap_error s),
              ap_mutations := ap_mutations s @ [AwaitCreateApp (ap_params s)]\<rparr>,
            [Request (appPath nextAppId)
               (jsonBody (JObj [(''name'', JStr nextAppId), (''description'', JStr nextDescription)]))]))"

definition ap_handleDelete :: apps_handler where
  "ap_handleDelete s = (case ap_deleteTarget s of
       None \<Rightarrow> (s, [])
     | Some app \<Rightarrow>
         if am_id app = [] then (s, [])
         else (s\<lparr>ap_submitting := True, ap_error := reportError [] (ap_error s),
                 ap_mutations := ap_mutations s @ [AwaitDeleteApp (ap_params s)]\<rparr>,
               [Request (appPath (am_id app)) (methodInit ''DELETE'')]))"

definition ap_mutationFailed :: "Translator \<Rightarrow> string \<Rightarrow> failure \<Rightarrow> AppsState \<Rightarrow> AppsState" where
  "ap_mutationFailed t fallback err s =
     s\<lparr>ap_error := reportError (getErrorMessage err (t fallback [])) (ap_error s), ap_submitting := False\<rparr>"

definition ap_mutated :: "Translator \<Rightarrow> nat \<Rightarrow> failure + unit \<Rightarrow> apps_handler" where
  \<comment> \<open>\<open>handleCreate\<close> and \<open>handleDelete\<close> after their first \<open>await\<close>\<close>
  "ap_mutated t i outcome s =
     (if i < length (ap_mutations s) then
        (let s' = s\<lparr>ap_mutations := remove_at i (ap_mutations s)\<rparr> in
         case (ap_mutations s ! i, outcome) of
           (AwaitCreateApp p, Inr _) \<Rightarrow>
             loadApps p True (resetPaging (s'\<lparr>ap_createOpen := False, ap_appId := [], ap_description := []\<rparr>))
         | (AwaitDeleteApp p, Inr _) \<Rightarrow> loadApps p True (resetPaging (s'\<lparr>ap_deleteTarget := None\<rparr>))
         | (AwaitCreateApp p, Inl err) \<Rightarrow> (ap_mutationFailed t ''management.apps.createFailed'' err s', [])
         | (AwaitDeleteApp p, Inl err) \<Rightarrow> (ap_mutationFailed t ''management.apps.deleteFailed'' err s', []))
      else (s, []))"

subsection \<open>The step function\<close>

datatype AppsEvent =
    AMount
  | AUnmount
  | ALoaded nat "failure + AppsResponse option"
  | AMutated nat "failure + unit"
  | AQueryInput string
  | ASearch
  | AClearSearch
  | APageSize int
  | ANext
  | APrevious
  | AOpenCreate
  | ACloseCreate
  | AChangeAppId string
  | AChangeDescription string
  | ACreate
  | AAskDelete AppMetadata
  | ACloseDelete
  | ADelete

definition ap_modal :: "AppsState \<Rightarrow> bool" where
  "ap_modal s = (ap_createOpen s \<or> ap_deleteTarget s \<noteq> None)"

definition ap_tableShown :: "AppsState \<Rightarrow> bool" where
  "ap_tableShown s = (\<not> ap_loading s \<and> ap_apps s \<noteq> [])"

definition ap_createDisabled :: "AppsState \<Rightarrow> bool" where
  "ap_createDisabled s = (ap_submitting s \<or> js_trim (ap_appId s) = [] \<or> js_trim (ap_description s) = [])"

definition ap_page :: "AppsState \<Rightarrow> AppsEvent \<Rightarrow> AppsState" where
  \<comment> \<open>the controls of the page, behind no open dialog\<close>
  "ap_page s e = (case e of
       AQueryInput v \<Rightarrow> if \<not> ap_loading s then s\<lparr>ap_queryInput := v\<rparr> else s
     | ASearch \<Rightarrow> if \<not> ap_loading s then ap_handleSearch s else s
     | AClearSearch \<Rightarrow>
         if \<not> ap_loading s \<and> (ap_query s \<noteq> [] \<or> ap_queryInput s \<noteq> []) then ap_handleClearSearch s else s
     | APageSize v \<Rightarrow> if \<not> ap_loading s \<and> v \<in> set pageSizeOptions then ap_handlePageSizeChange v s else s
     | ANext \<Rightarrow> if ap_tableShown s then handleNextPage s else s
     | APrevious \<Rightarrow> if ap_tableShown s then handlePreviousPage s else s
     | AOpenCreate \<Rightarrow> if \<not> ap_submitting s then s\<lparr>ap_createOpen := True\<rparr> else s
     | AAskDelete app \<Rightarrow>
         if ap_tableShown s \<and> app \<in> set (ap_apps s) \<and> \<not> ap_submitting s then s\<lparr>ap_deleteTarget := Some app\<rparr> else s
     | _ \<Rightarrow> s)"

definition ap_dialog :: "AppsState \<Rightarrow> AppsEvent \<Rightarrow> AppsState \<times> effect list" where
  \<comment> \<open>the controls of the open dialog\<close>
  "ap_dialog s e = (case e of
       ACloseCreate \<Rightarrow> if ap_createOpen s then (ap_closeCreateDialog s, []) else (s, [])
     | AChangeAppId v \<Rightarrow> if ap_createOpen s \<and> \<not> ap_submitting s then (s\<lparr>ap_appId := v\<rparr>, []) else (s, [])
     | AChangeDescription v \<Rightarrow>
         if ap_createOpen s \<and> \<not> ap_submitting s then (s\<lparr>ap_description := v\<rparr>, []) else (s, [])
     | ACreate \<Rightarrow> if ap_createOpen s \<and> \<not> ap_createDisabled s then ap_handleCreate s else (s, [])
     | ACloseDelete \<Rightarrow> if ap_deleteTarget s \<noteq> None then (ap_closeDeleteDialog s, []) else (s, [])
     | ADelete \<Rightarrow> if ap_deleteTarget s \<noteq> None \<and> \<not> ap_submitting s then ap_handleDelete s else (s, [])
     | _ \<Rightarrow> (s, []))"

definition ap_handle :: "Translator \<Rightarrow> AppsState \<Rightarrow> AppsEvent \<Rightarrow> AppsState \<times> effect list" where
  "ap_handle t s e = (case e of
       AMount \<Rightarrow> (s\<lparr>ap_mounted := True\<rparr>, [])
     | AUnmount \<Rightarrow> (s\<lparr>ap_mounted := False\<rparr>, [])
     | ALoaded i outcome \<Rightarrow> ap_loaded t i outcome s
     | AMutated i outcome \<Rightarrow> ap_mutated t i outcome s
     | _ \<Rightarrow>
         if \<not> ap_mounted s then (s, [])
         else if ap_modal s then ap_dialog s e else (ap_page s e, []))"

definition apps_step :: "Translator \<Rightarrow> AppsState \<Rightarrow> AppsEvent \<Rightarrow> AppsState \<times> effect list" where
  "apps_step t s e =
     (let (s', efs) = ap_handle t s e in
      if \<not> ap_mounted s' then (s', efs)
      else (let (s'', efs') = ap_commit s' in (s'', efs @ efs')))"

subsection \<open>The view\<close>

definition ap_row :: "Translator \<Rightarrow> (int \<Rightarrow> string) \<Rightarrow> AppsState \<Rightarrow> AppMetadata \<Rightarrow> ui list" where
  "ap_row t formatDateTime s app =
     [UText (am_id app), UText (opt_str_or (am_description app) ''-''),
      UText (if truthy_num (am_createdAt app) then formatDateTime (the (am_createdAt app) * 1000) else ''-''),
      UText (opt_str_or (am_creator app) ''-''), UText (opt_str_or (am_owner app) ''-''),
      ULink (t ''management.apps.envs'' []) (''/apps/'' @ encodeURIComponent (am_id app) @ ''/envs''),
      UButton (t ''management.common.delete'' []) (ap_submitting s)]"

definition ap_table :: "Translator \<Rightarrow> (int \<Rightarrow> string) \<Rightarrow> (int \<Rightarrow> string) \<Rightarrow> AppsState \<Rightarrow> ui list" where
  "ap_table t formatDateTime formatNumber s =
     (if ap_loading s then LoadingState t (Some (t ''management.apps.loading'' []))
      else if length (ap_apps s) = 0 then
        (if ef_message (ap_error s) \<noteq> [] then []
         else EmptyState (t ''management.apps.empty'' []) (Some (t ''management.apps.emptyDescription'' [])))
      else
        [UTable (map (\<lambda>k. t k []) [''management.common.appId'', ''management.common.description'',
           ''management.common.createdAt'', ''management.common.creator'', ''management.common.owner'',
           ''management.common.actions'']) (map (ap_row t formatDateTime s) (ap_apps s)),
         UText (t ''management.common.page'' [(''page'', PStr (formatNumber (int (ap_pageIndex s))))]),
         UButton (t ''management.common.previous'' []) (ap_loading s \<or> length (ap_seekStack s) = 0),
         UButton (t ''management.common.next'' []) (ap_loading s \<or> \<not> ap_hasMore s \<or> ap_nextSeek s = [])])"

definition AppsPage_view :: "Translator \<Rightarrow> (int \<Rightarrow> string) \<Rightarrow> (int \<Rightarrow> string) \<Rightarrow> string \<Rightarrow> AppsState \<Rightarrow> ui list" where
  "AppsPage_view t formatDateTime formatNumber pathname s =
     [AppBreadcrumbs t pathname [\<lparr>bi_label = t ''management.apps.title'' [], bi_to = None\<rparr>],
      UHeading (t ''management.apps.title'' []), UText (t ''management.apps.description'' []),
      UButton (t ''management.apps.add'' []) (ap_submitting s)] @
     (if ef_message (ap_error s) \<noteq> [] then [UError (ef_message (ap_error s))] else []) @
     [UInput (t ''management.apps.search'' []) (ap_queryInput s) (ap_loading s) [],
      UButton (t ''management.common.search'' []) (ap_loading s),
      UButton (t ''management.common.clear'' []) (ap_loading s \<or> ap_query s = [] \<and> ap_queryInput s = []),
      USelect (t ''management.common.rowsPerPage'' []) (int_str (ap_pageSize s)) (ap_loading s) []
        (map (\<lambda>n. \<lparr>me_value = int_str n, me_disabled = False, me_ariaLabel = [], me_text = formatNumber n,
           me_current = None, me_status = [], me_statusText = []\<rparr>) pageSizeOptions)] @
     DangerConfirmDialog t (ap_deleteTarget s \<noteq> None) (t ''management.apps.delete'' [])
       [UText (t ''management.apps.deleteDescription''
          [(''app'', PStr (case ap_deleteTarget s of Some app \<Rightarrow> am_id app | None \<Rightarrow> []))])]
       (t ''management.common.delete'' []) (ap_submitting s) @
     (if ap_createOpen s then
        [UDialog (t ''management.apps.add'' [])
          [UInput (t ''management.common.appId'' []) (ap_appId s) (ap_submitting s) [],
           UInput (t ''management.common.description'' []) (ap_description s) (ap_submitting s) [],
           UButton (t ''management.common.cancel'' []) (ap_submitting s),
           UButton (t ''management.common.create'' []) (ap_createDisabled s)]] else []) @
     ap_table t formatDateTime formatNumber s"

subsection \<open>The invariant\<close>

interpretation apps_loads: latest_loader ap_requestSeq ap_loads ap_started al_requestId al_key ap_start ap_settle
  by unfold_locales (simp_all add: ap_start_def ap_settle_def)

definition mutation_params :: "AppsMutation \<Rightarrow> AppsParams" where
  "mutation_params m = (case m of AwaitCreateApp p \<Rightarrow> p | AwaitDeleteApp p \<Rightarrow> p)"

definition ap_pending :: "AppsState \<Rightarrow> nat" where
  "ap_pending s = length (ap_mutations s) + count_if al_awaited (ap_loads s)"

definition ap_core :: "AppsState \<Rightarrow> bool" where
  "ap_core s \<longleftrightarrow> apps_loads.latest s \<and>
     (\<forall>l \<in> set (ap_loads s). al_key l = apps_loadKey (al_params l)) \<and>
     ap_started s = ap_lastLoadKey s \<and>
     ap_pending s \<le> 1 \<and> (0 < ap_pending s \<longrightarrow> ap_submitting s) \<and>
     (\<forall>m \<in> set (ap_mutations s). apps_loadKey (mutation_params m) = ap_lastLoadKey s \<and>
        apps_loadKey (ap_params s) = ap_lastLoadKey s \<and> ap_modal s) \<and>
     ap_pageIndex s = Suc (length (ap_seekStack s))"

definition ap_inv :: "AppsState \<Rightarrow> bool" where
  "ap_inv s \<longleftrightarrow> ap_core s \<and> (ap_mounted s \<longrightarrow> ap_lastLoadKey s = apps_loadKey (ap_params s))"

lemma apps_loadKey_inject: "apps_loadKey p = apps_loadKey q \<longleftrightarrow> p = q"
proof
  assume eq: "apps_loadKey p = apps_loadKey q"
  let ?j = "\<lambda>p. JObj [(''pageSize'', JNum (pp_pageSize p)), (''query'', JStr (pp_query p)), (''seek'', JStr (pp_seek p))]"
  have "json_wf (?j r)" for r by simp
  then have "Some (?j p) = Some (?j q)" using eq unfolding apps_loadKey_def by (metis json_parse_stringify)
  then show "p = q" by (cases p, cases q) simp
qed simp

lemma ap_core_keep:
  \<comment> \<open>a handler that starts no request\<close>
  assumes "ap_core s" and "ap_mutations s = []"
    and "ap_loads s' = ap_loads s" "ap_requestSeq s' = ap_requestSeq s" "ap_started s' = ap_started s"
      "ap_lastLoadKey s' = ap_lastLoadKey s" "ap_mutations s' = []" "ap_submitting s' = ap_submitting s"
      "ap_pageIndex s' = Suc (length (ap_seekStack s'))"
  shows "ap_core s'"
  using assms apps_loads.latest_cong [of s s'] by (simp add: ap_core_def ap_pending_def)

lemma ap_core_same:
  \<comment> \<open>a handler that keeps the paging and the dialogs\<close>
  assumes "ap_core s" and "ap_params s' = ap_params s" "ap_modal s' = ap_modal s"
    and "ap_loads s' = ap_loads s" "ap_requestSeq s' = ap_requestSeq s" "ap_started s' = ap_started s"
      "ap_lastLoadKey s' = ap_lastLoadKey s" "ap_mutations s' = ap_mutations s" "ap_submitting s' = ap_submitting s"
      "ap_seekStack s' = ap_seekStack s" "ap_pageIndex s' = ap_pageIndex s"
  shows "ap_core s'"
  using assms apps_loads.latest_cong [of s s'] by (simp add: ap_core_def ap_pending_def)

lemma ap_core_not_modal: "ap_core s \<Longrightarrow> \<not> ap_modal s \<Longrightarrow> ap_mutations s = []"
  by (cases "ap_mutations s") (auto simp: ap_core_def)

lemma ap_core_idle: "ap_core s \<Longrightarrow> \<not> ap_submitting s \<Longrightarrow> ap_pending s = 0 \<and> ap_mutations s = []"
  by (auto simp: ap_core_def ap_pending_def)

lemmas ap_paging_defs = ap_handleSearch_def ap_handleClearSearch_def handleNextPage_def
  handlePreviousPage_def ap_handlePageSizeChange_def resetPaging_def

lemma ap_page_core:
  assumes "ap_core s" and "\<not> ap_modal s"
  shows "ap_core (ap_page s e)"
proof (rule ap_core_keep [OF assms(1) ap_core_not_modal [OF assms]])
  have idx: "ap_pageIndex s = Suc (length (ap_seekStack s))"
    using assms(1) by (simp add: ap_core_def)
  then show "ap_pageIndex (ap_page s e) = Suc (length (ap_seekStack (ap_page s e)))"
    by (cases e) (auto simp: ap_page_def ap_paging_defs Suc_le_eq max_absorb2)
qed (cases e; simp add: ap_page_def ap_paging_defs ap_core_not_modal [OF assms])+

lemma ap_core_submit:
  \<comment> \<open>a mutation starts\<close>
  assumes "ap_inv s" and "ap_mounted s" and "ap_modal s" and "\<not> ap_submitting s"
    and "mutation_params m = ap_params s"
  shows "ap_core (s\<lparr>ap_submitting := True, ap_error := err, ap_mutations := ap_mutations s @ [m]\<rparr>)"
proof -
  let ?s = "s\<lparr>ap_submitting := True, ap_error := err, ap_mutations := ap_mutations s @ [m]\<rparr>"
  have core: "ap_core s" and key: "ap_lastLoadKey s = apps_loadKey (ap_params s)"
    using assms by (auto simp: ap_inv_def)
  have idle: "ap_mutations s = []" "count_if al_awaited (ap_loads s) = 0"
    using ap_core_idle [OF core assms(4)] by (simp_all add: ap_pending_def)
  have "apps_loads.latest ?s"
    by (rule apps_loads.latest_cong [of s]) (use core in \<open>simp_all add: ap_core_def\<close>)
  moreover have "ap_params ?s = ap_params s" "ap_modal ?s" "ap_pending ?s = 1"
    using assms(3) idle by (simp_all add: ap_params_def ap_modal_def ap_pending_def)
  moreover have "\<forall>l \<in> set (ap_loads s). al_key l = apps_loadKey (al_params l)" "ap_started s = ap_lastLoadKey s"
    "ap_pageIndex s = Suc (length (ap_seekStack s))"
    using core by (simp_all add: ap_core_def)
  ultimately show ?thesis
    unfolding ap_core_def by (simp add: key [symmetric] assms(5) idle)
qed

lemma ap_dialog_core:
  assumes "ap_inv s" and "ap_mounted s" and "ap_modal s"
  shows "ap_core (fst (ap_dialog s e))"
proof -
  have core: "ap_core s" using assms(1) by (simp add: ap_inv_def)
  then have idx: "ap_pageIndex s = Suc (length (ap_seekStack s))" by (simp add: ap_core_def)
  note keep = ap_core_keep [OF core] and submit = ap_core_submit [OF assms]
  show ?thesis
  proof (cases "ap_submitting s")
    case True
    then show ?thesis using core
      by (cases e) (simp_all add: ap_dialog_def ap_closeCreateDialog_def ap_closeDeleteDialog_def ap_createDisabled_def)
  next
    case False
    then have idle: "ap_mutations s = []" using ap_core_idle [OF core] by simp
    note sub = submit [OF False]
    have "ap_core (fst (ap_handleCreate s))" "ap_core (fst (ap_handleDelete s))"
      using core sub by (simp_all add: ap_handleCreate_def ap_handleDelete_def Let_def mutation_params_def split: option.split)
    moreover have "ap_core (ap_closeCreateDialog s)" "ap_core (ap_closeDeleteDialog s)"
      using False by (auto simp: ap_closeCreateDialog_def ap_closeDeleteDialog_def idle idx intro!: keep [OF idle])
    moreover have "ap_core (s\<lparr>ap_appId := v\<rparr>)" "ap_core (s\<lparr>ap_description := v\<rparr>)" for v
      by (auto simp: idle idx intro!: keep [OF idle])
    ultimately show ?thesis using core by (cases e) (simp_all add: ap_dialog_def)
  qed
qed

lemma ap_settle_core: "ap_core s \<Longrightarrow> ap_core (ap_settle i s)"
proof -
  assume core: "ap_core s"
  have "count_if al_awaited (remove_at i (ap_loads s)) \<le> count_if al_awaited (ap_loads s)"
    by (rule count_remove_at_le)
  with core apps_loads.latest_settle [of s i] set_remove_at [of i "ap_loads s"] show ?thesis
    by (auto simp: ap_core_def ap_pending_def ap_settle_def ap_params_def ap_modal_def)
qed

lemma ap_apply_frame:
  "ap_params (ap_apply t l out s) = ap_params s" "ap_modal (ap_apply t l out s) = ap_modal s"
  "ap_loads (ap_apply t l out s) = ap_loads s" "ap_requestSeq (ap_apply t l out s) = ap_requestSeq s"
  "ap_started (ap_apply t l out s) = ap_started s" "ap_lastLoadKey (ap_apply t l out s) = ap_lastLoadKey s"
  "ap_mutations (ap_apply t l out s) = ap_mutations s" "ap_submitting (ap_apply t l out s) = ap_submitting s"
  "ap_seekStack (ap_apply t l out s) = ap_seekStack s" "ap_pageIndex (ap_apply t l out s) = ap_pageIndex s"
  "ap_mounted (ap_apply t l out s) = ap_mounted s"
  by (auto simp: ap_apply_def ap_params_def ap_modal_def split: sum.splits)

lemma ap_loaded_core: "ap_core s \<Longrightarrow> ap_core (fst (ap_loaded t i out s))"
proof -
  assume core: "ap_core s"
  let ?s = "ap_apply t (ap_loads s ! i) out (ap_settle i s)"
  have applied: "ap_core ?s"
    by (rule ap_core_same [OF ap_settle_core [OF core]]) (simp_all add: ap_apply_frame)
  show ?thesis
  proof (cases "i < length (ap_loads s) \<and> al_awaited (ap_loads s ! i)")
    case True
    then have "ap_pending ?s = 0" "ap_mutations ?s = []"
      using settle_awaited [of i "ap_loads s" al_awaited "length (ap_mutations s)"] core
      by (simp_all add: ap_core_def ap_pending_def ap_apply_frame ap_settle_def)
    with applied True apps_loads.latest_cong [of ?s "?s\<lparr>ap_submitting := False\<rparr>"] show ?thesis
      by (auto simp: ap_loaded_def Let_def ap_core_def ap_pending_def ap_params_def ap_modal_def)
  next
    case False
    with core applied show ?thesis by (auto simp: ap_loaded_def Let_def)
  qed
qed

lemma ap_core_load:
  \<comment> \<open>a load for the parameters the latest load was started with\<close>
  assumes "ap_core s" and "ap_mutations s = []" and "apps_loadKey p = ap_lastLoadKey s"
    and "awaited \<longrightarrow> ap_submitting s \<and> ap_pending s = 0"
  shows "ap_core (fst (loadApps p awaited s))"
proof -
  let ?l = "\<lparr>al_requestId = Suc (ap_requestSeq s), al_params = p, al_key = apps_loadKey p, al_awaited = awaited\<rparr>"
  have "apps_loads.latest (ap_start ?l s)"
    by (rule apps_loads.latest_start) (use assms(1) in \<open>simp_all add: ap_core_def\<close>)
  with assms show ?thesis
    by (auto simp: ap_core_def ap_pending_def loadApps_def ap_start_def)
qed

lemma ap_core_drop:
  \<comment> \<open>a mutation settles\<close>
  assumes "ap_core s" and "i < length (ap_mutations s)"
    and "ap_loads s' = ap_loads s" "ap_requestSeq s' = ap_requestSeq s" "ap_started s' = ap_started s"
      "ap_lastLoadKey s' = ap_lastLoadKey s" "ap_mutations s' = remove_at i (ap_mutations s)"
      "ap_pageIndex s' = Suc (length (ap_seekStack s'))"
  shows "ap_core s' \<and> ap_mutations s' = [] \<and> ap_pending s' = 0 \<and> ap_submitting s"
proof -
  have "ap_mutations s' = []" "ap_pending s' = 0" "0 < ap_pending s"
    using settle_mutation [OF assms(2), of "count_if al_awaited (ap_loads s)"] assms
    by (auto simp: ap_core_def ap_pending_def)
  then show ?thesis
    using assms apps_loads.latest_cong [of s s'] by (simp add: ap_core_def)
qed

lemma ap_mutated_core:
  assumes "ap_core s"
  shows "ap_core (fst (ap_mutated t i out s))"
proof (cases "i < length (ap_mutations s)")
  case True
  let ?s = "s\<lparr>ap_mutations := remove_at i (ap_mutations s)\<rparr>"
  note drop = ap_core_drop [OF assms True]
  have key: "apps_loadKey (mutation_params (ap_mutations s ! i)) = ap_lastLoadKey s"
    and idx: "ap_pageIndex s = Suc (length (ap_seekStack s))"
    using assms nth_mem [OF True] by (simp_all add: ap_core_def)
  have load: "ap_core (fst (loadApps p True s'))"
    if "ap_core s' \<and> ap_mutations s' = [] \<and> ap_pending s' = 0 \<and> ap_submitting s"
      "ap_submitting s' = ap_submitting s" "apps_loadKey p = ap_lastLoadKey s'" for p s'
    by (rule ap_core_load) (use that in simp_all)
  have failed: "ap_core (ap_mutationFailed t k err ?s)" for k err
  proof -
    have "ap_core (ap_mutationFailed t k err ?s) \<and> ap_mutations (ap_mutationFailed t k err ?s) = [] \<and>
        ap_pending (ap_mutationFailed t k err ?s) = 0 \<and> ap_submitting s"
      by (rule drop) (simp_all add: ap_mutationFailed_def idx)
    then show ?thesis by simp
  qed
  have created: "ap_core (fst (loadApps p True (resetPaging (?s\<lparr>ap_createOpen := False, ap_appId := [], ap_description := []\<rparr>))))"
    if "ap_mutations s ! i = AwaitCreateApp p" for p
    by (rule load [OF drop]) (use key that in \<open>simp_all add: resetPaging_def mutation_params_def\<close>)
  have deleted: "ap_core (fst (loadApps p True (resetPaging (?s\<lparr>ap_deleteTarget := None\<rparr>))))"
    if "ap_mutations s ! i = AwaitDeleteApp p" for p
    by (rule load [OF drop]) (use key that in \<open>simp_all add: resetPaging_def mutation_params_def\<close>)
  show ?thesis
    using True failed created deleted by (auto simp: ap_mutated_def Let_def split: AppsMutation.split sum.split)
qed (simp add: ap_mutated_def assms)

lemma ap_handle_core:
  assumes "ap_inv s"
  shows "ap_core (fst (ap_handle t s e))"
proof -
  have core: "ap_core s" using assms by (simp add: ap_inv_def)
  have mounted: "ap_core (s\<lparr>ap_mounted := b\<rparr>)" for b
    by (rule ap_core_same [OF core]) (simp_all add: ap_params_def ap_modal_def)
  show ?thesis
    using core mounted ap_loaded_core [OF core] ap_mutated_core [OF core] ap_page_core [OF core]
      ap_dialog_core [OF assms]
    by (cases e) (simp_all add: ap_handle_def)
qed

lemma ap_commit_inv:
  assumes "ap_core s" and "ap_mounted s"
  shows "ap_inv (fst (ap_commit s))"
proof (cases "ap_lastLoadKey s = apps_loadKey (ap_params s)")
  case False
  let ?l = "\<lparr>al_requestId = Suc (ap_requestSeq s), al_params = ap_params s, al_key = apps_loadKey (ap_params s), al_awaited = False\<rparr>"
  have idle: "ap_mutations s = []"
    using assms False by (cases "ap_mutations s") (auto simp: ap_core_def)
  have "apps_loads.latest (ap_start ?l s)"
    by (rule apps_loads.latest_start) (use assms(1) in \<open>simp_all add: ap_core_def\<close>)
  then have latest: "apps_loads.latest (fst (ap_commit s))"
    by (rule apps_loads.latest_cong) (use False in \<open>simp_all add: ap_commit_def loadApps_def ap_start_def Let_def\<close>)
  show ?thesis
    using assms(1) latest False idle
    by (auto simp: ap_inv_def ap_core_def ap_commit_def loadApps_def ap_start_def ap_pending_def ap_params_def Let_def)
qed (use assms in \<open>simp add: ap_commit_def ap_inv_def\<close>)

lemma apps_step_inv: "ap_inv s \<Longrightarrow> ap_inv (fst (apps_step t s e))"
  using ap_handle_core [of s t e] ap_commit_inv [of "fst (ap_handle t s e)"]
  by (auto simp: apps_step_def Let_def case_prod_unfold ap_inv_def)

subsection \<open>Effects\<close>

definition ap_allowed :: "AppsState \<Rightarrow> effect \<Rightarrow> bool" where
  "ap_allowed s x \<longleftrightarrow>
     (\<exists>p. x = Request (appsPath p) noInit) \<or>
     ap_mounted s \<and> ap_pending s = 0 \<and>
       (ap_createOpen s \<and> js_trim (ap_appId s) \<noteq> [] \<and> js_trim (ap_description s) \<noteq> [] \<and>
          x = Request (appPath (js_trim (ap_appId s)))
            (jsonBody (JObj [(''name'', JStr (js_trim (ap_appId s))), (''description'', JStr (js_trim (ap_description s)))])) \<or>
        (\<exists>app. ap_deleteTarget s = Some app \<and> am_id app \<noteq> [] \<and>
          x = Request (appPath (am_id app)) (methodInit ''DELETE'')))"

lemma ap_dialog_allowed:
  assumes "ap_core s" and "ap_mounted s" and "x \<in> set (snd (ap_dialog s e))"
  shows "ap_allowed s x"
proof (cases "ap_submitting s")
  case True
  with assms(3) show ?thesis
    by (cases e) (simp_all add: ap_dialog_def ap_createDisabled_def split: if_splits)
next
  case False
  with ap_core_idle [OF assms(1)] assms(2,3) show ?thesis
    by (cases e) (auto simp: ap_dialog_def ap_allowed_def ap_handleCreate_def ap_handleDelete_def Let_def
      split: if_splits option.splits)
qed

lemma ap_handle_allowed:
  assumes "ap_inv s" and "x \<in> set (snd (ap_handle t s e))"
  shows "ap_allowed s x"
proof -
  have core: "ap_core s" using assms(1) by (simp add: ap_inv_def)
  have loaded: "snd (ap_loaded t i out s) = []" for i out by (simp add: ap_loaded_def Let_def)
  have mutated: "y \<in> set (snd (ap_mutated t i out s)) \<Longrightarrow> ap_allowed s y" for i out y
    by (auto simp: ap_mutated_def Let_def loadApps_def ap_allowed_def split: if_splits AppsMutation.splits sum.splits)
  show ?thesis
    using assms(2) loaded mutated ap_dialog_allowed [OF core]
    by (cases e) (simp_all add: ap_handle_def split: if_splits)
qed

lemma apps_step_allowed: "ap_inv s \<Longrightarrow> x \<in> set (snd (apps_step t s e)) \<Longrightarrow> ap_allowed s x"
  using ap_handle_allowed [of s x t e]
  by (auto simp: apps_step_def Let_def case_prod_unfold ap_commit_def loadApps_def ap_allowed_def split: if_splits)

lemma initApps_inv: "ap_inv initApps"
  by (simp add: ap_inv_def ap_core_def ap_pending_def initApps_def apps_loads.latest_empty)

interpretation apps_page: guarded_component "apps_step t" "\<lambda>s. s = initApps" ap_inv ap_allowed for t
  by unfold_locales (simp_all add: initApps_inv apps_step_inv apps_step_allowed)

subsection \<open>Properties\<close>

lemma ap_commit_apps [simp]: "ap_apps (fst (ap_commit s)) = ap_apps s"
  by (simp add: ap_commit_def loadApps_def ap_start_def Let_def)

text \<open>C12: Whatever order responses arrive in, a response changes the list only if it answers a request
  for the search, the page size and the position the page has at that moment: a late response to
  an earlier search or page is dropped.\<close>

theorem apps_response_current:
  assumes "i < length (ap_loads s)" and "s = after (apps_step t) initApps es"
    and "ap_apps (fst (apps_step t s (ALoaded i out))) \<noteq> ap_apps s"
  shows "al_params (ap_loads s ! i) = ap_params s"
proof -
  have inv: "ap_inv s" unfolding assms(2) by (rule apps_page.inv_reachable) simp
  have "ap_apps (ap_apply t (ap_loads s ! i) out (ap_settle i s)) \<noteq> ap_apps s"
    using assms(1,3) by (auto simp: apps_step_def ap_handle_def ap_loaded_def Let_def case_prod_unfold split: if_splits)
  then have "ap_mounted s" and now: "al_requestId (ap_loads s ! i) = ap_requestSeq s"
    by (auto simp: ap_apply_def ap_settle_def split: if_splits)
  moreover have "al_key (ap_loads s ! i) = ap_started s"
    using apps_loads.latest_applied [of s i] inv assms(1) now by (simp add: ap_inv_def ap_core_def)
  ultimately have "apps_loadKey (al_params (ap_loads s ! i)) = apps_loadKey (ap_params s)"
    using inv nth_mem [OF assms(1)] by (simp add: ap_inv_def ap_core_def)
  then show ?thesis by (simp add: apps_loadKey_inject)
qed

text \<open>A request that modifies something is sent only from an open dialog with no other modification
  in progress, and it creates the application with the trimmed identifier and description in the
  form, both not blank, or deletes the application the confirmation names.\<close>

theorem apps_modification_confirmed:
  assumes "s = after (apps_step t) initApps es"
    and "Request path ini \<in> set (snd (apps_step t s e))" and "ini \<noteq> noInit"
  shows "ap_mounted s \<and> ap_pending s = 0 \<and>
    (ap_createOpen s \<and> js_trim (ap_appId s) \<noteq> [] \<and> js_trim (ap_description s) \<noteq> [] \<and>
       path = appPath (js_trim (ap_appId s)) \<and>
       ini = jsonBody (JObj [(''name'', JStr (js_trim (ap_appId s))), (''description'', JStr (js_trim (ap_description s)))]) \<or>
     (\<exists>app. ap_deleteTarget s = Some app \<and> am_id app \<noteq> [] \<and> path = appPath (am_id app) \<and> ini = methodInit ''DELETE''))"
proof -
  have "ap_allowed s (Request path ini)"
    using apps_page.allowed_reachable [OF refl, of "Request path ini" t es e] assms(1,2) by simp
  then show ?thesis using assms(3) by (auto simp: ap_allowed_def)
qed

lemmas ap_evaluate = run_Cons apps_step_def ap_handle_def ap_page_def ap_modal_def ap_tableShown_def handleNextPage_def
  handlePreviousPage_def ap_commit_def loadApps_def ap_start_def ap_params_def case_prod_unfold

text \<open>Going to the next page and back before any response arrives restores the position, the
  remembered positions and the page number, and the page number shown is always one more than the
  number of positions remembered.\<close>

theorem apps_next_previous:
  assumes "s = after (apps_step t) initApps es" and "ap_mounted s" "ap_tableShown s" "\<not> ap_modal s"
    and "ap_hasMore s" "ap_nextSeek s \<noteq> []" and "s' = after (apps_step t) s [ANext, APrevious]"
  shows "ap_params s' = ap_params s \<and> ap_seekStack s' = ap_seekStack s \<and> ap_pageIndex s' = ap_pageIndex s \<and>
    ap_pageIndex s = Suc (length (ap_seekStack s))"
proof -
  have "ap_pageIndex s = Suc (length (ap_seekStack s))"
    using apps_page.inv_reachable [OF refl, of t es] assms(1) by (simp add: ap_inv_def ap_core_def)
  then show ?thesis
    using assms(2-6) unfolding assms(7) by (simp add: ap_evaluate Let_def)
qed

text \<open>A second click on Next before the response of the first arrives is not ignored: the page
  number grows by two and the position of the next page is remembered as an earlier one, although
  the position moved by one page only and one request was sent. The controls stay enabled because
  \<open>loading\<close> is never set again after the first load.\<close>

theorem apps_double_next:
  assumes "ap_inv s" and "ap_mounted s" "ap_tableShown s" "\<not> ap_modal s"
    and "ap_hasMore s" "ap_nextSeek s \<noteq> []" "ap_nextSeek s \<noteq> ap_seek s"
    and "r = run (apps_step t) s [ANext, ANext]"
  shows "ap_seek (fst r) = ap_nextSeek s \<and> ap_pageIndex (fst r) = ap_pageIndex s + 2 \<and>
    ap_seekStack (fst r) = ap_seekStack s @ [ap_seek s, ap_nextSeek s] \<and>
    snd r = [Request (appsPath ((ap_params s)\<lparr>pp_seek := ap_nextSeek s\<rparr>)) noInit]"
proof -
  have "ap_lastLoadKey s = apps_loadKey (ap_params s)"
    using assms(1,2) by (simp add: ap_inv_def)
  then show ?thesis
    using assms(2-7) unfolding assms(8) by (simp add: ap_evaluate apps_loadKey_inject Let_def)
qed

subsection \<open>Witnesses\<close>

definition demo_app :: "string \<Rightarrow> AppMetadata" where
  "demo_app i = \<lparr>am_id = i, am_description = None, am_createdAt = None, am_creator = None, am_owner = None\<rparr>"

definition demo_apps_page :: AppsResponse where
  "demo_apps_page = \<lparr>ar_apps = Some [demo_app ''a''], ar_hasMore = Some True, ar_nextSeek = Some ''a''\<rparr>"

definition demo_apps_run :: "AppsEvent list" where
  "demo_apps_run = [AMount, ALoaded 0 (Inr (Some demo_apps_page))]"

definition demo_apps :: AppsState where
  "demo_apps = after (apps_step (\<lambda>k ps. k)) initApps demo_apps_run"

lemma demo_apps_facts:
  "ap_mounted demo_apps" "ap_tableShown demo_apps" "\<not> ap_modal demo_apps" "ap_hasMore demo_apps"
  "ap_nextSeek demo_apps = ''a''" "ap_seek demo_apps = []" "ap_pageIndex demo_apps = 1"
  by code_simp+

theorem apps_next_previous_witness:
  "ap_pageIndex (after (apps_step (\<lambda>k ps. k)) demo_apps [ANext, APrevious]) = 1 \<and>
   ap_seekStack (after (apps_step (\<lambda>k ps. k)) demo_apps [ANext, APrevious]) = ap_seekStack demo_apps"
  using apps_next_previous [OF demo_apps_def demo_apps_facts(1-4) _ refl] demo_apps_facts by simp

theorem apps_double_next_witness:
  "ap_pageIndex (after (apps_step (\<lambda>k ps. k)) demo_apps [ANext, ANext]) = 3 \<and>
   ap_seek (after (apps_step (\<lambda>k ps. k)) demo_apps [ANext, ANext]) = ''a''"
proof -
  have "ap_inv demo_apps" unfolding demo_apps_def by (rule apps_page.inv_reachable) simp
  from apps_double_next [OF this demo_apps_facts(1-4) _ _ refl, of "\<lambda>k ps. k"] show ?thesis
    by (simp add: demo_apps_facts)
qed

theorem apps_response_current_witness:
  "al_params (ap_loads (after (apps_step (\<lambda>k ps. k)) initApps [AMount]) ! 0) =
     \<lparr>pp_pageSize = 15, pp_query = [], pp_seek = []\<rparr>"
proof -
  let ?s = "after (apps_step (\<lambda>k ps. k)) initApps [AMount]"
  have d: "0 < length (ap_loads ?s)" "ap_apps (fst (apps_step (\<lambda>k ps. k) ?s (ALoaded 0 (Inr (Some demo_apps_page))))) \<noteq> ap_apps ?s"
    "ap_params ?s = \<lparr>pp_pageSize = 15, pp_query = [], pp_seek = []\<rparr>"
    by code_simp+
  from apps_response_current [OF d(1) refl d(2)] d(3) show ?thesis by simp
qed

theorem apps_modification_confirmed_witness:
  "\<exists>app. ap_deleteTarget (after (apps_step (\<lambda>k ps. k)) initApps (demo_apps_run @ [AAskDelete (demo_app ''a'')])) = Some app \<and>
     appPath ''a'' = appPath (am_id app)"
proof -
  let ?s = "after (apps_step (\<lambda>k ps. k)) initApps (demo_apps_run @ [AAskDelete (demo_app ''a'')])"
  have "Request (appPath ''a'') (methodInit ''DELETE'') \<in> set (snd (apps_step (\<lambda>k ps. k) ?s ADelete))"
    "methodInit ''DELETE'' \<noteq> noInit" "\<not> ap_createOpen ?s"
    by code_simp+
  with apps_modification_confirmed [OF refl this(1,2)] show ?thesis by blast
qed

end
