(* ===== verification/Envs_Page.thy ===== *)
theory Envs_Page
  imports Latest_Loader Feedback Workflow_Options
begin

section \<open>The environments page: \<open>envs/EnvsPage.tsx\<close>\<close>

text \<open>
  The page lists the environments of the application named in the route, creates and deletes
  environments and holds the copy dialog. The route may change under the page, for instance by the
  browser's history, while requests are in flight; \<open>ENavigate\<close> is that event. A load that the effect
  queues with \<open>queueMicrotask\<close> waits in \<open>ev_microtasks\<close>, a load in flight in \<open>ev_loads\<close>, a create or
  delete in \<open>ev_mutations\<close>, and a running copy in \<open>ev_copies\<close>, with the application whose
  \<open>loadEnvs\<close> it received as \<open>onFinished\<close> when it started. \<open>ev_started\<close> is not in the code: it is
  the application of the latest load.

  The facts: a response that changes the list is one for the application of the route, unless a
  copy finished in between; a copy that finishes after the route changed replaces the list with
  the environments of the application it left; a modifying request is for the application of the
  route and the environment the dialog shows.
\<close>

subsection \<open>State\<close>

record EnvsLoad =
  nl_requestId :: nat
  nl_appId :: string
  nl_awaited :: bool

datatype EnvsMutation = AwaitCreateEnv string | AwaitDeleteEnv string

record EnvsState =
  ev_appId :: string
  ev_envs :: "string list"
  ev_loading :: bool
  ev_submitting :: bool
  ev_error :: ErrorFeedback
  ev_createOpen :: bool
  ev_copyOpen :: bool
  ev_copyBusy :: bool
  ev_deleteTarget :: string
  ev_envName :: string
  ev_requestSeq :: nat
  ev_mounted :: bool
  ev_lastLoadKey :: string
  ev_appIdRef :: string
  ev_microtasks :: "string list"
  ev_loads :: "EnvsLoad list"
  ev_mutations :: "EnvsMutation list"
  ev_copies :: "string list"
  ev_started :: string

definition initEnvs :: "string \<Rightarrow> EnvsState" where
  "initEnvs appId = \<lparr>ev_appId = appId, ev_envs = [], ev_loading = True, ev_submitting = False,
     ev_error = initError, ev_createOpen = False, ev_copyOpen = False, ev_copyBusy = False,
     ev_deleteTarget = [], ev_envName = [], ev_requestSeq = 0, ev_mounted = False, ev_lastLoadKey = [],
     ev_appIdRef = appId, ev_microtasks = [], ev_loads = [], ev_mutations = [], ev_copies = [],
     ev_started = []\<rparr>"

definition envNameOptions :: "string list" where
  "envNameOptions = [''dev'', ''test'', ''stage'', ''prod'']"

definition envsPath :: "string \<Rightarrow> string" where
  "envsPath appId = appPath appId @ ''/envs'' @ buildQuery [(''limit'', qnum 100)]"

definition envs_loadKey :: "string \<Rightarrow> string" where
  "envs_loadKey appId = json_stringify (JObj [(''appId'', JStr appId)])"

subsection \<open>Loading\<close>

type_synonym envs_handler = "EnvsState \<Rightarrow> EnvsState \<times> effect list"

definition canApplyEnvMutation :: "string \<Rightarrow> EnvsState \<Rightarrow> bool" where
  "canApplyEnvMutation startedAppId s = (ev_mounted s \<and> ev_appIdRef s = startedAppId)"

definition ev_start :: "EnvsLoad \<Rightarrow> EnvsState \<Rightarrow> EnvsState" where
  "ev_start l s = s\<lparr>ev_requestSeq := nl_requestId l, ev_loads := ev_loads s @ [l], ev_started := nl_appId l\<rparr>"

definition ev_settle :: "nat \<Rightarrow> EnvsState \<Rightarrow> EnvsState" where
  "ev_settle i s = s\<lparr>ev_loads := remove_at i (ev_loads s)\<rparr>"

definition loadEnvs :: "Translator \<Rightarrow> string \<Rightarrow> bool \<Rightarrow> envs_handler" where
  \<comment> \<open>with the application its closure captured, and whether a mutation awaits it\<close>
  "loadEnvs t appId awaited s =
     (let requestId = Suc (ev_requestSeq s) in
      if appId = [] then
        (let s' = s\<lparr>ev_requestSeq := requestId, ev_started := appId\<rparr> in
         (if ev_mounted s'
          then s'\<lparr>ev_envs := [], ev_error := reportError (t ''management.envs.missingApp'' []) (ev_error s'), ev_loading := False\<rparr>
          else s', []))
      else (ev_start \<lparr>nl_requestId = requestId, nl_appId = appId, nl_awaited = awaited\<rparr> s,
            [Request (envsPath appId) noInit]))"

definition ev_apply :: "Translator \<Rightarrow> EnvsLoad \<Rightarrow> failure + EnvsResponse option \<Rightarrow> EnvsState \<Rightarrow> EnvsState" where
  "ev_apply t l outcome s =
     (if \<not> ev_mounted s \<or> nl_requestId l \<noteq> ev_requestSeq s then s
      else case deref outcome of
          Inr d \<Rightarrow> s\<lparr>ev_envs := opt_or (er_envs d) [], ev_error := reportError [] (ev_error s), ev_loading := False\<rparr>
        | Inl err \<Rightarrow> s\<lparr>ev_envs := [],
            ev_error := reportError (getErrorMessage err (t ''management.envs.loadFailed'' [])) (ev_error s),
            ev_loading := False\<rparr>)"

definition ev_finally :: "EnvsState \<Rightarrow> EnvsState" where
  \<comment> \<open>the \<open>finally\<close> of \<open>handleCreate\<close> and \<open>handleDelete\<close>\<close>
  "ev_finally s = (if ev_mounted s then s\<lparr>ev_submitting := False\<rparr> else s)"

definition ev_loaded :: "Translator \<Rightarrow> nat \<Rightarrow> failure + EnvsResponse option \<Rightarrow> envs_handler" where
  "ev_loaded t i outcome s =
     (if i < length (ev_loads s) then
        (let l = ev_loads s ! i; s' = ev_apply t l outcome (ev_settle i s) in
         (if nl_awaited l then ev_finally s' else s', []))
      else (s, []))"

definition ev_microtask :: "Translator \<Rightarrow> envs_handler" where
  "ev_microtask t s = (case ev_microtasks s of
       [] \<Rightarrow> (s, [])
     | appId # rest \<Rightarrow> loadEnvs t appId False (s\<lparr>ev_microtasks := rest\<rparr>))"

definition ev_commit :: "EnvsState \<Rightarrow> EnvsState" where
  \<comment> \<open>the layout effect and the effect after a rendering\<close>
  "ev_commit s =
     (let s' = s\<lparr>ev_appIdRef := ev_appId s\<rparr>; key = envs_loadKey (ev_appId s') in
      if ev_lastLoadKey s' \<noteq> key
      then s'\<lparr>ev_lastLoadKey := key, ev_microtasks := ev_microtasks s' @ [ev_appId s']\<rparr> else s')"

subsection \<open>Handlers\<close>

definition ev_closeCreateDialog :: "EnvsState \<Rightarrow> EnvsState" where
  "ev_closeCreateDialog s =
     (if ev_submitting s \<or> ev_copyBusy s then s else s\<lparr>ev_createOpen := False, ev_envName := []\<rparr>)"

definition ev_closeDeleteDialog :: "EnvsState \<Rightarrow> EnvsState" where
  "ev_closeDeleteDialog s = (if ev_submitting s \<or> ev_copyBusy s then s else s\<lparr>ev_deleteTarget := []\<rparr>)"

definition ev_submit :: "EnvsMutation \<Rightarrow> EnvsState \<Rightarrow> EnvsState" where
  "ev_submit m s = s\<lparr>ev_submitting := True, ev_error := reportError [] (ev_error s),
     ev_mutations := ev_mutations s @ [m]\<rparr>"

definition nextEnvName :: "EnvsState \<Rightarrow> string" where
  "nextEnvName s = js_toLowerCase (js_trim (ev_envName s))"

definition ev_handleCreate :: envs_handler where
  "ev_handleCreate s =
     (if ev_appId s = [] \<or> nextEnvName s = [] then (s, [])
      else (ev_submit (AwaitCreateEnv (ev_appId s)) s,
            [Request (envPath (ev_appId s) (nextEnvName s)) (methodInit ''POST'')]))"

definition ev_handleDelete :: envs_handler where
  "ev_handleDelete s =
     (if ev_appId s = [] \<or> ev_deleteTarget s = [] then (s, [])
      else (ev_submit (AwaitDeleteEnv (ev_appId s)) s,
            [Request (envPath (ev_appId s) (ev_deleteTarget s)) (methodInit ''DELETE'')]))"

definition ev_mutationFailed :: "Translator \<Rightarrow> string \<Rightarrow> string \<Rightarrow> failure \<Rightarrow> EnvsState \<Rightarrow> EnvsState" where
  "ev_mutationFailed t startedAppId fallback err s = ev_finally
     (if canApplyEnvMutation startedAppId s
      then s\<lparr>ev_error := reportError (getErrorMessage err (t fallback [])) (ev_error s)\<rparr> else s)"

definition ev_mutated :: "Translator \<Rightarrow> nat \<Rightarrow> failure + unit \<Rightarrow> envs_handler" where
  \<comment> \<open>\<open>handleCreate\<close> and \<open>handleDelete\<close> after their first \<open>await\<close>\<close>
  "ev_mutated t i outcome s =
     (if i < length (ev_mutations s) then
        (let s' = s\<lparr>ev_mutations := remove_at i (ev_mutations s)\<rparr> in
         case (ev_mutations s ! i, outcome) of
           (AwaitCreateEnv p, Inr _) \<Rightarrow>
             if \<not> canApplyEnvMutation p s' then (ev_finally s', [])
             else loadEnvs t p True (s'\<lparr>ev_createOpen := False, ev_envName := []\<rparr>)
         | (AwaitDeleteEnv p, Inr _) \<Rightarrow>
             if \<not> canApplyEnvMutation p s' then (ev_finally s', [])
             else loadEnvs t p True (s'\<lparr>ev_deleteTarget := []\<rparr>)
         | (AwaitCreateEnv p, Inl err) \<Rightarrow> (ev_mutationFailed t p ''management.envs.createFailed'' err s', [])
         | (AwaitDeleteEnv p, Inl err) \<Rightarrow> (ev_mutationFailed t p ''management.envs.deleteFailed'' err s', []))
      else (s, []))"

subsection \<open>The step function\<close>

datatype EnvsEvent =
    EMount
  | EUnmount
  | ENavigate string
  | EMicrotask
  | ELoaded nat "failure + EnvsResponse option"
  | EMutated nat "failure + unit"
  | EOpenCopy
  | ECopyStart
  | ECopyBusy bool
  | ECopyFinished nat
  | ECopyClose
  | EOpenCreate
  | ECloseCreate
  | EChangeEnvName string
  | ECreate
  | EAskDelete string
  | ECloseDelete
  | EDelete

definition ev_modal :: "EnvsState \<Rightarrow> bool" where
  "ev_modal s = (ev_createOpen s \<or> ev_copyOpen s \<or> ev_deleteTarget s \<noteq> [])"

definition ev_copyDisabled :: "EnvsState \<Rightarrow> bool" where
  "ev_copyDisabled s = (ev_submitting s \<or> ev_copyBusy s \<or> ev_appId s = [] \<or> length (ev_envs s) = 0)"

definition ev_addDisabled :: "EnvsState \<Rightarrow> bool" where
  "ev_addDisabled s = (ev_submitting s \<or> ev_copyBusy s \<or> ev_appId s = [])"

definition ev_createDisabled :: "EnvsState \<Rightarrow> bool" where
  "ev_createDisabled s = (ev_submitting s \<or> ev_appId s = [] \<or> js_trim (ev_envName s) = [])"

definition ev_page :: "EnvsState \<Rightarrow> EnvsEvent \<Rightarrow> EnvsState" where
  \<comment> \<open>the controls of the page, behind no open dialog\<close>
  "ev_page s e = (case e of
       EOpenCopy \<Rightarrow> if \<not> ev_copyDisabled s then s\<lparr>ev_copyOpen := True\<rparr> else s
     | EOpenCreate \<Rightarrow> if \<not> ev_addDisabled s then s\<lparr>ev_createOpen := True\<rparr> else s
     | EAskDelete env \<Rightarrow>
         if \<not> ev_loading s \<and> env \<in> set (ev_envs s) \<and> \<not> ev_submitting s \<and> \<not> ev_copyBusy s
         then s\<lparr>ev_deleteTarget := env\<rparr> else s
     | _ \<Rightarrow> s)"

definition ev_copyFinished :: "Translator \<Rightarrow> nat \<Rightarrow> envs_handler" where
  \<comment> \<open>the dialog calls the \<open>onFinished\<close> it started with, if it is still open\<close>
  "ev_copyFinished t i s =
     (if i < length (ev_copies s) then
        (let s' = s\<lparr>ev_copies := remove_at i (ev_copies s)\<rparr> in
         if ev_mounted s' \<and> ev_copyOpen s' then loadEnvs t (ev_copies s ! i) False s' else (s', []))
      else (s, []))"

definition ev_dialog :: "EnvsState \<Rightarrow> EnvsEvent \<Rightarrow> EnvsState \<times> effect list" where
  \<comment> \<open>the controls of the open dialog, and the calls of the copy dialog\<close>
  "ev_dialog s e = (case e of
       ECopyStart \<Rightarrow> if ev_copyOpen s then (s\<lparr>ev_copies := ev_copies s @ [ev_appId s]\<rparr>, []) else (s, [])
     | ECopyClose \<Rightarrow> if ev_copyOpen s then (s\<lparr>ev_copyOpen := False\<rparr>, []) else (s, [])
     | ECloseCreate \<Rightarrow> if ev_createOpen s then (ev_closeCreateDialog s, []) else (s, [])
     | EChangeEnvName v \<Rightarrow>
         if ev_createOpen s \<and> \<not> ev_submitting s \<and> ev_appId s \<noteq> [] then (s\<lparr>ev_envName := js_toLowerCase v\<rparr>, []) else (s, [])
     | ECreate \<Rightarrow> if ev_createOpen s \<and> \<not> ev_createDisabled s then ev_handleCreate s else (s, [])
     | ECloseDelete \<Rightarrow> if ev_deleteTarget s \<noteq> [] then (ev_closeDeleteDialog s, []) else (s, [])
     | EDelete \<Rightarrow>
         if ev_deleteTarget s \<noteq> [] \<and> \<not> (ev_submitting s \<or> ev_copyBusy s) then ev_handleDelete s else (s, [])
     | _ \<Rightarrow> (s, []))"

definition ev_handle :: "Translator \<Rightarrow> EnvsState \<Rightarrow> EnvsEvent \<Rightarrow> EnvsState \<times> effect list" where
  "ev_handle t s e = (case e of
       EMount \<Rightarrow> (s\<lparr>ev_mounted := True\<rparr>, [])
     | EUnmount \<Rightarrow> (s\<lparr>ev_mounted := False\<rparr>, [])
     | EMicrotask \<Rightarrow> ev_microtask t s
     | ELoaded i outcome \<Rightarrow> ev_loaded t i outcome s
     | EMutated i outcome \<Rightarrow> ev_mutated t i outcome s
     | ECopyFinished i \<Rightarrow> ev_copyFinished t i s
     | ENavigate appId \<Rightarrow> if ev_mounted s then (s\<lparr>ev_appId := appId\<rparr>, []) else (s, [])
     | ECopyBusy b \<Rightarrow> if ev_mounted s then (s\<lparr>ev_copyBusy := b\<rparr>, []) else (s, [])
     | _ \<Rightarrow>
         if \<not> ev_mounted s then (s, [])
         else if ev_modal s then ev_dialog s e else (ev_page s e, []))"

definition envs_step :: "Translator \<Rightarrow> EnvsState \<Rightarrow> EnvsEvent \<Rightarrow> EnvsState \<times> effect list" where
  "envs_step t s e =
     (let (s', efs) = ev_handle t s e in (if ev_mounted s' then ev_commit s' else s', efs))"

subsection \<open>The view\<close>

definition ev_row :: "Translator \<Rightarrow> EnvsState \<Rightarrow> string \<Rightarrow> ui list" where
  "ev_row t s env =
     [UText env,
      ULink (t ''management.envs.elements'' [])
        (''/apps/'' @ encodeURIComponent (ev_appId s) @ ''/envs/'' @ encodeURIComponent env @ ''/elements''),
      UButton (t ''management.common.delete'' []) (ev_submitting s \<or> ev_copyBusy s)]"

definition ev_table :: "Translator \<Rightarrow> EnvsState \<Rightarrow> ui list" where
  "ev_table t s =
     (if ev_loading s then LoadingState t (Some (t ''management.envs.loading'' []))
      else if length (ev_envs s) = 0 then
        (if ef_message (ev_error s) \<noteq> [] then []
         else EmptyState (t ''management.envs.empty'' []) (Some (t ''management.envs.emptyDescription'' [])))
      else [UTable [t ''management.common.environment'' [], t ''management.common.actions'' []] (map (ev_row t s) (ev_envs s))])"

definition ev_createForm :: "Translator \<Rightarrow> EnvsState \<Rightarrow> ui list" where
  "ev_createForm t s =
     (if ev_createOpen s then
        [UDialog (t ''management.envs.add'' [])
          [UInput (t ''management.common.environment'' []) (ev_envName s) (ev_submitting s \<or> ev_appId s = [])
             (t ''management.envs.nameHelp'' []),
           UChips envNameOptions,
           UButton (t ''management.common.cancel'' []) (ev_submitting s),
           UButton (t ''management.common.create'' []) (ev_createDisabled s)]] else [])"

definition EnvsPage_view :: "Translator \<Rightarrow> string \<Rightarrow> EnvsState \<Rightarrow> ui list" where
  "EnvsPage_view t pathname s =
     [AppBreadcrumbs t pathname
        [\<lparr>bi_label = t ''management.apps.title'' [], bi_to = Some ''/apps''\<rparr>,
         \<lparr>bi_label = str_or (ev_appId s) (t ''management.common.unknown'' []),
          bi_to = Some (''/apps/'' @ encodeURIComponent (ev_appId s) @ ''/envs'')\<rparr>,
         \<lparr>bi_label = t ''management.envs.title'' [], bi_to = None\<rparr>],
      UHeading (t ''management.envs.title'' []), UText (t ''management.envs.description'' []),
      UButton (t ''management.envs.copy'' []) (ev_copyDisabled s),
      UButton (t ''management.envs.add'' []) (ev_addDisabled s)] @
     (if ef_message (ev_error s) \<noteq> [] then [UError (ef_message (ev_error s))] else []) @
     DangerConfirmDialog t (ev_deleteTarget s \<noteq> []) (t ''management.envs.delete'' [])
       [UText (t ''management.envs.deleteDescription'' [(''env'', PStr (ev_deleteTarget s)), (''app'', PStr (ev_appId s))])]
       (t ''management.common.delete'' []) (ev_submitting s \<or> ev_copyBusy s) @
     ev_createForm t s @ ev_table t s"

subsection \<open>The invariant\<close>

interpretation envs_loads: latest_loader ev_requestSeq ev_loads ev_started nl_requestId nl_appId ev_start ev_settle
  by unfold_locales (simp_all add: ev_start_def ev_settle_def)

definition ev_pending :: "EnvsState \<Rightarrow> nat" where
  "ev_pending s = length (ev_mutations s) + count_if nl_awaited (ev_loads s)"

definition ev_core :: "EnvsState \<Rightarrow> bool" where
  "ev_core s \<longleftrightarrow> envs_loads.latest s \<and> ev_pending s \<le> 1 \<and> (0 < ev_pending s \<longrightarrow> ev_submitting s)"

definition ev_inv :: "EnvsState \<Rightarrow> bool" where
  "ev_inv s \<longleftrightarrow> ev_core s \<and>
     (ev_mounted s \<longrightarrow> ev_lastLoadKey s = envs_loadKey (ev_appId s) \<and> ev_appIdRef s = ev_appId s)"

definition ev_track :: "EnvsState \<Rightarrow> bool" where
  \<comment> \<open>the load started or queued last is the one \<open>lastLoadKeyRef\<close> names\<close>
  "ev_track s \<longleftrightarrow> (ev_lastLoadKey s \<noteq> [] \<longrightarrow> ev_lastLoadKey s = envs_loadKey (last (ev_started s # ev_microtasks s)))"

lemma envs_loadKey_inject: "envs_loadKey a = envs_loadKey b \<longleftrightarrow> a = b"
proof
  assume eq: "envs_loadKey a = envs_loadKey b"
  have "json_wf (JObj [(''appId'', JStr c)])" for c by simp
  then have "Some (JObj [(''appId'', JStr a)]) = Some (JObj [(''appId'', JStr b)])"
    using eq unfolding envs_loadKey_def by (metis json_parse_stringify)
  then show "a = b" by simp
qed simp

lemma envs_loadKey_nonempty [simp]: "envs_loadKey a \<noteq> []"
  by (simp add: envs_loadKey_def)

lemma ev_core_cong:
  assumes "ev_core s" and "ev_loads s' = ev_loads s" "ev_requestSeq s' = ev_requestSeq s" "ev_started s' = ev_started s"
    "ev_mutations s' = ev_mutations s" "ev_submitting s' = ev_submitting s"
  shows "ev_core s'"
  using assms envs_loads.latest_cong [of s s'] by (simp add: ev_core_def ev_pending_def)

lemma ev_core_load:
  assumes "ev_core s" and "awaited \<longrightarrow> ev_submitting s \<and> ev_pending s = 0"
  shows "ev_core (fst (loadEnvs t appId awaited s))"
proof (cases "appId = []")
  case True
  have "envs_loads.latest (fst (loadEnvs t appId awaited s))"
    by (rule envs_loads.latest_skip [of s]) (use assms(1) True in \<open>simp_all add: loadEnvs_def Let_def ev_core_def\<close>)
  with assms(1) True show ?thesis by (simp add: ev_core_def loadEnvs_def Let_def ev_pending_def)
next
  case False
  let ?l = "\<lparr>nl_requestId = Suc (ev_requestSeq s), nl_appId = appId, nl_awaited = awaited\<rparr>"
  have "envs_loads.latest (ev_start ?l s)"
    by (rule envs_loads.latest_start) (use assms(1) in \<open>simp_all add: ev_core_def\<close>)
  with assms False show ?thesis
    by (auto simp: ev_core_def ev_pending_def loadEnvs_def ev_start_def Let_def)
qed

lemma ev_core_finally: "ev_core s \<Longrightarrow> ev_pending s = 0 \<Longrightarrow> ev_core (ev_finally s)"
  using envs_loads.latest_cong [of s "ev_finally s"] by (simp add: ev_finally_def ev_core_def ev_pending_def)

lemma ev_apply_frame:
  "ev_loads (ev_apply t l out s) = ev_loads s" "ev_requestSeq (ev_apply t l out s) = ev_requestSeq s"
  "ev_started (ev_apply t l out s) = ev_started s" "ev_lastLoadKey (ev_apply t l out s) = ev_lastLoadKey s"
  "ev_mutations (ev_apply t l out s) = ev_mutations s" "ev_submitting (ev_apply t l out s) = ev_submitting s"
  "ev_mounted (ev_apply t l out s) = ev_mounted s" "ev_appId (ev_apply t l out s) = ev_appId s"
  "ev_microtasks (ev_apply t l out s) = ev_microtasks s"
  by (auto simp: ev_apply_def split: sum.splits)

lemma ev_loaded_core:
  assumes "ev_core s"
  shows "ev_core (fst (ev_loaded t i out s))"
proof (cases "i < length (ev_loads s)")
  case True
  let ?s = "ev_apply t (ev_loads s ! i) out (ev_settle i s)"
  have settled: "ev_core (ev_settle i s)"
    using assms envs_loads.latest_settle [of s i] count_remove_at_le [of nl_awaited i "ev_loads s"]
    by (auto simp: ev_core_def ev_pending_def ev_settle_def)
  have applied: "ev_core ?s"
    by (rule ev_core_cong [OF settled]) (simp_all add: ev_apply_frame)
  have "ev_pending ?s = 0" if "nl_awaited (ev_loads s ! i)"
    using settle_awaited [OF True, of nl_awaited, OF that, of "length (ev_mutations s)"] assms
    by (simp add: ev_core_def ev_pending_def ev_apply_frame ev_settle_def)
  with applied True show ?thesis by (simp add: ev_loaded_def Let_def ev_core_finally)
qed (simp add: ev_loaded_def assms)

lemma ev_core_drop:
  \<comment> \<open>a mutation settles\<close>
  assumes "ev_core s" and "i < length (ev_mutations s)"
    and "ev_loads s' = ev_loads s" "ev_requestSeq s' = ev_requestSeq s" "ev_started s' = ev_started s"
      "ev_mutations s' = remove_at i (ev_mutations s)" "ev_submitting s' = ev_submitting s"
  shows "ev_core s'" and "ev_pending s' = 0" and "ev_submitting s'"
proof -
  have "ev_pending s' = 0" "0 < ev_pending s"
    using settle_mutation [OF assms(2), of "count_if nl_awaited (ev_loads s)"] assms
    by (auto simp: ev_core_def ev_pending_def)
  then show "ev_core s'" "ev_pending s' = 0" "ev_submitting s'"
    using assms envs_loads.latest_cong [of s s'] by (simp_all add: ev_core_def)
qed

lemma ev_mutated_core:
  assumes "ev_core s"
  shows "ev_core (fst (ev_mutated t i out s))"
proof (cases "i < length (ev_mutations s)")
  case True
  let ?s = "s\<lparr>ev_mutations := remove_at i (ev_mutations s)\<rparr>"
  note drop = ev_core_drop [OF assms True]
  have fin: "ev_core (ev_finally s')"
    if "ev_loads s' = ev_loads s" "ev_requestSeq s' = ev_requestSeq s" "ev_started s' = ev_started s"
      "ev_mutations s' = remove_at i (ev_mutations s)" "ev_submitting s' = ev_submitting s" for s'
    using drop [OF that] by (simp add: ev_core_finally)
  have load: "ev_core (fst (loadEnvs t p True s'))"
    if "ev_loads s' = ev_loads s" "ev_requestSeq s' = ev_requestSeq s" "ev_started s' = ev_started s"
      "ev_mutations s' = remove_at i (ev_mutations s)" "ev_submitting s' = ev_submitting s" for s' p
    using drop [OF that] by (simp add: ev_core_load)
  show ?thesis
    using True by (auto simp: ev_mutated_def Let_def ev_mutationFailed_def fin load split: EnvsMutation.split sum.split)
qed (simp add: ev_mutated_def assms)

lemma ev_core_submit: "ev_core s \<Longrightarrow> \<not> ev_submitting s \<Longrightarrow> ev_core (ev_submit m s)"
  using envs_loads.latest_cong [of s "ev_submit m s"] by (auto simp: ev_core_def ev_pending_def ev_submit_def)

lemma ev_dialog_core:
  assumes "ev_core s"
  shows "ev_core (fst (ev_dialog s e))"
proof -
  note keep = ev_core_cong [OF assms]
  have "\<not> ev_submitting s \<Longrightarrow> ev_core (fst (ev_handleCreate s))" "\<not> ev_submitting s \<Longrightarrow> ev_core (fst (ev_handleDelete s))"
    using assms by (simp_all add: ev_handleCreate_def ev_handleDelete_def ev_core_submit)
  moreover have "ev_core (ev_closeCreateDialog s)" "ev_core (ev_closeDeleteDialog s)"
    by (rule keep; simp add: ev_closeCreateDialog_def ev_closeDeleteDialog_def)+
  moreover have "ev_core (s\<lparr>ev_copies := x\<rparr>)" "ev_core (s\<lparr>ev_copyOpen := False\<rparr>)" "ev_core (s\<lparr>ev_envName := v\<rparr>)" for x v
    by (rule keep; simp)+
  ultimately show ?thesis using assms by (cases e) (simp_all add: ev_dialog_def ev_createDisabled_def)
qed

lemma ev_page_core: "ev_core s \<Longrightarrow> ev_core (ev_page s e)"
  by (rule ev_core_cong; cases e; simp add: ev_page_def)

lemma ev_handle_core:
  assumes "ev_core s"
  shows "ev_core (fst (ev_handle t s e))"
proof -
  note keep = ev_core_cong [OF assms]
  have "ev_core (fst (ev_microtask t s))"
    using assms by (auto simp: ev_microtask_def split: list.split intro!: ev_core_load keep)
  moreover have "ev_core (fst (ev_copyFinished t i s))" for i
    using assms by (auto simp: ev_copyFinished_def Let_def intro!: ev_core_load keep)
  moreover have "ev_core (s\<lparr>ev_mounted := b\<rparr>)" "ev_core (s\<lparr>ev_appId := v\<rparr>)" "ev_core (s\<lparr>ev_copyBusy := b\<rparr>)" for b v
    by (rule keep; simp)+
  ultimately show ?thesis
    using assms ev_loaded_core [OF assms] ev_mutated_core [OF assms] ev_page_core [OF assms] ev_dialog_core [OF assms]
    by (cases e) (simp_all add: ev_handle_def)
qed

lemma ev_commit_inv: "ev_core s \<Longrightarrow> ev_inv (ev_commit s)"
  using ev_core_cong [of s "ev_commit s"] by (simp add: ev_inv_def ev_commit_def Let_def)

lemma envs_step_inv: "ev_inv s \<Longrightarrow> ev_inv (fst (envs_step t s e))"
  using ev_handle_core [of s t e] ev_commit_inv [of "fst (ev_handle t s e)"]
  by (simp add: envs_step_def Let_def case_prod_unfold) (auto simp: ev_inv_def)

subsection \<open>The load last started\<close>

lemma ev_track_cong:
  assumes "ev_track s" and "ev_lastLoadKey s' = ev_lastLoadKey s" "ev_started s' = ev_started s" "ev_microtasks s' = ev_microtasks s"
  shows "ev_track s'"
  using assms by (simp add: ev_track_def)

lemma loadEnvs_frame:
  "ev_lastLoadKey (fst (loadEnvs t p aw s)) = ev_lastLoadKey s" "ev_started (fst (loadEnvs t p aw s)) = p"
  "ev_microtasks (fst (loadEnvs t p aw s)) = ev_microtasks s" "ev_mounted (fst (loadEnvs t p aw s)) = ev_mounted s"
  by (simp_all add: loadEnvs_def ev_start_def Let_def)

lemma ev_track_current: "ev_inv s \<Longrightarrow> ev_track s \<Longrightarrow> ev_mounted s \<Longrightarrow> last (ev_started s # ev_microtasks s) = ev_appId s"
  using envs_loadKey_inject [of "ev_appId s" "last (ev_started s # ev_microtasks s)"]
  by (simp add: ev_inv_def ev_track_def del: last.simps)

lemma ev_mutated_track:
  assumes "ev_inv s" and "ev_track s"
  shows "ev_track (fst (ev_mutated t i out s))"
proof -
  have keep: "ev_track (ev_finally s')"
    if "ev_lastLoadKey s' = ev_lastLoadKey s" "ev_started s' = ev_started s" "ev_microtasks s' = ev_microtasks s" for s'
    by (rule ev_track_cong [OF assms(2)]) (simp_all add: ev_finally_def that)
  have load: "ev_track (fst (loadEnvs t p True s'))"
    if "canApplyEnvMutation p s" "ev_lastLoadKey s' = ev_lastLoadKey s" "ev_microtasks s' = ev_microtasks s" for p s'
  proof -
    have "ev_mounted s" "p = ev_appId s" using that(1) assms(1) by (auto simp: canApplyEnvMutation_def ev_inv_def)
    with ev_track_current [OF assms] assms(1) show ?thesis
      by (auto simp: ev_track_def loadEnvs_frame that ev_inv_def)
  qed
  have [simp]: "canApplyEnvMutation p (s\<lparr>ev_mutations := x\<rparr>) = canApplyEnvMutation p s" for p x
    by (simp add: canApplyEnvMutation_def)
  show ?thesis
    using assms(2) by (auto simp: ev_mutated_def Let_def ev_mutationFailed_def keep load split: EnvsMutation.split sum.split)
qed

lemma ev_handle_track:
  assumes "ev_inv s" and "ev_track s" and "\<forall>i. e \<noteq> ECopyFinished i"
  shows "ev_track (fst (ev_handle t s e))"
proof -
  note keep = ev_track_cong [OF assms(2)]
  have micro: "ev_track (fst (ev_microtask t s))"
    using assms(2) by (auto simp: ev_microtask_def ev_track_def loadEnvs_frame split: list.split)
  have loaded: "ev_track (fst (ev_loaded t i out s))" for i out
    by (rule keep) (simp_all add: ev_loaded_def Let_def ev_finally_def ev_apply_frame ev_settle_def)
  have dialog: "ev_track (fst (ev_dialog s e))"
    by (rule keep; cases e; simp add: ev_dialog_def ev_closeCreateDialog_def ev_closeDeleteDialog_def ev_handleCreate_def
        ev_handleDelete_def ev_submit_def)
  have page: "ev_track (ev_page s e)"
    by (rule keep; cases e; simp add: ev_page_def)
  have misc: "ev_track (s\<lparr>ev_mounted := b\<rparr>)" "ev_track (s\<lparr>ev_appId := v\<rparr>)" "ev_track (s\<lparr>ev_copyBusy := b\<rparr>)" for b v
    by (rule keep; simp)+
  show ?thesis
    using assms micro loaded dialog page misc ev_mutated_track [OF assms(1,2)]
    by (cases e) (simp_all add: ev_handle_def)
qed

lemma envs_step_track:
  assumes "ev_inv s" and "ev_track s" and "\<forall>i. e \<noteq> ECopyFinished i"
  shows "ev_track (fst (envs_step t s e))"
proof -
  have "ev_track (ev_commit s')" if "ev_track s'" for s'
    using that by (cases "ev_lastLoadKey s' = []") (auto simp: ev_track_def ev_commit_def Let_def)
  with ev_handle_track [OF assms] show ?thesis
    by (simp add: envs_step_def Let_def case_prod_unfold)
qed

lemma initEnvs_inv: "ev_inv (initEnvs appId)"
  by (simp add: ev_inv_def ev_core_def ev_pending_def initEnvs_def envs_loads.latest_empty)

lemma envs_track_reachable:
  assumes "\<forall>i. ECopyFinished i \<notin> set es"
  shows "ev_inv (after (envs_step t) (initEnvs appId) es) \<and> ev_track (after (envs_step t) (initEnvs appId) es)"
  using assms
proof (induction es rule: rev_induct)
  case Nil
  have "ev_track (initEnvs appId)" by (simp add: ev_track_def initEnvs_def)
  then show ?case by (simp add: initEnvs_inv)
next
  case (snoc e es)
  then show ?case by (simp only: after_snoc) (auto simp: envs_step_inv intro!: envs_step_track)
qed

subsection \<open>Effects\<close>

definition ev_allowed :: "EnvsState \<Rightarrow> effect \<Rightarrow> bool" where
  "ev_allowed s x \<longleftrightarrow>
     (\<exists>p. p \<noteq> [] \<and> x = Request (envsPath p) noInit) \<or>
     ev_mounted s \<and> ev_pending s = 0 \<and> ev_appId s \<noteq> [] \<and>
       (ev_createOpen s \<and> nextEnvName s \<noteq> [] \<and> x = Request (envPath (ev_appId s) (nextEnvName s)) (methodInit ''POST'') \<or>
        ev_deleteTarget s \<noteq> [] \<and> \<not> ev_copyBusy s \<and>
          x = Request (envPath (ev_appId s) (ev_deleteTarget s)) (methodInit ''DELETE''))"

lemma loadEnvs_allowed: "x \<in> set (snd (loadEnvs t p aw s')) \<Longrightarrow> ev_allowed s x"
  by (auto simp: loadEnvs_def Let_def ev_allowed_def split: if_splits)

lemma ev_dialog_allowed:
  assumes "ev_core s" and "ev_mounted s" and "x \<in> set (snd (ev_dialog s e))"
  shows "ev_allowed s x"
proof -
  have "ev_pending s = 0" if "\<not> ev_submitting s"
    using assms(1) that by (auto simp: ev_core_def)
  with assms(2,3) show ?thesis
    by (cases e) (auto simp: ev_dialog_def ev_allowed_def ev_handleCreate_def ev_handleDelete_def ev_createDisabled_def
      split: if_splits)
qed

lemma ev_handle_allowed:
  assumes "ev_core s" and "x \<in> set (snd (ev_handle t s e))"
  shows "ev_allowed s x"
proof -
  have "snd (ev_loaded t i out s) = []" for i out by (simp add: ev_loaded_def Let_def)
  moreover have "y \<in> set (snd (ev_mutated t i out s)) \<Longrightarrow> ev_allowed s y" for i out y
    by (auto simp: ev_mutated_def Let_def dest: loadEnvs_allowed [of _ _ _ _ _ s] split: if_splits EnvsMutation.splits sum.splits)
  moreover have "y \<in> set (snd (ev_microtask t s)) \<Longrightarrow> ev_allowed s y"
    "y \<in> set (snd (ev_copyFinished t i s)) \<Longrightarrow> ev_allowed s y" for y i
    by (auto simp: ev_microtask_def ev_copyFinished_def Let_def dest: loadEnvs_allowed [of _ _ _ _ _ s] split: if_splits list.splits)
  ultimately show ?thesis
    using assms ev_dialog_allowed [OF assms(1)]
    by (cases e) (simp_all add: ev_handle_def split: if_splits)
qed

interpretation envs_page: guarded_component "envs_step t" "\<lambda>s. \<exists>appId. s = initEnvs appId" ev_inv ev_allowed for t
proof
  show "ev_inv s" if "\<exists>appId. s = initEnvs appId" for s using that initEnvs_inv by auto
  show "ev_inv (fst (envs_step t s e))" if "ev_inv s" for s e using that by (rule envs_step_inv)
  show "ev_allowed s x" if "ev_inv s" "x \<in> set (snd (envs_step t s e))" for s e x
    using that ev_handle_allowed [of s x t e] by (simp add: ev_inv_def envs_step_def Let_def case_prod_unfold)
qed

subsection \<open>Properties\<close>

lemma ev_commit_envs [simp]: "ev_envs (ev_commit s) = ev_envs s"
  by (simp add: ev_commit_def Let_def)

text \<open>C13: Whatever the route does while requests are in flight, once the queued loads have started a
  response changes the list of environments only if it answers a request for the application of
  the route, as long as no copy has finished.\<close>

theorem envs_response_current:
  assumes "s = after (envs_step t) (initEnvs appId) es" and "\<forall>i. ECopyFinished i \<notin> set es"
    and "ev_microtasks s = []" and "i < length (ev_loads s)"
    and "ev_envs (fst (envs_step t s (ELoaded i out))) \<noteq> ev_envs s"
  shows "nl_appId (ev_loads s ! i) = ev_appId s"
proof -
  have inv: "ev_inv s" and track: "ev_track s"
    using envs_track_reachable [OF assms(2), of t appId] assms(1) by simp_all
  have "ev_envs (ev_apply t (ev_loads s ! i) out (ev_settle i s)) \<noteq> ev_envs s"
    using assms(4,5) by (auto simp: envs_step_def ev_handle_def ev_loaded_def Let_def case_prod_unfold ev_finally_def split: if_splits)
  then have "ev_mounted s" and now: "nl_requestId (ev_loads s ! i) = ev_requestSeq s"
    by (auto simp: ev_apply_def ev_settle_def split: if_splits)
  then have "ev_started s = ev_appId s" using ev_track_current [OF inv track] assms(3) by simp
  with envs_loads.latest_applied [of s i] inv assms(4) now show ?thesis
    by (simp add: ev_inv_def ev_core_def)
qed

text \<open>Single steps of a page whose effects have run.\<close>

definition ev_synced :: "EnvsState \<Rightarrow> bool" where
  "ev_synced s \<longleftrightarrow> ev_mounted s \<and> ev_lastLoadKey s = envs_loadKey (ev_appId s) \<and> ev_appIdRef s = ev_appId s"

lemma ev_commit_synced: "ev_synced s \<Longrightarrow> ev_commit s = s"
  by (simp add: ev_synced_def ev_commit_def Let_def)

lemma envs_load_step:
  assumes "ev_synced s" and "ev_loads s = [l]" and "nl_requestId l = ev_requestSeq s" and "\<not> nl_awaited l"
  shows "fst (envs_step t s (ELoaded 0 (Inr (Some d)))) =
    s\<lparr>ev_loads := [], ev_envs := opt_or (er_envs d) [], ev_error := reportError [] (ev_error s), ev_loading := False\<rparr>"
  using assms by (simp add: envs_step_def ev_handle_def ev_loaded_def ev_apply_def ev_settle_def deref_def remove_at_def
      ev_commit_def ev_synced_def Let_def)

lemma envs_microtask_step:
  assumes "ev_synced s" and "ev_microtasks s = [a]" and "a \<noteq> []"
  shows "fst (envs_step t s EMicrotask) = s\<lparr>ev_microtasks := [], ev_requestSeq := Suc (ev_requestSeq s),
    ev_loads := ev_loads s @ [\<lparr>nl_requestId = Suc (ev_requestSeq s), nl_appId = a, nl_awaited = False\<rparr>], ev_started := a\<rparr>"
  using assms by (simp add: envs_step_def ev_handle_def ev_microtask_def loadEnvs_def ev_start_def ev_commit_def ev_synced_def Let_def)

lemma envs_navigate_step:
  assumes "ev_synced s" and "b \<noteq> ev_appId s"
  shows "fst (envs_step t s (ENavigate b)) = s\<lparr>ev_appId := b, ev_appIdRef := b, ev_lastLoadKey := envs_loadKey b,
    ev_microtasks := ev_microtasks s @ [b]\<rparr>"
  using assms by (simp add: envs_step_def ev_handle_def ev_commit_def ev_synced_def envs_loadKey_inject Let_def)

lemma envs_copy_steps:
  assumes "ev_synced s"
  shows "\<not> ev_modal s \<Longrightarrow> \<not> ev_copyDisabled s \<Longrightarrow> fst (envs_step t s EOpenCopy) = s\<lparr>ev_copyOpen := True\<rparr>"
    and "ev_copyOpen s \<Longrightarrow> fst (envs_step t s ECopyStart) = s\<lparr>ev_copies := ev_copies s @ [ev_appId s]\<rparr>"
    and "ev_copyOpen s \<Longrightarrow> ev_copies s = [a] \<Longrightarrow> a \<noteq> [] \<Longrightarrow> fst (envs_step t s (ECopyFinished 0)) =
      s\<lparr>ev_copies := [], ev_requestSeq := Suc (ev_requestSeq s),
        ev_loads := ev_loads s @ [\<lparr>nl_requestId = Suc (ev_requestSeq s), nl_appId = a, nl_awaited = False\<rparr>], ev_started := a\<rparr>"
  using assms by (simp_all add: envs_step_def ev_handle_def ev_page_def ev_dialog_def ev_modal_def ev_copyFinished_def
      loadEnvs_def ev_start_def ev_commit_def ev_synced_def remove_at_def Let_def)

lemma envs_mount_step:
  "fst (envs_step t (initEnvs a) EMount) = (initEnvs a)\<lparr>ev_mounted := True, ev_lastLoadKey := envs_loadKey a, ev_microtasks := [a]\<rparr>"
  using envs_loadKey_nonempty [of a] by (simp add: envs_step_def ev_handle_def ev_commit_def initEnvs_def Let_def del: envs_loadKey_nonempty)

text \<open>The copy dialog keeps the \<open>onFinished\<close> it was started with. When the route changes from one
  application to another during a copy, the end of the copy loads the environments of the first
  application again and shows them, with links and delete buttons, on the page of the second.\<close>

theorem envs_stale_refresh:
  assumes "a \<noteq> []" and "b \<noteq> []" and "a \<noteq> b" and "er_envs da = Some (x # xs)"
    and "s = after (envs_step t) (initEnvs a)
      [EMount, EMicrotask, ELoaded 0 (Inr (Some da)), EOpenCopy, ECopyStart, ENavigate b,
       EMicrotask, ELoaded 0 (Inr (Some db)), ECopyFinished 0, ELoaded 0 (Inr (Some da))]"
  shows "ev_appId s = b \<and> ev_envs s = x # xs \<and> \<not> ev_loading s \<and> ev_loads s = [] \<and> ev_microtasks s = []"
  using assms(1-4) unfolding assms(5) run_Cons envs_mount_step
  by (simp add: envs_microtask_step envs_load_step envs_copy_steps envs_navigate_step
      ev_synced_def ev_modal_def ev_copyDisabled_def initEnvs_def)

text \<open>A request that modifies something is sent only from an open dialog of the page, with no other
  modification in progress, and it is for the application of the route: it creates the environment
  with the trimmed lower-case name in the form, not blank, or deletes the environment the
  confirmation names while no copy runs.\<close>

theorem envs_modification_confirmed:
  assumes "s = after (envs_step t) (initEnvs appId) es"
    and "Request path ini \<in> set (snd (envs_step t s e))" and "ini \<noteq> noInit"
  shows "ev_mounted s \<and> ev_pending s = 0 \<and> ev_appId s \<noteq> [] \<and>
    (ev_createOpen s \<and> nextEnvName s \<noteq> [] \<and> path = envPath (ev_appId s) (nextEnvName s) \<and> ini = methodInit ''POST'' \<or>
     ev_deleteTarget s \<noteq> [] \<and> \<not> ev_copyBusy s \<and> path = envPath (ev_appId s) (ev_deleteTarget s) \<and> ini = methodInit ''DELETE'')"
proof -
  have "ev_allowed s (Request path ini)"
    using envs_page.allowed_reachable [of "initEnvs appId" "Request path ini" t es e] assms(1,2) by auto
  then show ?thesis using assms(3) by (auto simp: ev_allowed_def)
qed

subsection \<open>Witnesses\<close>

definition demo_envs :: "EnvsEvent list" where
  "demo_envs = [EMount, EMicrotask]"

definition demo_envs_page :: EnvsResponse where
  "demo_envs_page = \<lparr>er_envs = Some [''dev'']\<rparr>"

lemma demo_envs_facts:
  "ev_microtasks (after (envs_step (\<lambda>k ps. k)) (initEnvs ''a'') demo_envs) = []"
  "0 < length (ev_loads (after (envs_step (\<lambda>k ps. k)) (initEnvs ''a'') demo_envs))"
  "ev_envs (fst (envs_step (\<lambda>k ps. k) (after (envs_step (\<lambda>k ps. k)) (initEnvs ''a'') demo_envs)
      (ELoaded 0 (Inr (Some demo_envs_page))))) \<noteq> ev_envs (after (envs_step (\<lambda>k ps. k)) (initEnvs ''a'') demo_envs)"
  by code_simp+

theorem envs_response_current_witness:
  "nl_appId (ev_loads (after (envs_step (\<lambda>k ps. k)) (initEnvs ''a'') demo_envs) ! 0) =
     ev_appId (after (envs_step (\<lambda>k ps. k)) (initEnvs ''a'') demo_envs)"
  by (rule envs_response_current [OF refl _ demo_envs_facts]) (simp add: demo_envs_def)

theorem envs_stale_refresh_witness:
  "ev_envs (after (envs_step (\<lambda>k ps. k)) (initEnvs ''a'')
      [EMount, EMicrotask, ELoaded 0 (Inr (Some demo_envs_page)), EOpenCopy, ECopyStart, ENavigate ''b'',
       EMicrotask, ELoaded 0 (Inr (Some \<lparr>er_envs = None\<rparr>)), ECopyFinished 0, ELoaded 0 (Inr (Some demo_envs_page))]) = [''dev'']"
  using envs_stale_refresh [of "''a''" "''b''" demo_envs_page "''dev''" "[]", OF _ _ _ _ refl, of "\<lambda>k ps. k" "\<lparr>er_envs = None\<rparr>"]
  by (simp add: demo_envs_page_def)

theorem envs_modification_confirmed_witness:
  "ev_deleteTarget (after (envs_step (\<lambda>k ps. k)) (initEnvs ''a'')
     (demo_envs @ [ELoaded 0 (Inr (Some demo_envs_page)), EAskDelete ''dev''])) \<noteq> []"
proof -
  let ?s = "after (envs_step (\<lambda>k ps. k)) (initEnvs ''a'')
     (demo_envs @ [ELoaded 0 (Inr (Some demo_envs_page)), EAskDelete ''dev''])"
  have d: "Request (envPath ''a'' ''dev'') (methodInit ''DELETE'') \<in> set (snd (envs_step (\<lambda>k ps. k) ?s EDelete))"
    "methodInit ''DELETE'' \<noteq> noInit" "methodInit ''DELETE'' \<noteq> methodInit ''POST''"
    by code_simp+
  from envs_modification_confirmed [OF refl d(1,2)] d(3) show ?thesis by auto
qed

end
