(* ===== verification/Content.thy ===== *)
theory Content
  imports Js_Json Js_Number I18n
begin

section \<open>Content tooling: \<open>elements/contentValidation.ts\<close>, \<open>contentDiagnostics.ts\<close>\<close>

text \<open>
  The validation of an element's content by its type, the message shown for it, and the range of
  the document a diagnostic marks. The TOML parser is a package: it is the parameter \<open>parseToml\<close>,
  which gives \<open>None\<close> for a document it accepts and the thrown error otherwise. The text of the
  syntax error of \<open>JSON.parse\<close> is the engine's: it is the parameter \<open>jsonError\<close>. The document of
  the editor is the editor package's: it is a parameter with its number of lines and the offsets
  at which each line starts and ends.
\<close>

subsection \<open>Results\<close>

datatype DiagnosticSeverity = DError | DWarning

record ContentDiagnostic =
  dg_message :: string
  dg_severity :: DiagnosticSeverity
  dg_line :: "int option"
  dg_column :: "int option"
  dg_length :: "int option"

record ContentValidationResult =
  vr_valid :: bool
  vr_message :: "string option"
  vr_line :: "int option"
  vr_column :: "int option"
  vr_diagnostics :: "ContentDiagnostic list option"

definition validResult :: ContentValidationResult where
  "validResult = \<lparr>vr_valid = True, vr_message = None, vr_line = None, vr_column = None, vr_diagnostics = None\<rparr>"

definition invalidResult :: "string \<Rightarrow> int option \<Rightarrow> int option \<Rightarrow> int option \<Rightarrow> ContentValidationResult" where
  "invalidResult message line column len =
     \<lparr>vr_valid = False, vr_message = Some message, vr_line = line, vr_column = column,
      vr_diagnostics = Some [\<lparr>dg_message = message, dg_severity = DError, dg_line = line, dg_column = column,
        dg_length = len\<rparr>]\<rparr>"

text \<open>What a parser throws: the message if it is an \<open>Error\<close>, and numeric \<open>line\<close> and \<open>column\<close> fields.\<close>

record parser_error =
  pe_message :: "string option"
  pe_line :: "int option"
  pe_column :: "int option"

definition errorMessage :: "string option \<Rightarrow> string \<Rightarrow> string" where
  "errorMessage message fallback = opt_str_or message fallback"

definition parserLine :: "parser_error \<Rightarrow> int option" where
  "parserLine err = pe_line err"

definition parserColumn :: "parser_error \<Rightarrow> int option" where
  "parserColumn err = map_option (\<lambda>c. c + 1) (pe_column err)"

subsection \<open>Content types\<close>

definition contentTypeNameKeys :: "(string \<times> int) list" where
  "contentTypeNameKeys = [(''JSON'', 1), (''TOML'', 2), (''INI'', 3), (''PLAINTEXT'', 4)]"

definition number_isFinite :: "js_parsed \<Rightarrow> bool" where
  \<comment> \<open>\<open>Number.isFinite\<close>: a ratio from the overflow threshold on is read as an infinity\<close>
  "number_isFinite v = (case v of Ratio n d \<Rightarrow> \<bar>n\<bar> < (2 ^ 1024 - 2 ^ 970) * d | _ \<Rightarrow> False)"

definition contentTypeKey :: "ContentType option \<Rightarrow> js_parsed option" where
  "contentTypeKey contentType =
     (let numeric = Number_of contentType in
      if number_isFinite numeric then Some numeric
      else case contentType of
          Some (CTStr s) \<Rightarrow> map_option (\<lambda>n. Ratio n 1) (map_of contentTypeNameKeys (js_toUpperCase s))
        | _ \<Rightarrow> None)"

definition diagnostics_contentTypeKey :: "ContentType option \<Rightarrow> js_parsed option" where
  \<comment> \<open>the copy in \<open>contentDiagnostics.ts\<close>\<close>
  "diagnostics_contentTypeKey contentType =
     (let numeric = Number_of contentType in
      if number_isFinite numeric then Some numeric
      else case contentType of
          Some (CTStr s) \<Rightarrow>
            (let normalized = js_toUpperCase s in
             if normalized = ''JSON'' then Some (Ratio 1 1)
             else if normalized = ''TOML'' then Some (Ratio 2 1)
             else if normalized = ''INI'' then Some (Ratio 3 1)
             else if normalized = ''PLAINTEXT'' then Some (Ratio 4 1)
             else None)
        | _ \<Rightarrow> None)"

definition number_map_get :: "(int \<times> 'v) list \<Rightarrow> js_parsed \<Rightarrow> 'v option" where
  \<comment> \<open>\<open>Map.prototype.get\<close> with numeric keys\<close>
  "number_map_get m k = map_option snd (find (\<lambda>kv. number_is (fst kv) k) m)"

subsection \<open>Validators\<close>

definition validateJson :: "(string \<Rightarrow> string) \<Rightarrow> string \<Rightarrow> Translator \<Rightarrow> ContentValidationResult" where
  "validateJson jsonError raw t =
     (if js_trim raw = [] then validResult
      else case json_parse raw of
          Some _ \<Rightarrow> validResult
        | None \<Rightarrow> invalidResult (errorMessage (Some (jsonError raw)) (t ''elements.validation.invalidJson'' [])) (Some 1) (Some 1) None)"

text \<open>\<open>raw.split(/\r?\n/)\<close>: a carriage return before the line feed belongs to the separator.\<close>

definition drop_cr :: "string \<Rightarrow> string" where
  "drop_cr s = (if s \<noteq> [] \<and> last s = CHR 0x0D then butlast s else s)"

definition split_lines :: "string \<Rightarrow> string list" where
  "split_lines raw = (let ls = split_on (\<lambda>c. c = CHR 0x0A) raw in map drop_cr (butlast ls) @ [last ls])"

definition utf16_length :: "string \<Rightarrow> nat" where
  \<comment> \<open>the \<open>length\<close> of a string: its UTF-16 code units, two for a code point of four bytes\<close>
  "utf16_length s = count_if (\<lambda>c. (of_char c :: nat) < 128 \<or> 192 \<le> (of_char c :: nat)) s +
     count_if (\<lambda>c. 240 \<le> (of_char c :: nat)) s"

definition sectionPattern :: "string \<Rightarrow> bool" where
  \<comment> \<open>\<open>/^\[[^\]\r\n]+\]$/\<close>\<close>
  "sectionPattern s =
     (let inner = butlast (tl s) in
      3 \<le> length s \<and> hd s = CHR ''['' \<and> last s = CHR '']'' \<and>
      (\<forall>c \<in> set inner. c \<notin> {CHR '']'', CHR 0x0D, CHR 0x0A}))"

definition is_sep :: "char \<Rightarrow> bool" where
  "is_sep c = (c = CHR ''='' \<or> c = CHR '':'')"

definition is_crlf :: "char \<Rightarrow> bool" where
  "is_crlf c = (c = CHR 0x0D \<or> c = CHR 0x0A)"

definition line_terminators :: "string list" where
  "line_terminators = [[CHR 0x0A], [CHR 0x0D], [CHR 0xE2, CHR 0x80, CHR 0xA8], [CHR 0xE2, CHR 0x80, CHR 0xA9]]"

definition all_white :: "string \<Rightarrow> bool" where
  "all_white s = (strip_lead ws_seqs s = [])"

definition keyValuePattern :: "string \<Rightarrow> bool" where
  \<comment> \<open>\<open>/^[^=:#\r\n][^=:\r\n]*\s*[=:]\s*.*$/\<close>: up to the first separator, only white space may follow a
    carriage return; after it, only leading white space may hold a line terminator\<close>
  "keyValuePattern s = (case s of [] \<Rightarrow> False
     | c # r \<Rightarrow>
         \<not> is_sep c \<and> \<not> is_crlf c \<and> c \<noteq> CHR ''#'' \<and>
         (case dropWhile (\<lambda>c. \<not> is_sep c) r of [] \<Rightarrow> False
          | _ # v \<Rightarrow>
              all_white (dropWhile (\<lambda>c. \<not> is_crlf c) (takeWhile (\<lambda>c. \<not> is_sep c) r)) \<and>
              (\<forall>w \<in> set line_terminators. \<not> js_includes (strip_lead ws_seqs v) w)))"

definition ini_line_ok :: "string \<Rightarrow> bool" where
  "ini_line_ok line =
     (let trimmed = js_trim line in
      trimmed = [] \<or> js_startsWith trimmed '';'' \<or> js_startsWith trimmed ''#'' \<or>
      sectionPattern trimmed \<or> keyValuePattern trimmed)"

fun ini_loop :: "nat \<Rightarrow> string list \<Rightarrow> Translator \<Rightarrow> ContentValidationResult" where
  "ini_loop index [] t = validResult"
| "ini_loop index (line # rest) t =
     (if ini_line_ok line then ini_loop (index + 1) rest t
      else invalidResult (t ''elements.validation.invalidIni'' []) (Some (int (index + 1))) (Some 1)
        (Some (if utf16_length line = 0 then 1 else int (utf16_length line))))"

definition validateIni :: "string \<Rightarrow> Translator \<Rightarrow> ContentValidationResult" where
  "validateIni raw t = ini_loop 0 (split_lines raw) t"

definition validateToml :: "(string \<Rightarrow> parser_error option) \<Rightarrow> string \<Rightarrow> Translator \<Rightarrow> ContentValidationResult" where
  "validateToml parseToml raw t =
     (if js_trim raw = [] then validResult
      else case parseToml raw of
          None \<Rightarrow> validResult
        | Some err \<Rightarrow> invalidResult (errorMessage (pe_message err) (t ''elements.validation.invalidToml'' []))
            (parserLine err) (parserColumn err) None)"

record content_engine =
  \<comment> \<open>the packages and the engine: the TOML parser and the text of a JSON syntax error\<close>
  ce_parseToml :: "string \<Rightarrow> parser_error option"
  ce_jsonError :: "string \<Rightarrow> string"

definition validators :: "content_engine \<Rightarrow> (int \<times> (string \<Rightarrow> Translator \<Rightarrow> ContentValidationResult)) list" where
  "validators eng = [(1, validateJson (ce_jsonError eng)), (2, validateToml (ce_parseToml eng)), (3, validateIni)]"

definition validateContent ::
  "content_engine \<Rightarrow> ContentType option \<Rightarrow> string \<Rightarrow> Translator \<Rightarrow> ContentValidationResult" where
  \<comment> \<open>no validator of the model throws, so the handler for one that does is never reached\<close>
  "validateContent eng contentType raw t =
     (case contentTypeKey contentType of
        None \<Rightarrow> validResult
      | Some k \<Rightarrow> (case number_map_get (validators eng) k of None \<Rightarrow> validResult | Some validator \<Rightarrow> validator raw t))"

definition formatValidationMessage :: "ContentValidationResult \<Rightarrow> Translator \<Rightarrow> string" where
  "formatValidationMessage r t =
     (if vr_valid r \<or> \<not> truthy_str (vr_message r) then []
      else case (vr_line r, vr_column r) of
          (Some line, Some column) \<Rightarrow> t ''elements.validation.lineColumn''
            [(''line'', PNum line), (''column'', PNum column), (''message'', PStr (the (vr_message r)))]
        | (Some line, None) \<Rightarrow> t ''elements.validation.line'' [(''line'', PNum line), (''message'', PStr (the (vr_message r)))]
        | _ \<Rightarrow> the (vr_message r))"

subsection \<open>Diagnostics in the editor\<close>

record editor_doc =
  ed_lines :: int
  ed_from :: "int \<Rightarrow> int"
  ed_to :: "int \<Rightarrow> int"
  ed_length :: int

definition num_or :: "int option \<Rightarrow> int \<Rightarrow> int" where
  \<comment> \<open>\<open>a || b\<close> on optional numbers\<close>
  "num_or a b = (if truthy_num a then the a else b)"

definition diagnosticRange :: "editor_doc \<Rightarrow> ContentDiagnostic \<Rightarrow> int \<times> int" where
  "diagnosticRange doc item =
     (let lineNumber = max 1 (min (num_or (dg_line item) 1) (ed_lines doc));
          column = max 1 (num_or (dg_column item) 1);
          from = min (ed_from doc lineNumber + column - 1) (ed_to doc lineNumber);
          len = num_or (dg_length item) (max 1 (ed_to doc lineNumber - from));
          to = min (ed_to doc lineNumber) (from + len)
      in (from, max to (from + 1)))"

datatype lint_source = JsonParseLinter | OwnLinter "ContentType option"

definition createContentDiagnostics :: "ContentType option \<Rightarrow> lint_source list" where
  "createContentDiagnostics contentType =
     (case diagnostics_contentTypeKey contentType of
        Some k \<Rightarrow> if number_is 1 k then [JsonParseLinter] else [OwnLinter contentType]
      | None \<Rightarrow> [OwnLinter contentType])"

definition own_lint ::
  "content_engine \<Rightarrow> ContentType option \<Rightarrow> Translator \<Rightarrow> editor_doc \<Rightarrow> string \<Rightarrow> (int \<times> int \<times> DiagnosticSeverity \<times> string) list" where
  "own_lint eng contentType t doc content =
     map (\<lambda>item. case diagnosticRange doc item of (a, b) \<Rightarrow> (a, b, dg_severity item, dg_message item))
       (opt_or (vr_diagnostics (validateContent eng contentType content t)) [])"

subsection \<open>Which validator runs\<close>

lemma finite_code: "number_isFinite (Ratio 1 1)" "number_isFinite (Ratio 2 1)" "number_isFinite (Ratio 3 1)" "number_isFinite (Ratio 4 1)"
  by (simp_all add: number_isFinite_def)

lemma contentTypeKey_code: "n \<in> {1, 2, 3, 4} \<Longrightarrow> contentTypeKey (Some (CTNum n)) = Some (Ratio n 1)"
  by (auto simp: contentTypeKey_def Number_of_def finite_code Let_def)

lemma validators_code:
  "number_map_get (validators eng) (Ratio 1 1) = Some (validateJson (ce_jsonError eng))"
  "number_map_get (validators eng) (Ratio 2 1) = Some (validateToml (ce_parseToml eng))"
  "number_map_get (validators eng) (Ratio 3 1) = Some validateIni"
  "number_map_get (validators eng) (Ratio 4 1) = None"
  by (simp_all add: number_map_get_def validators_def number_is_int)

lemma validateContent_code:
  "validateContent eng (Some (CTNum 1)) raw t = validateJson (ce_jsonError eng) raw t"
  "validateContent eng (Some (CTNum 2)) raw t = validateToml (ce_parseToml eng) raw t"
  "validateContent eng (Some (CTNum 3)) raw t = validateIni raw t"
  "validateContent eng (Some (CTNum 4)) raw t = validResult"
  by (simp_all add: validateContent_def contentTypeKey_code validators_code)

lemma result_simps [simp]:
  "vr_valid validResult" "\<not> vr_valid (invalidResult m l c n)" "vr_line (invalidResult m l c n) = l"
  "vr_diagnostics validResult = None" "vr_column (invalidResult m l c n) = c" "vr_message (invalidResult m l c n) = Some m"
  by (simp_all add: validResult_def invalidResult_def)

lemma validateJson_valid: "vr_valid (validateJson je raw t) \<longleftrightarrow> js_trim raw = [] \<or> json_parse raw \<noteq> None"
  by (auto simp: validateJson_def split: option.split)

lemma validateToml_valid: "vr_valid (validateToml pt raw t) \<longleftrightarrow> js_trim raw = [] \<or> pt raw = None"
  by (auto simp: validateToml_def split: option.split)

subsection \<open>The INI loop\<close>

lemma ini_loop_ok: "list_all ini_line_ok ls \<Longrightarrow> ini_loop i ls t = validResult"
  by (induction ls arbitrary: i) auto

lemma ini_loop_bad:
  "list_all ini_line_ok ls \<Longrightarrow> \<not> ini_line_ok l \<Longrightarrow>
   ini_loop i (ls @ l # ls') t = invalidResult (t ''elements.validation.invalidIni'' []) (Some (int (i + length ls + 1))) (Some 1)
     (Some (if utf16_length l = 0 then 1 else int (utf16_length l)))"
  by (induction ls arbitrary: i) auto

lemma split_first: "\<not> list_all P xs \<Longrightarrow> \<exists>as a bs. xs = as @ a # bs \<and> list_all P as \<and> \<not> P a"
  using split_list_first_prop [of xs "\<lambda>x. \<not> P x"] by (auto simp: list_all_iff)

subsection \<open>Texts that survive trimming\<close>

definition printable :: "char \<Rightarrow> bool" where
  "printable c = (33 \<le> (of_char c :: nat) \<and> (of_char c :: nat) \<le> 126)"

lemma lead_len_hd:
  assumes "\<forall>w \<in> set ws. w \<noteq> [] \<and> hd w \<noteq> c"
  shows "lead_len ws (c # s) = 0"
proof -
  have "take (length w) (c # s) \<noteq> w" if "w \<in> set ws" for w
    using assms that by (cases w) auto
  then have "find (\<lambda>w. take (length w) (c # s) = w) ws = None" by (auto simp: find_None_iff)
  then show ?thesis by (simp add: lead_len_def)
qed

lemma ws_seqs_unprintable: "\<forall>w \<in> set ws_seqs. w \<noteq> [] \<and> (\<forall>c \<in> set w. \<not> printable c)"
  by (simp add: ws_seqs_def printable_def)

lemma ws_seqs_ends: "\<forall>w \<in> set ws_seqs. w \<noteq> [] \<and> \<not> printable (hd w)" "\<forall>w \<in> set (map rev ws_seqs). w \<noteq> [] \<and> \<not> printable (hd w)"
  using ws_seqs_unprintable by (auto simp: hd_rev)

lemma printable_no_white:
  "printable c \<Longrightarrow> lead_len ws_seqs (c # s) = 0" "printable c \<Longrightarrow> lead_len (map rev ws_seqs) (c # s) = 0"
  using ws_seqs_ends lead_len_hd by metis+

lemma js_trim_printable:
  assumes "printable (hd s)" and "printable (last s)" and "s \<noteq> []"
  shows "js_trim s = s"
proof -
  obtain c r where "s = c # r" using assms(3) by (cases s) auto
  with assms have "strip_lead ws_seqs s = s" by (simp add: strip_lead_id printable_no_white)
  moreover obtain d q where "rev s = d # q" using assms(3) by (cases "rev s") auto
  then have "strip_lead (map rev ws_seqs) (rev s) = rev s"
    using assms(2) by (simp add: strip_lead_id printable_no_white rev_eq_Cons_iff)
  ultimately show ?thesis by (simp add: js_trim_def strip_trail_def)
qed

text \<open>Stripping stops at a printable character.\<close>

lemma lead_len_stops:
  assumes "\<forall>w \<in> set ws. \<forall>c \<in> set w. \<not> printable c" and "printable x"
  shows "lead_len ws (v @ x # r) \<le> length v"
proof (cases "find (\<lambda>w. take (length w) (v @ x # r) = w) ws")
  case (Some w)
  from find_SomeD [OF Some] have w: "w \<in> set ws" "take (length w) (v @ x # r) = w" by simp_all
  have "length w \<le> length v"
  proof (rule ccontr)
    assume "\<not> length w \<le> length v"
    then obtain m where "length w - length v = Suc m" by (cases "length w - length v") simp_all
    then have "x \<in> set (take (length w) (v @ x # r))" by (simp add: take_append)
    with w assms show False by metis
  qed
  with Some show ?thesis by (simp add: lead_len_def)
qed (simp add: lead_len_def)

lemma strip_lead_stops:
  assumes "\<forall>w \<in> set ws. \<forall>c \<in> set w. \<not> printable c" and "printable x"
  shows "\<exists>u v'. v = u @ v' \<and> strip_lead ws (v @ x # r) = v' @ x # r"
proof (induction "length v" arbitrary: v rule: less_induct)
  case less
  let ?n = "lead_len ws (v @ x # r)"
  have n: "?n \<le> length v" using lead_len_stops [OF assms] .
  show ?case
  proof (cases "?n = 0")
    case False
    then have "length (drop ?n v) < length v" using n by simp
    from less [OF this] obtain u v' where "drop ?n v = u @ v'" "strip_lead ws (drop ?n v @ x # r) = v' @ x # r"
      by blast
    moreover have "strip_lead ws (v @ x # r) = strip_lead ws (drop ?n v @ x # r)"
      using False n by (subst strip_lead.simps) simp
    ultimately show ?thesis by (metis append.assoc append_take_drop_id)
  qed (simp add: strip_lead_id)
qed

lemma js_trim_stops:
  assumes "lead_len ws_seqs (u @ x # v) = 0" and "printable x"
  obtains v' q where "js_trim (u @ x # v) = u @ x # v'" "v = v' @ q"
proof -
  have "\<forall>w \<in> set (map rev ws_seqs). \<forall>c \<in> set w. \<not> printable c" using ws_seqs_unprintable by auto
  from strip_lead_stops [OF this assms(2), of "rev v" "rev u"] obtain a b where
    "rev v = a @ b" "strip_lead (map rev ws_seqs) (rev v @ x # rev u) = b @ x # rev u" by blast
  then have b: "strip_lead (map rev ws_seqs) (rev (u @ x # v)) = b @ x # rev u" and v: "v = rev b @ rev a"
    by (simp_all add: rev_swap)
  have "js_trim (u @ x # v) = rev (b @ x # rev u)"
    unfolding js_trim_def strip_trail_def strip_lead_id [OF assms(1)] b ..
  then show thesis using v by (intro that) simp_all
qed

lemma lead_len_append_printable:
  assumes "lead_len ws_seqs k = 0" and "printable x"
  shows "lead_len ws_seqs (k @ x # v) = 0"
proof -
  have "take (length w) (k @ x # v) \<noteq> w" if w: "w \<in> set ws_seqs" for w
  proof
    assume eq: "take (length w) (k @ x # v) = w"
    from assms(1) w ws_seqs_nonempty ws_seqs_unprintable have "take (length w) k \<noteq> w"
      by (auto simp: lead_len_0_iff dest: find_SomeD)
    with eq have "\<not> length w \<le> length k" by auto
    then obtain m where "length w - length k = Suc m" by (cases "length w - length k") simp_all
    then have "x \<in> set (take (length w) (k @ x # v))" by (simp add: take_append)
    with eq w assms(2) ws_seqs_unprintable show False by metis
  qed
  then show ?thesis by (simp add: lead_len_0_iff)
qed

definition indentation :: "string \<Rightarrow> bool" where
  "indentation i = (\<forall>c \<in> set i. c = CHR '' '' \<or> c = CHR 0x09)"

lemma lead_len_blank: "lead_len ws_seqs (CHR '' '' # s) = 1" "lead_len ws_seqs (CHR 0x09 # s) = 1"
  by (simp_all add: lead_len_def ws_seqs_def)

lemma js_trim_indented: "indentation i \<Longrightarrow> js_trim (i @ s) = js_trim s"
proof (induction i)
  case (Cons c i)
  then consider "c = CHR '' ''" | "c = CHR 0x09" by (auto simp: indentation_def)
  then have "lead_len ws_seqs (c # i @ s) = 1" by cases (simp_all only: lead_len_blank)
  then have "strip_lead ws_seqs (c # i @ s) = strip_lead ws_seqs (i @ s)" by (subst strip_lead.simps) simp
  with Cons show ?case by (simp add: js_trim_def indentation_def)
qed simp

subsection \<open>Printed INI documents\<close>

text \<open>
  The lines of a document: a section, a key and a value with either separator, a comment with either
  mark, or nothing, each after an indentation of blanks and tabs. Names, keys, values and comments are
  arbitrary texts, blanks and characters outside ASCII included, with these limits: none holds a carriage return or a
  line feed; a name is not empty and has no closing bracket; a key is not empty, has no separator and
  does not begin with white space; a value has no line terminator of the language (U+2028 and U+2029 are two).
\<close>

datatype ini_item = IniSection string | IniPair string char string | IniComment char string | IniBlank

definition ini_print_item :: "ini_item \<Rightarrow> string" where
  "ini_print_item item = (case item of
       IniSection n \<Rightarrow> ''['' @ n @ '']''
     | IniPair k sep v \<Rightarrow> k @ sep # v
     | IniComment mark s \<Rightarrow> mark # s
     | IniBlank \<Rightarrow> [])"

definition ini_print_line :: "string \<times> ini_item \<Rightarrow> string" where
  "ini_print_line line = fst line @ ini_print_item (snd line)"

definition ini_item_ok :: "ini_item \<Rightarrow> bool" where
  "ini_item_ok item = (case item of
       IniSection n \<Rightarrow> n \<noteq> [] \<and> (\<forall>c \<in> set n. c \<noteq> CHR '']'' \<and> \<not> is_crlf c)
     | IniPair k sep v \<Rightarrow> k \<noteq> [] \<and> lead_len ws_seqs k = 0 \<and> (\<forall>c \<in> set k. \<not> is_sep c \<and> \<not> is_crlf c) \<and> is_sep sep \<and>
         (\<forall>w \<in> set line_terminators. \<not> js_includes v w)
     | IniComment mark s \<Rightarrow> mark \<in> {CHR '';'', CHR ''#''} \<and> (\<forall>c \<in> set s. \<not> is_crlf c)
     | IniBlank \<Rightarrow> True)"

definition ini_document_line :: "string \<times> ini_item \<Rightarrow> bool" where
  "ini_document_line line = (indentation (fst line) \<and> ini_item_ok (snd line))"

lemma printable_simps [simp]:
  "printable (CHR ''['')" "printable (CHR '']'')" "printable (CHR '';'')" "printable (CHR ''#'')" "is_sep c \<Longrightarrow> printable c"
  by (auto simp: printable_def is_sep_def)

lemma all_white_Nil: "all_white []"
  by (simp add: all_white_def strip_lead_id)

lemma no_terminator_part:
  "\<forall>w \<in> set line_terminators. \<not> js_includes (a @ v @ b) w \<Longrightarrow> w \<in> set line_terminators \<Longrightarrow> \<not> js_includes v w"
  unfolding js_includes_iff by (metis append.assoc)

lemma keyValuePattern_pair:
  assumes "k \<noteq> []" and k: "\<forall>c \<in> set k. \<not> is_sep c \<and> \<not> is_crlf c" and sep: "is_sep sep"
    and v: "\<forall>w \<in> set line_terminators. \<not> js_includes v w" and "hd k \<noteq> CHR ''#''"
  shows "keyValuePattern (k @ sep # v)"
proof -
  obtain c r where kr: "k = c # r" using assms(1) by (cases k) auto
  have parts: "takeWhile (\<lambda>c. \<not> is_sep c) (r @ sep # v) = r" "dropWhile (\<lambda>c. \<not> is_sep c) (r @ sep # v) = sep # v"
    using k kr sep by (simp_all add: takeWhile_append dropWhile_append)
  have "dropWhile (\<lambda>c. \<not> is_crlf c) r = []" using k kr by simp
  then have white: "all_white (dropWhile (\<lambda>c. \<not> is_crlf c) r)" by (simp only: all_white_Nil)
  obtain p where "v = p @ strip_lead ws_seqs v" using strip_lead_suffix by blast
  then have "\<forall>w \<in> set line_terminators. \<not> js_includes (strip_lead ws_seqs v) w"
    using v no_terminator_part [of p "strip_lead ws_seqs v" "[]"] by simp
  with assms(5) k kr white parts show ?thesis
    by (simp add: keyValuePattern_def del: takeWhile_append dropWhile_append dropWhile_eq_Nil_conv)
qed

lemma ini_item_trim_ok:
  assumes "ini_item_ok item"
  shows "ini_line_ok (ini_print_item item)"
proof (cases item)
  case (IniSection n)
  with assms have "js_trim (ini_print_item item) = ini_print_item item"
    by (intro js_trim_printable) (simp_all add: ini_print_item_def)
  with IniSection assms have "sectionPattern (js_trim (ini_print_item item))"
    by (cases n) (auto simp: sectionPattern_def ini_print_item_def ini_item_ok_def is_crlf_def butlast_append)
  then show ?thesis by (simp add: ini_line_ok_def)
next
  case (IniPair k sep v)
  with assms have ok: "k \<noteq> []" "lead_len ws_seqs k = 0" "\<forall>c \<in> set k. \<not> is_sep c \<and> \<not> is_crlf c" "is_sep sep"
    "\<forall>w \<in> set line_terminators. \<not> js_includes v w" by (simp_all add: ini_item_ok_def)
  obtain v' q where v': "js_trim (k @ sep # v) = k @ sep # v'" "v = v' @ q"
    by (rule js_trim_stops [OF lead_len_append_printable [OF ok(2)]]) (rule printable_simps(5) [OF ok(4)])+
  have "\<forall>w \<in> set line_terminators. \<not> js_includes v' w"
    using ok(5) no_terminator_part [of "[]" v' q] v'(2) by simp
  note pair = keyValuePattern_pair [OF ok(1,3,4) this]
  have "js_startsWith (k @ x) ''#''" if "hd k = CHR ''#''" for x
    using that ok(1) by (cases k) (auto simp: js_startsWith_iff)
  with pair IniPair v'(1) show ?thesis by (auto simp: ini_line_ok_def ini_print_item_def Let_def)
next
  case (IniComment mark s)
  with assms have mark: "mark \<in> {CHR '';'', CHR ''#''}" by (simp add: ini_item_ok_def)
  then have "lead_len ws_seqs ([] @ mark # s) = 0" by (intro lead_len_append_printable) auto
  then obtain s' q where "js_trim ([] @ mark # s) = [] @ mark # s'" "s = s' @ q"
    by (rule js_trim_stops) (use mark in auto)
  with mark IniComment show ?thesis by (auto simp: ini_line_ok_def ini_print_item_def js_startsWith_iff Let_def)
qed (simp add: ini_print_item_def ini_line_ok_def)

lemma ini_document_line_ok: "ini_document_line line \<Longrightarrow> ini_line_ok (ini_print_line line)"
  using ini_item_trim_ok [of "snd line"]
  by (simp add: ini_document_line_def ini_print_line_def ini_line_ok_def js_trim_indented)

lemma no_terminator_crlf: "\<forall>w \<in> set line_terminators. \<not> js_includes v w \<Longrightarrow> c \<in> set v \<Longrightarrow> \<not> is_crlf c"
  by (auto simp: line_terminators_def js_includes_iff is_crlf_def in_set_conv_decomp)

lemma ini_item_no_crlf:
  assumes "ini_item_ok item" and "c \<in> set (ini_print_item item)"
  shows "\<not> is_crlf c"
proof (cases item)
  case (IniPair k sep v)
  with assms have "c = sep \<or> c \<in> set k \<or> c \<in> set v" "is_sep sep" "\<forall>c \<in> set k. \<not> is_crlf c"
    "\<forall>w \<in> set line_terminators. \<not> js_includes v w"
    by (simp_all add: ini_item_ok_def ini_print_item_def)
  moreover have "is_sep c \<Longrightarrow> \<not> is_crlf c" by (auto simp: is_sep_def is_crlf_def)
  ultimately show ?thesis using no_terminator_crlf [of v c] by blast
qed (use assms in \<open>auto simp: ini_item_ok_def ini_print_item_def is_crlf_def\<close>)

lemma indentation_no_crlf: "indentation i \<Longrightarrow> c \<in> set i \<Longrightarrow> \<not> is_crlf c"
  unfolding indentation_def is_crlf_def by (drule (1) bspec) (elim disjE; simp)

lemma ini_line_no_crlf: "ini_document_line line \<Longrightarrow> c \<in> set (ini_print_line line) \<Longrightarrow> \<not> is_crlf c"
  unfolding ini_document_line_def ini_print_line_def set_append
  using ini_item_no_crlf [of "snd line" c] indentation_no_crlf [of "fst line" c] by blast

lemma split_on_word: "\<forall>c \<in> set x. \<not> p c \<Longrightarrow> split_on p x = [x]" "\<forall>c \<in> set x. \<not> p c \<Longrightarrow> p d \<Longrightarrow> split_on p (x @ d # s) = x # split_on p s"
  by (induction x) auto

lemma split_on_join:
  assumes "ls \<noteq> []" and "\<forall>l \<in> set ls. \<forall>c \<in> set l. \<not> p c" and "\<forall>c \<in> set e. \<not> p c" and "p d"
  shows "split_on p (join (e @ [d]) ls) = map (\<lambda>l. l @ e) (butlast ls) @ [last ls]"
  using assms(1,2)
proof (induction ls rule: induct_list012)
  case (3 x y ls)
  then have "split_on p ((x @ e) @ d # join (e @ [d]) (y # ls)) = (x @ e) # split_on p (join (e @ [d]) (y # ls))"
    using assms(3,4) by (intro split_on_word(2)) auto
  with 3 show ?case by simp
qed (auto simp: split_on_word)

lemma split_lines_join:
  assumes "ls \<noteq> []" and "\<forall>l \<in> set ls. \<forall>c \<in> set l. \<not> is_crlf c" and "eol \<in> {[CHR 0x0A], [CHR 0x0D, CHR 0x0A]}"
  shows "split_lines (join eol ls) = ls"
proof -
  have lf: "\<forall>l \<in> set ls. \<forall>c \<in> set l. c \<noteq> CHR 0x0A" and cr: "\<forall>l \<in> set ls. l = [] \<or> last l \<noteq> CHR 0x0D"
    using assms(2) last_in_set by (fastforce simp: is_crlf_def)+
  from assms(3) consider "eol = [] @ [CHR 0x0A]" | "eol = [CHR 0x0D] @ [CHR 0x0A]" by auto
  then show ?thesis
  proof cases
    case 1
    have "map drop_cr (butlast ls) = butlast ls"
      using cr by (intro map_idI) (auto simp: drop_cr_def dest: in_set_butlastD)
    with 1 split_on_join [OF assms(1), of "\<lambda>c. c = CHR 0x0A" "[]" "CHR 0x0A"] lf assms(1) show ?thesis
      by (simp add: split_lines_def)
  next
    case 2
    with split_on_join [OF assms(1), of "\<lambda>c. c = CHR 0x0A" "[CHR 0x0D]" "CHR 0x0A"] lf assms(1) show ?thesis
      by (simp add: split_lines_def drop_cr_def comp_def)
  qed
qed

subsection \<open>Properties\<close>

text \<open>A content of the JSON type is valid exactly if it is blank or the language's parser accepts
  it; in particular every value that \<open>JSON.stringify\<close> prints is.\<close>

theorem validate_json_sound_complete:
  "vr_valid (validateContent eng (Some (CTNum 1)) raw t) = (js_trim raw = [] \<or> json_parse raw \<noteq> None) \<and>
   (json_wf j \<longrightarrow> vr_valid (validateContent eng (Some (CTNum 1)) (json_stringify j) t))"
  by (simp add: validateContent_code validateJson_valid json_parse_stringify)

definition demo_engine :: content_engine where
  "demo_engine = \<lparr>ce_parseToml = (\<lambda>raw. None), ce_jsonError = (\<lambda>raw. ''Unexpected token'')\<rparr>"

theorem validate_json_sound_complete_witness:
  "vr_valid (validateContent demo_engine (Some (CTNum 1)) (json_stringify (JObj [(''a'', JArr [JNum 1, JNull])])) (\<lambda>k ps. k))"
  using validate_json_sound_complete [of demo_engine "[]" "\<lambda>k ps. k" "JObj [(''a'', JArr [JNum 1, JNull])]"]
  by (simp del: json_stringify.simps stringify_elems.simps stringify_members.simps)

text \<open>C22: A content of the INI type is valid exactly if every line is blank, a comment, a section or a
  key with a value; otherwise the result and its only diagnostic point at the first line that is
  not, column 1, with a length of at least one.\<close>

theorem validate_ini_first_error:
  "vr_valid (validateContent eng (Some (CTNum 3)) raw t) = list_all ini_line_ok (split_lines raw) \<and>
   (\<forall>as l bs. split_lines raw = as @ l # bs \<and> list_all ini_line_ok as \<and> \<not> ini_line_ok l \<longrightarrow>
      (\<exists>n \<ge> 1. validateContent eng (Some (CTNum 3)) raw t =
         invalidResult (t ''elements.validation.invalidIni'' []) (Some (int (length as + 1))) (Some 1) (Some n)))"
proof (intro conjI allI impI)
  show "vr_valid (validateContent eng (Some (CTNum 3)) raw t) = list_all ini_line_ok (split_lines raw)"
  proof (cases "list_all ini_line_ok (split_lines raw)")
    case True
    then show ?thesis by (simp add: validateContent_code validateIni_def ini_loop_ok)
  next
    case False
    from split_first [OF this] obtain as l bs where "split_lines raw = as @ l # bs" "list_all ini_line_ok as" "\<not> ini_line_ok l"
      by blast
    with False show ?thesis by (simp add: validateContent_code validateIni_def ini_loop_bad)
  qed
next
  fix as l bs
  assume "split_lines raw = as @ l # bs \<and> list_all ini_line_ok as \<and> \<not> ini_line_ok l"
  then have "validateContent eng (Some (CTNum 3)) raw t =
      invalidResult (t ''elements.validation.invalidIni'' []) (Some (int (length as + 1))) (Some 1)
        (Some (if utf16_length l = 0 then 1 else int (utf16_length l)))"
    by (simp add: validateContent_code validateIni_def ini_loop_bad)
  then show "\<exists>n \<ge> 1. validateContent eng (Some (CTNum 3)) raw t =
      invalidResult (t ''elements.validation.invalidIni'' []) (Some (int (length as + 1))) (Some 1) (Some n)"
    by (intro exI [of _ "if utf16_length l = 0 then 1 else int (utf16_length l)"]) auto
qed

theorem validate_ini_first_error_witness:
  "\<exists>n \<ge> 1. validateContent demo_engine (Some (CTNum 3)) (''[a]'' @ [CHR 0x0A] @ ''x'') (\<lambda>k ps. k) =
     invalidResult ''elements.validation.invalidIni'' (Some 2) (Some 1) (Some n)"
proof -
  have d: "split_lines (''[a]'' @ [CHR 0x0A] @ ''x'') = [''[a]''] @ ''x'' # []" "list_all ini_line_ok [''[a]'']" "\<not> ini_line_ok ''x''"
    by code_simp+
  then have "split_lines (''[a]'' @ [CHR 0x0A] @ ''x'') = [''[a]''] @ ''x'' # [] \<and> list_all ini_line_ok [''[a]''] \<and> \<not> ini_line_ok ''x''"
    by blast
  from conjunct2 [OF validate_ini_first_error, rule_format, OF this, of demo_engine "\<lambda>k ps. k"] show ?thesis by simp
qed


definition demo_ini :: "(string \<times> ini_item) list" where
  "demo_ini = [([], IniSection ''db''), ('' '', IniPair ''host '' (CHR '':'') '' a b=c''),
     ([], IniPair [CHR 0xC3, CHR 0xA9] (CHR ''='') [CHR 0xC3, CHR 0xA9]), ('' '', IniBlank), ([], IniComment (CHR ''#'') '' x y'')]"

lemma demo_ini_lines: "list_all ini_document_line demo_ini"
  by code_simp


text \<open>The range a diagnostic marks is never empty, starts inside the line it names, the number of
  which is brought into the document's lines, and ends inside that line, or one place after its
  end where the diagnostic stands at the end of the line.\<close>

theorem diagnosticRange_bounds:
  assumes "1 \<le> ed_lines doc" and "\<And>n. 1 \<le> n \<Longrightarrow> n \<le> ed_lines doc \<Longrightarrow> ed_from doc n \<le> ed_to doc n"
    and "diagnosticRange doc item = (a, b)"
  shows "\<exists>n. 1 \<le> n \<and> n \<le> ed_lines doc \<and> (1 \<le> num_or (dg_line item) 1 \<and> num_or (dg_line item) 1 \<le> ed_lines doc \<longrightarrow> n = num_or (dg_line item) 1) \<and>
    ed_from doc n \<le> a \<and> a \<le> ed_to doc n \<and> a < b \<and> (b \<le> ed_to doc n \<or> a = ed_to doc n \<and> b = a + 1)"
proof -
  define n where "n = max 1 (min (num_or (dg_line item) 1) (ed_lines doc))"
  define c where "c = max 1 (num_or (dg_column item) 1)"
  have n: "1 \<le> n" "n \<le> ed_lines doc" "1 \<le> num_or (dg_line item) 1 \<and> num_or (dg_line item) 1 \<le> ed_lines doc \<longrightarrow> n = num_or (dg_line item) 1"
    using assms(1) by (auto simp: n_def)
  have c: "1 \<le> c" by (simp add: c_def)
  have line: "ed_from doc n \<le> ed_to doc n" by (rule assms(2) [OF n(1,2)])
  have a: "a = min (ed_from doc n + c - 1) (ed_to doc n)"
    using assms(3) by (simp add: diagnosticRange_def Let_def n_def c_def)
  obtain len where b: "b = max (min (ed_to doc n) (a + len)) (a + 1)"
    using assms(3) by (auto simp: diagnosticRange_def Let_def n_def c_def)
  have "ed_from doc n \<le> a" "a \<le> ed_to doc n" using a c line by simp_all
  moreover have "a < b" "b \<le> ed_to doc n \<or> a = ed_to doc n \<and> b = a + 1" using b calculation(2) by auto
  ultimately show ?thesis using n by blast
qed

definition demo_doc :: editor_doc where
  "demo_doc = \<lparr>ed_lines = 2, ed_from = \<lambda>n. if n = 1 then 0 else 4, ed_to = \<lambda>n. if n = 1 then 3 else 9, ed_length = 9\<rparr>"

definition demo_diagnostic :: ContentDiagnostic where
  "demo_diagnostic = \<lparr>dg_message = [], dg_severity = DError, dg_line = Some 7, dg_column = None, dg_length = None\<rparr>"

theorem diagnosticRange_bounds_witness:
  "\<exists>n. 1 \<le> n \<and> n \<le> ed_lines demo_doc \<and> ed_from demo_doc n \<le> 4 \<and> (9 \<le> ed_to demo_doc n \<or> 4 = ed_to demo_doc n)"
proof -
  have "diagnosticRange demo_doc demo_diagnostic = (4, 9)" by code_simp
  moreover have "1 \<le> ed_lines demo_doc" "ed_from demo_doc n \<le> ed_to demo_doc n" for n
    by (simp_all add: demo_doc_def)
  ultimately show ?thesis using diagnosticRange_bounds [of demo_doc demo_diagnostic 4 9] by blast
qed

text \<open>The two copies of the function that reads a content type agree on every number, name and
  absent type, and the four names mean the four codes however they are capitalised.\<close>

theorem contentTypeKey_copies_agree:
  "contentTypeKey ct = diagnostics_contentTypeKey ct \<and>
   (createContentDiagnostics ct = [JsonParseLinter]) = (\<exists>k. contentTypeKey ct = Some k \<and> number_is 1 k)"
proof -
  have "contentTypeKey ct = diagnostics_contentTypeKey ct"
    by (simp add: contentTypeKey_def diagnostics_contentTypeKey_def contentTypeNameKeys_def Let_def
        split: option.split ContentType.split)
  then show ?thesis by (auto simp: createContentDiagnostics_def split: option.split)
qed

end
