(* ===== verification/Settings.thy ===== *)
theory Settings
  imports Api_Client Ui
begin

section \<open>Local preferences: \<open>lib/settings.ts\<close>, \<open>settings/SettingsPage.tsx\<close>, \<open>AppThemeProvider.tsx\<close>\<close>

text \<open>
  The preferences kept in the browser's storage as a JSON object, the page that changes them and
  the provider that takes the theme from them. The facts: whatever the storage holds, the settings
  read are of the declared type; a change that is written is what is read back, and everything
  else that was stored stays; the page and the theme show what is stored after every change.
\<close>

subsection \<open>Options\<close>

record UIThemeOption =
  ut_value :: string
  ut_label :: string
  ut_primary :: string
  ut_secondary :: string

definition codeThemeOptions :: "(string \<times> string) list" where
  "codeThemeOptions = [(''github-light-plus'', ''GitHub Light+''), (''github-light'', ''GitHub Light''),
     (''one-dark'', ''One Dark'')]"

definition uiThemeOptions :: "UIThemeOption list" where
  "uiThemeOptions =
     [\<lparr>ut_value = ''cassem-blue'', ut_label = ''Cassem Blue'', ut_primary = ''#2454ff'', ut_secondary = ''#00a3a3''\<rparr>,
      \<lparr>ut_value = ''teal'', ut_label = ''Teal'', ut_primary = ''#00897b'', ut_secondary = ''#f59e0b''\<rparr>,
      \<lparr>ut_value = ''purple'', ut_label = ''Purple'', ut_primary = ''#7c3aed'', ut_secondary = ''#06b6d4''\<rparr>,
      \<lparr>ut_value = ''orange'', ut_label = ''Orange'', ut_primary = ''#f97316'', ut_secondary = ''#2563eb''\<rparr>]"

record AppSettings =
  as_codeTheme :: string
  as_uiTheme :: string
  as_editorLineWrapping :: bool

record SettingsPatch =
  \<comment> \<open>\<open>Partial<AppSettings>\<close>\<close>
  sp_codeTheme :: "string option"
  sp_uiTheme :: "string option"
  sp_editorLineWrapping :: "bool option"

definition defaultSettings :: AppSettings where
  "defaultSettings = \<lparr>as_codeTheme = ''github-light-plus'', as_uiTheme = ''cassem-blue'', as_editorLineWrapping = True\<rparr>"

definition settingsStorageKey :: string where
  "settingsStorageKey = ''cassem.settings''"

definition settingsChangedEvent :: string where
  "settingsChangedEvent = ''cassem.settings.changed''"

definition isCodeTheme :: "string \<Rightarrow> bool" where
  "isCodeTheme v = list_ex (\<lambda>option. fst option = v) codeThemeOptions"

definition isUITheme :: "string \<Rightarrow> bool" where
  "isUITheme v = list_ex (\<lambda>option. ut_value option = v) uiThemeOptions"

definition getUIThemeOption :: "string \<Rightarrow> UIThemeOption" where
  "getUIThemeOption v = opt_or (find (\<lambda>option. ut_value option = v) uiThemeOptions) (hd uiThemeOptions)"

subsection \<open>Reading and writing\<close>

definition json_prop :: "string \<Rightarrow> json \<Rightarrow> json option" where
  \<comment> \<open>the value of a property; a value that is no object has none of the names used here\<close>
  "json_prop k j = (case j of JObj kvs \<Rightarrow> map_of kvs k | _ \<Rightarrow> None)"

definition str_prop :: "(string \<Rightarrow> bool) \<Rightarrow> json option \<Rightarrow> string \<Rightarrow> string" where
  "str_prop ok v d = (case v of Some (JStr s) \<Rightarrow> if ok s then s else d | _ \<Rightarrow> d)"

definition bool_prop :: "json option \<Rightarrow> bool \<Rightarrow> bool" where
  "bool_prop v d = (case v of Some (JBool b) \<Rightarrow> b | _ \<Rightarrow> d)"

definition stored_settings :: "storage \<Rightarrow> json option" where
  "stored_settings st = json_parse (opt_str_or (getItem st settingsStorageKey) ''{}'')"

definition readSettings :: "storage \<Rightarrow> AppSettings" where
  "readSettings st = (case stored_settings st of
       None \<Rightarrow> defaultSettings
     | Some JNull \<Rightarrow> defaultSettings
     | Some parsed \<Rightarrow>
         \<lparr>as_codeTheme = str_prop isCodeTheme (json_prop ''codeTheme'' parsed) (as_codeTheme defaultSettings),
          as_uiTheme = str_prop isUITheme (json_prop ''uiTheme'' parsed) (as_uiTheme defaultSettings),
          as_editorLineWrapping = bool_prop (json_prop ''editorLineWrapping'' parsed) (as_editorLineWrapping defaultSettings)\<rparr>)"

function code_points :: "string \<Rightarrow> string list" where
  \<comment> \<open>the code points of a text; spreading a string gives one entry for each, except that one outside
    the basic plane is two\<close>
  "code_points [] = []"
| "code_points (c # s) = (c # takeWhile (\<lambda>d. 128 \<le> (of_char d :: nat) \<and> (of_char d :: nat) < 192) s) #
     code_points (dropWhile (\<lambda>d. 128 \<le> (of_char d :: nat) \<and> (of_char d :: nat) < 192) s)"
  by pat_completeness auto
termination
  by (relation "measure length") (auto simp: le_imp_less_Suc length_dropWhile_le)

definition indexed :: "json list \<Rightarrow> (string \<times> json) list" where
  "indexed vs = map (\<lambda>i. (nat_str i, vs ! i)) [0 ..< length vs]"

definition json_spread :: "json \<Rightarrow> (string \<times> json) list" where
  \<comment> \<open>\<open>{ ...current }\<close>\<close>
  "json_spread j = (case j of JObj kvs \<Rightarrow> kvs | JArr vs \<Rightarrow> indexed vs
     | JStr s \<Rightarrow> indexed (map JStr (code_points s)) | _ \<Rightarrow> [])"

definition put_opt :: "string \<Rightarrow> json option \<Rightarrow> (string \<times> json) list \<Rightarrow> (string \<times> json) list" where
  "put_opt k v kvs = (case v of None \<Rightarrow> kvs | Some j \<Rightarrow> upsert k j kvs)"

definition checked_patch :: "SettingsPatch \<Rightarrow> SettingsPatch" where
  "checked_patch p = p
     \<lparr>sp_codeTheme := map_option (\<lambda>v. if isCodeTheme v then v else as_codeTheme defaultSettings) (sp_codeTheme p),
      sp_uiTheme := map_option (\<lambda>v. if isUITheme v then v else as_uiTheme defaultSettings) (sp_uiTheme p)\<rparr>"

definition current_json :: "storage \<Rightarrow> json" where
  "current_json st = (case stored_settings st of None \<Rightarrow> JObj [] | Some j \<Rightarrow> j)"

definition merged_settings :: "SettingsPatch \<Rightarrow> storage \<Rightarrow> (string \<times> json) list" where
  "merged_settings p st =
     (let c = checked_patch p in
      put_opt ''editorLineWrapping'' (map_option JBool (sp_editorLineWrapping c))
        (put_opt ''uiTheme'' (map_option JStr (sp_uiTheme c))
          (put_opt ''codeTheme'' (map_option JStr (sp_codeTheme c)) (json_spread (current_json st)))))"

definition updateSettings :: "SettingsPatch \<Rightarrow> storage \<Rightarrow> storage" where
  \<comment> \<open>the event \<open>settingsChangedEvent\<close> follows\<close>
  "updateSettings p st = setItem settingsStorageKey (json_stringify (JObj (merged_settings p st))) st"

subsection \<open>The settings page and the theme\<close>

record settings_ui =
  \<comment> \<open>the storage, the page's copy of the settings, and the theme provider's\<close>
  su_storage :: storage
  su_settings :: AppSettings
  su_uiTheme :: string

datatype SettingsEvent = SCodeTheme string | SUITheme string | SLineWrapping bool | SStorage storage

definition openSettings :: "storage \<Rightarrow> settings_ui" where
  "openSettings st = \<lparr>su_storage = st, su_settings = readSettings st, su_uiTheme = as_uiTheme (readSettings st)\<rparr>"

definition noPatch :: SettingsPatch where
  "noPatch = \<lparr>sp_codeTheme = None, sp_uiTheme = None, sp_editorLineWrapping = None\<rparr>"

definition syncTheme :: "settings_ui \<Rightarrow> settings_ui" where
  "syncTheme s = s\<lparr>su_uiTheme := as_uiTheme (readSettings (su_storage s))\<rparr>"

definition write_settings :: "SettingsPatch \<Rightarrow> settings_ui \<Rightarrow> settings_ui" where
  \<comment> \<open>\<open>updateSettings\<close>, and the listener of its event\<close>
  "write_settings p s = syncTheme (s\<lparr>su_storage := updateSettings p (su_storage s)\<rparr>)"

definition handleCodeThemeChange :: "string \<Rightarrow> settings_ui \<Rightarrow> settings_ui" where
  "handleCodeThemeChange v s =
     write_settings (noPatch\<lparr>sp_codeTheme := Some v\<rparr>) (s\<lparr>su_settings := (su_settings s)\<lparr>as_codeTheme := v\<rparr>\<rparr>)"

definition handleUIThemeChange :: "string \<Rightarrow> settings_ui \<Rightarrow> settings_ui" where
  "handleUIThemeChange v s =
     write_settings (noPatch\<lparr>sp_uiTheme := Some v\<rparr>) (s\<lparr>su_settings := (su_settings s)\<lparr>as_uiTheme := v\<rparr>\<rparr>)"

definition handleLineWrappingChange :: "bool \<Rightarrow> settings_ui \<Rightarrow> settings_ui" where
  "handleLineWrappingChange b s =
     write_settings (noPatch\<lparr>sp_editorLineWrapping := Some b\<rparr>) (s\<lparr>su_settings := (su_settings s)\<lparr>as_editorLineWrapping := b\<rparr>\<rparr>)"

definition settings_step :: "settings_ui \<Rightarrow> SettingsEvent \<Rightarrow> settings_ui" where
  \<comment> \<open>a select box offers only its options; \<open>SStorage\<close> is the browser's event \<open>storage\<close>, after another tab has changed the storage\<close>
  "settings_step s e = (case e of
       SCodeTheme v \<Rightarrow> if isCodeTheme v then handleCodeThemeChange v s else s
     | SUITheme v \<Rightarrow> if isUITheme v then handleUIThemeChange v s else s
     | SLineWrapping b \<Rightarrow> handleLineWrappingChange b s
     | SStorage st \<Rightarrow> syncTheme (s\<lparr>su_storage := st\<rparr>))"

definition theme_palette :: "settings_ui \<Rightarrow> string \<times> string" where
  \<comment> \<open>the primary and the secondary colour of \<open>createAppTheme\<close>\<close>
  "theme_palette s = (let palette = getUIThemeOption (su_uiTheme s) in (ut_primary palette, ut_secondary palette))"

definition codePreview :: string where
  "codePreview = concat [''{'', [CHR 0x0A], ''  '', quote ''enabled'', '': true,'', [CHR 0x0A],
     ''  '', quote ''region'', '': '', quote ''ap-east-1'', '','', [CHR 0x0A],
     ''  '', quote ''retries'', '': 3,'', [CHR 0x0A],
     ''  '', quote ''features'', '': ['', quote ''watch'', '', '', quote ''dispatch'', '']'', [CHR 0x0A], ''}'']"

definition option_entry :: "string \<Rightarrow> string \<Rightarrow> MenuEntry" where
  "option_entry v l = \<lparr>me_value = v, me_disabled = False, me_ariaLabel = [], me_text = l, me_current = None,
     me_status = [], me_statusText = []\<rparr>"

definition SettingsPage_view :: "Translator \<Rightarrow> settings_ui \<Rightarrow> ui list" where
  "SettingsPage_view t s =
     [UHeading (t ''common.settings'' []), UText (t ''common.localPreferences'' []),
      UHeading (t ''common.appearance'' []),
      USelect (t ''common.uiTheme'' []) (as_uiTheme (su_settings s)) False []
        (map (\<lambda>x. option_entry (ut_value x) (t (''common.theme.'' @ ut_value x) [])) uiThemeOptions),
      UHeading (t ''common.editor'' []),
      USelect (t ''common.codeTheme'' []) (as_codeTheme (su_settings s)) False []
        (map (\<lambda>x. option_entry (fst x) (snd x)) codeThemeOptions),
      ULabelled (t ''common.lineWrapping'' []) [UText (if as_editorLineWrapping (su_settings s) then ''on'' else ''off'')],
      ULabelled (t ''common.codePreview'' []) [UText codePreview]]"

subsection \<open>Facts\<close>

definition settings_plain :: "storage \<Rightarrow> bool" where
  \<comment> \<open>the stored text holds no number with a fraction or an exponent, if it is JSON at all\<close>
  "settings_plain st = (case stored_settings st of Some j \<Rightarrow> json_wf j | None \<Rightarrow> True)"

definition apply_patch :: "SettingsPatch \<Rightarrow> AppSettings \<Rightarrow> AppSettings" where
  "apply_patch p s =
     \<lparr>as_codeTheme = opt_or (sp_codeTheme p) (as_codeTheme s), as_uiTheme = opt_or (sp_uiTheme p) (as_uiTheme s),
      as_editorLineWrapping = opt_or (sp_editorLineWrapping p) (as_editorLineWrapping s)\<rparr>"

lemma put_opt_map_of: "map_of (put_opt k v kvs) k' = (if k = k' \<and> v \<noteq> None then v else map_of kvs k')"
  by (auto simp: put_opt_def map_of_upsert split: option.splits)

lemma put_opt_wf:
  assumes "json_wf (JObj kvs)" and "\<forall>j. v = Some j \<longrightarrow> json_wf j"
  shows "json_wf (JObj (put_opt k v kvs))"
proof -
  have "set (upsert k j kvs) \<subseteq> insert (k, j) (set kvs)" for j
    by (induction k j kvs rule: upsert.induct) auto
  with assms show ?thesis
    by (fastforce simp: put_opt_def distinct_upsert split: option.split)
qed

lemma indexed_wf: "\<forall>v \<in> set vs. json_wf v \<Longrightarrow> json_wf (JObj (indexed vs))"
  by (auto simp: indexed_def distinct_map comp_def inj_on_def)

lemma empty_object_wf: "json_wf (JObj [])"
  by simp

lemma json_spread_wf: "json_wf j \<Longrightarrow> json_wf (JObj (json_spread j))"
  by (cases j) (auto simp: json_spread_def empty_object_wf intro!: indexed_wf simp del: json_wf.simps(3))

lemma merged_wf: "settings_plain st \<Longrightarrow> json_wf (JObj (merged_settings p st))"
proof -
  assume "settings_plain st"
  then have "json_wf (current_json st)" by (simp add: settings_plain_def current_json_def split: option.splits)
  then show ?thesis
    unfolding merged_settings_def Let_def by (intro put_opt_wf json_spread_wf) auto
qed

lemma stored_updated: "settings_plain st \<Longrightarrow> stored_settings (updateSettings p st) = Some (JObj (merged_settings p st))"
proof -
  assume "settings_plain st"
  from merged_wf [OF this] have "json_parse (json_stringify (JObj (merged_settings p st))) = Some (JObj (merged_settings p st))"
    by (rule json_parse_stringify)
  then show ?thesis
    by (simp add: stored_settings_def updateSettings_def opt_str_or_def getItem_def setItem_def)
qed

lemma spread_prop:
  \<comment> \<open>spreading keeps the named properties: only an object has them\<close>
  assumes "\<forall>n. k \<noteq> nat_str n"
  shows "map_of (json_spread j) k = json_prop k j"
proof -
  have "map_of (indexed vs) k = None" for vs
    using assms by (auto simp: indexed_def map_of_eq_None_iff)
  then show ?thesis by (cases j) (simp_all add: json_spread_def json_prop_def)
qed

lemma not_numeral: "c \<in> set k \<Longrightarrow> \<not> is_digit c \<Longrightarrow> \<forall>n. k \<noteq> nat_str n"
  using nat_str_digits by blast

lemma setting_names: "\<forall>n. ''codeTheme'' \<noteq> nat_str n" "\<forall>n. ''uiTheme'' \<noteq> nat_str n" "\<forall>n. ''editorLineWrapping'' \<noteq> nat_str n"
  by (rule not_numeral [of "CHR ''e''"]; simp add: is_digit_def)+

lemma default_themes [simp]: "isCodeTheme (as_codeTheme defaultSettings)" "isUITheme (as_uiTheme defaultSettings)"
  by (simp_all add: isCodeTheme_def isUITheme_def codeThemeOptions_def uiThemeOptions_def defaultSettings_def)

lemma defaultSettings_eta:
  "\<lparr>as_codeTheme = as_codeTheme defaultSettings, as_uiTheme = as_uiTheme defaultSettings,
    as_editorLineWrapping = as_editorLineWrapping defaultSettings\<rparr> = defaultSettings"
  by simp

lemma readSettings_props:
  "readSettings st =
     \<lparr>as_codeTheme = str_prop isCodeTheme (json_prop ''codeTheme'' (current_json st)) (as_codeTheme defaultSettings),
      as_uiTheme = str_prop isUITheme (json_prop ''uiTheme'' (current_json st)) (as_uiTheme defaultSettings),
      as_editorLineWrapping = bool_prop (json_prop ''editorLineWrapping'' (current_json st)) (as_editorLineWrapping defaultSettings)\<rparr>"
proof (cases "stored_settings st")
  case None
  then show ?thesis
    by (simp add: readSettings_def current_json_def json_prop_def str_prop_def bool_prop_def)
next
  case (Some j)
  then show ?thesis
    by (cases j) (simp_all add: readSettings_def current_json_def json_prop_def str_prop_def bool_prop_def)
qed

lemma merged_other:
  assumes "k \<noteq> ''codeTheme''" "k \<noteq> ''uiTheme''" "k \<noteq> ''editorLineWrapping''"
  shows "map_of (merged_settings p st) k = map_of (json_spread (current_json st)) k"
  unfolding merged_settings_def Let_def put_opt_map_of using assms by metis

lemma merged_props:
  "map_of (merged_settings p st) ''codeTheme'' = (case sp_codeTheme (checked_patch p) of
      Some v \<Rightarrow> Some (JStr v) | None \<Rightarrow> json_prop ''codeTheme'' (current_json st))"
  "map_of (merged_settings p st) ''uiTheme'' = (case sp_uiTheme (checked_patch p) of
      Some v \<Rightarrow> Some (JStr v) | None \<Rightarrow> json_prop ''uiTheme'' (current_json st))"
  "map_of (merged_settings p st) ''editorLineWrapping'' = (case sp_editorLineWrapping (checked_patch p) of
      Some v \<Rightarrow> Some (JBool v) | None \<Rightarrow> json_prop ''editorLineWrapping'' (current_json st))"
  by (simp_all add: merged_settings_def Let_def put_opt_map_of spread_prop setting_names split: option.split)

lemma str_prop_checked: "str_prop ok (Some (JStr (if ok v then v else d))) d = (if ok v then v else d)"
  by (simp add: str_prop_def)

lemma merged_setting:
  "str_prop isCodeTheme (map_of (merged_settings p st) ''codeTheme'') (as_codeTheme defaultSettings) =
     opt_or (sp_codeTheme (checked_patch p)) (as_codeTheme (readSettings st))"
  "str_prop isUITheme (map_of (merged_settings p st) ''uiTheme'') (as_uiTheme defaultSettings) =
     opt_or (sp_uiTheme (checked_patch p)) (as_uiTheme (readSettings st))"
  "bool_prop (map_of (merged_settings p st) ''editorLineWrapping'') (as_editorLineWrapping defaultSettings) =
     opt_or (sp_editorLineWrapping (checked_patch p)) (as_editorLineWrapping (readSettings st))"
  by (simp_all add: merged_props readSettings_props checked_patch_def str_prop_checked bool_prop_def split: option.split)

lemma current_updated: "settings_plain st \<Longrightarrow> current_json (updateSettings p st) = JObj (merged_settings p st)"
  by (simp add: current_json_def stored_updated)

lemma read_updated:
  "settings_plain st \<Longrightarrow> readSettings (updateSettings p st) = apply_patch (checked_patch p) (readSettings st)"
  by (simp add: readSettings_props [of "updateSettings p st"] current_updated json_prop_def merged_setting apply_patch_def)

subsection \<open>Properties\<close>

text \<open>C40: Whatever the storage holds, valid or corrupt, the settings that are read are of the declared
  type: both themes are among the options.\<close>

theorem readSettings_typed: "isCodeTheme (as_codeTheme (readSettings st)) \<and> isUITheme (as_uiTheme (readSettings st))"
  by (auto simp: readSettings_props str_prop_def split: option.split json.split)

text \<open>Reading after writing gives the settings read before with the changed ones replaced, a theme
  that is no option by the default; every other property of the stored object is kept.\<close>

theorem settings_read_write:
  assumes "settings_plain st"
  shows "readSettings (updateSettings p st) = apply_patch (checked_patch p) (readSettings st) \<and>
    (k \<notin> {''codeTheme'', ''uiTheme'', ''editorLineWrapping''} \<longrightarrow>
       json_prop k (current_json (updateSettings p st)) = map_of (json_spread (current_json st)) k)"
  using assms by (simp add: read_updated current_updated json_prop_def merged_other)

theorem settings_read_write_witness:
  "as_uiTheme (readSettings (updateSettings (noPatch\<lparr>sp_uiTheme := Some ''teal''\<rparr>) Map.empty)) = ''teal''"
proof -
  have "settings_plain Map.empty" by code_simp
  from settings_read_write [OF this, of "noPatch\<lparr>sp_uiTheme := Some ''teal''\<rparr>" "''x''"] show ?thesis
    by (simp add: apply_patch_def checked_patch_def noPatch_def isUITheme_def uiThemeOptions_def)
qed

lemma updated_plain: "settings_plain st \<Longrightarrow> settings_plain (updateSettings p st)"
  using merged_wf [of st p] stored_updated [of st p] by (simp add: settings_plain_def)

definition settings_synced :: "settings_ui \<Rightarrow> bool" where
  "settings_synced s \<longleftrightarrow> settings_plain (su_storage s) \<and> su_uiTheme s = as_uiTheme (readSettings (su_storage s))"

definition plain_event :: "SettingsEvent \<Rightarrow> bool" where
  "plain_event e = (case e of SStorage st \<Rightarrow> settings_plain st | _ \<Rightarrow> True)"

lemmas settings_handlers = settings_step_def handleCodeThemeChange_def handleUIThemeChange_def handleLineWrappingChange_def
  write_settings_def syncTheme_def

lemma settings_step_synced: "settings_synced s \<Longrightarrow> plain_event e \<Longrightarrow> settings_synced (settings_step s e)"
  by (cases e) (auto simp: settings_synced_def settings_handlers plain_event_def updated_plain)

text \<open>What the page promises: a record of preferences that is stored and one that it shows. A valid choice replaces
  that preference in both; another tab replaces the stored one.\<close>

definition apply_choice :: "AppSettings \<Rightarrow> SettingsEvent \<Rightarrow> AppSettings" where
  "apply_choice a e = (case e of
       SCodeTheme v \<Rightarrow> if isCodeTheme v then a\<lparr>as_codeTheme := v\<rparr> else a
     | SUITheme v \<Rightarrow> if isUITheme v then a\<lparr>as_uiTheme := v\<rparr> else a
     | SLineWrapping b \<Rightarrow> a\<lparr>as_editorLineWrapping := b\<rparr>
     | SStorage _ \<Rightarrow> a)"

definition settings_spec :: "AppSettings \<times> AppSettings \<Rightarrow> SettingsEvent \<Rightarrow> AppSettings \<times> AppSettings" where
  "settings_spec a e = (case e of
       SStorage st \<Rightarrow> (fst a, readSettings st)
     | _ \<Rightarrow> (apply_choice (fst a) e, apply_choice (snd a) e))"

definition settings_abs :: "settings_ui \<Rightarrow> AppSettings \<times> AppSettings" where
  "settings_abs s = (su_settings s, readSettings (su_storage s))"

lemma theme_follows:
  "su_uiTheme s = as_uiTheme (readSettings (su_storage s)) \<Longrightarrow>
   su_uiTheme (foldl settings_step s es) = as_uiTheme (readSettings (su_storage (foldl settings_step s es)))"
proof (induction es arbitrary: s)
  case (Cons e es)
  have "su_uiTheme (settings_step s e) = as_uiTheme (readSettings (su_storage (settings_step s e)))"
    using Cons.prems by (cases e) (simp_all add: settings_handlers)
  with Cons.IH show ?case by simp
qed simp

lemma settings_step_spec:
  "settings_synced s \<Longrightarrow> settings_abs (settings_step s e) = settings_spec (settings_abs s) e"
  by (cases e) (auto simp: settings_abs_def settings_spec_def apply_choice_def settings_synced_def settings_handlers read_updated
      apply_patch_def checked_patch_def noPatch_def opt_or_def)

lemma settings_run:
  "settings_synced s \<Longrightarrow> \<forall>e \<in> set es. plain_event e \<Longrightarrow> settings_synced (foldl settings_step s es) \<and>
     settings_abs (foldl settings_step s es) = foldl settings_spec (settings_abs s) es"
  by (induction es arbitrary: s) (simp_all add: settings_step_synced settings_step_spec)

lemma spec_agrees: "\<forall>st. SStorage st \<notin> set es \<Longrightarrow> fst a = snd a \<Longrightarrow> fst (foldl settings_spec a es) = snd (foldl settings_spec a es)"
proof (induction es arbitrary: a)
  case (Cons e es)
  then have "fst (settings_spec a e) = snd (settings_spec a e)" by (cases e) (auto simp: settings_spec_def)
  with Cons show ?case by simp
qed simp

text \<open>C14: The settings page, the storage and the theme refine two records of preferences, the one shown and the
  one stored, as long as the stored text holds no number with a fraction or an exponent:
  a choice replaces that preference in both, a change by another tab replaces the stored record only, and the
  theme in use always has the colours of the stored one. As long as no other tab writes, the two are the same.\<close>

theorem settings_page_refines:
  assumes "settings_plain st" and "\<forall>e \<in> set es. plain_event e" and "s = foldl settings_step (openSettings st) es"
  shows "settings_abs s = foldl settings_spec (readSettings st, readSettings st) es \<and>
    theme_palette s = (ut_primary (getUIThemeOption (as_uiTheme (readSettings (su_storage s)))),
                       ut_secondary (getUIThemeOption (as_uiTheme (readSettings (su_storage s))))) \<and>
    ((\<forall>st'. SStorage st' \<notin> set es) \<longrightarrow> su_settings s = readSettings (su_storage s))"
proof -
  have "settings_synced (openSettings st)"
    using assms(1) by (simp add: settings_synced_def openSettings_def)
  from settings_run [OF this assms(2)] have run: "settings_synced s" "settings_abs s = foldl settings_spec (readSettings st, readSettings st) es"
    by (simp_all add: assms(3) openSettings_def settings_abs_def)
  moreover have "su_settings s = readSettings (su_storage s)" if "\<forall>st'. SStorage st' \<notin> set es"
    using spec_agrees [OF that, of "(readSettings st, readSettings st)"] unfolding run(2) [symmetric] by (simp add: settings_abs_def)
  ultimately show ?thesis by (auto simp: settings_synced_def settings_abs_def theme_palette_def Let_def)
qed

theorem settings_page_refines_witness:
  "theme_palette (foldl settings_step (openSettings Map.empty) [SUITheme ''purple'', SStorage Map.empty, SUITheme ''teal'', SLineWrapping False]) =
     (''#00897b'', ''#f59e0b'')"
proof -
  let ?es = "[SUITheme ''purple'', SStorage Map.empty, SUITheme ''teal'', SLineWrapping False]"
  have d: "settings_plain Map.empty" "as_uiTheme (snd (foldl settings_spec (readSettings Map.empty, readSettings Map.empty) ?es)) = ''teal''"
    by code_simp+
  from settings_page_refines [OF d(1) _ refl, of ?es] d show ?thesis
    by (simp add: settings_abs_def getUIThemeOption_def uiThemeOptions_def plain_event_def prod_eq_iff del: foldl_Cons)
qed

text \<open>The page does not hear of a change by another tab: it goes on showing the settings from before.\<close>

theorem settings_other_tab: "su_settings (settings_step s (SStorage st)) = su_settings s \<and>
  su_uiTheme (settings_step s (SStorage st)) = as_uiTheme (readSettings st)"
  by (simp add: settings_step_def syncTheme_def)

end
