(* ===== verification/Content_Registry.thy ===== *)
theory Content_Registry
  imports Content Settings
begin

section \<open>The editor's configuration: \<open>elements/contentRegistry.ts\<close>, \<open>ContentEditor.tsx\<close>, \<open>ContentViewer.tsx\<close>, \<open>DiffViewer.tsx\<close>\<close>

text \<open>
  Which language, theme and labels the editor, the viewer and the comparison use for a content
  type. The extensions of the editor package are named by the data given to them. Last the loading
  of the highlighting library by the comparison, as a state machine over the promises of
  \<open>loadScript\<close>: the library itself (\<open>window.hljs\<close>) is a parameter of each step.
\<close>

subsection \<open>Code themes\<close>

record CodeTokens =
  tk_keyword :: string
  tk_plain :: string
  tk_property :: string
  tk_function :: string
  tk_constant :: string
  tk_number :: string
  tk_string :: string
  tk_comment :: string
  tk_invalid :: string

record CodeThemeDefinition =
  ct_dark :: bool
  ct_background :: string
  ct_foreground :: string
  ct_gutter :: string
  ct_gutterBorder :: string
  ct_activeLine :: string
  ct_selection :: string
  ct_token :: CodeTokens

definition codeThemeDefinitions :: "(string \<times> CodeThemeDefinition) list" where
  "codeThemeDefinitions =
     [(''github-light-plus'', \<lparr>ct_dark = False, ct_background = ''#ffffff'', ct_foreground = ''#24292f'', ct_gutter = ''#57606a'',
         ct_gutterBorder = ''#d8dee4'', ct_activeLine = ''#f6f8fa'', ct_selection = ''#0969da33'', ct_token =
         \<lparr>tk_keyword = ''#b42318'', tk_plain = ''#24292f'', tk_property = ''#c2410c'', tk_function = ''#7c3aed'', tk_constant = ''#1d4ed8'',
          tk_number = ''#4f46e5'', tk_string = ''#0550ae'', tk_comment = ''#57606a'', tk_invalid = ''#82071e''\<rparr>\<rparr>),
      (''github-light'', \<lparr>ct_dark = False, ct_background = ''#ffffff'', ct_foreground = ''#24292f'', ct_gutter = ''#57606a'',
         ct_gutterBorder = ''#d8dee4'', ct_activeLine = ''#f6f8fa'', ct_selection = ''#0969da33'', ct_token =
         \<lparr>tk_keyword = ''#cf222e'', tk_plain = ''#24292f'', tk_property = ''#953800'', tk_function = ''#8250df'', tk_constant = ''#0550ae'',
          tk_number = ''#0550ae'', tk_string = ''#0a3069'', tk_comment = ''#6e7781'', tk_invalid = ''#82071e''\<rparr>\<rparr>),
      (''one-dark'', \<lparr>ct_dark = True, ct_background = ''#282c34'', ct_foreground = ''#abb2bf'', ct_gutter = ''#636d83'',
         ct_gutterBorder = ''#3e4451'', ct_activeLine = ''#2c313c'', ct_selection = ''#3e4451'', ct_token =
         \<lparr>tk_keyword = ''#c678dd'', tk_plain = ''#abb2bf'', tk_property = ''#e06c75'', tk_function = ''#61afef'', tk_constant = ''#d19a66'',
          tk_number = ''#d19a66'', tk_string = ''#98c379'', tk_comment = ''#7f848e'', tk_invalid = ''#f44747''\<rparr>\<rparr>)]"

datatype editor_language = JsonLanguage | TomlMode | PropertiesMode

datatype editor_extension =
    LineWrapping
  | EditorTheme "(string \<times> (string \<times> string) list) list" bool
  | Highlighting "(string list \<times> string) list"
  | Language editor_language
  | Phrases "(string \<times> string) list"

definition theme_rules :: "CodeThemeDefinition \<Rightarrow> (string \<times> (string \<times> string) list) list" where
  "theme_rules d =
     [(''&'', [(''backgroundColor'', ct_background d), (''color'', ct_foreground d)]),
      (''.cm-content'', [(''caretColor'', ct_foreground d),
         (''fontFamily'', ''ui-monospace, SFMono-Regular, Menlo, Consolas, monospace''), (''fontSize'', ''13px'')]),
      (''.cm-gutters'', [(''backgroundColor'', ct_background d), (''borderRight'', ''1px solid '' @ ct_gutterBorder d),
         (''color'', ct_gutter d)]),
      (''.cm-activeLine'', [(''backgroundColor'', ct_activeLine d)]),
      (''.cm-activeLineGutter'', [(''backgroundColor'', ct_activeLine d)]),
      (''&.cm-focused .cm-selectionBackground, .cm-selectionBackground, .cm-content ::selection'',
         [(''backgroundColor'', ct_selection d @ '' !important'')]),
      (''&.cm-focused'', [(''outline'', ''none'')])]"

definition highlight_rules :: "CodeTokens \<Rightarrow> (string list \<times> string) list" where
  "highlight_rules tk =
     [([''keyword'', ''operatorKeyword''], tk_keyword tk),
      ([''name'', ''deleted'', ''character'', ''macroName''], tk_plain tk),
      ([''propertyName'', ''variableName'', ''labelName''], tk_property tk),
      ([''function(variableName)'', ''function(propertyName)''], tk_function tk),
      ([''color'', ''constant(name)'', ''standard(name)''], tk_constant tk),
      ([''definition(name)'', ''separator''], tk_plain tk),
      ([''brace'', ''bracket'', ''paren''], tk_plain tk),
      ([''annotation''], tk_function tk),
      ([''number'', ''bool'', ''null'', ''atom'', ''special(variableName)''], tk_number tk),
      ([''string'', ''special(string)'', ''regexp'', ''inserted''], tk_string tk),
      ([''comment''], tk_comment tk),
      ([''invalid''], tk_invalid tk)]"

definition createCodeTheme :: "string \<Rightarrow> editor_extension list option" where
  \<comment> \<open>\<open>None\<close> is the error of reading a property of \<open>undefined\<close>, for a name that is no theme\<close>
  "createCodeTheme theme = map_option
     (\<lambda>d. [EditorTheme (theme_rules d) (ct_dark d), Highlighting (highlight_rules (ct_token d))])
     (map_of codeThemeDefinitions theme)"

subsection \<open>Languages and labels\<close>

record ContentTooling =
  tl_label :: string
  tl_language :: "editor_language option"

definition registry :: "(int \<times> ContentTooling) list" where
  "registry = [(1, \<lparr>tl_label = ''JSON'', tl_language = Some JsonLanguage\<rparr>),
     (2, \<lparr>tl_label = ''TOML'', tl_language = Some TomlMode\<rparr>),
     (3, \<lparr>tl_label = ''INI'', tl_language = Some PropertiesMode\<rparr>),
     (4, \<lparr>tl_label = ''PLAINTEXT'', tl_language = None\<rparr>)]"

definition getContentTooling :: "ContentType option \<Rightarrow> ContentTooling" where
  "getContentTooling contentType =
     (let other = \<lparr>tl_label = content_type_text contentType, tl_language = None\<rparr> in
      case contentTypeKey contentType of
        Some k \<Rightarrow> opt_or (number_map_get registry k) other
      | None \<Rightarrow> other)"

definition registry_label :: "ContentType option \<Rightarrow> string" where
  \<comment> \<open>\<open>getContentTypeLabel\<close> of \<open>contentRegistry.ts\<close>\<close>
  "registry_label contentType =
     str_or (tl_label (getContentTooling contentType))
       (opt_str_or (Option.bind (contentTypeKey contentType) code_label) (content_type_text contentType))"

definition getContentLanguage :: "ContentType option \<Rightarrow> editor_extension list" where
  "getContentLanguage contentType = (case tl_language (getContentTooling contentType) of
       Some language \<Rightarrow> [Language language] | None \<Rightarrow> [])"

definition getEditorPhrases :: "Translator \<Rightarrow> (string \<times> string) list" where
  "getEditorPhrases t =
     [(''Fold line'', t ''elements.editor.foldLine'' []),
      (''Unfold line'', t ''elements.editor.unfoldLine'' []),
      (''folded code'', t ''elements.editor.foldedCode'' []),
      (''unfold'', t ''elements.editor.unfold'' []),
      (''Folded lines'', t ''elements.editor.foldedLines'' []),
      (''Unfolded lines'', t ''elements.editor.unfoldedLines'' []),
      (''to'', t ''elements.editor.to'' []),
      (''Find'', t ''elements.editor.find'' []),
      (''Replace'', t ''elements.editor.replace'' []),
      (''next'', t ''elements.editor.next'' []),
      (''previous'', t ''elements.editor.previous'' []),
      (''all'', t ''elements.editor.all'' []),
      (''match case'', t ''elements.editor.matchCase'' []),
      (''regexp'', t ''elements.editor.regexp'' []),
      (''by word'', t ''elements.editor.byWord'' []),
      (''replace'', t ''elements.editor.replaceAction'' []),
      (''replace all'', t ''elements.editor.replaceAll'' []),
      (''close'', t ''elements.editor.close'' []),
      (''Go to line'', t ''elements.editor.goToLine'' []),
      (''go'', t ''elements.editor.go'' []),
      (''Diagnostics'', t ''elements.editor.diagnostics'' []),
      (''No diagnostics'', t ''elements.editor.noDiagnostics'' []),
      (''Completions'', t ''elements.editor.completions'' []),
      (''replaced match on line $'', t ''elements.editor.replacedLine'' []),
      (''replaced $ matches'', t ''elements.editor.replacedMatches'' []),
      (''current match'', t ''elements.editor.currentMatch'' []),
      (''on line'', t ''elements.editor.onLine'' []),
      (''Control character'', t ''elements.editor.controlCharacter'' [])]"

definition getContentExtensions :: "ContentType option \<Rightarrow> string \<Rightarrow> bool \<Rightarrow> Translator option \<Rightarrow> editor_extension list option" where
  "getContentExtensions contentType codeTheme lineWrapping t = map_option
     (\<lambda>theme. (if lineWrapping then [LineWrapping] else []) @ theme @ getContentLanguage contentType @
       (case t of Some t' \<Rightarrow> [Phrases (getEditorPhrases t')] | None \<Rightarrow> []))
     (createCodeTheme codeTheme)"

subsection \<open>The editor and the viewer\<close>

record ContentEditorProps =
  ce_value :: string
  ce_contentType :: "ContentType option"
  ce_ariaLabel :: "string option"
  ce_codeTheme :: string
  ce_disabled :: bool
  ce_lineWrapping :: bool
  ce_showContentType :: bool
  ce_validation :: "ContentValidationResult option"

record editor_view =
  vw_label :: "string option"
  vw_ariaLabel :: string
  vw_value :: string
  vw_editable :: bool
  vw_extensions :: "editor_extension list option"
  vw_linters :: "lint_source list"
  vw_error :: "string option"

definition validationMessage :: "ContentValidationResult option \<Rightarrow> Translator \<Rightarrow> string" where
  "validationMessage v t = (case v of Some r \<Rightarrow> if \<not> vr_valid r then formatValidationMessage r t else [] | None \<Rightarrow> [])"

definition ContentEditor :: "Translator \<Rightarrow> ContentEditorProps \<Rightarrow> editor_view" where
  "ContentEditor t p =
     (let message = validationMessage (ce_validation p) t in
      \<lparr>vw_label = (if ce_showContentType p then Some (registry_label (ce_contentType p)) else None),
       vw_ariaLabel = opt_or (ce_ariaLabel p) (t ''elements.rawContent'' []),
       vw_value = ce_value p, vw_editable = (\<not> ce_disabled p),
       vw_extensions = getContentExtensions (ce_contentType p) (ce_codeTheme p) (ce_lineWrapping p) (Some t),
       vw_linters = createContentDiagnostics (ce_contentType p),
       vw_error = (if message \<noteq> [] then Some message else None)\<rparr>)"

definition ContentViewer ::
  "Translator \<Rightarrow> string \<Rightarrow> ContentType option \<Rightarrow> string option \<Rightarrow> string \<Rightarrow> bool \<Rightarrow> bool \<Rightarrow> editor_view" where
  "ContentViewer t v contentType ariaLabel codeTheme lineWrapping showLabel =
     \<lparr>vw_label = (if showLabel then Some (registry_label contentType) else None),
      vw_ariaLabel = opt_or ariaLabel (t ''elements.contentPreview'' []),
      vw_value = str_or v ''-'', vw_editable = False,
      vw_extensions = getContentExtensions contentType codeTheme lineWrapping (Some t),
      vw_linters = [], vw_error = None\<rparr>"

subsection \<open>Highlighting in the comparison\<close>

definition highlightCoreUrl :: string where
  "highlightCoreUrl = ''https://cdn.jsdelivr.net/gh/highlightjs/cdn-release@11.11.1/build/highlight.min.js''"

definition highlightLanguageUrls :: "(string \<times> string) list" where
  "highlightLanguageUrls =
     [(''json'', ''https://cdn.jsdelivr.net/gh/highlightjs/cdn-release@11.11.1/build/languages/json.min.js''),
      (''ini'', ''https://cdn.jsdelivr.net/gh/highlightjs/cdn-release@11.11.1/build/languages/ini.min.js'')]"

definition getHighlightLanguage :: "ContentType option \<Rightarrow> string option" where
  "getHighlightLanguage contentType =
     (let numeric = Number_of contentType in
      if number_is 1 numeric then Some ''json''
      else if number_is 2 numeric \<or> number_is 3 numeric then Some ''ini''
      else case contentType of
          Some (CTStr s) \<Rightarrow>
            (let normalized = js_toUpperCase s in
             if normalized = ''JSON'' then Some ''json''
             else if normalized = ''TOML'' \<or> normalized = ''INI'' then Some ''ini'' else None)
        | _ \<Rightarrow> None)"

datatype script_status = ScriptPending | ScriptLoaded | ScriptFailed

record hljs =
  \<comment> \<open>the library in the window: whether it has \<open>getLanguage\<close>, and the languages it knows\<close>
  hj_hasGetLanguage :: bool
  hj_languages :: "string list"

record hl_env =
  \<comment> \<open>\<open>window.hljs\<close>, the module's \<open>loadingScripts\<close> with the state of each promise, the script elements
    added so far, and those marked as loaded\<close>
  he_hljs :: "hljs option"
  he_scripts :: "(string \<times> script_status) list"
  he_elements :: "string list"
  he_loaded :: "string list"

definition hasHighlightLanguage :: "string \<Rightarrow> hl_env \<Rightarrow> bool" where
  "hasHighlightLanguage lang env = (case he_hljs env of None \<Rightarrow> False
     | Some h \<Rightarrow> \<not> hj_hasGetLanguage h \<or> lang \<in> set (hj_languages h))"

definition loadScript :: "string \<Rightarrow> hl_env \<Rightarrow> hl_env" where
  "loadScript src env = (case map_of (he_scripts env) src of
       Some _ \<Rightarrow> env
     | None \<Rightarrow>
         if src \<in> set (he_loaded env) then env\<lparr>he_scripts := he_scripts env @ [(src, ScriptLoaded)]\<rparr>
         else env\<lparr>he_scripts := he_scripts env @ [(src, ScriptPending)], he_elements := he_elements env @ [src]\<rparr>)"

definition script_settled :: "string \<Rightarrow> bool \<Rightarrow> hl_env \<Rightarrow> hl_env" where
  \<comment> \<open>\<open>onload\<close> and \<open>onerror\<close>\<close>
  "script_settled src ok env = (case map_of (he_scripts env) src of
       Some ScriptPending \<Rightarrow>
         env\<lparr>he_scripts := upsert src (if ok then ScriptLoaded else ScriptFailed) (he_scripts env),
             he_loaded := (if ok then he_loaded env @ [src] else he_loaded env)\<rparr>
     | _ \<Rightarrow> env)"

datatype hl_stage = AtCore bool | AtLanguage string | HlResolved | HlRejected

record hl_viewer =
  hv_language :: string
  hv_stage :: hl_stage
  hv_mounted :: bool
  hv_loaded :: "string option"

definition ensureHighlight :: "string \<Rightarrow> hl_env \<Rightarrow> hl_env \<times> hl_stage" where
  "ensureHighlight lang env =
     (if he_hljs env \<noteq> None then (env, AtCore True) else (loadScript highlightCoreUrl env, AtCore False))"

definition after_core :: "string \<Rightarrow> hl_env \<Rightarrow> hl_env \<times> hl_stage" where
  \<comment> \<open>the callback of \<open>core.then\<close>\<close>
  "after_core lang env = (case map_of highlightLanguageUrls lang of
       None \<Rightarrow> (env, HlResolved)
     | Some languageUrl \<Rightarrow>
         (case he_hljs env of
            Some h \<Rightarrow> if hj_hasGetLanguage h \<and> lang \<in> set (hj_languages h) then (env, HlResolved)
                      else (loadScript languageUrl env, AtLanguage languageUrl)
          | None \<Rightarrow> (loadScript languageUrl env, AtLanguage languageUrl)))"

definition hl_advance :: "hl_env \<Rightarrow> hl_viewer \<Rightarrow> hl_env \<times> hl_viewer" where
  \<comment> \<open>the next callback of a viewer's chain of promises, if the promise it waits for is settled\<close>
  "hl_advance env v = (case hv_stage v of
       AtCore ready \<Rightarrow>
         if ready \<or> map_of (he_scripts env) highlightCoreUrl = Some ScriptLoaded
         then (case after_core (hv_language v) env of (env', st) \<Rightarrow> (env', v\<lparr>hv_stage := st\<rparr>))
         else if map_of (he_scripts env) highlightCoreUrl = Some ScriptFailed then (env, v\<lparr>hv_stage := HlRejected\<rparr>)
         else (env, v)
     | AtLanguage src \<Rightarrow> (case map_of (he_scripts env) src of
           Some ScriptLoaded \<Rightarrow> (env, v\<lparr>hv_stage := HlResolved\<rparr>)
         | Some ScriptFailed \<Rightarrow> (env, v\<lparr>hv_stage := HlRejected\<rparr>)
         | _ \<Rightarrow> (env, v))
     | HlResolved \<Rightarrow>
         (env, if hv_mounted v \<and> hasHighlightLanguage (hv_language v) env then v\<lparr>hv_loaded := Some (hv_language v)\<rparr> else v)
     | HlRejected \<Rightarrow> (env, v))"

definition open_viewer :: "string \<Rightarrow> hl_env \<Rightarrow> hl_env \<times> hl_viewer" where
  \<comment> \<open>the state and the effect of a new \<open>DiffViewer\<close> with a highlighted language\<close>
  "open_viewer lang env =
     (let loaded = (if hasHighlightLanguage lang env then Some lang else None);
          (env', st) = ensureHighlight lang env
      in (env', \<lparr>hv_language = lang, hv_stage = st, hv_mounted = True, hv_loaded = loaded\<rparr>))"

definition highlightReady :: "hl_env \<Rightarrow> hl_viewer \<Rightarrow> bool" where
  "highlightReady env v = (hv_loaded v = Some (hv_language v) \<or> hasHighlightLanguage (hv_language v) env)"

definition renderContent :: "(string \<Rightarrow> string \<Rightarrow> string option) \<Rightarrow> hl_env \<Rightarrow> hl_viewer option \<Rightarrow> string \<Rightarrow> string \<times> bool" where
  \<comment> \<open>the text, and whether it is the library's markup; \<open>highlight\<close> is the library's function, \<open>None\<close> where
    it throws, and a viewer with no language has no chain\<close>
  "renderContent highlight env v source = (case v of
       None \<Rightarrow> (source, False)
     | Some w \<Rightarrow>
         if \<not> highlightReady env w \<or> he_hljs env = None then (source, False)
         else case highlight (hv_language w) source of
             None \<Rightarrow> (source, False)
           | Some m \<Rightarrow> if m = [] then (source, False) else (m, True))"

definition DiffViewer_view :: "Translator \<Rightarrow> DiffViewerProps \<Rightarrow> ui list" where
  "DiffViewer_view t p =
     [UText (opt_or (dv_baseLabel p) (t ''common.diffBase'' [])), UText (opt_or (dv_compareLabel p) (t ''common.diffCompare'' []))] @
     (if dv_oldValue p = dv_newValue p then [UText (t ''common.noDifferences'' [])] else [UDiff p])"

subsection \<open>Properties\<close>

lemma codeTheme_defined: "isCodeTheme v \<Longrightarrow> \<exists>d. map_of codeThemeDefinitions v = Some d"
  by (auto simp: isCodeTheme_def codeThemeOptions_def codeThemeDefinitions_def)

lemma readSettings_codeTheme: "isCodeTheme (as_codeTheme (readSettings st))"
  by (auto simp: readSettings_props str_prop_def split: option.split json.split)

text \<open>With the theme taken from the stored settings, whatever they are, building the editor's
  extensions never fails, and wrapping, theme, language and phrases come in the order of the source.\<close>

theorem editor_extensions_total:
  "\<exists>theme highlighting. getContentExtensions ct (as_codeTheme (readSettings st)) wrap (Some t) =
     Some ((if wrap then [LineWrapping] else []) @ [theme, highlighting] @ getContentLanguage ct @ [Phrases (getEditorPhrases t)])"
  using codeTheme_defined [OF readSettings_codeTheme [of st]]
  by (auto simp: getContentExtensions_def createCodeTheme_def)

text \<open>A script that failed to load is never requested again: the rejected promise stays in
  \<open>loadingScripts\<close>, so that every comparison opened after one failure of the library's script shows
  plain text until the page is reloaded, and adds no script element.\<close>

theorem highlight_failure_sticks:
  assumes "he_hljs env = None" and "map_of (he_scripts env) highlightCoreUrl = Some ScriptFailed"
    and "(env', v) = open_viewer lang env"
  shows "env' = env \<and> snd (hl_advance env' v) = v\<lparr>hv_stage := HlRejected\<rparr> \<and>
    renderContent hl env' (Some (snd (hl_advance env' v))) source = (source, False)"
  using assms
  by (simp add: open_viewer_def ensureHighlight_def loadScript_def hasHighlightLanguage_def hl_advance_def renderContent_def Let_def)

definition demo_failed_env :: hl_env where
  "demo_failed_env = \<lparr>he_hljs = None, he_scripts = [(highlightCoreUrl, ScriptFailed)], he_elements = [highlightCoreUrl], he_loaded = []\<rparr>"

theorem highlight_failure_sticks_witness:
  "renderContent (\<lambda>l s. Some s) (fst (open_viewer ''json'' demo_failed_env))
     (Some (snd (hl_advance (fst (open_viewer ''json'' demo_failed_env)) (snd (open_viewer ''json'' demo_failed_env))))) ''x'' = (''x'', False)"
proof -
  have d: "he_hljs demo_failed_env = None" "map_of (he_scripts demo_failed_env) highlightCoreUrl = Some ScriptFailed"
    by (simp_all add: demo_failed_env_def)
  from highlight_failure_sticks [OF d prod.collapse, of "''json''" "\<lambda>l s. Some s" "''x''"] show ?thesis by blast
qed

subsection \<open>Scripts are requested once\<close>

datatype HlEvent = HOpen string | HAdvance nat | HSettled string bool | HLibrary "hljs option" | HClose nat

definition hl_step :: "hl_env \<times> hl_viewer list \<Rightarrow> HlEvent \<Rightarrow> hl_env \<times> hl_viewer list" where
  \<comment> \<open>viewers open and close, their promises continue, scripts settle, and a script may define the library\<close>
  "hl_step s e = (case s of (env, vs) \<Rightarrow> (case e of
       HOpen lang \<Rightarrow> (case open_viewer lang env of (env', v) \<Rightarrow> (env', vs @ [v]))
     | HAdvance i \<Rightarrow>
         if i < length vs then (case hl_advance env (vs ! i) of (env', v) \<Rightarrow> (env', vs[i := v])) else (env, vs)
     | HSettled src ok \<Rightarrow> (script_settled src ok env, vs)
     | HLibrary h \<Rightarrow> (env\<lparr>he_hljs := h\<rparr>, vs)
     | HClose i \<Rightarrow> if i < length vs then (env, vs[i := (vs ! i)\<lparr>hv_mounted := False\<rparr>]) else (env, vs)))"

definition scripts_inv :: "hl_env \<Rightarrow> bool" where
  "scripts_inv env \<longleftrightarrow> distinct (he_elements env) \<and> set (he_elements env) \<subseteq> fst ` set (he_scripts env)"

lemma scripts_inv_keep:
  "scripts_inv env \<Longrightarrow> he_elements env' = he_elements env \<Longrightarrow> fst ` set (he_scripts env) \<subseteq> fst ` set (he_scripts env') \<Longrightarrow> scripts_inv env'"
  by (auto simp: scripts_inv_def)

lemma loadScript_inv: "scripts_inv env \<Longrightarrow> scripts_inv (loadScript src env)"
  by (auto simp: scripts_inv_def loadScript_def map_of_eq_None_iff split: option.split)

lemma script_settled_inv: "scripts_inv env \<Longrightarrow> scripts_inv (script_settled src ok env)"
proof (rule scripts_inv_keep [of env])
  have "fst ` set (upsert src v kvs) = insert src (fst ` set kvs)" for v and kvs :: "(string \<times> script_status) list"
    by (induction src v kvs rule: upsert.induct) auto
  then show "fst ` set (he_scripts env) \<subseteq> fst ` set (he_scripts (script_settled src ok env))"
    by (auto simp: script_settled_def split: option.split script_status.split)
qed (auto simp: script_settled_def split: option.split script_status.split)

lemma hl_step_inv: "scripts_inv (fst s) \<Longrightarrow> scripts_inv (fst (hl_step s e))"
proof -
  assume inv: "scripts_inv (fst s)"
  have core: "scripts_inv (fst (after_core lang (fst s)))" for lang
    using inv by (auto simp: after_core_def loadScript_inv split: option.split)
  have "scripts_inv (fst (open_viewer lang (fst s)))" for lang
    using inv by (simp add: open_viewer_def ensureHighlight_def loadScript_inv Let_def)
  moreover have "scripts_inv (fst (hl_advance (fst s) v))" for v
    using inv core by (auto simp: hl_advance_def case_prod_unfold split: hl_stage.split option.split script_status.split)
  moreover have "scripts_inv ((fst s)\<lparr>he_hljs := h\<rparr>)" for h
    using inv by (simp add: scripts_inv_def)
  ultimately show ?thesis
    using inv script_settled_inv [OF inv] by (cases e) (simp_all add: hl_step_def case_prod_unfold)
qed

text \<open>However many comparisons are opened and closed and in whatever order scripts and promises
  settle, no script is added to the page twice.\<close>

theorem scripts_requested_once:
  "distinct (he_elements (fst (foldl hl_step (\<lparr>he_hljs = h, he_scripts = [], he_elements = [], he_loaded = []\<rparr>, []) es)))"
proof -
  have "scripts_inv (fst (foldl hl_step s es))" if "scripts_inv (fst s)" for s
    using that by (induction es arbitrary: s) (simp_all add: hl_step_inv)
  from this [of "(\<lparr>he_hljs = h, he_scripts = [], he_elements = [], he_loaded = []\<rparr>, [])"] show ?thesis
    by (simp add: scripts_inv_def)
qed

end
