(* ===== verification/Elements_Page.thy ===== *)
theory Elements_Page
  imports Latest_Loader Feedback Workflow_Options Content_Registry
begin

section \<open>The elements page: \<open>elements/ElementsPage.tsx\<close>\<close>

text \<open>
  The page lists the elements of an environment, a page at a time with a button that appends the
  next one, searches them, and creates and deletes elements. Loads are queued, started and settled
  as on the environments page (\<open>Envs_Page\<close>); a load also carries the query, the page size, the seek
  position and whether its result is appended. \<open>loadElements\<close> called without arguments takes the
  query and the page size from the refs at that moment. The content typed into the form of a new
  element is validated by a timer that every change restarts, and once more on submission.

  The facts: a response that changes the list answers a request for the route, the query and the
  page size shown; loading more appends the next page; an element is created only with a key and a
  content that passes the validation of its type.
\<close>

subsection \<open>State\<close>

record ElementsTarget =
  et_appId :: string
  et_env :: string
  et_query :: string
  et_limit :: int

record ElementsLoad =
  ml_requestId :: nat
  ml_target :: ElementsTarget
  ml_seek :: string
  ml_append :: bool
  ml_awaited :: bool

record ElementsMutation =
  mu_create :: bool
  mu_target :: ElementsTarget

record ElementsState =
  ep_appId :: string
  ep_env :: string
  ep_elements :: "Element list"
  ep_loading :: bool
  ep_submitting :: bool
  ep_error :: ErrorFeedback
  ep_queryInput :: string
  ep_query :: string
  ep_pageSize :: int
  ep_hasMore :: bool
  ep_nextSeek :: string
  ep_loadingMore :: bool
  ep_createOpen :: bool
  ep_deleteTarget :: string
  ep_createKey :: string
  ep_createRaw :: string
  ep_createContentType :: int
  ep_createValidation :: ContentValidationResult
  ep_timer :: bool
  ep_requestSeq :: nat
  ep_mounted :: bool
  ep_lastLoadKey :: string
  ep_appIdRef :: string
  ep_envRef :: string
  ep_queryRef :: string
  ep_pageSizeRef :: int
  ep_microtasks :: "(string \<times> string) list"
  ep_loads :: "ElementsLoad list"
  ep_mutations :: "ElementsMutation list"
  ep_started :: ElementsTarget

definition defaultPageSize :: int where
  "defaultPageSize = 15"

definition elements_pageSizeOptions :: "int list" where
  "elements_pageSizeOptions = [15, 30, 50, 100]"

definition initElements :: "string \<Rightarrow> string \<Rightarrow> ElementsState" where
  "initElements appId env = \<lparr>ep_appId = appId, ep_env = env, ep_elements = [], ep_loading = True,
     ep_submitting = False, ep_error = initError, ep_queryInput = [], ep_query = [],
     ep_pageSize = defaultPageSize, ep_hasMore = False, ep_nextSeek = [], ep_loadingMore = False,
     ep_createOpen = False, ep_deleteTarget = [], ep_createKey = [], ep_createRaw = [],
     ep_createContentType = fst (hd contentTypes), ep_createValidation = validResult, ep_timer = False,
     ep_requestSeq = 0, ep_mounted = False, ep_lastLoadKey = [], ep_appIdRef = appId, ep_envRef = env,
     ep_queryRef = [], ep_pageSizeRef = defaultPageSize, ep_microtasks = [], ep_loads = [], ep_mutations = [],
     ep_started = \<lparr>et_appId = [], et_env = [], et_query = [], et_limit = 0\<rparr>\<rparr>"

definition ep_elementsPath :: "ElementsTarget \<Rightarrow> string \<Rightarrow> string" where
  "ep_elementsPath g seek = envPath (et_appId g) (et_env g) @ ''/elements'' @ buildQuery
     [(''limit'', qnum (et_limit g)), (''query'', qopt (et_query g)), (''seek'', qopt seek)]"

definition elements_loadKey :: "string \<Rightarrow> string \<Rightarrow> string" where
  "elements_loadKey appId env = json_stringify (JObj [(''appId'', JStr appId), (''env'', JStr env)])"

definition ep_target :: "ElementsState \<Rightarrow> ElementsTarget" where
  "ep_target s = \<lparr>et_appId = ep_appId s, et_env = ep_env s, et_query = ep_query s, et_limit = ep_pageSize s\<rparr>"

subsection \<open>Loading\<close>

type_synonym elements_handler = "ElementsState \<Rightarrow> ElementsState \<times> effect list"

definition canApplyElementMutation :: "string \<Rightarrow> string \<Rightarrow> ElementsState \<Rightarrow> bool" where
  "canApplyElementMutation startedAppId startedEnv s =
     (ep_mounted s \<and> ep_appIdRef s = startedAppId \<and> ep_envRef s = startedEnv)"

definition ep_start :: "ElementsLoad \<Rightarrow> ElementsState \<Rightarrow> ElementsState" where
  "ep_start l s = s\<lparr>ep_requestSeq := ml_requestId l, ep_loads := ep_loads s @ [l], ep_started := ml_target l\<rparr>"

definition ep_settle :: "nat \<Rightarrow> ElementsState \<Rightarrow> ElementsState" where
  "ep_settle i s = s\<lparr>ep_loads := remove_at i (ep_loads s)\<rparr>"

definition loadElements :: "Translator \<Rightarrow> ElementsTarget \<Rightarrow> string \<Rightarrow> bool \<Rightarrow> bool \<Rightarrow> elements_handler" where
  "loadElements t g seek appending awaited s =
     (let requestId = Suc (ep_requestSeq s) in
      if et_appId g = [] \<or> et_env g = [] then
        (let s' = s\<lparr>ep_requestSeq := requestId, ep_started := g\<rparr> in
         (if ep_mounted s'
          then s'\<lparr>ep_elements := [], ep_hasMore := False, ep_nextSeek := [],
                  ep_error := reportError (t ''elements.error.missingLocation'' []) (ep_error s'),
                  ep_loading := False, ep_loadingMore := False\<rparr>
          else s', []))
      else (ep_start \<lparr>ml_requestId = requestId, ml_target = g, ml_seek = seek, ml_append = appending, ml_awaited = awaited\<rparr> s,
            [Request (ep_elementsPath g seek) noInit]))"

definition ep_apply :: "Translator \<Rightarrow> ElementsLoad \<Rightarrow> failure + ElementsResponse option \<Rightarrow> ElementsState \<Rightarrow> ElementsState" where
  "ep_apply t l outcome s =
     (if \<not> ep_mounted s \<or> ml_requestId l \<noteq> ep_requestSeq s then s
      else case deref outcome of
          Inr d \<Rightarrow> s\<lparr>ep_elements := (if ml_append l then ep_elements s @ opt_or (es_elements d) [] else opt_or (es_elements d) []),
            ep_hasMore := truthy_bool (es_hasMore d), ep_nextSeek := opt_str_or (es_nextSeek d) [],
            ep_error := reportError [] (ep_error s), ep_loading := False, ep_loadingMore := False\<rparr>
        | Inl err \<Rightarrow> s\<lparr>ep_elements := (if \<not> ml_append l then [] else ep_elements s),
            ep_hasMore := False, ep_nextSeek := [],
            ep_error := reportError (getErrorMessage err (t ''elements.error.load'' [])) (ep_error s),
            ep_loading := False, ep_loadingMore := False\<rparr>)"

definition ep_finally :: "ElementsState \<Rightarrow> ElementsState" where
  "ep_finally s = (if ep_mounted s then s\<lparr>ep_submitting := False\<rparr> else s)"

definition ep_loaded :: "Translator \<Rightarrow> nat \<Rightarrow> failure + ElementsResponse option \<Rightarrow> elements_handler" where
  "ep_loaded t i outcome s =
     (if i < length (ep_loads s) then
        (let l = ep_loads s ! i; s' = ep_apply t l outcome (ep_settle i s) in
         (if ml_awaited l then ep_finally s' else s', []))
      else (s, []))"

definition ep_microtask :: "Translator \<Rightarrow> elements_handler" where
  "ep_microtask t s = (case ep_microtasks s of
       [] \<Rightarrow> (s, [])
     | (appId, env) # rest \<Rightarrow>
         loadElements t \<lparr>et_appId = appId, et_env = env, et_query = ep_queryRef s, et_limit = ep_pageSizeRef s\<rparr>
           [] False False (s\<lparr>ep_microtasks := rest\<rparr>))"

definition ep_commit :: "ElementsState \<Rightarrow> ElementsState \<Rightarrow> ElementsState" where
  \<comment> \<open>the layout effect, the loading effect and the validation effect after a rendering; \<open>s0\<close> is the
    previous one\<close>
  "ep_commit s0 s =
     (let s1 = s\<lparr>ep_appIdRef := ep_appId s, ep_envRef := ep_env s, ep_queryRef := ep_query s, ep_pageSizeRef := ep_pageSize s\<rparr>;
          key = elements_loadKey (ep_appId s1) (ep_env s1);
          s2 = (if ep_lastLoadKey s1 \<noteq> key
                then s1\<lparr>ep_lastLoadKey := key, ep_microtasks := ep_microtasks s1 @ [(ep_appId s1, ep_env s1)]\<rparr> else s1)
      in if ep_createOpen s0 \<noteq> ep_createOpen s2 \<or> ep_createContentType s0 \<noteq> ep_createContentType s2 \<or>
            ep_createRaw s0 \<noteq> ep_createRaw s2
         then s2\<lparr>ep_timer := ep_createOpen s2\<rparr> else s2)"

subsection \<open>Handlers\<close>

definition ep_reload :: "ElementsState \<Rightarrow> ElementsState" where
  "ep_reload s = s\<lparr>ep_loading := True, ep_hasMore := False, ep_nextSeek := []\<rparr>"

definition ep_handleSearchSubmit :: "Translator \<Rightarrow> elements_handler" where
  "ep_handleSearchSubmit t s =
     (let nextQuery = js_trim (ep_queryInput s) in
      loadElements t ((ep_target s)\<lparr>et_query := nextQuery\<rparr>) [] False False
        (ep_reload (s\<lparr>ep_queryRef := nextQuery, ep_query := nextQuery\<rparr>)))"

definition handleLoadMore :: "Translator \<Rightarrow> elements_handler" where
  "handleLoadMore t s =
     (if \<not> ep_hasMore s \<or> ep_nextSeek s = [] \<or> ep_loadingMore s then (s, [])
      else loadElements t (ep_target s) (ep_nextSeek s) True False (s\<lparr>ep_loadingMore := True\<rparr>))"

definition ep_handleClearSearch :: "Translator \<Rightarrow> elements_handler" where
  "ep_handleClearSearch t s =
     loadElements t ((ep_target s)\<lparr>et_query := []\<rparr>) [] False False
       (ep_reload (s\<lparr>ep_queryRef := [], ep_queryInput := [], ep_query := []\<rparr>))"

definition ep_handlePageSizeChange :: "Translator \<Rightarrow> int \<Rightarrow> elements_handler" where
  "ep_handlePageSizeChange t n s =
     loadElements t ((ep_target s)\<lparr>et_limit := n\<rparr>) [] False False
       (ep_reload (s\<lparr>ep_pageSizeRef := n, ep_pageSize := n\<rparr>))"

definition ep_clearForm :: "ElementsState \<Rightarrow> ElementsState" where
  "ep_clearForm s = s\<lparr>ep_createOpen := False, ep_createKey := [], ep_createRaw := [],
     ep_createContentType := fst (hd contentTypes), ep_createValidation := validResult\<rparr>"

definition ep_closeCreateDialog :: "ElementsState \<Rightarrow> ElementsState" where
  "ep_closeCreateDialog s = (if ep_submitting s then s else ep_clearForm s)"

definition ep_closeDeleteDialog :: "ElementsState \<Rightarrow> ElementsState" where
  "ep_closeDeleteDialog s = (if ep_submitting s then s else s\<lparr>ep_deleteTarget := []\<rparr>)"

definition ep_submit :: "bool \<Rightarrow> ElementsState \<Rightarrow> ElementsState" where
  "ep_submit create s = s\<lparr>ep_submitting := True, ep_error := reportError [] (ep_error s),
     ep_mutations := ep_mutations s @ [\<lparr>mu_create = create, mu_target = ep_target s\<rparr>]\<rparr>"

definition ep_handleCreate :: "content_engine \<Rightarrow> Translator \<Rightarrow> elements_handler" where
  "ep_handleCreate eng t s =
     (let nextKey = js_trim (ep_createKey s) in
      if ep_appId s = [] \<or> ep_env s = [] \<or> nextKey = [] \<or> js_trim (ep_createRaw s) = [] then (s, [])
      else
        (let validation = validateContent eng (Some (CTNum (ep_createContentType s))) (ep_createRaw s) t;
             s' = s\<lparr>ep_createValidation := validation\<rparr>
         in if \<not> vr_valid validation then (s', [])
            else (ep_submit True s',
                  [Request (elementPath (ep_appId s) (ep_env s) nextKey)
                    (jsonBody (JObj [(''raw'', JStr (ep_createRaw s)), (''contentType'', JNum (ep_createContentType s))]))])))"

definition ep_handleDelete :: elements_handler where
  "ep_handleDelete s =
     (if ep_appId s = [] \<or> ep_env s = [] \<or> ep_deleteTarget s = [] then (s, [])
      else (ep_submit False s,
            [Request (elementPath (ep_appId s) (ep_env s) (ep_deleteTarget s)) (methodInit ''DELETE'')]))"

definition ep_mutated :: "Translator \<Rightarrow> nat \<Rightarrow> failure + unit \<Rightarrow> elements_handler" where
  \<comment> \<open>\<open>handleCreate\<close> and \<open>handleDelete\<close> after their first \<open>await\<close>\<close>
  "ep_mutated t i outcome s =
     (if i < length (ep_mutations s) then
        (let m = ep_mutations s ! i; s' = s\<lparr>ep_mutations := remove_at i (ep_mutations s)\<rparr>;
             apply_ok = canApplyElementMutation (et_appId (mu_target m)) (et_env (mu_target m)) s'
         in case outcome of
              Inr _ \<Rightarrow>
                if \<not> apply_ok then (ep_finally s', [])
                else loadElements t (mu_target m) [] False True
                       (ep_reload (if mu_create m then ep_clearForm s' else s'\<lparr>ep_deleteTarget := []\<rparr>))
            | Inl err \<Rightarrow>
                (ep_finally
                  (if apply_ok
                   then s'\<lparr>ep_error := reportError (getErrorMessage err
                          (t (if mu_create m then ''elements.error.create'' else ''elements.error.delete'') [])) (ep_error s')\<rparr>
                   else s'), []))
      else (s, []))"

definition ep_timerFired :: "content_engine \<Rightarrow> Translator \<Rightarrow> ElementsState \<Rightarrow> ElementsState" where
  "ep_timerFired eng t s =
     (if ep_timer s
      then s\<lparr>ep_timer := False,
             ep_createValidation := validateContent eng (Some (CTNum (ep_createContentType s))) (ep_createRaw s) t\<rparr>
      else s)"

subsection \<open>The step function\<close>

datatype ElementsEvent =
    MMount
  | MUnmount
  | MNavigate string string
  | MMicrotask
  | MTimer
  | MLoaded nat "failure + ElementsResponse option"
  | MMutated nat "failure + unit"
  | MQueryInput string
  | MSearch
  | MClearSearch
  | MPageSize int
  | MLoadMore
  | MOpenCreate
  | MCloseCreate
  | MChangeKey string
  | MChangeRaw string
  | MChangeType int
  | MCreate
  | MAskDelete string
  | MCloseDelete
  | MDelete

definition ep_modal :: "ElementsState \<Rightarrow> bool" where
  "ep_modal s = (ep_createOpen s \<or> ep_deleteTarget s \<noteq> [])"

definition ep_searchDisabled :: "ElementsState \<Rightarrow> bool" where
  "ep_searchDisabled s = (ep_loading s \<or> ep_loadingMore s \<or> ep_submitting s \<or> ep_appId s = [] \<or> ep_env s = [])"

definition ep_clearDisabled :: "ElementsState \<Rightarrow> bool" where
  "ep_clearDisabled s = (ep_loading s \<or> ep_loadingMore s \<or> ep_submitting s \<or> ep_query s = [] \<and> ep_queryInput s = [])"

definition ep_tableShown :: "ElementsState \<Rightarrow> bool" where
  "ep_tableShown s = (\<not> ep_loading s \<and> ep_elements s \<noteq> [])"

definition ep_createDisabled :: "ElementsState \<Rightarrow> bool" where
  "ep_createDisabled s = (ep_submitting s \<or> js_trim (ep_createKey s) = [] \<or> js_trim (ep_createRaw s) = [] \<or>
     \<not> vr_valid (ep_createValidation s))"

definition ep_page :: "Translator \<Rightarrow> ElementsState \<Rightarrow> ElementsEvent \<Rightarrow> ElementsState \<times> effect list" where
  \<comment> \<open>the controls of the page, behind no open dialog\<close>
  "ep_page t s e = (case e of
       MQueryInput v \<Rightarrow> if \<not> ep_searchDisabled s then (s\<lparr>ep_queryInput := v\<rparr>, []) else (s, [])
     | MSearch \<Rightarrow> if \<not> ep_searchDisabled s then ep_handleSearchSubmit t s else (s, [])
     | MClearSearch \<Rightarrow> if \<not> ep_clearDisabled s then ep_handleClearSearch t s else (s, [])
     | MPageSize n \<Rightarrow>
         if \<not> ep_searchDisabled s \<and> n \<in> set elements_pageSizeOptions then ep_handlePageSizeChange t n s else (s, [])
     | MLoadMore \<Rightarrow>
         if ep_tableShown s \<and> ep_hasMore s \<and> \<not> (ep_loadingMore s \<or> ep_submitting s) then handleLoadMore t s else (s, [])
     | MOpenCreate \<Rightarrow>
         if \<not> (ep_appId s = [] \<or> ep_env s = [] \<or> ep_submitting s) then (s\<lparr>ep_createOpen := True\<rparr>, []) else (s, [])
     | MAskDelete key \<Rightarrow>
         if ep_tableShown s \<and> key \<in> (\<lambda>x. em_key (el_metadata x)) ` set (ep_elements s) \<and> \<not> ep_submitting s
         then (s\<lparr>ep_deleteTarget := key\<rparr>, []) else (s, [])
     | _ \<Rightarrow> (s, []))"

definition ep_dialog :: "content_engine \<Rightarrow> Translator \<Rightarrow> ElementsState \<Rightarrow> ElementsEvent \<Rightarrow> ElementsState \<times> effect list" where
  "ep_dialog eng t s e = (case e of
       MCloseCreate \<Rightarrow> if ep_createOpen s then (ep_closeCreateDialog s, []) else (s, [])
     | MChangeKey v \<Rightarrow> if ep_createOpen s \<and> \<not> ep_submitting s then (s\<lparr>ep_createKey := v\<rparr>, []) else (s, [])
     | MChangeRaw v \<Rightarrow> if ep_createOpen s \<and> \<not> ep_submitting s then (s\<lparr>ep_createRaw := v\<rparr>, []) else (s, [])
     | MChangeType n \<Rightarrow>
         if ep_createOpen s \<and> \<not> ep_submitting s \<and> n \<in> fst ` set contentTypes
         then (s\<lparr>ep_createContentType := n\<rparr>, []) else (s, [])
     | MCreate \<Rightarrow> if ep_createOpen s \<and> \<not> ep_createDisabled s then ep_handleCreate eng t s else (s, [])
     | MCloseDelete \<Rightarrow> if ep_deleteTarget s \<noteq> [] then (ep_closeDeleteDialog s, []) else (s, [])
     | MDelete \<Rightarrow> if ep_deleteTarget s \<noteq> [] \<and> \<not> ep_submitting s then ep_handleDelete s else (s, [])
     | _ \<Rightarrow> (s, []))"

definition ep_handle :: "content_engine \<Rightarrow> Translator \<Rightarrow> ElementsState \<Rightarrow> ElementsEvent \<Rightarrow> ElementsState \<times> effect list" where
  "ep_handle eng t s e = (case e of
       MMount \<Rightarrow> (s\<lparr>ep_mounted := True, ep_timer := ep_createOpen s\<rparr>, [])
     | MUnmount \<Rightarrow> (s\<lparr>ep_mounted := False, ep_timer := False\<rparr>, [])
     | MMicrotask \<Rightarrow> ep_microtask t s
     | MTimer \<Rightarrow> (ep_timerFired eng t s, [])
     | MLoaded i outcome \<Rightarrow> ep_loaded t i outcome s
     | MMutated i outcome \<Rightarrow> ep_mutated t i outcome s
     | MNavigate appId env \<Rightarrow> if ep_mounted s then (s\<lparr>ep_appId := appId, ep_env := env\<rparr>, []) else (s, [])
     | _ \<Rightarrow>
         if \<not> ep_mounted s then (s, [])
         else if ep_modal s then ep_dialog eng t s e else ep_page t s e)"

definition elements_step :: "content_engine \<Rightarrow> Translator \<Rightarrow> ElementsState \<Rightarrow> ElementsEvent \<Rightarrow> ElementsState \<times> effect list" where
  "elements_step eng t s e =
     (let (s', efs) = ep_handle eng t s e in (if ep_mounted s' then ep_commit s s' else s', efs))"

subsection \<open>The view\<close>

definition ep_row :: "Translator \<Rightarrow> ElementsState \<Rightarrow> Element \<Rightarrow> ui list" where
  "ep_row t s element =
     (let metadata = el_metadata element in
      [UText (str_or (em_key metadata) ''-''), UText (formatVersionLabel (em_latestVersion metadata)),
       UText (formatVersionLabel (em_usingVersion metadata)), UText (formatVersionLabel (em_unpublishedVersion metadata)),
       UText (getContentTypeLabel (em_contentType metadata)),
       ULink (t ''elements.detail'' []) (buildDetailPath (ep_appId s) (ep_env s) (em_key metadata)),
       UButton (t ''elements.delete'' []) (ep_submitting s)])"

definition ep_table :: "Translator \<Rightarrow> ElementsState \<Rightarrow> ui list" where
  "ep_table t s =
     (if ep_loading s then LoadingState t (Some (t ''elements.loading'' []))
      else if length (ep_elements s) = 0 then
        (if ef_message (ep_error s) \<noteq> [] then []
         else EmptyState (t ''elements.noMatchingRecords'' [])
           (Some (if ep_query s \<noteq> [] then t ''elements.noSearchResults'' [] else t ''elements.emptyDescription'' [])))
      else
        [UTable (map (\<lambda>k. t k []) [''elements.key'', ''elements.latest'', ''elements.using'', ''elements.draft'', ''elements.type'',
           ''elements.actions'']) (map (ep_row t s) (ep_elements s))] @
        (if ep_hasMore s
         then [UButton (if ep_loadingMore s then t ''elements.loadingMore'' [] else t ''elements.loadMore'' [])
                 (ep_loadingMore s \<or> ep_submitting s)] else []))"

definition ep_editor :: "Translator \<Rightarrow> AppSettings \<Rightarrow> ElementsState \<Rightarrow> ContentEditorProps" where
  "ep_editor t settings s = \<lparr>ce_value = ep_createRaw s, ce_contentType = Some (CTNum (ep_createContentType s)),
     ce_ariaLabel = Some (t ''elements.raw'' []), ce_codeTheme = as_codeTheme settings, ce_disabled = ep_submitting s,
     ce_lineWrapping = as_editorLineWrapping settings, ce_showContentType = False,
     ce_validation = Some (ep_createValidation s)\<rparr>"

definition ep_createForm :: "Translator \<Rightarrow> AppSettings \<Rightarrow> ElementsState \<Rightarrow> ui list" where
  "ep_createForm t settings s =
     (let editor = ContentEditor t (ep_editor t settings s) in
      if ep_createOpen s then
        [UDialog (t ''elements.add'' [])
          [UInput (t ''elements.key'' []) (ep_createKey s) (ep_submitting s) (t ''elements.keyHelp'' []),
           USelect (t ''elements.contentType'' []) (int_str (ep_createContentType s)) (ep_submitting s) []
             (map (\<lambda>(v, l). option_entry (int_str v) l) contentTypes),
           UText (t ''elements.rawRequired'' []),
           UInput (vw_ariaLabel editor) (vw_value editor) (\<not> vw_editable editor) (opt_or (vw_error editor) []),
           UText (t ''elements.rawHelp'' []),
           UButton (t ''elements.cancel'' []) (ep_submitting s),
           UButton (t ''elements.create'' []) (ep_createDisabled s)]] else [])"

definition ElementsPage_view :: "Translator \<Rightarrow> (int \<Rightarrow> string) \<Rightarrow> AppSettings \<Rightarrow> string \<Rightarrow> ElementsState \<Rightarrow> ui list" where
  "ElementsPage_view t formatNumber settings pathname s =
     [AppBreadcrumbs t pathname
        [\<lparr>bi_label = t ''elements.apps'' [], bi_to = Some ''/apps''\<rparr>,
         \<lparr>bi_label = str_or (ep_appId s) (t ''elements.unknown'' []),
          bi_to = Some (''/apps/'' @ encodeURIComponent (ep_appId s) @ ''/envs'')\<rparr>,
         \<lparr>bi_label = str_or (ep_env s) (t ''elements.unknown'' []),
          bi_to = Some (''/apps/'' @ encodeURIComponent (ep_appId s) @ ''/envs/'' @ encodeURIComponent (ep_env s) @ ''/elements'')\<rparr>,
         \<lparr>bi_label = t ''elements.title'' [], bi_to = None\<rparr>],
      UHeading (t ''elements.title'' []), UText (t ''elements.description'' []),
      UButton (t ''elements.add'' []) (ep_appId s = [] \<or> ep_env s = [] \<or> ep_submitting s)] @
     (if ef_message (ep_error s) \<noteq> [] then [UError (ef_message (ep_error s))] else []) @
     DangerConfirmDialog t (ep_deleteTarget s \<noteq> []) (t ''elements.deleteTitle'' [])
       [UText (t ''elements.deleteDescription''
          [(''key'', PStr (ep_deleteTarget s)), (''app'', PStr (ep_appId s)), (''env'', PStr (ep_env s))])]
       (t ''elements.delete'' []) (ep_submitting s) @
     [UInput (t ''elements.searchLabel'' []) (ep_queryInput s) (ep_searchDisabled s) [],
      UButton (t ''elements.search'' []) (ep_searchDisabled s),
      UButton (t ''elements.clear'' []) (ep_clearDisabled s),
      USelect (t ''elements.rowsPerPage'' []) (int_str (ep_pageSize s)) (ep_searchDisabled s) []
        (map (\<lambda>n. option_entry (int_str n) (formatNumber n)) elements_pageSizeOptions)] @
     ep_createForm t settings s @ ep_table t s"

subsection \<open>The invariant\<close>

interpretation elements_loads: latest_loader ep_requestSeq ep_loads ep_started ml_requestId ml_target ep_start ep_settle
  by unfold_locales (simp_all add: ep_start_def ep_settle_def)

definition ep_pending :: "ElementsState \<Rightarrow> nat" where
  "ep_pending s = length (ep_mutations s) + count_if ml_awaited (ep_loads s)"

definition ep_core :: "ElementsState \<Rightarrow> bool" where
  "ep_core s \<longleftrightarrow> elements_loads.latest s \<and> ep_pending s \<le> 1 \<and> (0 < ep_pending s \<longrightarrow> ep_submitting s) \<and>
     (\<forall>m \<in> set (ep_mutations s). et_query (mu_target m) = ep_query s \<and> et_limit (mu_target m) = ep_pageSize s)"

definition ep_synced :: "ElementsState \<Rightarrow> bool" where
  "ep_synced s \<longleftrightarrow> ep_queryRef s = ep_query s \<and> ep_pageSizeRef s = ep_pageSize s \<and>
     (ep_mounted s \<longrightarrow> ep_lastLoadKey s = elements_loadKey (ep_appId s) (ep_env s) \<and>
        ep_appIdRef s = ep_appId s \<and> ep_envRef s = ep_env s)"

definition ep_track :: "ElementsState \<Rightarrow> bool" where
  \<comment> \<open>the load queued or started last is the one \<open>lastLoadKeyRef\<close>, the query and the page size name\<close>
  "ep_track s \<longleftrightarrow> (ep_lastLoadKey s \<noteq> [] \<longrightarrow>
     (if ep_microtasks s = []
      then ep_lastLoadKey s = elements_loadKey (et_appId (ep_started s)) (et_env (ep_started s)) \<and>
           et_query (ep_started s) = ep_query s \<and> et_limit (ep_started s) = ep_pageSize s
      else ep_lastLoadKey s = elements_loadKey (fst (last (ep_microtasks s))) (snd (last (ep_microtasks s)))))"

definition ep_inv :: "ElementsState \<Rightarrow> bool" where
  "ep_inv s \<longleftrightarrow> ep_core s \<and> ep_synced s \<and> ep_track s"

lemma elements_loadKey_inject: "elements_loadKey a b = elements_loadKey c d \<longleftrightarrow> a = c \<and> b = d"
proof
  let ?j = "\<lambda>a b. JObj [(''appId'', JStr a), (''env'', JStr b)]"
  assume eq: "elements_loadKey a b = elements_loadKey c d"
  have "json_wf (?j x y)" for x y by simp
  then have "Some (?j a b) = Some (?j c d)"
    using eq unfolding elements_loadKey_def by (metis json_parse_stringify)
  then show "a = c \<and> b = d" by simp
qed simp

lemma elements_loadKey_nonempty [simp]: "elements_loadKey a b \<noteq> []"
  by (simp add: elements_loadKey_def)

lemma ep_core_cong:
  assumes "ep_core s" and "ep_loads s' = ep_loads s" "ep_requestSeq s' = ep_requestSeq s" "ep_started s' = ep_started s"
    "ep_mutations s' = ep_mutations s" "ep_submitting s' = ep_submitting s" "ep_query s' = ep_query s" "ep_pageSize s' = ep_pageSize s"
  shows "ep_core s'"
  using assms elements_loads.latest_cong [of s s'] by (simp add: ep_core_def ep_pending_def)

lemma ep_track_cong:
  assumes "ep_track s" and "ep_lastLoadKey s' = ep_lastLoadKey s" "ep_started s' = ep_started s"
    "ep_microtasks s' = ep_microtasks s" "ep_query s' = ep_query s" "ep_pageSize s' = ep_pageSize s"
  shows "ep_track s'"
  using assms by (simp add: ep_track_def)

lemma ep_core_load:
  assumes "ep_core s" and "awaited \<longrightarrow> ep_submitting s \<and> ep_pending s = 0"
  shows "ep_core (fst (loadElements t g seek ap awaited s))"
proof (cases "et_appId g = [] \<or> et_env g = []")
  case True
  have "elements_loads.latest (fst (loadElements t g seek ap awaited s))"
    by (rule elements_loads.latest_skip [of s]) (use assms(1) True in \<open>simp_all add: loadElements_def Let_def ep_core_def\<close>)
  with assms(1) True show ?thesis by (simp add: ep_core_def loadElements_def Let_def ep_pending_def)
next
  case False
  let ?l = "\<lparr>ml_requestId = Suc (ep_requestSeq s), ml_target = g, ml_seek = seek, ml_append = ap, ml_awaited = awaited\<rparr>"
  have "elements_loads.latest (ep_start ?l s)"
    by (rule elements_loads.latest_start) (use assms(1) in \<open>simp_all add: ep_core_def\<close>)
  with assms False show ?thesis
    by (auto simp: ep_core_def ep_pending_def loadElements_def ep_start_def Let_def)
qed

lemma loadElements_frame:
  "ep_lastLoadKey (fst (loadElements t g sk ap aw s)) = ep_lastLoadKey s" "ep_started (fst (loadElements t g sk ap aw s)) = g"
  "ep_microtasks (fst (loadElements t g sk ap aw s)) = ep_microtasks s" "ep_mounted (fst (loadElements t g sk ap aw s)) = ep_mounted s"
  "ep_query (fst (loadElements t g sk ap aw s)) = ep_query s" "ep_pageSize (fst (loadElements t g sk ap aw s)) = ep_pageSize s"
  "ep_queryRef (fst (loadElements t g sk ap aw s)) = ep_queryRef s" "ep_pageSizeRef (fst (loadElements t g sk ap aw s)) = ep_pageSizeRef s"
  by (simp_all add: loadElements_def ep_start_def Let_def)

definition ep_mid :: "ElementsState \<Rightarrow> bool" where
  \<comment> \<open>what holds between a handler and the effects after the rendering\<close>
  "ep_mid s \<longleftrightarrow> ep_core s \<and> ep_track s \<and> ep_queryRef s = ep_query s \<and> ep_pageSizeRef s = ep_pageSize s"

lemma ep_mid_same:
  assumes "ep_mid s" and "ep_loads s' = ep_loads s" "ep_requestSeq s' = ep_requestSeq s" "ep_started s' = ep_started s"
    "ep_mutations s' = ep_mutations s" "ep_submitting s' = ep_submitting s" "ep_query s' = ep_query s" "ep_pageSize s' = ep_pageSize s"
    "ep_lastLoadKey s' = ep_lastLoadKey s" "ep_microtasks s' = ep_microtasks s" "ep_queryRef s' = ep_queryRef s"
    "ep_pageSizeRef s' = ep_pageSizeRef s"
  shows "ep_mid s'"
  using assms ep_core_cong [of s s'] ep_track_cong [of s s'] by (simp add: ep_mid_def)

lemma ep_mid_load:
  assumes "ep_core s" and "ep_queryRef s = ep_query s" "ep_pageSizeRef s = ep_pageSize s"
    and "aw \<longrightarrow> ep_submitting s \<and> ep_pending s = 0"
    and "et_query g = ep_query s" "et_limit g = ep_pageSize s"
    and "ep_lastLoadKey s \<noteq> [] \<Longrightarrow> ep_microtasks s = [] \<Longrightarrow> ep_lastLoadKey s = elements_loadKey (et_appId g) (et_env g)"
    and "ep_lastLoadKey s \<noteq> [] \<Longrightarrow> ep_microtasks s \<noteq> [] \<Longrightarrow>
      ep_lastLoadKey s = elements_loadKey (fst (last (ep_microtasks s))) (snd (last (ep_microtasks s)))"
  shows "ep_mid (fst (loadElements t g sk ap aw s))"
  using ep_core_load [OF assms(1,4)] assms by (simp add: ep_mid_def ep_track_def loadElements_frame)

lemma ep_inv_mid: "ep_inv s \<Longrightarrow> ep_mid s"
  by (simp add: ep_inv_def ep_mid_def ep_synced_def)

lemma ep_inv_queue:
  "ep_inv s \<Longrightarrow> ep_lastLoadKey s \<noteq> [] \<Longrightarrow> ep_microtasks s \<noteq> [] \<Longrightarrow>
     ep_lastLoadKey s = elements_loadKey (fst (last (ep_microtasks s))) (snd (last (ep_microtasks s)))"
  by (simp add: ep_inv_def ep_track_def)

lemma ep_core_idle: "ep_core s \<Longrightarrow> \<not> ep_submitting s \<Longrightarrow> ep_pending s = 0 \<and> ep_mutations s = []"
  by (auto simp: ep_core_def ep_pending_def)

lemma ep_core_requery:
  \<comment> \<open>the query or the page size changes while nothing is submitted\<close>
  assumes "ep_core s" and "\<not> ep_submitting s" and "ep_loads s' = ep_loads s" "ep_requestSeq s' = ep_requestSeq s"
    "ep_started s' = ep_started s" "ep_mutations s' = ep_mutations s" "ep_submitting s' = ep_submitting s"
  shows "ep_core s'"
  using assms ep_core_idle [OF assms(1,2)] elements_loads.latest_cong [of s s'] by (simp add: ep_core_def ep_pending_def)

lemma ep_requery_mid:
  \<comment> \<open>a load for the route with the query and the page size of the new state\<close>
  assumes inv: "ep_inv s" and "ep_mounted s" and "\<not> ep_submitting s"
    and same: "ep_loads s' = ep_loads s" "ep_requestSeq s' = ep_requestSeq s" "ep_started s' = ep_started s"
      "ep_mutations s' = ep_mutations s" "ep_submitting s' = ep_submitting s" "ep_lastLoadKey s' = ep_lastLoadKey s"
      "ep_microtasks s' = ep_microtasks s"
    and "ep_queryRef s' = ep_query s'" "ep_pageSizeRef s' = ep_pageSize s'"
    and g: "et_appId g = ep_appId s" "et_env g = ep_env s" "et_query g = ep_query s'" "et_limit g = ep_pageSize s'"
  shows "ep_mid (fst (loadElements t g sk ap False s'))"
proof (rule ep_mid_load)
  show "ep_core s'"
    by (rule ep_core_requery [of s]) (use assms in \<open>simp_all add: ep_inv_def\<close>)
  show "ep_lastLoadKey s' = elements_loadKey (et_appId g) (et_env g)"
    using assms by (simp add: ep_inv_def ep_synced_def)
  show "ep_lastLoadKey s' = elements_loadKey (fst (last (ep_microtasks s'))) (snd (last (ep_microtasks s')))"
    if "ep_lastLoadKey s' \<noteq> []" "ep_microtasks s' \<noteq> []"
    using ep_inv_queue [OF inv] that same by simp
qed (use assms in simp_all)

lemma ep_page_mid:
  assumes "ep_inv s" and "ep_mounted s"
  shows "ep_mid (fst (ep_page t s e))"
proof -
  note mid = ep_inv_mid [OF assms(1)]
  note same = ep_mid_same [OF mid] and requery = ep_requery_mid [OF assms]
  have refs: "ep_queryRef s = ep_query s" "ep_pageSizeRef s = ep_pageSize s" using mid by (simp_all add: ep_mid_def)
  have "ep_mid (fst (ep_handleSearchSubmit t s))" "ep_mid (fst (ep_handleClearSearch t s))"
    "ep_mid (fst (ep_handlePageSizeChange t n s))" "ep_mid (fst (handleLoadMore t s))" if "\<not> ep_submitting s" for n
    using that mid refs
    by (auto simp: ep_handleSearchSubmit_def ep_handleClearSearch_def ep_handlePageSizeChange_def handleLoadMore_def
        ep_reload_def ep_target_def Let_def intro!: requery)
  moreover have "ep_mid (s\<lparr>ep_queryInput := v\<rparr>)" "ep_mid (s\<lparr>ep_createOpen := b\<rparr>)" "ep_mid (s\<lparr>ep_deleteTarget := v\<rparr>)" for v b
    by (rule same; simp)+
  ultimately show ?thesis
    using mid by (cases e) (simp_all add: ep_page_def ep_searchDisabled_def ep_clearDisabled_def)
qed

lemma ep_submit_mid: "ep_mid s \<Longrightarrow> \<not> ep_submitting s \<Longrightarrow> ep_mid (ep_submit c s)"
proof -
  assume mid: "ep_mid s" and idle: "\<not> ep_submitting s"
  have "ep_mutations s = []" "ep_pending s = 0" using ep_core_idle [of s] mid idle by (simp_all add: ep_mid_def)
  moreover have "elements_loads.latest (ep_submit c s)"
    by (rule elements_loads.latest_cong [of s]) (use mid in \<open>simp_all add: ep_mid_def ep_core_def ep_submit_def\<close>)
  moreover have "ep_track (ep_submit c s)"
    by (rule ep_track_cong [of s]) (use mid in \<open>simp_all add: ep_mid_def ep_submit_def\<close>)
  ultimately show ?thesis
    using mid by (auto simp: ep_mid_def ep_core_def ep_pending_def ep_submit_def ep_target_def)
qed

lemma ep_dialog_mid:
  assumes "ep_mid s"
  shows "ep_mid (fst (ep_dialog eng t s e))"
proof -
  note same = ep_mid_same [OF assms]
  have "ep_mid (fst (ep_handleDelete s))" "ep_mid (fst (ep_handleCreate eng t s))" if "\<not> ep_submitting s"
  proof -
    show "ep_mid (fst (ep_handleDelete s))" using assms that by (simp add: ep_handleDelete_def ep_submit_mid)
    have "ep_mid (s\<lparr>ep_createValidation := v\<rparr>)" for v by (rule same; simp)
    with assms that show "ep_mid (fst (ep_handleCreate eng t s))" by (simp add: ep_handleCreate_def ep_submit_mid Let_def)
  qed
  moreover have "ep_mid (ep_closeCreateDialog s)" "ep_mid (ep_closeDeleteDialog s)"
    by (rule same; simp add: ep_closeCreateDialog_def ep_closeDeleteDialog_def ep_clearForm_def)+
  moreover have "ep_mid (s\<lparr>ep_createKey := v\<rparr>)" "ep_mid (s\<lparr>ep_createRaw := v\<rparr>)" "ep_mid (s\<lparr>ep_createContentType := n\<rparr>)" for v n
    by (rule same; simp)+
  ultimately show ?thesis
    using assms by (cases e) (simp_all add: ep_dialog_def ep_createDisabled_def)
qed

lemma ep_apply_frame:
  "ep_loads (ep_apply t l out s) = ep_loads s" "ep_requestSeq (ep_apply t l out s) = ep_requestSeq s"
  "ep_started (ep_apply t l out s) = ep_started s" "ep_lastLoadKey (ep_apply t l out s) = ep_lastLoadKey s"
  "ep_mutations (ep_apply t l out s) = ep_mutations s" "ep_submitting (ep_apply t l out s) = ep_submitting s"
  "ep_microtasks (ep_apply t l out s) = ep_microtasks s" "ep_query (ep_apply t l out s) = ep_query s"
  "ep_pageSize (ep_apply t l out s) = ep_pageSize s" "ep_queryRef (ep_apply t l out s) = ep_queryRef s"
  "ep_pageSizeRef (ep_apply t l out s) = ep_pageSizeRef s"
  by (auto simp: ep_apply_def split: sum.splits)

lemma ep_finally_mid:
  assumes "ep_mid s" and "ep_pending s = 0"
  shows "ep_mid (ep_finally s)"
proof -
  have "elements_loads.latest (ep_finally s)"
    by (rule elements_loads.latest_cong [of s]) (use assms in \<open>simp_all add: ep_mid_def ep_core_def ep_finally_def\<close>)
  moreover have "ep_track (ep_finally s)"
    by (rule ep_track_cong [of s]) (use assms in \<open>simp_all add: ep_mid_def ep_finally_def\<close>)
  ultimately show ?thesis
    using assms by (simp add: ep_mid_def ep_core_def ep_finally_def ep_pending_def)
qed

lemma ep_loaded_mid:
  assumes "ep_mid s"
  shows "ep_mid (fst (ep_loaded t i out s))"
proof (cases "i < length (ep_loads s)")
  case True
  let ?s = "ep_apply t (ep_loads s ! i) out (ep_settle i s)"
  have "ep_track (ep_settle i s)"
    by (rule ep_track_cong [of s]) (use assms in \<open>simp_all add: ep_mid_def ep_settle_def\<close>)
  then have settled: "ep_mid (ep_settle i s)"
    using assms elements_loads.latest_settle [of s i] count_remove_at_le [of ml_awaited i "ep_loads s"]
    by (auto simp: ep_mid_def ep_core_def ep_pending_def ep_settle_def)
  have applied: "ep_mid ?s"
    by (rule ep_mid_same [OF settled]) (simp_all add: ep_apply_frame)
  have "ep_pending ?s = 0" if "ml_awaited (ep_loads s ! i)"
    using settle_awaited [OF True, of ml_awaited, OF that, of "length (ep_mutations s)"] assms
    by (simp add: ep_mid_def ep_core_def ep_pending_def ep_apply_frame ep_settle_def)
  with applied True show ?thesis by (simp add: ep_loaded_def Let_def ep_finally_mid)
qed (simp add: ep_loaded_def assms)

lemma ep_mid_drop:
  \<comment> \<open>a mutation settles\<close>
  assumes "ep_mid s" and "i < length (ep_mutations s)"
    and "ep_loads s' = ep_loads s" "ep_requestSeq s' = ep_requestSeq s" "ep_started s' = ep_started s"
      "ep_mutations s' = remove_at i (ep_mutations s)" "ep_submitting s' = ep_submitting s" "ep_query s' = ep_query s"
      "ep_pageSize s' = ep_pageSize s" "ep_lastLoadKey s' = ep_lastLoadKey s" "ep_microtasks s' = ep_microtasks s"
      "ep_queryRef s' = ep_queryRef s" "ep_pageSizeRef s' = ep_pageSizeRef s"
  shows "ep_mid s'" and "ep_pending s' = 0" and "ep_submitting s'"
proof -
  have none: "ep_mutations s' = []" "ep_pending s' = 0" "0 < ep_pending s"
    using settle_mutation [OF assms(2), of "count_if ml_awaited (ep_loads s)"] assms
    by (auto simp: ep_mid_def ep_core_def ep_pending_def)
  then show "ep_pending s' = 0" "ep_submitting s'" using assms by (simp_all add: ep_mid_def ep_core_def)
  have "elements_loads.latest s'"
    by (rule elements_loads.latest_cong [of s]) (use assms in \<open>simp_all add: ep_mid_def ep_core_def\<close>)
  moreover have "ep_track s'"
    by (rule ep_track_cong [of s]) (use assms in \<open>simp_all add: ep_mid_def\<close>)
  ultimately show "ep_mid s'"
    using assms none by (simp add: ep_mid_def ep_core_def)
qed

lemma ep_mutated_mid:
  assumes "ep_inv s"
  shows "ep_mid (fst (ep_mutated t i out s))"
proof (cases "i < length (ep_mutations s)")
  case True
  define m where "m = ep_mutations s ! i"
  let ?s = "s\<lparr>ep_mutations := remove_at i (ep_mutations s)\<rparr>"
  note drop = ep_mid_drop [OF ep_inv_mid [OF assms] True]
  have goal_query: "et_query (mu_target m) = ep_query s" "et_limit (mu_target m) = ep_pageSize s"
    using assms nth_mem [OF True] by (simp_all add: ep_inv_def ep_core_def m_def)
  have failed: "ep_mid (ep_finally (if b then ?s\<lparr>ep_error := x\<rparr> else ?s))" for b x
    using drop [of ?s] drop [of "?s\<lparr>ep_error := x\<rparr>"] by (simp add: ep_finally_mid)
  have done_: "ep_mid (fst (loadElements t (mu_target m) [] False True s'))"
    if apply_ok: "canApplyElementMutation (et_appId (mu_target m)) (et_env (mu_target m)) ?s"
      and s': "s' = ep_reload (if mu_create m then ep_clearForm ?s else ?s\<lparr>ep_deleteTarget := []\<rparr>)" for s'
  proof (rule ep_mid_load)
    have d: "ep_mid s'" "ep_pending s' = 0" "ep_submitting s'"
      by (rule drop; simp add: s' ep_reload_def ep_clearForm_def)+
    then show "ep_core s'" "ep_queryRef s' = ep_query s'" "ep_pageSizeRef s' = ep_pageSize s'"
      "True \<longrightarrow> ep_submitting s' \<and> ep_pending s' = 0" by (simp_all add: ep_mid_def)
    show "et_query (mu_target m) = ep_query s'" "et_limit (mu_target m) = ep_pageSize s'"
      using goal_query by (simp_all add: s' ep_reload_def ep_clearForm_def)
    show "ep_lastLoadKey s' = elements_loadKey (et_appId (mu_target m)) (et_env (mu_target m))"
      using apply_ok assms by (simp add: s' ep_reload_def ep_clearForm_def canApplyElementMutation_def ep_inv_def ep_synced_def)
    show "ep_lastLoadKey s' = elements_loadKey (fst (last (ep_microtasks s'))) (snd (last (ep_microtasks s')))"
      if "ep_lastLoadKey s' \<noteq> []" "ep_microtasks s' \<noteq> []"
      using d(1) that by (simp add: ep_mid_def ep_track_def)
  qed
  show ?thesis
    using True failed [of False undefined] failed [of True] done_ [OF _ refl]
    by (cases out) (simp_all add: ep_mutated_def m_def [symmetric] Let_def)
qed (simp add: ep_mutated_def ep_inv_mid [OF assms])

lemma ep_microtask_mid:
  assumes "ep_mid s"
  shows "ep_mid (fst (ep_microtask t s))"
proof (cases "ep_microtasks s")
  case (Cons p rest)
  obtain a b where p: "p = (a, b)" by force
  let ?s = "s\<lparr>ep_microtasks := rest\<rparr>"
  have "ep_mid (fst (loadElements t \<lparr>et_appId = a, et_env = b, et_query = ep_queryRef s, et_limit = ep_pageSizeRef s\<rparr> [] False False ?s))"
  proof (rule ep_mid_load)
    show "ep_core ?s" by (rule ep_core_cong [of s]) (use assms in \<open>simp_all add: ep_mid_def\<close>)
  qed (use assms Cons p in \<open>auto simp: ep_mid_def ep_track_def split: if_splits\<close>)
  with Cons p show ?thesis by (simp add: ep_microtask_def)
qed (simp add: ep_microtask_def assms)

lemma ep_handle_mid:
  assumes "ep_inv s"
  shows "ep_mid (fst (ep_handle eng t s e))"
proof -
  note mid = ep_inv_mid [OF assms]
  note same = ep_mid_same [OF mid]
  have "ep_mid (s\<lparr>ep_mounted := True, ep_timer := ep_createOpen s\<rparr>)" "ep_mid (s\<lparr>ep_mounted := False, ep_timer := False\<rparr>)"
    "ep_mid (s\<lparr>ep_appId := a, ep_env := b\<rparr>)" "ep_mid (ep_timerFired eng t s)" for a b
    by (rule same; simp add: ep_timerFired_def)+
  then show ?thesis
    using mid ep_loaded_mid [OF mid] ep_mutated_mid [OF assms] ep_microtask_mid [OF mid] ep_page_mid [OF assms] ep_dialog_mid [OF mid]
    by (cases e) (simp_all add: ep_handle_def)
qed

lemma ep_commit_inv:
  assumes "ep_mid s"
  shows "ep_inv (ep_commit s0 s)"
proof -
  have "ep_core (ep_commit s0 s)"
    by (rule ep_core_cong [of s]) (use assms in \<open>simp_all add: ep_mid_def ep_commit_def Let_def\<close>)
  moreover have "ep_synced (ep_commit s0 s)"
    by (simp add: ep_synced_def ep_commit_def Let_def)
  moreover have "ep_track (ep_commit s0 s)"
    using assms by (cases "ep_lastLoadKey s = []") (auto simp: ep_mid_def ep_track_def ep_commit_def Let_def)
  ultimately show ?thesis by (simp add: ep_inv_def)
qed

lemma elements_step_inv:
  assumes "ep_inv s"
  shows "ep_inv (fst (elements_step eng t s e))"
proof -
  note mid = ep_handle_mid [OF assms, of eng t e]
  show ?thesis
  proof (cases "ep_mounted (fst (ep_handle eng t s e))")
    case True
    with ep_commit_inv [OF mid] show ?thesis by (simp add: elements_step_def Let_def case_prod_unfold)
  next
    case False
    with mid show ?thesis by (simp add: elements_step_def Let_def case_prod_unfold ep_inv_def ep_mid_def ep_synced_def)
  qed
qed

lemma initElements_inv: "ep_inv (initElements appId env)"
  by (simp add: ep_inv_def ep_core_def ep_synced_def ep_track_def ep_pending_def initElements_def elements_loads.latest_empty)

subsection \<open>Effects\<close>

definition ep_allowed :: "content_engine \<Rightarrow> Translator \<Rightarrow> ElementsState \<Rightarrow> effect \<Rightarrow> bool" where
  "ep_allowed eng t s x \<longleftrightarrow>
     (\<exists>g seek. x = Request (ep_elementsPath g seek) noInit) \<or>
     ep_mounted s \<and> ep_pending s = 0 \<and> ep_appId s \<noteq> [] \<and> ep_env s \<noteq> [] \<and>
       (ep_createOpen s \<and> js_trim (ep_createKey s) \<noteq> [] \<and> js_trim (ep_createRaw s) \<noteq> [] \<and>
          vr_valid (validateContent eng (Some (CTNum (ep_createContentType s))) (ep_createRaw s) t) \<and>
          x = Request (elementPath (ep_appId s) (ep_env s) (js_trim (ep_createKey s)))
            (jsonBody (JObj [(''raw'', JStr (ep_createRaw s)), (''contentType'', JNum (ep_createContentType s))])) \<or>
        ep_deleteTarget s \<noteq> [] \<and>
          x = Request (elementPath (ep_appId s) (ep_env s) (ep_deleteTarget s)) (methodInit ''DELETE''))"

lemma loadElements_allowed: "x \<in> set (snd (loadElements t' g sk ap aw s')) \<Longrightarrow> ep_allowed eng t s x"
  by (auto simp: loadElements_def Let_def ep_allowed_def split: if_splits)

lemma ep_page_allowed: "x \<in> set (snd (ep_page t s e)) \<Longrightarrow> ep_allowed eng t s x"
  by (cases e) (auto simp: ep_page_def ep_handleSearchSubmit_def ep_handleClearSearch_def ep_handlePageSizeChange_def
      handleLoadMore_def Let_def dest: loadElements_allowed [of _ _ _ _ _ _ _ eng t s] split: if_splits)

lemma ep_dialog_allowed:
  assumes "ep_core s" and "ep_mounted s" and "x \<in> set (snd (ep_dialog eng t s e))"
  shows "ep_allowed eng t s x"
proof -
  have "ep_pending s = 0" if "\<not> ep_submitting s"
    using ep_core_idle [OF assms(1) that] by simp
  with assms(2,3) show ?thesis
    by (cases e) (auto simp: ep_dialog_def ep_allowed_def ep_handleCreate_def ep_handleDelete_def ep_createDisabled_def Let_def
      split: if_splits)
qed

lemma elements_step_allowed:
  assumes "ep_inv s" and "x \<in> set (snd (elements_step eng t s e))"
  shows "ep_allowed eng t s x"
proof -
  have "snd (ep_loaded t i out s) = []" for i out by (simp add: ep_loaded_def Let_def)
  moreover have "y \<in> set (snd (ep_mutated t i out s)) \<Longrightarrow> ep_allowed eng t s y" for i out y
    by (auto simp: ep_mutated_def Let_def dest: loadElements_allowed [of _ _ _ _ _ _ _ eng t s] split: if_splits sum.splits)
  moreover have "y \<in> set (snd (ep_microtask t s)) \<Longrightarrow> ep_allowed eng t s y" for y
    by (auto simp: ep_microtask_def dest: loadElements_allowed [of _ _ _ _ _ _ _ eng t s] split: list.splits)
  ultimately show ?thesis
    using assms(2) ep_page_allowed [of x t s e eng] ep_dialog_allowed [of s x eng t e] assms(1)
    by (cases e) (simp_all add: elements_step_def Let_def case_prod_unfold ep_handle_def ep_inv_def split: if_splits)
qed

interpretation elements_page: guarded_component "elements_step eng t" "\<lambda>s. \<exists>appId env. s = initElements appId env"
  ep_inv "ep_allowed eng t" for eng t
proof
  show "ep_inv s" if "\<exists>appId env. s = initElements appId env" for s using that initElements_inv by auto
qed (simp_all add: elements_step_inv elements_step_allowed)

subsection \<open>Properties\<close>

lemma ep_commit_frame [simp]: "ep_elements (ep_commit s0 s) = ep_elements s"
  by (simp add: ep_commit_def Let_def)

lemma ep_current:
  assumes "ep_inv s" and "ep_mounted s" and "ep_microtasks s = []"
  shows "ep_started s = ep_target s"
proof -
  have key: "ep_lastLoadKey s = elements_loadKey (ep_appId s) (ep_env s)"
    using assms(1,2) by (simp add: ep_inv_def ep_synced_def)
  then have "ep_lastLoadKey s \<noteq> []" by simp
  then have started: "ep_lastLoadKey s = elements_loadKey (et_appId (ep_started s)) (et_env (ep_started s))"
      "et_query (ep_started s) = ep_query s" "et_limit (ep_started s) = ep_pageSize s"
    using assms(1,3) unfolding ep_inv_def ep_track_def by auto
  from key started(1) have "ep_appId s = et_appId (ep_started s)" "ep_env s = et_env (ep_started s)"
    by (simp_all only: elements_loadKey_inject)
  with started(2,3) show ?thesis by (cases "ep_started s") (simp add: ep_target_def)
qed

text \<open>C10: Whatever the route does while requests are in flight, once the queued loads have started a
  response changes the list of elements only if it answers a request for the application and the
  environment of the route with the query and the page size shown.\<close>

theorem elements_response_current:
  assumes "s = after (elements_step eng t) (initElements appId env) es"
    and "ep_microtasks s = []" and "i < length (ep_loads s)"
    and "ep_elements (fst (elements_step eng t s (MLoaded i out))) \<noteq> ep_elements s"
  shows "ml_target (ep_loads s ! i) = ep_target s"
proof -
  have inv: "ep_inv s"
    unfolding assms(1) by (rule elements_page.inv_reachable) blast
  have "ep_elements (ep_apply t (ep_loads s ! i) out (ep_settle i s)) \<noteq> ep_elements s"
    using assms(3,4) by (auto simp: elements_step_def ep_handle_def ep_loaded_def Let_def case_prod_unfold ep_finally_def split: if_splits)
  then have "ep_mounted s" and now: "ml_requestId (ep_loads s ! i) = ep_requestSeq s"
    by (auto simp: ep_apply_def ep_settle_def split: if_splits)
  with ep_current [OF inv _ assms(2)] elements_loads.latest_applied [of s i] inv assms(3) show ?thesis
    by (simp add: ep_inv_def ep_core_def)
qed

text \<open>Loading more asks for the page at the position the last response gave, with the query and the
  page size shown, and appends its elements to the list, keeping those already shown; the next
  position is the one of the new response.\<close>

theorem elements_load_more:
  assumes "ep_inv s" and "ep_mounted s" "\<not> ep_modal s" "ep_tableShown s" "ep_hasMore s" "ep_nextSeek s \<noteq> []"
    and "\<not> ep_loadingMore s" "\<not> ep_submitting s" "ep_appId s \<noteq> []" "ep_env s \<noteq> []"
    and "r = run (elements_step eng t) s [MLoadMore, MLoaded (length (ep_loads s)) (Inr (Some d))]"
  shows "snd r = [Request (ep_elementsPath (ep_target s) (ep_nextSeek s)) noInit] \<and>
    ep_elements (fst r) = ep_elements s @ opt_or (es_elements d) [] \<and>
    ep_nextSeek (fst r) = opt_str_or (es_nextSeek d) [] \<and> ep_hasMore (fst r) = truthy_bool (es_hasMore d) \<and> \<not> ep_loadingMore (fst r)"
proof -
  let ?l = "\<lparr>ml_requestId = Suc (ep_requestSeq s), ml_target = ep_target s, ml_seek = ep_nextSeek s, ml_append = True, ml_awaited = False\<rparr>"
  have refs: "ep_lastLoadKey s = elements_loadKey (ep_appId s) (ep_env s)" "ep_appIdRef s = ep_appId s" "ep_envRef s = ep_env s"
    "ep_queryRef s = ep_query s" "ep_pageSizeRef s = ep_pageSize s"
    using assms(1,2) by (simp_all add: ep_inv_def ep_synced_def)
  let ?s = "s\<lparr>ep_loadingMore := True, ep_requestSeq := Suc (ep_requestSeq s), ep_loads := ep_loads s @ [?l], ep_started := ep_target s\<rparr>"
  have more: "elements_step eng t s MLoadMore = (?s, [Request (ep_elementsPath (ep_target s) (ep_nextSeek s)) noInit])"
    using assms(2-10) refs
    by (simp add: elements_step_def ep_handle_def ep_page_def handleLoadMore_def loadElements_def ep_start_def ep_target_def ep_commit_def Let_def)
  let ?s' = "ep_apply t ?l (Inr (Some d)) (?s\<lparr>ep_loads := ep_loads s\<rparr>)"
  have loaded: "elements_step eng t ?s (MLoaded (length (ep_loads s)) (Inr (Some d))) = (?s', [])"
    using assms(2) refs
    by (simp add: elements_step_def ep_handle_def ep_loaded_def ep_apply_def ep_settle_def deref_def remove_at_def ep_commit_def Let_def)
  have "r = (?s', [Request (ep_elementsPath (ep_target s) (ep_nextSeek s)) noInit])"
    unfolding assms(11) by (simp only: run.simps more loaded prod.case append_Nil2)
  with assms(2) show ?thesis by (simp add: ep_apply_def deref_def)
qed

text \<open>C9: A request that modifies something is for the application and the environment of the route, is
  sent with no other modification in progress, and either creates an element, from the open form,
  with a key that is not blank and a content that is not blank and passes the validation of its
  type, or deletes the element the confirmation names.\<close>

theorem elements_modification_checked:
  assumes "s = after (elements_step eng t) (initElements appId env) es"
    and "Request path ini \<in> set (snd (elements_step eng t s e))" and "ini \<noteq> noInit"
  shows "ep_mounted s \<and> ep_pending s = 0 \<and> ep_appId s \<noteq> [] \<and> ep_env s \<noteq> [] \<and>
    (ep_createOpen s \<and> js_trim (ep_createKey s) \<noteq> [] \<and> js_trim (ep_createRaw s) \<noteq> [] \<and>
       vr_valid (validateContent eng (Some (CTNum (ep_createContentType s))) (ep_createRaw s) t) \<and>
       path = elementPath (ep_appId s) (ep_env s) (js_trim (ep_createKey s)) \<and>
       ini = jsonBody (JObj [(''raw'', JStr (ep_createRaw s)), (''contentType'', JNum (ep_createContentType s))]) \<or>
     ep_deleteTarget s \<noteq> [] \<and> path = elementPath (ep_appId s) (ep_env s) (ep_deleteTarget s) \<and> ini = methodInit ''DELETE'')"
proof -
  have "ep_allowed eng t s (Request path ini)"
    using elements_page.allowed_reachable [of "initElements appId env" "Request path ini" eng t es e] assms(1,2) by blast
  then show ?thesis using assms(3) by (auto simp: ep_allowed_def)
qed

subsection \<open>The validation shown\<close>

definition ep_fresh :: "content_engine \<Rightarrow> Translator \<Rightarrow> ElementsState \<Rightarrow> bool" where
  "ep_fresh eng t s \<longleftrightarrow> (ep_mounted s \<and> ep_createOpen s \<and> \<not> ep_timer s \<longrightarrow>
     ep_createValidation s = validateContent eng (Some (CTNum (ep_createContentType s))) (ep_createRaw s) t)"

definition ep_form :: "ElementsState \<Rightarrow> bool \<times> int \<times> string \<times> ContentValidationResult \<times> bool" where
  "ep_form s = (ep_createOpen s, ep_createContentType s, ep_createRaw s, ep_createValidation s, ep_timer s)"

lemma loadElements_form [simp]: "ep_form (fst (loadElements t g sk ap aw s)) = ep_form s"
  by (simp add: loadElements_def ep_start_def ep_form_def Let_def)

lemma ep_commit_fresh:
  \<comment> \<open>a change of the form restarts the timer\<close>
  assumes "ep_createOpen s' \<and> ep_createOpen s \<and> ep_createRaw s' = ep_createRaw s \<and>
    ep_createContentType s' = ep_createContentType s \<and> \<not> ep_timer s' \<Longrightarrow>
    ep_createValidation s' = validateContent eng (Some (CTNum (ep_createContentType s'))) (ep_createRaw s') t"
  shows "ep_fresh eng t (ep_commit s s')"
  using assms by (auto simp: ep_fresh_def ep_commit_def Let_def)

lemma ep_fresh_step:
  assumes "ep_fresh eng t s"
  shows "ep_fresh eng t (fst (elements_step eng t s e))"
proof -
  let ?v = "validateContent eng (Some (CTNum (ep_createContentType s))) (ep_createRaw s) t"
  let ?s = "fst (ep_handle eng t s e)"
  have same: "ep_form (fst (ep_loaded t i out s)) = ep_form s" "ep_form (fst (ep_microtask t s)) = ep_form s" for i out
    by (auto simp: ep_loaded_def ep_microtask_def ep_apply_def ep_settle_def ep_finally_def ep_form_def Let_def
        loadElements_def ep_start_def split: sum.split list.split)
  have mutated: "ep_form (fst (ep_mutated t i out s)) = ep_form s \<or> \<not> ep_createOpen (fst (ep_mutated t i out s))" for i out
    by (auto simp: ep_mutated_def Let_def ep_reload_def ep_clearForm_def ep_finally_def ep_form_def loadElements_def ep_start_def
        split: sum.split)
  have page: "ep_createOpen s \<Longrightarrow> ep_form (fst (ep_page t s e)) = ep_form s"
    by (cases e) (simp_all add: ep_page_def ep_handleSearchSubmit_def ep_handleClearSearch_def ep_handlePageSizeChange_def
        handleLoadMore_def ep_reload_def ep_form_def loadElements_def ep_start_def Let_def)
  have dialog: "ep_createRaw (fst (ep_dialog eng t s e)) = ep_createRaw s \<and>
      ep_createContentType (fst (ep_dialog eng t s e)) = ep_createContentType s \<and> ep_createOpen (fst (ep_dialog eng t s e)) \<Longrightarrow>
      ep_form (fst (ep_dialog eng t s e)) = ep_form s \<or> ep_createValidation (fst (ep_dialog eng t s e)) = ?v"
    by (cases e) (auto simp: ep_dialog_def ep_closeCreateDialog_def ep_closeDeleteDialog_def ep_clearForm_def ep_handleCreate_def
        ep_handleDelete_def ep_submit_def ep_form_def Let_def split: if_splits)
  have mounted: "ep_mounted ?s \<Longrightarrow> ep_mounted s \<or> e = MMount"
    by (cases e) (auto simp: ep_handle_def ep_loaded_def ep_microtask_def ep_mutated_def ep_timerFired_def ep_apply_def ep_settle_def
        ep_finally_def ep_reload_def ep_clearForm_def loadElements_def ep_start_def Let_def split: if_splits sum.splits list.splits)
  show ?thesis
  proof (cases "ep_mounted ?s")
    case True
    then have "ep_fresh eng t (ep_commit s ?s)"
    proof (intro ep_commit_fresh)
      assume h: "ep_createOpen ?s \<and> ep_createOpen s \<and> ep_createRaw ?s = ep_createRaw s \<and>
        ep_createContentType ?s = ep_createContentType s \<and> \<not> ep_timer ?s"
      have "e = MMount \<or> ep_form ?s = ep_form s \<or> ep_createValidation ?s = ?v"
        using h True same mutated page dialog
        by (cases e) (auto simp: ep_handle_def ep_timerFired_def ep_form_def split: if_splits)
      moreover have "e \<noteq> MMount" using h by (auto simp: ep_handle_def)
      ultimately show "ep_createValidation ?s = validateContent eng (Some (CTNum (ep_createContentType ?s))) (ep_createRaw ?s) t"
        using h assms mounted [OF True] by (auto simp: ep_fresh_def ep_form_def)
    qed
    with True show ?thesis by (simp add: elements_step_def Let_def case_prod_unfold)
  next
    case False
    then show ?thesis by (simp add: elements_step_def Let_def case_prod_unfold ep_fresh_def)
  qed
qed

text \<open>C24: While the form of a new element is open and no validation is due, the validation shown is the
  one of the content and the type in the form.\<close>

theorem elements_validation_fresh:
  assumes "s = after (elements_step eng t) (initElements appId env) es" and "ep_mounted s" "ep_createOpen s" "\<not> ep_timer s"
  shows "ep_createValidation s = validateContent eng (Some (CTNum (ep_createContentType s))) (ep_createRaw s) t"
proof -
  have "ep_fresh eng t (after (elements_step eng t) (initElements appId env) es)"
    by (induction es rule: rev_induct) (simp add: ep_fresh_def initElements_def, simp only: after_snoc ep_fresh_step)
  with assms show ?thesis by (simp add: ep_fresh_def)
qed

subsection \<open>Witnesses\<close>

definition demo_element :: "string \<Rightarrow> Element" where
  "demo_element k = \<lparr>el_metadata = \<lparr>em_key = k, em_latestVersion = None, em_usingVersion = None, em_unpublishedVersion = None,
     em_contentType = None\<rparr>, el_raw = None, el_version = None, el_published = None\<rparr>"

definition demo_elements_page :: ElementsResponse where
  "demo_elements_page = \<lparr>es_elements = Some [demo_element ''k''], es_hasMore = Some True, es_nextSeek = Some ''k''\<rparr>"

definition demo_elements_start :: ElementsState where
  "demo_elements_start = after (elements_step demo_engine (\<lambda>k ps. k)) (initElements ''a'' ''dev'') [MMount, MMicrotask]"

definition demo_elements_run :: "ElementsEvent list" where
  "demo_elements_run = [MMount, MMicrotask, MLoaded 0 (Inr (Some demo_elements_page))]"

definition demo_elements_state :: ElementsState where
  "demo_elements_state = after (elements_step demo_engine (\<lambda>k ps. k)) (initElements ''a'' ''dev'') demo_elements_run"

definition demo_form_run :: "ElementsEvent list" where
  "demo_form_run = [MMount, MMicrotask, MOpenCreate, MChangeKey ''k'', MChangeRaw ''{}'', MTimer]"

definition demo_form_state :: ElementsState where
  "demo_form_state = after (elements_step demo_engine (\<lambda>k ps. k)) (initElements ''a'' ''dev'') demo_form_run"

lemma demo_elements_start_facts:
  "ep_microtasks demo_elements_start = []" "0 < length (ep_loads demo_elements_start)"
  "ep_elements (fst (elements_step demo_engine (\<lambda>k ps. k) demo_elements_start (MLoaded 0 (Inr (Some demo_elements_page))))) \<noteq>
     ep_elements demo_elements_start"
  by code_simp+

lemma demo_elements_facts:
  "ep_mounted demo_elements_state" "\<not> ep_modal demo_elements_state" "ep_tableShown demo_elements_state"
  "ep_hasMore demo_elements_state" "ep_nextSeek demo_elements_state \<noteq> []" "\<not> ep_loadingMore demo_elements_state"
  "\<not> ep_submitting demo_elements_state" "ep_appId demo_elements_state \<noteq> []" "ep_env demo_elements_state \<noteq> []"
  "ep_elements demo_elements_state = [demo_element ''k'']"
  by code_simp+

lemma demo_form_facts:
  "ep_mounted demo_form_state" "ep_createOpen demo_form_state" "\<not> ep_timer demo_form_state" "ep_deleteTarget demo_form_state = []"
  "ep_createRaw demo_form_state = ''{}''" "ep_createContentType demo_form_state = 1"
  "Request (elementPath ''a'' ''dev'' ''k'') (jsonBody (JObj [(''raw'', JStr ''{}''), (''contentType'', JNum 1)])) \<in>
     set (snd (elements_step demo_engine (\<lambda>k ps. k) demo_form_state MCreate))"
  by code_simp+

theorem elements_response_current_witness: "ml_target (ep_loads demo_elements_start ! 0) = ep_target demo_elements_start"
  by (rule elements_response_current [OF demo_elements_start_def demo_elements_start_facts])

theorem elements_load_more_witness:
  "ep_elements (after (elements_step demo_engine (\<lambda>k ps. k)) demo_elements_state
     [MLoadMore, MLoaded (length (ep_loads demo_elements_state)) (Inr (Some demo_elements_page))]) = [demo_element ''k'', demo_element ''k'']"
proof -
  have "ep_inv demo_elements_state"
    unfolding demo_elements_state_def by (rule elements_page.inv_reachable) blast
  from elements_load_more [OF this demo_elements_facts(1-9) refl, of demo_engine "\<lambda>k ps. k" demo_elements_page] show ?thesis
    by (simp add: demo_elements_facts demo_elements_page_def del: run.simps)
qed

theorem elements_modification_checked_witness:
  "vr_valid (validateContent demo_engine (Some (CTNum (ep_createContentType demo_form_state))) (ep_createRaw demo_form_state) (\<lambda>k ps. k))"
proof -
  have "jsonBody j \<noteq> noInit" for j by (simp add: jsonBody_def noInit_def)
  from elements_modification_checked [OF demo_form_state_def demo_form_facts(7) this] demo_form_facts(4) show ?thesis by blast
qed

theorem elements_validation_fresh_witness:
  "ep_createValidation demo_form_state = validateContent demo_engine (Some (CTNum (ep_createContentType demo_form_state))) (ep_createRaw demo_form_state) (\<lambda>k ps. k)"
  by (rule elements_validation_fresh [OF demo_form_state_def demo_form_facts(1-3)])

end
