(* ===== verification/Topology.thy ===== *)
theory Topology
  imports Complex_Main Latest_Loader Feedback
begin

section \<open>The cluster topology page: \<open>cluster/AgentsPage.tsx\<close>\<close>

text \<open>
  The page asks for the databases, agents and instances of the cluster and draws them as a graph of
  three layers: every database is connected with every agent, and every instance with its agent;
  the instances of an agent that has more than five are drawn as one node. The request does not go
  through \<open>apiRequest\<close> but has its own handling of sessions and errors.

  The parser behind \<open>new URL\<close> is an argument, \<open>url_hostname\<close>, that gives the host name or fails.
  The positions in the layers are exact fractions of the height.

  The facts: grouping is the partition of the instances by agent, unless an agent has the name of a
  property every object inherits, which makes the page fail; no instance is lost in the graph; the
  edges connect nodes of the graph, their keys and the keys of the nodes are distinct, and the
  positions are within the drawing; one request is in flight at a time. A response without an error code is
  taken for a topology whatever its status.
\<close>

subsection \<open>Requesting the topology\<close>

record Topology =
  tp_dbs :: "DBNode list"
  tp_agents :: "AgentNode list"
  tp_instances :: "Instance list"

datatype topology_data = AgentArray "AgentNode list" | TopologyObject ClusterTopologyResponse

text \<open>
  What the body of the response parses to: nothing usable (not JSON, \<open>null\<close> or another falsy
  value), a truthy primitive value, an array of agents, an object without \<open>errcode\<close>, or a common
  response.
\<close>

datatype topology_payload =
    NoPayload
  | PrimitivePayload
  | ArrayPayload "AgentNode list"
  | PlainPayload ClusterTopologyResponse
  | CommonPayload "topology_data CommonResponse"

datatype topology_fetched = TopologyNetworkFailure string | TopologyFetched int topology_payload

definition normalizeTopologyData :: "topology_data option \<Rightarrow> Topology" where
  "normalizeTopologyData d = (case d of
       Some (AgentArray agents) \<Rightarrow> \<lparr>tp_dbs = [], tp_agents = agents, tp_instances = []\<rparr>
     | Some (TopologyObject r) \<Rightarrow> \<lparr>tp_dbs = opt_or (ct_dbs r) [], tp_agents = opt_or (ct_agents r) [],
         tp_instances = opt_or (ct_instances r) []\<rparr>
     | None \<Rightarrow> \<lparr>tp_dbs = [], tp_agents = [], tp_instances = []\<rparr>)"

definition topologyHeaders :: "storage \<Rightarrow> (string \<times> string) list" where
  "topologyHeaders st =
     (''Accept'', ''application/json'') # (if getSession st \<noteq> [] then [(''X-CASSEM-SESSION'', getSession st)] else [])"

definition requestTopology :: "storage \<Rightarrow> topology_fetched \<Rightarrow> (failure + Topology) \<times> storage \<times> string option" where
  \<comment> \<open>the outcome, the storage, and the address the window is sent to, if any\<close>
  "requestTopology st f = (case f of
       TopologyNetworkFailure m \<Rightarrow> (Inl (OtherFailure m), st, None)
     | TopologyFetched status payload \<Rightarrow> (case payload of
           PrimitivePayload \<Rightarrow> (Inl (OtherFailure ''TypeError''), st, None)
         | ArrayPayload agents \<Rightarrow> (Inr (normalizeTopologyData (Some (AgentArray agents))), st, None)
         | PlainPayload r \<Rightarrow> (Inr (normalizeTopologyData (Some (TopologyObject r))), st, None)
         | NoPayload \<Rightarrow>
             (let auth = (status = 401) in
              (Inl (ApiFailure \<lparr>ae_message = http_message status, ae_code = -1, ae_status = status, ae_auth = auth\<rparr>),
               if auth then clearSession st else st, if auth then Some ''/ui/login'' else None))
         | CommonPayload p \<Rightarrow>
             (let auth = isAuthError status p in
              if \<not> response_ok status \<or> errcode p \<noteq> Some 0 then
                (Inl (ApiFailure \<lparr>ae_message = opt_str_or (errmsg p) (http_message status), ae_code = opt_or (errcode p) (-1),
                   ae_status = status, ae_auth = auth\<rparr>),
                 if auth then clearSession st else st, if auth then Some ''/ui/login'' else None)
              else (Inr (normalizeTopologyData (data p)), st, None))))"

subsection \<open>Names and tokens\<close>

definition strip_scheme :: "string \<Rightarrow> string" where
  \<comment> \<open>\<open>value.replace(/^\w+:\/\//, '')\<close>\<close>
  "strip_scheme v =
     (let w = takeWhile is_word v; r = dropWhile is_word v in
      if w \<noteq> [] \<and> js_startsWith r ''://'' then drop 3 r else v)"

definition extractHost :: "(string \<Rightarrow> string option) \<Rightarrow> string option \<Rightarrow> string" where
  "extractHost url_hostname addr =
     (case addr of
        None \<Rightarrow> []
      | Some a \<Rightarrow>
          (let v = js_trim a in
           if v = [] then []
           else case url_hostname v of
               Some hostname \<Rightarrow> str_or hostname v
             | None \<Rightarrow> hd (split_on (\<lambda>c. c = CHR '':'') (strip_scheme v))))"

definition normalizeHealth :: "HealthState option \<Rightarrow> HealthState \<Rightarrow> HealthState" where
  "normalizeHealth health fallback = (case health of
       Some h \<Rightarrow> if h \<in> {''healthy'', ''unhealthy'', ''offline''} then h else fallback
     | None \<Rightarrow> fallback)"

definition healthLabel :: "HealthState \<Rightarrow> Translator \<Rightarrow> string" where
  "healthLabel health t = t (''operations.topology.'' @ health) []"

fun dotted_capital :: "string \<Rightarrow> string" where
  \<comment> \<open>U+0130, whose lower case is \<open>i\<close> with a combining dot\<close>
  "dotted_capital (a # b # s) =
     (if a = CHR 0xC4 \<and> b = CHR 0xB0 then CHR ''i'' # CHR 0xCC # CHR 0x87 # dotted_capital s else a # dotted_capital (b # s))"
| "dotted_capital s = s"

definition is_token_char :: "char \<Rightarrow> bool" where
  "is_token_char c = (is_alnum c \<and> lower_char c = c)"

fun dash_runs :: "string \<Rightarrow> string" where
  \<comment> \<open>\<open>replace(/[^a-z0-9]+/g, '-')\<close>\<close>
  "dash_runs [] = []"
| "dash_runs (c # s) =
     (if is_token_char c then c # dash_runs s
      else case dash_runs s of CHR ''-'' # r \<Rightarrow> CHR ''-'' # r | r \<Rightarrow> CHR ''-'' # r)"

definition strip_dashes :: "string \<Rightarrow> string" where
  \<comment> \<open>\<open>replace(/^-|-$/g, '')\<close>\<close>
  "strip_dashes s =
     (let r = (case s of CHR ''-'' # r \<Rightarrow> r | _ \<Rightarrow> s) in if r \<noteq> [] \<and> last r = CHR ''-'' then butlast r else r)"

definition token_of :: "string \<Rightarrow> string" where
  "token_of i = strip_dashes (dash_runs (js_toLowerCase (dotted_capital i)))"

definition nodeTestId :: "string \<Rightarrow> string \<Rightarrow> string" where
  "nodeTestId kind i =
     (let normalized = token_of i in
      if normalized = [] then ''topology-node-'' @ kind @ ''-unknown''
      else if js_startsWith normalized (kind @ ''-'') then ''topology-node-'' @ normalized
      else ''topology-node-'' @ kind @ ''-'' @ normalized)"

datatype TopologyNodeKind = KDb | KAgent | KInstance | KGroup

definition normalizeGraphToken :: "string \<Rightarrow> string" where
  "normalizeGraphToken i = str_or (token_of i) ''unknown''"

definition edgeToken :: "TopologyNodeKind \<Rightarrow> string \<Rightarrow> string" where
  "edgeToken kind i =
     (let normalized = normalizeGraphToken i in
      case kind of
        KGroup \<Rightarrow> if js_startsWith normalized ''instance-group-'' then normalized else ''instance-group-'' @ normalized
      | KInstance \<Rightarrow> if js_startsWith normalized ''instance-'' then normalized else ''instance-'' @ normalized
      | _ \<Rightarrow> normalized)"

subsection \<open>The layers\<close>

record TopologyNodeProps =
  tn_kind :: TopologyNodeKind
  tn_id :: string
  tn_ip :: "string option"
  tn_addr :: "string option"
  tn_health :: HealthState
  tn_subtitle :: "string option"
  tn_aggregateCount :: "nat option"
  tn_attachedAgentId :: "string option"

datatype topology_layer = LDbs | LAgents | LInstances

definition layer_name :: "topology_layer \<Rightarrow> string" where
  "layer_name l = (case l of LDbs \<Rightarrow> ''dbs'' | LAgents \<Rightarrow> ''agents'' | LInstances \<Rightarrow> ''instances'')"

record TopologyGraphNode = TopologyNodeProps +
  gn_graphId :: string
  gn_edgeToken :: string
  gn_layer :: topology_layer
  gn_x :: rat
  gn_y :: rat

record TopologyEdge =
  te_key :: string
  te_from :: TopologyGraphNode
  te_to :: TopologyGraphNode
  te_testId :: string
  te_label :: string

record TopologyGraphModel =
  tg_nodes :: "TopologyGraphNode list"
  tg_edges :: "TopologyEdge list"
  tg_height :: nat

definition layerY :: "nat \<Rightarrow> nat \<Rightarrow> rat" where
  "layerY index n = (if n \<le> 1 then 50 else 16 + (68 * of_nat index) / (of_nat n - 1))"

definition graph_id :: "topology_layer \<Rightarrow> TopologyNodeProps \<Rightarrow> nat \<Rightarrow> string" where
  "graph_id layer node index = layer_name layer @ ''-'' @ edgeToken (tn_kind node) (tn_id node) @ ''-'' @ nat_str index"

definition place_node :: "topology_layer \<Rightarrow> rat \<Rightarrow> nat \<Rightarrow> nat \<Rightarrow> TopologyNodeProps \<Rightarrow> TopologyGraphNode" where
  "place_node layer x n index node = TopologyNodeProps.extend node
     (TopologyGraphNode.fields (graph_id layer node index) (edgeToken (tn_kind node) (tn_id node)) layer x (layerY index n))"

definition positionLayer :: "TopologyNodeProps list \<Rightarrow> topology_layer \<Rightarrow> rat \<Rightarrow> TopologyGraphNode list" where
  "positionLayer nodes layer x = map (\<lambda>(index, node). place_node layer x (length nodes) index node) (enumerate 0 nodes)"

subsection \<open>Grouping the instances\<close>

text \<open>
  The accumulator is an object literal. Reading a property that every object inherits gives a
  function or the prototype, which is truthy and has no \<open>push\<close>, so that the next line throws:
  \<open>None\<close>. The names are those of \<open>Object.prototype\<close>.
\<close>

definition object_prototype_names :: "string list" where
  "object_prototype_names = [''constructor'', ''__defineGetter__'', ''__defineSetter__'', ''hasOwnProperty'', ''__lookupGetter__'',
     ''__lookupSetter__'', ''isPrototypeOf'', ''propertyIsEnumerable'', ''toString'', ''valueOf'', ''__proto__'', ''toLocaleString'']"

definition agent_key :: "Instance \<Rightarrow> string" where
  "agent_key i = opt_str_or (in_agentId i) ''unassigned''"

fun group_push :: "string \<Rightarrow> 'a \<Rightarrow> (string \<times> 'a list) list \<Rightarrow> (string \<times> 'a list) list" where
  "group_push k x [] = [(k, [x])]"
| "group_push k x ((k', xs) # g) = (if k = k' then (k', xs @ [x]) # g else (k', xs) # group_push k x g)"

definition group_step :: "Instance \<Rightarrow> (string \<times> Instance list) list option \<Rightarrow> (string \<times> Instance list) list option" where
  "group_step i acc = (case acc of
       None \<Rightarrow> None
     | Some g \<Rightarrow> if agent_key i \<in> set object_prototype_names then None else Some (group_push (agent_key i) i g))"

definition groupInstancesByAgent :: "Instance list \<Rightarrow> (string \<times> Instance list) list option" where
  "groupInstancesByAgent instances = fold group_step instances (Some [])"

text \<open>\<open>Object.entries\<close>: keys that are array indices first, in ascending order, then the others as inserted.\<close>

definition is_array_index :: "string \<Rightarrow> bool" where
  "is_array_index k = (k \<noteq> [] \<and> list_all is_digit k \<and> (hd k \<noteq> CHR ''0'' \<or> tl k = []) \<and> digits_nat k < 4294967295)"

definition object_entries :: "(string \<times> 'a) list \<Rightarrow> (string \<times> 'a) list" where
  "object_entries g = sort_key (\<lambda>kv. digits_nat (fst kv)) (filter (\<lambda>kv. is_array_index (fst kv)) g) @
     filter (\<lambda>kv. \<not> is_array_index (fst kv)) g"

definition INSTANCE_AGGREGATION_THRESHOLD :: nat where
  "INSTANCE_AGGREGATION_THRESHOLD = 5"

definition attached_to :: "Translator \<Rightarrow> Instance \<Rightarrow> string" where
  "attached_to t i = t ''operations.topology.attachedTo''
     [(''agentId'', PStr (opt_str_or (in_agentId i) (t ''operations.topology.unassigned'' [])))]"

definition group_node :: "Translator \<Rightarrow> string \<Rightarrow> Instance list \<Rightarrow> TopologyNodeProps" where
  "group_node t agentId is = \<lparr>tn_kind = KGroup, tn_id = agentId, tn_ip = Some ''-'', tn_addr = None, tn_health = ''healthy'',
     tn_subtitle = Some (attached_to t (hd is)), tn_aggregateCount = Some (length is), tn_attachedAgentId = Some agentId\<rparr>"

definition instance_node :: "Translator \<Rightarrow> string \<Rightarrow> nat \<Rightarrow> Instance \<Rightarrow> TopologyNodeProps" where
  "instance_node t agentId index i = \<lparr>tn_kind = KInstance,
     tn_id = opt_str_or (in_clientId i) (agentId @ ''-'' @ nat_str (index + 1)), tn_ip = Some (opt_str_or (in_clientIp i) ''-''), tn_addr = None,
     tn_health = normalizeHealth (in_health i) (if truthy_num (in_lastRenewTimestamp i) then ''healthy'' else ''offline''),
     tn_subtitle = Some (attached_to t i), tn_aggregateCount = None, tn_attachedAgentId = Some agentId\<rparr>"

definition agent_nodes :: "Translator \<Rightarrow> string \<times> Instance list \<Rightarrow> TopologyNodeProps list" where
  "agent_nodes t = (\<lambda>(agentId, is).
     if length is > INSTANCE_AGGREGATION_THRESHOLD then [group_node t agentId is]
     else map (\<lambda>(index, i). instance_node t agentId index i) (enumerate 0 is))"

definition getInstanceGraphNodes :: "Instance list \<Rightarrow> Translator \<Rightarrow> TopologyNodeProps list option" where
  "getInstanceGraphNodes instances t =
     map_option (\<lambda>grouped. concat (map (agent_nodes t) (object_entries grouped))) (groupInstancesByAgent instances)"

subsection \<open>The graph\<close>

definition db_node :: "(string \<Rightarrow> string option) \<Rightarrow> nat \<Rightarrow> DBNode \<Rightarrow> TopologyNodeProps" where
  "db_node url_hostname index db = \<lparr>tn_kind = KDb, tn_id = opt_str_or (dn_id db) (''db-'' @ nat_str (index + 1)),
     tn_ip = Some (opt_str_or (dn_ip db) (extractHost url_hostname (dn_addr db))), tn_addr = dn_addr db,
     tn_health = normalizeHealth (dn_health db) ''offline'', tn_subtitle = None, tn_aggregateCount = None, tn_attachedAgentId = None\<rparr>"

definition agent_node :: "(string \<Rightarrow> string option) \<Rightarrow> nat \<Rightarrow> AgentNode \<Rightarrow> TopologyNodeProps" where
  "agent_node url_hostname index agent = \<lparr>tn_kind = KAgent, tn_id = opt_str_or (an_agentId agent) (''agent-'' @ nat_str (index + 1)),
     tn_ip = Some (opt_str_or (an_ip agent) (extractHost url_hostname (an_addr agent))), tn_addr = an_addr agent,
     tn_health = normalizeHealth (an_health agent) (if truthy_str (an_addr agent) then ''healthy'' else ''offline''),
     tn_subtitle = None, tn_aggregateCount = None, tn_attachedAgentId = None\<rparr>"

definition edge_of :: "TopologyGraphNode \<Rightarrow> TopologyGraphNode \<Rightarrow> string \<Rightarrow> TopologyEdge" where
  "edge_of a b label = \<lparr>te_key = gn_graphId a @ ''-'' @ gn_graphId b, te_from = a, te_to = b,
     te_testId = ''topology-edge-'' @ gn_edgeToken a @ ''-'' @ gn_edgeToken b, te_label = label\<rparr>"

definition db_edge :: "Translator \<Rightarrow> TopologyGraphNode \<Rightarrow> TopologyGraphNode \<Rightarrow> TopologyEdge" where
  "db_edge t dbNode agentNode = edge_of dbNode agentNode
     (t ''operations.topology.connection'' [(''from'', PStr (tn_id dbNode)), (''to'', PStr (tn_id agentNode))])"

definition agent_of :: "TopologyGraphNode list \<Rightarrow> TopologyGraphNode \<Rightarrow> TopologyGraphNode option" where
  \<comment> \<open>the last agent with the identifier, as in a \<open>Map\<close>, or else the first agent\<close>
  "agent_of agents node =
     (case map_of (rev (map (\<lambda>a. (tn_id a, a)) agents)) (opt_str_or (tn_attachedAgentId node) []) of
        Some a \<Rightarrow> Some a
      | None \<Rightarrow> (case agents of a # _ \<Rightarrow> Some a | [] \<Rightarrow> None))"

definition instance_edges :: "Translator \<Rightarrow> TopologyGraphNode list \<Rightarrow> TopologyGraphNode \<Rightarrow> TopologyEdge list" where
  "instance_edges t agents node = (case agent_of agents node of
       None \<Rightarrow> []
     | Some agentNode \<Rightarrow> [edge_of agentNode node
         (case tn_aggregateCount node of
            Some (Suc n) \<Rightarrow> t ''operations.topology.instanceConnection''
              [(''from'', PStr (tn_id agentNode)), (''count'', PNum (int (Suc n)))]
          | _ \<Rightarrow> t ''operations.topology.connection'' [(''from'', PStr (tn_id agentNode)), (''to'', PStr (tn_id node))])])"

definition assemble_graph :: "Translator \<Rightarrow> TopologyGraphNode list \<Rightarrow> TopologyGraphNode list \<Rightarrow> TopologyGraphNode list \<Rightarrow> TopologyGraphModel" where
  "assemble_graph t dbs agents is =
     \<lparr>tg_nodes = dbs @ agents @ is,
      tg_edges = concat (map (\<lambda>d. map (db_edge t d) agents) dbs) @ concat (map (instance_edges t agents) is),
      tg_height = max 300 (max (max (length dbs) (length agents)) (length is) * 116)\<rparr>"

definition buildTopologyGraph ::
  "(string \<Rightarrow> string option) \<Rightarrow> DBNode list \<Rightarrow> AgentNode list \<Rightarrow> Instance list \<Rightarrow> Translator \<Rightarrow> TopologyGraphModel option" where
  "buildTopologyGraph url_hostname dbs agents instances t =
     map_option (\<lambda>nodes. assemble_graph t
         (positionLayer (map (\<lambda>(i, db). db_node url_hostname i db) (enumerate 0 dbs)) LDbs 15)
         (positionLayer (map (\<lambda>(i, agent). agent_node url_hostname i agent) (enumerate 0 agents)) LAgents 50)
         (positionLayer nodes LInstances 85))
       (getInstanceGraphNodes instances t)"

definition isTopologyEmpty :: "Topology \<Rightarrow> bool" where
  "isTopologyEmpty topology = (tp_dbs topology = [] \<and> tp_agents topology = [] \<and> tp_instances topology = [])"

subsection \<open>The page\<close>

record TopologyState =
  tv_topology :: Topology
  tv_loading :: bool
  tv_error :: ErrorFeedback
  tv_requestSeq :: nat
  tv_mounted :: bool
  tv_lastLoadKey :: string
  tv_microtasks :: nat
  tv_loads :: "nat list"
  tv_storage :: storage

definition emptyTopology :: Topology where
  "emptyTopology = \<lparr>tp_dbs = [], tp_agents = [], tp_instances = []\<rparr>"

definition initTopology :: "storage \<Rightarrow> TopologyState" where
  "initTopology st = \<lparr>tv_topology = emptyTopology, tv_loading = True, tv_error = initError, tv_requestSeq = 0, tv_mounted = False,
     tv_lastLoadKey = [], tv_microtasks = 0, tv_loads = [], tv_storage = st\<rparr>"

definition loadTopology :: "TopologyState \<Rightarrow> TopologyState \<times> effect list" where
  "loadTopology s =
     (s\<lparr>tv_requestSeq := Suc (tv_requestSeq s), tv_loading := True, tv_loads := tv_loads s @ [Suc (tv_requestSeq s)]\<rparr>,
      [Request ''/api/cluster/topology'' \<lparr>ri_method = None, ri_headers = HeadersRecord (topologyHeaders (tv_storage s)), ri_body = None\<rparr>])"

definition tv_apply :: "nat \<Rightarrow> failure + Topology \<Rightarrow> TopologyState \<Rightarrow> TopologyState" where
  "tv_apply requestId outcome s =
     (if \<not> tv_mounted s \<or> requestId \<noteq> tv_requestSeq s then s
      else case outcome of
          Inr d \<Rightarrow> s\<lparr>tv_topology := d, tv_error := reportError [] (tv_error s), tv_loading := False\<rparr>
        | Inl err \<Rightarrow> s\<lparr>tv_topology := emptyTopology,
            tv_error := reportError (getErrorMessage err ''operations.topology.loadFailed'') (tv_error s), tv_loading := False\<rparr>)"

definition tv_loaded :: "nat \<Rightarrow> topology_fetched \<Rightarrow> TopologyState \<Rightarrow> TopologyState \<times> effect list" where
  "tv_loaded i f s =
     (if i < length (tv_loads s) then
        (let (outcome, st, goto) = requestTopology (tv_storage s) f in
         (tv_apply (tv_loads s ! i) outcome (s\<lparr>tv_loads := remove_at i (tv_loads s), tv_storage := st\<rparr>),
          case goto of Some p \<Rightarrow> [Navigate p] | None \<Rightarrow> []))
      else (s, []))"

definition tv_mount :: "TopologyState \<Rightarrow> TopologyState" where
  "tv_mount s =
     (let s' = s\<lparr>tv_mounted := True\<rparr>; loadKey = ''cluster-topology'' in
      if tv_lastLoadKey s' \<noteq> loadKey then s'\<lparr>tv_lastLoadKey := loadKey, tv_microtasks := Suc (tv_microtasks s')\<rparr> else s')"

datatype TopologyEvent = TvMount | TvUnmount | TvMicrotask | TvLoaded nat topology_fetched | TvRefresh

definition topology_step :: "TopologyState \<Rightarrow> TopologyEvent \<Rightarrow> TopologyState \<times> effect list" where
  "topology_step s e = (case e of
       TvMount \<Rightarrow> (tv_mount s, [])
     | TvUnmount \<Rightarrow> (s\<lparr>tv_mounted := False\<rparr>, [])
     | TvMicrotask \<Rightarrow> (case tv_microtasks s of 0 \<Rightarrow> (s, []) | Suc n \<Rightarrow> loadTopology (s\<lparr>tv_microtasks := n\<rparr>))
     | TvLoaded i f \<Rightarrow> tv_loaded i f s
     | TvRefresh \<Rightarrow> if tv_mounted s \<and> \<not> tv_loading s then loadTopology s else (s, []))"

subsection \<open>The view\<close>

definition kind_label :: "Translator \<Rightarrow> TopologyNodeKind \<Rightarrow> string" where
  "kind_label t kind = t (case kind of KDb \<Rightarrow> ''operations.topology.db'' | KAgent \<Rightarrow> ''operations.topology.agent''
     | KGroup \<Rightarrow> ''operations.topology.instances'' | KInstance \<Rightarrow> ''operations.topology.instance'') []"

definition kind_name :: "TopologyNodeKind \<Rightarrow> string" where
  "kind_name kind = (case kind of KDb \<Rightarrow> ''db'' | KAgent \<Rightarrow> ''agent'' | KGroup \<Rightarrow> ''instance-group'' | KInstance \<Rightarrow> ''instance'')"

definition TopologyNode_view :: "Translator \<Rightarrow> (int \<Rightarrow> string) \<Rightarrow> TopologyGraphNode \<Rightarrow> ui" where
  "TopologyNode_view t formatNumber n =
     ULabelled (nodeTestId (kind_name (tn_kind n)) (tn_id n))
       ([UText (t ''operations.topology.type'' [(''type'', PStr (kind_label t (tn_kind n)))]),
         UText (t ''operations.topology.id'' [(''id'', PStr (str_or (tn_id n) ''-''))]),
         UText (t ''operations.topology.health'' [(''health'', PStr (healthLabel (tn_health n) t))])] @
        (if truthy_str (tn_subtitle n) then [UText (the (tn_subtitle n))] else []) @
        [UText (t ''operations.topology.ip'' [(''ip'', PStr (opt_str_or (tn_ip n) ''-''))])] @
        (if truthy_str (tn_addr n) then [UText (t ''operations.topology.addr'' [(''addr'', PStr (the (tn_addr n)))])] else []) @
        [UText (kind_label t (tn_kind n)),
         UText (case tn_aggregateCount n of
             Some (Suc k) \<Rightarrow> t ''operations.topology.instanceCount'' [(''count'', PStr (formatNumber (int (Suc k))))]
           | _ \<Rightarrow> str_or (tn_id n) ''-''),
         UText (healthLabel (tn_health n) t)])"

definition TopologyGraph_view :: "Translator \<Rightarrow> (int \<Rightarrow> string) \<Rightarrow> TopologyGraphModel \<Rightarrow> ui list" where
  "TopologyGraph_view t formatNumber g =
     map (\<lambda>e. ULabelled (te_testId e) [UText (te_label e)]) (tg_edges g) @
     concat (map (\<lambda>l. map (TopologyNode_view t formatNumber) (filter (\<lambda>n. gn_layer n = l) (tg_nodes g))) [LDbs, LAgents, LInstances])"

definition AgentsPage_view ::
  "(string \<Rightarrow> bool) \<Rightarrow> (string \<Rightarrow> string option) \<Rightarrow> Translator \<Rightarrow> (int \<Rightarrow> string) \<Rightarrow> TopologyState \<Rightarrow> ui list option" where
  \<comment> \<open>\<open>None\<close> when the rendering throws; \<open>isKey\<close> tells the keys of the catalogue from other texts\<close>
  "AgentsPage_view isKey url_hostname t formatNumber s =
     (let topology = tv_topology s; message = ef_message (tv_error s) in
      map_option (\<lambda>graph.
        [UHeading (t ''operations.topology.title'' []), UText (t ''operations.topology.description'' []),
         UButton (t ''operations.topology.refresh'' []) (tv_loading s)] @
        (if message \<noteq> [] then [UError (if isKey message then t message [] else message)] else []) @
        (if tv_loading s then LoadingState t (Some (t ''operations.topology.loading'' []))
         else if message \<noteq> [] then []
         else if isTopologyEmpty topology
         then EmptyState (t ''operations.topology.emptyTitle'' []) (Some (t ''operations.topology.emptyDescription'' []))
         else
           [UHeading (t ''operations.topology.clusterTitle'' []), UText (t ''operations.topology.clusterDescription'' []),
            UChips [t ''operations.topology.dbCount'' [(''count'', PStr (formatNumber (int (length (tp_dbs topology)))))],
              t ''operations.topology.agentCount'' [(''count'', PStr (formatNumber (int (length (tp_agents topology)))))],
              t ''operations.topology.instanceCount'' [(''count'', PStr (formatNumber (int (length (tp_instances topology)))))]]] @
           TopologyGraph_view t formatNumber graph))
      (buildTopologyGraph url_hostname (tp_dbs topology) (tp_agents topology) (tp_instances topology) t))"

subsection \<open>Grouping is the partition by agent\<close>

lemma group_push_map:
  assumes "distinct ks"
  shows "group_push k x (map (\<lambda>k. (k, F k)) ks) =
    (if k \<in> set ks then map (\<lambda>k'. (k', if k' = k then F k' @ [x] else F k')) ks else map (\<lambda>k. (k, F k)) ks @ [(k, [x])])"
  using assms by (induction ks) auto

lemma group_by_agent:
  "groupInstancesByAgent is =
     (if set (map agent_key is) \<inter> set object_prototype_names \<noteq> {} then None
      else Some (map (\<lambda>k. (k, filter (\<lambda>i. agent_key i = k) is)) (js_set_of (map agent_key is))))"
proof (induction "is" rule: rev_induct)
  case Nil
  then show ?case by (simp add: groupInstancesByAgent_def js_set_of_def)
next
  case (snoc i "is")
  let ?ks = "js_set_of (map agent_key is)"
  have step: "groupInstancesByAgent (is @ [i]) = group_step i (groupInstancesByAgent is)"
    by (simp add: groupInstancesByAgent_def)
  have keys: "js_set_of (map agent_key (is @ [i])) = js_set_add ?ks (agent_key i)"
    by (simp add: js_set_of_def)
  have empty: "filter (\<lambda>j. agent_key j = agent_key i) is = []" if "agent_key i \<notin> set ?ks"
    using that by (auto simp: filter_empty_conv) (metis imageI)
  show ?case
    unfolding step snoc keys
    by (auto simp: group_step_def group_push_map js_set_add_def empty filter_empty_conv)
qed

lemma sort_key_map: "sort_key f (map h xs) = map h (sort_key (f \<circ> h) xs)"
proof -
  have "insort_key f (h x) (map h ys) = map h (insort_key (f \<circ> h) x ys)" for x ys
    by (induction ys) simp_all
  then show ?thesis by (induction xs) simp_all
qed

lemma object_entries_map:
  "object_entries (map (\<lambda>k. (k, F k)) ks) =
     map (\<lambda>k. (k, F k)) (sort_key digits_nat (filter is_array_index ks) @ filter (\<lambda>k. \<not> is_array_index k) ks)"
  by (simp add: object_entries_def filter_map sort_key_map comp_def)

text \<open>C32: Grouping the instances fails, and with it the page, exactly when some agent has the name of a
  property that objects inherit. Otherwise it gives, for every agent in the order of its first
  instance, the instances of that agent in their order; and the groups are then visited as
  \<open>Object.entries\<close> enumerates them: first the agents whose names are array indices, in ascending
  order of these numbers, and then the others in the order of their first instance.\<close>

theorem group_partition:
  "groupInstancesByAgent is =
     (if set (map agent_key is) \<inter> set object_prototype_names \<noteq> {} then None
      else Some (map (\<lambda>k. (k, filter (\<lambda>i. agent_key i = k) is)) (js_set_of (map agent_key is)))) \<and>
   (\<forall>g. groupInstancesByAgent is = Some g \<longrightarrow>
     (\<exists>idx. object_entries g = map (\<lambda>k. (k, filter (\<lambda>i. agent_key i = k) is))
          (idx @ filter (\<lambda>k. \<not> is_array_index k) (js_set_of (map agent_key is))) \<and>
        set idx = {k \<in> agent_key ` set is. is_array_index k} \<and> distinct idx \<and> sorted (map digits_nat idx)))"
  unfolding group_by_agent
  by (auto simp: object_entries_map intro!: exI [of _ "sort_key digits_nat (filter is_array_index (js_set_of (map agent_key is)))"]
      simp del: map_append split: if_splits)

subsection \<open>No instance is lost\<close>

definition node_count :: "TopologyNodeProps \<Rightarrow> nat" where
  \<comment> \<open>the number of instances a node stands for\<close>
  "node_count n = opt_or (tn_aggregateCount n) 1"

lemma agent_nodes_count: "sum_list (map node_count (agent_nodes t (a, is))) = length is"
proof (cases "length is > INSTANCE_AGGREGATION_THRESHOLD")
  case False
  have "map node_count (agent_nodes t (a, is)) = map (\<lambda>_. 1) is"
    using False by (intro nth_equalityI)
      (simp_all add: agent_nodes_def node_count_def instance_node_def nth_enumerate_eq)
  then show ?thesis by (simp add: sum_list_triv)
qed (simp add: agent_nodes_def node_count_def group_node_def)

lemma mset_object_entries: "mset (object_entries g) = mset g"
  unfolding object_entries_def by (simp only: mset_append mset_sort) (simp add: multiset_partition [symmetric])

lemma group_push_sum: "sum_list (map (length \<circ> snd) (group_push k x g)) = Suc (sum_list (map (length \<circ> snd) g))"
  by (induction k x g rule: group_push.induct) auto

lemma groups_sum: "groupInstancesByAgent is = Some g \<Longrightarrow> sum_list (map (length \<circ> snd) g) = length is"
proof (induction "is" arbitrary: g rule: rev_induct)
  case (snoc i "is")
  then obtain g' where g': "groupInstancesByAgent is = Some g'" "g = group_push (agent_key i) i g'"
    by (auto simp: groupInstancesByAgent_def group_step_def split: option.splits if_splits)
  with snoc.IH [OF g'(1)] show ?case by (simp only: group_push_sum length_append_singleton)
qed (simp add: groupInstancesByAgent_def)

text \<open>No instance is lost or counted twice in the graph: the nodes of the instances stand for as many
  instances as the topology has, one each, or the size of the group for a group node.\<close>

theorem topology_counts:
  assumes "getInstanceGraphNodes is t = Some nodes"
  shows "sum_list (map node_count nodes) = length is"
proof -
  from assms obtain g where g: "groupInstancesByAgent is = Some g" "nodes = concat (map (agent_nodes t) (object_entries g))"
    by (auto simp: getInstanceGraphNodes_def)
  have "sum_list (map node_count (concat (map (agent_nodes t) es))) = sum_list (map (length \<circ> snd) es)" for es
    by (induction es) (auto simp: agent_nodes_count)
  then have "sum_list (map node_count nodes) = sum_list (map (length \<circ> snd) (object_entries g))"
    unfolding g(2) .
  also have "\<dots> = sum_list (map (length \<circ> snd) g)"
    using mset_object_entries [of g] by (metis mset_map sum_mset_sum_list)
  finally show ?thesis using groups_sum [OF g(1)] by simp
qed

subsection \<open>The graph is well formed\<close>

definition index_part :: "string \<Rightarrow> string" where
  \<comment> \<open>what follows the last dash\<close>
  "index_part s = rev (takeWhile (\<lambda>c. c \<noteq> CHR ''-'') (rev s))"

lemma dash_not_digit: "CHR ''-'' \<notin> set (nat_str n)"
  using nat_str_digits [of n] by (auto simp: is_digit_def)

lemma index_part_append: "index_part (a @ CHR ''-'' # nat_str n) = nat_str n"
proof -
  have "\<And>c. c \<in> set (rev (nat_str n)) \<Longrightarrow> c \<noteq> CHR ''-''" using dash_not_digit [of n] by auto
  then have "takeWhile (\<lambda>c. c \<noteq> CHR ''-'') (rev (nat_str n) @ CHR ''-'' # rev a) = rev (nat_str n)"
    by (subst takeWhile_append2) simp_all
  then show ?thesis by (simp add: index_part_def)
qed

lemma positionLayer_length [simp]: "length (positionLayer nodes l x) = length nodes"
  by (simp add: positionLayer_def)

lemma positionLayer_nth:
  "i < length nodes \<Longrightarrow> positionLayer nodes l x ! i = place_node l x (length nodes) i (nodes ! i)"
  by (simp add: positionLayer_def nth_enumerate_eq)

lemma place_node_simps [simp]:
  "gn_graphId (place_node l x n i p) = graph_id l p i" "gn_layer (place_node l x n i p) = l" "gn_y (place_node l x n i p) = layerY i n"
  "gn_x (place_node l x n i p) = x" "tn_id (place_node l x n i p) = tn_id p" "tn_attachedAgentId (place_node l x n i p) = tn_attachedAgentId p"
  "tn_kind (place_node l x n i p) = tn_kind p"
  by (simp_all add: place_node_def TopologyNodeProps.extend_def TopologyGraphNode.fields_def)

definition layer_ids :: "TopologyNodeProps list \<Rightarrow> topology_layer \<Rightarrow> rat \<Rightarrow> string list" where
  "layer_ids nodes l x = map gn_graphId (positionLayer nodes l x)"

lemma layer_ids_nth: "i < length nodes \<Longrightarrow> layer_ids nodes l x ! i = graph_id l (nodes ! i) i"
  by (simp add: layer_ids_def positionLayer_nth)

lemma layer_ids_index: "i < length nodes \<Longrightarrow> index_part (layer_ids nodes l x ! i) = nat_str i"
  using index_part_append [of "layer_name l @ ''-'' @ edgeToken (tn_kind (nodes ! i)) (tn_id (nodes ! i))" i]
  by (simp add: layer_ids_nth graph_id_def)

lemma layer_ids_length [simp]: "length (layer_ids nodes l x) = length nodes"
  by (simp add: layer_ids_def)

lemma layer_ids_inj: "inj_on index_part (set (layer_ids nodes l x))"
proof (rule inj_onI)
  fix a b
  assume "a \<in> set (layer_ids nodes l x)" "b \<in> set (layer_ids nodes l x)" and eq: "index_part a = index_part b"
  then obtain i j where "i < length nodes" "a = layer_ids nodes l x ! i" "j < length nodes" "b = layer_ids nodes l x ! j"
    by (auto simp: in_set_conv_nth)
  with eq layer_ids_index [of i nodes l x] layer_ids_index [of j nodes l x] show "a = b" by (simp only: nat_str_inject)
qed

lemma layer_ids_distinct: "distinct (layer_ids nodes l x)"
proof -
  have "i = j" if "i < length nodes" "j < length nodes" "layer_ids nodes l x ! i = layer_ids nodes l x ! j" for i j
    by (metis layer_ids_index nat_str_inject that)
  then show ?thesis by (auto simp: distinct_conv_nth)
qed

lemma layer_ids_head:
  assumes "a \<in> set (layer_ids nodes l x)"
  shows "\<exists>r. a = layer_name l @ r" and "CHR ''-'' \<in> set a"
proof -
  from assms obtain i where "i < length nodes" "a = layer_ids nodes l x ! i"
    by (auto simp: in_set_conv_nth)
  then show "\<exists>r. a = layer_name l @ r" "CHR ''-'' \<in> set a" by (simp_all add: layer_ids_nth graph_id_def)
qed

lemma layers_disjoint: "l \<noteq> l' \<Longrightarrow> set (layer_ids nodes l x) \<inter> set (layer_ids nodes' l' x') = {}"
  by (cases l; cases l') (auto simp: layer_name_def dest!: layer_ids_head(1))

lemma layerY_bounds: "i < n \<Longrightarrow> 16 \<le> layerY i n \<and> layerY i n \<le> 84"
proof (cases "n \<le> 1")
  case False
  assume "i < n"
  with False have "(of_nat i :: rat) \<le> of_nat n - 1" "(0 :: rat) < of_nat n - 1" "(0 :: rat) \<le> of_nat i"
    using of_nat_mono [of "Suc i" n, where ?'a = rat] of_nat_mono [of 2 n, where ?'a = rat] by simp_all
  then have "0 \<le> 68 * (of_nat i :: rat) / (of_nat n - 1)" "68 * (of_nat i :: rat) / (of_nat n - 1) \<le> 68"
    by (simp_all add: divide_le_eq)
  with False show ?thesis by (simp add: layerY_def)
qed (simp add: layerY_def)

lemma index_part_key: "CHR ''-'' \<in> set b \<Longrightarrow> index_part (a @ ''-'' @ b) = index_part b"
  by (simp add: index_part_def takeWhile_append1)

text \<open>Keys made of two identifiers are distinct when the second is determined by its index.\<close>

lemma key_inj:
  assumes "inj_on index_part B" and "\<forall>b \<in> B. CHR ''-'' \<in> set b" and "b \<in> B" "b' \<in> B" and "a @ ''-'' @ b = a' @ ''-'' @ b'"
  shows "a = a' \<and> b = b'"
proof -
  have "index_part b = index_part b'"
    using assms(2-5) index_part_key [of b a] index_part_key [of b' a'] by simp
  with assms(1,3,4) have "b = b'" by (simp add: inj_on_def)
  with assms(5) show ?thesis by simp
qed

lemma edge_to_instances:
  "map te_to (concat (map (instance_edges t agents) is)) = (if agents = [] then [] else is)"
proof (cases agents)
  case (Cons a as)
  have "map te_to (instance_edges t agents n) = [n]" for n
    unfolding Cons by (simp add: instance_edges_def agent_of_def edge_of_def split: option.split)
  then have "map te_to (concat (map (instance_edges t agents) is)) = is"
    by (induction "is") auto
  with Cons show ?thesis by simp
qed (induction "is", simp_all add: instance_edges_def agent_of_def)

lemma agent_of_in: "agent_of agents n = Some a \<Longrightarrow> a \<in> set agents"
  by (auto simp: agent_of_def dest!: map_of_SomeD split: option.splits list.splits)

lemma te_key_edges:
  "map te_key (concat (map (\<lambda>d. map (db_edge t d) agents) dbs)) =
     map (\<lambda>(d, a). d @ ''-'' @ a) (List.product (map gn_graphId dbs) (map gn_graphId agents))"
  by (induction dbs) (simp_all add: db_edge_def edge_of_def comp_def)

lemma te_key_instance_edge:
  "k \<in> te_key ` set (instance_edges t agents i) \<Longrightarrow> \<exists>a \<in> set agents. k = gn_graphId a @ ''-'' @ gn_graphId i"
  using agent_of_in by (auto simp: instance_edges_def edge_of_def split: option.splits)

lemma te_key_instance_edges:
  assumes "k \<in> set (map te_key (concat (map (instance_edges t agents) is)))"
  obtains a i where "a \<in> set agents" "i \<in> set is" "k = gn_graphId a @ ''-'' @ gn_graphId i"
proof -
  from assms obtain i where "i \<in> set is" "k \<in> te_key ` set (instance_edges t agents i)" by auto
  with te_key_instance_edge that show thesis by blast
qed

lemma instance_keys_distinct:
  assumes "distinct (map gn_graphId is)" and "inj_on index_part (gn_graphId ` set is)" and "\<forall>i \<in> set is. CHR ''-'' \<in> set (gn_graphId i)"
  shows "distinct (map te_key (concat (map (instance_edges t agents) is)))"
  using assms
proof (induction "is")
  case (Cons i "is")
  have rest: "distinct (map te_key (concat (map (instance_edges t agents) is)))"
    using Cons by (simp add: inj_on_def)
  have "k \<notin> set (map te_key (concat (map (instance_edges t agents) is)))" if "k \<in> te_key ` set (instance_edges t agents i)" for k
  proof
    assume "k \<in> set (map te_key (concat (map (instance_edges t agents) is)))"
    then obtain a j where "a \<in> set agents" and j: "j \<in> set is" "k = gn_graphId a @ ''-'' @ gn_graphId j"
      by (rule te_key_instance_edges)
    from te_key_instance_edge [OF that] obtain b :: TopologyGraphNode where "k = gn_graphId b @ ''-'' @ gn_graphId i" by blast
    with j(2) have eq: "gn_graphId b @ ''-'' @ gn_graphId i = gn_graphId a @ ''-'' @ gn_graphId j" by simp
    have dash: "\<forall>b \<in> gn_graphId ` set (i # is). CHR ''-'' \<in> set b" using Cons.prems(3) by blast
    have "gn_graphId i = gn_graphId j"
      by (rule key_inj [OF Cons.prems(2) dash _ _ eq, THEN conjunct2]) (use j(1) in simp_all)
    with j(1) Cons.prems(1) show False by auto
  qed
  moreover have "distinct (map te_key (instance_edges t agents i))"
    by (simp add: instance_edges_def split: option.split)
  ultimately show ?case using rest by auto
qed simp

lemma graph_layers:
  assumes "buildTopologyGraph u dbs agents is t = Some g"
  obtains ds as ns where "g = assemble_graph t (positionLayer ds LDbs 15) (positionLayer as LAgents 50) (positionLayer ns LInstances 85)"
    and "length ds = length dbs" "length as = length agents" "getInstanceGraphNodes is t = Some ns"
    and "\<forall>a \<in> set as. tn_kind a = KAgent"
proof -
  from assms obtain ns where ns: "getInstanceGraphNodes is t = Some ns"
    "g = assemble_graph t (positionLayer (map (\<lambda>(i, db). db_node u i db) (enumerate 0 dbs)) LDbs 15)
         (positionLayer (map (\<lambda>(i, agent). agent_node u i agent) (enumerate 0 agents)) LAgents 50) (positionLayer ns LInstances 85)"
    by (auto simp: buildTopologyGraph_def)
  show thesis by (rule that [OF ns(2) _ _ ns(1)]) (auto simp: agent_node_def)
qed

text \<open>C29: The keys React tells the parts of the graph apart by are unambiguous: no two nodes have the same
  identifier and no two edges the same key, also when nodes of the cluster have equal or similar names.\<close>

theorem topology_keys_distinct:
  assumes "buildTopologyGraph u dbs agents is t = Some g"
  shows "distinct (map gn_graphId (tg_nodes g)) \<and> distinct (map te_key (tg_edges g))"
proof -
  from assms obtain ds as ns where
    g: "g = assemble_graph t (positionLayer ds LDbs 15) (positionLayer as LAgents 50) (positionLayer ns LInstances 85)"
    by (rule graph_layers)
  let ?D = "layer_ids ds LDbs 15" and ?A = "layer_ids as LAgents 50" and ?I = "layer_ids ns LInstances 85"
  have nodes: "map gn_graphId (tg_nodes g) = ?D @ ?A @ ?I"
    by (simp add: g assemble_graph_def layer_ids_def)
  let ?db = "map (\<lambda>(d, a). d @ ''-'' @ a) (List.product ?D ?A)"
  let ?in = "map te_key (concat (map (instance_edges t (positionLayer as LAgents 50)) (positionLayer ns LInstances 85)))"
  have edges: "map te_key (tg_edges g) = ?db @ ?in"
    unfolding g assemble_graph_def by (simp only: TopologyGraphModel.simps map_append te_key_edges layer_ids_def)
  have "inj_on (\<lambda>(d, a). d @ ''-'' @ a) (set ?D \<times> set ?A)"
  proof (rule inj_onI)
    fix p q
    assume "p \<in> set ?D \<times> set ?A" "q \<in> set ?D \<times> set ?A" and eq: "(\<lambda>(d, a). d @ ''-'' @ a) p = (\<lambda>(d, a). d @ ''-'' @ a) q"
    then show "p = q"
      using key_inj [OF layer_ids_inj [of as LAgents 50], of "snd p" "snd q" "fst p" "fst q"] layer_ids_head(2) [of _ as LAgents 50]
      by (simp add: case_prod_unfold mem_Times_iff prod_eq_iff)
  qed
  then have db: "distinct ?db"
    by (simp only: distinct_map distinct_product layer_ids_distinct set_product simp_thms)
  have inst: "distinct ?in"
    using layer_ids_distinct [of ns LInstances 85] layer_ids_inj [of ns LInstances 85] layer_ids_head(2) [of _ ns LInstances 85]
    unfolding layer_ids_def by (intro instance_keys_distinct) auto
  have "set ?db \<inter> set ?in = {}"
  proof -
    have "\<exists>r. k = ''dbs'' @ r" if "k \<in> set ?db" for k
      using that layer_ids_head(1) [of _ ds LDbs 15] by (fastforce simp: layer_name_def)
    moreover have "\<exists>r. k = ''agents'' @ r" if "k \<in> set ?in" for k
    proof -
      from that obtain a i where "a \<in> set (positionLayer as LAgents 50)" "i \<in> set (positionLayer ns LInstances 85)" "k = gn_graphId a @ ''-'' @ gn_graphId i"
        by (rule te_key_instance_edges)
      with layer_ids_head(1) [of "gn_graphId a" as LAgents 50] show ?thesis by (auto simp: layer_ids_def layer_name_def)
    qed
    ultimately show ?thesis by fastforce
  qed
  with db inst have "distinct (map te_key (tg_edges g))" unfolding edges by (simp only: distinct_append simp_thms)
  moreover have "distinct (map gn_graphId (tg_nodes g))"
    unfolding nodes using layers_disjoint [of LDbs LAgents ds 15 as 50] layers_disjoint [of LDbs LInstances ds 15 ns 85]
      layers_disjoint [of LAgents LInstances as 50 ns 85] by (simp add: layer_ids_distinct Int_Un_distrib)
  ultimately show ?thesis by blast
qed

lemma positionLayer_in:
  assumes "n \<in> set (positionLayer xs l x)"
  shows "gn_layer n = l" and "gn_x n = x" and "16 \<le> gn_y n \<and> gn_y n \<le> 84"
    and "\<exists>node \<in> set xs. tn_kind n = tn_kind node \<and> tn_attachedAgentId n = tn_attachedAgentId node"
proof -
  obtain i where i: "i < length xs" "n = place_node l x (length xs) i (xs ! i)"
    using assms by (metis in_set_conv_nth positionLayer_length positionLayer_nth)
  then show "gn_layer n = l" "gn_x n = x" "16 \<le> gn_y n \<and> gn_y n \<le> 84" using layerY_bounds by simp_all
  from i show "\<exists>node \<in> set xs. tn_kind n = tn_kind node \<and> tn_attachedAgentId n = tn_attachedAgentId node"
    by (intro bexI [of _ "xs ! i"]) simp_all
qed

lemma agent_nodes_attached:
  assumes "getInstanceGraphNodes is t = Some nodes" and "n \<in> set nodes"
  shows "\<exists>k. tn_attachedAgentId n = Some k"
proof -
  from assms obtain kv where "n \<in> set (agent_nodes t kv)" by (auto simp: getInstanceGraphNodes_def)
  then show ?thesis by (auto simp: agent_nodes_def group_node_def instance_node_def split: prod.splits if_splits)
qed

lemma agent_of_named:
  assumes "tn_attachedAgentId n = Some k" and "A \<noteq> []"
  shows "agent_of A n = Some (let named = filter (\<lambda>a. tn_attachedAgentId n = Some (tn_id a)) A in if named = [] then hd A else last named)"
proof -
  have "map_of (rev (map (\<lambda>a. (tn_id a, a)) A)) k =
      (let named = filter (\<lambda>a. k = tn_id a) A in if named = [] then None else Some (last named))"
    by (induction A rule: rev_induct) (simp_all add: Let_def)
  moreover have "opt_str_or (tn_attachedAgentId n) [] = k" using assms(1) by (cases k) (simp_all add: opt_str_or_def)
  ultimately show ?thesis using assms by (cases A) (simp_all add: agent_of_def Let_def)
qed

lemma filter_layer: "filter (\<lambda>n. gn_layer n = l') (positionLayer xs l x) = (if l = l' then positionLayer xs l x else [])"
  using positionLayer_in(1) [of _ xs l x] by (simp add: filter_empty_conv filter_id_conv)

text \<open>The three layers are columns of the drawing; positions are percentages of its width and height.\<close>

definition layer_x :: "topology_layer \<Rightarrow> rat" where
  "layer_x l = (case l of LDbs \<Rightarrow> 15 | LAgents \<Rightarrow> 50 | LInstances \<Rightarrow> 85)"

lemma graph_parts:
  assumes "buildTopologyGraph u dbs agents is t = Some g" and "getInstanceGraphNodes is t = Some nodes"
  obtains D A I where "tg_nodes g = D @ A @ I" and "tg_edges g = concat (map (\<lambda>d. map (db_edge t d) A) D) @ concat (map (instance_edges t A) I)"
    and "length D = length dbs" "length A = length agents" "length I = length nodes"
    and "filter (\<lambda>n. gn_layer n = LInstances) (tg_nodes g) = I" "filter (\<lambda>n. gn_layer n = LAgents) (tg_nodes g) = A"
    and "\<And>n. n \<in> set (tg_nodes g) \<Longrightarrow> gn_x n = layer_x (gn_layer n) \<and> 16 \<le> gn_y n \<and> gn_y n \<le> 84"
    and "\<And>a. a \<in> set A \<Longrightarrow> tn_kind a = KAgent" "\<And>n. n \<in> set I \<Longrightarrow> \<exists>k. tn_attachedAgentId n = Some k"
proof -
  from assms(1) obtain ds as ns where
    g: "g = assemble_graph t (positionLayer ds LDbs 15) (positionLayer as LAgents 50) (positionLayer ns LInstances 85)"
    and len: "length ds = length dbs" "length as = length agents" and ns: "getInstanceGraphNodes is t = Some ns"
    and kinds: "\<forall>a \<in> set as. tn_kind a = KAgent"
    by (rule graph_layers)
  show thesis
  proof (rule that)
    show nodes: "tg_nodes g = positionLayer ds LDbs 15 @ positionLayer as LAgents 50 @ positionLayer ns LInstances 85"
      by (simp add: g assemble_graph_def)
    show "filter (\<lambda>n. gn_layer n = LInstances) (tg_nodes g) = positionLayer ns LInstances 85"
      "filter (\<lambda>n. gn_layer n = LAgents) (tg_nodes g) = positionLayer as LAgents 50"
      unfolding nodes by (simp_all add: filter_layer)
    show "gn_x n = layer_x (gn_layer n) \<and> 16 \<le> gn_y n \<and> gn_y n \<le> 84" if "n \<in> set (tg_nodes g)" for n
      using that positionLayer_in(1-3) unfolding nodes by (auto simp: layer_x_def)
    show "tn_kind a = KAgent" if "a \<in> set (positionLayer as LAgents 50)" for a
      using positionLayer_in(4) [OF that] kinds by auto
    show "\<exists>k. tn_attachedAgentId n = Some k" if "n \<in> set (positionLayer ns LInstances 85)" for n
      using positionLayer_in(4) [OF that] agent_nodes_attached [OF ns] by auto
  qed (use len ns assms(2) in \<open>simp_all add: g assemble_graph_def\<close>)
qed

text \<open>C30: Every edge connects two nodes of the graph, every node lies inside the drawing, in the column of
  its layer (15, 50 or 85 percent of the width) and between 16 and 84 percent of the height, and the
  graph has one edge for each pair of a database and an agent and, if there is an agent, one for each
  node of the instances.\<close>

theorem topology_edges_wf:
  assumes "buildTopologyGraph u dbs agents is t = Some g" and "getInstanceGraphNodes is t = Some nodes"
  shows "(\<forall>e \<in> set (tg_edges g). te_from e \<in> set (tg_nodes g) \<and> te_to e \<in> set (tg_nodes g)) \<and>
    (\<forall>n \<in> set (tg_nodes g).
       gn_x n = (case gn_layer n of LDbs \<Rightarrow> 15 | LAgents \<Rightarrow> 50 | LInstances \<Rightarrow> 85) \<and> 16 \<le> gn_y n \<and> gn_y n \<le> 84) \<and>
    length (tg_edges g) = length dbs * length agents + (if agents = [] then 0 else length nodes)"
proof -
  from assms obtain D A I where nodes: "tg_nodes g = D @ A @ I"
    and edges: "tg_edges g = concat (map (\<lambda>d. map (db_edge t d) A) D) @ concat (map (instance_edges t A) I)"
    and len: "length D = length dbs" "length A = length agents" "length I = length nodes"
    and xy: "\<And>n. n \<in> set (tg_nodes g) \<Longrightarrow> gn_x n = layer_x (gn_layer n) \<and> 16 \<le> gn_y n \<and> gn_y n \<le> 84"
    by (rule graph_parts) blast
  have "length (concat (map (instance_edges t A) I)) = (if agents = [] then 0 else length nodes)"
    using arg_cong [OF edge_to_instances [of t A I], of length] len by (auto split: if_splits)
  then have "length (tg_edges g) = length dbs * length agents + (if agents = [] then 0 else length nodes)"
    unfolding edges using len by (simp add: length_concat comp_def sum_list_triv)
  moreover have "te_from e \<in> set (tg_nodes g) \<and> te_to e \<in> set (tg_nodes g)" if "e \<in> set (tg_edges g)" for e
    using that agent_of_in unfolding edges nodes by (auto simp: db_edge_def edge_of_def instance_edges_def split: option.splits)
  ultimately show ?thesis using xy unfolding layer_x_def by blast
qed

text \<open>C31: If the cluster has an agent, the edges after those of the databases lead to the nodes of the
  instances, one each and in their order, and every one of them starts at the node of an agent: the
  last one with the identifier the instance names or, if no agent has it, the first agent.\<close>

theorem topology_instance_edges:
  assumes "buildTopologyGraph u dbs agents is t = Some g" and "getInstanceGraphNodes is t = Some nodes" and "agents \<noteq> []"
    and "es = drop (length dbs * length agents) (tg_edges g)" and "A = filter (\<lambda>n. gn_layer n = LAgents) (tg_nodes g)"
  shows "map te_to es = filter (\<lambda>n. gn_layer n = LInstances) (tg_nodes g) \<and>
    (\<forall>a \<in> set A. tn_kind a = KAgent) \<and>
    (\<forall>e \<in> set es. te_from e \<in> set A \<and>
       (let named = filter (\<lambda>a. tn_attachedAgentId (te_to e) = Some (tn_id a)) A in
        te_from e = (if named = [] then hd A else last named)))"
proof -
  from assms(1,2) obtain D A' I where
    edges: "tg_edges g = concat (map (\<lambda>d. map (db_edge t d) A') D) @ concat (map (instance_edges t A') I)"
    and len: "length D = length dbs" "length A' = length agents"
    and layers: "filter (\<lambda>n. gn_layer n = LInstances) (tg_nodes g) = I" "filter (\<lambda>n. gn_layer n = LAgents) (tg_nodes g) = A'"
    and nodes: "\<And>a. a \<in> set A' \<Longrightarrow> tn_kind a = KAgent" "\<And>n. n \<in> set I \<Longrightarrow> \<exists>k. tn_attachedAgentId n = Some k"
    by (rule graph_parts) blast
  have A: "A' = A" using assms(5) layers(2) by simp
  have "length (concat (map (\<lambda>d. map (db_edge t d) A) D)) = length dbs * length agents"
    using len by (simp add: length_concat comp_def sum_list_triv A)
  then have es: "es = concat (map (instance_edges t A) I)" using assms(4) edges by (simp add: A)
  have "A \<noteq> []" using assms(3) len(2) A by auto
  then have "map te_to es = I" unfolding es edge_to_instances by simp
  moreover have "te_from e \<in> set A \<and> (let named = filter (\<lambda>a. tn_attachedAgentId (te_to e) = Some (tn_id a)) A in
      te_from e = (if named = [] then hd A else last named))" if e: "e \<in> set es" for e
  proof -
    from e obtain n where n: "n \<in> set I" "e \<in> set (instance_edges t A n)" unfolding es by auto
    from nodes(2) [OF n(1)] obtain k where k: "tn_attachedAgentId n = Some k" by blast
    from n(2) have "te_to e = n" "agent_of A n = Some (te_from e)"
      by (auto simp: instance_edges_def edge_of_def split: option.splits)
    with agent_of_named [OF k \<open>A \<noteq> []\<close>] agent_of_in [of A n "te_from e"] show ?thesis by simp
  qed
  ultimately show ?thesis using nodes(1) unfolding layers A by blast
qed

subsection \<open>One request at a time\<close>

definition tv_start :: "nat \<Rightarrow> TopologyState \<Rightarrow> TopologyState" where
  "tv_start l s = s\<lparr>tv_requestSeq := l, tv_loading := True, tv_loads := tv_loads s @ [l]\<rparr>"

definition tv_settle :: "nat \<Rightarrow> TopologyState \<Rightarrow> TopologyState" where
  "tv_settle i s = s\<lparr>tv_loads := remove_at i (tv_loads s)\<rparr>"

interpretation topology_loads: latest_loader tv_requestSeq tv_loads tv_requestSeq id id tv_start tv_settle
  by unfold_locales (simp_all add: tv_start_def tv_settle_def)

definition tv_inv :: "TopologyState \<Rightarrow> bool" where
  "tv_inv s \<longleftrightarrow> topology_loads.latest s \<and> tv_microtasks s + length (tv_loads s) \<le> 1 \<and>
     (0 < tv_microtasks s + length (tv_loads s) \<longrightarrow> tv_loading s) \<and> (tv_lastLoadKey s = [] \<longrightarrow> tv_loading s \<and> tv_loads s = [] \<and> tv_microtasks s = 0) \<and>
     (tv_lastLoadKey s = [] \<or> tv_lastLoadKey s = ''cluster-topology'') \<and> (\<forall>l \<in> set (tv_loads s). l = tv_requestSeq s)"

lemma loadTopology_start: "fst (loadTopology s) = tv_start (Suc (tv_requestSeq s)) s"
  by (simp add: loadTopology_def tv_start_def)

lemma loadTopology_inv:
  assumes "tv_loads s = []" "tv_microtasks s = 0" "tv_lastLoadKey s = ''cluster-topology''"
  shows "tv_inv (fst (loadTopology s))"
proof -
  have "topology_loads.latest (tv_start (Suc (tv_requestSeq s)) s)"
    by (rule topology_loads.latest_start) (simp_all add: topology_loads.latest_empty assms)
  with assms show ?thesis by (simp add: tv_inv_def loadTopology_start) (simp add: tv_start_def)
qed

lemma tv_loaded_inv:
  assumes "tv_inv s"
  shows "tv_inv (fst (tv_loaded i f s))"
proof (cases "i < length (tv_loads s)")
  case True
  then have one: "remove_at i (tv_loads s) = []" "tv_microtasks s = 0" "tv_lastLoadKey s \<noteq> []"
    using assms settle_mutation [OF True, of "tv_microtasks s"] by (auto simp: tv_inv_def)
  obtain out st goto where r: "requestTopology (tv_storage s) f = (out, st, goto)" by (cases "requestTopology (tv_storage s) f") auto
  have "topology_loads.latest (fst (tv_loaded i f s))"
    by (rule topology_loads.latest_empty) (use True one r in \<open>auto simp: tv_loaded_def tv_apply_def split: sum.split\<close>)
  with True one assms r show ?thesis
    by (auto simp: tv_inv_def tv_loaded_def tv_apply_def split: sum.split)
qed (simp add: tv_loaded_def assms)

lemma topology_step_inv:
  assumes "tv_inv s"
  shows "tv_inv (fst (topology_step s e))"
proof -
  have same: "tv_inv s'" if "tv_loads s' = tv_loads s" "tv_requestSeq s' = tv_requestSeq s" "tv_microtasks s' = tv_microtasks s"
    "tv_loading s' = tv_loading s" "tv_lastLoadKey s' = tv_lastLoadKey s" for s'
    using assms that topology_loads.latest_cong [of s s'] by (simp add: tv_inv_def)
  have "tv_inv (tv_mount s)"
  proof (cases "tv_lastLoadKey s = []")
    case True
    with assms have "tv_loads s = []" "tv_microtasks s = 0" "tv_loading s" by (simp_all add: tv_inv_def)
    with True show ?thesis
      by (simp add: tv_inv_def tv_mount_def Let_def topology_loads.latest_empty)
  next
    case False
    with assms have "tv_lastLoadKey s = ''cluster-topology''" by (simp add: tv_inv_def)
    then show ?thesis by (intro same) (simp_all add: tv_mount_def Let_def)
  qed
  moreover have "tv_inv (fst (loadTopology (s\<lparr>tv_microtasks := n\<rparr>)))" if "tv_microtasks s = Suc n" for n
    by (rule loadTopology_inv) (use assms that in \<open>auto simp: tv_inv_def\<close>)
  moreover have "tv_inv (fst (loadTopology s))" if "\<not> tv_loading s"
    by (rule loadTopology_inv) (use assms that in \<open>auto simp: tv_inv_def\<close>)
  ultimately show ?thesis
    using assms tv_loaded_inv [OF assms] same by (cases e) (simp_all add: topology_step_def split: nat.split)
qed

lemma initTopology_inv: "tv_inv (initTopology st)"
  by (simp add: tv_inv_def initTopology_def topology_loads.latest_empty)

interpretation topology_page: guarded_component topology_step "\<lambda>s. \<exists>st. s = initTopology st" tv_inv "\<lambda>_ _. True"
  by unfold_locales (auto simp: initTopology_inv topology_step_inv)

text \<open>The page never has more than one request for the topology under way, queued or sent, and while it
  has one it shows that it is loading and its refresh button is disabled.\<close>

theorem topology_single_flight:
  "let s = after topology_step (initTopology st) es; n = tv_microtasks s + length (tv_loads s) in
   n \<le> 1 \<and> (n = 0 \<or> tv_loading s)"
proof -
  have "tv_inv (after topology_step (initTopology st) es)"
    by (rule topology_page.inv_reachable) blast
  then show ?thesis unfolding tv_inv_def Let_def by auto
qed

text \<open>Every answer that arrives while the page is mounted is shown: the page stops loading and shows the
  topology received, or an empty one with the error.\<close>

theorem topology_answer_shown:
  assumes "s = after topology_step (initTopology st) es" and "tv_mounted s" and "i < length (tv_loads s)"
    and "s' = fst (topology_step s (TvLoaded i f))"
  shows "\<not> tv_loading s' \<and> tv_loads s' = [] \<and>
    (case fst (requestTopology (tv_storage s) f) of
       Inr d \<Rightarrow> tv_topology s' = d \<and> ef_message (tv_error s') = []
     | Inl err \<Rightarrow> tv_topology s' = emptyTopology \<and> ef_message (tv_error s') = getErrorMessage err ''operations.topology.loadFailed'')"
proof -
  have inv: "tv_inv s" unfolding assms(1) by (rule topology_page.inv_reachable) blast
  obtain out st' goto where r: "requestTopology (tv_storage s) f = (out, st', goto)" by (cases "requestTopology (tv_storage s) f") auto
  from inv assms(3) have "tv_loads s ! i = tv_requestSeq s" "remove_at i (tv_loads s) = []"
    using settle_mutation [OF assms(3), of "tv_microtasks s"] by (auto simp: tv_inv_def)
  with assms(2,3) r show ?thesis
    unfolding assms(4) by (simp add: topology_step_def tv_loaded_def tv_apply_def reportError_def split: sum.split)
qed

subsection \<open>Sessions and errors\<close>

definition topology_auth_failure :: "topology_fetched \<Rightarrow> bool" where
  "topology_auth_failure f = (case f of
       TopologyFetched status NoPayload \<Rightarrow> status = 401
     | TopologyFetched status (CommonPayload p) \<Rightarrow> isAuthError status p \<and> (\<not> response_ok status \<or> errcode p \<noteq> Some 0)
     | _ \<Rightarrow> False)"

text \<open>A response with an error that says that the session is not valid removes the stored session, sends
  the window to the login page and fails with an authentication error; every other response leaves
  the session and the window alone.\<close>

theorem topology_session:
  "let (out, st', goto) = requestTopology st f in
   if topology_auth_failure f then getSession st' = [] \<and> goto = Some ''/ui/login'' \<and> (\<exists>e. out = Inl (ApiFailure e) \<and> ae_auth e)
   else st' = st \<and> goto = None"
  by (auto simp: requestTopology_def topology_auth_failure_def Let_def split: topology_fetched.split topology_payload.split)

text \<open>A response whose body is an object without an error code is taken for a topology whatever its
  status: an error page of a proxy shows as an empty cluster, and a rejected session is neither
  removed nor reported.\<close>

theorem topology_error_accepted:
  "requestTopology st (TopologyFetched status (PlainPayload \<lparr>ct_dbs = None, ct_agents = None, ct_instances = None\<rparr>)) =
     (Inr emptyTopology, st, None)"
  by (simp add: requestTopology_def normalizeTopologyData_def emptyTopology_def)

text \<open>An instance whose agent has the name of an inherited property, for example \<open>constructor\<close>, makes the
  whole page fail to render, whatever else the cluster has.\<close>

theorem topology_prototype_crash:
  assumes "x \<in> set (tp_instances (tv_topology s))" and "in_agentId x = Some ''constructor''"
  shows "AgentsPage_view isKey u t formatNumber s = None"
proof -
  have "agent_key x \<in> set object_prototype_names"
    using assms(2) by (simp add: agent_key_def opt_str_or_def object_prototype_names_def)
  with assms(1) have "set (map agent_key (tp_instances (tv_topology s))) \<inter> set object_prototype_names \<noteq> {}" by auto
  then have "groupInstancesByAgent (tp_instances (tv_topology s)) = None" by (simp only: group_by_agent if_True not_False_eq_True)
  then show ?thesis by (simp add: AgentsPage_view_def buildTopologyGraph_def getInstanceGraphNodes_def Let_def)
qed

subsection \<open>Witnesses\<close>

definition demo_instance :: "string \<Rightarrow> Instance" where
  "demo_instance a = \<lparr>in_id = None, in_clientId = None, in_agentId = Some a, in_clientIp = None, in_targets = None, in_health = None,
     in_lastRenewTimestamp = None\<rparr>"

definition demo_agent :: "string \<Rightarrow> AgentNode" where
  "demo_agent a = \<lparr>an_agentId = Some a, an_addr = None, an_ip = None, an_health = None\<rparr>"

definition demo_db :: DBNode where
  "demo_db = \<lparr>dn_id = None, dn_addr = None, dn_ip = None, dn_health = None\<rparr>"

definition demo_instances :: "Instance list" where
  "demo_instances = [demo_instance ''b'', demo_instance ''7'', demo_instance ''b'']"

definition demo_nodes :: "TopologyNodeProps list" where
  "demo_nodes = the (getInstanceGraphNodes demo_instances (\<lambda>k ps. k))"

definition demo_graph :: TopologyGraphModel where
  "demo_graph = the (buildTopologyGraph (\<lambda>_. None) [demo_db] [demo_agent ''a'', demo_agent ''b''] demo_instances (\<lambda>k ps. k))"

lemma demo_grouped: "groupInstancesByAgent demo_instances \<noteq> None"
  by (simp add: demo_instances_def groupInstancesByAgent_def group_step_def agent_key_def demo_instance_def opt_str_or_def
      object_prototype_names_def)

lemma demo_graph_facts:
  "getInstanceGraphNodes demo_instances (\<lambda>k ps. k) = Some demo_nodes"
  "buildTopologyGraph (\<lambda>_. None) [demo_db] [demo_agent ''a'', demo_agent ''b''] demo_instances (\<lambda>k ps. k) = Some demo_graph"
  using demo_grouped by (auto simp: demo_nodes_def demo_graph_def buildTopologyGraph_def getInstanceGraphNodes_def)

theorem topology_counts_witness: "sum_list (map node_count demo_nodes) = length demo_instances"
  by (rule topology_counts [OF demo_graph_facts(1)])

theorem topology_keys_distinct_witness: "distinct (map gn_graphId (tg_nodes demo_graph)) \<and> distinct (map te_key (tg_edges demo_graph))"
  by (rule topology_keys_distinct [OF demo_graph_facts(2)])

theorem topology_edges_wf_witness: "length (tg_edges demo_graph) = 2 + length demo_nodes"
  using topology_edges_wf [OF demo_graph_facts(2,1)] by simp

theorem topology_instance_edges_witness:
  "map te_to (drop (Suc (Suc 0)) (tg_edges demo_graph)) = filter (\<lambda>n. gn_layer n = LInstances) (tg_nodes demo_graph)"
  using topology_instance_edges [OF demo_graph_facts(2,1) _ refl refl] by simp

theorem group_partition_witness:
  "\<exists>idx. object_entries (the (groupInstancesByAgent demo_instances)) = map (\<lambda>k. (k, filter (\<lambda>i. agent_key i = k) demo_instances))
     (idx @ filter (\<lambda>k. \<not> is_array_index k) (js_set_of (map agent_key demo_instances))) \<and> set idx = {''7''}"
proof -
  obtain g where g: "groupInstancesByAgent demo_instances = Some g" using demo_grouped by blast
  have "{k \<in> agent_key ` set demo_instances. is_array_index k} = {''7''}" (is "?indices = _")
    by (auto simp: demo_instances_def agent_key_def demo_instance_def opt_str_or_def str_or_def is_array_index_def is_digit_def digits_nat_def char_digit_def)
  moreover from mp [OF spec [OF conjunct2 [OF group_partition]] g] obtain idx where
    "object_entries g = map (\<lambda>k. (k, filter (\<lambda>i. agent_key i = k) demo_instances))
       (idx @ filter (\<lambda>k. \<not> is_array_index k) (js_set_of (map agent_key demo_instances)))" "set idx = ?indices"
    by (elim exE conjE) rule
  ultimately show ?thesis unfolding g option.sel by (intro exI conjI) simp_all
qed

definition demo_topology :: TopologyState where
  "demo_topology = after topology_step (initTopology Map.empty) [TvMount, TvMicrotask]"

lemma demo_topology_facts: "tv_mounted demo_topology" "0 < length (tv_loads demo_topology)" "tv_storage demo_topology = Map.empty"
  by (simp_all add: demo_topology_def topology_step_def tv_mount_def initTopology_def loadTopology_def Let_def)

theorem topology_answer_shown_witness:
  "tv_topology (fst (topology_step demo_topology (TvLoaded 0 (TopologyFetched 200 (ArrayPayload [demo_agent ''a'']))))) =
     \<lparr>tp_dbs = [], tp_agents = [demo_agent ''a''], tp_instances = []\<rparr>"
  using topology_answer_shown [OF demo_topology_def demo_topology_facts(1,2) refl, of "TopologyFetched 200 (ArrayPayload [demo_agent ''a''])"]
  by (simp add: requestTopology_def normalizeTopologyData_def)

theorem topology_prototype_crash_witness:
  "AgentsPage_view (\<lambda>_. False) (\<lambda>_. None) (\<lambda>k ps. k) int_str
     (demo_topology\<lparr>tv_topology := \<lparr>tp_dbs = [], tp_agents = [], tp_instances = [demo_instance ''constructor'']\<rparr>\<rparr>) = None"
  by (rule topology_prototype_crash [of "demo_instance ''constructor''"]) (simp_all add: demo_instance_def)

end
