(* ===== verification/Users_Page.thy ===== *)
theory Users_Page
  imports Feedback Workflow_Options
begin

section \<open>The users page: \<open>users/UsersPage.tsx\<close>\<close>

text \<open>
  The page lists the users, adds and disables them, resets passwords and manages the roles a user has
  in a domain: the cluster, an application with all its environments, or one environment. The
  domains offered come from the server; the domain assigned is put together again from the selected
  application and environment.

  Adding, disabling and resetting wait for the list to be reloaded; assigning and revoking a role wait
  for the bindings of the user to be read again and reload the list in the background.

  The facts: every modifying request comes from its dialog with nothing else being submitted, never
  concerns a superadmin, and never assigns or revokes that role; the bindings shown are those of the user the
  dialog names; a domain that is assigned is one the server offered. One theorem shows that the
  first answer of the dialog, when it is late, undoes what a change of the bindings has shown.
\<close>

subsection \<open>Users, roles and domains\<close>

record CreateFormState =
  cf_account :: string
  cf_nickname :: string
  cf_password :: string

datatype ScopeMode = ScopeCluster | ScopeAppAll | ScopeAppEnv

definition isUserDisabled :: "int option \<Rightarrow> bool" where
  "isUserDisabled status = (status = Some 1)"

definition isSuperadminUser :: "User \<Rightarrow> bool" where
  "isSuperadminUser user =
     ((case us_roles user of Some roles \<Rightarrow> ''superadmin'' \<in> set roles | None \<Rightarrow> False) \<or>
      (case us_accessSummary user of Some bs \<Rightarrow> list_ex (\<lambda>b. ub_role b = ''superadmin'') bs | None \<Rightarrow> False))"

definition assignableRoleOptions :: "(string \<times> string) list" where
  "assignableRoleOptions = filter (\<lambda>role. fst role \<noteq> ''superadmin'') roleOptions"

definition UserStatusChip :: "Translator \<Rightarrow> int option \<Rightarrow> ui" where
  "UserStatusChip t status =
     UChips [t (if isUserDisabled status then ''management.users.disabled'' else ''management.users.enabled'') []]"

definition buildDomain :: "ScopeMode \<Rightarrow> string \<Rightarrow> string \<Rightarrow> string" where
  "buildDomain scopeMode app env = (case scopeMode of
       ScopeCluster \<Rightarrow> ''cluster''
     | ScopeAppAll \<Rightarrow> app @ ''/*''
     | ScopeAppEnv \<Rightarrow> app @ ''/'' @ env)"

definition up_appOptions :: "string list \<Rightarrow> string list" where
  "up_appOptions domainOptions =
     map (\<lambda>item. take (length item - 2) item) (filter (\<lambda>item. item \<noteq> ''cluster'' \<and> js_endsWith item ''/*'') domainOptions)"

definition up_envOptions :: "string list \<Rightarrow> string \<Rightarrow> string list" where
  "up_envOptions domainOptions selectedApp =
     (if selectedApp = [] then []
      else map (drop (length selectedApp + 1))
             (filter (\<lambda>item. js_startsWith item (selectedApp @ ''/'') \<and> \<not> js_endsWith item ''/*'') domainOptions))"

definition roleLabel :: "Translator \<Rightarrow> string \<Rightarrow> string" where
  "roleLabel t role = (case find (\<lambda>item. fst item = role) roleOptions of
       Some option \<Rightarrow> t (''management.roles.'' @ fst option) []
     | None \<Rightarrow> role)"

subsection \<open>Requests\<close>

definition requestUsers :: effect where
  "requestUsers = Request (''/api/account/users'' @ buildQuery [(''limit'', qnum 100)]) noInit"

definition requestUserAccess :: "string \<Rightarrow> effect" where
  "requestUserAccess account = Request (''/api/account/users/'' @ encodeURIComponent account @ ''/acl'') noInit"

definition requestDomainOptions :: effect where
  "requestDomainOptions = Request ''/api/account/acl/domains'' noInit"

definition addRequest :: "string \<Rightarrow> string \<Rightarrow> string \<Rightarrow> effect" where
  "addRequest account password nickname = Request ''/api/account/add''
     (jsonBody (JObj [(''account'', JStr account), (''password'', JStr password), (''nickname'', JStr nickname)]))"

definition disableRequest :: "string \<Rightarrow> effect" where
  "disableRequest account = Request (''/api/account/disable'' @ buildQuery [(''account'', qstr account)]) noInit"

definition resetRequest :: "string \<Rightarrow> string \<Rightarrow> effect" where
  "resetRequest account password = Request ''/api/account/reset''
     (jsonBody (JObj [(''account'', JStr account), (''password'', JStr password)]))"

definition aclRequest :: "string \<Rightarrow> string \<Rightarrow> string \<Rightarrow> string \<Rightarrow> effect" where
  "aclRequest action account role domain = Request (''/api/account/acl/'' @ action @
     buildQuery [(''account'', qstr account), (''role'', qstr role), (''domain'', qstr domain)]) noInit"

subsection \<open>State\<close>

record UsersLoad =
  ul_requestId :: nat
  ul_awaited :: bool

datatype AccessPurpose = OpenAccess | RefreshAccess

record AccessRequest =
  aq_account :: string
  aq_purpose :: AccessPurpose

datatype UsersMutation = AddUser | DisableUser | ResetPassword | AssignRole string | RevokeRole string

record UsersState =
  up_users :: "User list"
  up_loading :: bool
  up_submitting :: bool
  up_error :: ErrorFeedback
  up_createOpen :: bool
  up_createForm :: CreateFormState
  up_disableTarget :: "User option"
  up_resetTarget :: "User option"
  up_resetPassword :: string
  up_accessTarget :: "User option"
  up_accessBindings :: "UserAccessBinding list"
  up_accessLoading :: bool
  up_domainOptions :: "string list"
  up_roleValue :: string
  up_scopeMode :: ScopeMode
  up_selectedApp :: string
  up_selectedEnv :: string
  up_requestSeq :: nat
  up_mounted :: bool
  up_lastLoadKey :: string
  up_microtasks :: nat
  up_loads :: "UsersLoad list"
  up_domainLoads :: nat
  up_accesses :: "AccessRequest list"
  up_mutations :: "UsersMutation list"

definition emptyForm :: CreateFormState where
  "emptyForm = \<lparr>cf_account = [], cf_nickname = [], cf_password = []\<rparr>"

definition initUsers :: UsersState where
  "initUsers = \<lparr>up_users = [], up_loading = True, up_submitting = False, up_error = initError, up_createOpen = False,
     up_createForm = emptyForm, up_disableTarget = None, up_resetTarget = None, up_resetPassword = [], up_accessTarget = None,
     up_accessBindings = [], up_accessLoading = False, up_domainOptions = [], up_roleValue = ''admin'', up_scopeMode = ScopeCluster,
     up_selectedApp = [], up_selectedEnv = [], up_requestSeq = 0, up_mounted = False, up_lastLoadKey = [], up_microtasks = 0,
     up_loads = [], up_domainLoads = 0, up_accesses = [], up_mutations = []\<rparr>"

subsection \<open>Loading\<close>

type_synonym users_handler = "UsersState \<Rightarrow> UsersState \<times> effect list"

definition loadUsers :: "bool \<Rightarrow> users_handler" where
  "loadUsers awaited s =
     (s\<lparr>up_requestSeq := Suc (up_requestSeq s), up_loading := True,
        up_loads := up_loads s @ [\<lparr>ul_requestId = Suc (up_requestSeq s), ul_awaited = awaited\<rparr>]\<rparr>, [requestUsers])"

definition up_apply :: "Translator \<Rightarrow> UsersLoad \<Rightarrow> failure + UsersResponse option \<Rightarrow> UsersState \<Rightarrow> UsersState" where
  "up_apply t l outcome s =
     (if \<not> up_mounted s \<or> ul_requestId l \<noteq> up_requestSeq s then s
      else case deref outcome of
          Inr d \<Rightarrow> s\<lparr>up_users := opt_or (ur_users d) [], up_error := reportError [] (up_error s), up_loading := False\<rparr>
        | Inl err \<Rightarrow> s\<lparr>up_users := [], up_error := reportError (getErrorMessage err (t ''management.users.loadFailed'' [])) (up_error s),
            up_loading := False\<rparr>)"

definition up_loaded :: "Translator \<Rightarrow> nat \<Rightarrow> failure + UsersResponse option \<Rightarrow> UsersState \<Rightarrow> UsersState" where
  "up_loaded t i outcome s =
     (if i < length (up_loads s) then
        (let l = up_loads s ! i; s' = up_apply t l outcome (s\<lparr>up_loads := remove_at i (up_loads s)\<rparr>) in
         if ul_awaited l then s'\<lparr>up_submitting := False\<rparr> else s')
      else s)"

definition loadDomainOptions :: users_handler where
  "loadDomainOptions s = (s\<lparr>up_domainLoads := Suc (up_domainLoads s)\<rparr>, [requestDomainOptions])"

definition up_domainsLoaded :: "Translator \<Rightarrow> failure + DomainOptionsResponse option \<Rightarrow> UsersState \<Rightarrow> UsersState" where
  "up_domainsLoaded t outcome s = (case up_domainLoads s of
       0 \<Rightarrow> s
     | Suc n \<Rightarrow>
         (let s' = s\<lparr>up_domainLoads := n\<rparr> in
          if \<not> up_mounted s' then s'
          else case deref outcome of
              Inr d \<Rightarrow> s'\<lparr>up_domainOptions := opt_or (do_domains d) []\<rparr>
            | Inl err \<Rightarrow> s'\<lparr>up_error := reportError (getErrorMessage err (t ''management.users.loadDomainsFailed'' [])) (up_error s')\<rparr>))"

definition up_mount :: "UsersState \<Rightarrow> UsersState" where
  "up_mount s =
     (let s' = s\<lparr>up_mounted := True\<rparr>; loadKey = ''users-and-domains'' in
      if up_lastLoadKey s' \<noteq> loadKey then s'\<lparr>up_lastLoadKey := loadKey, up_microtasks := Suc (up_microtasks s')\<rparr> else s')"

definition up_microtask :: users_handler where
  "up_microtask s = (case up_microtasks s of
       0 \<Rightarrow> (s, [])
     | Suc n \<Rightarrow> (let (s', efs) = loadUsers False (s\<lparr>up_microtasks := n\<rparr>); (s'', efs') = loadDomainOptions s' in (s'', efs @ efs')))"

subsection \<open>Handlers\<close>

datatype CreateField = FAccount | FNickname | FPassword

definition updateCreateField :: "CreateField \<Rightarrow> string \<Rightarrow> UsersState \<Rightarrow> UsersState" where
  "updateCreateField f v s = s\<lparr>up_createForm := (case f of
       FAccount \<Rightarrow> (up_createForm s)\<lparr>cf_account := v\<rparr>
     | FNickname \<Rightarrow> (up_createForm s)\<lparr>cf_nickname := v\<rparr>
     | FPassword \<Rightarrow> (up_createForm s)\<lparr>cf_password := v\<rparr>)\<rparr>"

definition up_closeCreateDialog :: "UsersState \<Rightarrow> UsersState" where
  "up_closeCreateDialog s = (if up_submitting s then s else s\<lparr>up_createOpen := False, up_createForm := emptyForm\<rparr>)"

definition closeDisableDialog :: "UsersState \<Rightarrow> UsersState" where
  "closeDisableDialog s = (if up_submitting s then s else s\<lparr>up_disableTarget := None\<rparr>)"

definition closeResetDialog :: "UsersState \<Rightarrow> UsersState" where
  "closeResetDialog s = (if up_submitting s then s else s\<lparr>up_resetTarget := None, up_resetPassword := []\<rparr>)"

definition closeAccessDialog :: "UsersState \<Rightarrow> UsersState" where
  "closeAccessDialog s =
     (if up_submitting s \<or> up_accessLoading s then s
      else s\<lparr>up_accessTarget := None, up_accessBindings := [], up_roleValue := ''admin'', up_scopeMode := ScopeCluster,
             up_selectedApp := [], up_selectedEnv := []\<rparr>)"

definition up_submit :: "UsersMutation \<Rightarrow> UsersState \<Rightarrow> UsersState" where
  "up_submit m s = s\<lparr>up_submitting := True, up_error := reportError [] (up_error s), up_mutations := up_mutations s @ [m]\<rparr>"

definition handleAddUser :: users_handler where
  "handleAddUser s =
     (let f = up_createForm s; account = js_trim (cf_account f); nickname = js_trim (cf_nickname f); password = cf_password f in
      if account = [] \<or> nickname = [] \<or> js_trim password = [] then (s, [])
      else (up_submit AddUser s, [addRequest account password nickname]))"

definition handleDisableUser :: users_handler where
  "handleDisableUser s = (case up_disableTarget s of
       None \<Rightarrow> (s, [])
     | Some user \<Rightarrow> if us_account user = [] then (s, []) else (up_submit DisableUser s, [disableRequest (us_account user)]))"

definition handleResetPassword :: users_handler where
  "handleResetPassword s = (case up_resetTarget s of
       None \<Rightarrow> (s, [])
     | Some user \<Rightarrow>
         if js_trim (us_account user) = [] \<or> js_trim (up_resetPassword s) = [] then (s, [])
         else (up_submit ResetPassword s, [resetRequest (js_trim (us_account user)) (up_resetPassword s)]))"

definition up_ask :: "string \<Rightarrow> AccessPurpose \<Rightarrow> UsersState \<Rightarrow> UsersState" where
  "up_ask account purpose s = s\<lparr>up_accesses := up_accesses s @ [\<lparr>aq_account = account, aq_purpose = purpose\<rparr>]\<rparr>"

definition handleOpenAccess :: "User \<Rightarrow> users_handler" where
  "handleOpenAccess user s =
     (up_ask (us_account user) OpenAccess
        (s\<lparr>up_accessTarget := Some user, up_accessLoading := True, up_error := reportError [] (up_error s)\<rparr>),
      [requestUserAccess (us_account user)])"

definition handleAddBinding :: users_handler where
  "handleAddBinding s = (case up_accessTarget s of
       None \<Rightarrow> (s, [])
     | Some user \<Rightarrow>
         if us_account user = [] \<or> up_scopeMode s \<noteq> ScopeCluster \<and> up_selectedApp s = [] \<or>
            up_scopeMode s = ScopeAppEnv \<and> up_selectedEnv s = [] then (s, [])
         else (up_submit (AssignRole (us_account user)) s,
               [aclRequest ''assign'' (us_account user) (up_roleValue s) (buildDomain (up_scopeMode s) (up_selectedApp s) (up_selectedEnv s))]))"

definition handleRevokeBinding :: "UserAccessBinding \<Rightarrow> users_handler" where
  "handleRevokeBinding binding s = (case up_accessTarget s of
       None \<Rightarrow> (s, [])
     | Some user \<Rightarrow>
         if us_account user = [] then (s, [])
         else (up_submit (RevokeRole (us_account user)) s, [aclRequest ''revoke'' (us_account user) (ub_role binding) (ub_domain binding)]))"

definition mutation_fallback :: "UsersMutation \<Rightarrow> string" where
  "mutation_fallback m = (case m of
       AddUser \<Rightarrow> ''management.users.addFailed''
     | DisableUser \<Rightarrow> ''management.users.disableFailed''
     | ResetPassword \<Rightarrow> ''management.users.resetFailed''
     | AssignRole _ \<Rightarrow> ''management.acl.assignFailed''
     | RevokeRole _ \<Rightarrow> ''management.acl.revokeFailed'')"

definition up_release :: "UsersMutation \<Rightarrow> UsersState \<Rightarrow> UsersState" where
  \<comment> \<open>the \<open>finally\<close> clauses; only those of the bindings ask whether the page is mounted\<close>
  "up_release m s = (case m of
       AssignRole _ \<Rightarrow> if up_mounted s then s\<lparr>up_submitting := False\<rparr> else s
     | RevokeRole _ \<Rightarrow> if up_mounted s then s\<lparr>up_submitting := False\<rparr> else s
     | _ \<Rightarrow> s\<lparr>up_submitting := False\<rparr>)"

definition with_toast :: "string \<Rightarrow> users_handler \<Rightarrow> users_handler" where
  "with_toast message f s = (case f s of (s', efs) \<Rightarrow> (s', ShowToast message Success # efs))"

definition up_succeeded :: "Translator \<Rightarrow> UsersMutation \<Rightarrow> users_handler" where
  "up_succeeded t m s = (case m of
       AddUser \<Rightarrow> with_toast (t ''management.users.added'' []) (loadUsers True) (s\<lparr>up_createOpen := False, up_createForm := emptyForm\<rparr>)
     | DisableUser \<Rightarrow> with_toast (t ''management.users.disabledSuccess'' []) (loadUsers True) (s\<lparr>up_disableTarget := None\<rparr>)
     | ResetPassword \<Rightarrow>
         with_toast (t ''management.users.passwordReset'' []) (loadUsers True) (s\<lparr>up_resetTarget := None, up_resetPassword := []\<rparr>)
     | AssignRole account \<Rightarrow>
         (up_ask account RefreshAccess s, [ShowToast (t ''management.acl.assigned'' []) Success, requestUserAccess account])
     | RevokeRole account \<Rightarrow>
         (up_ask account RefreshAccess s, [ShowToast (t ''management.acl.revoked'' []) Success, requestUserAccess account]))"

definition up_mutated :: "Translator \<Rightarrow> nat \<Rightarrow> failure + unit \<Rightarrow> users_handler" where
  "up_mutated t i outcome s =
     (if i < length (up_mutations s) then
        (let m = up_mutations s ! i; s' = s\<lparr>up_mutations := remove_at i (up_mutations s)\<rparr> in
         case outcome of
           Inr _ \<Rightarrow> up_succeeded t m s'
         | Inl err \<Rightarrow> (up_release m s', [ShowToast (getErrorMessage err (t (mutation_fallback m) [])) Error]))
      else (s, []))"

definition up_accessOpened :: "Translator \<Rightarrow> failure + UserAccessResponse option \<Rightarrow> UsersState \<Rightarrow> UsersState" where
  "up_accessOpened t outcome s =
     (if \<not> up_mounted s then s
      else case deref outcome of
          Inr d \<Rightarrow> s\<lparr>up_accessBindings := opt_or (ua_bindings d) [], up_accessLoading := False\<rparr>
        | Inl err \<Rightarrow> s\<lparr>up_error := reportError (getErrorMessage err (t ''management.users.loadAccessFailed'' [])) (up_error s),
            up_accessLoading := False\<rparr>)"

definition refreshAccessBindings :: "Translator \<Rightarrow> failure + UserAccessResponse option \<Rightarrow> users_handler" where
  "refreshAccessBindings t outcome s =
     (if \<not> up_mounted s then (s, [])
      else case deref outcome of
          Inr d \<Rightarrow> (s\<lparr>up_accessBindings := opt_or (ua_bindings d) []\<rparr>, [])
        | Inl err \<Rightarrow> (s, [ShowToast (getErrorMessage err (t ''management.users.refreshAccessFailed'' [])) Error]))"

definition up_accessRefreshed :: "Translator \<Rightarrow> failure + UserAccessResponse option \<Rightarrow> users_handler" where
  \<comment> \<open>the rest of \<open>handleAddBinding\<close> and \<open>handleRevokeBinding\<close>\<close>
  "up_accessRefreshed t outcome s =
     (let (s', efs) = refreshAccessBindings t outcome s; (s'', efs') = loadUsers False s' in
      (if up_mounted s'' then s''\<lparr>up_submitting := False\<rparr> else s'', efs @ efs'))"

definition up_accessLoaded :: "Translator \<Rightarrow> nat \<Rightarrow> failure + UserAccessResponse option \<Rightarrow> users_handler" where
  "up_accessLoaded t i outcome s =
     (if i < length (up_accesses s) then
        (let r = up_accesses s ! i; s' = s\<lparr>up_accesses := remove_at i (up_accesses s)\<rparr> in
         case aq_purpose r of
           OpenAccess \<Rightarrow> (up_accessOpened t outcome s', [])
         | RefreshAccess \<Rightarrow> up_accessRefreshed t outcome s')
      else (s, []))"

subsection \<open>The step function\<close>

datatype UsersEvent =
    UpMount
  | UpUnmount
  | UpMicrotask
  | UpLoaded nat "failure + UsersResponse option"
  | UpDomains "failure + DomainOptionsResponse option"
  | UpAccess nat "failure + UserAccessResponse option"
  | UpMutated nat "failure + unit"
  | UpOpenCreate
  | UpCloseCreate
  | UpField CreateField string
  | UpAdd
  | UpAskDisable nat
  | UpCloseDisable
  | UpDisable
  | UpAskReset nat
  | UpCloseReset
  | UpPassword string
  | UpReset
  | UpOpenAccess nat
  | UpCloseAccess
  | UpRole string
  | UpScope ScopeMode
  | UpApp string
  | UpEnv string
  | UpAssign
  | UpRevoke nat

definition up_modal :: "UsersState \<Rightarrow> bool" where
  "up_modal s = (up_createOpen s \<or> up_disableTarget s \<noteq> None \<or> up_resetTarget s \<noteq> None \<or> up_accessTarget s \<noteq> None)"

definition up_row :: "nat \<Rightarrow> UsersState \<Rightarrow> User option" where
  \<comment> \<open>the user whose row is shown\<close>
  "up_row i s = (if \<not> up_loading s \<and> ef_message (up_error s) = [] \<and> i < length (up_users s) then Some (up_users s ! i) else None)"

definition up_editable :: "UsersState \<Rightarrow> User \<Rightarrow> bool" where
  "up_editable s user = (\<not> up_submitting s \<and> \<not> isSuperadminUser user)"

definition up_page :: "UsersState \<Rightarrow> UsersEvent \<Rightarrow> UsersState \<times> effect list" where
  "up_page s e = (case e of
       UpOpenCreate \<Rightarrow> (if \<not> up_submitting s then s\<lparr>up_createOpen := True\<rparr> else s, [])
     | UpOpenAccess i \<Rightarrow> (case up_row i s of Some user \<Rightarrow> if up_editable s user then handleOpenAccess user s else (s, []) | None \<Rightarrow> (s, []))
     | UpAskDisable i \<Rightarrow>
         (case up_row i s of
            Some user \<Rightarrow> if up_editable s user \<and> \<not> isUserDisabled (us_status user) then s\<lparr>up_disableTarget := Some user\<rparr> else s
          | None \<Rightarrow> s, [])
     | UpAskReset i \<Rightarrow> (case up_row i s of Some user \<Rightarrow> if up_editable s user then s\<lparr>up_resetTarget := Some user\<rparr> else s | None \<Rightarrow> s, [])
     | _ \<Rightarrow> (s, []))"

definition up_addDisabled :: "UsersState \<Rightarrow> bool" where
  "up_addDisabled s = (up_submitting s \<or> js_trim (cf_account (up_createForm s)) = [] \<or> js_trim (cf_nickname (up_createForm s)) = [] \<or>
     js_trim (cf_password (up_createForm s)) = [])"

definition up_assignDisabled :: "UsersState \<Rightarrow> bool" where
  "up_assignDisabled s = (up_submitting s \<or> up_scopeMode s \<noteq> ScopeCluster \<and> up_selectedApp s = [] \<or>
     up_scopeMode s = ScopeAppEnv \<and> up_selectedEnv s = [])"

definition up_accessDialog :: "UsersState \<Rightarrow> UsersEvent \<Rightarrow> UsersState \<times> effect list" where
  "up_accessDialog s e = (case e of
       UpCloseAccess \<Rightarrow> (closeAccessDialog s, [])
     | UpRole v \<Rightarrow> (if v \<in> fst ` set assignableRoleOptions then s\<lparr>up_roleValue := v\<rparr> else s, [])
     | UpScope m \<Rightarrow> (s\<lparr>up_scopeMode := m\<rparr>, [])
     | UpApp v \<Rightarrow> (if up_scopeMode s \<noteq> ScopeCluster \<and> v \<in> set (up_appOptions (up_domainOptions s))
                   then s\<lparr>up_selectedApp := v, up_selectedEnv := []\<rparr> else s, [])
     | UpEnv v \<Rightarrow> (if up_scopeMode s = ScopeAppEnv \<and> v \<in> set (up_envOptions (up_domainOptions s) (up_selectedApp s))
                   then s\<lparr>up_selectedEnv := v\<rparr> else s, [])
     | UpAssign \<Rightarrow> if \<not> up_assignDisabled s then handleAddBinding s else (s, [])
     | UpRevoke i \<Rightarrow>
         if \<not> up_accessLoading s \<and> i < length (up_accessBindings s) \<and> \<not> up_submitting s \<and> ub_role (up_accessBindings s ! i) \<noteq> ''superadmin''
         then handleRevokeBinding (up_accessBindings s ! i) s else (s, [])
     | _ \<Rightarrow> (s, []))"

definition up_dialog :: "UsersState \<Rightarrow> UsersEvent \<Rightarrow> UsersState \<times> effect list" where
  "up_dialog s e =
     (if up_accessTarget s \<noteq> None then up_accessDialog s e
      else case e of
          UpCloseCreate \<Rightarrow> (if up_createOpen s then up_closeCreateDialog s else s, [])
        | UpField f v \<Rightarrow> (if up_createOpen s \<and> \<not> up_submitting s then updateCreateField f v s else s, [])
        | UpAdd \<Rightarrow> if up_createOpen s \<and> \<not> up_addDisabled s then handleAddUser s else (s, [])
        | UpCloseDisable \<Rightarrow> (if up_disableTarget s \<noteq> None then closeDisableDialog s else s, [])
        | UpDisable \<Rightarrow> if up_disableTarget s \<noteq> None \<and> \<not> up_submitting s then handleDisableUser s else (s, [])
        | UpCloseReset \<Rightarrow> (if up_resetTarget s \<noteq> None then closeResetDialog s else s, [])
        | UpPassword v \<Rightarrow> (if up_resetTarget s \<noteq> None \<and> \<not> up_submitting s then s\<lparr>up_resetPassword := v\<rparr> else s, [])
        | UpReset \<Rightarrow>
            if up_resetTarget s \<noteq> None \<and> \<not> up_submitting s \<and> js_trim (up_resetPassword s) \<noteq> [] then handleResetPassword s else (s, [])
        | _ \<Rightarrow> (s, []))"

definition users_step :: "Translator \<Rightarrow> UsersState \<Rightarrow> UsersEvent \<Rightarrow> UsersState \<times> effect list" where
  "users_step t s e = (case e of
       UpMount \<Rightarrow> (up_mount s, [])
     | UpUnmount \<Rightarrow> (s\<lparr>up_mounted := False\<rparr>, [])
     | UpMicrotask \<Rightarrow> up_microtask s
     | UpLoaded i outcome \<Rightarrow> (up_loaded t i outcome s, [])
     | UpDomains outcome \<Rightarrow> (up_domainsLoaded t outcome s, [])
     | UpAccess i outcome \<Rightarrow> up_accessLoaded t i outcome s
     | UpMutated i outcome \<Rightarrow> up_mutated t i outcome s
     | _ \<Rightarrow> if \<not> up_mounted s then (s, []) else if up_modal s then up_dialog s e else up_page s e)"

subsection \<open>The view\<close>

definition up_createView :: "Translator \<Rightarrow> UsersState \<Rightarrow> ui list" where
  "up_createView t s =
     (if up_createOpen s then [UDialog (t ''management.users.add'' [])
        [UInput (t ''management.users.account'' []) (cf_account (up_createForm s)) (up_submitting s) (t ''management.users.accountHelp'' []),
         UInput (t ''management.users.nickname'' []) (cf_nickname (up_createForm s)) (up_submitting s) (t ''management.users.nicknameHelp'' []),
         UInput (t ''management.users.password'' []) (cf_password (up_createForm s)) (up_submitting s) (t ''management.users.passwordHelp'' []),
         UButton (t ''management.common.cancel'' []) (up_submitting s), UButton (t ''management.common.create'' []) (up_addDisabled s)]]
      else [])"

definition up_disableView :: "Translator \<Rightarrow> UsersState \<Rightarrow> ui list" where
  "up_disableView t s =
     DangerConfirmDialog t (up_disableTarget s \<noteq> None) (t ''management.users.disableUser'' [])
       [UText (t ''management.users.disableDescription''
          [(''account'', PStr (case up_disableTarget s of Some user \<Rightarrow> us_account user | None \<Rightarrow> []))])]
       (t ''management.users.disable'' []) (up_submitting s)"

definition up_resetView :: "Translator \<Rightarrow> UsersState \<Rightarrow> ui list" where
  "up_resetView t s = (case up_resetTarget s of
       None \<Rightarrow> []
     | Some user \<Rightarrow> [UDialog (t ''management.users.resetPassword'' [])
         [UInput (t ''management.users.account'' []) (us_account user) True [],
          UInput (t ''management.users.password'' []) (up_resetPassword s) (up_submitting s) (t ''management.users.newPasswordHelp'' []),
          UButton (t ''management.common.cancel'' []) (up_submitting s),
          UButton (t ''management.users.reset'' []) (up_submitting s \<or> js_trim (up_resetPassword s) = [])]])"

definition up_bindingRow :: "Translator \<Rightarrow> UsersState \<Rightarrow> UserAccessBinding \<Rightarrow> ui list" where
  "up_bindingRow t s binding =
     [UText (roleLabel t (ub_role binding)), UText (ub_domain binding),
      UButton (t ''management.users.revoke'' []) (up_submitting s \<or> ub_role binding = ''superadmin'')]"

definition up_bindingsView :: "Translator \<Rightarrow> UsersState \<Rightarrow> ui list" where
  "up_bindingsView t s =
     (if up_accessLoading s then LoadingState t (Some (t ''management.users.loadingAccess'' []))
      else if up_accessBindings s = []
      then EmptyState (t ''management.users.emptyAccess'' []) (Some (t ''management.users.emptyAccessDescription'' []))
      else [UTable (map (\<lambda>k. t k []) [''management.users.role'', ''management.users.domain'', ''management.common.actions''])
             (map (up_bindingRow t s) (up_accessBindings s))])"

definition menu_item :: "string \<Rightarrow> string \<Rightarrow> MenuEntry" where
  "menu_item v label = \<lparr>me_value = v, me_disabled = False, me_ariaLabel = [], me_text = label, me_current = None,
     me_status = [], me_statusText = []\<rparr>"

definition scope_value :: "ScopeMode \<Rightarrow> string" where
  "scope_value m = (case m of ScopeCluster \<Rightarrow> ''cluster'' | ScopeAppAll \<Rightarrow> ''app-all'' | ScopeAppEnv \<Rightarrow> ''app-env'')"

definition computed_domain :: "UsersState \<Rightarrow> string" where
  "computed_domain s =
     (if up_scopeMode s = ScopeCluster then ''cluster''
      else if up_selectedApp s \<noteq> [] then buildDomain (up_scopeMode s) (up_selectedApp s) (up_selectedEnv s) else [])"

definition up_bindingForm :: "Translator \<Rightarrow> UsersState \<Rightarrow> ui list" where
  "up_bindingForm t s =
     [UHeading (t ''management.users.addBinding'' []),
      USelect (t ''management.users.role'' []) (up_roleValue s) False []
        (map (\<lambda>role. menu_item (fst role) (t (''management.roles.'' @ fst role) [])) assignableRoleOptions),
      USelect (t ''management.users.scope'' []) (scope_value (up_scopeMode s)) False []
        [menu_item ''cluster'' (t ''management.users.cluster'' []), menu_item ''app-all'' (t ''management.users.entireApp'' []),
         menu_item ''app-env'' (t ''management.users.specificEnvironment'' [])]] @
     (if up_scopeMode s \<noteq> ScopeCluster
      then [USelect (t ''management.users.app'' []) (up_selectedApp s) False []
              (map (\<lambda>app. menu_item app app) (up_appOptions (up_domainOptions s)))] else []) @
     (if up_scopeMode s = ScopeAppEnv
      then [USelect (t ''management.common.environment'' []) (up_selectedEnv s) False []
              (map (\<lambda>env. menu_item env env) (up_envOptions (up_domainOptions s) (up_selectedApp s)))] else []) @
     [UInput (t ''management.users.computedDomain'' []) (computed_domain s) True (t ''management.users.domainHelp'' []),
      UButton (t ''management.users.addBinding'' []) (up_assignDisabled s)]"

definition up_accessView :: "Translator \<Rightarrow> UsersState \<Rightarrow> ui list" where
  "up_accessView t s = (case up_accessTarget s of
       None \<Rightarrow> []
     | Some user \<Rightarrow> [UDialog (t ''management.users.manageAccess'' [])
         ([UInput (t ''management.users.account'' []) (us_account user) True []] @ up_bindingsView t s @ up_bindingForm t s @
          [UButton (t ''management.common.close'' []) (up_submitting s \<or> up_accessLoading s)])])"

definition user_bindings :: "User \<Rightarrow> int" where
  "user_bindings user = (case us_bindingCount user of
       Some n \<Rightarrow> n
     | None \<Rightarrow> (case us_accessSummary user of Some bs \<Rightarrow> int (length bs) | None \<Rightarrow> 0))"

definition up_userRow :: "Translator \<Rightarrow> (int \<Rightarrow> string) \<Rightarrow> UsersState \<Rightarrow> User \<Rightarrow> ui list" where
  "up_userRow t formatNumber s user =
     [UText (opt_str_or (us_nickname user) ''-''), UText (us_account user), UserStatusChip t (us_status user),
      UText (case us_roles user of Some (r # rs) \<Rightarrow> join '', '' (map (roleLabel t) (r # rs)) | _ \<Rightarrow> ''-''),
      UText (formatNumber (user_bindings user)),
      UButton (t ''management.users.manageAccess'' []) (\<not> up_editable s user),
      UButton (t ''management.users.disable'' []) (\<not> up_editable s user \<or> isUserDisabled (us_status user)),
      UButton (t ''management.users.resetPassword'' []) (\<not> up_editable s user)]"

definition up_table :: "Translator \<Rightarrow> (int \<Rightarrow> string) \<Rightarrow> UsersState \<Rightarrow> ui list" where
  "up_table t formatNumber s =
     (if up_loading s then LoadingState t (Some (t ''management.users.loading'' []))
      else if ef_message (up_error s) \<noteq> [] then []
      else if up_users s = []
      then EmptyState (t ''management.users.empty'' []) (Some (t ''management.users.emptyDescription'' []))
      else [UTable (map (\<lambda>k. t k []) [''management.users.nickname'', ''management.users.account'', ''management.common.status'',
             ''management.users.roles'', ''management.users.bindings'', ''management.common.actions''])
             (map (up_userRow t formatNumber s) (up_users s))])"

definition UsersPage_view :: "Translator \<Rightarrow> (int \<Rightarrow> string) \<Rightarrow> UsersState \<Rightarrow> ui list" where
  "UsersPage_view t formatNumber s =
     [UHeading (t ''management.users.title'' []), UText (t ''management.users.description'' []),
      UButton (t ''management.users.add'' []) (up_submitting s)] @
     (if ef_message (up_error s) = [] then [] else [UError (ef_message (up_error s))]) @
     up_disableView t s @ up_createView t s @ up_resetView t s @ up_accessView t s @ up_table t formatNumber s"

subsection \<open>Invariant\<close>

definition is_opening :: "AccessRequest \<Rightarrow> bool" where
  "is_opening r = (aq_purpose r = OpenAccess)"

definition is_refreshing :: "AccessRequest \<Rightarrow> bool" where
  "is_refreshing r = (aq_purpose r = RefreshAccess)"

definition up_busy :: "UsersState \<Rightarrow> nat" where
  \<comment> \<open>the submissions in progress: each is a request, the reload it waits for or the bindings it reads again\<close>
  "up_busy s = length (up_mutations s) + count_if ul_awaited (up_loads s) + count_if is_refreshing (up_accesses s)"

definition concerns :: "User option \<Rightarrow> string \<Rightarrow> bool" where
  "concerns target account = (case target of Some user \<Rightarrow> us_account user = account | None \<Rightarrow> False)"

definition mutation_concerns :: "User option \<Rightarrow> UsersMutation \<Rightarrow> bool" where
  "mutation_concerns target m = (case m of AssignRole account \<Rightarrow> concerns target account | RevokeRole account \<Rightarrow> concerns target account | _ \<Rightarrow> True)"

definition up_single :: "UsersState \<Rightarrow> bool" where
  "up_single s \<longleftrightarrow> up_busy s \<le> (if up_submitting s then 1 else 0) \<and>
     count_if is_opening (up_accesses s) \<le> (if up_accessLoading s then 1 else 0) \<and>
     (up_accessTarget s = None \<longrightarrow> \<not> up_accessLoading s) \<and>
     (\<forall>r \<in> set (up_accesses s). concerns (up_accessTarget s) (aq_account r)) \<and> (\<forall>m \<in> set (up_mutations s). mutation_concerns (up_accessTarget s) m)"

definition up_guarded :: "UsersState \<Rightarrow> bool" where
  "up_guarded s \<longleftrightarrow>
     (\<forall>user \<in> set_option (up_disableTarget s) \<union> set_option (up_resetTarget s) \<union> set_option (up_accessTarget s). \<not> isSuperadminUser user) \<and>
     up_roleValue s \<in> fst ` set assignableRoleOptions"

definition up_scoped :: "UsersState \<Rightarrow> bool" where
  "up_scoped s \<longleftrightarrow>
     (up_lastLoadKey s = [] \<longrightarrow> up_microtasks s + up_domainLoads s = 0 \<and> up_domainOptions s = []) \<and>
     (up_lastLoadKey s = [] \<or> up_lastLoadKey s = ''users-and-domains'') \<and>
     up_microtasks s + up_domainLoads s \<le> 1 \<and> (up_microtasks s + up_domainLoads s = 1 \<longrightarrow> up_domainOptions s = []) \<and>
     (up_selectedApp s = [] \<or> up_selectedApp s \<in> set (up_appOptions (up_domainOptions s))) \<and>
     (up_selectedEnv s = [] \<or> up_selectedEnv s \<in> set (up_envOptions (up_domainOptions s) (up_selectedApp s)))"

definition up_inv :: "UsersState \<Rightarrow> bool" where
  "up_inv s \<longleftrightarrow> up_single s \<and> up_guarded s \<and> up_scoped s"

lemma assignable_admin [simp]: "''admin'' \<in> fst ` set assignableRoleOptions"
  by (simp add: assignableRoleOptions_def roleOptions_def)

lemma options_none [simp]: "up_appOptions [] = []" "up_envOptions [] app = []"
  by (simp_all add: up_appOptions_def up_envOptions_def)

lemma initUsers_inv: "up_inv initUsers"
  by (simp add: up_inv_def up_single_def up_guarded_def up_scoped_def up_busy_def initUsers_def)

lemma up_idle:
  assumes "up_single s" and "\<not> up_submitting s"
  shows "up_mutations s = []" and "count_if ul_awaited (up_loads s) = 0" and "count_if is_refreshing (up_accesses s) = 0" and "up_busy s = 0"
  using assms by (simp_all add: up_single_def up_busy_def)

lemma accesses_split: "length (up_accesses s) = count_if is_opening (up_accesses s) + count_if is_refreshing (up_accesses s)"
proof -
  have "length rs = count_if is_opening rs + count_if is_refreshing rs" for rs
    by (induction rs) (auto simp: is_opening_def is_refreshing_def, metis AccessPurpose.exhaust)
  then show ?thesis .
qed

lemma up_closed_idle:
  assumes "up_single s" and "up_accessTarget s = None"
  shows "up_accesses s = []" and "\<not> up_accessLoading s" and "count_if is_opening (up_accesses s) = 0"
proof -
  show acc: "up_accesses s = []"
  proof (cases "up_accesses s")
    case (Cons r rs)
    then have "r \<in> set (up_accesses s)" by simp
    with assms show ?thesis unfolding up_single_def concerns_def by fastforce
  qed
  then show "count_if is_opening (up_accesses s) = 0" by simp
  show "\<not> up_accessLoading s" using assms by (simp add: up_single_def)
qed

subsubsection \<open>One submission at a time, for the user the dialog names\<close>

definition up_frame :: "UsersState \<Rightarrow> bool \<times> bool \<times> User option \<times> UsersMutation list \<times> AccessRequest list \<times> nat" where
  "up_frame s = (up_submitting s, up_accessLoading s, up_accessTarget s, up_mutations s, up_accesses s, count_if ul_awaited (up_loads s))"

lemma up_single_cong: "up_single s \<Longrightarrow> up_frame s' = up_frame s \<Longrightarrow> up_single s'"
  by (simp add: up_single_def up_frame_def up_busy_def)

lemma up_submit_single:
  assumes "up_single s" and "\<not> up_submitting s" and "mutation_concerns (up_accessTarget s) m"
  shows "up_single (up_submit m s)"
  using assms up_idle [OF assms(1,2)]
  by (simp add: up_single_def up_submit_def up_busy_def)

lemma loadUsers_single:
  assumes "up_single s" and "awaited \<Longrightarrow> up_busy s = 0 \<and> up_submitting s"
  shows "up_single (fst (loadUsers awaited s))"
proof -
  have "up_busy (fst (loadUsers awaited s)) = up_busy s + (if awaited then 1 else 0)"
    by (simp add: loadUsers_def up_busy_def)
  with assms show ?thesis by (auto simp: up_single_def loadUsers_def)
qed

lemma up_loaded_single:
  assumes "up_single s"
  shows "up_single (up_loaded t i outcome s)"
proof (cases "i < length (up_loads s)")
  case True
  let ?l = "up_loads s ! i" and ?s = "s\<lparr>up_loads := remove_at i (up_loads s)\<rparr>"
  have same: "up_frame (up_apply t ?l outcome ?s) = up_frame ?s"
    by (simp add: up_apply_def up_frame_def split: sum.split)
  have count: "count_if ul_awaited (remove_at i (up_loads s)) = count_if ul_awaited (up_loads s) - (if ul_awaited ?l then 1 else 0)"
    using True by (simp add: count_remove_at)
  show ?thesis
  proof (cases "ul_awaited ?l")
    case False
    have "up_single ?s" by (rule up_single_cong [OF assms]) (simp add: up_frame_def count False)
    then have "up_single (up_apply t ?l outcome ?s)" by (rule up_single_cong) (rule same)
    with True False show ?thesis by (simp add: up_loaded_def Let_def)
  next
    case aw: True
    have "length (up_mutations s) + count_if is_refreshing (up_accesses s) + count_if ul_awaited (up_loads s) \<le> 1"
      using assms by (auto simp: up_single_def up_busy_def split: if_splits)
    from settle_awaited [OF True aw this] assms have "up_single (?s\<lparr>up_submitting := False\<rparr>)"
      by (simp add: up_single_def up_busy_def)
    then have "up_single ((up_apply t ?l outcome ?s)\<lparr>up_submitting := False\<rparr>)"
      by (rule up_single_cong) (use same in \<open>simp add: up_frame_def\<close>)
    with True aw show ?thesis by (simp add: up_loaded_def Let_def)
  qed
qed (simp add: up_loaded_def assms)

lemma up_mutated_single:
  assumes "up_single s"
  shows "up_single (fst (up_mutated t i outcome s))"
proof (cases "i < length (up_mutations s)")
  case True
  let ?m = "up_mutations s ! i" and ?s = "s\<lparr>up_mutations := remove_at i (up_mutations s)\<rparr>"
  have "length (up_mutations s) + (count_if ul_awaited (up_loads s) + count_if is_refreshing (up_accesses s)) \<le> 1"
    and sub: "up_submitting s"
    using assms True by (auto simp: up_single_def up_busy_def split: if_splits)
  note one = settle_mutation [OF True this(1)]
  have busy: "up_busy ?s = 0" using one by (simp add: up_busy_def)
  have single: "up_single ?s" using assms busy one by (simp add: up_single_def)
  have m: "mutation_concerns (up_accessTarget s) ?m" using assms True by (simp add: up_single_def)
  have released: "up_single (up_release ?m ?s)"
    using single busy by (auto simp: up_release_def up_single_def up_busy_def split: UsersMutation.split)
  have ask: "up_single (up_ask account RefreshAccess ?s)" if "concerns (up_accessTarget s) account" for account
    using single busy sub that by (simp add: up_single_def up_ask_def up_busy_def is_opening_def is_refreshing_def)
  have reload: "up_single (fst (loadUsers True s'))" if "up_frame s' = up_frame ?s" for s'
    by (rule loadUsers_single [OF up_single_cong [OF single that]]) (use that busy sub in \<open>simp add: up_frame_def up_busy_def\<close>)
  have "up_single (fst (up_succeeded t ?m ?s))"
  proof (cases ?m)
    case (AssignRole account)
    with m ask show ?thesis by (simp add: up_succeeded_def mutation_concerns_def)
  next
    case (RevokeRole account)
    with m ask show ?thesis by (simp add: up_succeeded_def mutation_concerns_def)
  qed (auto simp: up_succeeded_def with_toast_def case_prod_unfold up_frame_def intro!: reload)
  with released True show ?thesis by (simp add: up_mutated_def Let_def split: sum.split)
qed (simp add: up_mutated_def assms)

lemma up_accessLoaded_single:
  assumes "up_single s"
  shows "up_single (fst (up_accessLoaded t i outcome s))"
proof (cases "i < length (up_accesses s)")
  case True
  let ?r = "up_accesses s ! i" and ?s = "s\<lparr>up_accesses := remove_at i (up_accesses s)\<rparr>"
  have kept: "\<forall>r \<in> set (remove_at i (up_accesses s)). concerns (up_accessTarget s) (aq_account r)"
    using assms set_remove_at [of i "up_accesses s"] by (auto simp: up_single_def)
  have target: "up_accessTarget s \<noteq> None"
    using up_closed_idle(1) [OF assms] True by (cases "up_accessTarget s") simp_all
  show ?thesis
  proof (cases "aq_purpose ?r")
    case OpenAccess
    then have "is_opening ?r" "\<not> is_refreshing ?r" by (simp_all add: is_opening_def is_refreshing_def)
    then have count: "count_if is_opening (remove_at i (up_accesses s)) = 0"
      "count_if is_refreshing (remove_at i (up_accesses s)) = count_if is_refreshing (up_accesses s)"
      using assms True settle_awaited [OF True, of is_opening 0]
      by (auto simp: up_single_def count_remove_at split: if_splits)
    then have "up_single (up_accessOpened t outcome ?s)"
      using assms kept target by (auto simp: up_single_def up_accessOpened_def up_busy_def split: sum.split)
    with True OpenAccess show ?thesis by (simp add: up_accessLoaded_def Let_def)
  next
    case RefreshAccess
    then have kind: "\<not> is_opening ?r" "is_refreshing ?r" by (simp_all add: is_opening_def is_refreshing_def)
    have "length (up_mutations s) + count_if ul_awaited (up_loads s) + count_if is_refreshing (up_accesses s) \<le> 1"
      using assms by (auto simp: up_single_def up_busy_def split: if_splits)
    from settle_awaited [OF True kind(2) this] kind(1) True
    have count: "up_mutations s = []" "count_if ul_awaited (up_loads s) = 0" "count_if is_refreshing (remove_at i (up_accesses s)) = 0"
      "count_if is_opening (remove_at i (up_accesses s)) = count_if is_opening (up_accesses s)"
      by (simp_all add: count_remove_at)
    then have "up_single ?s" using assms kept by (auto simp: up_single_def up_busy_def)
    then have keep: "up_single s'" if "up_frame s' = up_frame ?s" for s'
      using that by (rule up_single_cong)
    from count have free: "up_single (s'\<lparr>up_submitting := False\<rparr>)" if "up_frame s' = up_frame ?s" for s'
      using keep [OF that] that by (simp add: up_single_def up_frame_def up_busy_def)
    have "up_frame (fst (loadUsers False (fst (refreshAccessBindings t outcome ?s)))) = up_frame ?s"
      by (simp add: up_frame_def loadUsers_def refreshAccessBindings_def split: sum.split)
    from keep [OF this] free [OF this] have "up_single (fst (up_accessRefreshed t outcome ?s))"
      by (simp add: up_accessRefreshed_def case_prod_unfold Let_def)
    with True RefreshAccess show ?thesis by (simp add: up_accessLoaded_def Let_def)
  qed
qed (simp add: up_accessLoaded_def assms)

lemma handleOpenAccess_single:
  assumes "up_single s" and "\<not> up_submitting s" and "up_accessTarget s = None"
  shows "up_single (fst (handleOpenAccess user s))"
  using up_idle [OF assms(1,2)] up_closed_idle [OF assms(1,3)]
  by (simp add: handleOpenAccess_def up_ask_def up_single_def up_busy_def concerns_def is_opening_def is_refreshing_def)

lemma closeAccessDialog_single:
  assumes "up_single s"
  shows "up_single (closeAccessDialog s)"
proof (cases "up_submitting s \<or> up_accessLoading s")
  case False
  have "up_accesses s = []"
    using accesses_split [of s] assms False up_idle(3) [OF assms] by (simp add: up_single_def)
  with up_idle [OF assms] False show ?thesis by (simp add: closeAccessDialog_def up_single_def up_busy_def)
qed (auto simp: closeAccessDialog_def assms)

lemma up_accessDialog_single:
  assumes "up_single s"
  shows "up_single (fst (up_accessDialog s e))"
proof -
  have add: "up_single (fst (handleAddBinding s))" if "\<not> up_assignDisabled s"
    using assms that
    by (auto simp: handleAddBinding_def up_assignDisabled_def mutation_concerns_def concerns_def intro!: up_submit_single split: option.split)
  have revoke: "up_single (fst (handleRevokeBinding binding s))" if "\<not> up_submitting s" for binding
    using assms that
    by (auto simp: handleRevokeBinding_def mutation_concerns_def concerns_def intro!: up_submit_single split: option.split)
  show ?thesis
    using assms add revoke closeAccessDialog_single [OF assms]
    by (cases e) (auto simp: up_accessDialog_def up_frame_def intro: up_single_cong)
qed

lemma up_dialog_single:
  assumes "up_single s"
  shows "up_single (fst (up_dialog s e))"
proof -
  have add: "up_single (fst (handleAddUser s))" if "\<not> up_addDisabled s"
    using assms that up_submit_single [OF assms, of AddUser]
    by (simp add: handleAddUser_def up_addDisabled_def mutation_concerns_def Let_def)
  have disable: "up_single (fst (handleDisableUser s))" if "\<not> up_submitting s"
    using assms up_submit_single [OF assms that, of DisableUser]
    by (simp add: handleDisableUser_def mutation_concerns_def split: option.split)
  have reset: "up_single (fst (handleResetPassword s))" if "\<not> up_submitting s"
    using assms up_submit_single [OF assms that, of ResetPassword]
    by (simp add: handleResetPassword_def mutation_concerns_def split: option.split)
  show ?thesis
    using assms add disable reset up_accessDialog_single [OF assms, of e]
    by (cases e) (auto simp: up_dialog_def up_frame_def up_closeCreateDialog_def closeDisableDialog_def closeResetDialog_def
        updateCreateField_def intro: up_single_cong)
qed

lemma up_page_single:
  assumes "up_single s" and "\<not> up_modal s"
  shows "up_single (fst (up_page s e))"
proof -
  have "up_single (fst (handleOpenAccess user s))" if "up_editable s user" for user
    using assms that by (intro handleOpenAccess_single) (simp_all add: up_editable_def up_modal_def)
  with assms show ?thesis
    by (cases e) (auto simp: up_page_def up_frame_def intro: up_single_cong split: option.split)
qed

lemma users_step_single:
  assumes "up_single s"
  shows "up_single (fst (users_step t s e))"
proof -
  have mount: "up_single (up_mount s)" by (rule up_single_cong [OF assms]) (simp add: up_mount_def up_frame_def Let_def)
  have micro: "up_single (fst (up_microtask s))"
    by (rule up_single_cong [OF assms])
      (simp add: up_microtask_def up_frame_def loadUsers_def loadDomainOptions_def split: nat.split)
  have domains: "up_single (up_domainsLoaded t outcome s)" for outcome
    by (rule up_single_cong [OF assms]) (simp add: up_domainsLoaded_def up_frame_def Let_def split: nat.split sum.split)
  show ?thesis
    using assms mount micro domains up_loaded_single [OF assms] up_mutated_single [OF assms] up_accessLoaded_single [OF assms]
      up_dialog_single [OF assms, of e] up_page_single [OF assms, of e]
    by (cases e) (auto simp: users_step_def up_frame_def intro: up_single_cong)
qed

subsubsection \<open>Superadmins and domains\<close>

lemma up_guarded_cong:
  "up_guarded s \<Longrightarrow> (up_disableTarget s', up_resetTarget s', up_accessTarget s', up_roleValue s') =
     (up_disableTarget s, up_resetTarget s, up_accessTarget s, up_roleValue s) \<Longrightarrow> up_guarded s'"
  by (simp add: up_guarded_def)

lemmas users_handlers = users_step_def up_page_def up_dialog_def up_accessDialog_def up_mount_def up_microtask_def loadUsers_def
  loadDomainOptions_def up_domainsLoaded_def up_loaded_def up_apply_def up_accessLoaded_def up_accessOpened_def up_accessRefreshed_def
  refreshAccessBindings_def up_mutated_def up_succeeded_def with_toast_def up_release_def up_ask_def up_submit_def
  handleOpenAccess_def handleAddBinding_def handleRevokeBinding_def handleAddUser_def handleDisableUser_def handleResetPassword_def
  up_closeCreateDialog_def closeDisableDialog_def closeResetDialog_def closeAccessDialog_def updateCreateField_def Let_def

lemma users_step_guarded:
  assumes "up_guarded s"
  shows "up_guarded (fst (users_step t s e))"
  using assms
  by (cases e) (auto simp: users_handlers up_guarded_def up_editable_def
      split: sum.split option.split nat.split UsersMutation.split AccessPurpose.split)

definition up_domainFrame :: "UsersState \<Rightarrow> string \<times> nat \<times> nat \<times> string list \<times> string \<times> string" where
  "up_domainFrame s = (up_lastLoadKey s, up_microtasks s, up_domainLoads s, up_domainOptions s, up_selectedApp s, up_selectedEnv s)"

lemma up_scoped_cong: "up_scoped s \<Longrightarrow> up_domainFrame s' = up_domainFrame s \<Longrightarrow> up_scoped s'"
  by (simp add: up_scoped_def up_domainFrame_def)

lemma users_step_domainFrame:
  assumes "case e of UpMount \<Rightarrow> False | UpMicrotask \<Rightarrow> False | UpDomains _ \<Rightarrow> False | UpCloseAccess \<Rightarrow> False | UpApp _ \<Rightarrow> False | UpEnv _ \<Rightarrow> False | _ \<Rightarrow> True"
  shows "up_domainFrame (fst (users_step t s e)) = up_domainFrame s"
  using assms
  by (cases e) (auto simp: users_handlers up_domainFrame_def
      split: sum.split option.split nat.split UsersMutation.split AccessPurpose.split)

lemma up_domainsLoaded_scoped:
  assumes "up_scoped s"
  shows "up_scoped (up_domainsLoaded t outcome s)"
proof (cases "up_domainLoads s")
  case (Suc n)
  with assms have "n = 0" "up_microtasks s = 0" "up_domainOptions s = []" "up_selectedApp s = []" "up_selectedEnv s = []"
    "up_lastLoadKey s = ''users-and-domains''"
    by (auto simp: up_scoped_def)
  with Suc show ?thesis by (simp add: up_scoped_def up_domainsLoaded_def Let_def split: sum.split)
qed (simp add: up_domainsLoaded_def assms)

lemma up_accessDialog_scoped: "up_scoped s \<Longrightarrow> up_scoped (fst (up_accessDialog s e))" if "case e of UpCloseAccess \<Rightarrow> True | UpApp _ \<Rightarrow> True | UpEnv _ \<Rightarrow> True | _ \<Rightarrow> False"
  using that by (cases e) (auto simp: up_accessDialog_def closeAccessDialog_def up_scoped_def)

lemma users_step_scoped:
  assumes "up_scoped s"
  shows "up_scoped (fst (users_step t s e))"
proof -
  have mount: "up_scoped (up_mount s)" using assms by (auto simp: up_mount_def up_scoped_def Let_def)
  have micro: "up_scoped (fst (up_microtask s))"
    using assms by (auto simp: up_microtask_def loadUsers_def loadDomainOptions_def up_scoped_def split: nat.split)
  note same = up_scoped_cong [OF assms users_step_domainFrame [of e t s]]
  show ?thesis
    using assms mount micro up_domainsLoaded_scoped [OF assms] up_accessDialog_scoped [OF _ assms, of e] same
    by (cases e) (auto simp: users_step_def up_dialog_def up_page_def)
qed

lemma users_step_inv: "up_inv s \<Longrightarrow> up_inv (fst (users_step t s e))"
  by (simp add: up_inv_def users_step_single users_step_guarded users_step_scoped)

subsection \<open>Requests\<close>

definition up_reading :: "effect set" where
  "up_reading = insert requestUsers (insert requestDomainOptions (range requestUserAccess))"

lemma up_reading_intros [simp]: "requestUsers \<in> up_reading" "requestDomainOptions \<in> up_reading" "requestUserAccess a \<in> up_reading"
  by (simp_all add: up_reading_def)

lemma domain_offered:
  assumes "up_scoped s" and "\<not> up_assignDisabled s" and "domain = buildDomain (up_scopeMode s) (up_selectedApp s) (up_selectedEnv s)"
  shows "up_scopeMode s = ScopeCluster \<and> domain = ''cluster'' \<or> up_scopeMode s \<noteq> ScopeCluster \<and> domain \<in> set (up_domainOptions s)"
proof (cases "up_scopeMode s")
  case ScopeAppAll
  with assms show ?thesis by (auto simp: up_scoped_def up_assignDisabled_def buildDomain_def up_appOptions_def js_endsWith_iff)
next
  case ScopeAppEnv
  with assms have "up_selectedEnv s \<in> set (up_envOptions (up_domainOptions s) (up_selectedApp s))"
    by (auto simp: up_scoped_def up_assignDisabled_def)
  with ScopeAppEnv assms(3) show ?thesis
    by (auto simp: buildDomain_def up_envOptions_def js_startsWith_iff split: if_splits)
qed (use assms in \<open>simp add: buildDomain_def\<close>)

definition assigns :: "UsersState \<Rightarrow> effect \<Rightarrow> bool" where
  "assigns s x = (\<exists>user domain. up_accessTarget s = Some user \<and> \<not> isSuperadminUser user \<and>
     up_roleValue s \<in> set (map fst roleOptions) - {''superadmin''} \<and> domain = buildDomain (up_scopeMode s) (up_selectedApp s) (up_selectedEnv s) \<and>
     (up_scopeMode s = ScopeCluster \<and> domain = ''cluster'' \<or> up_scopeMode s \<noteq> ScopeCluster \<and> domain \<in> set (up_domainOptions s)) \<and>
     x = aclRequest ''assign'' (us_account user) (up_roleValue s) domain)"

definition revokes :: "nat \<Rightarrow> UsersState \<Rightarrow> effect \<Rightarrow> bool" where
  "revokes i s x = (\<exists>user. up_accessTarget s = Some user \<and> \<not> isSuperadminUser user \<and> i < length (up_accessBindings s) \<and>
     ub_role (up_accessBindings s ! i) \<noteq> ''superadmin'' \<and>
     x = aclRequest ''revoke'' (us_account user) (ub_role (up_accessBindings s ! i)) (ub_domain (up_accessBindings s ! i)))"

definition up_modifies :: "UsersState \<Rightarrow> UsersEvent \<Rightarrow> effect \<Rightarrow> bool" where
  "up_modifies s e x \<longleftrightarrow> up_mounted s \<and> up_busy s = 0 \<and>
     (e = UpAdd \<and> up_createOpen s \<and> x = addRequest (js_trim (cf_account (up_createForm s))) (cf_password (up_createForm s)) (js_trim (cf_nickname (up_createForm s))) \<or>
      (\<exists>user. e = UpDisable \<and> up_disableTarget s = Some user \<and> \<not> isSuperadminUser user \<and> x = disableRequest (us_account user)) \<or>
      (\<exists>user. e = UpReset \<and> up_resetTarget s = Some user \<and> \<not> isSuperadminUser user \<and> x = resetRequest (js_trim (us_account user)) (up_resetPassword s)) \<or>
      e = UpAssign \<and> assigns s x \<or> (\<exists>i. e = UpRevoke i \<and> revokes i s x))"

definition up_permits :: "UsersState \<Rightarrow> UsersEvent \<Rightarrow> effect \<Rightarrow> bool" where
  "up_permits s e x \<longleftrightarrow> (\<exists>m sev. x = ShowToast m sev) \<or> x \<in> up_reading \<or> up_modifies s e x"

lemma up_dialog_permits:
  assumes "up_inv s" and "up_mounted s" and "x \<in> set (snd (up_dialog s e))"
  shows "up_modifies s e x"
proof -
  have idle: "\<not> up_submitting s \<Longrightarrow> up_busy s = 0" using assms(1) up_idle(4) by (simp add: up_inv_def)
  have role: "up_roleValue s \<in> set (map fst roleOptions) - {''superadmin''}"
    using assms(1) by (auto simp: up_inv_def up_guarded_def assignableRoleOptions_def)
  have assign: "assigns s x" if "\<not> up_assignDisabled s" "x \<in> set (snd (handleAddBinding s))"
    using assms(1) that domain_offered [OF _ that(1) refl] role
    unfolding assigns_def by (auto simp: handleAddBinding_def up_inv_def up_guarded_def split: option.splits if_splits)
  have revoke: "revokes i s x" if "x \<in> set (snd (handleRevokeBinding (up_accessBindings s ! i) s))" "i < length (up_accessBindings s)"
    "ub_role (up_accessBindings s ! i) \<noteq> ''superadmin''" for i
    using assms(1) that
    by (auto simp: revokes_def handleRevokeBinding_def up_inv_def up_guarded_def split: option.splits if_splits)
  show ?thesis
    using assms idle assign revoke
    by (cases e) (auto simp: up_dialog_def up_accessDialog_def up_modifies_def up_addDisabled_def up_assignDisabled_def handleAddUser_def
        handleDisableUser_def handleResetPassword_def up_inv_def up_guarded_def Let_def split: if_splits option.splits)
qed

lemma users_step_permits:
  assumes "up_inv s" and "x \<in> set (snd (users_step t s e))"
  shows "up_permits s e x"
proof (cases "up_modal s \<and> up_mounted s \<and> x \<in> set (snd (up_dialog s e))")
  case True
  with up_dialog_permits [OF assms(1)] show ?thesis by (simp add: up_permits_def)
next
  case False
  with assms(2) show ?thesis
    by (cases e) (auto simp: up_permits_def users_step_def up_page_def handleOpenAccess_def up_microtask_def loadUsers_def loadDomainOptions_def
        up_accessLoaded_def up_accessRefreshed_def refreshAccessBindings_def up_mutated_def up_succeeded_def with_toast_def Let_def
        split: if_splits option.splits nat.splits sum.splits UsersMutation.splits AccessPurpose.splits)
qed

interpretation users_page: guarded_component "users_step t" "\<lambda>s. s = initUsers" up_inv "\<lambda>s x. \<exists>e. up_permits s e x" for t
proof
  show "\<exists>e. up_permits s e x" if "up_inv s" "x \<in> set (snd (users_step t s e))" for s e x
    using users_step_permits [OF that] by blast
qed (simp_all add: initUsers_inv users_step_inv)

subsection \<open>Properties\<close>

lemma users_reachable_inv: "up_inv (after (users_step t) initUsers es)"
  by (rule users_page.inv_reachable) (rule refl)

text \<open>C8: A request of the users page other than those that read comes from its open dialog while no
  other submission is in progress. The user disabled, whose password is reset or whose roles change
  is never a superadmin, and the role assigned or revoked is never that of a superadmin. The domain of an
  assignment is the one of the scope chosen: the whole cluster when this is the scope, whether or not the server
  offered it, and otherwise one of the domains the server offered.\<close>

theorem users_modification_guarded:
  assumes "s = after (users_step t) initUsers es" and "Request path ini \<in> set (snd (users_step t s e))"
    and "Request path ini \<notin> insert requestUsers (insert requestDomainOptions (range requestUserAccess))"
  shows "up_mounted s \<and> up_busy s = 0 \<and>
    (e = UpAdd \<and> up_createOpen s \<and> Request path ini =
       addRequest (js_trim (cf_account (up_createForm s))) (cf_password (up_createForm s)) (js_trim (cf_nickname (up_createForm s))) \<or>
     (\<exists>user. e = UpDisable \<and> up_disableTarget s = Some user \<and> \<not> isSuperadminUser user \<and> Request path ini = disableRequest (us_account user)) \<or>
     (\<exists>user. e = UpReset \<and> up_resetTarget s = Some user \<and> \<not> isSuperadminUser user \<and>
       Request path ini = resetRequest (js_trim (us_account user)) (up_resetPassword s)) \<or>
     (\<exists>user domain. e = UpAssign \<and> up_accessTarget s = Some user \<and> \<not> isSuperadminUser user \<and> up_roleValue s \<in> set (map fst roleOptions) - {''superadmin''} \<and>
       domain = buildDomain (up_scopeMode s) (up_selectedApp s) (up_selectedEnv s) \<and>
       (up_scopeMode s = ScopeCluster \<and> domain = ''cluster'' \<or> up_scopeMode s \<noteq> ScopeCluster \<and> domain \<in> set (up_domainOptions s)) \<and>
       Request path ini = aclRequest ''assign'' (us_account user) (up_roleValue s) domain) \<or>
     (\<exists>user i. e = UpRevoke i \<and> up_accessTarget s = Some user \<and> \<not> isSuperadminUser user \<and> i < length (up_accessBindings s) \<and>
       ub_role (up_accessBindings s ! i) \<noteq> ''superadmin'' \<and>
       Request path ini = aclRequest ''revoke'' (us_account user) (ub_role (up_accessBindings s ! i)) (ub_domain (up_accessBindings s ! i))))"
proof -
  have "up_inv s" unfolding assms(1) by (rule users_reachable_inv)
  from users_step_permits [OF this assms(2)] assms(3) have "up_modifies s e (Request path ini)"
    by (auto simp: up_permits_def up_reading_def)
  then show ?thesis unfolding up_modifies_def assigns_def revokes_def by blast
qed

text \<open>C21: An answer changes the bindings in the access dialog only if it is for the user the dialog names,
  however opening the dialog, assigning, revoking and closing are interleaved with the answers.\<close>

theorem users_access_current:
  assumes "s = after (users_step t) initUsers es" and "s' = fst (users_step t s (UpAccess i outcome))"
    and "up_accessBindings s' \<noteq> up_accessBindings s"
  shows "\<exists>user. up_accessTarget s' = Some user \<and> us_account user = aq_account (up_accesses s ! i)"
proof -
  have "up_single s" using users_reachable_inv [of t es] by (simp add: assms(1) up_inv_def)
  moreover have "i < length (up_accesses s)" and "up_accessTarget s' = up_accessTarget s"
    using assms(2,3)
    by (auto simp: users_step_def up_accessLoaded_def up_accessOpened_def up_accessRefreshed_def refreshAccessBindings_def loadUsers_def Let_def
        split: if_splits sum.splits AccessPurpose.splits)
  ultimately have "concerns (up_accessTarget s') (aq_account (up_accesses s ! i))"
    by (simp add: up_single_def)
  then show ?thesis by (auto simp: concerns_def split: option.splits)
qed

text \<open>The selections of the form cover the domains the server offered and nothing else: the application
  options with all their environments are the offered domains ending in a star, and the options
  of an application's environments are the other offered domains under it, in their order.\<close>

theorem scope_options_roundtrip:
  assumes "app \<noteq> []"
  shows "map (\<lambda>a. buildDomain ScopeAppAll a env) (up_appOptions ds) = filter (\<lambda>d. js_endsWith d ''/*'') ds \<and>
    map (buildDomain ScopeAppEnv app) (up_envOptions ds app) = filter (\<lambda>d. js_startsWith d (app @ ''/'') \<and> \<not> js_endsWith d ''/*'') ds"
proof -
  have "\<not> js_endsWith ''cluster'' ''/*''" by (simp add: js_endsWith_def js_startsWith_def)
  then have "filter (\<lambda>item. item \<noteq> ''cluster'' \<and> js_endsWith item ''/*'') ds = filter (\<lambda>d. js_endsWith d ''/*'') ds"
    by (intro filter_cong) auto
  moreover have "map (\<lambda>d. take (length d - 2) d @ ''/*'') (filter (\<lambda>d. js_endsWith d ''/*'') ds) = filter (\<lambda>d. js_endsWith d ''/*'') ds"
    by (rule map_idI) (auto simp: js_endsWith_iff)
  moreover have "map (\<lambda>d. app @ ''/'' @ drop (length app + 1) d) (filter (\<lambda>d. js_startsWith d (app @ ''/'') \<and> \<not> js_endsWith d ''/*'') ds) =
      filter (\<lambda>d. js_startsWith d (app @ ''/'') \<and> \<not> js_endsWith d ''/*'') ds"
    by (rule map_idI) (auto simp: js_startsWith_iff)
  ultimately show ?thesis using assms
    by (simp add: up_appOptions_def up_envOptions_def buildDomain_def comp_def)
qed

lemma up_idle_accesses:
  assumes "up_single s" and "\<not> up_submitting s" and "\<not> up_accessLoading s"
  shows "up_accesses s = []"
  using accesses_split [of s] up_idle(3) [OF assms(1,2)] assms by (simp add: up_single_def)

lemmas assign_eval = users_step_def up_modal_def up_dialog_def up_accessDialog_def handleAddBinding_def up_submit_def up_mutated_def
  up_succeeded_def up_ask_def up_accessLoaded_def up_accessOpened_def up_accessRefreshed_def refreshAccessBindings_def loadUsers_def
  deref_def remove_at_def Let_def

text \<open>C33: When the first answer of the dialog has arrived, an assignment the server accepts ends with the
  bindings read back in the dialog and the page ready for the next submission: the effects are the assignment, the
  message, the request of the bindings and then that of the users. (While the first answer is out this fails,
  as \<open>users_access_overwritten\<close> shows.)\<close>

theorem users_assign_completes:
  assumes "s = after (users_step t) initUsers es" and "up_mounted s" and "up_accessTarget s = Some user" and "us_account user \<noteq> []"
    and "\<not> up_accessLoading s" and "\<not> up_assignDisabled s"
    and "(s', efs) = run (users_step t) s [UpAssign, UpMutated 0 (Inr ()), UpAccess 0 (Inr (Some d))]"
  shows "up_accessBindings s' = opt_or (ua_bindings d) [] \<and> \<not> up_submitting s' \<and> up_accessTarget s' = Some user \<and>
    efs = [aclRequest ''assign'' (us_account user) (up_roleValue s) (buildDomain (up_scopeMode s) (up_selectedApp s) (up_selectedEnv s)),
      ShowToast (t ''management.acl.assigned'' []) Success, requestUserAccess (us_account user), requestUsers]"
proof -
  have single: "up_single s" using users_reachable_inv [of t es] by (simp add: assms(1) up_inv_def)
  have idle: "\<not> up_submitting s" using assms(6) by (simp add: up_assignDisabled_def)
  show ?thesis
    using assms(2-7) up_idle(1) [OF single idle] up_idle_accesses [OF single idle assms(5)]
    by (auto simp: assign_eval up_assignDisabled_def)
qed

text \<open>The first answer of the dialog is not compared with what happened since: when the form is submitted
  while that answer is out, which the dialog allows, and the answer comes after the bindings read
  back, the dialog ends with the bindings from before the assignment.\<close>

theorem users_access_overwritten:
  assumes "s = after (users_step t) initUsers es" and "up_mounted s" and "up_accessTarget s = Some user" and "us_account user \<noteq> []"
    and "up_accesses s = [\<lparr>aq_account = us_account user, aq_purpose = OpenAccess\<rparr>]" and "\<not> up_assignDisabled s"
    and "(s', efs) = run (users_step t) s [UpAssign, UpMutated 0 (Inr ()), UpAccess 1 (Inr (Some now)), UpAccess 0 (Inr (Some before))]"
  shows "up_accessBindings s' = opt_or (ua_bindings before) [] \<and> up_accesses s' = [] \<and> \<not> up_submitting s' \<and> \<not> up_accessLoading s'"
proof -
  have single: "up_single s" using users_reachable_inv [of t es] by (simp add: assms(1) up_inv_def)
  have idle: "\<not> up_submitting s" using assms(6) by (simp add: up_assignDisabled_def)
  show ?thesis
    using assms(2-7) up_idle(1) [OF single idle]
    by (auto simp: assign_eval up_assignDisabled_def)
qed

subsection \<open>Witnesses\<close>

definition demo_user :: User where
  "demo_user = \<lparr>us_account = ''ann'', us_nickname = None, us_status = Some 0, us_roles = Some [''admin''], us_bindingCount = None,
     us_accessSummary = None\<rparr>"

definition demo_binding :: UserAccessBinding where
  "demo_binding = \<lparr>ub_role = ''admin'', ub_domain = ''cluster''\<rparr>"

definition demo_access_start :: "UsersEvent list" where
  "demo_access_start = [UpMount, UpMicrotask, UpLoaded 0 (Inr (Some \<lparr>ur_users = Some [demo_user]\<rparr>)),
     UpDomains (Inr (Some \<lparr>do_domains = Some [''cluster'', ''shop/*'', ''shop/prod'']\<rparr>)), UpOpenAccess 0]"

definition demo_opening :: UsersState where
  "demo_opening = after (users_step (\<lambda>k ps. k)) initUsers demo_access_start"

definition demo_opened :: UsersState where
  "demo_opened = after (users_step (\<lambda>k ps. k)) initUsers (demo_access_start @ [UpAccess 0 (Inr (Some \<lparr>ua_bindings = Some [demo_binding]\<rparr>))])"

lemmas users_eval = users_handlers initUsers_def demo_user_def demo_binding_def demo_access_start_def up_modal_def up_row_def
  up_editable_def isSuperadminUser_def deref_def remove_at_def reportError_def initError_def

lemma demo_opening_facts:
  "up_mounted demo_opening" "up_accessTarget demo_opening = Some demo_user" "us_account demo_user \<noteq> []" "\<not> up_assignDisabled demo_opening"
  "up_accesses demo_opening = [\<lparr>aq_account = us_account demo_user, aq_purpose = OpenAccess\<rparr>]" "up_accessBindings demo_opening = []"
  by (simp_all add: demo_opening_def users_eval up_assignDisabled_def)

lemma demo_opened_step:
  "demo_opened = fst (users_step (\<lambda>k ps. k) demo_opening (UpAccess 0 (Inr (Some \<lparr>ua_bindings = Some [demo_binding]\<rparr>))))"
  unfolding demo_opened_def demo_opening_def after_snoc ..

lemma demo_opened_facts:
  "up_mounted demo_opened" "up_accessTarget demo_opened = Some demo_user" "\<not> up_accessLoading demo_opened" "\<not> up_assignDisabled demo_opened"
  "up_accessBindings demo_opened = [demo_binding]"
  using demo_opening_facts
  by (simp_all add: demo_opened_step users_step_def up_accessLoaded_def up_accessOpened_def deref_def Let_def up_assignDisabled_def)

lemma demo_revoke: "snd (users_step (\<lambda>k ps. k) demo_opened (UpRevoke 0)) = [aclRequest ''revoke'' ''ann'' ''admin'' ''cluster'']"
  using demo_opened_facts
  by (simp add: users_step_def up_modal_def up_dialog_def up_accessDialog_def handleRevokeBinding_def up_assignDisabled_def demo_user_def
      demo_binding_def)

lemma acl_not_reading:
  "aclRequest action account role domain \<notin> insert requestUsers (insert requestDomainOptions (range requestUserAccess))"
  if "action \<in> {''assign'', ''revoke''}"
  using that by (auto simp: aclRequest_def requestUsers_def requestDomainOptions_def requestUserAccess_def)

theorem users_modification_guarded_witness: "\<exists>user. up_accessTarget demo_opened = Some user \<and> \<not> isSuperadminUser user"
proof -
  obtain path ini where r: "aclRequest ''revoke'' ''ann'' ''admin'' ''cluster'' = Request path ini"
    by (simp add: aclRequest_def)
  then have "Request path ini \<in> set (snd (users_step (\<lambda>k ps. k) demo_opened (UpRevoke 0)))" by (simp only: demo_revoke) simp
  from users_modification_guarded [OF demo_opened_def this] r acl_not_reading [of "''revoke''"] show ?thesis by fastforce
qed

theorem users_access_current_witness:
  "\<exists>user. up_accessTarget demo_opened = Some user \<and> us_account user = aq_account (up_accesses demo_opening ! 0)"
  by (rule users_access_current [OF demo_opening_def demo_opened_step]) (simp add: demo_opened_facts demo_opening_facts)

theorem scope_options_roundtrip_witness:
  "map (buildDomain ScopeAppEnv ''shop'') (up_envOptions [''cluster'', ''shop/*'', ''shop/prod''] ''shop'') = [''shop/prod'']"
  using scope_options_roundtrip [of "''shop''" "[]" "[''cluster'', ''shop/*'', ''shop/prod'']"]
  by (simp add: js_startsWith_def js_endsWith_def)

theorem users_assign_completes_witness:
  "up_accessBindings (after (users_step (\<lambda>k ps. k)) demo_opened
     [UpAssign, UpMutated 0 (Inr ()), UpAccess 0 (Inr (Some \<lparr>ua_bindings = Some [demo_binding, demo_binding]\<rparr>))]) = [demo_binding, demo_binding]"
  using users_assign_completes [OF demo_opened_def demo_opened_facts(1,2) demo_opening_facts(3) demo_opened_facts(3,4) surjective_pairing [symmetric]]
  by simp

theorem users_access_overwritten_witness:
  "up_accessBindings (after (users_step (\<lambda>k ps. k)) demo_opening [UpAssign, UpMutated 0 (Inr ()),
     UpAccess 1 (Inr (Some \<lparr>ua_bindings = Some [demo_binding]\<rparr>)), UpAccess 0 (Inr (Some \<lparr>ua_bindings = Some []\<rparr>))]) = []"
  using users_access_overwritten [OF demo_opening_def demo_opening_facts(1,2,3,5,4) surjective_pairing [symmetric]]
  by simp

end
