(* ===== verification/Access_Page.thy ===== *)
theory Access_Page
  imports Feedback Content
begin

section \<open>The access control page: \<open>acl/AclPage.tsx\<close>\<close>

text \<open>
  A form that assigns a role to an account or revokes it, for the domains typed in, one per line or
  separated by commas. No route of the console leads to the page. The facts: what the form makes of
  the domains does not depend on how they are separated, and a request is sent only for an account
  that is not blank, with a role of the table and with no other request out.
\<close>

subsection \<open>State\<close>

record AclFormState =
  af_account :: string
  af_role :: string
  af_domains :: string

datatype AclAction = AclAssign | AclRevoke

record AclState =
  ac_form :: AclFormState
  ac_submitting :: bool
  ac_actions :: "AclAction list"

definition initAcl :: AclState where
  "initAcl = \<lparr>ac_form = \<lparr>af_account = [], af_role = ''appdeveloper'', af_domains = []\<rparr>, ac_submitting = False, ac_actions = []\<rparr>"

definition is_domain_separator :: "char \<Rightarrow> bool" where
  "is_domain_separator c = (c = CHR 0x0A \<or> c = CHR '','')"

definition parseDomains :: "string \<Rightarrow> string list" where
  "parseDomains input = filter (\<lambda>item. item \<noteq> []) (map js_trim (split_on is_domain_separator input))"

definition acl_account :: "AclState \<Rightarrow> string" where
  "acl_account s = js_trim (af_account (ac_form s))"

definition acl_domains :: "AclState \<Rightarrow> string list" where
  "acl_domains s = parseDomains (af_domains (ac_form s))"

subsection \<open>Handlers\<close>

datatype AclField = AFAccount | AFRole | AFDomains

definition acl_updateField :: "AclField \<Rightarrow> string \<Rightarrow> AclState \<Rightarrow> AclState" where
  "acl_updateField f v s = s\<lparr>ac_form := (case f of
       AFAccount \<Rightarrow> (ac_form s)\<lparr>af_account := v\<rparr>
     | AFRole \<Rightarrow> (ac_form s)\<lparr>af_role := v\<rparr>
     | AFDomains \<Rightarrow> (ac_form s)\<lparr>af_domains := v\<rparr>)\<rparr>"

definition acl_name :: "AclAction \<Rightarrow> string" where
  "acl_name action = (case action of AclAssign \<Rightarrow> ''assign'' | AclRevoke \<Rightarrow> ''revoke'')"

definition acl_path :: "AclAction \<Rightarrow> AclState \<Rightarrow> string" where
  "acl_path action s = ''/api/account/acl/'' @ acl_name action @
     buildQuery [(''account'', qstr (acl_account s)), (''role'', qstr (af_role (ac_form s))),
       (''domain'', if acl_domains s \<noteq> [] then QList (map PrimStr (acl_domains s)) else QUndefined)]"

definition submitAclAction :: "AclAction \<Rightarrow> AclState \<Rightarrow> AclState \<times> effect list" where
  "submitAclAction action s =
     (if acl_account s = [] then (s, [])
      else (s\<lparr>ac_submitting := True, ac_actions := ac_actions s @ [action]\<rparr>, [Request (acl_path action s) noInit]))"

definition acl_settled :: "Translator \<Rightarrow> nat \<Rightarrow> failure + unit \<Rightarrow> AclState \<Rightarrow> AclState \<times> effect list" where
  "acl_settled t i outcome s =
     (if i < length (ac_actions s) then
        (let action = ac_actions s ! i; s' = s\<lparr>ac_actions := remove_at i (ac_actions s), ac_submitting := False\<rparr> in
         (s', [case outcome of
             Inr _ \<Rightarrow> ShowToast (t (if action = AclAssign then ''management.acl.assigned'' else ''management.acl.revoked'') []) Success
           | Inl err \<Rightarrow> ShowToast (getErrorMessage err
               (t (if action = AclAssign then ''management.acl.assignFailed'' else ''management.acl.revokeFailed'') [])) Error]))
      else (s, []))"

subsection \<open>The step function\<close>

datatype AclEvent = AcField AclField string | AcAction AclAction | AcSettled nat "failure + unit"

definition acl_disabled :: "AclState \<Rightarrow> bool" where
  "acl_disabled s = (ac_submitting s \<or> acl_account s = [])"

definition acl_step :: "Translator \<Rightarrow> AclState \<Rightarrow> AclEvent \<Rightarrow> AclState \<times> effect list" where
  "acl_step t s e = (case e of
       AcField f v \<Rightarrow> (if \<not> ac_submitting s \<and> (f = AFRole \<longrightarrow> v \<in> fst ` set roleOptions) then acl_updateField f v s else s, [])
     | AcAction action \<Rightarrow> if \<not> acl_disabled s then submitAclAction action s else (s, [])
     | AcSettled i outcome \<Rightarrow> acl_settled t i outcome s)"

definition AclPage_view :: "Translator \<Rightarrow> AclState \<Rightarrow> ui list" where
  "AclPage_view t s =
     [UHeading (t ''management.acl.title'' []), UText (t ''management.acl.description'' []), UHeading (t ''management.acl.roleBinding'' []),
      UInput (t ''management.users.account'' []) (af_account (ac_form s)) (ac_submitting s) [],
      USelect (t ''management.users.role'' []) (af_role (ac_form s)) (ac_submitting s) []
        (map (\<lambda>role. \<lparr>me_value = fst role, me_disabled = False, me_ariaLabel = [], me_text = t (''management.roles.'' @ fst role) [],
           me_current = None, me_status = [], me_statusText = []\<rparr>) roleOptions),
      UInput (t ''management.acl.domains'' []) (af_domains (ac_form s)) (ac_submitting s) (t ''management.acl.domainsHelp'' []),
      UButton (t ''management.acl.assign'' []) (acl_disabled s), UButton (t ''management.acl.revoke'' []) (acl_disabled s)]"

subsection \<open>Domains\<close>

lemma parseDomains_joined:
  assumes "\<forall>w \<in> set ds. w \<noteq> [] \<and> js_trim w = w \<and> (\<forall>c \<in> set w. \<not> is_domain_separator c)" and "is_domain_separator d"
  shows "parseDomains (join [d] ds) = ds"
proof (cases "ds = []")
  case False
  have "split_on is_domain_separator (join ([] @ [d]) ds) = map (\<lambda>l. l @ []) (butlast ds) @ [last ds]"
    using False assms by (intro split_on_join) simp_all
  then have "split_on is_domain_separator (join [d] ds) = ds" using False by simp
  then have "parseDomains (join [d] ds) = filter (\<lambda>item. item \<noteq> []) (map js_trim ds)"
    by (simp add: parseDomains_def)
  also have "map js_trim ds = ds" using assms(1) by (intro map_idI) simp
  also have "filter (\<lambda>item. item \<noteq> []) ds = ds" using assms(1) by simp
  finally show ?thesis .
qed (simp add: parseDomains_def)

lemma parseDomains_words:
  "w \<in> set (parseDomains s) \<Longrightarrow> w \<noteq> [] \<and> js_trim w = w \<and> (\<forall>c \<in> set w. \<not> is_domain_separator c)"
proof -
  assume "w \<in> set (parseDomains s)"
  then obtain u where u: "u \<in> set (split_on is_domain_separator s)" "w = js_trim u" "w \<noteq> []"
    by (auto simp: parseDomains_def)
  obtain p q where "u = p @ w @ q" using js_trim_infix [of u] u(2) by blast
  then have "set w \<subseteq> set u" by auto
  moreover have "js_trim w = w" using u(2) by simp
  ultimately show ?thesis using u(1,3) split_on_no_sep [OF u(1)] by blast
qed

text \<open>What the form makes of the domains is a normal form: separating the domains again, by lines or by
  commas, gives the same domains.\<close>

theorem acl_domains_roundtrip:
  "parseDomains (join [CHR 0x0A] (parseDomains s)) = parseDomains s \<and> parseDomains (join '','' (parseDomains s)) = parseDomains s"
  using parseDomains_joined [of "parseDomains s"] parseDomains_words [of _ s] by (simp add: is_domain_separator_def)

subsection \<open>Requests\<close>

definition acl_inv :: "AclState \<Rightarrow> bool" where
  "acl_inv s \<longleftrightarrow> length (ac_actions s) = (if ac_submitting s then 1 else 0) \<and> af_role (ac_form s) \<in> fst ` set roleOptions"

definition acl_permits :: "AclState \<Rightarrow> effect \<Rightarrow> bool" where
  "acl_permits s x \<longleftrightarrow> (\<exists>m sev. x = ShowToast m sev) \<or>
     ac_actions s = [] \<and> acl_account s \<noteq> [] \<and> af_role (ac_form s) \<in> fst ` set roleOptions \<and> (\<exists>action. x = Request (acl_path action s) noInit)"

lemma acl_step_inv: "acl_inv s \<Longrightarrow> acl_inv (fst (acl_step t s e))"
  by (cases e) (auto simp: acl_inv_def acl_step_def acl_updateField_def submitAclAction_def acl_settled_def acl_disabled_def remove_at_def Let_def
      split: AclField.split if_splits)

lemma acl_step_permits: "acl_inv s \<Longrightarrow> x \<in> set (snd (acl_step t s e)) \<Longrightarrow> acl_permits s x"
  by (cases e) (auto simp: acl_inv_def acl_permits_def acl_step_def submitAclAction_def acl_settled_def acl_disabled_def Let_def
      split: if_splits sum.splits)

interpretation access_page: guarded_component "acl_step t" "\<lambda>s. s = initAcl" acl_inv acl_permits for t
proof
  show "acl_inv s" if "s = initAcl" for s
    using that by (simp add: acl_inv_def initAcl_def roleOptions_def)
qed (simp_all add: acl_step_inv acl_step_permits)

text \<open>A request of the page is sent with nothing else out, for an account that is not blank and a role
  of the table.\<close>

theorem acl_request_checked:
  assumes "s = after (acl_step t) initAcl es" and "Request path ini \<in> set (snd (acl_step t s e))"
  shows "ac_actions s = [] \<and> acl_account s \<noteq> [] \<and> af_role (ac_form s) \<in> fst ` set roleOptions \<and>
    (\<exists>action. path = acl_path action s)"
  using access_page.allowed_reachable [OF refl, of "Request path ini" t es e] assms by (simp add: acl_permits_def)

end
