(* ===== verification/Element_Detail.thy ===== *)
theory Element_Detail
  imports Latest_Loader Feedback Workflow_Options Content_Registry Raw_Codec
begin

section \<open>The element detail page: \<open>elements/ElementDetailPage.tsx\<close>\<close>

text \<open>
  The page shows one element: its content, its versions, a comparison of two of them and the
  operations on it. A new version is edited in a dialog and either saved as a draft or published
  at once, which takes three requests: store the content, read the element back to learn the number
  of the draft, publish that number. Loads are queued, started and settled as on the elements page;
  a load waits for three requests together (\<open>Promise.all\<close>), so one event settles it with either the
  first rejection or the three results. The retention policy is asked for after a load and settles
  on its own.

  The facts: what is loaded is the element of the route; a modifying request is for that element,
  with nothing else in progress and with a content that passes validation, and the version
  published is the draft read back; publishing directly runs to its end; the comparison is of two
  versions of the list, the numbers chosen. Three theorems show where the page goes wrong: the labels of a
  comparison follow the selection and not what is compared, the message for a missing draft is
  never shown, and an editor open while the route changes saves into the other element.
\<close>

subsection \<open>State\<close>

record ElementLocation =
  lc_appId :: string
  lc_env :: string
  lc_key :: string

datatype DetailStage =
    SaveVersion
  | SaveDraft js_number
  | FetchDraft js_number
  | PublishDraft js_number

record DetailMutation =
  dm_stage :: DetailStage
  dm_loc :: ElementLocation

record DetailLoad =
  dl_requestId :: nat
  dl_loc :: ElementLocation
  dl_awaited :: bool

type_synonym detail_results =
  "failure + Element option \<times> ElementsResponse option \<times> ElementOperationsResponse option"

record DetailState =
  ed_loc :: ElementLocation
  ed_element :: "Element option"
  ed_versions :: "Element list"
  ed_operations :: "ElementOperation list"
  ed_retention :: "RetentionPolicy option"
  ed_loading :: bool
  ed_saving :: bool
  ed_diffLoaded :: bool
  ed_error :: ErrorFeedback
  ed_tab :: nat
  ed_raw :: string
  ed_editRaw :: string
  ed_editValidation :: ContentValidationResult
  ed_newVersionOpen :: bool
  ed_publishConfirmOpen :: bool
  ed_preview :: "Element option"
  ed_diffBase :: string
  ed_diffCompare :: string
  ed_diffPair :: "(Element \<times> Element) option"
  ed_timer :: bool
  ed_requestSeq :: nat
  ed_mounted :: bool
  ed_lastLoadKey :: string
  ed_locRef :: ElementLocation
  ed_microtasks :: "ElementLocation list"
  ed_loads :: "DetailLoad list"
  ed_policies :: "nat list"
  ed_mutations :: "DetailMutation list"
  ed_started :: ElementLocation

definition initDetail :: "ElementLocation \<Rightarrow> DetailState" where
  "initDetail loc = \<lparr>ed_loc = loc, ed_element = None, ed_versions = [], ed_operations = [], ed_retention = None,
     ed_loading = True, ed_saving = False, ed_diffLoaded = False, ed_error = initError, ed_tab = 0, ed_raw = [],
     ed_editRaw = [], ed_editValidation = validResult, ed_newVersionOpen = False, ed_publishConfirmOpen = False,
     ed_preview = None, ed_diffBase = [], ed_diffCompare = [], ed_diffPair = None, ed_timer = False, ed_requestSeq = 0,
     ed_mounted = False, ed_lastLoadKey = [], ed_locRef = loc, ed_microtasks = [], ed_loads = [], ed_policies = [],
     ed_mutations = [], ed_started = \<lparr>lc_appId = [], lc_env = [], lc_key = []\<rparr>\<rparr>"

subsection \<open>Texts\<close>

definition operationLabels :: "(OperationCode \<times> string) list" where
  "operationLabels = [(OpNum 1, ''SET''), (OpNum 2, ''UNSET''), (OpNum 3, ''PUBLISH''),
     (OpStr ''1'', ''SET''), (OpStr ''2'', ''UNSET''), (OpStr ''3'', ''PUBLISH'')]"

definition getOperationLabel :: "OperationCode option \<Rightarrow> string" where
  "getOperationLabel op = (case op of
       None \<Rightarrow> ''-''
     | Some c \<Rightarrow>
         if c = OpStr [] then ''-''
         else opt_str_or (map_of operationLabels c) (case c of OpNum n \<Rightarrow> int_str n | OpStr s \<Rightarrow> s))"

definition arrow :: string where
  \<comment> \<open>U+2192, a rightwards arrow, in UTF-8\<close>
  "arrow = [CHR 0xE2, CHR 0x86, CHR 0x92]"

definition formatVersionChange :: "ElementOperation \<Rightarrow> string" where
  "formatVersionChange operation =
     (let last = eo_lastVersion operation; current = eo_currentVersion operation in
      if \<not> num_truthy last \<or> \<not> num_truthy current \<or> last = current then ''-''
      else ''v'' @ num_str (the last) @ '' '' @ arrow @ '' v'' @ num_str (the current))"

definition formatTimestamp :: "(int \<Rightarrow> string) \<Rightarrow> int option \<Rightarrow> string" where
  "formatTimestamp formatDateTime timestamp =
     (if \<not> truthy_num timestamp then ''-''
      else formatDateTime (if the timestamp > 1000000000000000 then the timestamp div 1000000 else the timestamp))"

definition version_label :: "Element \<Rightarrow> string" where
  "version_label version = (case el_version version of None \<Rightarrow> ''-'' | Some n \<Rightarrow> ''v'' @ num_str n)"

definition version_text :: "Element \<Rightarrow> string" where
  \<comment> \<open>\<open>String(version.version)\<close>\<close>
  "version_text version = (case el_version version of None \<Rightarrow> ''undefined'' | Some n \<Rightarrow> num_str n)"

subsection \<open>Requests\<close>

definition ed_elementPath :: "ElementLocation \<Rightarrow> string" where
  "ed_elementPath loc = elementPath (lc_appId loc) (lc_env loc) (lc_key loc)"

definition requestElement :: "ElementLocation \<Rightarrow> effect" where
  "requestElement loc = Request (ed_elementPath loc) noInit"

definition requestVersions :: "ElementLocation \<Rightarrow> effect" where
  "requestVersions loc = Request (versionsPath (lc_appId loc) (lc_env loc) (lc_key loc)) noInit"

definition requestOperations :: "ElementLocation \<Rightarrow> effect" where
  "requestOperations loc = Request (ed_elementPath loc @ ''/operations'' @ buildQuery [(''limit'', qnum 100)]) noInit"

definition requestRetentionPolicy :: effect where
  "requestRetentionPolicy = Request ''/api/admin/retention'' noInit"

definition num_json :: "js_number \<Rightarrow> json" where
  \<comment> \<open>what \<open>JSON.stringify\<close> writes for a number: \<open>null\<close> when it is not finite\<close>
  "num_json n = (case n of Num i \<Rightarrow> JNum i | _ \<Rightarrow> JNull)"

definition putVersion :: "ElementLocation \<Rightarrow> string \<Rightarrow> effect" where
  "putVersion loc raw = Request (ed_elementPath loc) ((jsonBody (JObj [(''raw'', JStr raw)]))\<lparr>ri_method := Some ''PUT''\<rparr>)"

definition publishVersion :: "ElementLocation \<Rightarrow> js_number \<Rightarrow> effect" where
  "publishVersion loc version = Request (ed_elementPath loc @ ''/publish'')
     (jsonBody (JObj [(''version'', num_json version), (''publishMode'', JNum 2)]))"

definition detail_loadKey :: "ElementLocation \<Rightarrow> string" where
  "detail_loadKey loc = json_stringify (JObj [(''appId'', JStr (lc_appId loc)), (''env'', JStr (lc_env loc)), (''key'', JStr (lc_key loc))])"

definition lc_missing :: "ElementLocation \<Rightarrow> bool" where
  "lc_missing loc = (lc_appId loc = [] \<or> lc_env loc = [] \<or> lc_key loc = [])"

subsection \<open>Loading\<close>

type_synonym detail_handler = "DetailState \<Rightarrow> DetailState \<times> effect list"

definition canApplyMutationResult :: "ElementLocation \<Rightarrow> DetailState \<Rightarrow> bool" where
  "canApplyMutationResult started s = (ed_mounted s \<and> ed_locRef s = started)"

definition ed_start :: "DetailLoad \<Rightarrow> DetailState \<Rightarrow> DetailState" where
  "ed_start l s = s\<lparr>ed_requestSeq := dl_requestId l, ed_loads := ed_loads s @ [l], ed_started := dl_loc l\<rparr>"

definition ed_settle :: "nat \<Rightarrow> DetailState \<Rightarrow> DetailState" where
  "ed_settle i s = s\<lparr>ed_loads := remove_at i (ed_loads s)\<rparr>"

definition ed_missing :: "Translator \<Rightarrow> DetailState \<Rightarrow> DetailState" where
  "ed_missing t s = s\<lparr>ed_element := None, ed_versions := [], ed_operations := [], ed_retention := None, ed_raw := [],
     ed_editRaw := [], ed_editValidation := validResult, ed_newVersionOpen := False, ed_publishConfirmOpen := False,
     ed_preview := None, ed_error := reportError (t ''elements.error.missingDetailLocation'' []) (ed_error s),
     ed_loading := False\<rparr>"

definition loadPage :: "Translator \<Rightarrow> ElementLocation \<Rightarrow> bool \<Rightarrow> detail_handler" where
  "loadPage t loc awaited s =
     (let requestId = Suc (ed_requestSeq s) in
      if lc_missing loc then
        (let s' = s\<lparr>ed_requestSeq := requestId, ed_started := loc\<rparr> in (if ed_mounted s' then ed_missing t s' else s', []))
      else (ed_start \<lparr>dl_requestId = requestId, dl_loc = loc, dl_awaited = awaited\<rparr> s,
            [requestElement loc, requestVersions loc, requestOperations loc]))"

definition detail_data :: "detail_results \<Rightarrow> failure + Element \<times> ElementsResponse \<times> ElementOperationsResponse" where
  \<comment> \<open>a missing result makes the first access to one of its fields throw\<close>
  "detail_data outcome = (case outcome of
       Inl err \<Rightarrow> Inl err
     | Inr (Some e, Some v, Some os) \<Rightarrow> Inr (e, v, os)
     | Inr _ \<Rightarrow> Inl (OtherFailure ''TypeError''))"

definition versionOptions :: "Element list \<Rightarrow> js_number list" where
  "versionOptions vs = concat (map (\<lambda>v. case el_version v of Some n \<Rightarrow> [n] | None \<Rightarrow> []) vs)"

definition first_version :: "js_number list \<Rightarrow> string" where
  "first_version ns = (case ns of n # _ \<Rightarrow> if num_truthy (Some n) then num_str n else [] | [] \<Rightarrow> [])"

definition last_version :: "js_number list \<Rightarrow> string" where
  "last_version ns = (if 1 < length ns then num_str (last ns) else [])"

definition ed_show :: "Element \<Rightarrow> ElementsResponse \<Rightarrow> ElementOperationsResponse \<Rightarrow> DetailState \<Rightarrow> DetailState" where
  "ed_show elementData versionsData operationsData s =
     (let nextVersions = opt_or (es_elements versionsData) []; options = versionOptions nextVersions;
          raw = decodeRaw (el_raw elementData)
      in s\<lparr>ed_element := Some elementData, ed_versions := nextVersions,
           ed_operations := opt_or (or_operations operationsData) [], ed_retention := None, ed_raw := raw, ed_editRaw := raw,
           ed_editValidation := validResult, ed_newVersionOpen := False, ed_preview := None,
           ed_diffBase := first_version options, ed_diffCompare := last_version options, ed_diffPair := None,
           ed_diffLoaded := False, ed_error := reportError [] (ed_error s), ed_loading := False\<rparr>)"

definition ed_fail_load :: "Translator \<Rightarrow> failure \<Rightarrow> DetailState \<Rightarrow> DetailState" where
  "ed_fail_load t err s = s\<lparr>ed_element := None, ed_versions := [], ed_operations := [], ed_retention := None, ed_raw := [],
     ed_editRaw := [], ed_newVersionOpen := False, ed_preview := None, ed_diffPair := None, ed_diffLoaded := False,
     ed_error := reportError (getErrorMessage err (t ''elements.error.loadDetail'' [])) (ed_error s), ed_loading := False\<rparr>"

definition ed_apply :: "Translator \<Rightarrow> DetailLoad \<Rightarrow> detail_results \<Rightarrow> detail_handler" where
  "ed_apply t l outcome s =
     (if \<not> ed_mounted s \<or> dl_requestId l \<noteq> ed_requestSeq s then (s, [])
      else case detail_data outcome of
          Inr (e, v, os) \<Rightarrow>
            ((ed_show e v os s)\<lparr>ed_policies := ed_policies s @ [dl_requestId l]\<rparr>, [requestRetentionPolicy])
        | Inl err \<Rightarrow> (ed_fail_load t err s, []))"

definition ed_finally :: "DetailState \<Rightarrow> DetailState" where
  "ed_finally s = (if ed_mounted s then s\<lparr>ed_saving := False\<rparr> else s)"

definition ed_loaded :: "Translator \<Rightarrow> nat \<Rightarrow> detail_results \<Rightarrow> detail_handler" where
  "ed_loaded t i outcome s =
     (if i < length (ed_loads s) then
        (let l = ed_loads s ! i; (s', efs) = ed_apply t l outcome (ed_settle i s) in
         (if dl_awaited l then ed_finally s' else s', efs))
      else (s, []))"

definition ed_policyLoaded :: "nat \<Rightarrow> failure + RetentionPolicy option \<Rightarrow> DetailState \<Rightarrow> DetailState" where
  "ed_policyLoaded i outcome s =
     (if i < length (ed_policies s) then
        (let s' = s\<lparr>ed_policies := remove_at i (ed_policies s)\<rparr> in
         if ed_mounted s' \<and> ed_policies s ! i = ed_requestSeq s'
         then s'\<lparr>ed_retention := (case outcome of Inr policy \<Rightarrow> policy | Inl _ \<Rightarrow> None)\<rparr> else s')
      else s)"

definition ed_microtask :: "Translator \<Rightarrow> detail_handler" where
  "ed_microtask t s = (case ed_microtasks s of
       [] \<Rightarrow> (s, [])
     | loc # rest \<Rightarrow> loadPage t loc False (s\<lparr>ed_microtasks := rest\<rparr>))"

definition ed_contentType :: "DetailState \<Rightarrow> ContentType option" where
  "ed_contentType s = Option.bind (ed_element s) (\<lambda>e. em_contentType (el_metadata e))"

definition ed_commit :: "DetailState \<Rightarrow> DetailState \<Rightarrow> DetailState" where
  \<comment> \<open>the layout effect, the loading effect and the validation effect after a rendering; \<open>s0\<close> is the
    previous one\<close>
  "ed_commit s0 s =
     (let s1 = s\<lparr>ed_locRef := ed_loc s\<rparr>; key = detail_loadKey (ed_loc s1);
          s2 = (if ed_lastLoadKey s1 \<noteq> key
                then s1\<lparr>ed_lastLoadKey := key, ed_microtasks := ed_microtasks s1 @ [ed_loc s1]\<rparr> else s1)
      in if ed_newVersionOpen s0 \<noteq> ed_newVersionOpen s2 \<or> ed_contentType s0 \<noteq> ed_contentType s2 \<or> ed_editRaw s0 \<noteq> ed_editRaw s2
         then s2\<lparr>ed_timer := ed_newVersionOpen s2\<rparr> else s2)"

subsection \<open>Handlers\<close>

definition ed_validate :: "content_engine \<Rightarrow> Translator \<Rightarrow> string \<Rightarrow> DetailState \<Rightarrow> ContentValidationResult" where
  "ed_validate eng t raw s = validateContent eng (ed_contentType s) raw t"

definition ed_timerFired :: "content_engine \<Rightarrow> Translator \<Rightarrow> DetailState \<Rightarrow> DetailState" where
  "ed_timerFired eng t s =
     (if ed_timer s then s\<lparr>ed_timer := False, ed_editValidation := ed_validate eng t (ed_editRaw s) s\<rparr> else s)"

definition ed_unpublished :: "DetailState \<Rightarrow> js_number option" where
  "ed_unpublished s = Option.bind (ed_element s) (\<lambda>e. em_unpublishedVersion (el_metadata e))"

definition ed_latest :: "DetailState \<Rightarrow> js_number option" where
  "ed_latest s = Option.bind (ed_element s) (\<lambda>e. em_latestVersion (el_metadata e))"

definition ed_using :: "DetailState \<Rightarrow> js_number option" where
  "ed_using s = Option.bind (ed_element s) (\<lambda>e. em_usingVersion (el_metadata e))"

definition handleOpenNewVersion :: "content_engine \<Rightarrow> Translator \<Rightarrow> DetailState \<Rightarrow> DetailState" where
  "handleOpenNewVersion eng t s =
     (if num_truthy (ed_unpublished s)
      then s\<lparr>ed_error := reportError (t ''elements.error.existingDraft'' [(''version'', PStr (num_str (the (ed_unpublished s))))])
               (ed_error s)\<rparr>
      else s\<lparr>ed_editRaw := ed_raw s, ed_editValidation := ed_validate eng t (ed_raw s) s,
             ed_error := reportError [] (ed_error s), ed_newVersionOpen := True\<rparr>)"

definition closeNewVersionDialog :: "DetailState \<Rightarrow> DetailState" where
  "closeNewVersionDialog s =
     (if ed_saving s then s else s\<lparr>ed_newVersionOpen := False, ed_editValidation := validResult\<rparr>)"

definition ed_save :: "content_engine \<Rightarrow> Translator \<Rightarrow> DetailStage \<Rightarrow> detail_handler" where
  \<comment> \<open>the two handlers up to their first \<open>await\<close>\<close>
  "ed_save eng t stage s =
     (if lc_missing (ed_loc s) then (s, [])
      else
        (let validation = ed_validate eng t (ed_editRaw s) s; s' = s\<lparr>ed_editValidation := validation\<rparr> in
         if \<not> vr_valid validation then (s', [])
         else (s'\<lparr>ed_saving := True, ed_error := reportError [] (ed_error s'),
                  ed_mutations := ed_mutations s' @ [\<lparr>dm_stage = stage, dm_loc = ed_loc s\<rparr>]\<rparr>,
               [putVersion (ed_loc s) (ed_editRaw s)])))"

definition handleSubmitNewVersion :: "content_engine \<Rightarrow> Translator \<Rightarrow> detail_handler" where
  "handleSubmitNewVersion eng t s = ed_save eng t SaveVersion s"

definition handlePublishDirectly :: "content_engine \<Rightarrow> Translator \<Rightarrow> detail_handler" where
  "handlePublishDirectly eng t s = ed_save eng t (SaveDraft (num_or_zero (ed_latest s))) s"

definition ed_failed :: "Translator \<Rightarrow> ElementLocation \<Rightarrow> string \<Rightarrow> failure \<Rightarrow> DetailState \<Rightarrow> DetailState" where
  \<comment> \<open>the \<open>catch\<close> and \<open>finally\<close> clauses\<close>
  "ed_failed t loc fallback err s =
     ed_finally (if canApplyMutationResult loc s
       then s\<lparr>ed_error := reportError (getErrorMessage err (t fallback [])) (ed_error s)\<rparr> else s)"

definition ed_drop :: "nat \<Rightarrow> DetailState \<Rightarrow> DetailState" where
  "ed_drop i s = s\<lparr>ed_mutations := remove_at i (ed_mutations s)\<rparr>"

definition ed_await :: "DetailStage \<Rightarrow> ElementLocation \<Rightarrow> DetailState \<Rightarrow> DetailState" where
  "ed_await stage loc s = s\<lparr>ed_mutations := ed_mutations s @ [\<lparr>dm_stage = stage, dm_loc = loc\<rparr>]\<rparr>"

definition ed_closeEditor :: "DetailState \<Rightarrow> DetailState" where
  "ed_closeEditor s = s\<lparr>ed_newVersionOpen := False, ed_editValidation := validResult, ed_loading := True\<rparr>"

definition ed_saved :: "Translator \<Rightarrow> DetailMutation \<Rightarrow> detail_handler" where
  \<comment> \<open>a request of a handler succeeded and the page still shows its element\<close>
  "ed_saved t m s = (case dm_stage m of
       SaveVersion \<Rightarrow> loadPage t (dm_loc m) True (ed_closeEditor s)
     | SaveDraft previousLatestVersion \<Rightarrow> (ed_await (FetchDraft previousLatestVersion) (dm_loc m) s, [requestElement (dm_loc m)])
     | PublishDraft version \<Rightarrow>
         (let (s', efs) = loadPage t (dm_loc m) True (ed_closeEditor (s\<lparr>ed_publishConfirmOpen := False\<rparr>)) in
          (s', ShowToast (t ''elements.publishQueued'' [(''version'', PStr (num_str version))]) Success # efs))
     | FetchDraft _ \<Rightarrow> (s, []))"

definition stage_fallback :: "DetailStage \<Rightarrow> string" where
  "stage_fallback stage = (case stage of SaveVersion \<Rightarrow> ''elements.error.createVersion'' | _ \<Rightarrow> ''elements.error.publishDirectly'')"

definition is_fetch :: "DetailStage \<Rightarrow> bool" where
  "is_fetch stage = (case stage of FetchDraft _ \<Rightarrow> True | _ \<Rightarrow> False)"

definition ed_mutated :: "Translator \<Rightarrow> nat \<Rightarrow> failure + unit \<Rightarrow> detail_handler" where
  "ed_mutated t i outcome s =
     (if i < length (ed_mutations s) \<and> \<not> is_fetch (dm_stage (ed_mutations s ! i)) then
        (let m = ed_mutations s ! i; s' = ed_drop i s in
         case outcome of
           Inr _ \<Rightarrow> if \<not> canApplyMutationResult (dm_loc m) s' then (ed_finally s', []) else ed_saved t m s'
         | Inl err \<Rightarrow> (ed_failed t (dm_loc m) (stage_fallback (dm_stage m)) err s', []))
      else (s, []))"

definition publishable_version :: "js_number \<Rightarrow> Element \<Rightarrow> js_number option" where
  "publishable_version previousLatestVersion updatedElement =
     (let metadata = el_metadata updatedElement; latestVersion = num_or_zero (em_latestVersion metadata);
          version = (if num_truthy (em_unpublishedVersion metadata) then the (em_unpublishedVersion metadata)
                     else if num_gt latestVersion previousLatestVersion then latestVersion else Num 0)
      in if num_truthy (Some version) then Some version else None)"

definition ed_fetched :: "Translator \<Rightarrow> nat \<Rightarrow> failure + Element option \<Rightarrow> detail_handler" where
  "ed_fetched t i outcome s =
     (if i < length (ed_mutations s) then
        (case dm_stage (ed_mutations s ! i) of
           FetchDraft previousLatestVersion \<Rightarrow>
             (let loc = dm_loc (ed_mutations s ! i); s' = ed_drop i s in
              if \<not> canApplyMutationResult loc s' then (ed_finally s', [])
              else case deref outcome of
                  Inl err \<Rightarrow> (ed_failed t loc ''elements.error.publishDirectly'' err s', [])
                | Inr updatedElement \<Rightarrow> (case publishable_version previousLatestVersion updatedElement of
                      None \<Rightarrow> (ed_failed t loc ''elements.error.publishDirectly''
                        (OtherFailure (t ''elements.error.missingPublishableDraft'' [])) s', [])
                    | Some version \<Rightarrow> (ed_await (PublishDraft version) loc s', [publishVersion loc version])))
         | _ \<Rightarrow> (s, []))
      else (s, []))"

text \<open>\<open>Number(diffBase.trim())\<close> is the fraction \<open>parse_number\<close> gives; versions are compared with it exactly.\<close>

definition parsed_usable :: "js_parsed \<Rightarrow> bool" where
  \<comment> \<open>finite and positive\<close>
  "parsed_usable v = (case v of Ratio n d \<Rightarrow> 0 < n | _ \<Rightarrow> False)"

definition version_is :: "js_parsed \<Rightarrow> Element \<Rightarrow> bool" where
  "version_is v version = (case (v, el_version version) of (Ratio n d, Some (Num i)) \<Rightarrow> n = i * d | _ \<Rightarrow> False)"

definition handleLoadDiff :: "Translator \<Rightarrow> DetailState \<Rightarrow> DetailState" where
  "handleLoadDiff t s =
     (let base = parse_number (js_trim (ed_diffBase s)); compare = parse_number (js_trim (ed_diffCompare s)) in
      if \<not> parsed_usable base \<or> \<not> parsed_usable compare then s
      else case (find (version_is base) (ed_versions s), find (version_is compare) (ed_versions s)) of
          (Some b, Some c) \<Rightarrow> s\<lparr>ed_diffPair := Some (b, c), ed_diffLoaded := True, ed_error := reportError [] (ed_error s)\<rparr>
        | _ \<Rightarrow> s\<lparr>ed_diffPair := None, ed_diffLoaded := False,
                 ed_error := reportError (t ''elements.error.unavailableVersions'' []) (ed_error s)\<rparr>)"

subsection \<open>The step function\<close>

datatype DetailEvent =
    DtMount
  | DtUnmount
  | DtNavigate ElementLocation
  | DtMicrotask
  | DtTimer
  | DtLoaded nat detail_results
  | DtPolicy nat "failure + RetentionPolicy option"
  | DtMutated nat "failure + unit"
  | DtFetched nat "failure + Element option"
  | DtOpenNewVersion
  | DtCloseNewVersion
  | DtEdit string
  | DtSubmit
  | DtAskPublish
  | DtClosePublish
  | DtPublish
  | DtTab nat
  | DtPreview nat
  | DtClosePreview
  | DtDiffBase string
  | DtDiffCompare string
  | DtShowDiff

definition ed_shown :: "nat \<Rightarrow> DetailState \<Rightarrow> bool" where
  \<comment> \<open>the panel of a tab is on the page\<close>
  "ed_shown tab s = (\<not> ed_loading s \<and> ed_element s \<noteq> None \<and> ed_tab s = tab)"

definition ed_saveDisabled :: "DetailState \<Rightarrow> bool" where
  "ed_saveDisabled s = (ed_saving s \<or> \<not> vr_valid (ed_editValidation s))"

definition ed_diffDisabled :: "DetailState \<Rightarrow> bool" where
  "ed_diffDisabled s = (js_trim (ed_diffBase s) = [] \<or> js_trim (ed_diffCompare s) = [])"

definition ed_page :: "content_engine \<Rightarrow> Translator \<Rightarrow> DetailState \<Rightarrow> DetailEvent \<Rightarrow> DetailState" where
  \<comment> \<open>the controls of the page, behind no open dialog\<close>
  "ed_page eng t s e = (case e of
       DtOpenNewVersion \<Rightarrow> handleOpenNewVersion eng t s
     | DtTab n \<Rightarrow> if \<not> ed_loading s \<and> ed_element s \<noteq> None \<and> n < 4 then s\<lparr>ed_tab := n\<rparr> else s
     | DtPreview i \<Rightarrow> if ed_shown 0 s \<and> i < length (ed_versions s) then s\<lparr>ed_preview := Some (ed_versions s ! i)\<rparr> else s
     | DtDiffBase v \<Rightarrow> if ed_shown 1 s \<and> v \<in> version_text ` set (ed_versions s) then s\<lparr>ed_diffBase := v\<rparr> else s
     | DtDiffCompare v \<Rightarrow> if ed_shown 1 s \<and> v \<in> version_text ` set (ed_versions s) then s\<lparr>ed_diffCompare := v\<rparr> else s
     | DtShowDiff \<Rightarrow> if ed_shown 1 s \<and> \<not> ed_diffDisabled s then handleLoadDiff t s else s
     | _ \<Rightarrow> s)"

definition ed_dialog :: "content_engine \<Rightarrow> Translator \<Rightarrow> DetailState \<Rightarrow> DetailEvent \<Rightarrow> DetailState \<times> effect list" where
  \<comment> \<open>the confirmation lies above the other dialogs\<close>
  "ed_dialog eng t s e =
     (if ed_publishConfirmOpen s then
        (case e of
           DtClosePublish \<Rightarrow> (if danger_closable (ed_saving s) then s\<lparr>ed_publishConfirmOpen := False\<rparr> else s, [])
         | DtPublish \<Rightarrow> if \<not> ed_saving s then handlePublishDirectly eng t s else (s, [])
         | _ \<Rightarrow> (s, []))
      else
        (case e of
           DtCloseNewVersion \<Rightarrow> (if ed_newVersionOpen s then closeNewVersionDialog s else s, [])
         | DtEdit v \<Rightarrow> (if ed_newVersionOpen s \<and> \<not> ed_saving s then s\<lparr>ed_editRaw := v\<rparr> else s, [])
         | DtSubmit \<Rightarrow> if ed_newVersionOpen s \<and> \<not> ed_saveDisabled s then handleSubmitNewVersion eng t s else (s, [])
         | DtAskPublish \<Rightarrow> (if ed_newVersionOpen s \<and> \<not> ed_saveDisabled s then s\<lparr>ed_publishConfirmOpen := True\<rparr> else s, [])
         | DtClosePreview \<Rightarrow> (if ed_preview s \<noteq> None then s\<lparr>ed_preview := None\<rparr> else s, [])
         | _ \<Rightarrow> (s, [])))"

definition ed_modal :: "DetailState \<Rightarrow> bool" where
  "ed_modal s = (ed_newVersionOpen s \<or> ed_publishConfirmOpen s \<or> ed_preview s \<noteq> None)"

definition ed_handle :: "content_engine \<Rightarrow> Translator \<Rightarrow> DetailState \<Rightarrow> DetailEvent \<Rightarrow> DetailState \<times> effect list" where
  "ed_handle eng t s e = (case e of
       DtMount \<Rightarrow> (s\<lparr>ed_mounted := True, ed_timer := ed_newVersionOpen s\<rparr>, [])
     | DtUnmount \<Rightarrow> (s\<lparr>ed_mounted := False, ed_timer := False\<rparr>, [])
     | DtMicrotask \<Rightarrow> ed_microtask t s
     | DtTimer \<Rightarrow> (ed_timerFired eng t s, [])
     | DtLoaded i outcome \<Rightarrow> ed_loaded t i outcome s
     | DtPolicy i outcome \<Rightarrow> (ed_policyLoaded i outcome s, [])
     | DtMutated i outcome \<Rightarrow> ed_mutated t i outcome s
     | DtFetched i outcome \<Rightarrow> ed_fetched t i outcome s
     | DtNavigate loc \<Rightarrow> (if ed_mounted s then s\<lparr>ed_loc := loc\<rparr> else s, [])
     | _ \<Rightarrow>
         if \<not> ed_mounted s then (s, [])
         else if ed_modal s then ed_dialog eng t s e else (ed_page eng t s e, []))"

definition detail_step :: "content_engine \<Rightarrow> Translator \<Rightarrow> DetailState \<Rightarrow> DetailEvent \<Rightarrow> DetailState \<times> effect list" where
  "detail_step eng t s e =
     (let (s', efs) = ed_handle eng t s e in (if ed_mounted s' then ed_commit s s' else s', efs))"

subsection \<open>The view\<close>

definition num_same :: "js_number option \<Rightarrow> js_number option \<Rightarrow> bool" where
  \<comment> \<open>\<open>===\<close>, which no \<open>NaN\<close> satisfies\<close>
  "num_same a b = (a = b \<and> a \<noteq> Some NaN)"

definition ed_versionRow :: "Translator \<Rightarrow> DetailState \<Rightarrow> Element \<Rightarrow> ui list" where
  "ed_versionRow t s version =
     (let isCurrent = num_same (ed_using s) (el_version version); decodedRaw = decodeRaw (el_raw version) in
      [ULabelled (version_label version) (if isCurrent then [UText (t ''elements.current'' [])] else []),
       UText (if truthy_bool (el_published version) then t ''elements.published'' [] else t ''elements.draft'' []),
       UText (getContentTypeLabel (em_contentType (el_metadata version))), UText (str_or decodedRaw ''-''),
       UButton (t ''elements.previewVersion'' [(''version'', PStr (version_label version))]) False])"

definition ed_versionsPanel :: "Translator \<Rightarrow> (int \<Rightarrow> string) \<Rightarrow> DetailState \<Rightarrow> ui list" where
  "ed_versionsPanel t formatNumber s =
     (case ed_retention s of
        Some p \<Rightarrow> if rp_enabled p \<and> rp_versionPolicy p \<noteq> []
          then [UText (t ''elements.versionRetention'' [(''count'', PStr (formatNumber (rp_keepVersionCount p))),
                  (''days'', PStr (formatNumber (rp_keepVersionDays p)))])] else []
      | None \<Rightarrow> []) @
     (if ed_versions s = [] then EmptyState (t ''elements.noVersions'' []) (Some (t ''elements.noVersionsDescription'' []))
      else [UTable (map (\<lambda>k. t k []) [''elements.version'', ''elements.state'', ''elements.type'', ''elements.preview''])
              (map (ed_versionRow t s) (ed_versions s))])"

definition ed_diffProps :: "Translator \<Rightarrow> DetailState \<Rightarrow> DiffViewerProps option" where
  "ed_diffProps t s =
     (if ed_diffLoaded s then
        (case ed_diffPair s of
           Some (b, c) \<Rightarrow> Some \<lparr>dv_oldValue = decodeRaw (el_raw b), dv_newValue = decodeRaw (el_raw c),
             dv_baseLabel = Some (t ''elements.baseVersion'' [(''version'', PStr (ed_diffBase s))]),
             dv_compareLabel = Some (t ''elements.compareVersion'' [(''version'', PStr (ed_diffCompare s))]),
             dv_contentType = em_contentType (el_metadata c)\<rparr>
         | None \<Rightarrow> None)
      else None)"

definition ed_diffPanel :: "Translator \<Rightarrow> DetailState \<Rightarrow> ui list" where
  "ed_diffPanel t s =
     (let entries = map (\<lambda>v. option_entry (version_text v) (''v'' @ (case el_version v of Some n \<Rightarrow> num_str n | None \<Rightarrow> []))) (ed_versions s) in
      [USelect (t ''elements.base'' []) (ed_diffBase s) False [] entries,
       USelect (t ''elements.compare'' []) (ed_diffCompare s) False [] entries,
       UButton (t ''elements.showDiff'' []) (ed_diffDisabled s),
       (case ed_diffProps t s of Some d \<Rightarrow> UDiff d | None \<Rightarrow> UText (t ''elements.selectVersions'' []))])"

definition ed_operationRow :: "(int \<Rightarrow> string) \<Rightarrow> ElementOperation \<Rightarrow> ui list" where
  "ed_operationRow formatDateTime operation =
     [UText (formatTimestamp formatDateTime (eo_operatedAt operation)), UText (getOperationLabel (eo_op operation)),
      UText (opt_str_or (eo_operator operation) ''-''), UText (formatVersionChange operation)]"

definition ed_operationsPanel :: "Translator \<Rightarrow> (int \<Rightarrow> string) \<Rightarrow> (int \<Rightarrow> string) \<Rightarrow> DetailState \<Rightarrow> ui list" where
  "ed_operationsPanel t formatDateTime formatNumber s =
     (case ed_retention s of
        Some p \<Rightarrow> if rp_enabled p \<and> rp_operationPolicy p \<noteq> []
          then [UText (t ''elements.operationRetention'' [(''days'', PStr (formatNumber (rp_keepOperationDays p)))])] else []
      | None \<Rightarrow> []) @
     (if ed_operations s = [] then EmptyState (t ''elements.noOperations'' []) (Some (t ''elements.noOperationsDescription'' []))
      else [UTable (map (\<lambda>k. t k []) [''elements.time'', ''elements.operation'', ''elements.operator'', ''elements.versionChange''])
              (map (ed_operationRow formatDateTime) (ed_operations s))])"

definition ed_instancesPanel :: "Translator \<Rightarrow> DetailState \<Rightarrow> ui list" where
  "ed_instancesPanel t s =
     [UText (t ''elements.instancesDescription'' []),
      ULink (t ''elements.viewInstances'' []) (''/cluster/instances'' @ buildQuery
        [(''app'', qstr (lc_appId (ed_loc s))), (''env'', qstr (lc_env (ed_loc s))), (''key'', qstr (lc_key (ed_loc s)))])]"

definition ed_panel :: "Translator \<Rightarrow> (int \<Rightarrow> string) \<Rightarrow> (int \<Rightarrow> string) \<Rightarrow> DetailState \<Rightarrow> ui list" where
  "ed_panel t formatDateTime formatNumber s =
     (if ed_tab s = 0 then ed_versionsPanel t formatNumber s
      else if ed_tab s = 1 then ed_diffPanel t s
      else if ed_tab s = 2 then ed_operationsPanel t formatDateTime formatNumber s
      else if ed_tab s = 3 then ed_instancesPanel t s else [])"

definition ed_viewer :: "editor_view \<Rightarrow> ui" where
  "ed_viewer v = UInput (vw_ariaLabel v) (vw_value v) (\<not> vw_editable v) (opt_or (vw_error v) [])"

definition ed_body :: "Translator \<Rightarrow> (int \<Rightarrow> string) \<Rightarrow> (int \<Rightarrow> string) \<Rightarrow> AppSettings \<Rightarrow> DetailState \<Rightarrow> ui list" where
  "ed_body t formatDateTime formatNumber settings s =
     (if ed_loading s then LoadingState t (Some (t ''elements.loadingDetail'' []))
      else if ed_element s = None then EmptyState (t ''elements.notFound'' []) (Some (t ''elements.notFoundDescription'' []))
      else
        [UHeading (t ''elements.content'' []),
         UChips [t ''elements.readOnlyType'' [(''type'', PStr (getContentTypeLabel (ed_contentType s)))]],
         ed_viewer (ContentViewer t (ed_raw s) (ed_contentType s) (Some (t ''elements.currentContent'' []))
           (as_codeTheme settings) (as_editorLineWrapping settings) False),
         ULabelled (t ''elements.detailTabs'' [])
           (map (\<lambda>k. UButton (t k []) False) [''elements.versions'', ''elements.diff'', ''elements.operations'', ''elements.instances''])] @
        ed_panel t formatDateTime formatNumber s)"

definition ed_editor :: "Translator \<Rightarrow> AppSettings \<Rightarrow> DetailState \<Rightarrow> ContentEditorProps" where
  "ed_editor t settings s = \<lparr>ce_value = ed_editRaw s, ce_contentType = ed_contentType s,
     ce_ariaLabel = Some (t ''elements.newVersionContent'' []), ce_codeTheme = as_codeTheme settings, ce_disabled = ed_saving s,
     ce_lineWrapping = as_editorLineWrapping settings, ce_showContentType = True, ce_validation = Some (ed_editValidation s)\<rparr>"

definition ed_dialogs :: "Translator \<Rightarrow> AppSettings \<Rightarrow> DetailState \<Rightarrow> ui list" where
  "ed_dialogs t settings s =
     (if ed_newVersionOpen s then
        [UDialog (t ''elements.newVersion'' [])
          [ed_viewer (ContentEditor t (ed_editor t settings s)),
           UButton (t ''elements.cancel'' []) (ed_saving s),
           UButton (t ''elements.publishDirectly'' []) (ed_saveDisabled s),
           UButton (t ''elements.submit'' []) (ed_saveDisabled s)]] else []) @
     DangerConfirmDialog t (ed_publishConfirmOpen s) (t ''elements.publishDirectly'' [])
       [UText (t ''elements.publishDirectDescription'' [])] (t ''elements.publishDirectly'' []) (ed_saving s) @
     (case ed_preview s of
        Some version \<Rightarrow>
          [UDialog (t ''elements.previewTitle'' [(''version'', PStr (version_label version))])
            [ed_viewer (ContentViewer t (decodeRaw (el_raw version)) (em_contentType (el_metadata version))
               (Some (t ''elements.previewContent'' [])) (as_codeTheme settings) (as_editorLineWrapping settings) False),
             UButton (t ''elements.close'' []) False]]
      | None \<Rightarrow> [])"

definition ElementDetailPage_view ::
  "Translator \<Rightarrow> (int \<Rightarrow> string) \<Rightarrow> (int \<Rightarrow> string) \<Rightarrow> AppSettings \<Rightarrow> string \<Rightarrow> DetailState \<Rightarrow> ui list" where
  "ElementDetailPage_view t formatDateTime formatNumber settings pathname s =
     (let appId = lc_appId (ed_loc s); env = lc_env (ed_loc s); key = lc_key (ed_loc s);
          envs = ''/apps/'' @ encodeURIComponent appId @ ''/envs''; elements = envs @ ''/'' @ encodeURIComponent env @ ''/elements'';
          detail = buildDetailPath appId env key
      in [AppBreadcrumbs t pathname
            [\<lparr>bi_label = t ''elements.apps'' [], bi_to = Some ''/apps''\<rparr>,
             \<lparr>bi_label = str_or appId (t ''elements.unknown'' []), bi_to = Some envs\<rparr>,
             \<lparr>bi_label = str_or env (t ''elements.unknown'' []), bi_to = Some elements\<rparr>,
             \<lparr>bi_label = str_or key (t ''elements.unknown'' []), bi_to = Some detail\<rparr>,
             \<lparr>bi_label = t ''elements.detail'' [], bi_to = None\<rparr>],
          UHeading (t ''elements.detailTitle'' []),
          UChips [t ''elements.latestVersion'' [(''version'', PStr (formatVersionLabel (ed_latest s)))],
            t ''elements.currentVersion'' [(''version'', PStr (formatVersionLabel (ed_using s)))],
            t ''elements.draftVersion'' [(''version'', PStr (formatVersionLabel (ed_unpublished s)))],
            t ''elements.typeLabel'' [(''type'', PStr (getContentTypeLabel (ed_contentType s)))]],
          UButton (t ''elements.newVersion'' []) False,
          ULink (t ''elements.publish'' []) (detail @ ''/publish''),
          ULink (t ''elements.rollback'' []) (detail @ ''/rollback'')] @
         (if ef_message (ed_error s) \<noteq> [] then [UError (ef_message (ed_error s))] else []) @
         ed_body t formatDateTime formatNumber settings s @ ed_dialogs t settings s)"

subsection \<open>The invariant\<close>

interpretation detail_loads: latest_loader ed_requestSeq ed_loads ed_started dl_requestId dl_loc ed_start ed_settle
  by unfold_locales (simp_all add: ed_start_def ed_settle_def)

definition ed_pending :: "DetailState \<Rightarrow> nat" where
  "ed_pending s = length (ed_mutations s) + count_if dl_awaited (ed_loads s)"

definition ed_core :: "DetailState \<Rightarrow> bool" where
  "ed_core s \<longleftrightarrow> detail_loads.latest s \<and> ed_pending s \<le> 1 \<and> (0 < ed_pending s \<longrightarrow> ed_saving s)"

definition ed_synced :: "DetailState \<Rightarrow> bool" where
  "ed_synced s \<longleftrightarrow> (ed_mounted s \<longrightarrow> ed_lastLoadKey s = detail_loadKey (ed_loc s) \<and> ed_locRef s = ed_loc s)"

definition ed_track :: "DetailState \<Rightarrow> bool" where
  \<comment> \<open>the load queued or started last is the one \<open>lastLoadKeyRef\<close> names\<close>
  "ed_track s \<longleftrightarrow> (ed_lastLoadKey s \<noteq> [] \<longrightarrow>
     ed_lastLoadKey s = detail_loadKey (if ed_microtasks s = [] then ed_started s else last (ed_microtasks s)))"

definition ed_mid :: "DetailState \<Rightarrow> bool" where
  \<comment> \<open>what holds between a handler and the effects after the rendering\<close>
  "ed_mid s \<longleftrightarrow> ed_core s \<and> ed_track s"

definition ed_inv :: "DetailState \<Rightarrow> bool" where
  "ed_inv s \<longleftrightarrow> ed_mid s \<and> ed_synced s"

text \<open>The fields the invariant is about; most handlers leave all of them alone.\<close>

definition ed_frame :: "DetailState \<Rightarrow>
  DetailLoad list \<times> nat \<times> ElementLocation \<times> DetailMutation list \<times> bool \<times> string \<times> ElementLocation list" where
  "ed_frame s = (ed_loads s, ed_requestSeq s, ed_started s, ed_mutations s, ed_saving s, ed_lastLoadKey s, ed_microtasks s)"

lemma detail_loadKey_inject [simp]: "detail_loadKey a = detail_loadKey b \<longleftrightarrow> a = b"
proof
  let ?j = "\<lambda>a. JObj [(''appId'', JStr (lc_appId a)), (''env'', JStr (lc_env a)), (''key'', JStr (lc_key a))]"
  assume eq: "detail_loadKey a = detail_loadKey b"
  have "json_wf (?j x)" for x by simp
  then have "Some (?j a) = Some (?j b)"
    using eq unfolding detail_loadKey_def by (metis json_parse_stringify)
  then show "a = b" by simp
qed simp

lemma detail_loadKey_nonempty [simp]: "detail_loadKey a \<noteq> []"
  by (simp add: detail_loadKey_def)

lemma ed_track_cong:
  "ed_track s \<Longrightarrow> ed_lastLoadKey s' = ed_lastLoadKey s \<Longrightarrow> ed_microtasks s' = ed_microtasks s \<Longrightarrow> ed_started s' = ed_started s \<Longrightarrow>
    ed_track s'"
  by (simp only: ed_track_def)

lemma ed_core_cong:
  "ed_core s \<Longrightarrow> ed_loads s' = ed_loads s \<Longrightarrow> ed_requestSeq s' = ed_requestSeq s \<Longrightarrow> ed_started s' = ed_started s \<Longrightarrow>
    ed_mutations s' = ed_mutations s \<Longrightarrow> ed_saving s' = ed_saving s \<Longrightarrow> ed_core s'"
  using detail_loads.latest_cong [of s s'] by (simp add: ed_core_def ed_pending_def)

lemma ed_mid_cong: "ed_frame s' = ed_frame s \<Longrightarrow> ed_mid s \<Longrightarrow> ed_mid s'"
  using ed_track_cong [of s s'] ed_core_cong [of s s'] by (simp add: ed_frame_def ed_mid_def)

lemma ed_mid_load:
  assumes "ed_core s" and "awaited \<longrightarrow> ed_saving s \<and> ed_pending s = 0"
    and "ed_lastLoadKey s \<noteq> [] \<Longrightarrow> ed_lastLoadKey s = detail_loadKey (if ed_microtasks s = [] then loc else last (ed_microtasks s))"
  shows "ed_mid (fst (loadPage t loc awaited s))"
proof -
  have "ed_track (fst (loadPage t loc awaited s))"
    using assms(3) by (auto simp: ed_track_def loadPage_def ed_start_def ed_missing_def Let_def split: if_splits)
  moreover have "ed_core (fst (loadPage t loc awaited s))"
  proof (cases "lc_missing loc")
    case True
    have "detail_loads.latest (fst (loadPage t loc awaited s))"
      by (rule detail_loads.latest_skip [of s])
        (use assms(1) True in \<open>simp_all add: loadPage_def ed_missing_def Let_def ed_core_def\<close>)
    with assms(1) True show ?thesis by (simp add: ed_core_def loadPage_def ed_missing_def Let_def ed_pending_def)
  next
    case False
    have "detail_loads.latest (ed_start \<lparr>dl_requestId = Suc (ed_requestSeq s), dl_loc = loc, dl_awaited = awaited\<rparr> s)"
      by (rule detail_loads.latest_start) (use assms(1) in \<open>simp_all add: ed_core_def\<close>)
    with assms(1,2) False show ?thesis by (auto simp: ed_core_def ed_pending_def loadPage_def ed_start_def Let_def)
  qed
  ultimately show ?thesis by (simp add: ed_mid_def)
qed

lemma ed_mid_idle: "ed_mid s \<Longrightarrow> \<not> ed_saving s \<Longrightarrow> ed_pending s = 0 \<and> ed_mutations s = []"
  by (auto simp: ed_mid_def ed_core_def ed_pending_def)

lemma ed_mid_await:
  \<comment> \<open>a handler starts its request, or goes on with the next\<close>
  assumes "ed_mid s" and "ed_pending s = 0" and "ed_frame s' = ed_frame (s\<lparr>ed_saving := True, ed_mutations := ed_mutations s @ [m]\<rparr>)"
  shows "ed_mid s'"
proof -
  let ?s = "s\<lparr>ed_saving := True, ed_mutations := ed_mutations s @ [m]\<rparr>"
  have "ed_mid ?s"
    using assms detail_loads.latest_cong [of s ?s] ed_track_cong [of s ?s]
    by (simp add: ed_mid_def ed_core_def ed_pending_def)
  then show ?thesis using assms(3) ed_mid_cong by blast
qed

lemma ed_mid_drop:
  assumes "ed_mid s" and "i < length (ed_mutations s)"
  shows "ed_mid (ed_drop i s)" and "ed_pending (ed_drop i s) = 0" and "ed_saving s" and "ed_mutations (ed_drop i s) = []"
proof -
  have none: "remove_at i (ed_mutations s) = []" "count_if dl_awaited (ed_loads s) = 0" "0 < ed_pending s"
    using settle_mutation [OF assms(2), of "count_if dl_awaited (ed_loads s)"] assms
    by (auto simp: ed_mid_def ed_core_def ed_pending_def)
  then show "ed_pending (ed_drop i s) = 0" "ed_saving s" "ed_mutations (ed_drop i s) = []"
    using assms(1) by (simp_all add: ed_pending_def ed_drop_def ed_mid_def ed_core_def)
  have "detail_loads.latest (ed_drop i s)"
    by (rule detail_loads.latest_cong [of s]) (use assms in \<open>simp_all add: ed_mid_def ed_core_def ed_drop_def\<close>)
  with none assms(1) ed_track_cong [of s "ed_drop i s"] show "ed_mid (ed_drop i s)"
    by (simp add: ed_mid_def ed_core_def ed_pending_def ed_drop_def)
qed

lemma ed_mid_finally: "ed_mid s \<Longrightarrow> ed_pending s = 0 \<Longrightarrow> ed_mid (ed_finally s)"
  using detail_loads.latest_cong [of s "s\<lparr>ed_saving := False\<rparr>"] ed_track_cong [of s "s\<lparr>ed_saving := False\<rparr>"]
  by (simp add: ed_finally_def ed_mid_def ed_core_def ed_pending_def)

lemma ed_mid_failed: "ed_mid s \<Longrightarrow> ed_pending s = 0 \<Longrightarrow> ed_mid (ed_failed t loc fb err s)"
  using ed_mid_cong [of "s\<lparr>ed_error := x\<rparr>" s for x]
  by (auto simp: ed_failed_def ed_frame_def ed_pending_def intro!: ed_mid_finally)

lemma ed_apply_frame: "ed_frame (fst (ed_apply t l out s)) = ed_frame s"
  by (auto simp: ed_apply_def ed_frame_def ed_show_def ed_fail_load_def Let_def split: sum.split)

lemma ed_loaded_mid:
  assumes "ed_mid s"
  shows "ed_mid (fst (ed_loaded t i out s))"
proof (cases "i < length (ed_loads s)")
  case True
  let ?s = "fst (ed_apply t (ed_loads s ! i) out (ed_settle i s))"
  have "ed_mid (ed_settle i s)"
    using assms detail_loads.latest_settle [of s i] count_remove_at_le [of dl_awaited i "ed_loads s"]
      ed_track_cong [of s "ed_settle i s"]
    by (auto simp: ed_mid_def ed_core_def ed_pending_def ed_settle_def)
  then have applied: "ed_mid ?s"
    by (rule ed_mid_cong [OF ed_apply_frame])
  have "ed_loads ?s = ed_loads (ed_settle i s)" "ed_mutations ?s = ed_mutations s"
    using ed_apply_frame [of t "ed_loads s ! i" out "ed_settle i s"] by (simp_all add: ed_frame_def ed_settle_def)
  then have "ed_pending ?s = 0" if "dl_awaited (ed_loads s ! i)"
    using settle_awaited [OF True, of dl_awaited, OF that, of "length (ed_mutations s)"] assms
    by (simp add: ed_mid_def ed_core_def ed_pending_def ed_settle_def)
  with applied True show ?thesis by (simp add: ed_loaded_def Let_def ed_mid_finally case_prod_unfold)
qed (simp add: ed_loaded_def assms)

lemma ed_reload_mid:
  \<comment> \<open>the load after a modification whose result may be applied\<close>
  assumes "ed_inv s" and "ed_frame s' = ed_frame (ed_drop i s)" and "i < length (ed_mutations s)"
    and "canApplyMutationResult loc s"
  shows "ed_mid (fst (loadPage t loc True s'))"
proof (rule ed_mid_load)
  note drop = ed_mid_drop [of s i] and inv = assms(1) [unfolded ed_inv_def]
  have mid: "ed_mid s'" using ed_mid_cong [OF assms(2)] drop inv assms(3) by simp
  then show "ed_core s'" by (simp add: ed_mid_def)
  show "True \<longrightarrow> ed_saving s' \<and> ed_pending s' = 0"
    using assms(2) drop inv assms(3) by (simp add: ed_frame_def ed_pending_def ed_drop_def)
  show "ed_lastLoadKey s' = detail_loadKey (if ed_microtasks s' = [] then loc else last (ed_microtasks s'))" if "ed_lastLoadKey s' \<noteq> []"
    using assms(2,4) inv mid that
    by (auto simp: ed_frame_def ed_drop_def canApplyMutationResult_def ed_synced_def ed_mid_def ed_track_def)
qed

lemma ed_saved_mid:
  assumes "ed_inv s" and "i < length (ed_mutations s)" and "canApplyMutationResult (dm_loc m) s"
  shows "ed_mid (fst (ed_saved t m (ed_drop i s)))"
proof -
  note drop = ed_mid_drop [OF _ assms(2)] and inv = assms(1) [unfolded ed_inv_def]
  note reload = ed_reload_mid [OF assms(1) _ assms(2,3)]
  have "ed_mid (ed_await stage (dm_loc m) (ed_drop i s))" for stage
    by (rule ed_mid_await [OF drop(1,2)]) (use inv drop(3) in \<open>simp_all add: ed_frame_def ed_await_def ed_drop_def\<close>)
  with reload drop inv show ?thesis
    by (cases "dm_stage m") (simp_all add: ed_saved_def case_prod_unfold Let_def ed_frame_def ed_closeEditor_def)
qed

lemma ed_mutated_mid:
  assumes "ed_inv s"
  shows "ed_mid (fst (ed_mutated t i out s))"
proof (cases "i < length (ed_mutations s)")
  case True
  note mid = assms [unfolded ed_inv_def, THEN conjunct1]
  note drop = ed_mid_drop [OF mid True]
  show ?thesis
    using mid drop(1,2) ed_saved_mid [OF assms True]
    by (cases out) (simp_all add: ed_mutated_def Let_def ed_mid_finally ed_mid_failed canApplyMutationResult_def ed_drop_def)
qed (use assms in \<open>simp add: ed_mutated_def ed_inv_def\<close>)

lemma ed_fetched_mid:
  assumes "ed_mid s"
  shows "ed_mid (fst (ed_fetched t i out s))"
proof (cases "i < length (ed_mutations s)")
  case True
  note drop = ed_mid_drop [OF assms True]
  have "ed_mid (ed_await stage loc (ed_drop i s))" for stage loc
    by (rule ed_mid_await [OF drop(1,2)]) (use drop(3) in \<open>simp_all add: ed_frame_def ed_await_def ed_drop_def\<close>)
  with assms drop(1,2) show ?thesis
    by (simp add: ed_fetched_def Let_def ed_mid_finally ed_mid_failed split: DetailStage.split sum.split option.split)
qed (simp add: ed_fetched_def assms)

lemma ed_microtask_mid:
  assumes "ed_mid s"
  shows "ed_mid (fst (ed_microtask t s))"
proof (cases "ed_microtasks s")
  case (Cons loc rest)
  let ?s = "s\<lparr>ed_microtasks := rest\<rparr>"
  have "ed_mid (fst (loadPage t loc False ?s))"
  proof (rule ed_mid_load)
    show "ed_core ?s" by (rule ed_core_cong [of s]) (use assms in \<open>simp_all add: ed_mid_def\<close>)
  qed (use assms Cons in \<open>auto simp: ed_mid_def ed_track_def split: if_splits\<close>)
  with Cons show ?thesis by (simp add: ed_microtask_def)
qed (simp add: ed_microtask_def assms)

lemma ed_save_mid:
  assumes "ed_mid s" and "\<not> ed_saving s"
  shows "ed_mid (fst (ed_save eng t stage s))"
proof -
  have "ed_pending s = 0" using ed_mid_idle [OF assms] by simp
  then have "ed_mid (s\<lparr>ed_editValidation := v, ed_saving := True, ed_error := x, ed_mutations := ed_mutations s @ [m]\<rparr>)" for v x m
    by (rule ed_mid_await [OF assms(1), of _ m]) (simp add: ed_frame_def)
  moreover have "ed_mid (s\<lparr>ed_editValidation := v\<rparr>)" for v
    by (rule ed_mid_cong [OF _ assms(1)]) (simp add: ed_frame_def)
  ultimately show ?thesis using assms(1) by (simp add: ed_save_def Let_def)
qed

lemma ed_page_frame: "ed_frame (ed_page eng t s e) = ed_frame s"
  by (cases e) (auto simp: ed_page_def ed_frame_def handleOpenNewVersion_def handleLoadDiff_def Let_def split: option.split)

lemma ed_dialog_mid:
  assumes "ed_mid s"
  shows "ed_mid (fst (ed_dialog eng t s e))"
proof -
  have "ed_mid (fst (handlePublishDirectly eng t s))" "ed_mid (fst (handleSubmitNewVersion eng t s))" if "\<not> ed_saving s"
    using ed_save_mid [OF assms that] by (simp_all add: handlePublishDirectly_def handleSubmitNewVersion_def)
  moreover have "ed_mid s'" if "ed_frame s' = ed_frame s" for s' using ed_mid_cong [OF that assms] .
  ultimately show ?thesis
    using assms by (cases e) (simp_all add: ed_dialog_def ed_saveDisabled_def closeNewVersionDialog_def ed_frame_def)
qed

lemma ed_handle_mid:
  assumes "ed_inv s"
  shows "ed_mid (fst (ed_handle eng t s e))"
proof -
  have mid: "ed_mid s" using assms by (simp add: ed_inv_def)
  have same: "ed_mid s'" if "ed_frame s' = ed_frame s" for s' using ed_mid_cong [OF that mid] .
  show ?thesis
    using mid same [OF ed_page_frame] ed_loaded_mid [OF mid] ed_mutated_mid [OF assms] ed_fetched_mid [OF mid]
      ed_microtask_mid [OF mid] ed_dialog_mid [OF mid] same [of "ed_timerFired eng t s"]
    by (cases e) (simp_all add: ed_handle_def ed_policyLoaded_def ed_timerFired_def Let_def same ed_frame_def)
qed

lemma ed_commit_inv:
  assumes "ed_mid s"
  shows "ed_inv (ed_commit s0 s)"
proof -
  have "ed_core (ed_commit s0 s)"
    by (rule ed_core_cong [of s]) (use assms in \<open>simp_all add: ed_mid_def ed_commit_def Let_def\<close>)
  moreover have "ed_synced (ed_commit s0 s)"
    by (simp add: ed_synced_def ed_commit_def Let_def)
  moreover have "ed_track (ed_commit s0 s)"
    using assms by (cases "ed_lastLoadKey s = []") (auto simp: ed_mid_def ed_track_def ed_commit_def Let_def)
  ultimately show ?thesis by (simp add: ed_inv_def ed_mid_def)
qed

lemma detail_step_inv:
  assumes "ed_inv s"
  shows "ed_inv (fst (detail_step eng t s e))"
  using ed_handle_mid [OF assms, of eng t e] ed_commit_inv
  by (simp add: detail_step_def Let_def case_prod_unfold ed_inv_def ed_synced_def)

lemma initDetail_inv: "ed_inv (initDetail loc)"
  by (simp add: ed_inv_def ed_mid_def ed_core_def ed_synced_def ed_track_def ed_pending_def initDetail_def detail_loads.latest_empty)

subsection \<open>Effects\<close>

definition ed_reads :: "effect \<Rightarrow> bool" where
  "ed_reads x \<longleftrightarrow> (\<exists>path. x = Request path noInit) \<or> (\<exists>m sev. x = ShowToast m sev)"

definition ed_saves :: "content_engine \<Rightarrow> Translator \<Rightarrow> DetailState \<Rightarrow> DetailEvent \<Rightarrow> effect \<Rightarrow> bool" where
  "ed_saves eng t s e x \<longleftrightarrow> x = putVersion (ed_loc s) (ed_editRaw s) \<and> ed_pending s = 0 \<and> \<not> lc_missing (ed_loc s) \<and>
     vr_valid (ed_validate eng t (ed_editRaw s) s) \<and>
     (e = DtSubmit \<and> ed_newVersionOpen s \<or> e = DtPublish \<and> ed_publishConfirmOpen s)"

definition ed_publishes :: "DetailState \<Rightarrow> DetailEvent \<Rightarrow> effect \<Rightarrow> bool" where
  "ed_publishes s e x \<longleftrightarrow> (\<exists>i previous d version. e = DtFetched i (Inr (Some d)) \<and>
     i < length (ed_mutations s) \<and> ed_mutations s ! i = \<lparr>dm_stage = FetchDraft previous, dm_loc = ed_loc s\<rparr> \<and>
     publishable_version previous d = Some version \<and> x = publishVersion (ed_loc s) version)"

definition ed_permits :: "content_engine \<Rightarrow> Translator \<Rightarrow> DetailState \<Rightarrow> DetailEvent \<Rightarrow> effect \<Rightarrow> bool" where
  "ed_permits eng t s e x \<longleftrightarrow> ed_reads x \<or> ed_mounted s \<and> (ed_saves eng t s e x \<or> ed_publishes s e x)"

lemma loadPage_reads: "x \<in> set (snd (loadPage t loc aw s)) \<Longrightarrow> ed_reads x"
  by (auto simp: loadPage_def Let_def ed_reads_def requestElement_def requestVersions_def requestOperations_def split: if_splits)

lemma ed_saved_reads: "x \<in> set (snd (ed_saved t m s)) \<Longrightarrow> ed_reads x"
  by (cases "dm_stage m")
    (auto simp: ed_saved_def case_prod_unfold Let_def requestElement_def ed_reads_def [of "Request p noInit" for p]
      ed_reads_def [of "ShowToast m sev" for m sev] dest: loadPage_reads)

lemma ed_fetched_permits:
  assumes "ed_inv s" and "x \<in> set (snd (ed_fetched t i out s))"
  shows "ed_mounted s \<and> ed_publishes s (DtFetched i out) x"
proof -
  from assms(2) have i: "i < length (ed_mutations s)" by (auto simp: ed_fetched_def split: if_splits)
  then obtain previous where stage: "dm_stage (ed_mutations s ! i) = FetchDraft previous"
    using assms(2) by (cases "dm_stage (ed_mutations s ! i)") (simp_all add: ed_fetched_def)
  let ?loc = "dm_loc (ed_mutations s ! i)"
  from assms(2) i stage have can: "canApplyMutationResult ?loc (ed_drop i s)"
    by (auto simp: ed_fetched_def Let_def split: if_splits)
  from assms(2) i stage can obtain d version where
    d: "deref out = Inr d" "publishable_version previous d = Some version" "x = publishVersion ?loc version"
    by (auto simp: ed_fetched_def Let_def split: sum.splits option.splits)
  from d(1) have "out = Inr (Some d)" by (auto simp: deref_def split: sum.splits option.splits)
  moreover have "ed_mounted s" "?loc = ed_loc s"
    using can assms(1) by (simp_all add: canApplyMutationResult_def ed_drop_def ed_inv_def ed_synced_def)
  moreover from stage have "ed_mutations s ! i = \<lparr>dm_stage = FetchDraft previous, dm_loc = ?loc\<rparr>" by simp
  ultimately show ?thesis using i d unfolding ed_publishes_def by auto
qed

lemma ed_dialog_permits:
  assumes "ed_mid s" and "x \<in> set (snd (ed_dialog eng t s e))"
  shows "ed_saves eng t s e x"
proof -
  have "ed_pending s = 0" if "\<not> ed_saving s" using ed_mid_idle [OF assms(1) that] by simp
  with assms(2) show ?thesis
    by (cases e) (auto simp: ed_dialog_def ed_saves_def handleSubmitNewVersion_def handlePublishDirectly_def ed_save_def
        ed_saveDisabled_def Let_def split: if_splits)
qed

lemma detail_step_permits:
  assumes "ed_inv s" and "x \<in> set (snd (detail_step eng t s e))"
  shows "ed_permits eng t s e x"
proof -
  have mid: "ed_mid s" using assms(1) by (simp add: ed_inv_def)
  have "x \<in> set (snd (ed_loaded t i out s)) \<Longrightarrow> ed_reads x" for i out
    by (auto simp: ed_loaded_def ed_apply_def Let_def case_prod_unfold requestRetentionPolicy_def ed_reads_def split: if_splits sum.splits)
  moreover have "x \<in> set (snd (ed_mutated t i out s)) \<Longrightarrow> ed_reads x" for i out
    by (auto simp: ed_mutated_def Let_def dest: ed_saved_reads split: if_splits sum.splits)
  moreover have "x \<in> set (snd (ed_microtask t s)) \<Longrightarrow> ed_reads x"
    by (auto simp: ed_microtask_def dest: loadPage_reads split: list.splits)
  ultimately show ?thesis
    using assms ed_fetched_permits [OF assms(1)] ed_dialog_permits [OF mid, of x eng t e]
    by (cases e) (auto simp: detail_step_def Let_def case_prod_unfold ed_handle_def ed_permits_def split: if_splits)
qed

interpretation detail_page: guarded_component "detail_step eng t" "\<lambda>s. \<exists>loc. s = initDetail loc"
  ed_inv "\<lambda>s x. \<exists>e. ed_permits eng t s e x" for eng t
proof
  show "ed_inv s" if "\<exists>loc. s = initDetail loc" for s using that initDetail_inv by auto
  show "\<exists>e. ed_permits eng t s e x" if "ed_inv s" "x \<in> set (snd (detail_step eng t s e))" for s e x
    using detail_step_permits [OF that] by blast
qed (simp add: detail_step_inv)

subsection \<open>Properties\<close>

lemma ed_current:
  assumes "ed_inv s" and "ed_mounted s" and "ed_microtasks s = []"
  shows "ed_started s = ed_loc s"
proof -
  have key: "ed_lastLoadKey s = detail_loadKey (ed_loc s)"
    using assms(1,2) by (simp add: ed_inv_def ed_synced_def)
  then have "ed_lastLoadKey s \<noteq> []" by simp
  then have "ed_lastLoadKey s = detail_loadKey (ed_started s)"
    using assms(1,3) unfolding ed_inv_def ed_mid_def ed_track_def by auto
  with key show ?thesis by (simp only: detail_loadKey_inject)
qed

lemma publishable_version_cases:
  "publishable_version previous d = Some version \<Longrightarrow>
     num_truthy (em_unpublishedVersion (el_metadata d)) \<and> em_unpublishedVersion (el_metadata d) = Some version \<or>
     \<not> num_truthy (em_unpublishedVersion (el_metadata d)) \<and> em_latestVersion (el_metadata d) = Some version \<and> num_gt version previous"
  by (cases "em_unpublishedVersion (el_metadata d)"; cases "em_latestVersion (el_metadata d)")
    (auto simp: publishable_version_def Let_def num_or_zero_def num_truthy_def split: if_splits js_number.splits)


lemma ed_commit_data [simp]:
  "ed_element (ed_commit s0 s) = ed_element s" "ed_versions (ed_commit s0 s) = ed_versions s"
  "ed_operations (ed_commit s0 s) = ed_operations s" "ed_diffPair (ed_commit s0 s) = ed_diffPair s"
  by (simp_all add: ed_commit_def Let_def)

text \<open>C11: Whatever the route does while requests are in flight, once the queued loads have started a
  response changes the element, its versions or its operations only if it answers the load for
  the element of the route.\<close>

theorem detail_response_current:
  assumes "s = after (detail_step eng t) (initDetail loc) es"
    and "ed_microtasks s = []" and "i < length (ed_loads s)"
    and "s' = fst (detail_step eng t s (DtLoaded i out))"
    and "(ed_element s', ed_versions s', ed_operations s') \<noteq> (ed_element s, ed_versions s, ed_operations s)"
  shows "dl_loc (ed_loads s ! i) = ed_loc s"
proof -
  have inv: "ed_inv s" unfolding assms(1) by (rule detail_page.inv_reachable) blast
  let ?s = "fst (ed_apply t (ed_loads s ! i) out (ed_settle i s))"
  have "(ed_element ?s, ed_versions ?s, ed_operations ?s) \<noteq> (ed_element s, ed_versions s, ed_operations s)"
    using assms(3,5) unfolding assms(4)
    by (auto simp: detail_step_def ed_handle_def ed_loaded_def Let_def case_prod_unfold ed_finally_def split: if_splits)
  then have "ed_mounted s" and now: "dl_requestId (ed_loads s ! i) = ed_requestSeq s"
    by (auto simp: ed_apply_def ed_settle_def split: if_splits)
  with ed_current [OF inv _ assms(2)] detail_loads.latest_applied [of s i] inv assms(3) show ?thesis
    by (simp add: ed_inv_def ed_mid_def ed_core_def)
qed

subsection \<open>Publishing directly\<close>

lemma ed_commit_quiet:
  assumes "ed_locRef s = ed_loc s" and "ed_lastLoadKey s = detail_loadKey (ed_loc s)"
  shows "\<exists>b. ed_commit s0 s = s\<lparr>ed_timer := b\<rparr>"
proof -
  have same: "s\<lparr>ed_locRef := ed_loc s\<rparr> = s" "s\<lparr>ed_timer := ed_timer s\<rparr> = s" using assms(1) by (cases s, simp)+
  have "ed_commit s0 s = (if ed_newVersionOpen s0 \<noteq> ed_newVersionOpen s \<or> ed_contentType s0 \<noteq> ed_contentType s \<or> ed_editRaw s0 \<noteq> ed_editRaw s
      then s\<lparr>ed_timer := ed_newVersionOpen s\<rparr> else s)"
    unfolding ed_commit_def Let_def same(1) using assms(2) by simp
  then show ?thesis using same(2) by metis
qed

lemma detail_step_quiet:
  \<comment> \<open>a step that leaves the route alone changes at most the timer after its handler\<close>
  assumes "ed_handle eng t s e = (s', efs)" and "ed_mounted s'" "ed_locRef s' = ed_loc s'" "ed_lastLoadKey s' = detail_loadKey (ed_loc s')"
  obtains b where "detail_step eng t s e = (s'\<lparr>ed_timer := b\<rparr>, efs)"
  using ed_commit_quiet [OF assms(3,4), of s] assms(1,2) by (auto simp: detail_step_def)

lemma detail_publish_saved:
  \<comment> \<open>up to the request that publishes\<close>
  assumes inv: "ed_inv s" and s: "ed_mounted s" "ed_publishConfirmOpen s" "\<not> ed_saving s" "\<not> lc_missing (ed_loc s)"
    and valid: "vr_valid (ed_validate eng t (ed_editRaw s) s)"
    and v: "publishable_version (num_or_zero (ed_latest s)) d = Some version"
  obtains b where "run (detail_step eng t) s [DtPublish, DtMutated 0 (Inr ()), DtFetched 0 (Inr (Some d))] =
    (s\<lparr>ed_editValidation := ed_validate eng t (ed_editRaw s) s, ed_saving := True, ed_error := reportError [] (ed_error s),
       ed_mutations := [\<lparr>dm_stage = PublishDraft version, dm_loc = ed_loc s\<rparr>], ed_timer := b\<rparr>,
     [putVersion (ed_loc s) (ed_editRaw s), requestElement (ed_loc s), publishVersion (ed_loc s) version])"
proof -
  have refs: "ed_lastLoadKey s = detail_loadKey (ed_loc s)" "ed_locRef s = ed_loc s"
    using inv s(1) by (simp_all add: ed_inv_def ed_synced_def)
  have idle: "ed_mutations s = []" using ed_mid_idle [of s] inv s(3) by (simp add: ed_inv_def)
  let ?s = "\<lambda>stage. s\<lparr>ed_editValidation := ed_validate eng t (ed_editRaw s) s, ed_saving := True, ed_error := reportError [] (ed_error s),
     ed_mutations := [\<lparr>dm_stage = stage, dm_loc = ed_loc s\<rparr>]\<rparr>"
  let ?p = "num_or_zero (ed_latest s)"
  obtain b1 where 1: "detail_step eng t s DtPublish = (?s (SaveDraft ?p)\<lparr>ed_timer := b1\<rparr>, [putVersion (ed_loc s) (ed_editRaw s)])"
    by (rule detail_step_quiet [of eng t s DtPublish "?s (SaveDraft ?p)"])
      (use s valid refs idle in \<open>simp_all add: ed_handle_def ed_modal_def ed_dialog_def handlePublishDirectly_def ed_save_def Let_def\<close>)
  obtain b2 where 2: "detail_step eng t (?s (SaveDraft ?p)\<lparr>ed_timer := b1\<rparr>) (DtMutated 0 (Inr ())) =
      (?s (FetchDraft ?p)\<lparr>ed_timer := b2\<rparr>, [requestElement (ed_loc s)])"
    by (rule detail_step_quiet [of eng t "?s (SaveDraft ?p)\<lparr>ed_timer := b1\<rparr>" "DtMutated 0 (Inr ())" "?s (FetchDraft ?p)\<lparr>ed_timer := b1\<rparr>"])
      (use s refs in \<open>simp_all add: ed_handle_def ed_mutated_def is_fetch_def ed_drop_def ed_saved_def ed_await_def remove_at_def
          canApplyMutationResult_def Let_def\<close>)
  obtain b3 where 3: "detail_step eng t (?s (FetchDraft ?p)\<lparr>ed_timer := b2\<rparr>) (DtFetched 0 (Inr (Some d))) =
      (?s (PublishDraft version)\<lparr>ed_timer := b3\<rparr>, [publishVersion (ed_loc s) version])"
    by (rule detail_step_quiet [of eng t "?s (FetchDraft ?p)\<lparr>ed_timer := b2\<rparr>" "DtFetched 0 (Inr (Some d))" "?s (PublishDraft version)\<lparr>ed_timer := b2\<rparr>"])
      (use s refs v in \<open>simp_all add: ed_handle_def ed_fetched_def ed_drop_def ed_await_def remove_at_def deref_def
          canApplyMutationResult_def Let_def\<close>)
  show thesis by (rule that [of b3]) (simp add: 1 2 3)
qed

lemma detail_publish_reloaded:
  \<comment> \<open>from the answer to that request\<close>
  assumes "ed_mounted s" "ed_locRef s = ed_loc s" "ed_lastLoadKey s = detail_loadKey (ed_loc s)" "\<not> lc_missing (ed_loc s)"
    and "ed_mutations s = [\<lparr>dm_stage = PublishDraft version, dm_loc = ed_loc s\<rparr>]"
  shows "\<exists>b. run (detail_step eng t) s [DtMutated 0 (Inr ()), DtLoaded (length (ed_loads s)) (Inr (Some e, Some vs, Some os))] =
    ((ed_finally (ed_show e vs os (ed_closeEditor (s\<lparr>ed_publishConfirmOpen := False, ed_mutations := []\<rparr>))))
       \<lparr>ed_requestSeq := Suc (ed_requestSeq s), ed_started := ed_loc s, ed_policies := ed_policies s @ [Suc (ed_requestSeq s)], ed_timer := b\<rparr>,
     [ShowToast (t ''elements.publishQueued'' [(''version'', PStr (num_str version))]) Success,
      requestElement (ed_loc s), requestVersions (ed_loc s), requestOperations (ed_loc s), requestRetentionPolicy])"
proof -
  let ?l = "\<lparr>dl_requestId = Suc (ed_requestSeq s), dl_loc = ed_loc s, dl_awaited = True\<rparr>"
  let ?s = "ed_start ?l (ed_closeEditor (s\<lparr>ed_publishConfirmOpen := False, ed_mutations := []\<rparr>))"
  obtain b1 where 1: "detail_step eng t s (DtMutated 0 (Inr ())) = (?s\<lparr>ed_timer := b1\<rparr>,
      [ShowToast (t ''elements.publishQueued'' [(''version'', PStr (num_str version))]) Success,
       requestElement (ed_loc s), requestVersions (ed_loc s), requestOperations (ed_loc s)])"
    by (rule detail_step_quiet [of eng t s "DtMutated 0 (Inr ())" ?s])
      (use assms in \<open>simp_all add: ed_handle_def ed_mutated_def is_fetch_def ed_drop_def ed_saved_def remove_at_def loadPage_def
          ed_start_def ed_closeEditor_def canApplyMutationResult_def Let_def\<close>)
  let ?r = "(ed_finally (ed_show e vs os (ed_closeEditor (s\<lparr>ed_publishConfirmOpen := False, ed_mutations := []\<rparr>))))
       \<lparr>ed_requestSeq := Suc (ed_requestSeq s), ed_started := ed_loc s, ed_policies := ed_policies s @ [Suc (ed_requestSeq s)], ed_timer := b1\<rparr>"
  obtain b2 where 2: "detail_step eng t (?s\<lparr>ed_timer := b1\<rparr>) (DtLoaded (length (ed_loads s)) (Inr (Some e, Some vs, Some os))) =
      (?r\<lparr>ed_timer := b2\<rparr>, [requestRetentionPolicy])"
    by (rule detail_step_quiet [of eng t "?s\<lparr>ed_timer := b1\<rparr>" "DtLoaded (length (ed_loads s)) (Inr (Some e, Some vs, Some os))" ?r])
      (use assms(1-3) in \<open>simp_all add: ed_handle_def ed_loaded_def ed_apply_def ed_settle_def detail_data_def remove_at_def ed_start_def
          ed_closeEditor_def ed_show_def ed_finally_def Let_def\<close>)
  show ?thesis by (rule exI [of _ b2]) (simp add: 1 2)
qed

text \<open>C20: Publishing directly runs to its end. When the confirmation is answered, the content is valid, the
  requests succeed and the element read back has a publishable version, the page sends exactly: the
  content, a read of the element, the publication of that version, and the requests of a reload;
  it announces the version, and at the end shows the reloaded element with both dialogs closed, no
  error and nothing in progress.\<close>

theorem detail_publish_directly:
  assumes "s = after (detail_step eng t) (initDetail loc) es" and "ed_mounted s" "ed_publishConfirmOpen s" "\<not> ed_saving s"
    and "\<not> lc_missing (ed_loc s)" and "vr_valid (validateContent eng (ed_contentType s) (ed_editRaw s) t)"
    and "publishable_version (num_or_zero (ed_latest s)) d = Some version"
    and "r = run (detail_step eng t) s [DtPublish, DtMutated 0 (Inr ()), DtFetched 0 (Inr (Some d)), DtMutated 0 (Inr ()),
           DtLoaded (length (ed_loads s)) (Inr (Some e, Some vs, Some os))]"
  shows "snd r = [putVersion (ed_loc s) (ed_editRaw s), requestElement (ed_loc s), publishVersion (ed_loc s) version,
      ShowToast (t ''elements.publishQueued'' [(''version'', PStr (num_str version))]) Success,
      requestElement (ed_loc s), requestVersions (ed_loc s), requestOperations (ed_loc s), requestRetentionPolicy] \<and>
      ed_element (fst r) = Some e \<and> ed_raw (fst r) = decodeRaw (el_raw e) \<and> \<not> ed_newVersionOpen (fst r) \<and>
      \<not> ed_publishConfirmOpen (fst r) \<and> \<not> ed_saving (fst r) \<and> \<not> ed_loading (fst r) \<and> ef_message (ed_error (fst r)) = [] \<and>
      ed_mutations (fst r) = []"
proof -
  have inv: "ed_inv s" unfolding assms(1) by (rule detail_page.inv_reachable) blast
  have refs: "ed_lastLoadKey s = detail_loadKey (ed_loc s)" "ed_locRef s = ed_loc s"
    using inv assms(2) by (simp_all add: ed_inv_def ed_synced_def)
  have valid: "vr_valid (ed_validate eng t (ed_editRaw s) s)" using assms(6) by (simp add: ed_validate_def)
  obtain b where saved: "run (detail_step eng t) s [DtPublish, DtMutated 0 (Inr ()), DtFetched 0 (Inr (Some d))] =
    (s\<lparr>ed_editValidation := ed_validate eng t (ed_editRaw s) s, ed_saving := True, ed_error := reportError [] (ed_error s),
       ed_mutations := [\<lparr>dm_stage = PublishDraft version, dm_loc = ed_loc s\<rparr>], ed_timer := b\<rparr>,
     [putVersion (ed_loc s) (ed_editRaw s), requestElement (ed_loc s), publishVersion (ed_loc s) version])"
    by (rule detail_publish_saved [OF inv assms(2-5) valid assms(7)])
  let ?s = "s\<lparr>ed_editValidation := ed_validate eng t (ed_editRaw s) s, ed_saving := True, ed_error := reportError [] (ed_error s),
       ed_mutations := [\<lparr>dm_stage = PublishDraft version, dm_loc = ed_loc s\<rparr>], ed_timer := b\<rparr>"
  obtain b' where reloaded: "run (detail_step eng t) ?s [DtMutated 0 (Inr ()), DtLoaded (length (ed_loads ?s)) (Inr (Some e, Some vs, Some os))] =
    ((ed_finally (ed_show e vs os (ed_closeEditor (?s\<lparr>ed_publishConfirmOpen := False, ed_mutations := []\<rparr>))))
       \<lparr>ed_requestSeq := Suc (ed_requestSeq ?s), ed_started := ed_loc ?s, ed_policies := ed_policies ?s @ [Suc (ed_requestSeq ?s)], ed_timer := b'\<rparr>,
     [ShowToast (t ''elements.publishQueued'' [(''version'', PStr (num_str version))]) Success,
      requestElement (ed_loc ?s), requestVersions (ed_loc ?s), requestOperations (ed_loc ?s), requestRetentionPolicy])"
    using detail_publish_reloaded [of ?s version eng t e vs os] assms(2,5) refs by auto
  have split: "[DtPublish, DtMutated 0 (Inr ()), DtFetched 0 (Inr (Some d)), DtMutated 0 (Inr ()),
      DtLoaded (length (ed_loads s)) (Inr (Some e, Some vs, Some os))] =
    [DtPublish, DtMutated 0 (Inr ()), DtFetched 0 (Inr (Some d))] @
    [DtMutated 0 (Inr ()), DtLoaded (length (ed_loads ?s)) (Inr (Some e, Some vs, Some os))]" by simp
  note r = assms(8) [unfolded split run_append saved prod.case reloaded]
  show ?thesis
    unfolding r using assms(2) by (simp add: ed_finally_def ed_show_def ed_closeEditor_def reportError_def Let_def)
qed

subsection \<open>Comparing versions\<close>

lemma parse_nat_str: "parse_number (nat_str n) = Ratio (int n) 1"
proof -
  have digits: "\<forall>c \<in> set (nat_str n). is_digit c" by (rule nat_str_digits)
  have digit_chars: "printable c" "c \<noteq> CHR ''-''" "c \<noteq> CHR ''+''" if "is_digit c" for c
    using that by (auto simp: is_digit_def printable_def)
  obtain c r where cr: "nat_str n = c # r" by (cases "nat_str n") auto
  have ends: "is_digit (hd (nat_str n))" "is_digit (last (nat_str n))" using digits by auto
  then have trim: "js_trim (nat_str n) = nat_str n" by (intro js_trim_printable) (simp_all add: digit_chars)
  have "radix_prefix (nat_str n) = None"
  proof -
    let ?ps = "[(''0x'', 16 :: nat), (''0X'', 16), (''0o'', 8), (''0O'', 8), (''0b'', 2), (''0B'', 2)]"
    have "\<forall>k \<in> fst ` set ?ps. \<exists>d \<in> set k. \<not> is_digit d" by (simp add: is_digit_def)
    moreover have "\<forall>d \<in> set (take 2 (nat_str n)). is_digit d" using digits by (auto dest: in_set_takeD)
    ultimately have "take 2 (nat_str n) \<notin> fst ` set ?ps" by blast
    then show ?thesis unfolding radix_prefix_def map_of_eq_None_iff .
  qed
  moreover have "sign_split (nat_str n) = (1, nat_str n)"
    using ends(1) digit_chars unfolding cr by (auto simp: sign_split_def)
  moreover have "nat_str n \<noteq> ''Infinity''"
    using ends(1) by (auto simp: is_digit_def)
  moreover have "decimal_of (nat_str n) = Ratio (int n) 1"
  proof -
    have ds: "takeWhile is_digit (nat_str n) = nat_str n" "dropWhile is_digit (nat_str n) = []"
      using digits by (simp_all add: takeWhile_eq_all_conv dropWhile_eq_Nil_conv)
    show ?thesis unfolding decimal_of_def Let_def ds by (simp add: exponent_of_def ratio10_def)
  qed
  ultimately show ?thesis by (simp add: parse_number_def Let_def trim negate_def)
qed

lemma parse_version:
  assumes "0 < i"
  shows "parse_number (js_trim (int_str i)) = Ratio i 1" and "js_trim (int_str i) \<noteq> []"
proof -
  have digits: "printable c" if "is_digit c" for c using that by (simp add: is_digit_def printable_def)
  have "js_trim (nat_str (nat i)) = nat_str (nat i)"
    using nat_str_digits [of "nat i"] by (intro js_trim_printable) (simp_all add: digits)
  with assms show "parse_number (js_trim (int_str i)) = Ratio i 1" "js_trim (int_str i) \<noteq> []"
    by (simp_all add: int_str_def parse_nat_str)
qed

lemma version_is_num: "version_is (Ratio i 1) = (\<lambda>v. el_version v = Some (Num i))"
  by (rule ext) (auto simp: version_is_def split: option.split js_number.split)

lemma detail_step_page:
  assumes "ed_mounted s" "\<not> ed_modal s" and "ed_handle eng t s e = (ed_page eng t s e, [])"
    and "ed_mounted (ed_page eng t s e)"
  shows "detail_step eng t s e = (ed_commit s (ed_page eng t s e), [])"
  using assms by (simp add: detail_step_def)

text \<open>Asking for the comparison of two version numbers compares the first versions of the list with
  exactly these numbers; if one of them is not in the list no comparison is shown and the page
  reports it.\<close>

theorem detail_diff_chosen:
  assumes "ed_mounted s" "\<not> ed_modal s" "ed_shown 1 s"
    and "ed_diffBase s = int_str i" "ed_diffCompare s = int_str j" "0 < i" "0 < j"
    and "s' = fst (detail_step eng t s DtShowDiff)"
    and "b = find (\<lambda>v. el_version v = Some (Num i)) (ed_versions s)" "c = find (\<lambda>v. el_version v = Some (Num j)) (ed_versions s)"
  shows "ed_diffPair s' = (if b = None \<or> c = None then None else Some (the b, the c)) \<and>
    ed_diffLoaded s' = (b \<noteq> None \<and> c \<noteq> None) \<and>
    ef_message (ed_error s') = (if b = None \<or> c = None then t ''elements.error.unavailableVersions'' [] else [])"
proof -
  have "parsed_usable (Ratio i 1)" "parsed_usable (Ratio j 1)" using assms(6,7) by (simp_all add: parsed_usable_def)
  then have "ed_diffPair (handleLoadDiff t s) = (if b = None \<or> c = None then None else Some (the b, the c)) \<and>
      ed_diffLoaded (handleLoadDiff t s) = (b \<noteq> None \<and> c \<noteq> None) \<and>
      ef_message (ed_error (handleLoadDiff t s)) = (if b = None \<or> c = None then t ''elements.error.unavailableVersions'' [] else [])"
    unfolding assms(9,10)
    by (simp add: handleLoadDiff_def Let_def assms(4-7) parse_version version_is_num reportError_def split: option.split)
  moreover have "ed_page eng t s DtShowDiff = handleLoadDiff t s"
    using assms(3-7) by (simp add: ed_page_def ed_diffDisabled_def parse_version)
  moreover have "ed_mounted (handleLoadDiff t s)"
    using assms(1) by (simp add: handleLoadDiff_def Let_def split: option.split)
  ultimately show ?thesis
    unfolding assms(8) using assms(1,2) by (simp add: detail_step_def ed_handle_def ed_commit_def Let_def)
qed

definition ed_pair_ok :: "DetailState \<Rightarrow> bool" where
  "ed_pair_ok s \<longleftrightarrow> (\<forall>b c. ed_diffPair s = Some (b, c) \<longrightarrow> ed_element s \<noteq> None \<longrightarrow>
     b \<in> set (ed_versions s) \<and> c \<in> set (ed_versions s))"

lemma ed_pair_ok_cong:
  "ed_pair_ok s \<Longrightarrow> ed_diffPair s' = ed_diffPair s \<Longrightarrow> ed_element s' = ed_element s \<Longrightarrow> ed_versions s' = ed_versions s \<Longrightarrow> ed_pair_ok s'"
  by (simp add: ed_pair_ok_def)

lemma loadPage_pair_ok: "ed_pair_ok s \<Longrightarrow> ed_pair_ok (fst (loadPage t loc aw s))"
  by (auto simp: ed_pair_ok_def loadPage_def ed_missing_def ed_start_def Let_def split: option.splits)

lemma handleLoadDiff_pair_ok: "ed_pair_ok s \<Longrightarrow> ed_pair_ok (handleLoadDiff t s)"
  by (auto simp: ed_pair_ok_def handleLoadDiff_def Let_def dest: find_SomeD split: option.split)

lemma ed_handle_pair_ok:
  assumes "ed_pair_ok s"
  shows "ed_pair_ok (fst (ed_handle eng t s e))"
proof -
  note same = ed_pair_ok_cong [OF assms]
  have "ed_pair_ok (fst (ed_loaded t i out s))" for i out
    using assms by (auto simp: ed_loaded_def ed_apply_def ed_finally_def ed_settle_def ed_show_def ed_fail_load_def Let_def
        ed_pair_ok_def case_prod_unfold split: sum.split)
  moreover have "ed_pair_ok (fst (ed_mutated t i out s))" for i out
  proof -
    have base: "ed_pair_ok s'" if "ed_diffPair s' = ed_diffPair s" "ed_element s' = ed_element s" "ed_versions s' = ed_versions s" for s'
      using same that by simp
    have "ed_pair_ok (fst (ed_saved t m (ed_drop i s)))" for m
      by (cases "dm_stage m") (simp_all add: ed_saved_def Let_def case_prod_unfold loadPage_pair_ok base ed_await_def ed_drop_def
          ed_closeEditor_def)
    then show ?thesis
      by (cases out) (simp_all add: ed_mutated_def Let_def base ed_failed_def ed_finally_def ed_drop_def)
  qed
  moreover have "ed_pair_ok (fst (ed_fetched t i out s))" for i out
    by (auto simp: ed_fetched_def Let_def ed_failed_def ed_finally_def ed_drop_def ed_await_def
        intro!: same split: DetailStage.split sum.split option.split)
  moreover have "ed_pair_ok (fst (ed_microtask t s))"
    using assms by (auto simp: ed_microtask_def same intro!: loadPage_pair_ok split: list.split)
  moreover have "ed_pair_ok (fst (ed_dialog eng t s e))"
    by (cases e) (simp_all add: ed_dialog_def handlePublishDirectly_def handleSubmitNewVersion_def ed_save_def closeNewVersionDialog_def
        Let_def same)
  moreover have "ed_pair_ok (ed_page eng t s e)"
    by (cases e) (simp_all add: ed_page_def handleOpenNewVersion_def handleLoadDiff_pair_ok same assms)
  ultimately show ?thesis
    using assms by (cases e) (simp_all add: ed_handle_def ed_timerFired_def ed_policyLoaded_def Let_def same)
qed

text \<open>C35: The two contents compared are always versions in the list of the element shown, whatever was
  loaded or selected since the comparison was asked for.\<close>

theorem detail_diff_of_versions:
  assumes "s = after (detail_step eng t) (initDetail loc) es" and "ed_diffPair s = Some (b, c)" and "ed_element s \<noteq> None"
  shows "b \<in> set (ed_versions s) \<and> c \<in> set (ed_versions s)"
proof -
  have step: "ed_pair_ok (fst (detail_step eng t s e))" if "ed_pair_ok s" for s e
    using ed_handle_pair_ok [OF that, of eng t e] ed_pair_ok_cong [of "fst (ed_handle eng t s e)"]
    by (simp add: detail_step_def Let_def case_prod_unfold)
  have "ed_pair_ok (after (detail_step eng t) (initDetail loc) es)"
    by (induction es rule: rev_induct) (simp add: ed_pair_ok_def initDetail_def, simp only: after_snoc step)
  with assms show ?thesis by (simp add: ed_pair_ok_def)
qed

subsection \<open>Where the page goes wrong\<close>

text \<open>Selecting another base version after a comparison was shown does not clear the comparison: the
  content compared is still the one of the earlier version, under the label of the one now selected.\<close>

theorem detail_diff_mislabelled:
  assumes "ed_mounted s" "\<not> ed_modal s" "ed_shown 1 s" and "ed_diffLoaded s" "ed_diffPair s = Some (b, c)"
    and "v \<in> set (ed_versions s)" and "s' = fst (detail_step eng t s (DtDiffBase (version_text v)))"
  shows "\<exists>d. ed_diffProps t s' = Some d \<and> dv_oldValue d = decodeRaw (el_raw b) \<and>
    dv_baseLabel d = Some (t ''elements.baseVersion'' [(''version'', PStr (version_text v))])"
  using assms(1-6) unfolding assms(7)
  by (simp add: detail_step_def ed_handle_def ed_page_def ed_commit_def ed_diffProps_def Let_def)

text \<open>When the element read back has no version to publish, the page reports its general message for a
  failed publication: the specific message it throws is replaced, as it is not an \<open>ApiError\<close>.\<close>

theorem detail_missing_draft_message:
  assumes "ed_mounted s" "i < length (ed_mutations s)"
    and "ed_mutations s ! i = \<lparr>dm_stage = FetchDraft previous, dm_loc = ed_locRef s\<rparr>"
    and "publishable_version previous d = None"
  shows "ef_message (ed_error (fst (detail_step eng t s (DtFetched i (Inr (Some d)))))) = t ''elements.error.publishDirectly'' []"
  using assms
  by (simp add: detail_step_def ed_handle_def ed_fetched_def Let_def canApplyMutationResult_def ed_drop_def deref_def ed_failed_def
      ed_finally_def getErrorMessage_def reportError_def ed_commit_def)

text \<open>An editor that is open when the route changes to another element stays open with the content of
  the first, and submitting it before the new element is loaded stores that content in the other element.\<close>

theorem detail_editor_follows_route:
  assumes "ed_inv s" and "ed_mounted s" "ed_newVersionOpen s" "\<not> ed_publishConfirmOpen s" "\<not> ed_saveDisabled s"
    and "vr_valid (validateContent eng (ed_contentType s) (ed_editRaw s) t)" and "\<not> lc_missing loc"
  shows "snd (run (detail_step eng t) s [DtNavigate loc, DtSubmit]) = [putVersion loc (ed_editRaw s)]"
  using assms
  by (simp add: detail_step_def ed_handle_def ed_commit_def ed_modal_def ed_dialog_def handleSubmitNewVersion_def ed_save_def
      ed_validate_def ed_contentType_def ed_saveDisabled_def Let_def)

subsection \<open>Witnesses\<close>

definition demo_loc :: "string \<Rightarrow> ElementLocation" where
  "demo_loc k = \<lparr>lc_appId = ''a'', lc_env = ''dev'', lc_key = k\<rparr>"

definition demo_version :: "int \<Rightarrow> js_number option \<Rightarrow> Element" where
  "demo_version n draft = \<lparr>el_metadata = \<lparr>em_key = ''k'', em_latestVersion = Some (Num 2), em_usingVersion = Some (Num 1),
     em_unpublishedVersion = draft, em_contentType = Some (CTNum 4)\<rparr>, el_raw = None, el_version = Some (Num n), el_published = Some True\<rparr>"

definition demo_versions :: ElementsResponse where
  "demo_versions = \<lparr>es_elements = Some [demo_version 2 None, demo_version 1 None], es_hasMore = None, es_nextSeek = None\<rparr>"

definition demo_operations :: ElementOperationsResponse where
  "demo_operations = \<lparr>or_operations = None\<rparr>"

definition demo_results :: detail_results where
  "demo_results = Inr (Some (demo_version 2 None), Some demo_versions, Some demo_operations)"

abbreviation demo_detail :: "DetailEvent list \<Rightarrow> DetailState" where
  "demo_detail \<equiv> after (detail_step demo_engine (\<lambda>k ps. k)) (initDetail (demo_loc ''k''))"

definition demo_detail_start :: DetailState where
  "demo_detail_start = demo_detail [DtMount, DtMicrotask]"

definition demo_diff_tab :: DetailState where
  "demo_diff_tab = demo_detail [DtMount, DtMicrotask, DtLoaded 0 demo_results, DtTab 1]"

definition demo_diff_shown :: DetailState where
  "demo_diff_shown = demo_detail [DtMount, DtMicrotask, DtLoaded 0 demo_results, DtTab 1, DtShowDiff]"

definition demo_editor :: DetailState where
  "demo_editor = demo_detail [DtMount, DtMicrotask, DtLoaded 0 demo_results, DtOpenNewVersion, DtEdit ''{}'', DtTimer]"

definition demo_confirm :: DetailState where
  "demo_confirm = demo_detail [DtMount, DtMicrotask, DtLoaded 0 demo_results, DtOpenNewVersion, DtEdit ''{}'', DtTimer, DtAskPublish]"

definition demo_fetching :: DetailState where
  "demo_fetching = demo_detail [DtMount, DtMicrotask, DtLoaded 0 demo_results, DtOpenNewVersion, DtEdit ''{}'', DtTimer, DtAskPublish,
     DtPublish, DtMutated 0 (Inr ())]"

lemma demo_valid:
  "validateContent demo_engine (Some (CTNum 4)) ''{}'' (\<lambda>k ps. k) = validResult"
  "validateContent demo_engine (Some (CTNum 4)) [] (\<lambda>k ps. k) = validResult" "decodeRaw None = []"
  by code_simp+

lemmas detail_eval = detail_step_def ed_handle_def ed_commit_def Let_def initDetail_def initError_def demo_loc_def
  ed_microtask_def loadPage_def lc_missing_def ed_start_def ed_loaded_def ed_apply_def ed_settle_def remove_at_def detail_data_def
  ed_show_def versionOptions_def first_version_def last_version_def ed_contentType_def ed_modal_def ed_page_def ed_dialog_def
  handleOpenNewVersion_def ed_validate_def ed_unpublished_def ed_timerFired_def ed_saveDisabled_def ed_shown_def ed_diffDisabled_def
  handlePublishDirectly_def handleSubmitNewVersion_def ed_save_def ed_mutated_def is_fetch_def ed_drop_def ed_saved_def ed_await_def
  canApplyMutationResult_def demo_results_def demo_versions_def demo_operations_def demo_version_def reportError_def num_truthy_def
  num_str_def detail_loadKey_nonempty [symmetric] ed_latest_def num_or_zero_def num_gt_def publishable_version_def validResult_def
  demo_valid demo_detail_start_def demo_diff_tab_def demo_editor_def demo_confirm_def demo_fetching_def

lemma demo_start_facts:
  "ed_microtasks demo_detail_start = []" "0 < length (ed_loads demo_detail_start)"
  "ed_element (fst (detail_step demo_engine (\<lambda>k ps. k) demo_detail_start (DtLoaded 0 demo_results))) \<noteq> ed_element demo_detail_start"
  by (simp_all add: detail_eval)

lemma demo_diff_tab_facts:
  "ed_mounted demo_diff_tab" "\<not> ed_modal demo_diff_tab" "ed_shown 1 demo_diff_tab"
  "ed_diffBase demo_diff_tab = int_str 2" "ed_diffCompare demo_diff_tab = int_str 1"
  "ed_versions demo_diff_tab = [demo_version 2 None, demo_version 1 None]" "ed_element demo_diff_tab \<noteq> None"
  by (simp_all add: detail_eval)

lemma demo_editor_facts:
  "ed_mounted demo_editor" "ed_newVersionOpen demo_editor" "\<not> ed_publishConfirmOpen demo_editor" "\<not> ed_saveDisabled demo_editor"
  "vr_valid (validateContent demo_engine (ed_contentType demo_editor) (ed_editRaw demo_editor) (\<lambda>k ps. k))"
  "\<not> lc_missing (demo_loc ''other'')" "ed_editRaw demo_editor = ''{}''"
  "snd (detail_step demo_engine (\<lambda>k ps. k) demo_editor DtSubmit) = [putVersion (demo_loc ''k'') ''{}'']"
  by (simp_all add: detail_eval)

lemma demo_confirm_facts:
  "ed_mounted demo_confirm" "ed_publishConfirmOpen demo_confirm" "\<not> ed_saving demo_confirm" "\<not> lc_missing (ed_loc demo_confirm)"
  "vr_valid (validateContent demo_engine (ed_contentType demo_confirm) (ed_editRaw demo_confirm) (\<lambda>k ps. k))"
  "publishable_version (num_or_zero (ed_latest demo_confirm)) (demo_version 3 (Some (Num 3))) = Some (Num 3)"
  by (simp_all add: detail_eval)

lemma demo_fetching_facts:
  "ed_mounted demo_fetching" "0 < length (ed_mutations demo_fetching)"
  "ed_mutations demo_fetching ! 0 = \<lparr>dm_stage = FetchDraft (Num 2), dm_loc = ed_locRef demo_fetching\<rparr>"
  "publishable_version (Num 2) (demo_version 2 None) = None"
  by (simp_all add: detail_eval)

lemma demo_diff_shown_step:
  "demo_diff_shown = fst (detail_step demo_engine (\<lambda>k ps. k) demo_diff_tab DtShowDiff)"
  unfolding demo_diff_shown_def demo_diff_tab_def by (simp only: run_Cons run.simps(1) fst_conv)

lemma demo_diff_loaded:
  "handleLoadDiff (\<lambda>k ps. k) demo_diff_tab = demo_diff_tab\<lparr>ed_diffPair := Some (demo_version 2 None, demo_version 1 None),
     ed_diffLoaded := True, ed_error := reportError [] (ed_error demo_diff_tab)\<rparr>"
proof -
  have "version_is (Ratio 2 1) = (\<lambda>v. el_version v = Some (Num 2))" "version_is (Ratio 1 1) = (\<lambda>v. el_version v = Some (Num 1))"
    by (rule version_is_num)+
  then show ?thesis
    by (simp add: handleLoadDiff_def demo_diff_tab_facts parse_version parsed_usable_def demo_version_def)
qed

lemma demo_diff_shown_facts:
  "ed_mounted demo_diff_shown" "\<not> ed_modal demo_diff_shown" "ed_shown 1 demo_diff_shown" "ed_diffLoaded demo_diff_shown"
  "ed_diffPair demo_diff_shown = Some (demo_version 2 None, demo_version 1 None)" "ed_element demo_diff_shown \<noteq> None"
  "ed_versions demo_diff_shown = [demo_version 2 None, demo_version 1 None]"
  using demo_diff_tab_facts
  by (simp_all add: demo_diff_shown_step detail_step_def ed_handle_def ed_page_def ed_diffDisabled_def parse_version demo_diff_loaded
      ed_commit_def ed_modal_def ed_shown_def Let_def)


theorem detail_response_current_witness: "dl_loc (ed_loads demo_detail_start ! 0) = ed_loc demo_detail_start"
  by (rule detail_response_current [OF demo_detail_start_def demo_start_facts(1,2) refl]) (use demo_start_facts(3) in blast)

theorem detail_publish_directly_witness:
  "snd (run (detail_step demo_engine (\<lambda>k ps. k)) demo_confirm [DtPublish, DtMutated 0 (Inr ()),
      DtFetched 0 (Inr (Some (demo_version 3 (Some (Num 3))))), DtMutated 0 (Inr ()),
      DtLoaded (length (ed_loads demo_confirm)) (Inr (Some (demo_version 3 None), Some demo_versions, Some demo_operations))]) =
    [putVersion (ed_loc demo_confirm) (ed_editRaw demo_confirm), requestElement (ed_loc demo_confirm),
      publishVersion (ed_loc demo_confirm) (Num 3), ShowToast ''elements.publishQueued'' Success, requestElement (ed_loc demo_confirm),
      requestVersions (ed_loc demo_confirm), requestOperations (ed_loc demo_confirm), requestRetentionPolicy]"
  by (rule detail_publish_directly [OF demo_confirm_def demo_confirm_facts refl, THEN conjunct1])

theorem detail_diff_chosen_witness:
  "ed_diffPair (fst (detail_step demo_engine (\<lambda>k ps. k) demo_diff_tab DtShowDiff)) = Some (demo_version 2 None, demo_version 1 None)"
  using detail_diff_chosen [OF demo_diff_tab_facts(1-5) _ _ refl refl refl, of demo_engine "\<lambda>k ps. k"]
  by (simp add: demo_diff_tab_facts(6) demo_version_def)

theorem detail_diff_of_versions_witness:
  "demo_version 2 None \<in> set (ed_versions demo_diff_shown) \<and> demo_version 1 None \<in> set (ed_versions demo_diff_shown)"
  by (rule detail_diff_of_versions [OF demo_diff_shown_def demo_diff_shown_facts(5,6)])

theorem detail_diff_mislabelled_witness:
  "\<exists>d. ed_diffProps (\<lambda>k ps. k) (fst (detail_step demo_engine (\<lambda>k ps. k) demo_diff_shown (DtDiffBase (version_text (demo_version 1 None))))) = Some d \<and>
     dv_oldValue d = decodeRaw (el_raw (demo_version 2 None))"
  using detail_diff_mislabelled [where eng = demo_engine and t = "\<lambda>k ps. k" and v = "demo_version 1 None",
      OF demo_diff_shown_facts(1-5) _ refl]
  by (auto simp: demo_diff_shown_facts(7))

theorem detail_missing_draft_message_witness:
  "ef_message (ed_error (fst (detail_step demo_engine (\<lambda>k ps. k) demo_fetching (DtFetched 0 (Inr (Some (demo_version 2 None))))))) =
     ''elements.error.publishDirectly''"
  by (rule detail_missing_draft_message [OF demo_fetching_facts])

theorem detail_editor_follows_route_witness:
  "snd (run (detail_step demo_engine (\<lambda>k ps. k)) demo_editor [DtNavigate (demo_loc ''other''), DtSubmit]) = [putVersion (demo_loc ''other'') ''{}'']"
proof -
  have "ed_inv demo_editor" unfolding demo_editor_def by (rule detail_page.inv_reachable) blast
  from detail_editor_follows_route [OF this demo_editor_facts(1-6)] show ?thesis by (simp only: demo_editor_facts(7))
qed

end
