(* ===== verification/Instances_Page.thy ===== *)
theory Instances_Page
  imports Latest_Loader Feedback Workflow_Options
begin

section \<open>The instances page: \<open>cluster/InstancesPage.tsx\<close>\<close>

text \<open>
  The page lists the instances of the cluster, all of them or those that use one element, shows one
  of them in detail and offers the applications, environments and keys for the filter. It numbers
  three kinds of requests apart: those for the list, those for a detail, and those for the options
  of the filter; each kind interprets \<open>latest_loader\<close>. A request for the list also takes a number of
  the details, so that a detail asked for before is not shown with the new list.

  The page is remounted when the address changes, told by a key made of the three parameters joined
  with slashes.

  The facts: a response that changes the list, the detail or the options answers the latest request
  of its kind; a detail does not outlive the list it belongs to; the time since an instance was seen is split
  into its parts exactly. Two theorems show where the page goes wrong: opened for an application it
  never offers any application, because the requests for the three kinds of options share one
  sequence of numbers; and two addresses with the same joined key are not told apart.
\<close>

subsection \<open>Texts\<close>

definition ins_uniqueStrings :: "string list \<Rightarrow> string list" where
  "ins_uniqueStrings values = js_set_of (filter (\<lambda>v. v \<noteq> []) values)"

definition renderElementLink :: "string \<Rightarrow> string \<Rightarrow> ui" where
  "renderElementLink label target = (if target = [] then UText label else ULink label target)"

definition target_links :: "InstanceTarget \<Rightarrow> ui list" where
  "target_links target =
     (let app = opt_str_or (it_app target) []; env = opt_str_or (it_env target) []; key = opt_str_or (it_key target) [] in
      [renderElementLink app (if app \<noteq> [] then ''/apps/'' @ encodeURIComponent app @ ''/envs'' else []),
       UText ''/'',
       renderElementLink env (if app \<noteq> [] \<and> env \<noteq> []
         then ''/apps/'' @ encodeURIComponent app @ ''/envs/'' @ encodeURIComponent env @ ''/elements'' else []),
       UText ''/'',
       renderElementLink key (if app \<noteq> [] \<and> env \<noteq> [] \<and> key \<noteq> [] then buildDetailPath app env key else [])])"

definition renderTargets :: "Instance \<Rightarrow> ui list" where
  "renderTargets instance =
     (let targets = opt_or (in_targets instance) [] in
      if targets = [] then [UText ''-''] else concat (map target_links targets))"

definition elapsed_parts :: "int \<Rightarrow> int \<Rightarrow> int \<times> int \<times> int" where
  \<comment> \<open>hours, minutes and seconds since a time; \<open>now\<close> in milliseconds\<close>
  "elapsed_parts now timestamp =
     (let elapsed = max 0 (now div 1000 - timestamp) in (elapsed div 3600, (elapsed mod 3600) div 60, elapsed mod 60))"

definition formatLastSeen :: "int \<Rightarrow> int option \<Rightarrow> Translator \<Rightarrow> string" where
  "formatLastSeen now timestamp t =
     (if \<not> truthy_num timestamp then ''-''
      else case elapsed_parts now (the timestamp) of (hours, minutes, seconds) \<Rightarrow>
        if hours > 0 then t ''operations.instances.hoursAgo'' [(''hours'', PNum hours), (''minutes'', PNum minutes)]
        else if minutes > 0 then t ''operations.instances.minutesAgo'' [(''minutes'', PNum minutes), (''seconds'', PNum seconds)]
        else t ''operations.instances.secondsAgo'' [(''seconds'', PNum seconds)])"

subsection \<open>Requests\<close>

record InstanceFilter =
  if_app :: string
  if_env :: string
  if_key :: string

datatype InstancesQuery = AllInstances | Filtered InstanceFilter

definition listPath :: "InstancesQuery \<Rightarrow> string" where
  "listPath q = (case q of
       AllInstances \<Rightarrow> ''/api/cluster/instances'' @ buildQuery [(''limit'', qnum 100)]
     | Filtered f \<Rightarrow> ''/api/cluster/instances/filter'' @
         buildQuery [(''app'', qstr (if_app f)), (''env'', qstr (if_env f)), (''key'', qstr (if_key f))])"

definition query_fallback :: "InstancesQuery \<Rightarrow> string" where
  "query_fallback q = (case q of AllInstances \<Rightarrow> ''operations.instances.loadFailed'' | Filtered _ \<Rightarrow> ''operations.instances.filterFailed'')"

datatype CandidateQuery = AppCandidates | EnvCandidates string | KeyCandidates string string

definition candidatePath :: "CandidateQuery \<Rightarrow> string" where
  "candidatePath q = (case q of
       AppCandidates \<Rightarrow> ''/api/apps'' @ buildQuery [(''limit'', qnum 100)]
     | EnvCandidates app \<Rightarrow> appPath app @ ''/envs'' @ buildQuery [(''limit'', qnum 100)]
     | KeyCandidates app env \<Rightarrow> envPath app env @ ''/elements'' @ buildQuery [(''limit'', qnum 100)])"

datatype CandidateAnswer = AppsAnswer AppsResponse | EnvsAnswer EnvsResponse | ElementsAnswer ElementsResponse

definition detailPath :: "string \<Rightarrow> string" where
  "detailPath instanceId = ''/api/cluster/instances/detail/'' @ encodeURIComponent instanceId"

subsection \<open>State\<close>

record InstancesLoad =
  il_id :: nat
  il_query :: InstancesQuery

record CandidateLoad =
  cl_id :: nat
  cl_query :: CandidateQuery

record DetailRequest =
  dr_id :: nat
  dr_instance :: string

record InstancesState =
  is_initial :: InstanceFilter
  is_app :: string
  is_env :: string
  is_key :: string
  is_appOptions :: "string list"
  is_envOptions :: "string list"
  is_keyOptions :: "string list"
  is_candidateLoading :: bool
  is_instances :: "Instance list"
  is_detail :: "json option"
  is_loading :: bool
  is_detailLoading :: bool
  is_error :: ErrorFeedback
  is_detailError :: string
  is_filterError :: string
  is_requestSeq :: nat
  is_detailSeq :: nat
  is_candidateSeq :: nat
  is_mounted :: bool
  is_lastLoadKey :: string
  is_microtasks :: "InstanceFilter list"
  is_loads :: "InstancesLoad list"
  is_details :: "DetailRequest list"
  is_candidates :: "CandidateLoad list"
  is_lastQuery :: InstancesQuery
  is_lastCandidate :: CandidateQuery
  is_lastDetail :: string

text \<open>The detail is any value: \<open>None\<close> is \<open>undefined\<close> and \<open>Some JNull\<close> is \<open>null\<close>, its first value.\<close>

definition initInstances :: "InstanceFilter \<Rightarrow> InstancesState" where
  "initInstances f = \<lparr>is_initial = f, is_app = if_app f, is_env = if_env f, is_key = if_key f, is_appOptions = [], is_envOptions = [],
     is_keyOptions = [], is_candidateLoading = False, is_instances = [], is_detail = Some JNull, is_loading = True,
     is_detailLoading = False, is_error = initError, is_detailError = [], is_filterError = [], is_requestSeq = 0, is_detailSeq = 0,
     is_candidateSeq = 0, is_mounted = False, is_lastLoadKey = [], is_microtasks = [], is_loads = [], is_details = [],
     is_candidates = [], is_lastQuery = AllInstances, is_lastCandidate = AppCandidates, is_lastDetail = []\<rparr>"

definition page_key :: "InstanceFilter \<Rightarrow> string" where
  "page_key f = if_app f @ ''/'' @ if_env f @ ''/'' @ if_key f"

definition instances_loadKey :: "InstanceFilter \<Rightarrow> string" where
  "instances_loadKey f = json_stringify (JObj [(''initialApp'', JStr (if_app f)), (''initialEnv'', JStr (if_env f)), (''initialKey'', JStr (if_key f))])"

subsection \<open>Loading\<close>

type_synonym instances_handler = "InstancesState \<Rightarrow> InstancesState \<times> effect list"

definition is_start :: "InstancesLoad \<Rightarrow> InstancesState \<Rightarrow> InstancesState" where
  "is_start l s = s\<lparr>is_requestSeq := il_id l, is_loads := is_loads s @ [l], is_lastQuery := il_query l\<rparr>"

definition is_settle :: "nat \<Rightarrow> InstancesState \<Rightarrow> InstancesState" where
  "is_settle i s = s\<lparr>is_loads := remove_at i (is_loads s)\<rparr>"

definition loadList :: "InstancesQuery \<Rightarrow> instances_handler" where
  \<comment> \<open>the common part of \<open>loadAll\<close> and \<open>applyFilter\<close>\<close>
  "loadList q s =
     ((is_start \<lparr>il_id = Suc (is_requestSeq s), il_query = q\<rparr> s)
        \<lparr>is_detailSeq := Suc (is_detailSeq s), is_detail := Some JNull, is_detailError := [], is_detailLoading := False\<rparr>,
      [Request (listPath q) noInit])"

definition loadAll :: instances_handler where
  "loadAll s = loadList AllInstances s"

definition applyFilter :: "InstanceFilter \<Rightarrow> instances_handler" where
  "applyFilter f s = (if if_app f = [] \<or> if_env f = [] \<or> if_key f = [] then loadAll s else loadList (Filtered f) s)"

definition is_apply :: "InstancesLoad \<Rightarrow> failure + InstancesResponse option \<Rightarrow> InstancesState \<Rightarrow> InstancesState" where
  "is_apply l outcome s =
     (if \<not> is_mounted s \<or> il_id l \<noteq> is_requestSeq s then s
      else case deref outcome of
          Inr d \<Rightarrow> s\<lparr>is_instances := opt_or (ir_instances d) [], is_error := reportError [] (is_error s), is_loading := False\<rparr>
        | Inl err \<Rightarrow> s\<lparr>is_instances := [], is_error := reportError (getErrorMessage err (query_fallback (il_query l))) (is_error s),
            is_loading := False\<rparr>)"

definition is_loaded :: "nat \<Rightarrow> failure + InstancesResponse option \<Rightarrow> InstancesState \<Rightarrow> InstancesState" where
  "is_loaded i outcome s = (if i < length (is_loads s) then is_apply (is_loads s ! i) outcome (is_settle i s) else s)"

definition ic_start :: "CandidateLoad \<Rightarrow> InstancesState \<Rightarrow> InstancesState" where
  "ic_start l s = s\<lparr>is_candidateSeq := cl_id l, is_candidateLoading := True, is_candidates := is_candidates s @ [l], is_lastCandidate := cl_query l\<rparr>"

definition ic_settle :: "nat \<Rightarrow> InstancesState \<Rightarrow> InstancesState" where
  "ic_settle i s = s\<lparr>is_candidates := remove_at i (is_candidates s)\<rparr>"

definition loadCandidates :: "CandidateQuery \<Rightarrow> instances_handler" where
  "loadCandidates q s = (ic_start \<lparr>cl_id = Suc (is_candidateSeq s), cl_query = q\<rparr> s, [Request (candidatePath q) noInit])"

definition ins_loadApps :: instances_handler where
  "ins_loadApps s = loadCandidates AppCandidates s"

definition loadEnvCandidates :: "string \<Rightarrow> instances_handler" where
  "loadEnvCandidates app s =
     (if app = []
      then (s\<lparr>is_candidateSeq := Suc (is_candidateSeq s), is_envOptions := [], is_keyOptions := [], is_candidateLoading := False\<rparr>, [])
      else loadCandidates (EnvCandidates app) s)"

definition loadKeyCandidates :: "string \<Rightarrow> string \<Rightarrow> instances_handler" where
  "loadKeyCandidates app env s =
     (if app = [] \<or> env = []
      then (s\<lparr>is_candidateSeq := Suc (is_candidateSeq s), is_keyOptions := [], is_candidateLoading := False\<rparr>, [])
      else loadCandidates (KeyCandidates app env) s)"

definition candidate_fallback :: "CandidateQuery \<Rightarrow> string" where
  "candidate_fallback q = (case q of AppCandidates \<Rightarrow> ''operations.instances.appsFailed'' | EnvCandidates _ \<Rightarrow> ''operations.instances.envsFailed''
     | KeyCandidates _ _ \<Rightarrow> ''operations.instances.keysFailed'')"

definition candidate_options :: "CandidateAnswer \<Rightarrow> string list" where
  "candidate_options a = (case a of
       AppsAnswer r \<Rightarrow> ins_uniqueStrings (map am_id (opt_or (ar_apps r) []))
     | EnvsAnswer r \<Rightarrow> opt_or (er_envs r) []
     | ElementsAnswer r \<Rightarrow> ins_uniqueStrings (map (\<lambda>e. em_key (el_metadata e)) (opt_or (es_elements r) [])))"

definition set_options :: "CandidateQuery \<Rightarrow> string list \<Rightarrow> string \<Rightarrow> InstancesState \<Rightarrow> InstancesState" where
  "set_options q options message s = (case q of
       AppCandidates \<Rightarrow> s\<lparr>is_appOptions := options, is_filterError := message, is_candidateLoading := False\<rparr>
     | EnvCandidates _ \<Rightarrow> s\<lparr>is_envOptions := options, is_keyOptions := [], is_filterError := message, is_candidateLoading := False\<rparr>
     | KeyCandidates _ _ \<Rightarrow> s\<lparr>is_keyOptions := options, is_filterError := message, is_candidateLoading := False\<rparr>)"

definition ic_apply :: "CandidateLoad \<Rightarrow> failure + CandidateAnswer option \<Rightarrow> InstancesState \<Rightarrow> InstancesState" where
  "ic_apply l outcome s =
     (if \<not> is_mounted s \<or> cl_id l \<noteq> is_candidateSeq s then s
      else case deref outcome of
          Inr a \<Rightarrow> set_options (cl_query l) (candidate_options a) [] s
        | Inl err \<Rightarrow> set_options (cl_query l) [] (getErrorMessage err (candidate_fallback (cl_query l))) s)"

definition ic_loaded :: "nat \<Rightarrow> failure + CandidateAnswer option \<Rightarrow> InstancesState \<Rightarrow> InstancesState" where
  "ic_loaded i outcome s = (if i < length (is_candidates s) then ic_apply (is_candidates s ! i) outcome (ic_settle i s) else s)"

definition dr_start :: "DetailRequest \<Rightarrow> InstancesState \<Rightarrow> InstancesState" where
  "dr_start l s = s\<lparr>is_detailSeq := dr_id l, is_details := is_details s @ [l], is_lastDetail := dr_instance l\<rparr>"

definition dr_settle :: "nat \<Rightarrow> InstancesState \<Rightarrow> InstancesState" where
  "dr_settle i s = s\<lparr>is_details := remove_at i (is_details s)\<rparr>"

definition handleLoadDetail :: "string \<Rightarrow> instances_handler" where
  "handleLoadDetail instanceId s =
     ((dr_start \<lparr>dr_id = Suc (is_detailSeq s), dr_instance = instanceId\<rparr> s)\<lparr>is_detailLoading := True, is_detailError := []\<rparr>,
      [Request (detailPath instanceId) noInit])"

definition dr_loaded :: "nat \<Rightarrow> failure + json option \<Rightarrow> InstancesState \<Rightarrow> InstancesState" where
  "dr_loaded i outcome s =
     (if i < length (is_details s) then
        (let l = is_details s ! i; s' = dr_settle i s in
         if \<not> is_mounted s' \<or> dr_id l \<noteq> is_detailSeq s' then s'
         else case outcome of
             Inr d \<Rightarrow> s'\<lparr>is_detail := d, is_detailLoading := False\<rparr>
           | Inl err \<Rightarrow> s'\<lparr>is_detail := Some JNull, is_detailError := getErrorMessage err ''operations.instances.detailFailed'',
               is_detailLoading := False\<rparr>)
      else s)"

definition bind_effects :: "instances_handler \<Rightarrow> instances_handler \<Rightarrow> instances_handler" where
  \<comment> \<open>one handler after the other\<close>
  "bind_effects f g s = (case f s of (s', efs) \<Rightarrow> (case g s' of (s'', efs') \<Rightarrow> (s'', efs @ efs')))"

definition only_if :: "bool \<Rightarrow> instances_handler \<Rightarrow> instances_handler" where
  "only_if b f s = (if b then f s else (s, []))"

definition first_loads :: "InstanceFilter \<Rightarrow> instances_handler" where
  "first_loads f =
     bind_effects ins_loadApps
       (bind_effects (only_if (if_app f \<noteq> []) (loadEnvCandidates (if_app f)))
         (bind_effects (only_if (if_app f \<noteq> [] \<and> if_env f \<noteq> []) (loadKeyCandidates (if_app f) (if_env f)))
           (if if_app f \<noteq> [] \<and> if_env f \<noteq> [] \<and> if_key f \<noteq> [] then applyFilter f else loadAll)))"

definition is_microtask :: instances_handler where
  "is_microtask s = (case is_microtasks s of [] \<Rightarrow> (s, []) | f # rest \<Rightarrow> first_loads f (s\<lparr>is_microtasks := rest\<rparr>))"

definition is_commit :: "InstancesState \<Rightarrow> InstancesState" where
  "is_commit s =
     (let key = instances_loadKey (is_initial s) in
      if is_lastLoadKey s \<noteq> key then s\<lparr>is_lastLoadKey := key, is_microtasks := is_microtasks s @ [is_initial s]\<rparr> else s)"

subsection \<open>Handlers\<close>

definition handleFilter :: instances_handler where
  "handleFilter s =
     applyFilter \<lparr>if_app = js_trim (is_app s), if_env = js_trim (is_env s), if_key = js_trim (is_key s)\<rparr>
       (s\<lparr>is_loading := True, is_error := reportError [] (is_error s), is_filterError := []\<rparr>)"

definition handleRefreshAll :: instances_handler where
  "handleRefreshAll s =
     loadAll (s\<lparr>is_loading := True, is_error := reportError [] (is_error s), is_filterError := [], is_app := [], is_env := [],
       is_key := [], is_envOptions := [], is_keyOptions := []\<rparr>)"

definition is_typeApp :: "string \<Rightarrow> InstancesState \<Rightarrow> InstancesState" where
  "is_typeApp v s = s\<lparr>is_app := v, is_env := [], is_key := [], is_envOptions := [], is_keyOptions := []\<rparr>"

definition is_chooseApp :: "string \<Rightarrow> instances_handler" where
  "is_chooseApp v s = loadEnvCandidates v (s\<lparr>is_app := v, is_env := [], is_key := [], is_keyOptions := []\<rparr>)"

definition is_typeEnv :: "string \<Rightarrow> InstancesState \<Rightarrow> InstancesState" where
  "is_typeEnv v s = s\<lparr>is_env := v, is_key := [], is_keyOptions := []\<rparr>"

definition is_chooseEnv :: "string \<Rightarrow> instances_handler" where
  "is_chooseEnv v s = loadKeyCandidates (is_app s) v (s\<lparr>is_env := v, is_key := []\<rparr>)"

subsection \<open>The step function\<close>

datatype InstancesEvent =
    IsMount
  | IsUnmount
  | IsNavigate InstanceFilter
  | IsMicrotask
  | IsLoaded nat "failure + InstancesResponse option"
  | IsCandidates nat "failure + CandidateAnswer option"
  | IsDetailLoaded nat "failure + json option"
  | IsTypeApp string
  | IsChooseApp string
  | IsTypeEnv string
  | IsChooseEnv string
  | IsSetKey string
  | IsFilter
  | IsRefresh
  | IsDetail nat

definition instance_id :: "Instance \<Rightarrow> string" where
  "instance_id i = opt_str_or (in_id i) (opt_str_or (in_clientId i) [])"

definition is_tableShown :: "InstancesState \<Rightarrow> bool" where
  "is_tableShown s = (\<not> is_loading s \<and> ef_message (is_error s) = [] \<and> is_instances s \<noteq> [])"

definition is_controls :: "InstancesState \<Rightarrow> InstancesEvent \<Rightarrow> InstancesState \<times> effect list" where
  "is_controls s e = (case e of
       IsTypeApp v \<Rightarrow> (is_typeApp v s, [])
     | IsChooseApp v \<Rightarrow> is_chooseApp v s
     | IsTypeEnv v \<Rightarrow> (if is_app s \<noteq> [] then is_typeEnv v s else s, [])
     | IsChooseEnv v \<Rightarrow> if is_app s \<noteq> [] then is_chooseEnv v s else (s, [])
     | IsSetKey v \<Rightarrow> (if is_app s \<noteq> [] \<and> is_env s \<noteq> [] then s\<lparr>is_key := v\<rparr> else s, [])
     | IsFilter \<Rightarrow> if \<not> is_loading s then handleFilter s else (s, [])
     | IsRefresh \<Rightarrow> if \<not> is_loading s then handleRefreshAll s else (s, [])
     | IsDetail i \<Rightarrow>
         if is_tableShown s \<and> i < length (is_instances s) \<and> instance_id (is_instances s ! i) \<noteq> [] \<and> \<not> is_detailLoading s
         then handleLoadDetail (instance_id (is_instances s ! i)) s else (s, [])
     | _ \<Rightarrow> (s, []))"

definition is_navigate :: "InstanceFilter \<Rightarrow> InstancesState \<Rightarrow> InstancesState" where
  \<comment> \<open>the same component with other properties, or another one in its place\<close>
  "is_navigate f s = (if page_key f = page_key (is_initial s) then s\<lparr>is_initial := f\<rparr> else (initInstances f)\<lparr>is_mounted := True\<rparr>)"

definition is_handle :: "InstancesState \<Rightarrow> InstancesEvent \<Rightarrow> InstancesState \<times> effect list" where
  "is_handle s e = (case e of
       IsMount \<Rightarrow> (s\<lparr>is_mounted := True\<rparr>, [])
     | IsUnmount \<Rightarrow> (s\<lparr>is_mounted := False\<rparr>, [])
     | IsNavigate f \<Rightarrow> (if is_mounted s then is_navigate f s else s, [])
     | IsMicrotask \<Rightarrow> is_microtask s
     | IsLoaded i outcome \<Rightarrow> (is_loaded i outcome s, [])
     | IsCandidates i outcome \<Rightarrow> (ic_loaded i outcome s, [])
     | IsDetailLoaded i outcome \<Rightarrow> (dr_loaded i outcome s, [])
     | _ \<Rightarrow> if is_mounted s then is_controls s e else (s, []))"

definition instances_step :: "InstancesState \<Rightarrow> InstancesEvent \<Rightarrow> InstancesState \<times> effect list" where
  "instances_step s e = (case is_handle s e of (s', efs) \<Rightarrow> (if is_mounted s' then is_commit s' else s', efs))"

subsection \<open>The view\<close>

definition ins_message :: "(string \<Rightarrow> bool) \<Rightarrow> Translator \<Rightarrow> string \<Rightarrow> ui list" where
  "ins_message isKey t message = (if message = [] then [] else [UError (if isKey message then t message [] else message)])"

definition ins_filterForm :: "Translator \<Rightarrow> InstancesState \<Rightarrow> ui list" where
  "ins_filterForm t s =
     [UHeading (t ''operations.instances.filterByElement'' []),
      UMulti (t ''operations.app'' []) [is_app s] (is_appOptions s) False (t ''operations.instances.appHelp'' []),
      UMulti (t ''operations.env'' []) [is_env s] (is_envOptions s) (is_app s = []) (t ''operations.instances.envHelp'' []),
      UMulti (t ''operations.key'' []) [is_key s] (is_keyOptions s) (is_app s = [] \<or> is_env s = []) (t ''operations.instances.keyHelp'' []),
      UButton (t ''operations.instances.filter'' []) (is_loading s), UButton (t ''operations.instances.refreshAll'' []) (is_loading s)]"

definition ins_row :: "Translator \<Rightarrow> (int \<Rightarrow> string) \<Rightarrow> int \<Rightarrow> InstancesState \<Rightarrow> Instance \<Rightarrow> ui list" where
  "ins_row t formatDateTime now s i =
     [UText (opt_str_or (in_clientId i) ''-''), UText (opt_str_or (in_agentId i) ''-''), UText (opt_str_or (in_clientIp i) ''-''),
      ULabelled [] (renderTargets i),
      ULabelled (if truthy_num (in_lastRenewTimestamp i) then formatDateTime (the (in_lastRenewTimestamp i) * 1000) else [])
        [UText (formatLastSeen now (in_lastRenewTimestamp i) t)],
      UButton (t ''operations.instances.detail'' []) (is_detailLoading s \<or> instance_id i = [])]"

definition ins_table :: "Translator \<Rightarrow> (int \<Rightarrow> string) \<Rightarrow> int \<Rightarrow> InstancesState \<Rightarrow> ui list" where
  "ins_table t formatDateTime now s =
     (if is_loading s then LoadingState t (Some (t ''operations.instances.loading'' []))
      else if ef_message (is_error s) \<noteq> [] then []
      else if is_instances s = []
      then EmptyState (t ''operations.instances.emptyTitle'' []) (Some (t ''operations.instances.emptyDescription'' []))
      else [UTable (map (\<lambda>k. t k []) [''operations.instances.client'', ''operations.instances.agent'', ''operations.instances.ip'',
             ''operations.targets'', ''operations.instances.lastSeen'', ''operations.instances.actions''])
             (map (ins_row t formatDateTime now s) (is_instances s))])"

definition json_truthy :: "json option \<Rightarrow> bool" where
  "json_truthy v = (case v of
       None \<Rightarrow> False
     | Some JNull \<Rightarrow> False
     | Some (JBool b) \<Rightarrow> b
     | Some (JNum n) \<Rightarrow> n \<noteq> 0
     | Some (JDec d) \<Rightarrow> list_ex (\<lambda>c. c \<in> set ''123456789'') (takeWhile (\<lambda>c. c \<noteq> CHR ''e'' \<and> c \<noteq> CHR ''E'') d)
     | Some (JStr s) \<Rightarrow> s \<noteq> []
     | _ \<Rightarrow> True)"

definition ins_detail :: "(json \<Rightarrow> string) \<Rightarrow> (string \<Rightarrow> bool) \<Rightarrow> Translator \<Rightarrow> InstancesState \<Rightarrow> ui list" where
  "ins_detail stringify_indented isKey t s =
     (if is_detailLoading s \<or> is_detailError s \<noteq> [] \<or> is_detail s \<noteq> Some JNull then
        UHeading (t ''operations.instances.detailTitle'' []) # ins_message isKey t (is_detailError s) @
        (if is_detailLoading s then LoadingState t (Some (t ''operations.instances.loadingDetail'' []))
         else if json_truthy (is_detail s) then [UText (stringify_indented (the (is_detail s)))] else [])
      else [])"

definition InstancesPage_view ::
  "(json \<Rightarrow> string) \<Rightarrow> (string \<Rightarrow> bool) \<Rightarrow> Translator \<Rightarrow> (int \<Rightarrow> string) \<Rightarrow> int \<Rightarrow> InstancesState \<Rightarrow> ui list" where
  "InstancesPage_view stringify_indented isKey t formatDateTime now s =
     [UHeading (t ''operations.instances.title'' []), UText (t ''operations.instances.description'' [])] @
     ins_message isKey t (ef_message (is_error s)) @ ins_message isKey t (is_filterError s) @
     ins_filterForm t s @ ins_table t formatDateTime now s @ ins_detail stringify_indented isKey t s"

subsection \<open>Three sequences of requests\<close>

interpretation instance_loads: latest_loader is_requestSeq is_loads is_lastQuery il_id il_query is_start is_settle
  by unfold_locales (simp_all add: is_start_def is_settle_def)

interpretation candidate_loads: latest_loader is_candidateSeq is_candidates is_lastCandidate cl_id cl_query ic_start ic_settle
  by unfold_locales (simp_all add: ic_start_def ic_settle_def)

interpretation detail_requests: latest_loader is_detailSeq is_details is_lastDetail dr_id dr_instance dr_start dr_settle
  by unfold_locales (simp_all add: dr_start_def dr_settle_def)

definition is_inv :: "InstancesState \<Rightarrow> bool" where
  "is_inv s \<longleftrightarrow> instance_loads.latest s \<and> candidate_loads.latest s \<and> detail_requests.latest s"

definition is_frame :: "InstancesState \<Rightarrow>
  (InstancesLoad list \<times> nat \<times> InstancesQuery) \<times> (CandidateLoad list \<times> nat \<times> CandidateQuery) \<times> (DetailRequest list \<times> nat \<times> string)" where
  "is_frame s = ((is_loads s, is_requestSeq s, is_lastQuery s), (is_candidates s, is_candidateSeq s, is_lastCandidate s),
     (is_details s, is_detailSeq s, is_lastDetail s))"

lemma is_inv_cong: "is_frame s' = is_frame s \<Longrightarrow> is_inv s \<Longrightarrow> is_inv s'"
  using instance_loads.latest_cong [of s s'] candidate_loads.latest_cong [of s s'] detail_requests.latest_cong [of s s']
  by (simp add: is_frame_def is_inv_def)

lemma is_inv_empty: "is_loads s = [] \<Longrightarrow> is_candidates s = [] \<Longrightarrow> is_details s = [] \<Longrightarrow> is_inv s"
  by (simp add: is_inv_def instance_loads.latest_empty candidate_loads.latest_empty detail_requests.latest_empty)

lemma loadList_inv:
  assumes "is_inv s"
  shows "is_inv (fst (loadList q s))"
proof -
  let ?l = "\<lparr>il_id = Suc (is_requestSeq s), il_query = q\<rparr>"
  let ?s = "fst (loadList q s)"
  have "instance_loads.latest (is_start ?l s)"
    by (rule instance_loads.latest_start) (use assms in \<open>simp_all add: is_inv_def\<close>)
  then have "instance_loads.latest ?s"
    by (rule instance_loads.latest_cong) (simp_all add: loadList_def is_start_def)
  moreover have "candidate_loads.latest ?s"
    by (rule candidate_loads.latest_cong [of s]) (use assms in \<open>simp_all add: is_inv_def loadList_def is_start_def\<close>)
  moreover have "detail_requests.latest ?s"
    by (rule detail_requests.latest_skip [of s]) (use assms in \<open>simp_all add: is_inv_def loadList_def is_start_def\<close>)
  ultimately show ?thesis by (simp add: is_inv_def)
qed

lemma loadCandidates_inv:
  assumes "is_inv s"
  shows "is_inv (fst (loadCandidates q s))"
proof -
  let ?l = "\<lparr>cl_id = Suc (is_candidateSeq s), cl_query = q\<rparr>"
  have "candidate_loads.latest (ic_start ?l s)"
    by (rule candidate_loads.latest_start) (use assms in \<open>simp_all add: is_inv_def\<close>)
  moreover have "instance_loads.latest (ic_start ?l s)" "detail_requests.latest (ic_start ?l s)"
    by (rule instance_loads.latest_cong [of s] detail_requests.latest_cong [of s];
        use assms in \<open>simp add: is_inv_def ic_start_def\<close>)+
  ultimately show ?thesis by (simp add: is_inv_def loadCandidates_def)
qed

lemma skip_candidates_inv:
  assumes "is_inv s" and "is_candidates s' = is_candidates s" "is_candidateSeq s' = Suc (is_candidateSeq s)"
    and "is_loads s' = is_loads s" "is_requestSeq s' = is_requestSeq s" "is_lastQuery s' = is_lastQuery s"
    and "is_details s' = is_details s" "is_detailSeq s' = is_detailSeq s" "is_lastDetail s' = is_lastDetail s"
  shows "is_inv s'"
  using assms instance_loads.latest_cong [of s s'] candidate_loads.latest_skip [of s s'] detail_requests.latest_cong [of s s']
  by (simp add: is_inv_def)

lemma candidates_inv:
  assumes "is_inv s"
  shows "is_inv (fst (ins_loadApps s))" "is_inv (fst (loadEnvCandidates app s))" "is_inv (fst (loadKeyCandidates app env s))"
  using loadCandidates_inv [OF assms] skip_candidates_inv [OF assms]
  by (simp_all add: ins_loadApps_def loadEnvCandidates_def loadKeyCandidates_def)

lemma applyFilter_inv: "is_inv s \<Longrightarrow> is_inv (fst (applyFilter f s))" "is_inv s \<Longrightarrow> is_inv (fst (loadAll s))"
  by (simp_all add: applyFilter_def loadAll_def loadList_inv)

lemma bind_effects_inv:
  "(\<And>s. is_inv s \<Longrightarrow> is_inv (fst (f s))) \<Longrightarrow> (\<And>s. is_inv s \<Longrightarrow> is_inv (fst (g s))) \<Longrightarrow> is_inv s \<Longrightarrow> is_inv (fst (bind_effects f g s))"
  by (simp add: bind_effects_def case_prod_unfold)

lemma first_loads_inv: "is_inv s \<Longrightarrow> is_inv (fst (first_loads f s))"
  unfolding first_loads_def
  by (intro bind_effects_inv) (simp_all add: candidates_inv applyFilter_inv only_if_def)

lemma settled_inv:
  assumes "is_inv s"
  shows "is_inv (is_settle i s)" "is_inv (ic_settle i s)" "is_inv (dr_settle i s)"
  using assms instance_loads.latest_settle [of s i] candidate_loads.latest_settle [of s i] detail_requests.latest_settle [of s i]
    instance_loads.latest_cong [of s] candidate_loads.latest_cong [of s] detail_requests.latest_cong [of s]
  by (simp_all add: is_inv_def is_settle_def ic_settle_def dr_settle_def)

lemma loaded_inv:
  assumes "is_inv s"
  shows "is_inv (is_loaded i out s)" "is_inv (ic_loaded i cout s)" "is_inv (dr_loaded i dout s)"
proof -
  have "is_frame (is_apply l out s') = is_frame s'" for l s'
    by (simp add: is_apply_def is_frame_def split: sum.split)
  then show "is_inv (is_loaded i out s)"
    using assms settled_inv(1) [OF assms] is_inv_cong by (simp add: is_loaded_def)
  have "is_frame (ic_apply l cout s') = is_frame s'" for l s'
    by (simp add: ic_apply_def set_options_def is_frame_def split: sum.split CandidateQuery.split)
  then show "is_inv (ic_loaded i cout s)"
    using assms settled_inv(2) [OF assms] is_inv_cong by (simp add: ic_loaded_def)
  have "is_inv s'" if "is_frame s' = is_frame (dr_settle i s)" for s'
    using is_inv_cong [OF that settled_inv(3) [OF assms]] .
  then show "is_inv (dr_loaded i dout s)"
    using assms by (simp add: dr_loaded_def Let_def is_frame_def split: sum.split)
qed

lemma handleLoadDetail_inv:
  assumes "is_inv s"
  shows "is_inv (fst (handleLoadDetail x s))"
proof -
  let ?l = "\<lparr>dr_id = Suc (is_detailSeq s), dr_instance = x\<rparr>"
  have "detail_requests.latest (dr_start ?l s)"
    by (rule detail_requests.latest_start) (use assms in \<open>simp_all add: is_inv_def\<close>)
  moreover have "instance_loads.latest (dr_start ?l s)" "candidate_loads.latest (dr_start ?l s)"
    by (rule instance_loads.latest_cong [of s] candidate_loads.latest_cong [of s];
        use assms in \<open>simp add: is_inv_def dr_start_def\<close>)+
  ultimately have "is_inv (dr_start ?l s)" by (simp add: is_inv_def)
  then show ?thesis by (rule is_inv_cong [rotated]) (simp add: handleLoadDetail_def is_frame_def)
qed

lemma is_controls_inv:
  assumes "is_inv s"
  shows "is_inv (fst (is_controls s e))"
proof -
  have same: "is_inv s'" if "is_frame s' = is_frame s" for s' using is_inv_cong [OF that assms] .
  show ?thesis
    using assms by (cases e) (simp_all add: is_controls_def is_typeApp_def is_chooseApp_def is_typeEnv_def is_chooseEnv_def handleFilter_def
        handleRefreshAll_def handleLoadDetail_inv applyFilter_inv candidates_inv same is_frame_def)
qed

lemma instances_step_inv:
  assumes "is_inv s"
  shows "is_inv (fst (instances_step s e))"
proof -
  have same: "is_inv s'" if "is_frame s' = is_frame s" for s' using is_inv_cong [OF that assms] .
  have "is_inv (is_navigate f s)" for f
    by (auto simp: is_navigate_def initInstances_def is_frame_def intro: same is_inv_empty)
  moreover have "is_inv (fst (is_microtask s))"
    using assms same by (auto simp: is_microtask_def is_frame_def intro!: first_loads_inv split: list.split)
  ultimately have "is_inv (fst (is_handle s e))"
    using assms loaded_inv [OF assms] is_controls_inv [OF assms] by (cases e) (simp_all add: is_handle_def same is_frame_def)
  moreover have "is_frame (is_commit s') = is_frame s'" for s' by (simp add: is_commit_def Let_def is_frame_def)
  ultimately show ?thesis using is_inv_cong by (simp add: instances_step_def case_prod_unfold)
qed

lemma initInstances_inv: "is_inv (initInstances f)"
  by (rule is_inv_empty) (simp_all add: initInstances_def)

lemma is_reads: "x \<in> set (snd (instances_step s e)) \<Longrightarrow> \<exists>path. x = Request path noInit"
proof -
  have lists: "x \<in> set (snd (loadList q s)) \<Longrightarrow> \<exists>path. x = Request path noInit" for q s by (auto simp: loadList_def)
  have cands: "x \<in> set (snd (loadCandidates q s)) \<Longrightarrow> \<exists>path. x = Request path noInit" for q s by (auto simp: loadCandidates_def)
  have "x \<in> set (snd (first_loads f s)) \<Longrightarrow> \<exists>path. x = Request path noInit" for f s
    by (auto simp: first_loads_def bind_effects_def only_if_def case_prod_unfold ins_loadApps_def loadEnvCandidates_def
        loadKeyCandidates_def applyFilter_def loadAll_def dest: lists cands split: if_splits)
  moreover have "x \<in> set (snd (is_controls s e)) \<Longrightarrow> \<exists>path. x = Request path noInit"
    by (cases e) (auto simp: is_controls_def is_chooseApp_def is_chooseEnv_def loadEnvCandidates_def loadKeyCandidates_def
        handleFilter_def handleRefreshAll_def applyFilter_def loadAll_def handleLoadDetail_def dest: lists cands split: if_splits)
  ultimately show "x \<in> set (snd (instances_step s e)) \<Longrightarrow> \<exists>path. x = Request path noInit"
    by (cases e) (auto simp: instances_step_def is_handle_def is_microtask_def case_prod_unfold split: list.splits if_splits)
qed

interpretation instances_page: guarded_component instances_step "\<lambda>s. \<exists>f. s = initInstances f" is_inv
  "\<lambda>_ x. \<exists>path. x = Request path noInit"
  by unfold_locales (auto simp: initInstances_inv instances_step_inv dest: is_reads)

subsection \<open>Properties\<close>

lemma is_commit_data [simp]:
  "is_instances (is_commit s) = is_instances s" "is_detail (is_commit s) = is_detail s" "is_details (is_commit s) = is_details s"
  "is_detailSeq (is_commit s) = is_detailSeq s" "is_envOptions (is_commit s) = is_envOptions s" "is_keyOptions (is_commit s) = is_keyOptions s"
  "is_appOptions (is_commit s) = is_appOptions s" "is_candidates (is_commit s) = is_candidates s" "is_candidateSeq (is_commit s) = is_candidateSeq s"
  "is_app (is_commit s) = is_app s" "is_env (is_commit s) = is_env s" "is_key (is_commit s) = is_key s" "is_initial (is_commit s) = is_initial s"
  "is_mounted (is_commit s) = is_mounted s" "is_detailLoading (is_commit s) = is_detailLoading s"
  by (simp_all add: is_commit_def Let_def)

text \<open>C34: A response changes the list of instances only if it answers the latest request for a list, and the
  options of the filter only if it answers the latest request for options.\<close>

theorem instances_response_current:
  assumes "s = after instances_step (initInstances f) es"
  shows "(i < length (is_loads s) \<and> is_instances (fst (instances_step s (IsLoaded i out))) \<noteq> is_instances s \<longrightarrow>
      il_query (is_loads s ! i) = is_lastQuery s) \<and>
    (j < length (is_candidates s) \<and>
      (is_appOptions (fst (instances_step s (IsCandidates j cout))), is_envOptions (fst (instances_step s (IsCandidates j cout))),
       is_keyOptions (fst (instances_step s (IsCandidates j cout)))) \<noteq> (is_appOptions s, is_envOptions s, is_keyOptions s) \<longrightarrow>
      cl_query (is_candidates s ! j) = is_lastCandidate s)"
proof -
  have inv: "is_inv s" unfolding assms by (rule instances_page.inv_reachable) blast
  have "is_instances (is_apply l out (is_settle i s)) = is_instances s \<or> il_id l = is_requestSeq s" for l
    by (auto simp: is_apply_def is_settle_def)
  moreover have "(is_appOptions (ic_apply l cout (ic_settle j s)), is_envOptions (ic_apply l cout (ic_settle j s)),
      is_keyOptions (ic_apply l cout (ic_settle j s))) = (is_appOptions s, is_envOptions s, is_keyOptions s) \<or> cl_id l = is_candidateSeq s" for l
    by (auto simp: ic_apply_def ic_settle_def)
  ultimately show ?thesis
    using inv instance_loads.latest_applied [of s i] candidate_loads.latest_applied [of s j]
    by (auto simp: instances_step_def is_handle_def is_loaded_def ic_loaded_def is_inv_def split: if_splits)
qed

lemma old_details_dropped:
  assumes "\<forall>l \<in> set (is_details s). dr_id l < is_detailSeq s" and "is_detail s = Some JNull" and "\<not> is_detailLoading s"
  shows "is_detail (after instances_step s (map (\<lambda>(i, out). IsDetailLoaded i out) answers)) = Some JNull \<and>
    \<not> is_detailLoading (after instances_step s (map (\<lambda>(i, out). IsDetailLoaded i out) answers))"
  using assms
proof (induction answers arbitrary: s)
  case (Cons a answers)
  obtain i out where a: "a = (i, out)" by force
  let ?s = "fst (instances_step s (IsDetailLoaded i out))"
  have "dr_loaded i out s = (if i < length (is_details s) then dr_settle i s else s)"
    using Cons.prems(1) nth_mem [of i "is_details s"] by (fastforce simp: dr_loaded_def Let_def dr_settle_def)
  then have "\<forall>l \<in> set (is_details ?s). dr_id l < is_detailSeq ?s" "is_detail ?s = Some JNull" "\<not> is_detailLoading ?s"
    using Cons.prems set_remove_at [of i "is_details s"] by (auto simp: instances_step_def is_handle_def dr_settle_def)
  from Cons.IH [OF this] show ?case by (simp add: a run_Cons del: run.simps)
qed simp

text \<open>When the list is asked for again, a detail shown or still being loaded is dropped: no answer to an
  earlier request for a detail shows up beside the new list.\<close>

theorem instances_detail_dropped:
  assumes "s = after instances_step (initInstances f) es" and "is_mounted s" "\<not> is_loading s" and "e \<in> {IsFilter, IsRefresh}"
    and "s' = after instances_step s (e # map (\<lambda>(i, out). IsDetailLoaded i out) answers)"
  shows "is_detail s' = Some JNull \<and> \<not> is_detailLoading s'"
proof -
  have inv: "detail_requests.latest s"
    using instances_page.inv_reachable [of "initInstances f" es] assms(1) by (auto simp: is_inv_def)
  let ?s = "fst (instances_step s e)"
  have "is_details ?s = is_details s \<and> is_detailSeq ?s = Suc (is_detailSeq s) \<and> is_detail ?s = Some JNull \<and> \<not> is_detailLoading ?s"
    using assms(2-4) by (auto simp: instances_step_def is_handle_def is_controls_def handleFilter_def handleRefreshAll_def applyFilter_def
        loadAll_def loadList_def is_start_def case_prod_unfold split: if_splits)
  with inv old_details_dropped [of ?s answers] show ?thesis
    unfolding assms(5) run_Cons by (fastforce simp: detail_requests.latest_def)
qed

text \<open>The hours, minutes and seconds shown are exactly the time since the instance was last seen, with
  less than sixty minutes and seconds.\<close>

theorem elapsed_parts_exact:
  "case elapsed_parts now timestamp of (h, m, sec) \<Rightarrow>
     h * 3600 + m * 60 + sec = max 0 (now div 1000 - timestamp) \<and> 0 \<le> h \<and> 0 \<le> m \<and> m < 60 \<and> 0 \<le> sec \<and> sec < 60"
proof -
  define n where "n = max 0 (now div 1000 - timestamp)"
  have "n mod 60 = (n mod 3600) mod 60" by (simp add: mod_mod_cancel)
  moreover have "n div 3600 * 3600 + n mod 3600 = n" "(n mod 3600) div 60 * 60 + (n mod 3600) mod 60 = n mod 3600"
    by simp_all
  moreover have "0 \<le> n" "0 \<le> n mod 3600" "n mod 3600 < 3600" by (simp_all add: n_def)
  ultimately show ?thesis
    by (simp add: elapsed_parts_def Let_def n_def [symmetric] pos_imp_zdiv_nonneg_iff div_less_iff_less_mult)
qed

subsection \<open>Where the page goes wrong\<close>

definition apps_lost :: "InstancesState \<Rightarrow> bool" where
  "apps_lost s \<longleftrightarrow> is_appOptions s = [] \<and> if_app (is_initial s) \<noteq> [] \<and> (\<forall>f \<in> set (is_microtasks s). if_app f \<noteq> []) \<and>
     (\<forall>l \<in> set (is_candidates s). cl_query l = AppCandidates \<longrightarrow> cl_id l < is_candidateSeq s)"

lemma apps_lost_cong:
  "apps_lost s \<Longrightarrow> is_appOptions s' = is_appOptions s \<Longrightarrow> is_initial s' = is_initial s \<Longrightarrow> is_microtasks s' = is_microtasks s \<Longrightarrow>
     is_candidates s' = is_candidates s \<Longrightarrow> is_candidateSeq s \<le> is_candidateSeq s' \<Longrightarrow> apps_lost s'"
  by (fastforce simp: apps_lost_def)

lemma apps_lost_loads:
  assumes "apps_lost s"
  shows "apps_lost (fst (loadList q s))" "apps_lost (fst (loadEnvCandidates app s))" "apps_lost (fst (loadKeyCandidates app env s))"
proof -
  show "apps_lost (fst (loadList q s))"
    by (rule apps_lost_cong [OF assms]) (simp_all add: loadList_def is_start_def)
  have "apps_lost (fst (loadCandidates q s))" if "q \<noteq> AppCandidates" for q
    using assms that by (auto simp: apps_lost_def loadCandidates_def ic_start_def)
  with apps_lost_cong [OF assms] show "apps_lost (fst (loadEnvCandidates app s))" "apps_lost (fst (loadKeyCandidates app env s))"
    by (simp_all add: loadEnvCandidates_def loadKeyCandidates_def)
qed

lemma apps_lost_lists: "apps_lost s \<Longrightarrow> apps_lost (fst (applyFilter f s))" "apps_lost s \<Longrightarrow> apps_lost (fst (loadAll s))"
  by (simp_all add: applyFilter_def loadAll_def apps_lost_loads)

lemma apps_lost_first:
  \<comment> \<open>the request for the environments follows at once and takes the next number\<close>
  assumes "apps_lost s" and "if_app f \<noteq> []"
  shows "apps_lost (fst (first_loads f s))"
proof -
  have "apps_lost (fst (loadEnvCandidates (if_app f) (fst (ins_loadApps s))))"
    using assms by (auto simp: apps_lost_def ins_loadApps_def loadEnvCandidates_def loadCandidates_def ic_start_def)
  then show ?thesis
    using assms(2) by (simp add: first_loads_def bind_effects_def only_if_def case_prod_unfold apps_lost_loads apps_lost_lists)
qed

lemma apps_lost_step:
  assumes "apps_lost s" and "\<forall>f. e \<noteq> IsNavigate f"
  shows "apps_lost (fst (instances_step s e))"
proof -
  note same = apps_lost_cong [OF assms(1)]
  have "apps_lost (is_loaded i out s)" for i out
    by (rule same) (simp_all add: is_loaded_def is_apply_def is_settle_def split: sum.split)
  moreover have "apps_lost (ic_loaded i out s)" for i out
  proof (cases "i < length (is_candidates s)")
    case True
    let ?l = "is_candidates s ! i"
    have "cl_query ?l \<noteq> AppCandidates \<or> cl_id ?l \<noteq> is_candidateSeq s"
      using assms(1) nth_mem [OF True] by (auto simp: apps_lost_def)
    with assms(1) True set_remove_at [of i "is_candidates s"] show ?thesis
      by (auto simp: ic_loaded_def ic_apply_def ic_settle_def set_options_def apps_lost_def split: sum.split CandidateQuery.split)
  qed (simp add: ic_loaded_def assms)
  moreover have "apps_lost (dr_loaded i out s)" for i out
    by (rule same) (simp_all add: dr_loaded_def dr_settle_def Let_def split: sum.split)
  moreover have "apps_lost (fst (is_controls s e))"
    using assms(1) by (cases e) (simp_all add: is_controls_def is_typeApp_def is_chooseApp_def is_typeEnv_def is_chooseEnv_def
        handleFilter_def handleRefreshAll_def handleLoadDetail_def dr_start_def apps_lost_loads apps_lost_lists same)
  moreover have "apps_lost (fst (is_microtask s))"
  proof (cases "is_microtasks s")
    case (Cons f rest)
    with assms(1) have "apps_lost (s\<lparr>is_microtasks := rest\<rparr>)" "if_app f \<noteq> []" by (simp_all add: apps_lost_def)
    with Cons apps_lost_first show ?thesis by (simp add: is_microtask_def)
  qed (simp add: is_microtask_def assms)
  ultimately have "apps_lost (fst (is_handle s e))"
    using assms same by (cases e) (simp_all add: is_handle_def)
  moreover have "apps_lost (is_commit s')" if "apps_lost s'" for s'
    using that by (simp add: apps_lost_def is_commit_def Let_def)
  ultimately show ?thesis by (simp add: instances_step_def case_prod_unfold)
qed

text \<open>Opened for an application, the page never offers any application to choose from, whatever is done
  on it and whatever is answered: the request for the applications is overtaken by the one for the
  environments, which takes the next number of the same sequence.\<close>

theorem instances_apps_never_offered:
  assumes "if_app f \<noteq> []" and "\<forall>g. IsNavigate g \<notin> set es"
  shows "is_appOptions (after instances_step (initInstances f) es) = []"
proof -
  have "apps_lost (after instances_step (initInstances f) es)"
    using assms(2)
  proof (induction es rule: rev_induct)
    case Nil
    with assms(1) show ?case by (simp add: apps_lost_def initInstances_def)
  next
    case (snoc e es)
    then have "apps_lost (after instances_step (initInstances f) es)" "\<forall>f. e \<noteq> IsNavigate f" by auto
    then show ?case unfolding after_snoc by (rule apps_lost_step)
  qed
  then show ?thesis by (simp add: apps_lost_def)
qed

text \<open>Two addresses whose parameters join to the same key are not told apart: after a change from one to
  the other the fields of the filter still show the first, while the list asked for is the one of
  the second.\<close>

theorem instances_key_collision:
  assumes "s = after instances_step (initInstances f) [IsMount, IsMicrotask, IsNavigate g, IsMicrotask]" and "page_key g = page_key f" "g \<noteq> f"
    and "if_app g \<noteq> []" "if_env g \<noteq> []" "if_key g \<noteq> []"
  shows "is_app s = if_app f \<and> is_env s = if_env f \<and> is_key s = if_key f \<and> is_lastQuery s = Filtered g"
proof -
  have keys: "instances_loadKey f \<noteq> instances_loadKey g" "instances_loadKey x \<noteq> []" for x
  proof -
    let ?j = "\<lambda>f. JObj [(''initialApp'', JStr (if_app f)), (''initialEnv'', JStr (if_env f)), (''initialKey'', JStr (if_key f))]"
    have wf: "json_wf (?j x)" for x :: InstanceFilter by simp
    show "instances_loadKey f \<noteq> instances_loadKey g"
    proof
      assume "instances_loadKey f = instances_loadKey g"
      then have "Some (?j f) = Some (?j g)" using wf unfolding instances_loadKey_def by (metis json_parse_stringify)
      with assms(3) show False by simp
    qed
    show "instances_loadKey x \<noteq> []" by (simp add: instances_loadKey_def)
  qed
  let ?h = "\<lambda>s e. fst (instances_step s e)"
  let ?s1 = "?h (initInstances f) IsMount"
  have s1: "is_microtasks ?s1 = [f]" "is_initial ?s1 = f" "is_mounted ?s1" "is_lastLoadKey ?s1 = instances_loadKey f"
      "is_app ?s1 = if_app f" "is_env ?s1 = if_env f" "is_key ?s1 = if_key f"
    using keys(2) [THEN not_sym] by (simp_all add: instances_step_def is_handle_def initInstances_def is_commit_def Let_def)
  have micro: "is_microtasks (?h s IsMicrotask) = rest \<and> is_initial (?h s IsMicrotask) = is_initial s \<and> is_mounted (?h s IsMicrotask) \<and>
      is_lastLoadKey (?h s IsMicrotask) = is_lastLoadKey s \<and> is_app (?h s IsMicrotask) = is_app s \<and> is_env (?h s IsMicrotask) = is_env s \<and>
      is_key (?h s IsMicrotask) = is_key s \<and> (if_app x \<noteq> [] \<and> if_env x \<noteq> [] \<and> if_key x \<noteq> [] \<longrightarrow> is_lastQuery (?h s IsMicrotask) = Filtered x)"
    if "is_microtasks s = x # rest" "is_mounted s" "is_lastLoadKey s = instances_loadKey (is_initial s)" for s x rest
    using that by (simp add: instances_step_def is_handle_def is_microtask_def first_loads_def bind_effects_def only_if_def ins_loadApps_def
        loadEnvCandidates_def loadKeyCandidates_def loadCandidates_def ic_start_def applyFilter_def loadAll_def loadList_def is_start_def
        case_prod_unfold is_commit_def Let_def)
  let ?s2 = "?h ?s1 IsMicrotask"
  note s2 = micro [of ?s1 f "[]"]
  let ?s3 = "?h ?s2 (IsNavigate g)"
  have s3: "is_microtasks ?s3 = [g]" "is_initial ?s3 = g" "is_mounted ?s3" "is_lastLoadKey ?s3 = instances_loadKey g"
      "is_app ?s3 = if_app f" "is_env ?s3 = if_env f" "is_key ?s3 = if_key f"
    using s1 s2 keys(1) assms(2) by (simp_all add: instances_step_def is_handle_def is_navigate_def is_commit_def Let_def)
  have "s = ?h ?s3 IsMicrotask" unfolding assms(1) by (simp only: run_Cons run.simps(1) fst_conv)
  with micro [of ?s3 g "[]"] s3 assms(4-6) show ?thesis by simp
qed

subsection \<open>Witnesses\<close>

definition demo_filter :: "string \<Rightarrow> string \<Rightarrow> string \<Rightarrow> InstanceFilter" where
  "demo_filter a e k = \<lparr>if_app = a, if_env = e, if_key = k\<rparr>"

definition demo_row :: Instance where
  "demo_row = \<lparr>in_id = Some ''i'', in_clientId = None, in_agentId = None, in_clientIp = None, in_targets = None, in_health = None,
     in_lastRenewTimestamp = None\<rparr>"

definition demo_list :: "failure + InstancesResponse option" where
  "demo_list = Inr (Some \<lparr>ir_instances = Some [demo_row]\<rparr>)"

definition demo_apps :: "failure + CandidateAnswer option" where
  "demo_apps = Inr (Some (AppsAnswer \<lparr>ar_apps = Some [\<lparr>am_id = ''a'', am_description = None, am_createdAt = None, am_creator = None,
     am_owner = None\<rparr>], ar_hasMore = None, ar_nextSeek = None\<rparr>))"

definition demo_instances_start :: InstancesState where
  "demo_instances_start = after instances_step (initInstances (demo_filter [] [] [])) [IsMount, IsMicrotask]"

definition demo_instances_asked :: InstancesState where
  "demo_instances_asked = after instances_step (initInstances (demo_filter [] [] [])) [IsMount, IsMicrotask, IsLoaded 0 demo_list, IsDetail 0]"

lemma instances_loadKey_nonempty [simp]: "[] \<noteq> instances_loadKey f"
  by (simp add: instances_loadKey_def)

lemmas instances_eval = instances_step_def is_handle_def initInstances_def demo_filter_def is_commit_def is_microtask_def first_loads_def
  bind_effects_def only_if_def ins_loadApps_def loadEnvCandidates_def loadKeyCandidates_def loadCandidates_def ic_start_def
  applyFilter_def loadAll_def loadList_def is_start_def is_loaded_def is_apply_def is_settle_def ic_loaded_def ic_apply_def ic_settle_def
  remove_at_def deref_def set_options_def candidate_options_def ins_uniqueStrings_def js_set_of_def js_set_add_def is_controls_def
  is_tableShown_def instance_id_def opt_str_or_def handleLoadDetail_def dr_start_def reportError_def Let_def demo_list_def demo_apps_def
  demo_row_def demo_instances_start_def demo_instances_asked_def initError_def

lemma demo_instances_facts:
  "0 < length (is_loads demo_instances_start)" "0 < length (is_candidates demo_instances_start)"
  "is_instances (fst (instances_step demo_instances_start (IsLoaded 0 demo_list))) \<noteq> is_instances demo_instances_start"
  "is_appOptions (fst (instances_step demo_instances_start (IsCandidates 0 demo_apps))) \<noteq> is_appOptions demo_instances_start"
  "is_mounted demo_instances_asked" "\<not> is_loading demo_instances_asked" "is_details demo_instances_asked \<noteq> []"
  by (simp_all add: instances_eval)

theorem instances_response_current_witness:
  "il_query (is_loads demo_instances_start ! 0) = is_lastQuery demo_instances_start \<and>
   cl_query (is_candidates demo_instances_start ! 0) = is_lastCandidate demo_instances_start"
  using instances_response_current [OF demo_instances_start_def, of 0 demo_list 0 demo_apps] demo_instances_facts(1-4) by blast

theorem instances_detail_dropped_witness:
  "is_detail (after instances_step demo_instances_asked (IsRefresh # map (\<lambda>(i, out). IsDetailLoaded i out) [(0, Inr (Some (JNum 1)))])) = Some JNull"
  by (rule instances_detail_dropped [OF demo_instances_asked_def demo_instances_facts(5,6) _ refl, THEN conjunct1]) simp

theorem instances_apps_never_offered_witness:
  "is_appOptions (after instances_step (initInstances (demo_filter ''a'' [] [])) [IsMount, IsMicrotask, IsCandidates 0 demo_apps]) = []"
  by (rule instances_apps_never_offered) (simp_all add: demo_filter_def)

theorem instances_key_collision_witness:
  "is_app (after instances_step (initInstances (demo_filter ''a/b'' ''c'' ''k'')) [IsMount, IsMicrotask, IsNavigate (demo_filter ''a'' ''b/c'' ''k''), IsMicrotask]) = ''a/b''"
  using instances_key_collision [OF refl, of "demo_filter ''a'' ''b/c'' ''k''" "demo_filter ''a/b'' ''c'' ''k''"]
  by (simp add: demo_filter_def page_key_def del: run.simps)

end
