(* ===== verification/Auth.thy ===== *)
theory Auth
  imports Feedback
begin

section \<open>Signing in: \<open>auth/AuthProvider.tsx\<close>, \<open>auth/RequireAuth.tsx\<close>, \<open>auth/LoginPage.tsx\<close>, \<open>layout/AppShell.tsx\<close>\<close>

text \<open>
  The session in React's state and in the browser's storage, the guard that sends a visitor
  without a session to the login page with the place they came from, and the login page that
  returns them there. The router's matching of an address against the patterns of \<open>routes\<close> is a
  package's: it is the parameter \<open>route\<close>, which gives the matching element, or \<open>None\<close> where only the
  pattern \<open>*\<close> matches. An address is the path with its query and fragment.

  The facts: a page behind the guard is shown only with a session in the state; signing in returns
  to the address asked for; signing out clears both copies. A response that rejects the session
  clears the storage only, and the guard does not see it. Responses go through \<open>apiRequest\<close>.
\<close>

subsection \<open>State\<close>

datatype route_kind = LoginRoute | GuardedPage string | GuardedGuideRedirect | GuardedTopologyRedirect

definition routes :: "(string \<times> route_kind) list" where
  \<comment> \<open>every entry but the first is a child of \<open>RequireAuth\<close>\<close>
  "routes =
     [(''/login'', LoginRoute),
      (''/'', GuardedGuideRedirect),
      (''/dashboard'', GuardedGuideRedirect),
      (''/docs'', GuardedPage ''DocsPage''),
      (''/apps'', GuardedPage ''AppsPage''),
      (''/apps/:appId/envs'', GuardedPage ''EnvsPage''),
      (''/apps/:appId/envs/:env/elements'', GuardedPage ''ElementsPage''),
      (''/apps/:appId/envs/:env/elements/:key/publish'', GuardedPage ''PublishWizardPage''),
      (''/apps/:appId/envs/:env/elements/:key/rollback'', GuardedPage ''RollbackWizardPage''),
      (''/apps/:appId/envs/:env/elements/:key'', GuardedPage ''ElementDetailPage''),
      (''/users'', GuardedPage ''UsersPage''),
      (''/settings'', GuardedPage ''SettingsPage''),
      (''/cluster/agents'', GuardedTopologyRedirect),
      (''/cluster/topology'', GuardedPage ''AgentsPage''),
      (''/cluster/instances'', GuardedPage ''InstancesPage'')]"

type_synonym router = "string \<Rightarrow> route_kind option"

record LoginData =
  ld_session :: string
  ld_user :: json

record AuthState =
  au_storage :: storage
  au_session :: string
  au_user :: json
  au_address :: string
  au_from :: "string option"
  au_account :: string
  au_password :: string
  au_logins :: "string list"

definition openApp :: "storage \<Rightarrow> string \<Rightarrow> AuthState" where
  "openApp st address = (case getStoredUser st of (user, st') \<Rightarrow>
     \<lparr>au_storage = st', au_session = getSession st, au_user = user, au_address = address, au_from = None,
      au_account = [], au_password = [], au_logins = []\<rparr>)"

subsection \<open>The guard\<close>

definition docsPath :: string where
  "docsPath = ''/docs''"

definition loginPath :: string where
  "loginPath = ''/login''"

definition navigate :: "string \<Rightarrow> string option \<Rightarrow> AuthState \<Rightarrow> AuthState" where
  "navigate address from s = s\<lparr>au_address := address, au_from := from\<rparr>"

definition RequireAuth :: "AuthState \<Rightarrow> AuthState" where
  \<comment> \<open>rendered around every page behind the guard\<close>
  "RequireAuth s = (if au_session s = [] then navigate loginPath (Some (au_address s)) s else s)"

definition address_rest :: "string \<Rightarrow> string" where
  \<comment> \<open>the query and the fragment\<close>
  "address_rest address = dropWhile (\<lambda>c. c \<noteq> CHR ''?'' \<and> c \<noteq> CHR ''#'') address"

definition GuideRedirect :: "AuthState \<Rightarrow> AuthState" where
  "GuideRedirect s = navigate (docsPath @ address_rest (au_address s)) None s"

definition render_route :: "router \<Rightarrow> AuthState \<Rightarrow> AuthState" where
  \<comment> \<open>the guide and the topology page are behind the guard themselves\<close>
  "render_route route s = (case route (au_address s) of
       Some LoginRoute \<Rightarrow> s
     | Some (GuardedPage _) \<Rightarrow> RequireAuth s
     | Some GuardedGuideRedirect \<Rightarrow> if au_session s = [] then RequireAuth s else GuideRedirect s
     | Some GuardedTopologyRedirect \<Rightarrow>
         if au_session s = [] then RequireAuth s else navigate ''/cluster/topology'' None s
     | None \<Rightarrow> RequireAuth (GuideRedirect s))"

subsection \<open>The login page and the provider\<close>

definition redirectTo :: "AuthState \<Rightarrow> string" where
  "redirectTo s = (case au_from s of Some from \<Rightarrow> if js_trim from \<noteq> [] then from else docsPath | None \<Rightarrow> docsPath)"

definition login :: "AuthState \<Rightarrow> AuthState \<times> effect list" where
  "login s = (s\<lparr>au_logins := au_logins s @ [redirectTo s]\<rparr>,
     [Request ''/api/account/login''
       (jsonBody (JObj [(''account'', JStr (au_account s)), (''password'', JStr (au_password s))]))])"

definition logged_in :: "Translator \<Rightarrow> nat \<Rightarrow> LoginData fetched \<Rightarrow> AuthState \<Rightarrow> AuthState \<times> effect list" where
  \<comment> \<open>\<open>login\<close> after its \<open>await\<close>, and the \<open>catch\<close> of \<open>submit\<close>\<close>
  "logged_in t i f s =
     (if i < length (au_logins s) then
        (let target = au_logins s ! i; (outcome, st) = apiRequest (au_storage s) f;
             s' = s\<lparr>au_logins := remove_at i (au_logins s), au_storage := st\<rparr> in
         case deref outcome of
           Inl err \<Rightarrow> (s', [ShowToast (getErrorMessage err (t ''common.loginFailed'' [])) Error])
         | Inr d \<Rightarrow>
             (navigate (str_or target docsPath) None
               (s'\<lparr>au_storage := storeSession (ld_session d) (ld_user d) (au_storage s'),
                   au_session := ld_session d, au_user := ld_user d\<rparr>), []))
      else (s, []))"

definition page_response :: "json fetched \<Rightarrow> AuthState \<Rightarrow> AuthState" where
  \<comment> \<open>what the answer to a request of some page does to the session\<close>
  "page_response f s = s\<lparr>au_storage := snd (apiRequest (au_storage s) f)\<rparr>"

definition logout :: "AuthState \<Rightarrow> AuthState" where
  "logout s = navigate loginPath None
     (s\<lparr>au_storage := clearSession (au_storage s), au_session := [], au_user := JNull\<rparr>)"

subsection \<open>The step function\<close>

datatype AuthEvent =
    AuVisit string
  | AuAccount string
  | AuPassword string
  | AuSubmit
  | AuLoggedIn nat "LoginData fetched"
  | AuLogout
  | AuResponse "json fetched"

definition guarded :: "route_kind option \<Rightarrow> bool" where
  "guarded r = (case r of Some (GuardedPage _) \<Rightarrow> True | _ \<Rightarrow> False)"

definition auth_handle ::
  "router \<Rightarrow> Translator \<Rightarrow> AuthState \<Rightarrow> AuthEvent \<Rightarrow> AuthState \<times> effect list" where
  "auth_handle route t s e = (case e of
       AuVisit address \<Rightarrow> (navigate address None s, [])
     | AuAccount v \<Rightarrow> if route (au_address s) = Some LoginRoute then (s\<lparr>au_account := v\<rparr>, []) else (s, [])
     | AuPassword v \<Rightarrow> if route (au_address s) = Some LoginRoute then (s\<lparr>au_password := v\<rparr>, []) else (s, [])
     | AuSubmit \<Rightarrow>
         if route (au_address s) = Some LoginRoute \<and> au_account s \<noteq> [] \<and> au_password s \<noteq> [] then login s else (s, [])
     | AuLoggedIn i f \<Rightarrow> logged_in t i f s
     | AuLogout \<Rightarrow> if guarded (route (au_address s)) then (logout s, []) else (s, [])
     | AuResponse f \<Rightarrow> (page_response f s, []))"

definition leave_login :: "router \<Rightarrow> AuthState \<Rightarrow> AuthState" where
  \<comment> \<open>the fields of the form are the login page's and are lost with it\<close>
  "leave_login route s = (if route (au_address s) = Some LoginRoute then s else s\<lparr>au_account := [], au_password := []\<rparr>)"

definition auth_step ::
  "router \<Rightarrow> Translator \<Rightarrow> AuthState \<Rightarrow> AuthEvent \<Rightarrow> AuthState \<times> effect list" where
  "auth_step route t s e = (let (s', efs) = auth_handle route t s e in (render_route route (leave_login route s'), efs))"

definition login_view :: "Translator \<Rightarrow> AuthState \<Rightarrow> ui list" where
  "login_view t s =
     [UText ''CASSEM'', UHeading (t ''common.configurationCenter'' []), UText (t ''common.signInDescription'' []),
      UInput (t ''common.account'' []) (au_account s) False [], UInput (t ''common.password'' []) (au_password s) False [],
      UButton (t ''common.login'' []) False]"

subsection \<open>The shell\<close>

datatype nav_item = NavPage string string | NavGroup string "(string \<times> string) list"

definition nav :: "nav_item list" where
  "nav = [NavPage ''common.guide'' ''/docs'', NavPage ''common.apps'' ''/apps'', NavPage ''common.users'' ''/users'',
     NavGroup ''common.cluster''
       [(''common.topology'', ''/cluster/topology''), (''common.instances'', ''/cluster/instances'')],
     NavPage ''common.settings'' ''/settings'']"

record ShellState =
  sh_mobileOpen :: bool
  sh_desktopCollapsed :: bool
  sh_clusterExpanded :: bool
  sh_accountOpen :: bool

definition initShell :: ShellState where
  "initShell = \<lparr>sh_mobileOpen = False, sh_desktopCollapsed = False, sh_clusterExpanded = False, sh_accountOpen = False\<rparr>"

definition drawerWidth :: "bool \<Rightarrow> ShellState \<Rightarrow> nat" where
  "drawerWidth isDesktop s = (if isDesktop then (if sh_desktopCollapsed s then 88 else 248) else 248)"

definition accountLabel :: "Translator \<Rightarrow> User option \<Rightarrow> string" where
  "accountLabel t user = (case user of
       Some u \<Rightarrow> opt_str_or (us_nickname u) (str_or (us_account u) (t ''common.signedIn'' []))
     | None \<Rightarrow> t ''common.signedIn'' [])"

definition rolesLabel :: "User option \<Rightarrow> string" where
  "rolesLabel user = (case user of
       Some u \<Rightarrow> (case us_roles u of Some (r # rs) \<Rightarrow> join '', '' (r # rs) | _ \<Rightarrow> ''-'')
     | None \<Rightarrow> ''-'')"

definition selectedPath :: "string \<Rightarrow> string \<Rightarrow> bool" where
  "selectedPath pathname itemPath = (pathname = itemPath \<or> js_startsWith pathname (itemPath @ ''/''))"

definition clusterSelected :: "string \<Rightarrow> bool" where
  "clusterSelected pathname = (selectedPath pathname ''/cluster/topology'' \<or> selectedPath pathname ''/cluster/instances'')"

datatype ShellEvent = ShToggleDrawer | ShNavClick | ShGroupClick bool | ShCloseDrawer | ShAccountOpen | ShAccountClose | ShLogout

definition shell_step :: "bool \<Rightarrow> ShellState \<Rightarrow> ShellEvent \<Rightarrow> ShellState" where
  \<comment> \<open>the argument of \<open>ShGroupClick\<close> is the \<open>collapsed\<close> of the drawer that was clicked\<close>
  "shell_step isDesktop s e = (case e of
       ShToggleDrawer \<Rightarrow>
         if isDesktop then s\<lparr>sh_desktopCollapsed := \<not> sh_desktopCollapsed s\<rparr> else s\<lparr>sh_mobileOpen := True\<rparr>
     | ShNavClick \<Rightarrow> s\<lparr>sh_mobileOpen := False\<rparr>
     | ShGroupClick collapsed \<Rightarrow>
         if collapsed then s\<lparr>sh_mobileOpen := False\<rparr> else s\<lparr>sh_clusterExpanded := \<not> sh_clusterExpanded s\<rparr>
     | ShCloseDrawer \<Rightarrow> s\<lparr>sh_mobileOpen := False\<rparr>
     | ShAccountOpen \<Rightarrow> s\<lparr>sh_accountOpen := True\<rparr>
     | ShAccountClose \<Rightarrow> s\<lparr>sh_accountOpen := False\<rparr>
     | ShLogout \<Rightarrow> s\<lparr>sh_accountOpen := False\<rparr>)"

definition drawer_links :: "Translator \<Rightarrow> ShellState \<Rightarrow> bool \<Rightarrow> ui list" where
  \<comment> \<open>\<open>renderDrawerContent\<close>: a collapsed drawer shows the pages of a group in place\<close>
  "drawer_links t s collapsed = concat (map (\<lambda>item. case item of
       NavPage l p \<Rightarrow> [ULink (t l []) p]
     | NavGroup l children \<Rightarrow>
         UButton (t l []) False #
         (if collapsed \<or> sh_clusterExpanded s then map (\<lambda>(cl, cp). ULink (t cl []) cp) children else [])) nav)"

definition account_menu :: "Translator \<Rightarrow> User option \<Rightarrow> ShellState \<Rightarrow> ui list" where
  "account_menu t user s =
     (if sh_accountOpen s then
        [UText (accountLabel t user),
         UText (case user of Some u \<Rightarrow> str_or (us_account u) ''-'' | None \<Rightarrow> ''-''),
         UText (t ''common.roles'' [(''roles'', PStr (rolesLabel user))]),
         UText (t ''common.status'' [(''status'', PStr (t
           (case user of Some u \<Rightarrow> if us_status u = Some 1 then ''common.disabled'' else ''common.normal''
            | None \<Rightarrow> ''common.normal'') []))]),
         UButton (t ''common.logout'' []) False] else [])"

subsection \<open>Facts\<close>

definition router_ok :: "router \<Rightarrow> bool" where
  \<comment> \<open>what is used of the router's matching: the two fixed addresses, with any query or fragment\<close>
  "router_ok route \<longleftrightarrow> route loginPath = Some LoginRoute \<and> guarded (route ''/cluster/topology'') \<and>
     (\<forall>rest. rest = [] \<or> hd rest = CHR ''?'' \<or> hd rest = CHR ''#'' \<longrightarrow> guarded (route (docsPath @ rest)))"

definition au_guarded :: "router \<Rightarrow> AuthState \<Rightarrow> bool" where
  "au_guarded route s \<longleftrightarrow> (guarded (route (au_address s)) \<longrightarrow> au_session s \<noteq> [])"

lemma address_rest_start: "address_rest a = [] \<or> hd (address_rest a) = CHR ''?'' \<or> hd (address_rest a) = CHR ''#''"
  using hd_dropWhile [of "\<lambda>c. c \<noteq> CHR ''?'' \<and> c \<noteq> CHR ''#''" a] by (auto simp: address_rest_def)

lemma getItem_user_clear: "getItem (clearSession st) userKey = None"
  by (simp add: getItem_def clearSession_def removeItem_def)

lemma navigate_simps [simp]:
  "au_address (navigate a f s) = a" "au_from (navigate a f s) = f" "au_session (navigate a f s) = au_session s"
  "au_storage (navigate a f s) = au_storage s" "au_logins (navigate a f s) = au_logins s" "au_user (navigate a f s) = au_user s"
  by (simp_all add: navigate_def)

lemma leave_login_simps [simp]:
  "au_address (leave_login route s) = au_address s" "au_session (leave_login route s) = au_session s"
  "au_storage (leave_login route s) = au_storage s" "au_logins (leave_login route s) = au_logins s"
  "au_user (leave_login route s) = au_user s" "au_from (leave_login route s) = au_from s"
  by (simp_all add: leave_login_def)

lemma guarded_simps [simp]: "guarded (Some (GuardedPage p))" "\<not> guarded (Some LoginRoute)" "\<not> guarded None"
  by (simp_all add: guarded_def)

lemma guarded_cases: "guarded r \<Longrightarrow> \<exists>p. r = Some (GuardedPage p)"
  by (auto simp: guarded_def split: option.splits route_kind.splits)

lemma RequireAuth_guarded: "router_ok route \<Longrightarrow> au_guarded route (RequireAuth s)"
  by (simp add: RequireAuth_def au_guarded_def router_ok_def)

lemma render_route_guarded:
  assumes "router_ok route"
  shows "au_guarded route (render_route route s)"
proof (cases "route (au_address s)")
  case None
  with assms show ?thesis by (simp add: render_route_def RequireAuth_guarded)
next
  case (Some k)
  show ?thesis
  proof (cases k)
    case LoginRoute
    with Some show ?thesis by (simp add: render_route_def au_guarded_def)
  next
    case (GuardedPage p)
    with Some assms show ?thesis by (simp add: render_route_def RequireAuth_guarded)
  next
    case GuardedGuideRedirect
    with Some assms show ?thesis
      by (cases "au_session s = []") (simp add: render_route_def RequireAuth_guarded, simp add: render_route_def au_guarded_def GuideRedirect_def)
  next
    case GuardedTopologyRedirect
    with Some assms show ?thesis
      by (cases "au_session s = []") (simp add: render_route_def RequireAuth_guarded, simp add: render_route_def au_guarded_def)
  qed
qed

interpretation auth: guarded_component "auth_step route t" "\<lambda>s. \<exists>st a. router_ok route \<and> s = render_route route (openApp st a)"
  "\<lambda>s. router_ok route \<and> au_guarded route s" "\<lambda>s x. True" for route t
  by unfold_locales (auto simp: render_route_guarded auth_step_def Let_def case_prod_unfold)

subsection \<open>Properties\<close>

text \<open>C15: From whatever is in the storage when the application is opened and whatever happens after, a
  page behind the guard is shown only while the state holds a session.\<close>

theorem guarded_needs_session:
  assumes "router_ok route" and "s = after (auth_step route t) (render_route route (openApp st a)) es"
    and "guarded (route (au_address s))"
  shows "au_session s \<noteq> []"
  using auth.inv_reachable [of route "render_route route (openApp st a)" t es] assms by (auto simp: au_guarded_def)

lemma login_page_steps:
  assumes "route (au_address s) = Some LoginRoute"
  shows "auth_step route t s (AuAccount v) = (s\<lparr>au_account := v\<rparr>, [])"
    and "auth_step route t s (AuPassword v) = (s\<lparr>au_password := v\<rparr>, [])"
    and "au_account s \<noteq> [] \<Longrightarrow> au_password s \<noteq> [] \<Longrightarrow> auth_step route t s AuSubmit = login s"
  using assms by (simp_all add: auth_step_def auth_handle_def leave_login_def render_route_def login_def)

text \<open>C18: A visitor without a session who asks for a page behind the guard is sent to the login page,
  and signing in takes them to the address they asked for, with its query and fragment, the session
  being in the state and in the storage.\<close>

theorem login_returns:
  assumes "router_ok route" and "guarded (route address)" and "js_trim address \<noteq> []"
    and "au_session s = []" and "au_logins s = []" and "ld_session d \<noteq> []"
    and "f = Fetched status (Payload p)" and "200 \<le> status" "status \<le> 299" and "errcode p = Some 0" and "data p = Some d"
    and "s1 = after (auth_step route t) s [AuVisit address]"
    and "s2 = after (auth_step route t) s1 [AuAccount acc, AuPassword pw, AuSubmit, AuLoggedIn 0 f]"
    and "acc \<noteq> []" and "pw \<noteq> []"
  shows "au_address s1 = loginPath \<and> au_address s2 = address \<and> au_session s2 = ld_session d \<and>
    getSession (au_storage s2) = ld_session d"
proof -
  obtain q where q: "route address = Some (GuardedPage q)" using guarded_cases [OF assms(2)] by blast
  have login: "route loginPath = Some LoginRoute" using assms(1) by (simp add: router_ok_def)
  have nonempty: "address \<noteq> []" using assms(3) by auto
  have ok: "deref (fst (apiRequest st f)) = Inr d" for st
    using assms(7-11) by (simp add: apiRequest_def finish_response_def response_ok_def deref_def Let_def)
  have s1: "au_address s1 = loginPath" "au_from s1 = Some address" "au_logins s1 = []" "au_session s1 = []"
    using assms(4,5) q unfolding assms(12)
    by (simp_all add: auth_step_def auth_handle_def render_route_def RequireAuth_def Let_def)
  let ?s = "s1\<lparr>au_account := acc, au_password := pw, au_logins := [address]\<rparr>"
  have "redirectTo (s1\<lparr>au_account := acc, au_password := pw\<rparr>) = address" using s1 assms(3) by (simp add: redirectTo_def)
  then have "after (auth_step route t) s1 [AuAccount acc, AuPassword pw, AuSubmit] = ?s"
    using s1 login assms(14,15) by (simp add: login_page_steps login_def)
  moreover have "s2 = fst (auth_step route t (after (auth_step route t) s1 [AuAccount acc, AuPassword pw, AuSubmit]) (AuLoggedIn 0 f))"
    unfolding assms(13) using after_snoc [of "auth_step route t" s1 "[AuAccount acc, AuPassword pw, AuSubmit]"] by simp
  ultimately have "s2 = fst (auth_step route t ?s (AuLoggedIn 0 f))" by simp
  with s1(1) ok q assms(6) nonempty show ?thesis
    by (simp add: auth_step_def auth_handle_def logged_in_def render_route_def RequireAuth_def remove_at_def Let_def case_prod_unfold)
qed

text \<open>Signing out clears the session in the state and the session and the user in the storage, and
  leads to the login page.\<close>

theorem logout_clears:
  assumes "router_ok route" and "guarded (route (au_address s))" and "s' = fst (auth_step route t s AuLogout)"
  shows "au_session s' = [] \<and> au_user s' = JNull \<and> getSession (au_storage s') = [] \<and>
    getItem (au_storage s') userKey = None \<and> au_address s' = loginPath"
  using assms(1,2) unfolding assms(3)
  by (simp add: auth_step_def auth_handle_def logout_def render_route_def router_ok_def getItem_user_clear)

lemma page_response_storage:
  "au_storage (page_response f s) = (if session_rejected f then clearSession (au_storage s) else au_storage s)"
  using apiRequest_storage [of "au_storage s" f] by (simp add: page_response_def)

lemma responses_unseen:
  assumes "au_session s \<noteq> []" and "guarded (route (au_address s))"
  shows "au_session (after (auth_step route t) s (map AuResponse fs)) = au_session s \<and>
    au_address (after (auth_step route t) s (map AuResponse fs)) = au_address s \<and>
    au_storage (after (auth_step route t) s (map AuResponse fs)) =
      (if list_ex session_rejected fs then clearSession (au_storage s) else au_storage s)"
proof (induction fs rule: rev_induct)
  case (snoc f fs)
  let ?s = "after (auth_step route t) s (map AuResponse fs)"
  obtain p where p: "route (au_address s) = Some (GuardedPage p)" using guarded_cases [OF assms(2)] by blast
  have "after (auth_step route t) s (map AuResponse (fs @ [f])) = fst (auth_step route t ?s (AuResponse f))"
    by (simp only: map_append list.map after_snoc)
  moreover have "au_session (page_response f ?s) = au_session ?s" "au_address (page_response f ?s) = au_address ?s"
    by (simp_all add: page_response_def)
  ultimately show ?case
    using snoc p assms(1) page_response_storage [of f ?s]
    by (simp add: auth_step_def [of route t ?s] auth_handle_def [of route t ?s] render_route_def RequireAuth_def leave_login_def)
qed simp

text \<open>C39: While a page behind the guard is open, a response that rejects the session, and any others before and after
  it, clear the stored session but not the provider's copy: the page stays, its guard still sees a session, and
  the requests sent from then on carry no session header. This is of the responses \<open>apiRequest\<close> reads, which is all but
  that of the topology, whose page leaves for the login page by itself.\<close>

theorem expired_session_unnoticed:
  assumes "au_session s \<noteq> []" and "guarded (route (au_address s))" and "f \<in> set fs" and "session_rejected f"
    and "s' = after (auth_step route t) s (map AuResponse fs)"
  shows "RequireAuth s' = s' \<and> au_session s' = au_session s \<and> au_address s' = au_address s \<and> getSession (au_storage s') = [] \<and>
    map_of (requestHeaders (au_storage s') noInit) ''X-CASSEM-SESSION'' = None"
proof -
  have "list_ex session_rejected fs" using assms(3,4) by (auto simp: list_ex_iff)
  with responses_unseen [of s route t fs, OF assms(1,2)] show ?thesis
    using assms(1) unfolding assms(5) [symmetric]
    by (simp add: RequireAuth_def requestHeaders_def noInit_def normalizeHeaders_def map_of_upsert Let_def)
qed

subsection \<open>Witnesses\<close>

definition demo_router :: router where
  \<comment> \<open>a matcher for the fixed patterns, on the part of the address before the query and the fragment\<close>
  "demo_router address =
     (let path = takeWhile (\<lambda>c. c \<noteq> CHR ''?'' \<and> c \<noteq> CHR ''#'') address in map_of routes path)"

lemma demo_router_ok: "router_ok demo_router"
proof -
  have "takeWhile (\<lambda>c. c \<noteq> CHR ''?'' \<and> c \<noteq> CHR ''#'') (docsPath @ rest) = docsPath"
    if "rest = [] \<or> hd rest = CHR ''?'' \<or> hd rest = CHR ''#''" for rest
    using that by (cases rest) (auto simp: docsPath_def)
  moreover have "guarded (map_of routes docsPath)" "demo_router loginPath = Some LoginRoute"
    "guarded (demo_router ''/cluster/topology'')"
    by (simp_all add: demo_router_def routes_def docsPath_def loginPath_def)
  ultimately show ?thesis by (auto simp: router_ok_def demo_router_def)
qed

definition demo_login :: LoginData where
  "demo_login = \<lparr>ld_session = ''s1'', ld_user = JNull\<rparr>"

definition demo_answer :: "LoginData fetched" where
  "demo_answer = Fetched 200 (Payload \<lparr>errcode = Some 0, errmsg = None, data = Some demo_login\<rparr>)"

definition demo_visitor :: AuthState where
  "demo_visitor = render_route demo_router (openApp Map.empty ''/docs'')"

definition demo_signed_in :: AuthState where
  "demo_signed_in = after (auth_step demo_router (\<lambda>k ps. k)) demo_visitor
     [AuAccount ''a'', AuPassword ''p'', AuSubmit, AuLoggedIn 0 demo_answer]"

lemma demo_signed_in_facts:
  "au_session demo_visitor = []" "au_logins demo_visitor = []" "guarded (demo_router (au_address demo_signed_in))"
  "guarded (demo_router ''/apps?x=1'')" "js_trim ''/apps?x=1'' \<noteq> []" "au_session demo_signed_in \<noteq> []"
  by code_simp+

theorem guarded_needs_session_witness: "au_session demo_signed_in \<noteq> []"
  using guarded_needs_session [OF demo_router_ok demo_signed_in_def [unfolded demo_visitor_def] demo_signed_in_facts(3)] .

theorem login_returns_witness:
  "au_address (after (auth_step demo_router (\<lambda>k ps. k)) (after (auth_step demo_router (\<lambda>k ps. k)) demo_visitor [AuVisit ''/apps?x=1''])
     [AuAccount ''a'', AuPassword ''p'', AuSubmit, AuLoggedIn 0 demo_answer]) = ''/apps?x=1''"
  using login_returns [OF demo_router_ok demo_signed_in_facts(4,5,1,2), of demo_login demo_answer, OF _ demo_answer_def _ _ _ _ refl refl, of "''a''" "''p''" "\<lambda>k ps. k"]
  by (simp add: demo_login_def)

theorem logout_clears_witness: "getSession (au_storage (fst (auth_step demo_router (\<lambda>k ps. k) demo_signed_in AuLogout))) = []"
  using logout_clears [OF demo_router_ok demo_signed_in_facts(3) refl] by blast

theorem expired_session_unnoticed_witness:
  "au_session (after (auth_step demo_router (\<lambda>k ps. k)) demo_signed_in (map AuResponse [Fetched 401 Unparseable])) = au_session demo_signed_in"
proof -
  have "session_rejected (Fetched 401 Unparseable :: json fetched)" by (simp add: session_rejected_def)
  from expired_session_unnoticed [of demo_signed_in demo_router, OF demo_signed_in_facts(6,3) _ this refl, of "[Fetched 401 Unparseable]" "\<lambda>k ps. k"]
  show ?thesis by (simp del: list.map run.simps)
qed

end
