(* ===== verification/Guide.thy ===== *)
theory Guide
  imports Feedback Content Auth
begin

section \<open>The guide: \<open>docs/DocsPage.tsx\<close> and \<open>docs/examples.ts\<close>\<close>

text \<open>
  The guide is one page of five numbered sections with a table of contents, links into the console
  and examples that can be copied. The facts: every entry of the contents leads to a heading of the
  page and carries its number and title, every link of the page has a route, and the
  configuration the guide tells the reader to enter passes the validation of the elements page.
\<close>

subsection \<open>Examples\<close>

definition text_lines :: "string list \<Rightarrow> string" where
  "text_lines ls = join [CHR 0x0A] ls"

definition dq :: string where
  "dq = [CHR 0x22]"

definition sq :: string where
  "sq = [CHR 0x27]"

definition bs :: string where
  "bs = [CHR 0x5C]"

definition configurationExample :: string where
  "configurationExample = text_lines
     [''{'',
      ''  '' @ dq @ ''logLevel'' @ dq @ '': '' @ dq @ ''info'' @ dq @ '','',
      ''  '' @ dq @ ''requestTimeoutMs'' @ dq @ '': 3000,'',
      ''  '' @ dq @ ''featureEnabled'' @ dq @ '': true'',
      ''}'']"

definition httpFetchExample :: string where
  "httpFetchExample = text_lines
     [''export CASSEM_TOKEN='' @ sq @ ''TOKEN_FROM_CREATE_RESPONSE'' @ sq,
      [],
      ''curl --fail-with-body -sS --include '' @ bs,
      ''  '' @ sq @ ''http://127.0.0.1:20219/api/apps/order-service/envs/dev/elements?key=app-config'' @ sq @ '' '' @ bs,
      ''  -H '' @ dq @ ''Authorization: Bearer $CASSEM_TOKEN'' @ dq]"

definition httpResponseExample :: string where
  "httpResponseExample = text_lines
     [''HTTP/1.1 200 OK'',
      ''Content-Type: application/json'',
      ''Content-Disposition: inline'',
      ''Cache-Control: no-store'',
      ''X-CASSEM-Key: app-config'',
      ''X-CASSEM-Version: 1'',
      ''X-CASSEM-Published: true'',
      [],
      configurationExample]"

definition httpSaveExample :: string where
  "httpSaveExample = text_lines
     [''curl --fail -sS '' @ bs,
      ''  '' @ sq @ ''http://127.0.0.1:20219/api/apps/order-service/envs/dev/elements?key=app-config'' @ sq @ '' '' @ bs,
      ''  -H '' @ dq @ ''Authorization: Bearer $CASSEM_TOKEN'' @ dq @ '' '' @ bs,
      ''  --output app-config.json'']"

definition tokenLoginExample :: string where
  "tokenLoginExample = text_lines
     [''curl --fail-with-body -sS -X POST '' @ bs,
      ''  '' @ sq @ ''http://127.0.0.1:20218/api/account/login'' @ sq @ '' '' @ bs,
      ''  -H '' @ sq @ ''Content-Type: application/json'' @ sq @ '' '' @ bs,
      ''  -d '' @ sq @ ''{'' @ dq @ ''account'' @ dq @ '':'' @ dq @ ''admin@example.com'' @ dq @ '','' @ dq @ ''password'' @ dq @ '':'' @ dq @ ''YOUR_PASSWORD'' @ dq @ ''}'' @ sq]"

definition tokenCreateExample :: string where
  "tokenCreateExample = text_lines
     [''export CASSEM_SESSION='' @ sq @ ''SESSION_FROM_LOGIN_RESPONSE'' @ sq,
      [],
      ''curl --fail-with-body -sS -X POST '' @ bs,
      ''  '' @ sq @ ''http://127.0.0.1:20218/api/account/users/reader@example.com/tokens'' @ sq @ '' '' @ bs,
      ''  -H '' @ dq @ ''X-CASSEM-SESSION: $CASSEM_SESSION'' @ dq @ '' '' @ bs,
      ''  -H '' @ sq @ ''Content-Type: application/json'' @ sq @ '' '' @ bs,
      ''  -d '' @ sq @ ''{'' @ dq @ ''name'' @ dq @ '':'' @ dq @ ''order-service-dev'' @ dq @ '','' @ dq @ ''expiresInSeconds'' @ dq @ '':86400}'' @ sq]"

definition tokenListExample :: string where
  "tokenListExample = text_lines
     [''curl --fail-with-body -sS '' @ bs,
      ''  '' @ sq @ ''http://127.0.0.1:20218/api/account/users/reader@example.com/tokens?limit=100'' @ sq @ '' '' @ bs,
      ''  -H '' @ dq @ ''X-CASSEM-SESSION: $CASSEM_SESSION'' @ dq]"

definition tokenRevokeExample :: string where
  "tokenRevokeExample = text_lines
     [''export CASSEM_TOKEN_ID='' @ sq @ ''ID_FROM_CREATE_OR_LIST_RESPONSE'' @ sq,
      [],
      ''curl --fail-with-body -sS -X DELETE '' @ bs,
      ''  '' @ dq @ ''http://127.0.0.1:20218/api/account/users/reader@example.com/tokens/$CASSEM_TOKEN_ID'' @ dq @ '' '' @ bs,
      ''  -H '' @ dq @ ''X-CASSEM-SESSION: $CASSEM_SESSION'' @ dq]"

definition installExample :: string where
  "installExample = text_lines
     [''go get github.com/yeqown/cassem/sdk/go@SDK_VERSION'']"

definition localModuleExample :: string where
  "localModuleExample = text_lines
     [''go mod edit -replace=github.com/yeqown/cassem/sdk/go=/absolute/path/to/cassem/sdk/go'',
      ''go get github.com/yeqown/cassem/sdk/go'']"

definition goExample :: string where
  "goExample = text_lines
     [''package main'',
      [],
      ''import ('',
      ''    '' @ dq @ ''context'' @ dq,
      ''    '' @ dq @ ''encoding/json'' @ dq,
      ''    '' @ dq @ ''fmt'' @ dq,
      ''    '' @ dq @ ''log'' @ dq,
      ''    '' @ dq @ ''os'' @ dq,
      ''    '' @ dq @ ''os/signal'' @ dq,
      [],
      ''    cassem '' @ dq @ ''github.com/yeqown/cassem/sdk/go'' @ dq,
      '')'',
      [],
      ''type Config struct {'',
      ''    LogLevel         string '' @ ''`'' @ ''json:'' @ dq @ ''logLevel'' @ dq @ ''`'',
      ''    RequestTimeoutMs int    '' @ ''`'' @ ''json:'' @ dq @ ''requestTimeoutMs'' @ dq @ ''`'',
      ''    FeatureEnabled   bool   '' @ ''`'' @ ''json:'' @ dq @ ''featureEnabled'' @ dq @ ''`'',
      ''}'',
      [],
      ''func showConfig(element *cassem.Element) error {'',
      ''    var config Config'',
      ''    if err := json.Unmarshal(element.GetRaw(), &config); err != nil {'',
      ''        return err'',
      ''    }'',
      ''    fmt.Printf('' @ dq @ ''version=%d logLevel=%s timeout=%dms enabled=%t'' @ bs @ ''n'' @ dq @ '','',
      ''        element.GetVersion(), config.LogLevel,'',
      ''        config.RequestTimeoutMs, config.FeatureEnabled)'',
      ''    return nil'',
      ''}'',
      [],
      ''func main() {'',
      ''    if err := run(); err != nil {'',
      ''        log.Fatal(err)'',
      ''    }'',
      ''}'',
      [],
      ''func run() error {'',
      ''    ctx, stop := signal.NotifyContext(context.Background(), os.Interrupt)'',
      ''    defer stop()'',
      [],
      ''    token := os.Getenv('' @ dq @ ''CASSEM_TOKEN'' @ dq @ '')'',
      ''    if token == '' @ dq @ dq @ '' {'',
      ''        return fmt.Errorf('' @ dq @ ''set CASSEM_TOKEN to the issued access token'' @ dq @ '')'',
      ''    }'',
      [],
      ''    client, err := cassem.New('' @ dq @ ''127.0.0.1:20219'' @ dq @ '','',
      ''        cassem.WithClientID('' @ dq @ ''order-service-local-01'' @ dq @ ''),'',
      ''        cassem.WithClientIP('' @ dq @ ''127.0.0.1'' @ dq @ ''),'',
      ''        cassem.WithToken(token))'',
      ''    if err != nil {'',
      ''        return err'',
      ''    }'',
      ''    defer client.Close()'',
      [],
      ''    elements, err := client.GetElement(ctx, '' @ dq @ ''order-service'' @ dq @ '', '' @ dq @ ''dev'' @ dq @ '', '' @ dq @ ''app-config'' @ dq @ '')'',
      ''    if err != nil {'',
      ''        return err'',
      ''    }'',
      ''    if len(elements) == 0 {'',
      ''        return fmt.Errorf('' @ dq @ ''app-config not found; check app, env, key and publishing'' @ dq @ '')'',
      ''    }'',
      ''    if err := showConfig(elements[0]); err != nil {'',
      ''        return err'',
      ''    }'',
      [],
      ''    err = client.Watch(ctx, '' @ dq @ ''order-service'' @ dq @ '', '' @ dq @ ''dev'' @ dq @ '', func(next *cassem.Element) {'',
      ''        if err := showConfig(next); err != nil {'',
      ''            log.Printf('' @ dq @ ''invalid configuration: %v'' @ dq @ '', err)'',
      ''        }'',
      ''    }, '' @ dq @ ''app-config'' @ dq @ '')'',
      ''    if err != nil {'',
      ''        return err'',
      ''    }'',
      [],
      ''    <-ctx.Done()'',
      ''    return nil'',
      ''}'']"

subsection \<open>The parts of the page\<close>

definition doc_sections :: "string list" where
  "doc_sections = [''concepts'', ''quickstart'', ''consume'', ''updates'', ''faq'']"

definition doc_concepts :: "(string \<times> string option) list" where
  "doc_concepts = [(''app'', Some ''order-service''), (''env'', Some ''dev''), (''element'', Some ''app-config''), (''content'', Some ''JSON''),
     (''version'', None), (''instance'', Some ''order-service-local-01'')]"

definition doc_services :: "(string \<times> string) list" where
  "doc_services = [(''cassemadm'', ''adm''), (''cassemkv'', ''kv''), (''cassemagent'', ''agent'')]"

definition creationSteps :: "string list" where
  "creationSteps = [''app'', ''env'', ''element'', ''publish'']"

definition updateSteps :: "string list" where
  "updateSteps = [''edit'', ''verify'', ''rollback'']"

definition doc_questions :: "string list" where
  "doc_questions = [''unpublished'', ''read'', ''draft'', ''watch'', ''access'']"

definition pad_two :: "nat \<Rightarrow> string" where
  \<comment> \<open>\<open>String(number).padStart(2, '0')\<close>\<close>
  "pad_two n = replicate (2 - length (nat_str n)) (CHR ''0'') @ nat_str n"

definition copy_example :: "Translator \<Rightarrow> string \<Rightarrow> bool \<Rightarrow> string \<times> effect list" where
  \<comment> \<open>the text written to the clipboard, and the toast for the outcome\<close>
  "copy_example t code ok =
     (code, [if ok then ShowToast (t ''docs.copied'' []) Success else ShowToast (t ''docs.copyFailed'' []) Error])"

definition CodeExample :: "Translator \<Rightarrow> string \<Rightarrow> string \<Rightarrow> ui" where
  "CodeExample t title code =
     ULabelled (t ''docs.codeLabel'' [(''title'', PStr title)])
       [UText title, ULabelled (t ''docs.copyLabel'' [(''title'', PStr title)]) [UButton (t ''docs.copy'' []) False], UText code]"

record DocSection =
  ds_id :: string
  ds_number :: nat
  ds_title :: string
  ds_children :: "ui list"

definition DocSection_view :: "DocSection \<Rightarrow> ui list" where
  "DocSection_view d = UText (pad_two (ds_number d)) # UHeading (ds_title d) # ds_children d"

definition doc_alert :: "string \<Rightarrow> string \<Rightarrow> ui" where
  "doc_alert title body = ULabelled title [UText body]"

subsection \<open>The sections\<close>

definition doc_conceptsSection :: "Translator \<Rightarrow> DocSection" where
  "doc_conceptsSection t = \<lparr>ds_id = ''concepts'', ds_number = 1, ds_title = t ''docs.concepts'' [], ds_children =
     UText (t ''docs.concepts.intro'' []) #
     map (\<lambda>(key, ex). ULabelled (t (''docs.concepts.'' @ key) [])
       [UText (t (''docs.concepts.'' @ key @ ''Description'') []),
        UText (t ''docs.concepts.example'' [] @ '': '' @ opt_or ex (t ''docs.concepts.versionExample'' []))]) doc_concepts @
     [UHeading (t ''docs.concepts.services'' [])] @
     map (\<lambda>(name, key). ULabelled name [UText (t (''docs.concepts.'' @ key) [])]) doc_services @
     map (\<lambda>path. UText (t (''docs.concepts.'' @ path) [])) [''managePath'', ''readPath'', ''pushPath'']\<rparr>"

definition doc_step :: "Translator \<Rightarrow> string \<Rightarrow> ui list" where
  "doc_step t step =
     [UHeading (t (''docs.quickstart.'' @ step @ ''Title'') []), UText (t (''docs.quickstart.'' @ step @ ''Body'') [])] @
     (if step = ''element'' then [CodeExample t (t ''docs.quickstart.payload'' []) configurationExample] else []) @
     [UText (t (''docs.quickstart.'' @ step @ ''Result'') [])]"

definition doc_quickstartSection :: "Translator \<Rightarrow> DocSection" where
  "doc_quickstartSection t = \<lparr>ds_id = ''quickstart'', ds_number = 2, ds_title = t ''docs.quickstart'' [], ds_children =
     [UText (t ''docs.quickstart.intro'' []), UChips [''App: order-service'', ''Env: dev'', ''Key: app-config''],
      doc_alert (t ''docs.quickstart.before'' []) (t ''docs.quickstart.prerequisites'' [])] @
     concat (map (doc_step t) creationSteps) @
     [UText (t ''docs.quickstart.publishNote'' []), ULink (t ''docs.openApps'' []) ''/apps'']\<rparr>"

definition doc_consumeSection :: "Translator \<Rightarrow> DocSection" where
  "doc_consumeSection t =
     (let text = (\<lambda>k. UText (t (''docs.consume.'' @ k) [])); heading = (\<lambda>k. UHeading (t (''docs.consume.'' @ k) []));
          code = (\<lambda>k c. CodeExample t (t (''docs.consume.'' @ k) []) c)
      in \<lparr>ds_id = ''consume'', ds_number = 3, ds_title = t ''docs.consume'' [], ds_children =
        [text ''intro'', doc_alert (t ''docs.consume.addressTitle'' []) (t ''docs.consume.addressBody'' []),
         heading ''httpTitle'', text ''httpBody'', code ''httpCommand'' httpFetchExample, code ''httpResponse'' httpResponseExample,
         text ''httpResult'', text ''httpSaveBody'', code ''httpSaveCommand'' httpSaveExample, text ''httpErrors'',
         heading ''tokenTitle'', text ''tokenPermissions'', text ''tokenLogin'', code ''tokenLoginCommand'' tokenLoginExample,
         text ''tokenCreate'', code ''tokenCreateCommand'' tokenCreateExample,
         doc_alert (t ''docs.consume.tokenOnceTitle'' []) (t ''docs.consume.tokenOnceBody'' []),
         heading ''tokenManageTitle'', text ''tokenList'', code ''tokenListCommand'' tokenListExample,
         text ''tokenRevoke'', code ''tokenRevokeCommand'' tokenRevokeExample, text ''tokenLifecycle'',
         heading ''sdkTitle'', text ''sdkSetup'', code ''install'' installExample, text ''localModule'', code ''localCommand'' localModuleExample,
         text ''parameters'', code ''code'' goExample, text ''apply'', text ''watchNote'']\<rparr>)"

definition doc_updatesSection :: "Translator \<Rightarrow> DocSection" where
  "doc_updatesSection t = \<lparr>ds_id = ''updates'', ds_number = 4, ds_title = t ''docs.updates'' [], ds_children =
     [UText (t ''docs.updates.intro'' [])] @
     concat (map (\<lambda>step. [UHeading (t (''docs.updates.'' @ step @ ''Title'') []), UText (t (''docs.updates.'' @ step @ ''Body'') [])]) updateSteps) @
     [ULink (t ''common.instances'' []) ''/cluster/instances'', doc_alert (t ''docs.updates.grayTitle'' []) (t ''docs.updates.grayBody'' [])]\<rparr>"

definition doc_faqSection :: "Translator \<Rightarrow> DocSection" where
  "doc_faqSection t = \<lparr>ds_id = ''faq'', ds_number = 5, ds_title = t ''docs.faq'' [], ds_children =
     concat (map (\<lambda>q. [UHeading (t (''docs.faq.'' @ q @ ''Title'') []), UText (t (''docs.faq.'' @ q @ ''Body'') [])]) doc_questions)\<rparr>"

definition doc_page :: "Translator \<Rightarrow> DocSection list" where
  "doc_page t = [doc_conceptsSection t, doc_quickstartSection t, doc_consumeSection t, doc_updatesSection t, doc_faqSection t]"

definition doc_contents :: "Translator \<Rightarrow> (string \<times> string \<times> string) list" where
  \<comment> \<open>number, title and address of an entry\<close>
  "doc_contents t = map (\<lambda>(index, section). (pad_two (index + 1), t (''docs.'' @ section) [], ''/docs#'' @ section)) (enumerate 0 doc_sections)"

definition docs_focus :: "Translator \<Rightarrow> string \<Rightarrow> string option" where
  \<comment> \<open>the heading scrolled to and focused for the fragment of the address, with its leading \<open>#\<close>; only the
    headings of the sections have an identifier of their own on the page\<close>
  "docs_focus t hash = (if hash = [] then None else find (\<lambda>i. i = drop 1 hash) (map ds_id (doc_page t)))"

definition DocsPage_view :: "Translator \<Rightarrow> string \<Rightarrow> string \<Rightarrow> ui list" where
  "DocsPage_view t pathname hash =
     [AppBreadcrumbs t pathname [\<lparr>bi_label = t ''common.guide'' [], bi_to = None\<rparr>], UText (t ''common.guide'' []),
      UHeading (t ''docs.title'' []), UText (t ''docs.description'' []),
      ULink (t ''docs.start'' []) ''/docs#quickstart'', ULink (t ''docs.openApps'' []) ''/apps'',
      ULabelled (t ''docs.contents'' [])
        (concat (map (\<lambda>(n, title, address). [UText n, ULink title address] @
           (if ''/docs'' @ hash = address then [UText ''location''] else [])) (doc_contents t)))] @
     concat (map DocSection_view (doc_page t))"

subsection \<open>Properties\<close>

fun ui_links :: "ui \<Rightarrow> string list" where
  "ui_links (ULink label address) = [address]"
| "ui_links (ULabelled label us) = concat (map ui_links us)"
| "ui_links (UDialog title us) = concat (map ui_links us)"
| "ui_links (UTable hs rows) = concat (map (\<lambda>r. concat (map ui_links r)) rows)"
| "ui_links _ = []"

definition address_path :: "string \<Rightarrow> string" where
  "address_path address = takeWhile (\<lambda>c. c \<noteq> CHR ''?'' \<and> c \<noteq> CHR ''#'') address"

lemma pad_two_digits:
  "pad_two 1 = ''01''" "pad_two 2 = ''02''" "pad_two 3 = ''03''" "pad_two 4 = ''04''" "pad_two 5 = ''05''"
  by code_simp+

lemmas doc_parts = doc_page_def doc_conceptsSection_def doc_quickstartSection_def doc_consumeSection_def doc_updatesSection_def doc_faqSection_def

lemma doc_page_ids: "map ds_id (doc_page t) = doc_sections"
  by (simp add: doc_parts doc_sections_def Let_def)

text \<open>Every entry of the table of contents has the number and the title of a section, in their order, and
  following it focuses the heading of that section.\<close>

theorem guide_contents_resolve:
  "map (\<lambda>(n, title, address). (n, title)) (doc_contents t) = map (\<lambda>d. (pad_two (ds_number d), ds_title d)) (doc_page t) \<and>
   map (\<lambda>(n, title, address). docs_focus t (address_rest address)) (doc_contents t) = map (Some \<circ> ds_id) (doc_page t)"
  unfolding docs_focus_def doc_page_ids
  by (simp add: doc_contents_def doc_sections_def doc_parts Let_def address_rest_def enumerate_eq_zip upt_rec numeral_eq_Suc)

lemma doc_page_links: "concat (map (\<lambda>d. concat (map ui_links (DocSection_view d))) (doc_page t)) = [''/apps'', ''/cluster/instances'']"
  by (simp add: doc_parts DocSection_view_def Let_def doc_concepts_def doc_services_def creationSteps_def doc_step_def CodeExample_def doc_alert_def
      updateSteps_def doc_questions_def)

lemma concat_links: "concat (map f (concat (map g xs))) = concat (map (\<lambda>x. concat (map f (g x))) xs)"
  by (induction xs) simp_all

lemma doc_links:
  "concat (map ui_links (DocsPage_view t pathname hash)) =
     [''/docs#quickstart'', ''/apps''] @ map (\<lambda>(n, title, address). address) (doc_contents t) @ [''/apps'', ''/cluster/instances'']"
proof -
  have "concat (map (\<lambda>x. concat (map ui_links (case x of (n, title, address) \<Rightarrow> [UText n, ULink title address] @
      (if ''/docs'' @ hash = address then [UText ''location''] else [])))) cs) = map (\<lambda>(n, title, address). address) cs" for cs
    by (induction cs) auto
  then show ?thesis by (simp add: DocsPage_view_def AppBreadcrumbs_def concat_links doc_page_links)
qed

text \<open>Every link of the guide leads to a page of the console.\<close>

theorem guide_links_routed:
  "\<forall>address \<in> set (concat (map ui_links (DocsPage_view t pathname hash))). \<exists>page. (address_path address, GuardedPage page) \<in> set routes"
proof -
  have "address_path address \<in> {''/docs'', ''/apps'', ''/cluster/instances''}"
    if "address \<in> set (concat (map ui_links (DocsPage_view t pathname hash)))" for address
    using that unfolding doc_links by (auto simp: address_path_def doc_contents_def in_set_enumerate_eq)
  moreover have "\<exists>page. (path, GuardedPage page) \<in> set routes" if "path \<in> {''/docs'', ''/apps'', ''/cluster/instances''}" for path
    using that by (elim insertE emptyE) (simp_all add: routes_def)
  ultimately show ?thesis by blast
qed

text \<open>The configuration the quick start tells the reader to enter is the JSON object described, passes the
  validation of a JSON element, and is the body of the response the guide shows.\<close>

theorem guide_example_valid:
  "json_parse configurationExample = Some (JObj [(''logLevel'', JStr ''info''), (''requestTimeoutMs'', JNum 3000), (''featureEnabled'', JBool True)]) \<and>
   vr_valid (validateContent eng (Some (CTNum 1)) configurationExample t) \<and>
   (\<exists>headers. httpResponseExample = headers @ [CHR 0x0A, CHR 0x0A] @ configurationExample)"
proof -
  have parsed: "json_parse configurationExample =
    Some (JObj [(''logLevel'', JStr ''info''), (''requestTimeoutMs'', JNum 3000), (''featureEnabled'', JBool True)])"
    by code_simp
  moreover have "\<exists>headers. httpResponseExample = headers @ [CHR 0x0A, CHR 0x0A] @ configurationExample"
    by (simp add: httpResponseExample_def text_lines_def)
  ultimately show ?thesis by (simp add: validateContent_code validateJson_valid)
qed

end
