(* ===== verification/Page_Links.thy ===== *)
theory Page_Links
  imports Element_Detail Instances_Page Guide
begin

section \<open>From one page to another\<close>

text \<open>
  The pages hand over what they are about in the address: the detail page of an element links to the
  list of instances with the element's location in the query, and \<open>InstancesPage\<close> takes it apart
  again with \<open>useSearchParams\<close>. The parser of \<open>URLSearchParams\<close> is modelled on bytes, as the encoder is.
  The facts: parsing inverts serialising, and the link opens the list filtered by the very
  element it was on.
\<close>

subsection \<open>Parsing a query\<close>

definition hex_value :: "char \<Rightarrow> nat option" where
  "hex_value c =
     (let n = of_char c :: nat in
      if 48 \<le> n \<and> n \<le> 57 then Some (n - 48)
      else if 65 \<le> n \<and> n \<le> 70 then Some (n - 55)
      else if 97 \<le> n \<and> n \<le> 102 then Some (n - 87) else None)"

definition hex_byte :: "string \<Rightarrow> (char \<times> string) option" where
  \<comment> \<open>the byte two hexadecimal digits stand for, and what follows them\<close>
  "hex_byte s = (case s of
       a # b # r \<Rightarrow> (case (hex_value a, hex_value b) of (Some x, Some y) \<Rightarrow> Some (char_of (16 * x + y), r) | _ \<Rightarrow> None)
     | _ \<Rightarrow> None)"

lemma hex_byte_shorter: "hex_byte s = Some (c, r) \<Longrightarrow> length r < length s"
  by (auto simp: hex_byte_def split: list.splits option.splits)

function form_decode :: "string \<Rightarrow> string" where
  "form_decode [] = []"
| "form_decode (c # s) =
     (if c = CHR ''+'' then CHR '' '' # form_decode s
      else if c = CHR ''%'' then (case hex_byte s of Some (b, r) \<Rightarrow> b # form_decode r | None \<Rightarrow> c # form_decode s)
      else c # form_decode s)"
  by pat_completeness auto
termination
  by (relation "measure length") (auto dest: hex_byte_shorter)

definition parse_param :: "string \<Rightarrow> string \<times> string" where
  "parse_param piece =
     (form_decode (takeWhile (\<lambda>c. c \<noteq> CHR ''='') piece), form_decode (drop 1 (dropWhile (\<lambda>c. c \<noteq> CHR ''='') piece)))"

definition parse_params :: "string \<Rightarrow> (string \<times> string) list" where
  "parse_params query = map parse_param (filter (\<lambda>piece. piece \<noteq> []) (split_on (\<lambda>c. c = CHR ''&'') query))"

definition address_params :: "string \<Rightarrow> (string \<times> string) list" where
  \<comment> \<open>\<open>useSearchParams\<close>: the query of an address, without its fragment\<close>
  "address_params address =
     (case dropWhile (\<lambda>c. c \<noteq> CHR ''?'') (takeWhile (\<lambda>c. c \<noteq> CHR ''#'') address) of
        [] \<Rightarrow> []
      | _ # query \<Rightarrow> parse_params query)"

definition InstancesPage_filter :: "string \<Rightarrow> InstanceFilter" where
  "InstancesPage_filter address =
     (let get = (\<lambda>name. opt_str_or (map_of (address_params address) name) []) in
      \<lparr>if_app = get ''app'', if_env = get ''env'', if_key = get ''key''\<rparr>)"

subsection \<open>Parsing inverts serialising\<close>

lemma hex_value_digit: "d < 16 \<Longrightarrow> hex_value (hex_digit d) = Some d"
  by (auto simp: hex_value_def hex_digit_def Let_def)

lemma hex_byte_percent: "hex_byte (tl (percent c) @ s) = Some (c, s)"
proof -
  let ?n = "of_char c :: nat"
  have "?n div 16 < 16" "?n mod 16 < 16" using nat_of_char_less_256 [of c] by (simp_all add: less_mult_imp_div_less)
  moreover have "16 * (?n div 16) + ?n mod 16 = ?n" by simp
  ultimately show ?thesis by (simp add: hex_byte_def percent_def Let_def hex_value_digit)
qed

lemma form_decode_percent: "form_decode (percent c @ s) = c # form_decode s"
proof -
  have "percent c @ s = CHR ''%'' # tl (percent c) @ s" by (simp add: percent_def Let_def)
  then have "form_decode (percent c @ s) = form_decode (CHR ''%'' # tl (percent c) @ s)" by (rule arg_cong)
  also have "\<dots> = c # form_decode s" unfolding form_decode.simps(2) hex_byte_percent by simp
  finally show ?thesis .
qed

lemma form_decode_char: "form_decode (form_char c @ s) = c # form_decode s"
proof -
  have "c \<noteq> CHR ''+'' \<and> c \<noteq> CHR ''%''" if "is_form_safe c"
    using that by (auto simp: is_form_safe_def is_alnum_def)
  then show ?thesis by (auto simp: form_char_def form_decode_percent)
qed

lemma form_decode_encode: "form_decode (form_encode s) = s"
  unfolding form_encode_def by (induction s) (simp_all add: form_decode_char)

lemma parse_param_pair: "parse_param (form_encode k @ ''='' @ form_encode v) = (k, v)"
proof -
  have "\<forall>c \<in> set (form_encode k). c \<noteq> CHR ''=''" using form_encode_no_delim(2) [of k] by auto
  then have "takeWhile (\<lambda>c. c \<noteq> CHR ''='') (form_encode k @ ''='' @ form_encode v) = form_encode k"
    and "dropWhile (\<lambda>c. c \<noteq> CHR ''='') (form_encode k @ ''='' @ form_encode v) = ''='' @ form_encode v"
    by (simp_all add: takeWhile_append2 dropWhile_append2)
  then show ?thesis by (simp add: parse_param_def form_decode_encode)
qed

lemma parse_search_params: "parse_params (search_params kvs) = kvs"
proof (cases "kvs = []")
  case False
  let ?pieces = "map (\<lambda>(k, v). form_encode k @ ''='' @ form_encode v) kvs"
  have clean: "\<forall>piece \<in> set ?pieces. piece \<noteq> [] \<and> (\<forall>c \<in> set piece. c \<noteq> CHR ''&'')"
    using form_encode_no_delim(1) by auto
  have "split_on (\<lambda>c. c = CHR ''&'') (join ([] @ ''&'') ?pieces) = map (\<lambda>l. l @ []) (butlast ?pieces) @ [last ?pieces]"
    using False clean by (intro split_on_join) simp_all
  then have "split_on (\<lambda>c. c = CHR ''&'') (search_params kvs) = ?pieces"
    using False by (simp add: search_params_def)
  moreover have "filter (\<lambda>piece. piece \<noteq> []) ?pieces = ?pieces" using clean by (intro filter_True) blast
  ultimately show ?thesis using parse_param_pair by (simp add: parse_params_def comp_def case_prod_unfold)
qed (simp add: parse_params_def search_params_def)

subsection \<open>From the detail page to the instances\<close>

definition loc_filter :: "ElementLocation \<Rightarrow> InstanceFilter" where
  "loc_filter loc = \<lparr>if_app = lc_appId loc, if_env = lc_env loc, if_key = lc_key loc\<rparr>"

lemma join_chars: "\<forall>w \<in> set ws. c \<notin> set w \<Longrightarrow> c \<notin> set sep \<Longrightarrow> c \<notin> set (join sep ws)"
  by (induction sep ws rule: join.induct) auto

lemma search_params_no_hash: "CHR ''#'' \<notin> set (search_params kvs)"
proof -
  have "CHR ''#'' \<notin> set (form_encode s)" for s
    using form_encode_chars [of "CHR ''#''" s] by (auto simp: is_form_safe_def is_alnum_def)
  then show ?thesis unfolding search_params_def by (intro join_chars) auto
qed

lemma address_params_query:
  assumes "CHR ''?'' \<notin> set path" and "CHR ''#'' \<notin> set path"
  shows "address_params (path @ buildQuery params) = concat (map query_pairs params)"
proof -
  let ?kvs = "concat (map query_pairs params)"
  have path: "\<forall>c \<in> set path. c \<noteq> CHR ''?''" "\<forall>c \<in> set path. c \<noteq> CHR ''#''" using assms by auto
  show ?thesis
  proof (cases "search_params ?kvs = []")
    case True
    then have "?kvs = []" by (simp only: search_params_Nil_iff)
    moreover have "address_params path = []"
    proof -
      have "takeWhile (\<lambda>c. c \<noteq> CHR ''#'') path = path" using path(2) by (intro takeWhile_eq_all_conv [THEN iffD2])
      moreover have "dropWhile (\<lambda>c. c \<noteq> CHR ''?'') path = []" using path(1) by simp
      ultimately show ?thesis unfolding address_params_def by (simp only: list.case)
    qed
    ultimately show ?thesis using True by (simp only: buildQuery_def Let_def simp_thms if_True append_Nil2)
  next
    case False
    have "\<forall>c \<in> set (search_params ?kvs). c \<noteq> CHR ''#''" using search_params_no_hash [of ?kvs] by auto
    with path have "takeWhile (\<lambda>c. c \<noteq> CHR ''#'') (path @ CHR ''?'' # search_params ?kvs) = path @ CHR ''?'' # search_params ?kvs"
      by (intro takeWhile_eq_all_conv [THEN iffD2]) auto
    moreover have "dropWhile (\<lambda>c. c \<noteq> CHR ''?'') (path @ CHR ''?'' # search_params ?kvs) = CHR ''?'' # search_params ?kvs"
      using path by (simp add: dropWhile_append2)
    ultimately have "address_params (path @ CHR ''?'' # search_params ?kvs) = parse_params (search_params ?kvs)"
      unfolding address_params_def by (simp only: list.case)
    with False parse_search_params show ?thesis by (simp add: buildQuery_def Let_def)
  qed
qed

lemma detail_link_filter:
  "InstancesPage_filter (''/cluster/instances'' @ buildQuery
     [(''app'', qstr (lc_appId loc)), (''env'', qstr (lc_env loc)), (''key'', qstr (lc_key loc))]) = loc_filter loc"
proof -
  have "address_params (''/cluster/instances'' @ buildQuery
      [(''app'', qstr (lc_appId loc)), (''env'', qstr (lc_env loc)), (''key'', qstr (lc_key loc))]) =
    concat (map query_pairs [(''app'', qstr (lc_appId loc)), (''env'', qstr (lc_env loc)), (''key'', qstr (lc_key loc))])"
    by (rule address_params_query) simp_all
  then show ?thesis
    by (auto simp: InstancesPage_filter_def loc_filter_def query_pairs_def prim_str_def opt_str_or_def Let_def)
qed

lemma first_loads_filtered:
  assumes "if_app f \<noteq> []" "if_env f \<noteq> []" "if_key f \<noteq> []"
  shows "Request (listPath (Filtered f)) noInit \<in> set (snd (run instances_step (initInstances f) [IsMount, IsMicrotask]))"
proof -
  have "instances_loadKey f \<noteq> []" by (simp add: instances_loadKey_def)
  with assms show ?thesis
    by (simp add: instances_step_def is_handle_def is_commit_def initInstances_def is_microtask_def first_loads_def bind_effects_def only_if_def
        ins_loadApps_def loadEnvCandidates_def loadKeyCandidates_def loadCandidates_def applyFilter_def loadList_def ic_start_def is_start_def Let_def)
qed

subsection \<open>Properties\<close>

text \<open>A query that \<open>URLSearchParams\<close> serialises is parsed to the same names and values in the same order,
  whatever bytes they hold.\<close>

theorem query_roundtrip: "parse_params (search_params kvs) = kvs"
  by (rule parse_search_params)

text \<open>C28: Following the link to the instances on the detail page of an element opens the page of the instances
  with the element's location in its filter, and that page asks for the instances watching this
  very element, whatever characters its names contain.\<close>

theorem detail_opens_instances:
  assumes "\<not> lc_missing (ed_loc s)" and "ULink label address \<in> set (ed_instancesPanel t s)"
  shows "address_path address = ''/cluster/instances'' \<and> InstancesPage_filter address = loc_filter (ed_loc s) \<and>
    Request (listPath (Filtered (loc_filter (ed_loc s)))) noInit \<in>
      set (snd (run instances_step (initInstances (InstancesPage_filter address)) [IsMount, IsMicrotask]))"
proof -
  have address: "address = ''/cluster/instances'' @ buildQuery
      [(''app'', qstr (lc_appId (ed_loc s))), (''env'', qstr (lc_env (ed_loc s))), (''key'', qstr (lc_key (ed_loc s)))]"
    using assms(2) by (simp add: ed_instancesPanel_def)
  have link: "InstancesPage_filter address = loc_filter (ed_loc s)" unfolding address by (rule detail_link_filter)
  have "address_path address = ''/cluster/instances''"
    unfolding address by (simp add: address_path_def buildQuery_def Let_def)
  moreover have "Request (listPath (Filtered (loc_filter (ed_loc s)))) noInit \<in>
      set (snd (run instances_step (initInstances (InstancesPage_filter address)) [IsMount, IsMicrotask]))"
    unfolding link by (rule first_loads_filtered) (use assms(1) in \<open>simp_all add: lc_missing_def loc_filter_def\<close>)
  ultimately show ?thesis using link by blast
qed

theorem detail_opens_instances_witness:
  "\<exists>address. InstancesPage_filter address = \<lparr>if_app = ''a&b'', if_env = ''x=y'', if_key = ''k #1''\<rparr>"
proof -
  let ?s = "initDetail \<lparr>lc_appId = ''a&b'', lc_env = ''x=y'', lc_key = ''k #1''\<rparr>" and ?t = "\<lambda>k ps. k"
  have loc: "\<not> lc_missing (ed_loc ?s)" by (simp add: initDetail_def lc_missing_def)
  obtain label address where link: "ULink label address \<in> set (ed_instancesPanel ?t ?s)" by (simp add: ed_instancesPanel_def)
  from detail_opens_instances [OF loc link] show ?thesis by (auto simp: initDetail_def loc_filter_def)
qed

end
