(* ===== verification/Wizard_Pages.thy ===== *)
theory Wizard_Pages
  imports Publish_Wizard Rollback_Wizard
begin

section \<open>The wizards under the router: \<open>PublishWizardPage\<close> and \<open>RollbackWizardPage\<close>\<close>

text \<open>
  The two pages read the application, the environment and the key from the route and render the
  wizard with a React key joined from the three. A change of the route replaces the wizard by a new
  one when the key changes, and otherwise hands the new parameters to the wizard that is there. A
  wizard that was replaced still gets the answers to its requests.

  The facts: as long as no application and no environment has a slash in its name, each wizard is in a
  state it reaches with its own parameters alone, so that what it sends is for the element of the route and
  was reviewed there. With slashes two elements can share a key, and then a version that was reviewed
  for one is sent for the other.
\<close>

subsection \<open>A component under a key\<close>

record ('p, 's, 'e) flow =
  fl_step :: "'p \<Rightarrow> 's \<Rightarrow> 'e \<Rightarrow> 's \<times> effect list"
  fl_init :: 's
  fl_mount :: 'e
  fl_unmount :: 'e
  fl_async :: "'e \<Rightarrow> bool"

record ('p, 's) keyed_page =
  kp_props :: 'p
  kp_flow :: 's
  kp_old :: "('p \<times> 's) list"

datatype ('p, 'e) keyed_event = KRoute 'p | KRerun | KFlow 'e | KOld nat 'e

definition rerun :: "('p, 's, 'e) flow \<Rightarrow> 'p \<Rightarrow> 'p \<Rightarrow> 's \<Rightarrow> 's \<times> effect list" where
  \<comment> \<open>the cleanup of the effect and the effect again, with other parameters\<close>
  "rerun F p q f = (case fl_step F p f (fl_unmount F) of (f', x) \<Rightarrow> (case fl_step F q f' (fl_mount F) of (f'', y) \<Rightarrow> (f'', x @ y)))"

definition keyed_open :: "('p, 's, 'e) flow \<Rightarrow> 'p \<Rightarrow> ('p, 's) keyed_page" where
  "keyed_open F p = \<lparr>kp_props = p, kp_flow = fst (fl_step F p (fl_init F) (fl_mount F)), kp_old = []\<rparr>"

definition keyed_route :: "('p \<Rightarrow> string) \<Rightarrow> ('p, 's, 'e) flow \<Rightarrow> 'p \<Rightarrow> ('p, 's) keyed_page \<Rightarrow> ('p, 's) keyed_page \<times> effect list" where
  "keyed_route key F q s =
     (if q = kp_props s then (s, [])
      else if key q = key (kp_props s) then
        (case rerun F (kp_props s) q (kp_flow s) of (f, x) \<Rightarrow> (s\<lparr>kp_props := q, kp_flow := f\<rparr>, x))
      else
        (case fl_step F (kp_props s) (kp_flow s) (fl_unmount F) of (f, x) \<Rightarrow>
         case fl_step F q (fl_init F) (fl_mount F) of (f', y) \<Rightarrow>
           (\<lparr>kp_props = q, kp_flow = f', kp_old = kp_old s @ [(kp_props s, f)]\<rparr>, x @ y)))"

definition keyed_step ::
  "('p \<Rightarrow> string) \<Rightarrow> ('p, 's, 'e) flow \<Rightarrow> ('p, 's) keyed_page \<Rightarrow> ('p, 'e) keyed_event \<Rightarrow> ('p, 's) keyed_page \<times> effect list" where
  \<comment> \<open>\<open>KRerun\<close>: the effect depends on the translator too, so it runs again when the language changes\<close>
  "keyed_step key F s e = (case e of
       KRoute q \<Rightarrow> keyed_route key F q s
     | KRerun \<Rightarrow> (case rerun F (kp_props s) (kp_props s) (kp_flow s) of (f, x) \<Rightarrow> (s\<lparr>kp_flow := f\<rparr>, x))
     | KFlow d \<Rightarrow>
         if d = fl_mount F \<or> d = fl_unmount F then (s, [])
         else (case fl_step F (kp_props s) (kp_flow s) d of (f, x) \<Rightarrow> (s\<lparr>kp_flow := f\<rparr>, x))
     | KOld i d \<Rightarrow>
         if i < length (kp_old s) \<and> fl_async F d then
           (case kp_old s ! i of (p, f) \<Rightarrow> case fl_step F p f d of (f', x) \<Rightarrow> (s\<lparr>kp_old := (kp_old s)[i := (p, f')]\<rparr>, x))
         else (s, []))"

definition flow_state :: "('p, 's, 'e) flow \<Rightarrow> 'p \<Rightarrow> 's \<Rightarrow> bool" where
  "flow_state F p f \<longleftrightarrow> (\<exists>es. f = after (fl_step F p) (fl_init F) es)"

definition own_states :: "('p, 's, 'e) flow \<Rightarrow> ('p, 's) keyed_page \<Rightarrow> bool" where
  "own_states F s \<longleftrightarrow> flow_state F (kp_props s) (kp_flow s) \<and> list_all (\<lambda>(p, f). flow_state F p f) (kp_old s)"

lemma flow_state_init: "flow_state F p (fl_init F)"
  unfolding flow_state_def by (rule exI [of _ "[]"]) simp

lemma flow_state_step: "flow_state F p f \<Longrightarrow> flow_state F p (fst (fl_step F p f e))"
  unfolding flow_state_def by (metis after_snoc)

text \<open>The contract: a key that tells the parameters apart, and a component that modifies nothing by
  itself, only when one of its controls is used.\<close>

locale keyed_flow =
  fixes key :: "'p \<Rightarrow> string" and F :: "('p, 's, 'e) flow" and plain :: "'p \<Rightarrow> bool"
  assumes key_inj: "plain p \<Longrightarrow> plain q \<Longrightarrow> key p = key q \<Longrightarrow> p = q"
    and mount_quiet: "snd (fl_step F p f (fl_mount F)) = []" "snd (fl_step F p f (fl_unmount F)) = []"
    and async_quiet: "fl_async F e \<Longrightarrow> x \<in> set (snd (fl_step F p f e)) \<Longrightarrow> \<not> is_post x"
begin

lemma own_states_open: "own_states F (keyed_open F p)"
  by (simp add: own_states_def keyed_open_def flow_state_init flow_state_step)

lemma own_states_route:
  assumes "own_states F s" and "plain (kp_props s)" and "plain q"
  shows "own_states F (fst (keyed_route key F q s)) \<and> plain (kp_props (fst (keyed_route key F q s)))"
  using assms key_inj [OF assms(2,3)]
  by (auto simp: own_states_def keyed_route_def case_prod_unfold flow_state_init intro!: flow_state_step)

lemma own_states_step:
  assumes "own_states F s" and "plain (kp_props s)" and "\<And>q. e = KRoute q \<Longrightarrow> plain q"
  shows "own_states F (fst (keyed_step key F s e)) \<and> plain (kp_props (fst (keyed_step key F s e)))"
proof (cases e)
  case (KRoute q)
  with own_states_route [OF assms(1,2)] assms(3) show ?thesis by (simp add: keyed_step_def)
next
  case (KOld i d)
  then show ?thesis
    using assms(1,2)
    by (auto simp: keyed_step_def own_states_def case_prod_unfold list_all_length nth_list_update intro!: flow_state_step)
qed (use assms(1,2) in \<open>auto simp: keyed_step_def own_states_def rerun_def case_prod_unfold flow_state_step\<close>)

lemma own_states_reachable:
  assumes "plain p" and "\<forall>q. KRoute q \<in> set es \<longrightarrow> plain q"
  shows "own_states F (after (keyed_step key F) (keyed_open F p) es) \<and> plain (kp_props (after (keyed_step key F) (keyed_open F p) es))"
  using assms(2)
proof (induction es rule: rev_induct)
  case Nil
  with assms(1) show ?case using own_states_open by (simp add: keyed_open_def)
next
  case (snoc e es)
  then have IH: "own_states F (after (keyed_step key F) (keyed_open F p) es)" "plain (kp_props (after (keyed_step key F) (keyed_open F p) es))"
    by (auto simp del: run.simps)
  show ?case unfolding after_snoc by (rule own_states_step [OF IH]) (use snoc.prems in auto)
qed

lemma post_of_control:
  assumes "x \<in> set (snd (keyed_step key F s e))" and "is_post x"
  shows "\<exists>d. e = KFlow d \<and> x \<in> set (snd (fl_step F (kp_props s) (kp_flow s) d))"
  using assms async_quiet
  by (cases e) (auto simp: keyed_step_def keyed_route_def rerun_def mount_quiet case_prod_unfold split: if_splits)

end

subsection \<open>The key of the wizards\<close>

definition wizardKey :: "WizardProps \<Rightarrow> string" where
  "wizardKey p = wp_appId p @ ''/'' @ wp_env p @ ''/'' @ wp_elementKey p"

definition slash_free :: "WizardProps \<Rightarrow> bool" where
  "slash_free p \<longleftrightarrow> CHR ''/'' \<notin> set (wp_appId p) \<and> CHR ''/'' \<notin> set (wp_env p)"

lemma append_separator:
  assumes "a @ c # x = b @ c # y" and "c \<notin> set a" and "c \<notin> set b"
  shows "a = b \<and> x = y"
proof -
  have "takeWhile (\<lambda>d. d \<noteq> c) (a @ c # x) = a" using assms(2) by (induction a) auto
  moreover have "takeWhile (\<lambda>d. d \<noteq> c) (b @ c # y) = b" using assms(3) by (induction b) auto
  ultimately show ?thesis using assms(1) by simp
qed

lemma wizardKey_inj:
  assumes "slash_free p" and "slash_free q" and "wizardKey p = wizardKey q"
  shows "p = q"
proof -
  have "wp_appId p = wp_appId q \<and> wp_env p @ CHR ''/'' # wp_elementKey p = wp_env q @ CHR ''/'' # wp_elementKey q"
    using assms by (intro append_separator [of _ "CHR ''/''"]) (simp_all add: wizardKey_def slash_free_def)
  moreover from this have "wp_env p = wp_env q \<and> wp_elementKey p = wp_elementKey q"
    using assms(1,2) by (intro append_separator [of _ "CHR ''/''"]) (simp_all add: slash_free_def)
  ultimately show ?thesis by simp
qed

subsection \<open>The pages\<close>

definition publishFlow :: "Translator \<Rightarrow> (WizardProps, PublishState, PublishEvent) flow" where
  "publishFlow t = \<lparr>fl_step = publish_step t, fl_init = initPublish, fl_mount = PMount, fl_unmount = PUnmount,
     fl_async = (\<lambda>e. case e of PMicrotask \<Rightarrow> True | PSettleOptions _ _ \<Rightarrow> True | PSettleDiff _ _ \<Rightarrow> True
       | PSettlePublish _ _ \<Rightarrow> True | _ \<Rightarrow> False)\<rparr>"

definition PublishWizardPage_step ::
  "Translator \<Rightarrow> (WizardProps, PublishState) keyed_page \<Rightarrow> (WizardProps, PublishEvent) keyed_event \<Rightarrow>
   (WizardProps, PublishState) keyed_page \<times> effect list" where
  "PublishWizardPage_step t = keyed_step wizardKey (publishFlow t)"

definition rollbackFlow :: "Translator \<Rightarrow> (WizardProps, RollbackState, RollbackEvent) flow" where
  "rollbackFlow t = \<lparr>fl_step = rollback_step t, fl_init = initRollback, fl_mount = RMount, fl_unmount = RUnmount,
     fl_async = (\<lambda>e. case e of RMicrotask \<Rightarrow> True | RSettleOptions _ _ \<Rightarrow> True | RSettleDiff _ _ \<Rightarrow> True
       | RSettleRollback _ _ \<Rightarrow> True | _ \<Rightarrow> False)\<rparr>"

definition RollbackWizardPage_step ::
  "Translator \<Rightarrow> (WizardProps, RollbackState) keyed_page \<Rightarrow> (WizardProps, RollbackEvent) keyed_event \<Rightarrow>
   (WizardProps, RollbackState) keyed_page \<times> effect list" where
  "RollbackWizardPage_step t = keyed_step wizardKey (rollbackFlow t)"

lemma flow_simps [simp]:
  "fl_step (publishFlow t) = publish_step t" "fl_init (publishFlow t) = initPublish"
  "fl_step (rollbackFlow t) = rollback_step t" "fl_init (rollbackFlow t) = initRollback"
  by (simp_all add: publishFlow_def rollbackFlow_def)

lemma reads_no_post [simp]:
  "\<not> is_post (Request path noInit)" "\<not> is_post (ShowToast m sev)" "\<not> is_post (requestComparisonElement a e k v)"
  by (simp_all add: is_post_def noInit_def requestComparisonElement_def requestElementVersion_def)

lemma publish_async_quiet:
  "fl_async (publishFlow t) e \<Longrightarrow> x \<in> set (snd (publish_step t p f e)) \<Longrightarrow> \<not> is_post x"
  by (cases e) (auto simp: publishFlow_def publish_step_def pw_loadOptions_def pw_optionsLoaded_def pw_diffSettled_def
      pw_publishSettled_def Let_def split: if_splits sum.splits PublishPending.splits prod.splits)

lemma rollback_async_quiet:
  "fl_async (rollbackFlow t) e \<Longrightarrow> x \<in> set (snd (rollback_step t p f e)) \<Longrightarrow> \<not> is_post x"
  by (cases e) (auto simp: rollbackFlow_def rollback_step_def rw_loadOptions_def rw_optionsLoaded_def rw_diffSettled_def
      rw_rollbackSettled_def Let_def split: if_splits sum.splits RollbackPending.splits)

interpretation publish_page: keyed_flow wizardKey "publishFlow t" slash_free for t
proof
  show "slash_free p \<Longrightarrow> slash_free q \<Longrightarrow> wizardKey p = wizardKey q \<Longrightarrow> p = q" for p q by (rule wizardKey_inj)
  show "fl_async (publishFlow t) e \<Longrightarrow> x \<in> set (snd (fl_step (publishFlow t) p f e)) \<Longrightarrow> \<not> is_post x" for e x p f
    using publish_async_quiet by simp
qed (simp_all add: publishFlow_def publish_step_def pw_mountEffect_def pw_cleanup_def Let_def)

interpretation rollback_page: keyed_flow wizardKey "rollbackFlow t" slash_free for t
proof
  show "slash_free p \<Longrightarrow> slash_free q \<Longrightarrow> wizardKey p = wizardKey q \<Longrightarrow> p = q" for p q by (rule wizardKey_inj)
  show "fl_async (rollbackFlow t) e \<Longrightarrow> x \<in> set (snd (fl_step (rollbackFlow t) p f e)) \<Longrightarrow> \<not> is_post x" for e x p f
    using rollback_async_quiet by simp
qed (simp_all add: rollbackFlow_def rollback_step_def rw_mountEffect_def rw_cleanup_def Let_def)

subsection \<open>Properties\<close>

text \<open>C3: The publish wizard under the router: however the route changes and however requests, answers and
  clicks interleave, as long as no application and no environment has a slash in its name, a modifying
  request publishes the element of the route, and the wizard that sends it is in a state it reaches
  with the parameters of the route alone: the version it names, newer than the one in use, was selected
  and compared for this very element. Wizards that were replaced send nothing.\<close>

theorem publish_page_reviewed:
  assumes "slash_free p" and "\<forall>q. KRoute q \<in> set es \<longrightarrow> slash_free q"
    and "s = after (PublishWizardPage_step t) (keyed_open (publishFlow t) p) es"
    and "Request path ri \<in> set (snd (PublishWizardPage_step t s e))" and "ri_method ri = Some ''POST''"
  shows "path = publishPath (kp_props s) \<and> ri = jsonBody (publishPayload (kp_flow s)) \<and>
    (\<exists>ds. kp_flow s = after (publish_step t (kp_props s)) initPublish ds) \<and>
    (\<exists>x. pw_selectedVersion (kp_flow s) = Some x \<and> \<not> isPublishVersionDisabled x (pw_usingVersion (kp_flow s)) \<and>
      pair_shows (pw_usingVersion (kp_flow s)) (pw_diffPair (kp_flow s)) x)"
proof -
  have "own_states (publishFlow t) s"
    using publish_page.own_states_reachable [OF assms(1,2)] assms(3) by (simp add: PublishWizardPage_step_def)
  then obtain ds where ds: "kp_flow s = after (publish_step t (kp_props s)) initPublish ds"
    by (auto simp: own_states_def flow_state_def)
  obtain d where d: "Request path ri \<in> set (snd (publish_step t (kp_props s) (kp_flow s) d))"
    using publish_page.post_of_control [of "Request path ri" t s e] assms(4,5) by (auto simp: PublishWizardPage_step_def is_post_def)
  have "publish_allowed (kp_props s) (kp_flow s) (Request path ri)"
    using publish.allowed_reachable [OF refl] d unfolding ds .
  with ds assms(5) show ?thesis by (auto simp: publish_allowed_def)
qed

text \<open>C4: The same of the rollback wizard: a modifying request rolls back the element of the route, to a version
  that is published, older than the one in use, and was selected and compared for this element.\<close>

theorem rollback_page_reviewed:
  assumes "slash_free p" and "\<forall>q. KRoute q \<in> set es \<longrightarrow> slash_free q"
    and "s = after (RollbackWizardPage_step t) (keyed_open (rollbackFlow t) p) es"
    and "Request path ri \<in> set (snd (RollbackWizardPage_step t s e))" and "ri_method ri = Some ''POST''"
  shows "path = rollbackPath (kp_props s) \<and> ri = jsonBody (rollbackPayload (kp_flow s)) \<and>
    (\<exists>ds. kp_flow s = after (rollback_step t (kp_props s)) initRollback ds) \<and>
    (\<exists>x u. rw_selectedVersion (kp_flow s) = Some x \<and> rw_usingVersion (kp_flow s) = Some u \<and> vo_published x \<and>
      vo_version x < u \<and> pair_shows (Some u) (rw_diffPair (kp_flow s)) x)"
proof -
  have "own_states (rollbackFlow t) s"
    using rollback_page.own_states_reachable [OF assms(1,2)] assms(3) by (simp add: RollbackWizardPage_step_def)
  then obtain ds where ds: "kp_flow s = after (rollback_step t (kp_props s)) initRollback ds"
    by (auto simp: own_states_def flow_state_def)
  obtain d where d: "Request path ri \<in> set (snd (rollback_step t (kp_props s) (kp_flow s) d))"
    using rollback_page.post_of_control [of "Request path ri" t s e] assms(4,5) by (auto simp: RollbackWizardPage_step_def is_post_def)
  have "rollback_allowed (kp_props s) (kp_flow s) (Request path ri)"
    using rollback.allowed_reachable [OF refl] d unfolding ds .
  with ds assms(5) show ?thesis by (auto simp: rollback_allowed_def)
qed

text \<open>With a slash in a name the key does not tell two elements apart: the wizard that stands at the
  confirmation for one of them, reviewed, is handed the other's parameters when the route changes, starts to
  read the other's versions, and a click on the button before they are there rolls the other back to the
  version reviewed for the first.\<close>

theorem rollback_page_collision:
  assumes "wizardKey q = wizardKey (kp_props s)" and "q \<noteq> kp_props s" and "\<not> wp_missingParams q"
    and "rw_activeStep (kp_flow s) = 2" and "rw_versionIsValid (kp_flow s)"
    and "\<not> rw_submitting (kp_flow s)" "\<not> rw_diffLoading (kp_flow s)"
    and "rw_queued (kp_flow s) = 0" and "rw_lastLoadKey (kp_flow s) \<noteq> wp_loadKey q"
  shows "snd (run (RollbackWizardPage_step t) s [KRoute q, KFlow RMicrotask, KFlow RNext]) =
    [Request (versionsPath (wp_appId q) (wp_env q) (wp_elementKey q)) noInit,
     Request (rollbackPath q) (jsonBody (rollbackPayload (kp_flow s)))]"
  using assms
  by (simp add: RollbackWizardPage_step_def keyed_step_def keyed_route_def rerun_def rollbackFlow_def rollback_step_def
      rw_mountEffect_def rw_cleanup_def rw_loadOptions_def rw_ui_def rw_nextDisabled_def rw_handleNext_def rw_handleRollback_def
      rw_versionIsValid_def rw_selectedVersion_def rollbackPayload_def rw_parsedVersion_def Let_def cong: option.case_cong)

subsection \<open>Witnesses\<close>

definition slashed :: "string \<Rightarrow> string \<Rightarrow> WizardProps" where
  "slashed appId env = \<lparr>wp_appId = appId, wp_env = env, wp_elementKey = ''k''\<rparr>"

definition demo_route_events :: "(WizardProps, RollbackEvent) keyed_event list" where
  "demo_route_events = [KFlow RMicrotask, KRoute demo_props, KFlow RMicrotask, KOld 0 (RSettleOptions 0 (Inr demo_rollback_versions)),
     KFlow (RSettleOptions 0 (Inr demo_rollback_versions)), KFlow (RSelectVersion ''1''), KRerun, KFlow RNext, KFlow RNext]"

definition demo_route_rollback :: "(WizardProps, RollbackState) keyed_page" where
  "demo_route_rollback = after (RollbackWizardPage_step (\<lambda>k ps. k)) (keyed_open (rollbackFlow (\<lambda>k ps. k)) (slashed ''x'' ''y'')) demo_route_events"

lemma demo_route_rollback_next:
  "slash_free (slashed ''x'' ''y'')" "\<forall>q. KRoute q \<in> set demo_route_events \<longrightarrow> slash_free q"
  "snd (RollbackWizardPage_step (\<lambda>k ps. k) demo_route_rollback (KFlow RNext)) =
     [Request (rollbackPath demo_props) (jsonBody (rollbackPayload (kp_flow demo_route_rollback)))]"
  by (code_simp, simp add: demo_route_events_def slash_free_def demo_props_def, code_simp)

theorem rollback_page_reviewed_witness:
  "rollbackPath demo_props = rollbackPath (kp_props demo_route_rollback) \<and>
   (\<exists>ds. kp_flow demo_route_rollback = after (rollback_step (\<lambda>k ps. k) (kp_props demo_route_rollback)) initRollback ds)"
  using rollback_page_reviewed [OF demo_route_rollback_next(1,2) demo_route_rollback_def,
      of "rollbackPath demo_props" "jsonBody (rollbackPayload (kp_flow demo_route_rollback))" "KFlow RNext"]
  by (auto simp: demo_route_rollback_next(3) jsonBody_def)

definition demo_route_publish_events :: "(WizardProps, PublishEvent) keyed_event list" where
  "demo_route_publish_events = KFlow PMicrotask # KRoute demo_props # map KFlow (tl demo_publish_run)"

definition demo_route_publish :: "(WizardProps, PublishState) keyed_page" where
  "demo_route_publish = after (PublishWizardPage_step (\<lambda>k ps. k)) (keyed_open (publishFlow (\<lambda>k ps. k)) (slashed ''x'' ''y'')) demo_route_publish_events"

lemma demo_route_publish_next:
  "\<forall>q. KRoute q \<in> set demo_route_publish_events \<longrightarrow> slash_free q"
  "snd (PublishWizardPage_step (\<lambda>k ps. k) demo_route_publish (KFlow PNext)) =
     [Request (publishPath demo_props) (jsonBody (publishPayload (kp_flow demo_route_publish)))]"
  by (simp add: demo_route_publish_events_def slash_free_def demo_props_def image_iff, code_simp)

theorem publish_page_reviewed_witness:
  "publishPath demo_props = publishPath (kp_props demo_route_publish) \<and>
   (\<exists>x. pw_selectedVersion (kp_flow demo_route_publish) = Some x)"
  using publish_page_reviewed [OF demo_route_rollback_next(1) demo_route_publish_next(1) demo_route_publish_def,
      of "publishPath demo_props" "jsonBody (publishPayload (kp_flow demo_route_publish))" "KFlow PNext"]
  by (auto simp: demo_route_publish_next(2) jsonBody_def)

definition demo_collision :: "(WizardProps, RollbackState) keyed_page" where
  "demo_collision = after (RollbackWizardPage_step (\<lambda>k ps. k)) (keyed_open (rollbackFlow (\<lambda>k ps. k)) (slashed ''a/b'' ''c''))
     [KFlow RMicrotask, KFlow (RSettleOptions 0 (Inr demo_rollback_versions)), KFlow (RSelectVersion ''1''), KFlow RNext, KFlow RNext]"

lemma demo_collision_facts:
  "wizardKey (slashed ''a'' ''b/c'') = wizardKey (kp_props demo_collision)" "slashed ''a'' ''b/c'' \<noteq> kp_props demo_collision"
  "\<not> wp_missingParams (slashed ''a'' ''b/c'')" "rw_activeStep (kp_flow demo_collision) = 2" "rw_versionIsValid (kp_flow demo_collision)"
  "\<not> rw_submitting (kp_flow demo_collision)" "\<not> rw_diffLoading (kp_flow demo_collision)" "rw_queued (kp_flow demo_collision) = 0"
  "rw_lastLoadKey (kp_flow demo_collision) \<noteq> wp_loadKey (slashed ''a'' ''b/c'')"
  by code_simp+

theorem rollback_page_collision_witness:
  "Request (rollbackPath (slashed ''a'' ''b/c'')) (jsonBody (JObj [(''version'', JNum 1)])) \<in>
     set (snd (run (RollbackWizardPage_step (\<lambda>k ps. k)) demo_collision [KRoute (slashed ''a'' ''b/c''), KFlow RMicrotask, KFlow RNext]))"
proof -
  have "rollbackPayload (kp_flow demo_collision) = JObj [(''version'', JNum 1)]" by code_simp
  then show ?thesis using rollback_page_collision [OF demo_collision_facts, of "\<lambda>k ps. k"] by (simp del: run.simps)
qed

end
