(* ===== verification/Language_Menu.thy ===== *)
theory Language_Menu
  imports Ui
begin

section \<open>Switching the language: \<open>components/LanguageSwitcher.tsx\<close> on \<open>i18n/I18nProvider.tsx\<close>\<close>

text \<open>
  The menu of the languages over the provider: its choice goes to the locale store and to the
  storage, other tabs change the storage and are heard, and after every change the document gets
  the language and the title of it. The facts: the language in use is always the one the next
  visit would start with, the document says so, and the menu marks it and nothing else.
\<close>

subsection \<open>The provider with its menu\<close>

definition languageOptions :: "(Locale \<times> string) list" where
  \<comment> \<open>the second label is the name of the simplified Chinese script, in UTF-8\<close>
  "languageOptions =
     [(En, ''English''),
      (ZhCN, [CHR 0xE7, CHR 0xAE, CHR 0x80, CHR 0xE4, CHR 0xBD, CHR 0x93, CHR 0xE4, CHR 0xB8, CHR 0xAD, CHR 0xE6, CHR 0x96, CHR 0x87])]"

record LanguageState =
  lg_store :: locale_store
  lg_storage :: "(string \<rightharpoonup> string) option"
  lg_open :: bool
  lg_lang :: string
  lg_title :: string

abbreviation lg_locale :: "LanguageState \<Rightarrow> Locale" where
  "lg_locale s \<equiv> ls_locale (lg_store s)"

definition lg_commit :: "catalogue \<Rightarrow> catalogue \<Rightarrow> LanguageState \<Rightarrow> LanguageState" where
  \<comment> \<open>the effect that runs when the language has changed\<close>
  "lg_commit en zhCN s = s\<lparr>lg_lang := locale_value (lg_locale s), lg_title := translate en zhCN (lg_locale s) ''common.pageTitle'' []\<rparr>"

definition initLanguage :: "catalogue \<Rightarrow> catalogue \<Rightarrow> (string \<rightharpoonup> string) option \<Rightarrow> navigator option \<Rightarrow> LanguageState" where
  "initLanguage en zhCN storage nv =
     lg_commit en zhCN \<lparr>lg_store = createLocaleStore storage nv, lg_storage = storage, lg_open = False, lg_lang = [], lg_title = []\<rparr>"

definition lg_choose :: "Locale \<Rightarrow> LanguageState \<Rightarrow> LanguageState" where
  "lg_choose l s = (case provider_setLocale (locale_value l) (lg_store s) (lg_storage s) of (st, _, storage) \<Rightarrow>
     s\<lparr>lg_store := st, lg_storage := storage, lg_open := False\<rparr>)"

definition other_tab :: "string option \<Rightarrow> string option \<Rightarrow> (string \<rightharpoonup> string) \<Rightarrow> string \<rightharpoonup> string" where
  \<comment> \<open>what another tab did to the storage before the event: it cleared it, or set or removed an item\<close>
  "other_tab key newValue m = (case key of None \<Rightarrow> Map.empty | Some k \<Rightarrow> m(k := newValue))"

datatype LanguageEvent =
    LgOpen
  | LgClose
  | LgChoose Locale
  | LgStorage "string option" "string option"

definition language_step :: "catalogue \<Rightarrow> catalogue \<Rightarrow> navigator option \<Rightarrow> LanguageState \<Rightarrow> LanguageEvent \<Rightarrow> LanguageState" where
  "language_step en zhCN nv s e = (case e of
       LgOpen \<Rightarrow> s\<lparr>lg_open := True\<rparr>
     | LgClose \<Rightarrow> s\<lparr>lg_open := False\<rparr>
     | LgChoose l \<Rightarrow> if lg_open s \<and> l \<in> fst ` set languageOptions then lg_commit en zhCN (lg_choose l s) else s
     | LgStorage key newValue \<Rightarrow>
         (let newValue' = (if key = None then None else newValue) in
          lg_commit en zhCN (s\<lparr>lg_store := fst (syncLocale nv key newValue' (lg_store s)),
            lg_storage := map_option (other_tab key newValue') (lg_storage s)\<rparr>)))"

definition current_label :: "LanguageState \<Rightarrow> string option" where
  "current_label s = map_option snd (find (\<lambda>option. fst option = lg_locale s) languageOptions)"

definition menu_entries :: "LanguageState \<Rightarrow> MenuEntry list" where
  "menu_entries s = map (\<lambda>(l, label). \<lparr>me_value = locale_value l, me_disabled = False, me_ariaLabel = [], me_text = label,
     me_current = (if lg_locale s = l then Some ''true'' else None), me_status = [], me_statusText = []\<rparr>) languageOptions"

definition LanguageSwitcher_view :: "Translator \<Rightarrow> LanguageState \<Rightarrow> ui list" where
  "LanguageSwitcher_view t s =
     ULabelled (t ''common.language'' []) [UButton (opt_or (current_label s) []) False] #
     (if lg_open s then [USelect [] (locale_value (lg_locale s)) False [] (menu_entries s)] else [])"

subsection \<open>Facts\<close>

lemma language_listed [simp]: "l \<in> fst ` set languageOptions"
  by (cases l) (simp_all add: languageOptions_def)

lemma parse_locale_inverse: "parse_locale v = Some l \<Longrightarrow> v = Some (locale_value l)"
  by (auto simp: parse_locale_def locale_value_def split: if_splits)

lemma store_setLocale_locale [simp]: "ls_locale (fst (store_setLocale (locale_value l) st)) = l"
  by (simp add: store_setLocale_def)

lemma lg_choose_locale [simp]: "ls_locale (lg_store (lg_choose l s)) = l"
  by (simp add: lg_choose_def provider_setLocale_def case_prod_unfold)

lemma lg_choose_storage: "lg_storage s = Some m \<Longrightarrow> lg_storage (lg_choose l s) = Some (m(localeStorageKey \<mapsto> locale_value l))"
  by (simp add: lg_choose_def provider_setLocale_def case_prod_unfold)

lemma readLocale_saved: "readLocale (Some m) nv = (case parse_locale (m localeStorageKey) of Some l \<Rightarrow> l | None \<Rightarrow> browserLocale nv)"
  by (simp add: readLocale_def)

lemma syncLocale_locale:
  "ls_locale (fst (syncLocale nv key newValue st)) =
     (if key = None \<or> key = Some localeStorageKey
      then case parse_locale newValue of Some l \<Rightarrow> l | None \<Rightarrow> browserLocale nv else ls_locale st)"
  by (simp add: syncLocale_def)

definition lg_synced :: "navigator option \<Rightarrow> LanguageState \<Rightarrow> bool" where
  "lg_synced nv s \<longleftrightarrow> (\<exists>m. lg_storage s = Some m) \<and> lg_locale s = readLocale (lg_storage s) nv \<and> lg_lang s = locale_value (lg_locale s)"

lemma language_step_synced:
  assumes "lg_synced nv s"
  shows "lg_synced nv (language_step en zhCN nv s e)"
proof -
  obtain m where m: "lg_storage s = Some m" using assms by (auto simp: lg_synced_def)
  show ?thesis
  proof (cases e)
    case (LgChoose l)
    with m assms show ?thesis
      by (simp add: lg_synced_def language_step_def lg_commit_def lg_choose_storage readLocale_saved)
  next
    case (LgStorage key newValue)
    have none: "parse_locale None = None" by (simp add: parse_locale_def)
    from LgStorage m assms none show ?thesis
      by (auto simp: lg_synced_def language_step_def lg_commit_def Let_def syncLocale_locale readLocale_saved other_tab_def split: option.split)
  qed (use assms in \<open>simp_all add: lg_synced_def language_step_def\<close>)
qed

lemma initLanguage_synced: "lg_synced nv (initLanguage en zhCN (Some m) nv)"
  by (simp add: lg_synced_def initLanguage_def lg_commit_def createLocaleStore_def)

subsection \<open>Properties\<close>

text \<open>As long as the storage can be used, the language in use after any choices in this tab and any changes
  by other tabs is the one the next visit would start with, and the document has it.\<close>

theorem language_in_storage:
  assumes "s = foldl (language_step en zhCN nv) (initLanguage en zhCN (Some m) nv) es"
  shows "lg_locale s = readLocale (lg_storage s) nv \<and> lg_lang s = locale_value (lg_locale s)"
proof -
  have "lg_synced nv (foldl (language_step en zhCN nv) s0 es)" if "lg_synced nv s0" for s0
    using that by (induction es arbitrary: s0) (simp_all add: language_step_synced)
  with initLanguage_synced assms show ?thesis by (simp add: lg_synced_def)
qed

text \<open>The menu marks exactly the language in use, and its button carries the name of it.\<close>

theorem language_marked:
  "map me_value (filter (\<lambda>e. me_current e = Some ''true'') (menu_entries s)) = [locale_value (lg_locale s)] \<and>
   (\<exists>label. current_label s = Some label \<and> (lg_locale s, label) \<in> set languageOptions)"
  by (cases "lg_locale s") (simp_all add: menu_entries_def current_label_def languageOptions_def)

end
