(* ===== verification/App_Root.thy ===== *)
theory App_Root
  imports Auth Language_Menu
begin

section \<open>The whole application: \<open>main.tsx\<close>, the contexts and the shell\<close>

text \<open>
  The entry point nests the providers of the language, the theme and the toasts around the router, whose
  routes nest the provider of the session, the guard and the shell around the pages. A component
  reads a context with a hook: \<open>useToast\<close> and \<open>useAuth\<close> throw outside their provider, and
  \<open>useI18n\<close> falls back to English there. The tree of a route is the tree of the components it can
  render, with every dialog of the page in it. The facts: on every route no hook throws and every text is in
  the chosen language; and whatever the state of the shell, at most two clicks show a link to any page of the
  navigation.
\<close>

subsection \<open>Contexts\<close>

datatype hook = UseI18n | UseToast | UseAuth

record contexts =
  cx_i18n :: "Locale option"
  cx_toast :: bool
  cx_auth :: bool

definition noContexts :: contexts where
  "noContexts = \<lparr>cx_i18n = None, cx_toast = False, cx_auth = False\<rparr>"

definition useI18n :: "contexts \<Rightarrow> Locale" where
  \<comment> \<open>the default value of the context is English\<close>
  "useI18n cx = opt_or (cx_i18n cx) En"

definition useToast :: "contexts \<Rightarrow> string + unit" where
  "useToast cx = (if \<not> cx_toast cx then Inl ''useToast must be used within ToastProvider'' else Inr ())"

definition useAuth :: "contexts \<Rightarrow> string + unit" where
  "useAuth cx = (if \<not> cx_auth cx then Inl ''useAuth must be used within AuthProvider'' else Inr ())"

definition call_hook :: "contexts \<Rightarrow> hook \<Rightarrow> string + unit" where
  "call_hook cx h = (case h of UseI18n \<Rightarrow> Inr () | UseToast \<Rightarrow> useToast cx | UseAuth \<Rightarrow> useAuth cx)"

fun call_hooks :: "contexts \<Rightarrow> hook list \<Rightarrow> string + unit" where
  "call_hooks cx [] = Inr ()"
| "call_hooks cx (h # hs) = (case call_hook cx h of Inl e \<Rightarrow> Inl e | Inr _ \<Rightarrow> call_hooks cx hs)"

subsection \<open>Components\<close>

datatype node = Node string "node list"

text \<open>The hooks each component calls, in order.\<close>

definition hooks_LocalizedThemeProvider :: "hook list" where
  "hooks_LocalizedThemeProvider = [UseI18n]"

definition hooks_ToastProvider :: "hook list" where
  "hooks_ToastProvider = [UseI18n]"

definition hooks_RequireAuth :: "hook list" where
  "hooks_RequireAuth = [UseAuth]"

definition hooks_AppShell :: "hook list" where
  "hooks_AppShell = [UseI18n, UseAuth]"

definition hooks_LanguageSwitcher :: "hook list" where
  "hooks_LanguageSwitcher = [UseI18n]"

definition hooks_LoginPage :: "hook list" where
  "hooks_LoginPage = [UseI18n, UseAuth, UseToast]"

definition hooks_AppBreadcrumbs :: "hook list" where
  "hooks_AppBreadcrumbs = [UseI18n]"

definition hooks_DangerConfirmDialog :: "hook list" where
  "hooks_DangerConfirmDialog = [UseI18n]"

definition hooks_WizardLayout :: "hook list" where
  "hooks_WizardLayout = [UseI18n]"

definition hooks_DiffViewer :: "hook list" where
  "hooks_DiffViewer = [UseI18n]"

definition hooks_LoadingState :: "hook list" where
  "hooks_LoadingState = [UseI18n]"

definition hooks_ErrorState :: "hook list" where
  "hooks_ErrorState = [UseToast]"

definition hooks_ContentViewer :: "hook list" where
  "hooks_ContentViewer = [UseI18n]"

definition hooks_ContentEditor :: "hook list" where
  "hooks_ContentEditor = [UseI18n]"

definition hooks_DocsPage :: "hook list" where
  "hooks_DocsPage = [UseI18n]"

definition hooks_CodeExample :: "hook list" where
  "hooks_CodeExample = [UseI18n, UseToast]"

definition hooks_AppsPage :: "hook list" where
  "hooks_AppsPage = [UseI18n]"

definition hooks_EnvsPage :: "hook list" where
  "hooks_EnvsPage = [UseI18n]"

definition hooks_CopyEnvDialog :: "hook list" where
  "hooks_CopyEnvDialog = [UseI18n, UseToast]"

definition hooks_CopyResultCount :: "hook list" where
  "hooks_CopyResultCount = [UseI18n]"

definition hooks_CopyResultState :: "hook list" where
  "hooks_CopyResultState = [UseI18n]"

definition hooks_ElementsPage :: "hook list" where
  "hooks_ElementsPage = [UseI18n]"

definition hooks_ElementDetailPage :: "hook list" where
  "hooks_ElementDetailPage = [UseI18n, UseToast]"

definition hooks_PublishWizardFlow :: "hook list" where
  "hooks_PublishWizardFlow = [UseI18n, UseToast]"

definition hooks_RollbackWizardFlow :: "hook list" where
  "hooks_RollbackWizardFlow = [UseI18n, UseToast]"

definition hooks_UsersPage :: "hook list" where
  "hooks_UsersPage = [UseI18n, UseToast]"

definition hooks_UserStatusChip :: "hook list" where
  "hooks_UserStatusChip = [UseI18n]"

definition hooks_SettingsPage :: "hook list" where
  "hooks_SettingsPage = [UseI18n]"

definition hooks_AgentsPage :: "hook list" where
  "hooks_AgentsPage = [UseI18n]"

definition hooks_TopologyNode :: "hook list" where
  "hooks_TopologyNode = [UseI18n]"

definition hooks_InstancesPageFlow :: "hook list" where
  "hooks_InstancesPageFlow = [UseI18n]"

definition hooks :: "(string \<times> hook list) list" where
  "hooks =
     [(''LocalizedThemeProvider'', hooks_LocalizedThemeProvider), (''ToastProvider'', hooks_ToastProvider), (''RequireAuth'', hooks_RequireAuth),
      (''AppShell'', hooks_AppShell), (''LanguageSwitcher'', hooks_LanguageSwitcher), (''LoginPage'', hooks_LoginPage),
      (''AppBreadcrumbs'', hooks_AppBreadcrumbs), (''DangerConfirmDialog'', hooks_DangerConfirmDialog), (''WizardLayout'', hooks_WizardLayout),
      (''DiffViewer'', hooks_DiffViewer), (''LoadingState'', hooks_LoadingState), (''ErrorState'', hooks_ErrorState),
      (''ContentViewer'', hooks_ContentViewer), (''ContentEditor'', hooks_ContentEditor), (''DocsPage'', hooks_DocsPage),
      (''CodeExample'', hooks_CodeExample), (''AppsPage'', hooks_AppsPage), (''EnvsPage'', hooks_EnvsPage),
      (''CopyEnvDialog'', hooks_CopyEnvDialog), (''CopyResultCount'', hooks_CopyResultCount), (''CopyResultState'', hooks_CopyResultState),
      (''ElementsPage'', hooks_ElementsPage), (''ElementDetailPage'', hooks_ElementDetailPage), (''PublishWizardFlow'', hooks_PublishWizardFlow),
      (''RollbackWizardFlow'', hooks_RollbackWizardFlow), (''UsersPage'', hooks_UsersPage), (''UserStatusChip'', hooks_UserStatusChip),
      (''SettingsPage'', hooks_SettingsPage), (''AgentsPage'', hooks_AgentsPage), (''TopologyNode'', hooks_TopologyNode),
      (''InstancesPageFlow'', hooks_InstancesPageFlow)]"

lemmas hooks_of_components = hooks_LocalizedThemeProvider_def hooks_ToastProvider_def hooks_RequireAuth_def
  hooks_AppShell_def hooks_LanguageSwitcher_def hooks_LoginPage_def hooks_AppBreadcrumbs_def
  hooks_DangerConfirmDialog_def hooks_WizardLayout_def hooks_DiffViewer_def hooks_LoadingState_def hooks_ErrorState_def
  hooks_ContentViewer_def hooks_ContentEditor_def hooks_DocsPage_def hooks_CodeExample_def hooks_AppsPage_def
  hooks_EnvsPage_def hooks_CopyEnvDialog_def hooks_CopyResultCount_def hooks_CopyResultState_def hooks_ElementsPage_def
  hooks_ElementDetailPage_def hooks_PublishWizardFlow_def hooks_RollbackWizardFlow_def hooks_UsersPage_def
  hooks_UserStatusChip_def hooks_SettingsPage_def hooks_AgentsPage_def hooks_TopologyNode_def
  hooks_InstancesPageFlow_def

definition provide :: "Locale \<Rightarrow> string \<Rightarrow> contexts \<Rightarrow> contexts" where
  \<comment> \<open>what a component gives those below it; \<open>l\<close> is the language of the store\<close>
  "provide l c cx =
     (if c = ''I18nProvider'' then cx\<lparr>cx_i18n := Some l\<rparr>
      else if c = ''ToastProvider'' then cx\<lparr>cx_toast := True\<rparr>
      else if c = ''AuthProvider'' then cx\<lparr>cx_auth := True\<rparr> else cx)"

definition component_hooks :: "string \<Rightarrow> hook list" where
  "component_hooks c = opt_or (map_of hooks c) []"

fun render :: "Locale \<Rightarrow> contexts \<Rightarrow> node \<Rightarrow> string + (string \<times> Locale) list"
  and render_all :: "Locale \<Rightarrow> contexts \<Rightarrow> node list \<Rightarrow> string + (string \<times> Locale) list" where
  \<comment> \<open>the error a hook throws, or the components rendered with the language each of them reads\<close>
  "render l cx (Node c ns) = (case call_hooks cx (component_hooks c) of
       Inl e \<Rightarrow> Inl e
     | Inr _ \<Rightarrow> (case render_all l (provide l c cx) ns of
         Inl e \<Rightarrow> Inl e
       | Inr below \<Rightarrow> Inr (if UseI18n \<in> set (component_hooks c) then (c, useI18n cx) # below else below)))"
| "render_all l cx [] = Inr []"
| "render_all l cx (n # ns) = (case render l cx n of
       Inl e \<Rightarrow> Inl e
     | Inr xs \<Rightarrow> (case render_all l cx ns of Inl e \<Rightarrow> Inl e | Inr ys \<Rightarrow> Inr (xs @ ys)))"

subsection \<open>The tree\<close>

abbreviation leaves :: "string list \<Rightarrow> node list" where
  "leaves cs \<equiv> map (\<lambda>c. Node c []) cs"

definition page_parts :: "(string \<times> node list) list" where
  \<comment> \<open>the components a page can render\<close>
  "page_parts =
     (let states = leaves [''ErrorState'', ''LoadingState'', ''EmptyState''];
          listed = leaves [''AppBreadcrumbs'', ''DangerConfirmDialog''] @ states;
          wizard = leaves [''AppBreadcrumbs'', ''DiffViewer''] @ [Node ''WizardLayout'' (leaves [''DangerConfirmDialog''])] in
      [(''DocsPage'', leaves [''AppBreadcrumbs'', ''CodeExample'']),
       (''AppsPage'', listed),
       (''EnvsPage'', listed @ [Node ''CopyEnvDialog'' (leaves [''CopyResultCount'', ''CopyResultState''])]),
       (''ElementsPage'', listed @ leaves [''ContentEditor'']),
       (''ElementDetailPage'', listed @ leaves [''ContentViewer'', ''ContentEditor'', ''DiffViewer'']),
       (''PublishWizardPage'', [Node ''PublishWizardFlow'' wizard]),
       (''RollbackWizardPage'', [Node ''RollbackWizardFlow'' wizard]),
       (''UsersPage'', leaves [''DangerConfirmDialog'', ''UserStatusChip''] @ states),
       (''SettingsPage'', leaves [''ContentViewer'']),
       (''AgentsPage'', leaves [''TopologyNode''] @ states),
       (''InstancesPage'', [Node ''InstancesPageFlow'' states])])"

definition page_node :: "string \<Rightarrow> node" where
  "page_node p = Node p (opt_or (map_of page_parts p) [])"

definition AuthRoot :: "node list \<Rightarrow> node" where
  "AuthRoot outlet = Node ''AuthRoot'' [Node ''AuthProvider'' outlet]"

definition guarded_node :: "string \<Rightarrow> node \<Rightarrow> node" where
  \<comment> \<open>the guard renders a redirect without a session, and the shell around the page with one\<close>
  "guarded_node session page =
     Node ''RequireAuth'' [if session = [] then Node ''Navigate'' [] else Node ''AppShell'' [Node ''LanguageSwitcher'' [], page]]"

definition route_node :: "string \<Rightarrow> route_kind option \<Rightarrow> node" where
  "route_node session r = AuthRoot [case r of
       Some LoginRoute \<Rightarrow> Node ''LoginPage'' [Node ''LanguageSwitcher'' []]
     | Some (GuardedPage p) \<Rightarrow> guarded_node session (page_node p)
     | Some GuardedGuideRedirect \<Rightarrow> guarded_node session (Node ''GuideRedirect'' [])
     | Some GuardedTopologyRedirect \<Rightarrow> guarded_node session (Node ''Navigate'' [])
     | None \<Rightarrow> Node ''GuideRedirect'' []]"

definition AppThemeProvider :: "node list \<Rightarrow> node" where
  "AppThemeProvider children = Node ''AppThemeProvider'' [Node ''I18nProvider'' [Node ''LocalizedThemeProvider'' children]]"

definition main_tree :: "node \<Rightarrow> node" where
  "main_tree content = Node ''StrictMode'' [AppThemeProvider [Node ''ToastProvider'' [Node ''CssBaseline'' [], Node ''RouterProvider'' [content]]]]"

definition app_kinds :: "route_kind option list" where
  \<comment> \<open>what an address can match\<close>
  "app_kinds = None # map (Some \<circ> snd) routes"

subsection \<open>The view of the shell\<close>

definition shell_drawer :: "Translator \<Rightarrow> ShellState \<Rightarrow> bool \<Rightarrow> ui list" where
  "shell_drawer t s collapsed = (if \<not> collapsed then [UText ''CASSEM''] else []) @ drawer_links t s collapsed"

definition shell_toggle :: "Translator \<Rightarrow> bool \<Rightarrow> ShellState \<Rightarrow> ui" where
  "shell_toggle t isDesktop s =
     UButton (if isDesktop then t (if sh_desktopCollapsed s then ''common.expandNavigation'' else ''common.collapseNavigation'') []
              else t ''common.openNavigation'' []) False"

definition shell_nav :: "Translator \<Rightarrow> bool \<Rightarrow> ShellState \<Rightarrow> ui list" where
  \<comment> \<open>the temporary drawer is for small screens, the permanent one for the others\<close>
  "shell_nav t isDesktop s =
     (if isDesktop then shell_drawer t s (sh_desktopCollapsed s)
      else if sh_mobileOpen s then shell_drawer t s False else [])"

definition AppShell_view :: "Translator \<Rightarrow> bool \<Rightarrow> LanguageState \<Rightarrow> User option \<Rightarrow> ShellState \<Rightarrow> ui list \<Rightarrow> ui list" where
  "AppShell_view t isDesktop lang user s outlet =
     [shell_toggle t isDesktop s] @ LanguageSwitcher_view t lang @
     [UButton (t ''common.accountMenu'' []) False, UText (accountLabel t user)] @ account_menu t user s @
     [ULabelled (t ''common.navigation'' []) (shell_nav t isDesktop s)] @ outlet"

subsection \<open>Facts\<close>

lemma hook_simps [simp]:
  "call_hook cx UseI18n = Inr ()" "cx_toast cx \<Longrightarrow> call_hook cx UseToast = Inr ()" "cx_auth cx \<Longrightarrow> call_hook cx UseAuth = Inr ()"
  by (simp_all add: call_hook_def useToast_def useAuth_def)

fun nav_paths :: "nav_item \<Rightarrow> (string \<times> string) list" where
  "nav_paths (NavPage l p) = [(l, p)]"
| "nav_paths (NavGroup l children) = children"

lemma drawer_complete:
  "collapsed \<or> sh_clusterExpanded s \<Longrightarrow> (l, p) \<in> set (concat (map nav_paths nav)) \<Longrightarrow> ULink (t l []) p \<in> set (drawer_links t s collapsed)"
  by (auto simp: drawer_links_def nav_def)

definition all_provided :: "Locale \<Rightarrow> contexts \<Rightarrow> bool" where
  "all_provided l cx \<longleftrightarrow> cx_i18n cx = Some l \<and> cx_toast cx \<and> cx_auth cx"

lemma provide_keeps: "all_provided l cx \<Longrightarrow> all_provided l (provide l c cx)"
  by (simp add: all_provided_def provide_def)

lemma call_hooks_provided: "all_provided l cx \<Longrightarrow> call_hooks cx hs = Inr ()"
  by (induction hs) (auto simp: all_provided_def call_hook_def useToast_def useAuth_def split: hook.split)

lemma render_provided:
  "all_provided l cx \<Longrightarrow> \<exists>xs. render l cx n = Inr xs \<and> (\<forall>x \<in> set xs. snd x = l)"
  "all_provided l cx \<Longrightarrow> \<exists>xs. render_all l cx ns = Inr xs \<and> (\<forall>x \<in> set xs. snd x = l)"
proof (induction l cx n and l cx ns rule: render_render_all.induct)
  case (1 l cx c ns)
  then obtain xs where "render_all l (provide l c cx) ns = Inr xs" "\<forall>x \<in> set xs. snd x = l"
    using provide_keeps call_hooks_provided by fastforce
  with 1 show ?case by (auto simp: call_hooks_provided useI18n_def opt_or_def all_provided_def)
next
  case (3 l cx n ns)
  then obtain xs where xs: "render l cx n = Inr xs" "\<forall>x \<in> set xs. snd x = l" by blast
  with 3 obtain ys where "render_all l cx ns = Inr ys" "\<forall>x \<in> set ys. snd x = l" by blast
  with xs show ?case by auto
qed simp

lemma component_hooks_simps:
  "component_hooks ''StrictMode'' = []" "component_hooks ''AppThemeProvider'' = []" "component_hooks ''I18nProvider'' = []"
  "component_hooks ''LocalizedThemeProvider'' = [UseI18n]" "component_hooks ''ToastProvider'' = [UseI18n]"
  "component_hooks ''CssBaseline'' = []" "component_hooks ''RouterProvider'' = []" "component_hooks ''AuthRoot'' = []"
  "component_hooks ''AuthProvider'' = []"
  by (simp_all add: component_hooks_def hooks_def hooks_of_components opt_or_def)

lemma render_main:
  assumes "render_all l \<lparr>cx_i18n = Some l, cx_toast = True, cx_auth = True\<rparr> ns = Inr xs"
  shows "render l noContexts (main_tree (AuthRoot ns)) = Inr ((''LocalizedThemeProvider'', l) # (''ToastProvider'', l) # xs)"
  using assms
  by (simp add: main_tree_def AppThemeProvider_def AuthRoot_def component_hooks_simps provide_def noContexts_def useI18n_def opt_or_def)

subsection \<open>Properties\<close>

text \<open>C19: On every route, with and without a session, rendering the application from the entry point down throws none
  of the errors of the contexts, and every component that shows texts reads the language of the
  store: none falls back to the default of the context.\<close>

theorem app_contexts:
  "\<exists>cs. render l noContexts (main_tree (route_node session r)) = Inr cs \<and> (\<forall>c \<in> set cs. snd c = l) \<and>
     {(''LocalizedThemeProvider'', l), (''ToastProvider'', l)} \<subseteq> set cs"
proof -
  obtain ns where ns: "route_node session r = AuthRoot ns" by (simp add: route_node_def)
  have "all_provided l \<lparr>cx_i18n = Some l, cx_toast = True, cx_auth = True\<rparr>" by (simp add: all_provided_def)
  from render_provided(2) [OF this] obtain xs where
    "render_all l \<lparr>cx_i18n = Some l, cx_toast = True, cx_auth = True\<rparr> ns = Inr xs" "\<forall>x \<in> set xs. snd x = l" by blast
  with render_main [OF this(1)] show ?thesis by (auto simp: ns)
qed

text \<open>Whatever the state of the shell and the size of the screen, at most two clicks show a link to
  every page of the navigation.\<close>

theorem shell_pages_offered:
  assumes "(l, p) \<in> set (concat (map nav_paths nav))"
  shows "\<exists>es. length es \<le> 2 \<and> ULink (t l []) p \<in> set (shell_nav t isDesktop (foldl (shell_step isDesktop) s es))"
proof -
  let ?open = "if isDesktop \<or> sh_mobileOpen s then [] else [ShToggleDrawer]"
  let ?s = "foldl (shell_step isDesktop) s ?open"
  let ?collapsed = "isDesktop \<and> sh_desktopCollapsed s"
  let ?expand = "if ?collapsed \<or> sh_clusterExpanded s then [] else [ShGroupClick False]"
  have "shell_nav t isDesktop (foldl (shell_step isDesktop) ?s ?expand) =
      shell_drawer t (foldl (shell_step isDesktop) ?s ?expand) ?collapsed"
    by (auto simp: shell_nav_def shell_step_def)
  moreover have "?collapsed \<or> sh_clusterExpanded (foldl (shell_step isDesktop) ?s ?expand)" by (auto simp: shell_step_def)
  note drawer_complete [OF this assms, of t]
  ultimately have "ULink (t l []) p \<in> set (shell_nav t isDesktop (foldl (shell_step isDesktop) s (?open @ ?expand)))"
    by (auto simp: shell_drawer_def)
  moreover have "length (?open @ ?expand) \<le> 2" by simp
  ultimately show ?thesis by blast
qed

text \<open>Every entry of the navigation leads to a page behind the guard that the routes have.\<close>

theorem shell_pages_routed:
  "(l, p) \<in> set (concat (map nav_paths nav)) \<Longrightarrow> guarded (map_of routes p)"
  by (auto simp: nav_def routes_def)

subsection \<open>Witnesses\<close>

theorem app_contexts_witness:
  "\<exists>cs. render ZhCN noContexts (main_tree (route_node ''s'' (Some (GuardedPage ''EnvsPage'')))) = Inr cs \<and>
     (''ToastProvider'', ZhCN) \<in> set cs"
proof -
  from app_contexts [of ZhCN "''s''" "Some (GuardedPage ''EnvsPage'')"] obtain cs where
    "render ZhCN noContexts (main_tree (route_node ''s'' (Some (GuardedPage ''EnvsPage'')))) = Inr cs"
    "{(''LocalizedThemeProvider'', ZhCN), (''ToastProvider'', ZhCN)} \<subseteq> set cs" by blast
  then show ?thesis by blast
qed

text \<open>The hooks do throw when the tree is another: a login page beside the provider of the session.\<close>

theorem context_missing:
  "render l noContexts (main_tree (Node ''LoginPage'' [])) = Inl ''useAuth must be used within AuthProvider''"
  by (cases l) code_simp+

end
