(* ===== verification/Styles.thy ===== *)
theory Styles
  imports Settings Content_Registry Language_Menu
begin

section \<open>Themes and the look of a comparison: \<open>theme.ts\<close>, \<open>AppThemeProvider.tsx\<close>, \<open>components/DiffViewer.tsx\<close>\<close>

text \<open>
  What the application hands to the component library: the options of \<open>createTheme\<close>, made from the
  chosen colours and the language, and the styles, the options and the labels of a comparison. The library
  itself is a package. The facts: the theme in use is the one the next visit starts with, different choices
  give different themes, all corners are square, and added, removed and unchanged text can be
  told apart.
\<close>

subsection \<open>The theme\<close>

datatype MaterialLocale = EnUSTexts | ZhCNTexts

record AppTheme =
  th_options :: json
  th_texts :: MaterialLocale

definition theme_options :: "UIThemeOption \<Rightarrow> json" where
  "theme_options palette = JObj
     [(''palette'', JObj
       [(''mode'', JStr ''light''),
        (''primary'', JObj [(''main'', JStr (ut_primary palette))]),
        (''secondary'', JObj [(''main'', JStr (ut_secondary palette))]),
        (''background'', JObj [(''default'', JStr ''#f6f8fb'')])]),
      (''shape'', JObj [(''borderRadius'', JNum 0)]),
      (''components'', JObj
       [(''MuiTextField'', JObj [(''defaultProps'', JObj [(''size'', JStr ''small'')])]),
        (''MuiFormControl'', JObj [(''defaultProps'', JObj [(''size'', JStr ''small'')])]),
        (''MuiButton'', JObj
         [(''defaultProps'', JObj [(''size'', JStr ''small'')]),
          (''styleOverrides'', JObj [(''root'', JObj [(''borderRadius'', JNum 0)])])]),
        (''MuiChip'', JObj [(''styleOverrides'', JObj [(''root'', JObj [(''borderRadius'', JNum 0)])])]),
        (''MuiPaper'', JObj [(''styleOverrides'', JObj [(''root'', JObj [(''borderRadius'', JNum 0)])])]),
        (''MuiCard'', JObj [(''styleOverrides'', JObj [(''root'', JObj [(''borderRadius'', JNum 0)])])]),
        (''MuiIconButton'', JObj
         [(''defaultProps'', JObj [(''size'', JStr ''small'')]),
          (''styleOverrides'', JObj [(''root'', JObj [(''borderRadius'', JNum 0)])])]),
        (''MuiAlert'', JObj [(''styleOverrides'', JObj [(''root'', JObj [(''borderRadius'', JNum 0)])])]),
        (''MuiTooltip'', JObj [(''styleOverrides'', JObj [(''tooltip'', JObj [(''borderRadius'', JNum 0)])])]),
        (''MuiAutocomplete'', JObj
         [(''styleOverrides'', JObj [(''tag'', JObj [(''borderRadius'', JNum 0)]), (''paper'', JObj [(''borderRadius'', JNum 0)])])]),
        (''MuiTableCell'', JObj [(''styleOverrides'', JObj [(''root'', JObj [(''paddingTop'', JNum 10), (''paddingBottom'', JNum 10)])])]),
        (''MuiDialogActions'', JObj
         [(''styleOverrides'', JObj
           [(''root'', JObj
             [(''paddingTop'', JNum 12),
              (''paddingBottom'', JNum 12),
              (''paddingLeft'', JNum 20),
              (''paddingRight'', JNum 20),
              (''gap'', JNum 8)])])])])]"

definition createAppTheme :: "string \<Rightarrow> Locale \<Rightarrow> AppTheme" where
  "createAppTheme uiTheme l =
     (let palette = getUIThemeOption uiTheme in
      \<lparr>th_options = theme_options palette, th_texts = (if l = ZhCN then ZhCNTexts else EnUSTexts)\<rparr>)"

definition default_theme :: AppTheme where
  \<comment> \<open>\<open>theme\<close>, with the default arguments\<close>
  "default_theme = createAppTheme (as_uiTheme defaultSettings) En"

definition LocalizedThemeProvider :: "settings_ui \<Rightarrow> LanguageState \<Rightarrow> AppTheme" where
  "LocalizedThemeProvider s g = createAppTheme (su_uiTheme s) (lg_locale g)"

subsection \<open>The comparison\<close>

definition diffStyles :: json where
  "diffStyles = JObj
     [(''variables'', JObj
       [(''light'', JObj
         [(''diffViewerBackground'', JStr ''#ffffff''),
          (''diffViewerColor'', JStr ''#24292f''),
          (''addedBackground'', JStr ''#dafbe1''),
          (''addedColor'', JStr ''#24292f''),
          (''removedBackground'', JStr ''#ffebe9''),
          (''removedColor'', JStr ''#24292f''),
          (''wordAddedBackground'', JStr ''#aceebb''),
          (''wordRemovedBackground'', JStr ''#ffd7d5''),
          (''addedGutterBackground'', JStr ''#aceebb''),
          (''removedGutterBackground'', JStr ''#ffd7d5''),
          (''gutterBackground'', JStr ''#f6f8fa''),
          (''gutterBackgroundDark'', JStr ''#f6f8fa''),
          (''highlightBackground'', JStr ''#fff8c5''),
          (''highlightGutterBackground'', JStr ''#fff8c5''),
          (''codeFoldGutterBackground'', JStr ''#f6f8fa''),
          (''codeFoldBackground'', JStr ''#f6f8fa''),
          (''emptyLineBackground'', JStr ''#ffffff''),
          (''gutterColor'', JStr ''#57606a''),
          (''addedGutterColor'', JStr ''#24292f''),
          (''removedGutterColor'', JStr ''#24292f''),
          (''codeFoldContentColor'', JStr ''#57606a'')])]),
      (''diffContainer'', JObj
       [(''borderRadius'', JNum 0),
        (''fontFamily'', JStr ''ui-monospace, SFMono-Regular, SFMono, Consolas, Liberation Mono, Menlo, monospace''),
        (''fontSize'', JStr ''13px'')]),
      (''line'', JObj
       [(''padding'', JStr ''0 10px''),
        (''minHeight'', JStr ''22px''),
        (''lineHeight'', JStr ''22px''),
        (''border'', JNum 0)]),
      (''gutter'', JObj
       [(''padding'', JStr ''0 10px''),
        (''minWidth'', JStr ''48px''),
        (''border'', JNum 0),
        (''userSelect'', JStr ''none'')]),
      (''marker'', JObj [(''padding'', JStr ''0 4px''), (''userSelect'', JStr ''none'')]),
      (''contentText'', JObj [(''whiteSpace'', JStr ''pre'')])]"

definition diff_options :: "(string \<times> json) list" where
  \<comment> \<open>what the comparison package is asked for, beside the contents\<close>
  "diff_options = [(''splitView'', JBool True), (''compareMethod'', JStr ''WORDS''), (''showDiffOnly'', JBool False),
     (''useDarkTheme'', JBool False), (''hideLineNumbers'', JBool False), (''styles'', diffStyles)]"

definition DiffViewer :: "Translator \<Rightarrow> string option \<Rightarrow> DiffViewerProps \<Rightarrow> ui" where
  "DiffViewer t ariaLabel p = ULabelled (opt_or ariaLabel (t ''common.diff'' [])) (DiffViewer_view t p)"

subsection \<open>Looking into options\<close>

fun field_values :: "string \<Rightarrow> json \<Rightarrow> json list"
  and pair_values :: "string \<Rightarrow> (string \<times> json) list \<Rightarrow> json list" where
  \<comment> \<open>all values under a name, however deep\<close>
  "field_values k (JObj kvs) = pair_values k kvs"
| "field_values k _ = []"
| "pair_values k [] = []"
| "pair_values k ((k', v) # kvs) = (if k = k' then [v] else []) @ field_values k v @ pair_values k kvs"

fun json_path :: "string list \<Rightarrow> json \<Rightarrow> json option" where
  "json_path [] j = Some j"
| "json_path (k # ks) j = Option.bind (json_prop k j) (json_path ks)"

definition diff_colour :: "string \<Rightarrow> json option" where
  "diff_colour name = json_path [''variables'', ''light'', name] diffStyles"

subsection \<open>Properties\<close>

lemma theme_colours:
  "json_path [''palette'', ''primary'', ''main''] (theme_options u) = Some (JStr (ut_primary u))"
  "json_path [''palette'', ''secondary'', ''main''] (theme_options u) = Some (JStr (ut_secondary u))"
  by (simp_all add: theme_options_def json_prop_def)

lemma ui_themes_differ:
  "isUITheme a \<Longrightarrow> isUITheme b \<Longrightarrow> ut_primary (getUIThemeOption a) = ut_primary (getUIThemeOption b) \<Longrightarrow> a = b"
  by (auto simp: isUITheme_def getUIThemeOption_def uiThemeOptions_def opt_or_def)

text \<open>The theme of a choice of colours and a language has exactly these: no two choices give the same theme.\<close>

theorem theme_choice:
  assumes "isUITheme a" and "isUITheme b"
  shows "createAppTheme a l = createAppTheme b m \<longleftrightarrow> a = b \<and> l = m"
proof
  assume eq: "createAppTheme a l = createAppTheme b m"
  then have "theme_options (getUIThemeOption a) = theme_options (getUIThemeOption b)"
    by (simp add: createAppTheme_def Let_def)
  then have "JStr (ut_primary (getUIThemeOption a)) = JStr (ut_primary (getUIThemeOption b))"
    by (metis theme_colours(1) option.inject)
  with ui_themes_differ [OF assms] have "a = b" by simp
  with eq show "a = b \<and> l = m" by (cases l; cases m) (simp_all add: createAppTheme_def Let_def)
qed simp

text \<open>After any choices on the settings page and any changes of the settings and the language in other tabs, the
  theme in use is the one the next visit starts with.\<close>

theorem theme_persistent:
  assumes "s = foldl settings_step (openSettings st) es"
    and "g = foldl (language_step en zhCN nv) (initLanguage en zhCN (Some m) nv) fs"
  shows "LocalizedThemeProvider s g =
    LocalizedThemeProvider (openSettings (su_storage s)) (initLanguage en zhCN (lg_storage g) nv)"
proof -
  have "su_uiTheme s = as_uiTheme (readSettings (su_storage s))"
    unfolding assms(1) by (rule theme_follows) (simp add: openSettings_def)
  moreover have "lg_synced nv (foldl (language_step en zhCN nv) h fs)" if "lg_synced nv h" for h
    using that by (induction fs arbitrary: h) (simp_all add: language_step_synced)
  from this [OF initLanguage_synced] have "lg_locale g = readLocale (lg_storage g) nv" by (simp add: assms(2) lg_synced_def)
  ultimately show ?thesis
    by (simp add: LocalizedThemeProvider_def openSettings_def initLanguage_def lg_commit_def createLocaleStore_def)
qed

text \<open>Every corner a theme sets is square.\<close>

theorem theme_square: "set (field_values ''borderRadius'' (th_options (createAppTheme a l))) = {JNum 0}"
  by (simp add: createAppTheme_def theme_options_def Let_def)

text \<open>In a comparison, added, removed and unchanged lines, words and line numbers have different
  backgrounds, and no text has the colour of its background.\<close>

theorem diff_told_apart:
  "distinct (map diff_colour [''addedBackground'', ''removedBackground'', ''diffViewerBackground''])"
  "distinct (map diff_colour [''wordAddedBackground'', ''wordRemovedBackground'', ''addedBackground'', ''removedBackground''])"
  "distinct (map diff_colour [''addedGutterBackground'', ''removedGutterBackground'', ''gutterBackground''])"
  "diff_colour ''diffViewerColor'' \<notin> diff_colour ` {''diffViewerBackground'', ''addedBackground'', ''removedBackground'',
     ''wordAddedBackground'', ''wordRemovedBackground''}"
  by (simp_all add: diff_colour_def diffStyles_def json_prop_def)

text \<open>Under its two labels a comparison of different contents shows them, and one of equal contents says so.\<close>

theorem diff_shown:
  assumes "DiffViewer t ariaLabel p = ULabelled a (UText b # UText c # body)"
  shows "b = opt_or (dv_baseLabel p) (t ''common.diffBase'' []) \<and> c = opt_or (dv_compareLabel p) (t ''common.diffCompare'' []) \<and>
    body = (if dv_oldValue p \<noteq> dv_newValue p then [UDiff p] else [UText (t ''common.noDifferences'' [])])"
  using assms by (auto simp: DiffViewer_def DiffViewer_view_def)

end
