(* ===== verification/Catalogues.thy ===== *)
theory Catalogues
  imports I18n
begin

section \<open>The messages: \<open>i18n/catalogs\<close> and \<open>i18n/messages.ts\<close>\<close>

text \<open>
  The English and the Chinese messages of the console, part by part, and the catalogues put together
  from them. A text outside ASCII is written by its code points. The facts: the two languages have
  the same keys and, under each key, the same placeholders, so that a call that gives the
  parameters of the English message shows a complete text in either language; and the error
  texts the cluster pages keep as keys are keys.
\<close>

subsection \<open>Texts\<close>

definition code_point :: "nat \<Rightarrow> string" where
  \<comment> \<open>the UTF-8 encoding\<close>
  "code_point n =
     (if n < 0x80 then [char_of n]
      else if n < 0x800 then [char_of (0xC0 + n div 64), char_of (0x80 + n mod 64)]
      else if n < 0x10000 then [char_of (0xE0 + n div 4096), char_of (0x80 + n div 64 mod 64), char_of (0x80 + n mod 64)]
      else [char_of (0xF0 + n div 262144), char_of (0x80 + n div 4096 mod 64), char_of (0x80 + n div 64 mod 64), char_of (0x80 + n mod 64)])"

definition cp :: "nat list \<Rightarrow> string" where
  "cp ns = concat (map code_point ns)"

type_synonym message_list = "(string \<times> string) list"

subsection \<open>The messages\<close>

definition commonEn :: message_list where
  "commonEn =
     [(''common.pageTitle'', ''Cassem Admin''),
      (''common.language'', ''Language''),
      (''common.apps'', ''Apps''),
      (''common.users'', ''Users''),
      (''common.cluster'', ''Cluster''),
      (''common.topology'', ''Topology''),
      (''common.instances'', ''Instances''),
      (''common.settings'', ''Settings''),
      (''common.guide'', ''Guide''),
      (''common.expandNavigation'', ''expand navigation''),
      (''common.collapseNavigation'', ''collapse navigation''),
      (''common.openNavigation'', ''open navigation''),
      (''common.navigation'', ''navigation''),
      (''common.breadcrumb'', ''breadcrumb''),
      (''common.accountMenu'', ''account menu''),
      (''common.signedIn'', ''signed in''),
      (''common.roles'', ''Roles: {roles}''),
      (''common.status'', ''Status: {status}''),
      (''common.disabled'', ''disabled''),
      (''common.normal'', ''normal''),
      (''common.logout'', ''Logout''),
      (''common.logo'', ''Cassem logo''),
      (''common.cancel'', ''Cancel''),
      (''common.closeToast'', ''Close toast''),
      (''common.next'', ''Next''),
      (''common.back'', ''Back''),
      (''common.loading'', ''Loading''),
      (''common.configurationCenter'', ''Configuration Center''),
      (''common.signInDescription'', ''Sign in with a cassemadm account.''),
      (''common.account'', ''Account''),
      (''common.password'', ''Password''),
      (''common.login'', ''Login''),
      (''common.loginFailed'', ''login failed''),
      (''common.localPreferences'', ''Local preferences stored in this browser.''),
      (''common.appearance'', ''Appearance''),
      (''common.uiTheme'', ''UI theme''),
      (''common.editor'', ''Editor''),
      (''common.codeTheme'', ''Code theme''),
      (''common.lineWrapping'', ''Editor line wrapping''),
      (''common.codePreview'', ''Code theme preview''),
      (''common.theme.cassem-blue'', ''Cassem Blue''),
      (''common.theme.teal'', ''Teal''),
      (''common.theme.purple'', ''Purple''),
      (''common.theme.orange'', ''Orange''),
      (''common.workflow'', ''Element workflow''),
      (''common.cancelWorkflow'', ''Cancel workflow''),
      (''common.cancelWorkflowDescription'', ''Current workflow progress will be discarded and you will return to the element detail page.''),
      (''common.confirmCancel'', ''Confirm cancel''),
      (''common.diffBase'', ''Base''),
      (''common.diffCompare'', ''Compare''),
      (''common.diff'', ''Diff''),
      (''common.noDifferences'', ''No differences found for this comparison.'')]"

definition commonZhCN :: message_list where
  "commonZhCN =
     [(''common.pageTitle'', ''Cassem '' @ cp [0x7BA1, 0x7406, 0x540E, 0x53F0]),
      (''common.language'', cp [0x8BED, 0x8A00]),
      (''common.apps'', cp [0x5E94, 0x7528]),
      (''common.users'', cp [0x7528, 0x6237]),
      (''common.cluster'', cp [0x96C6, 0x7FA4]),
      (''common.topology'', cp [0x62D3, 0x6251]),
      (''common.instances'', cp [0x5B9E, 0x4F8B]),
      (''common.settings'', cp [0x8BBE, 0x7F6E]),
      (''common.guide'', cp [0x4F7F, 0x7528, 0x6307, 0x5357]),
      (''common.expandNavigation'', cp [0x5C55, 0x5F00, 0x5BFC, 0x822A]),
      (''common.collapseNavigation'', cp [0x6536, 0x8D77, 0x5BFC, 0x822A]),
      (''common.openNavigation'', cp [0x6253, 0x5F00, 0x5BFC, 0x822A]),
      (''common.navigation'', cp [0x5BFC, 0x822A]),
      (''common.breadcrumb'', cp [0x9762, 0x5305, 0x5C51, 0x5BFC, 0x822A]),
      (''common.accountMenu'', cp [0x7528, 0x6237, 0x83DC, 0x5355]),
      (''common.signedIn'', cp [0x5DF2, 0x767B, 0x5F55]),
      (''common.roles'', cp [0x89D2, 0x8272, 0xFF1A] @ ''{roles}''),
      (''common.status'', cp [0x72B6, 0x6001, 0xFF1A] @ ''{status}''),
      (''common.disabled'', cp [0x5DF2, 0x7981, 0x7528]),
      (''common.normal'', cp [0x6B63, 0x5E38]),
      (''common.logout'', cp [0x9000, 0x51FA, 0x767B, 0x5F55]),
      (''common.logo'', ''Cassem '' @ cp [0x6807, 0x5FD7]),
      (''common.cancel'', cp [0x53D6, 0x6D88]),
      (''common.closeToast'', cp [0x5173, 0x95ED, 0x63D0, 0x793A]),
      (''common.next'', cp [0x4E0B, 0x4E00, 0x6B65]),
      (''common.back'', cp [0x4E0A, 0x4E00, 0x6B65]),
      (''common.loading'', cp [0x52A0, 0x8F7D, 0x4E2D]),
      (''common.configurationCenter'', cp [0x914D, 0x7F6E, 0x4E2D, 0x5FC3]),
      (''common.signInDescription'', cp [0x4F7F, 0x7528] @ '' cassemadm '' @ cp [0x8D26, 0x53F7, 0x767B, 0x5F55, 0x3002]),
      (''common.account'', cp [0x8D26, 0x53F7]),
      (''common.password'', cp [0x5BC6, 0x7801]),
      (''common.login'', cp [0x767B, 0x5F55]),
      (''common.loginFailed'', cp [0x767B, 0x5F55, 0x5931, 0x8D25]),
      (''common.localPreferences'', cp [0x504F, 0x597D, 0x8BBE, 0x7F6E, 0x4FDD, 0x5B58, 0x5728, 0x5F53, 0x524D, 0x6D4F, 0x89C8, 0x5668, 0x4E2D, 0x3002]),
      (''common.appearance'', cp [0x5916, 0x89C2]),
      (''common.uiTheme'', cp [0x754C, 0x9762, 0x4E3B, 0x9898]),
      (''common.editor'', cp [0x7F16, 0x8F91, 0x5668]),
      (''common.codeTheme'', cp [0x4EE3, 0x7801, 0x4E3B, 0x9898]),
      (''common.lineWrapping'', cp [0x7F16, 0x8F91, 0x5668, 0x81EA, 0x52A8, 0x6362, 0x884C]),
      (''common.codePreview'', cp [0x4EE3, 0x7801, 0x4E3B, 0x9898, 0x9884, 0x89C8]),
      (''common.theme.cassem-blue'', ''Cassem '' @ cp [0x84DD]),
      (''common.theme.teal'', cp [0x9752, 0x7EFF, 0x8272]),
      (''common.theme.purple'', cp [0x7D2B, 0x8272]),
      (''common.theme.orange'', cp [0x6A59, 0x8272]),
      (''common.workflow'', cp [0x914D, 0x7F6E, 0x64CD, 0x4F5C, 0x6D41, 0x7A0B]),
      (''common.cancelWorkflow'', cp [0x53D6, 0x6D88, 0x6D41, 0x7A0B]),
      (''common.cancelWorkflowDescription'', cp [0x5F53, 0x524D, 0x6D41, 0x7A0B, 0x7684, 0x8FDB, 0x5EA6, 0x5C06, 0x88AB, 0x4E22, 0x5F03, 0xFF0C, 0x5E76, 0x8FD4, 0x56DE, 0x914D, 0x7F6E, 0x8BE6, 0x60C5, 0x9875, 0x3002]),
      (''common.confirmCancel'', cp [0x786E, 0x8BA4, 0x53D6, 0x6D88]),
      (''common.diffBase'', cp [0x57FA, 0x51C6]),
      (''common.diffCompare'', cp [0x5BF9, 0x6BD4]),
      (''common.diff'', cp [0x5DEE, 0x5F02]),
      (''common.noDifferences'', cp [0x672C, 0x6B21, 0x5BF9, 0x6BD4, 0x672A, 0x53D1, 0x73B0, 0x5DEE, 0x5F02, 0x3002])]"

definition managementEn :: message_list where
  "managementEn =
     [(''management.apps.search'', ''Search apps''),
      (''management.common.rowsPerPage'', ''Rows per page''),
      (''management.apps.delete'', ''Delete app''),
      (''management.common.delete'', ''Delete''),
      (''management.common.appId'', ''App ID''),
      (''management.common.description'', ''Description''),
      (''management.apps.loading'', ''Loading apps''),
      (''management.apps.empty'', ''No apps found''),
      (''management.apps.emptyDescription'', ''Create an app to start organizing environments and elements.''),
      (''management.apps.title'', ''Apps''),
      (''management.apps.description'', ''Manage application namespaces and navigate to their environments.''),
      (''management.apps.add'', ''Add app''),
      (''management.common.search'', ''Search''),
      (''management.common.clear'', ''Clear''),
      (''management.common.cancel'', ''Cancel''),
      (''management.common.create'', ''Create''),
      (''management.common.createdAt'', ''Created At''),
      (''management.common.creator'', ''Creator''),
      (''management.common.owner'', ''Owner''),
      (''management.common.actions'', ''Actions''),
      (''management.apps.envs'', ''Envs''),
      (''management.common.previous'', ''Previous''),
      (''management.common.next'', ''Next''),
      (''management.apps.loadFailed'', ''failed to load apps''),
      (''management.apps.createFailed'', ''failed to create app''),
      (''management.apps.deleteFailed'', ''failed to delete app''),
      (''management.apps.deleteDescription'', ''This will delete app {app}.''),
      (''management.common.page'', ''Page {page}''),
      (''management.envs.delete'', ''Delete environment''),
      (''management.common.environment'', ''Environment''),
      (''management.envs.nameHelp'', ''Choose a common environment or type a custom name. Values are saved lowercase.''),
      (''management.envs.loading'', ''Loading environments''),
      (''management.envs.empty'', ''No environments found''),
      (''management.envs.emptyDescription'', ''Create an environment for this app to manage its elements.''),
      (''management.envs.title'', ''Environments''),
      (''management.envs.description'', ''Environments separate app configuration by runtime target, such as dev, test, stage, or prod.''),
      (''management.envs.copy'', ''Copy''),
      (''management.envs.add'', ''Add environment''),
      (''management.envs.elements'', ''Elements''),
      (''management.envs.missingApp'', ''missing app id''),
      (''management.envs.loadFailed'', ''failed to load environments''),
      (''management.envs.createFailed'', ''failed to create environment''),
      (''management.envs.deleteFailed'', ''failed to delete environment''),
      (''management.common.unknown'', ''unknown''),
      (''management.envs.deleteDescription'', ''This will delete environment {env} from app {app}.''),
      (''management.users.disabled'', ''Disabled''),
      (''management.users.enabled'', ''Enabled''),
      (''management.users.disableUser'', ''Disable user''),
      (''management.users.disable'', ''Disable''),
      (''management.users.account'', ''Account''),
      (''management.users.accountHelp'', ''User login account. Must be a valid email address.''),
      (''management.users.nickname'', ''Nickname''),
      (''management.users.nicknameHelp'', ''Display name shown in the admin UI and account menu.''),
      (''management.users.password'', ''Password''),
      (''management.users.passwordHelp'', ''Initial password for the new account.''),
      (''management.users.newPasswordHelp'', ''New password to assign to this user.''),
      (''management.users.loadingAccess'', ''Loading access bindings''),
      (''management.users.emptyAccess'', ''No access bindings''),
      (''management.users.emptyAccessDescription'', ''Add a role binding for this user.''),
      (''management.users.role'', ''Role''),
      (''management.users.scope'', ''Scope''),
      (''management.users.app'', ''App''),
      (''management.users.computedDomain'', ''Computed domain''),
      (''management.users.domainHelp'', ''Preview of the exact domain string that will be written to ACL bindings.''),
      (''management.users.loading'', ''Loading users''),
      (''management.users.empty'', ''No users found''),
      (''management.users.emptyDescription'', ''Add a user to start managing account access.''),
      (''management.users.title'', ''Users''),
      (''management.users.description'', ''Review accounts, add new users, manage access, disable access, and reset passwords.''),
      (''management.users.add'', ''Add user''),
      (''management.users.resetPassword'', ''Reset password''),
      (''management.users.reset'', ''Reset''),
      (''management.users.manageAccess'', ''Manage access''),
      (''management.users.domain'', ''Domain''),
      (''management.users.revoke'', ''Revoke''),
      (''management.users.addBinding'', ''Add binding''),
      (''management.users.cluster'', ''Cluster''),
      (''management.users.entireApp'', ''Entire app''),
      (''management.users.specificEnvironment'', ''Specific environment''),
      (''management.common.close'', ''Close''),
      (''management.common.status'', ''Status''),
      (''management.users.roles'', ''Roles''),
      (''management.users.bindings'', ''Bindings''),
      (''management.users.loadFailed'', ''failed to load users''),
      (''management.users.loadDomainsFailed'', ''failed to load ACL domains''),
      (''management.users.added'', ''User added successfully.''),
      (''management.users.addFailed'', ''Failed to add user.''),
      (''management.users.disabledSuccess'', ''User disabled successfully.''),
      (''management.users.disableFailed'', ''Failed to disable user.''),
      (''management.users.passwordReset'', ''Password reset successfully.''),
      (''management.users.resetFailed'', ''Failed to reset password.''),
      (''management.users.loadAccessFailed'', ''Failed to load access bindings.''),
      (''management.users.refreshAccessFailed'', ''Failed to refresh access bindings.''),
      (''management.acl.assigned'', ''Role assigned successfully.''),
      (''management.acl.assignFailed'', ''Failed to assign role.''),
      (''management.acl.revoked'', ''Role revoked successfully.''),
      (''management.acl.revokeFailed'', ''Failed to revoke role.''),
      (''management.users.disableDescription'', ''This will disable user {account}.''),
      (''management.acl.domains'', ''Domains''),
      (''management.acl.domainsHelp'', ''Enter one domain per line or separate multiple domains with commas.''),
      (''management.acl.title'', ''ACL''),
      (''management.acl.description'', ''Assign or revoke fixed backend roles. Leave domains empty to use the backend default cluster domain.''),
      (''management.acl.roleBinding'', ''Role binding''),
      (''management.acl.assign'', ''Assign role''),
      (''management.acl.revoke'', ''Revoke role''),
      (''management.roles.superadmin'', ''Super Admin''),
      (''management.roles.admin'', ''Admin''),
      (''management.roles.appowner'', ''App Owner''),
      (''management.roles.appdeveloper'', ''Developer''),
      (''management.copy.sourceEnvRequired'', ''Source env *''),
      (''management.copy.toEnv'', ''To env''),
      (''management.copy.loadingElements'', ''Loading source elements''),
      (''management.copy.elementsList'', ''Copy elements list''),
      (''management.copy.elementsProgress'', ''Copy elements progress''),
      (''management.copy.results'', ''Copy results''),
      (''management.copy.resultStates'', ''Copy result states''),
      (''management.copy.title'', ''Copy environment''),
      (''management.copy.taskCreation'', ''Task creation''),
      (''management.copy.taskExecution'', ''Task execution''),
      (''management.copy.sourceEnv'', ''Source env''),
      (''management.copy.skipEmpty'', ''Skip empty''),
      (''management.copy.copyEmpty'', ''Copy empty''),
      (''management.copy.emptySource'', ''No elements found in source environment.''),
      (''management.copy.summary'', ''Copy summary''),
      (''management.copy.targetEnv'', ''Target env''),
      (''management.copy.selectedElements'', ''Selected elements''),
      (''management.copy.emptyElements'', ''Empty elements''),
      (''management.copy.estimatedSkipped'', ''Estimated skipped''),
      (''management.copy.estimatedCopy'', ''Estimated copy''),
      (''management.copy.progress'', ''Progress''),
      (''management.copy.createEnv'', ''Create env''),
      (''management.copy.copyElements'', ''Copy elements''),
      (''management.copy.complete'', ''Complete''),
      (''management.copy.resultsTitle'', ''Results''),
      (''management.copy.key'', ''Key''),
      (''management.copy.state'', ''State''),
      (''management.copy.reason'', ''Reason''),
      (''management.copy.start'', ''Start copy''),
      (''management.copy.viewEnv'', ''View copied env''),
      (''management.copy.exists'', ''Environment already exists''),
      (''management.copy.sameEnv'', ''Target env must be different from source env''),
      (''management.copy.zeroEstimate'', ''Estimated copy is 0. Enable Copy empty elements or select non-empty elements.''),
      (''management.copy.emptyOn'', ''Copy empty elements is on. Empty elements will be copied and may fail server validation.''),
      (''management.copy.emptyOff'', ''Copy empty elements is off. Empty elements will be skipped.''),
      (''management.copy.targetHelp'', ''New environment name. Values are saved lowercase.''),
      (''management.copy.success'', ''Success''),
      (''management.copy.skipped'', ''Skipped''),
      (''management.copy.failed'', ''Failed''),
      (''management.copy.resultCount'', ''{status} {count}''),
      (''management.copy.loadFailed'', ''failed to load source elements''),
      (''management.copy.createFailed'', ''failed to create target environment''),
      (''management.copy.elementFailed'', ''failed to copy element''),
      (''management.copy.emptySkipped'', ''empty element skipped''),
      (''management.copy.inProgress'', ''copy in progress''),
      (''management.copy.copyEmptyElements'', ''Copy empty elements''),
      (''management.copy.selectAll'', ''Select all elements ({selected}/{total})''),
      (''management.copy.elementSummary'', ''using v{version} '' @ cp [0xB7] @ '' {type}''),
      (''management.copy.elementSummaryEmpty'', ''using v{version} '' @ cp [0xB7] @ '' {type} '' @ cp [0xB7] @ '' empty''),
      (''management.copy.processed'', ''{completed}/{total} elements processed''),
      (''management.copy.progress.pending'', ''pending''),
      (''management.copy.progress.doing'', ''doing''),
      (''management.copy.progress.done'', ''done''),
      (''management.copy.progress.failed'', ''failed'')]"

definition managementZhCN :: message_list where
  "managementZhCN =
     [(''management.apps.search'', cp [0x641C, 0x7D22, 0x5E94, 0x7528]),
      (''management.common.rowsPerPage'', cp [0x6BCF, 0x9875, 0x884C, 0x6570]),
      (''management.apps.delete'', cp [0x5220, 0x9664, 0x5E94, 0x7528]),
      (''management.common.delete'', cp [0x5220, 0x9664]),
      (''management.common.appId'', cp [0x5E94, 0x7528] @ '' ID''),
      (''management.common.description'', cp [0x63CF, 0x8FF0]),
      (''management.apps.loading'', cp [0x6B63, 0x5728, 0x52A0, 0x8F7D, 0x5E94, 0x7528]),
      (''management.apps.empty'', cp [0x672A, 0x627E, 0x5230, 0x5E94, 0x7528]),
      (''management.apps.emptyDescription'', cp [0x521B, 0x5EFA, 0x5E94, 0x7528, 0xFF0C, 0x5F00, 0x59CB, 0x7BA1, 0x7406, 0x73AF, 0x5883, 0x548C, 0x914D, 0x7F6E, 0x9879, 0x3002]),
      (''management.apps.title'', cp [0x5E94, 0x7528]),
      (''management.apps.description'', cp [0x7BA1, 0x7406, 0x5E94, 0x7528, 0x547D, 0x540D, 0x7A7A, 0x95F4, 0x5E76, 0x67E5, 0x770B, 0x5404, 0x4E2A, 0x73AF, 0x5883, 0x3002]),
      (''management.apps.add'', cp [0x6DFB, 0x52A0, 0x5E94, 0x7528]),
      (''management.common.search'', cp [0x641C, 0x7D22]),
      (''management.common.clear'', cp [0x6E05, 0x9664]),
      (''management.common.cancel'', cp [0x53D6, 0x6D88]),
      (''management.common.create'', cp [0x521B, 0x5EFA]),
      (''management.common.createdAt'', cp [0x521B, 0x5EFA, 0x65F6, 0x95F4]),
      (''management.common.creator'', cp [0x521B, 0x5EFA, 0x8005]),
      (''management.common.owner'', cp [0x6240, 0x6709, 0x8005]),
      (''management.common.actions'', cp [0x64CD, 0x4F5C]),
      (''management.apps.envs'', cp [0x73AF, 0x5883]),
      (''management.common.previous'', cp [0x4E0A, 0x4E00, 0x9875]),
      (''management.common.next'', cp [0x4E0B, 0x4E00, 0x9875]),
      (''management.apps.loadFailed'', cp [0x52A0, 0x8F7D, 0x5E94, 0x7528, 0x5931, 0x8D25]),
      (''management.apps.createFailed'', cp [0x521B, 0x5EFA, 0x5E94, 0x7528, 0x5931, 0x8D25]),
      (''management.apps.deleteFailed'', cp [0x5220, 0x9664, 0x5E94, 0x7528, 0x5931, 0x8D25]),
      (''management.apps.deleteDescription'', cp [0x6B64, 0x64CD, 0x4F5C, 0x5C06, 0x5220, 0x9664, 0x5E94, 0x7528] @ '' {app}'' @ cp [0x3002]),
      (''management.common.page'', cp [0x7B2C] @ '' {page} '' @ cp [0x9875]),
      (''management.envs.delete'', cp [0x5220, 0x9664, 0x73AF, 0x5883]),
      (''management.common.environment'', cp [0x73AF, 0x5883]),
      (''management.envs.nameHelp'', cp [0x9009, 0x62E9, 0x5E38, 0x7528, 0x73AF, 0x5883, 0x6216, 0x8F93, 0x5165, 0x81EA, 0x5B9A, 0x4E49, 0x540D, 0x79F0, 0xFF0C, 0x540D, 0x79F0, 0x5C06, 0x4EE5, 0x5C0F, 0x5199, 0x4FDD, 0x5B58, 0x3002]),
      (''management.envs.loading'', cp [0x6B63, 0x5728, 0x52A0, 0x8F7D, 0x73AF, 0x5883]),
      (''management.envs.empty'', cp [0x672A, 0x627E, 0x5230, 0x73AF, 0x5883]),
      (''management.envs.emptyDescription'', cp [0x4E3A, 0x6B64, 0x5E94, 0x7528, 0x521B, 0x5EFA, 0x73AF, 0x5883, 0x4EE5, 0x7BA1, 0x7406, 0x914D, 0x7F6E, 0x9879, 0x3002]),
      (''management.envs.title'', cp [0x73AF, 0x5883]),
      (''management.envs.description'', cp [0x73AF, 0x5883, 0x7528, 0x4E8E, 0x533A, 0x5206, 0x5E94, 0x7528, 0x5728, 0x4E0D, 0x540C, 0x8FD0, 0x884C, 0x76EE, 0x6807, 0x4E0B, 0x7684, 0x914D, 0x7F6E, 0xFF0C, 0x4F8B, 0x5982] @ '' dev'' @ cp [0x3001] @ ''test'' @ cp [0x3001] @ ''stage '' @ cp [0x6216] @ '' prod'' @ cp [0x3002]),
      (''management.envs.copy'', cp [0x590D, 0x5236]),
      (''management.envs.add'', cp [0x6DFB, 0x52A0, 0x73AF, 0x5883]),
      (''management.envs.elements'', cp [0x914D, 0x7F6E, 0x9879]),
      (''management.envs.missingApp'', cp [0x7F3A, 0x5C11, 0x5E94, 0x7528] @ '' ID''),
      (''management.envs.loadFailed'', cp [0x52A0, 0x8F7D, 0x73AF, 0x5883, 0x5931, 0x8D25]),
      (''management.envs.createFailed'', cp [0x521B, 0x5EFA, 0x73AF, 0x5883, 0x5931, 0x8D25]),
      (''management.envs.deleteFailed'', cp [0x5220, 0x9664, 0x73AF, 0x5883, 0x5931, 0x8D25]),
      (''management.common.unknown'', cp [0x672A, 0x77E5]),
      (''management.envs.deleteDescription'', cp [0x6B64, 0x64CD, 0x4F5C, 0x5C06, 0x4ECE, 0x5E94, 0x7528] @ '' {app} '' @ cp [0x4E2D, 0x5220, 0x9664, 0x73AF, 0x5883] @ '' {env}'' @ cp [0x3002]),
      (''management.users.disabled'', cp [0x5DF2, 0x7981, 0x7528]),
      (''management.users.enabled'', cp [0x5DF2, 0x542F, 0x7528]),
      (''management.users.disableUser'', cp [0x7981, 0x7528, 0x7528, 0x6237]),
      (''management.users.disable'', cp [0x7981, 0x7528]),
      (''management.users.account'', cp [0x8D26, 0x53F7]),
      (''management.users.accountHelp'', cp [0x7528, 0x6237, 0x767B, 0x5F55, 0x8D26, 0x53F7, 0xFF0C, 0x5FC5, 0x987B, 0x662F, 0x6709, 0x6548, 0x7684, 0x7535, 0x5B50, 0x90AE, 0x7BB1, 0x5730, 0x5740, 0x3002]),
      (''management.users.nickname'', cp [0x6635, 0x79F0]),
      (''management.users.nicknameHelp'', cp [0x5728, 0x7BA1, 0x7406, 0x754C, 0x9762, 0x548C, 0x8D26, 0x53F7, 0x83DC, 0x5355, 0x4E2D, 0x663E, 0x793A, 0x7684, 0x540D, 0x79F0, 0x3002]),
      (''management.users.password'', cp [0x5BC6, 0x7801]),
      (''management.users.passwordHelp'', cp [0x65B0, 0x8D26, 0x53F7, 0x7684, 0x521D, 0x59CB, 0x5BC6, 0x7801, 0x3002]),
      (''management.users.newPasswordHelp'', cp [0x4E3A, 0x6B64, 0x7528, 0x6237, 0x8BBE, 0x7F6E, 0x7684, 0x65B0, 0x5BC6, 0x7801, 0x3002]),
      (''management.users.loadingAccess'', cp [0x6B63, 0x5728, 0x52A0, 0x8F7D, 0x6743, 0x9650, 0x7ED1, 0x5B9A]),
      (''management.users.emptyAccess'', cp [0x6682, 0x65E0, 0x6743, 0x9650, 0x7ED1, 0x5B9A]),
      (''management.users.emptyAccessDescription'', cp [0x4E3A, 0x6B64, 0x7528, 0x6237, 0x6DFB, 0x52A0, 0x89D2, 0x8272, 0x7ED1, 0x5B9A, 0x3002]),
      (''management.users.role'', cp [0x89D2, 0x8272]),
      (''management.users.scope'', cp [0x8303, 0x56F4]),
      (''management.users.app'', cp [0x5E94, 0x7528]),
      (''management.users.computedDomain'', cp [0x751F, 0x6210, 0x7684, 0x6743, 0x9650, 0x57DF]),
      (''management.users.domainHelp'', cp [0x9884, 0x89C8, 0x5C06, 0x5199, 0x5165] @ '' ACL '' @ cp [0x7ED1, 0x5B9A, 0x7684, 0x5B8C, 0x6574, 0x6743, 0x9650, 0x57DF, 0x5B57, 0x7B26, 0x4E32, 0x3002]),
      (''management.users.loading'', cp [0x6B63, 0x5728, 0x52A0, 0x8F7D, 0x7528, 0x6237]),
      (''management.users.empty'', cp [0x672A, 0x627E, 0x5230, 0x7528, 0x6237]),
      (''management.users.emptyDescription'', cp [0x6DFB, 0x52A0, 0x7528, 0x6237, 0x4EE5, 0x7BA1, 0x7406, 0x8D26, 0x53F7, 0x6743, 0x9650, 0x3002]),
      (''management.users.title'', cp [0x7528, 0x6237]),
      (''management.users.description'', cp [0x67E5, 0x770B, 0x8D26, 0x53F7, 0x3001, 0x6DFB, 0x52A0, 0x7528, 0x6237, 0x3001, 0x7BA1, 0x7406, 0x6743, 0x9650, 0x3001, 0x7981, 0x7528, 0x8D26, 0x53F7, 0x53CA, 0x91CD, 0x7F6E, 0x5BC6, 0x7801, 0x3002]),
      (''management.users.add'', cp [0x6DFB, 0x52A0, 0x7528, 0x6237]),
      (''management.users.resetPassword'', cp [0x91CD, 0x7F6E, 0x5BC6, 0x7801]),
      (''management.users.reset'', cp [0x91CD, 0x7F6E]),
      (''management.users.manageAccess'', cp [0x7BA1, 0x7406, 0x6743, 0x9650]),
      (''management.users.domain'', cp [0x6743, 0x9650, 0x57DF]),
      (''management.users.revoke'', cp [0x64A4, 0x9500]),
      (''management.users.addBinding'', cp [0x6DFB, 0x52A0, 0x7ED1, 0x5B9A]),
      (''management.users.cluster'', cp [0x96C6, 0x7FA4]),
      (''management.users.entireApp'', cp [0x6574, 0x4E2A, 0x5E94, 0x7528]),
      (''management.users.specificEnvironment'', cp [0x6307, 0x5B9A, 0x73AF, 0x5883]),
      (''management.common.close'', cp [0x5173, 0x95ED]),
      (''management.common.status'', cp [0x72B6, 0x6001]),
      (''management.users.roles'', cp [0x89D2, 0x8272]),
      (''management.users.bindings'', cp [0x7ED1, 0x5B9A, 0x6570]),
      (''management.users.loadFailed'', cp [0x52A0, 0x8F7D, 0x7528, 0x6237, 0x5931, 0x8D25]),
      (''management.users.loadDomainsFailed'', cp [0x52A0, 0x8F7D] @ '' ACL '' @ cp [0x6743, 0x9650, 0x57DF, 0x5931, 0x8D25]),
      (''management.users.added'', cp [0x7528, 0x6237, 0x6DFB, 0x52A0, 0x6210, 0x529F, 0x3002]),
      (''management.users.addFailed'', cp [0x6DFB, 0x52A0, 0x7528, 0x6237, 0x5931, 0x8D25, 0x3002]),
      (''management.users.disabledSuccess'', cp [0x7528, 0x6237, 0x7981, 0x7528, 0x6210, 0x529F, 0x3002]),
      (''management.users.disableFailed'', cp [0x7981, 0x7528, 0x7528, 0x6237, 0x5931, 0x8D25, 0x3002]),
      (''management.users.passwordReset'', cp [0x5BC6, 0x7801, 0x91CD, 0x7F6E, 0x6210, 0x529F, 0x3002]),
      (''management.users.resetFailed'', cp [0x91CD, 0x7F6E, 0x5BC6, 0x7801, 0x5931, 0x8D25, 0x3002]),
      (''management.users.loadAccessFailed'', cp [0x52A0, 0x8F7D, 0x6743, 0x9650, 0x7ED1, 0x5B9A, 0x5931, 0x8D25, 0x3002]),
      (''management.users.refreshAccessFailed'', cp [0x5237, 0x65B0, 0x6743, 0x9650, 0x7ED1, 0x5B9A, 0x5931, 0x8D25, 0x3002]),
      (''management.acl.assigned'', cp [0x89D2, 0x8272, 0x5206, 0x914D, 0x6210, 0x529F, 0x3002]),
      (''management.acl.assignFailed'', cp [0x5206, 0x914D, 0x89D2, 0x8272, 0x5931, 0x8D25, 0x3002]),
      (''management.acl.revoked'', cp [0x89D2, 0x8272, 0x64A4, 0x9500, 0x6210, 0x529F, 0x3002]),
      (''management.acl.revokeFailed'', cp [0x64A4, 0x9500, 0x89D2, 0x8272, 0x5931, 0x8D25, 0x3002]),
      (''management.users.disableDescription'', cp [0x6B64, 0x64CD, 0x4F5C, 0x5C06, 0x7981, 0x7528, 0x7528, 0x6237] @ '' {account}'' @ cp [0x3002]),
      (''management.acl.domains'', cp [0x6743, 0x9650, 0x57DF]),
      (''management.acl.domainsHelp'', cp [0x6BCF, 0x884C, 0x8F93, 0x5165, 0x4E00, 0x4E2A, 0x6743, 0x9650, 0x57DF, 0xFF0C, 0x6216, 0x4F7F, 0x7528, 0x9017, 0x53F7, 0x5206, 0x9694, 0x591A, 0x4E2A, 0x6743, 0x9650, 0x57DF, 0x3002]),
      (''management.acl.title'', cp [0x8BBF, 0x95EE, 0x63A7, 0x5236]),
      (''management.acl.description'', cp [0x5206, 0x914D, 0x6216, 0x64A4, 0x9500, 0x9884, 0x8BBE, 0x89D2, 0x8272, 0x3002, 0x6743, 0x9650, 0x57DF, 0x7559, 0x7A7A, 0x65F6, 0x4F7F, 0x7528, 0x9ED8, 0x8BA4, 0x7684, 0x96C6, 0x7FA4, 0x6743, 0x9650, 0x57DF, 0x3002]),
      (''management.acl.roleBinding'', cp [0x89D2, 0x8272, 0x7ED1, 0x5B9A]),
      (''management.acl.assign'', cp [0x5206, 0x914D, 0x89D2, 0x8272]),
      (''management.acl.revoke'', cp [0x64A4, 0x9500, 0x89D2, 0x8272]),
      (''management.roles.superadmin'', cp [0x8D85, 0x7EA7, 0x7BA1, 0x7406, 0x5458]),
      (''management.roles.admin'', cp [0x7BA1, 0x7406, 0x5458]),
      (''management.roles.appowner'', cp [0x5E94, 0x7528, 0x6240, 0x6709, 0x8005]),
      (''management.roles.appdeveloper'', cp [0x5F00, 0x53D1, 0x8005]),
      (''management.copy.sourceEnvRequired'', cp [0x6E90, 0x73AF, 0x5883] @ '' *''),
      (''management.copy.toEnv'', cp [0x76EE, 0x6807, 0x73AF, 0x5883]),
      (''management.copy.loadingElements'', cp [0x6B63, 0x5728, 0x52A0, 0x8F7D, 0x6E90, 0x73AF, 0x5883, 0x914D, 0x7F6E, 0x9879]),
      (''management.copy.elementsList'', cp [0x5F85, 0x590D, 0x5236, 0x7684, 0x914D, 0x7F6E, 0x9879, 0x5217, 0x8868]),
      (''management.copy.elementsProgress'', cp [0x914D, 0x7F6E, 0x9879, 0x590D, 0x5236, 0x8FDB, 0x5EA6]),
      (''management.copy.results'', cp [0x590D, 0x5236, 0x7ED3, 0x679C]),
      (''management.copy.resultStates'', cp [0x590D, 0x5236, 0x7ED3, 0x679C, 0x72B6, 0x6001]),
      (''management.copy.title'', cp [0x590D, 0x5236, 0x73AF, 0x5883]),
      (''management.copy.taskCreation'', cp [0x521B, 0x5EFA, 0x4EFB, 0x52A1]),
      (''management.copy.taskExecution'', cp [0x6267, 0x884C, 0x4EFB, 0x52A1]),
      (''management.copy.sourceEnv'', cp [0x6E90, 0x73AF, 0x5883]),
      (''management.copy.skipEmpty'', cp [0x8DF3, 0x8FC7, 0x7A7A, 0x914D, 0x7F6E, 0x9879]),
      (''management.copy.copyEmpty'', cp [0x590D, 0x5236, 0x7A7A, 0x914D, 0x7F6E, 0x9879]),
      (''management.copy.emptySource'', cp [0x6E90, 0x73AF, 0x5883, 0x4E2D, 0x6CA1, 0x6709, 0x914D, 0x7F6E, 0x9879, 0x3002]),
      (''management.copy.summary'', cp [0x590D, 0x5236, 0x6982, 0x89C8]),
      (''management.copy.targetEnv'', cp [0x76EE, 0x6807, 0x73AF, 0x5883]),
      (''management.copy.selectedElements'', cp [0x5DF2, 0x9009, 0x914D, 0x7F6E, 0x9879]),
      (''management.copy.emptyElements'', cp [0x7A7A, 0x914D, 0x7F6E, 0x9879]),
      (''management.copy.estimatedSkipped'', cp [0x9884, 0x8BA1, 0x8DF3, 0x8FC7]),
      (''management.copy.estimatedCopy'', cp [0x9884, 0x8BA1, 0x590D, 0x5236]),
      (''management.copy.progress'', cp [0x8FDB, 0x5EA6]),
      (''management.copy.createEnv'', cp [0x521B, 0x5EFA, 0x73AF, 0x5883]),
      (''management.copy.copyElements'', cp [0x590D, 0x5236, 0x914D, 0x7F6E, 0x9879]),
      (''management.copy.complete'', cp [0x5B8C, 0x6210]),
      (''management.copy.resultsTitle'', cp [0x7ED3, 0x679C]),
      (''management.copy.key'', cp [0x952E]),
      (''management.copy.state'', cp [0x72B6, 0x6001]),
      (''management.copy.reason'', cp [0x539F, 0x56E0]),
      (''management.copy.start'', cp [0x5F00, 0x59CB, 0x590D, 0x5236]),
      (''management.copy.viewEnv'', cp [0x67E5, 0x770B, 0x590D, 0x5236, 0x540E, 0x7684, 0x73AF, 0x5883]),
      (''management.copy.exists'', cp [0x73AF, 0x5883, 0x5DF2, 0x5B58, 0x5728]),
      (''management.copy.sameEnv'', cp [0x76EE, 0x6807, 0x73AF, 0x5883, 0x4E0D, 0x80FD, 0x4E0E, 0x6E90, 0x73AF, 0x5883, 0x76F8, 0x540C]),
      (''management.copy.zeroEstimate'', cp [0x9884, 0x8BA1, 0x590D, 0x5236, 0x6570, 0x91CF, 0x4E3A] @ '' 0'' @ cp [0x3002, 0x8BF7, 0x542F, 0x7528, 0x201C, 0x590D, 0x5236, 0x7A7A, 0x914D, 0x7F6E, 0x9879, 0x201D, 0x6216, 0x9009, 0x62E9, 0x975E, 0x7A7A, 0x914D, 0x7F6E, 0x9879, 0x3002]),
      (''management.copy.emptyOn'', cp [0x5DF2, 0x542F, 0x7528, 0x590D, 0x5236, 0x7A7A, 0x914D, 0x7F6E, 0x9879, 0x3002, 0x7A7A, 0x914D, 0x7F6E, 0x9879, 0x4E5F, 0x5C06, 0x88AB, 0x590D, 0x5236, 0xFF0C, 0x4F46, 0x53EF, 0x80FD, 0x65E0, 0x6CD5, 0x901A, 0x8FC7, 0x670D, 0x52A1, 0x7AEF, 0x6821, 0x9A8C, 0x3002]),
      (''management.copy.emptyOff'', cp [0x672A, 0x542F, 0x7528, 0x590D, 0x5236, 0x7A7A, 0x914D, 0x7F6E, 0x9879, 0xFF0C, 0x5C06, 0x8DF3, 0x8FC7, 0x7A7A, 0x914D, 0x7F6E, 0x9879, 0x3002]),
      (''management.copy.targetHelp'', cp [0x65B0, 0x73AF, 0x5883, 0x7684, 0x540D, 0x79F0, 0xFF0C, 0x5C06, 0x4EE5, 0x5C0F, 0x5199, 0x4FDD, 0x5B58, 0x3002]),
      (''management.copy.success'', cp [0x6210, 0x529F]),
      (''management.copy.skipped'', cp [0x5DF2, 0x8DF3, 0x8FC7]),
      (''management.copy.failed'', cp [0x5931, 0x8D25]),
      (''management.copy.resultCount'', ''{status} {count}''),
      (''management.copy.loadFailed'', cp [0x52A0, 0x8F7D, 0x6E90, 0x73AF, 0x5883, 0x914D, 0x7F6E, 0x9879, 0x5931, 0x8D25]),
      (''management.copy.createFailed'', cp [0x521B, 0x5EFA, 0x76EE, 0x6807, 0x73AF, 0x5883, 0x5931, 0x8D25]),
      (''management.copy.elementFailed'', cp [0x590D, 0x5236, 0x914D, 0x7F6E, 0x9879, 0x5931, 0x8D25]),
      (''management.copy.emptySkipped'', cp [0x5DF2, 0x8DF3, 0x8FC7, 0x7A7A, 0x914D, 0x7F6E, 0x9879]),
      (''management.copy.inProgress'', cp [0x6B63, 0x5728, 0x590D, 0x5236]),
      (''management.copy.copyEmptyElements'', cp [0x590D, 0x5236, 0x7A7A, 0x914D, 0x7F6E, 0x9879]),
      (''management.copy.selectAll'', cp [0x9009, 0x62E9, 0x5168, 0x90E8, 0x914D, 0x7F6E, 0x9879, 0xFF08] @ ''{selected}/{total}'' @ cp [0xFF09]),
      (''management.copy.elementSummary'', cp [0x4F7F, 0x7528, 0x4E2D] @ '' v{version} '' @ cp [0xB7] @ '' {type}''),
      (''management.copy.elementSummaryEmpty'', cp [0x4F7F, 0x7528, 0x4E2D] @ '' v{version} '' @ cp [0xB7] @ '' {type} '' @ cp [0xB7] @ '' '' @ cp [0x7A7A]),
      (''management.copy.processed'', cp [0x5DF2, 0x5904, 0x7406] @ '' {completed}/{total} '' @ cp [0x4E2A, 0x914D, 0x7F6E, 0x9879]),
      (''management.copy.progress.pending'', cp [0x5F85, 0x5F00, 0x59CB]),
      (''management.copy.progress.doing'', cp [0x8FDB, 0x884C, 0x4E2D]),
      (''management.copy.progress.done'', cp [0x5DF2, 0x5B8C, 0x6210]),
      (''management.copy.progress.failed'', cp [0x5931, 0x8D25])]"

definition elementsEn :: message_list where
  "elementsEn =
     [(''elements.apps'', ''Apps''),
      (''elements.unknown'', ''unknown''),
      (''elements.title'', ''Elements''),
      (''elements.description'', ''Elements are versioned configuration entries that can be reviewed, published, and consumed by clients.''),
      (''elements.add'', ''Add element''),
      (''elements.deleteTitle'', ''Delete element''),
      (''elements.deleteDescription'', ''This will delete element {key} from {app}/{env}.''),
      (''elements.delete'', ''Delete''),
      (''elements.searchLabel'', ''Search elements''),
      (''elements.search'', ''Search''),
      (''elements.clear'', ''Clear''),
      (''elements.rowsPerPage'', ''Rows per page''),
      (''elements.key'', ''Key''),
      (''elements.keyHelp'', ''Configuration key name, for example db.url or redis.password.''),
      (''elements.contentType'', ''Content type''),
      (''elements.raw'', ''Raw''),
      (''elements.rawRequired'', ''Raw *''),
      (''elements.rawHelp'', ''Paste the full configuration payload for this element.''),
      (''elements.cancel'', ''Cancel''),
      (''elements.create'', ''Create''),
      (''elements.loading'', ''Loading elements''),
      (''elements.noMatchingRecords'', ''No matching records''),
      (''elements.noSearchResults'', ''Try a different key search or create a new element.''),
      (''elements.emptyDescription'', ''Add an element to manage versioned configuration.''),
      (''elements.latest'', ''Latest''),
      (''elements.using'', ''Using''),
      (''elements.draft'', ''Draft''),
      (''elements.type'', ''Type''),
      (''elements.actions'', ''Actions''),
      (''elements.detail'', ''Detail''),
      (''elements.loadingMore'', ''Loading more''),
      (''elements.loadMore'', ''Load more''),
      (''elements.error.missingLocation'', ''missing app id or environment''),
      (''elements.error.load'', ''failed to load elements''),
      (''elements.error.create'', ''failed to create element''),
      (''elements.error.delete'', ''failed to delete element''),
      (''elements.error.missingDetailLocation'', ''missing app, environment, or key''),
      (''elements.error.loadDetail'', ''failed to load element detail''),
      (''elements.error.existingDraft'', ''Draft v{version} already exists. Publish or rollback it before creating a new version.''),
      (''elements.error.createVersion'', ''failed to create new version''),
      (''elements.error.missingPublishableDraft'', ''new version was created without a publishable draft''),
      (''elements.error.publishDirectly'', ''failed to publish directly''),
      (''elements.error.unavailableVersions'', ''selected versions are not available in the loaded version list''),
      (''elements.publishQueued'', ''Version {version} was queued for full publish.''),
      (''elements.detailTitle'', ''Element detail''),
      (''elements.latestVersion'', ''Latest: {version}''),
      (''elements.currentVersion'', ''Current: {version}''),
      (''elements.draftVersion'', ''Draft: {version}''),
      (''elements.typeLabel'', ''Type: {type}''),
      (''elements.newVersion'', ''New Version''),
      (''elements.publish'', ''Publish''),
      (''elements.rollback'', ''Rollback''),
      (''elements.loadingDetail'', ''Loading element detail''),
      (''elements.notFound'', ''Element not found''),
      (''elements.notFoundDescription'', ''Reload the page or return to the elements list.''),
      (''elements.content'', ''Content''),
      (''elements.readOnlyType'', ''{type} '' @ cp [0xB7] @ '' read-only''),
      (''elements.currentContent'', ''Current content''),
      (''elements.detailTabs'', ''element detail tabs''),
      (''elements.versions'', ''Versions''),
      (''elements.diff'', ''Diff''),
      (''elements.operations'', ''Operations''),
      (''elements.instances'', ''Instances''),
      (''elements.versionRetention'', ''Versions keep current, draft, latest {count}, and versions from the last {days} days.''),
      (''elements.operationRetention'', ''Operation logs keep {days} days.''),
      (''elements.noVersions'', ''No versions found''),
      (''elements.noVersionsDescription'', ''This element does not have any version history yet.''),
      (''elements.version'', ''Version''),
      (''elements.state'', ''State''),
      (''elements.preview'', ''Preview''),
      (''elements.current'', ''(current)''),
      (''elements.published'', ''Published''),
      (''elements.previewVersion'', ''Preview {version}''),
      (''elements.base'', ''Base''),
      (''elements.compare'', ''Compare''),
      (''elements.showDiff'', ''Show diff''),
      (''elements.baseVersion'', ''Base v{version}''),
      (''elements.compareVersion'', ''Compare v{version}''),
      (''elements.selectVersions'', ''Select two versions to compare.''),
      (''elements.noOperations'', ''No operations found''),
      (''elements.noOperationsDescription'', ''No recorded operations are available for this element yet.''),
      (''elements.time'', ''Time''),
      (''elements.operation'', ''Operation''),
      (''elements.operator'', ''Operator''),
      (''elements.versionChange'', ''Version change''),
      (''elements.instancesDescription'', ''View instances currently associated with this element in the cluster instances page.''),
      (''elements.viewInstances'', ''View instances''),
      (''elements.newVersionContent'', ''New version content''),
      (''elements.publishDirectly'', ''Publish directly''),
      (''elements.submit'', ''Submit''),
      (''elements.publishDirectDescription'', ''This will create a new version and full publish it to all clients.''),
      (''elements.previewTitle'', ''Version {version} Preview''),
      (''elements.previewContent'', ''Version preview content''),
      (''elements.close'', ''Close''),
      (''elements.rawContent'', ''Raw content''),
      (''elements.contentPreview'', ''Content preview''),
      (''elements.validation.invalidJson'', ''Invalid JSON''),
      (''elements.validation.invalidToml'', ''Invalid TOML''),
      (''elements.validation.invalidIni'', ''Expected key=value or section header''),
      (''elements.validation.unavailable'', ''Unable to validate content''),
      (''elements.validation.lineColumn'', ''Line {line}, Column {column}: {message}''),
      (''elements.validation.line'', ''Line {line}: {message}''),
      (''elements.editor.foldLine'', ''Fold line''),
      (''elements.editor.unfoldLine'', ''Unfold line''),
      (''elements.editor.foldedCode'', ''folded code''),
      (''elements.editor.unfold'', ''unfold''),
      (''elements.editor.foldedLines'', ''Folded lines''),
      (''elements.editor.unfoldedLines'', ''Unfolded lines''),
      (''elements.editor.to'', ''to''),
      (''elements.editor.find'', ''Find''),
      (''elements.editor.replace'', ''Replace''),
      (''elements.editor.next'', ''next''),
      (''elements.editor.previous'', ''previous''),
      (''elements.editor.all'', ''all''),
      (''elements.editor.matchCase'', ''match case''),
      (''elements.editor.regexp'', ''regexp''),
      (''elements.editor.byWord'', ''by word''),
      (''elements.editor.replaceAction'', ''replace''),
      (''elements.editor.replaceAll'', ''replace all''),
      (''elements.editor.close'', ''close''),
      (''elements.editor.goToLine'', ''Go to line''),
      (''elements.editor.go'', ''go''),
      (''elements.editor.diagnostics'', ''Diagnostics''),
      (''elements.editor.noDiagnostics'', ''No diagnostics''),
      (''elements.editor.completions'', ''Completions''),
      (''elements.editor.replacedLine'', ''replaced match on line $''),
      (''elements.editor.replacedMatches'', ''replaced $ matches''),
      (''elements.editor.currentMatch'', ''current match''),
      (''elements.editor.onLine'', ''on line''),
      (''elements.editor.controlCharacter'', ''Control character'')]"

definition elementsZhCN :: message_list where
  "elementsZhCN =
     [(''elements.apps'', cp [0x5E94, 0x7528]),
      (''elements.unknown'', cp [0x672A, 0x77E5]),
      (''elements.title'', cp [0x914D, 0x7F6E, 0x9879]),
      (''elements.description'', cp [0x914D, 0x7F6E, 0x9879, 0x652F, 0x6301, 0x7248, 0x672C, 0x7BA1, 0x7406, 0xFF0C, 0x53EF, 0x5728, 0x5BA1, 0x6838, 0x3001, 0x53D1, 0x5E03, 0x540E, 0x4F9B, 0x5BA2, 0x6237, 0x7AEF, 0x4F7F, 0x7528, 0x3002]),
      (''elements.add'', cp [0x6DFB, 0x52A0, 0x914D, 0x7F6E, 0x9879]),
      (''elements.deleteTitle'', cp [0x5220, 0x9664, 0x914D, 0x7F6E, 0x9879]),
      (''elements.deleteDescription'', cp [0x5C06, 0x4ECE] @ '' {app}/{env} '' @ cp [0x4E2D, 0x5220, 0x9664, 0x914D, 0x7F6E, 0x9879] @ '' {key}'' @ cp [0x3002]),
      (''elements.delete'', cp [0x5220, 0x9664]),
      (''elements.searchLabel'', cp [0x641C, 0x7D22, 0x914D, 0x7F6E, 0x9879]),
      (''elements.search'', cp [0x641C, 0x7D22]),
      (''elements.clear'', cp [0x6E05, 0x9664]),
      (''elements.rowsPerPage'', cp [0x6BCF, 0x9875, 0x884C, 0x6570]),
      (''elements.key'', cp [0x952E, 0x540D]),
      (''elements.keyHelp'', cp [0x914D, 0x7F6E, 0x9879, 0x7684, 0x952E, 0x540D, 0xFF0C, 0x4F8B, 0x5982] @ '' db.url '' @ cp [0x6216] @ '' redis.password'' @ cp [0x3002]),
      (''elements.contentType'', cp [0x5185, 0x5BB9, 0x7C7B, 0x578B]),
      (''elements.raw'', cp [0x539F, 0x59CB, 0x5185, 0x5BB9]),
      (''elements.rawRequired'', cp [0x539F, 0x59CB, 0x5185, 0x5BB9] @ '' *''),
      (''elements.rawHelp'', cp [0x7C98, 0x8D34, 0x6B64, 0x914D, 0x7F6E, 0x9879, 0x7684, 0x5B8C, 0x6574, 0x914D, 0x7F6E, 0x5185, 0x5BB9, 0x3002]),
      (''elements.cancel'', cp [0x53D6, 0x6D88]),
      (''elements.create'', cp [0x521B, 0x5EFA]),
      (''elements.loading'', cp [0x6B63, 0x5728, 0x52A0, 0x8F7D, 0x914D, 0x7F6E, 0x9879]),
      (''elements.noMatchingRecords'', cp [0x6CA1, 0x6709, 0x5339, 0x914D, 0x7684, 0x8BB0, 0x5F55]),
      (''elements.noSearchResults'', cp [0x8BF7, 0x5C1D, 0x8BD5, 0x5176, 0x4ED6, 0x952E, 0x540D, 0xFF0C, 0x6216, 0x521B, 0x5EFA, 0x65B0, 0x7684, 0x914D, 0x7F6E, 0x9879, 0x3002]),
      (''elements.emptyDescription'', cp [0x6DFB, 0x52A0, 0x914D, 0x7F6E, 0x9879, 0x4EE5, 0x7BA1, 0x7406, 0x914D, 0x7F6E, 0x7248, 0x672C, 0x3002]),
      (''elements.latest'', cp [0x6700, 0x65B0, 0x7248, 0x672C]),
      (''elements.using'', cp [0x5F53, 0x524D, 0x7248, 0x672C]),
      (''elements.draft'', cp [0x8349, 0x7A3F]),
      (''elements.type'', cp [0x7C7B, 0x578B]),
      (''elements.actions'', cp [0x64CD, 0x4F5C]),
      (''elements.detail'', cp [0x8BE6, 0x60C5]),
      (''elements.loadingMore'', cp [0x6B63, 0x5728, 0x52A0, 0x8F7D, 0x66F4, 0x591A]),
      (''elements.loadMore'', cp [0x52A0, 0x8F7D, 0x66F4, 0x591A]),
      (''elements.error.missingLocation'', cp [0x7F3A, 0x5C11, 0x5E94, 0x7528] @ '' ID '' @ cp [0x6216, 0x73AF, 0x5883]),
      (''elements.error.load'', cp [0x52A0, 0x8F7D, 0x914D, 0x7F6E, 0x9879, 0x5931, 0x8D25]),
      (''elements.error.create'', cp [0x521B, 0x5EFA, 0x914D, 0x7F6E, 0x9879, 0x5931, 0x8D25]),
      (''elements.error.delete'', cp [0x5220, 0x9664, 0x914D, 0x7F6E, 0x9879, 0x5931, 0x8D25]),
      (''elements.error.missingDetailLocation'', cp [0x7F3A, 0x5C11, 0x5E94, 0x7528, 0x3001, 0x73AF, 0x5883, 0x6216, 0x952E, 0x540D]),
      (''elements.error.loadDetail'', cp [0x52A0, 0x8F7D, 0x914D, 0x7F6E, 0x9879, 0x8BE6, 0x60C5, 0x5931, 0x8D25]),
      (''elements.error.existingDraft'', cp [0x8349, 0x7A3F] @ '' v{version} '' @ cp [0x5DF2, 0x5B58, 0x5728, 0x3002, 0x8BF7, 0x5148, 0x53D1, 0x5E03, 0x6216, 0x56DE, 0x6EDA, 0xFF0C, 0x518D, 0x521B, 0x5EFA, 0x65B0, 0x7248, 0x672C, 0x3002]),
      (''elements.error.createVersion'', cp [0x521B, 0x5EFA, 0x65B0, 0x7248, 0x672C, 0x5931, 0x8D25]),
      (''elements.error.missingPublishableDraft'', cp [0x65B0, 0x7248, 0x672C, 0x5DF2, 0x521B, 0x5EFA, 0xFF0C, 0x4F46, 0x6CA1, 0x6709, 0x53EF, 0x53D1, 0x5E03, 0x7684, 0x8349, 0x7A3F]),
      (''elements.error.publishDirectly'', cp [0x76F4, 0x63A5, 0x53D1, 0x5E03, 0x5931, 0x8D25]),
      (''elements.error.unavailableVersions'', cp [0x6240, 0x9009, 0x7248, 0x672C, 0x4E0D, 0x5728, 0x5DF2, 0x52A0, 0x8F7D, 0x7684, 0x7248, 0x672C, 0x5217, 0x8868, 0x4E2D]),
      (''elements.publishQueued'', cp [0x7248, 0x672C] @ '' {version} '' @ cp [0x5DF2, 0x52A0, 0x5165, 0x5168, 0x91CF, 0x53D1, 0x5E03, 0x961F, 0x5217, 0x3002]),
      (''elements.detailTitle'', cp [0x914D, 0x7F6E, 0x9879, 0x8BE6, 0x60C5]),
      (''elements.latestVersion'', cp [0x6700, 0x65B0, 0x7248, 0x672C, 0xFF1A] @ ''{version}''),
      (''elements.currentVersion'', cp [0x5F53, 0x524D, 0x7248, 0x672C, 0xFF1A] @ ''{version}''),
      (''elements.draftVersion'', cp [0x8349, 0x7A3F, 0xFF1A] @ ''{version}''),
      (''elements.typeLabel'', cp [0x7C7B, 0x578B, 0xFF1A] @ ''{type}''),
      (''elements.newVersion'', cp [0x65B0, 0x5EFA, 0x7248, 0x672C]),
      (''elements.publish'', cp [0x53D1, 0x5E03]),
      (''elements.rollback'', cp [0x56DE, 0x6EDA]),
      (''elements.loadingDetail'', cp [0x6B63, 0x5728, 0x52A0, 0x8F7D, 0x914D, 0x7F6E, 0x9879, 0x8BE6, 0x60C5]),
      (''elements.notFound'', cp [0x672A, 0x627E, 0x5230, 0x914D, 0x7F6E, 0x9879]),
      (''elements.notFoundDescription'', cp [0x8BF7, 0x91CD, 0x65B0, 0x52A0, 0x8F7D, 0x9875, 0x9762, 0x6216, 0x8FD4, 0x56DE, 0x914D, 0x7F6E, 0x9879, 0x5217, 0x8868, 0x3002]),
      (''elements.content'', cp [0x5185, 0x5BB9]),
      (''elements.readOnlyType'', ''{type} '' @ cp [0xB7] @ '' '' @ cp [0x53EA, 0x8BFB]),
      (''elements.currentContent'', cp [0x5F53, 0x524D, 0x5185, 0x5BB9]),
      (''elements.detailTabs'', cp [0x914D, 0x7F6E, 0x9879, 0x8BE6, 0x60C5, 0x6807, 0x7B7E, 0x9875]),
      (''elements.versions'', cp [0x7248, 0x672C]),
      (''elements.diff'', cp [0x5DEE, 0x5F02]),
      (''elements.operations'', cp [0x64CD, 0x4F5C, 0x8BB0, 0x5F55]),
      (''elements.instances'', cp [0x5B9E, 0x4F8B]),
      (''elements.versionRetention'', cp [0x4FDD, 0x7559, 0x5F53, 0x524D, 0x7248, 0x672C, 0x3001, 0x8349, 0x7A3F, 0x3001, 0x6700, 0x65B0] @ '' {count} '' @ cp [0x4E2A, 0x7248, 0x672C, 0xFF0C, 0x4EE5, 0x53CA, 0x6700, 0x8FD1] @ '' {days} '' @ cp [0x5929, 0x5185, 0x7684, 0x7248, 0x672C, 0x3002]),
      (''elements.operationRetention'', cp [0x64CD, 0x4F5C, 0x65E5, 0x5FD7, 0x4FDD, 0x7559] @ '' {days} '' @ cp [0x5929, 0x3002]),
      (''elements.noVersions'', cp [0x672A, 0x627E, 0x5230, 0x7248, 0x672C]),
      (''elements.noVersionsDescription'', cp [0x6B64, 0x914D, 0x7F6E, 0x9879, 0x5C1A, 0x65E0, 0x7248, 0x672C, 0x5386, 0x53F2, 0x3002]),
      (''elements.version'', cp [0x7248, 0x672C]),
      (''elements.state'', cp [0x72B6, 0x6001]),
      (''elements.preview'', cp [0x9884, 0x89C8]),
      (''elements.current'', cp [0xFF08, 0x5F53, 0x524D, 0xFF09]),
      (''elements.published'', cp [0x5DF2, 0x53D1, 0x5E03]),
      (''elements.previewVersion'', cp [0x9884, 0x89C8] @ '' {version}''),
      (''elements.base'', cp [0x57FA, 0x51C6]),
      (''elements.compare'', cp [0x5BF9, 0x6BD4]),
      (''elements.showDiff'', cp [0x67E5, 0x770B, 0x5DEE, 0x5F02]),
      (''elements.baseVersion'', cp [0x57FA, 0x51C6] @ '' v{version}''),
      (''elements.compareVersion'', cp [0x5BF9, 0x6BD4] @ '' v{version}''),
      (''elements.selectVersions'', cp [0x9009, 0x62E9, 0x4E24, 0x4E2A, 0x7248, 0x672C, 0x8FDB, 0x884C, 0x5BF9, 0x6BD4, 0x3002]),
      (''elements.noOperations'', cp [0x672A, 0x627E, 0x5230, 0x64CD, 0x4F5C, 0x8BB0, 0x5F55]),
      (''elements.noOperationsDescription'', cp [0x6B64, 0x914D, 0x7F6E, 0x9879, 0x5C1A, 0x65E0, 0x64CD, 0x4F5C, 0x8BB0, 0x5F55, 0x3002]),
      (''elements.time'', cp [0x65F6, 0x95F4]),
      (''elements.operation'', cp [0x64CD, 0x4F5C]),
      (''elements.operator'', cp [0x64CD, 0x4F5C, 0x4EBA]),
      (''elements.versionChange'', cp [0x7248, 0x672C, 0x53D8, 0x66F4]),
      (''elements.instancesDescription'', cp [0x5728, 0x96C6, 0x7FA4, 0x5B9E, 0x4F8B, 0x9875, 0x9762, 0x67E5, 0x770B, 0x5F53, 0x524D, 0x5173, 0x8054, 0x6B64, 0x914D, 0x7F6E, 0x9879, 0x7684, 0x5B9E, 0x4F8B, 0x3002]),
      (''elements.viewInstances'', cp [0x67E5, 0x770B, 0x5B9E, 0x4F8B]),
      (''elements.newVersionContent'', cp [0x65B0, 0x7248, 0x672C, 0x5185, 0x5BB9]),
      (''elements.publishDirectly'', cp [0x76F4, 0x63A5, 0x53D1, 0x5E03]),
      (''elements.submit'', cp [0x63D0, 0x4EA4]),
      (''elements.publishDirectDescription'', cp [0x5C06, 0x521B, 0x5EFA, 0x65B0, 0x7248, 0x672C, 0xFF0C, 0x5E76, 0x5168, 0x91CF, 0x53D1, 0x5E03, 0x5230, 0x6240, 0x6709, 0x5BA2, 0x6237, 0x7AEF, 0x3002]),
      (''elements.previewTitle'', cp [0x7248, 0x672C] @ '' {version} '' @ cp [0x9884, 0x89C8]),
      (''elements.previewContent'', cp [0x7248, 0x672C, 0x9884, 0x89C8, 0x5185, 0x5BB9]),
      (''elements.close'', cp [0x5173, 0x95ED]),
      (''elements.rawContent'', cp [0x539F, 0x59CB, 0x5185, 0x5BB9]),
      (''elements.contentPreview'', cp [0x5185, 0x5BB9, 0x9884, 0x89C8]),
      (''elements.validation.invalidJson'', ''JSON '' @ cp [0x683C, 0x5F0F, 0x65E0, 0x6548]),
      (''elements.validation.invalidToml'', ''TOML '' @ cp [0x683C, 0x5F0F, 0x65E0, 0x6548]),
      (''elements.validation.invalidIni'', cp [0x5E94, 0x4E3A] @ '' key=value '' @ cp [0x952E, 0x503C, 0x5BF9, 0x6216, 0x8282, 0x6807, 0x9898]),
      (''elements.validation.unavailable'', cp [0x65E0, 0x6CD5, 0x6821, 0x9A8C, 0x5185, 0x5BB9]),
      (''elements.validation.lineColumn'', cp [0x7B2C] @ '' {line} '' @ cp [0x884C, 0xFF0C, 0x7B2C] @ '' {column} '' @ cp [0x5217, 0xFF1A] @ ''{message}''),
      (''elements.validation.line'', cp [0x7B2C] @ '' {line} '' @ cp [0x884C, 0xFF1A] @ ''{message}''),
      (''elements.editor.foldLine'', cp [0x6298, 0x53E0, 0x884C]),
      (''elements.editor.unfoldLine'', cp [0x5C55, 0x5F00, 0x884C]),
      (''elements.editor.foldedCode'', cp [0x5DF2, 0x6298, 0x53E0, 0x4EE3, 0x7801]),
      (''elements.editor.unfold'', cp [0x5C55, 0x5F00]),
      (''elements.editor.foldedLines'', cp [0x5DF2, 0x6298, 0x53E0, 0x884C]),
      (''elements.editor.unfoldedLines'', cp [0x5DF2, 0x5C55, 0x5F00, 0x884C]),
      (''elements.editor.to'', cp [0x81F3]),
      (''elements.editor.find'', cp [0x67E5, 0x627E]),
      (''elements.editor.replace'', cp [0x66FF, 0x6362]),
      (''elements.editor.next'', cp [0x4E0B, 0x4E00, 0x4E2A]),
      (''elements.editor.previous'', cp [0x4E0A, 0x4E00, 0x4E2A]),
      (''elements.editor.all'', cp [0x5168, 0x90E8]),
      (''elements.editor.matchCase'', cp [0x533A, 0x5206, 0x5927, 0x5C0F, 0x5199]),
      (''elements.editor.regexp'', cp [0x6B63, 0x5219, 0x8868, 0x8FBE, 0x5F0F]),
      (''elements.editor.byWord'', cp [0x5168, 0x5B57, 0x5339, 0x914D]),
      (''elements.editor.replaceAction'', cp [0x66FF, 0x6362]),
      (''elements.editor.replaceAll'', cp [0x5168, 0x90E8, 0x66FF, 0x6362]),
      (''elements.editor.close'', cp [0x5173, 0x95ED]),
      (''elements.editor.goToLine'', cp [0x8DF3, 0x8F6C, 0x5230, 0x884C]),
      (''elements.editor.go'', cp [0x8DF3, 0x8F6C]),
      (''elements.editor.diagnostics'', cp [0x8BCA, 0x65AD]),
      (''elements.editor.noDiagnostics'', cp [0x6CA1, 0x6709, 0x8BCA, 0x65AD, 0x4FE1, 0x606F]),
      (''elements.editor.completions'', cp [0x8865, 0x5168, 0x5EFA, 0x8BAE]),
      (''elements.editor.replacedLine'', cp [0x5DF2, 0x66FF, 0x6362, 0x7B2C] @ '' $ '' @ cp [0x884C, 0x7684, 0x5339, 0x914D, 0x9879]),
      (''elements.editor.replacedMatches'', cp [0x5DF2, 0x66FF, 0x6362] @ '' $ '' @ cp [0x4E2A, 0x5339, 0x914D, 0x9879]),
      (''elements.editor.currentMatch'', cp [0x5F53, 0x524D, 0x5339, 0x914D, 0x9879]),
      (''elements.editor.onLine'', cp [0x6240, 0x5728, 0x884C]),
      (''elements.editor.controlCharacter'', cp [0x63A7, 0x5236, 0x5B57, 0x7B26])]"

definition operationsEn :: message_list where
  "operationsEn =
     [(''operations.apps'', ''Apps''),
      (''operations.app'', ''App''),
      (''operations.env'', ''Env''),
      (''operations.key'', ''Key''),
      (''operations.version'', ''Version''),
      (''operations.strategy'', ''Strategy''),
      (''operations.targets'', ''Targets''),
      (''operations.reviewDiff'', ''Review diff''),
      (''operations.impactConfirmation'', ''Impact confirmation''),
      (''operations.result'', ''Result''),
      (''operations.publish'', ''Publish''),
      (''operations.rollback'', ''Rollback''),
      (''operations.done'', ''Done''),
      (''operations.next'', ''Next''),
      (''operations.unknown'', ''unknown''),
      (''operations.currentVersion'', ''Current version''),
      (''operations.publishVersion'', ''Publish version''),
      (''operations.targetVersion'', ''Target version''),
      (''operations.target'', ''Target''),
      (''operations.currentVersionLabel'', ''Current v{version}''),
      (''operations.versionLabel'', ''v{version} {status}''),
      (''operations.versionPublished'', ''published''),
      (''operations.versionDraft'', ''draft''),
      (''operations.versionCurrent'', ''current''),
      (''operations.loadingVersions'', ''Loading versions.''),
      (''operations.loadingDiff'', ''Loading diff'' @ cp [0x2026]),
      (''operations.noDiff'', ''No diff loaded yet.''),
      (''operations.missingParams'', ''missing app, environment, or key''),
      (''operations.publish.title'', ''Publish element''),
      (''operations.publish.chooseVersion'', ''Choose the version to publish''),
      (''operations.publish.versionDescription'', ''Pick the draft or historical version you want to ship into the selected environment.''),
      (''operations.publish.selectNewerVersion'', ''Select a newer version to publish.''),
      (''operations.publish.noNewerVersion'', ''No newer version available.''),
      (''operations.publish.noVersionCandidates'', ''No version candidates''),
      (''operations.publish.chooseStrategy'', ''Choose a rollout strategy''),
      (''operations.publish.strategyDescription'', ''Use a full publish for broad rollout, or gray publish for a narrower targeted release.''),
      (''operations.publish.full'', ''Full publish''),
      (''operations.publish.gray'', ''Gray publish''),
      (''operations.publish.fullDescription'', ''Publish to the standard audience with no explicit targeting requirements.''),
      (''operations.publish.grayDescription'', ''Limit rollout with explicit agent or instance targeting.''),
      (''operations.publish.defineTargets'', ''Define rollout targets''),
      (''operations.publish.targetsDescription'', ''Select agent or instance targets for this element. Gray publish requires at least one target before you can continue.''),
      (''operations.publish.targetsRequired'', ''Gray publish requires at least one agent or instance target.''),
      (''operations.publish.agentIds'', ''Agent IDs''),
      (''operations.publish.instanceIds'', ''Instance IDs''),
      (''operations.publish.selectAgents'', ''Select one or more agent targets.''),
      (''operations.publish.noAgentCandidates'', ''No agent candidates found.''),
      (''operations.publish.selectInstances'', ''Select one or more instance targets.''),
      (''operations.publish.noInstanceCandidates'', ''No instance candidates found for this element.''),
      (''operations.publish.fullTargetsDescription'', ''Full publish does not use explicit agent or instance targets. Continue to review the rollout payload.''),
      (''operations.publish.diffDescription'', ''Inspect the change between the current live version and the selected publish version before proceeding.''),
      (''operations.publish.impactDescription'', ''Review the publish payload before dispatching it to the control plane.''),
      (''operations.publish.noAgentTargets'', ''No explicit agent targets.''),
      (''operations.publish.noInstanceTargets'', ''No explicit instance targets.''),
      (''operations.publish.resultDescription'', ''Select Done to return to the element detail page and continue reviewing versions or operations.''),
      (''operations.publish.loadFailed'', ''failed to load workflow options''),
      (''operations.publish.selectVersion'', ''select a version before continuing''),
      (''operations.publish.noComparison'', ''no comparison data is available to review this publish.''),
      (''operations.publish.queued'', ''Version {version} was queued for {strategy}.''),
      (''operations.publish.failed'', ''failed to publish element''),
      (''operations.rollback.title'', ''Rollback element''),
      (''operations.rollback.chooseVersion'', ''Choose the target version''),
      (''operations.rollback.versionDescription'', ''Select the older version you want this element to return to. The next step will load a current-versus-target diff.''),
      (''operations.rollback.selectOlderVersion'', ''Select an older published target version.''),
      (''operations.rollback.noPublishedVersion'', ''No published rollback target version available.''),
      (''operations.rollback.noTargetVersions'', ''No rollback target versions''),
      (''operations.rollback.diffDescription'', ''Inspect the change between the current live version and the requested rollback target before proceeding.''),
      (''operations.rollback.impactDescription'', ''Confirm the rollback target before writing the request to the backend.''),
      (''operations.rollback.resultDescription'', ''Rollback request completed successfully. Select Done to return to the element detail page and continue reviewing the element state.''),
      (''operations.rollback.loadFailed'', ''failed to load rollback versions''),
      (''operations.rollback.selectVersion'', ''select a rollback target before continuing''),
      (''operations.rollback.olderRequired'', ''Rollback target must be older than the current live version.''),
      (''operations.rollback.noComparison'', ''no comparison data is available to review this rollback.''),
      (''operations.rollback.success'', ''Rollback to version {version} completed successfully.''),
      (''operations.rollback.failed'', ''failed to rollback element''),
      (''operations.topology.title'', ''Topology''),
      (''operations.topology.description'', ''Inspect db, agent, and client instance relationships with live health signals.''),
      (''operations.topology.refresh'', ''Refresh''),
      (''operations.topology.loading'', ''Loading cluster topology''),
      (''operations.topology.emptyTitle'', ''No topology nodes found''),
      (''operations.topology.emptyDescription'', ''No db, agent, or instance nodes were returned by the backend.''),
      (''operations.topology.clusterTitle'', ''Cluster topology''),
      (''operations.topology.clusterDescription'', ''Animated view from cassemkv through agents to connected instances.''),
      (''operations.topology.dbCount'', ''{count} dbs''),
      (''operations.topology.agentCount'', ''{count} agents''),
      (''operations.topology.instanceCount'', ''{count} instances''),
      (''operations.topology.healthy'', ''Healthy''),
      (''operations.topology.unhealthy'', ''Unhealthy''),
      (''operations.topology.offline'', ''Offline''),
      (''operations.topology.db'', ''DB''),
      (''operations.topology.agent'', ''Agent''),
      (''operations.topology.instances'', ''Instances''),
      (''operations.topology.instance'', ''Instance''),
      (''operations.topology.type'', ''Type: {type}''),
      (''operations.topology.id'', ''ID: {id}''),
      (''operations.topology.health'', ''Health: {health}''),
      (''operations.topology.ip'', ''IP: {ip}''),
      (''operations.topology.addr'', ''Addr: {addr}''),
      (''operations.topology.attachedTo'', ''Attached to {agentId}''),
      (''operations.topology.unassigned'', ''unassigned''),
      (''operations.topology.connection'', ''{from} connects to {to}''),
      (''operations.topology.instanceConnection'', ''{from} connects to {count} instances''),
      (''operations.topology.loadFailed'', ''failed to load cluster topology''),
      (''operations.instances.title'', ''Instances''),
      (''operations.instances.description'', ''Inspect cluster clients, filter by element ownership, and load individual instance detail.''),
      (''operations.instances.filterByElement'', ''Filter by element''),
      (''operations.instances.appHelp'', ''Type or choose an application.''),
      (''operations.instances.envHelp'', ''Choose an environment after app.''),
      (''operations.instances.keyHelp'', ''Choose an element key after env.''),
      (''operations.instances.filter'', ''Filter''),
      (''operations.instances.refreshAll'', ''Refresh all''),
      (''operations.instances.loading'', ''Loading instances''),
      (''operations.instances.emptyTitle'', ''No instances found''),
      (''operations.instances.emptyDescription'', ''Adjust the filter or refresh the full cluster instance list.''),
      (''operations.instances.client'', ''Client''),
      (''operations.instances.agent'', ''Agent''),
      (''operations.instances.ip'', ''IP''),
      (''operations.instances.lastSeen'', ''Last seen''),
      (''operations.instances.actions'', ''Actions''),
      (''operations.instances.detail'', ''Detail''),
      (''operations.instances.detailTitle'', ''Instance detail''),
      (''operations.instances.loadingDetail'', ''Loading instance detail''),
      (''operations.instances.hoursAgo'', ''{hours}h{minutes}m ago''),
      (''operations.instances.minutesAgo'', ''{minutes}m{seconds}s ago''),
      (''operations.instances.secondsAgo'', ''{seconds}s ago''),
      (''operations.instances.loadFailed'', ''failed to load instances''),
      (''operations.instances.filterFailed'', ''failed to filter instances''),
      (''operations.instances.appsFailed'', ''failed to load app candidates''),
      (''operations.instances.envsFailed'', ''failed to load environment candidates''),
      (''operations.instances.keysFailed'', ''failed to load key candidates''),
      (''operations.instances.detailFailed'', ''failed to load instance detail'')]"

definition operationsZhCN :: message_list where
  "operationsZhCN =
     [(''operations.apps'', cp [0x5E94, 0x7528]),
      (''operations.app'', cp [0x5E94, 0x7528]),
      (''operations.env'', cp [0x73AF, 0x5883]),
      (''operations.key'', cp [0x914D, 0x7F6E, 0x952E]),
      (''operations.version'', cp [0x7248, 0x672C]),
      (''operations.strategy'', cp [0x7B56, 0x7565]),
      (''operations.targets'', cp [0x76EE, 0x6807]),
      (''operations.reviewDiff'', cp [0x68C0, 0x67E5, 0x5DEE, 0x5F02]),
      (''operations.impactConfirmation'', cp [0x5F71, 0x54CD, 0x786E, 0x8BA4]),
      (''operations.result'', cp [0x7ED3, 0x679C]),
      (''operations.publish'', cp [0x53D1, 0x5E03]),
      (''operations.rollback'', cp [0x56DE, 0x6EDA]),
      (''operations.done'', cp [0x5B8C, 0x6210]),
      (''operations.next'', cp [0x4E0B, 0x4E00, 0x6B65]),
      (''operations.unknown'', cp [0x672A, 0x77E5]),
      (''operations.currentVersion'', cp [0x5F53, 0x524D, 0x7248, 0x672C]),
      (''operations.publishVersion'', cp [0x53D1, 0x5E03, 0x7248, 0x672C]),
      (''operations.targetVersion'', cp [0x76EE, 0x6807, 0x7248, 0x672C]),
      (''operations.target'', cp [0x76EE, 0x6807]),
      (''operations.currentVersionLabel'', cp [0x5F53, 0x524D] @ '' v{version}''),
      (''operations.versionLabel'', ''v{version} {status}''),
      (''operations.versionPublished'', cp [0x5DF2, 0x53D1, 0x5E03]),
      (''operations.versionDraft'', cp [0x8349, 0x7A3F]),
      (''operations.versionCurrent'', cp [0x5F53, 0x524D]),
      (''operations.loadingVersions'', cp [0x6B63, 0x5728, 0x52A0, 0x8F7D, 0x7248, 0x672C, 0x3002]),
      (''operations.loadingDiff'', cp [0x6B63, 0x5728, 0x52A0, 0x8F7D, 0x5DEE, 0x5F02, 0x2026]),
      (''operations.noDiff'', cp [0x5C1A, 0x672A, 0x52A0, 0x8F7D, 0x5DEE, 0x5F02, 0x3002]),
      (''operations.missingParams'', cp [0x7F3A, 0x5C11, 0x5E94, 0x7528, 0x3001, 0x73AF, 0x5883, 0x6216, 0x914D, 0x7F6E, 0x952E]),
      (''operations.publish.title'', cp [0x53D1, 0x5E03, 0x914D, 0x7F6E]),
      (''operations.publish.chooseVersion'', cp [0x9009, 0x62E9, 0x8981, 0x53D1, 0x5E03, 0x7684, 0x7248, 0x672C]),
      (''operations.publish.versionDescription'', cp [0x9009, 0x62E9, 0x8981, 0x53D1, 0x5E03, 0x5230, 0x5F53, 0x524D, 0x73AF, 0x5883, 0x7684, 0x8349, 0x7A3F, 0x6216, 0x5386, 0x53F2, 0x7248, 0x672C, 0x3002]),
      (''operations.publish.selectNewerVersion'', cp [0x8BF7, 0x9009, 0x62E9, 0x66F4, 0x65B0, 0x7684, 0x7248, 0x672C, 0x8FDB, 0x884C, 0x53D1, 0x5E03, 0x3002]),
      (''operations.publish.noNewerVersion'', cp [0x6CA1, 0x6709, 0x53EF, 0x53D1, 0x5E03, 0x7684, 0x66F4, 0x65B0, 0x7248, 0x672C, 0x3002]),
      (''operations.publish.noVersionCandidates'', cp [0x6CA1, 0x6709, 0x5019, 0x9009, 0x7248, 0x672C]),
      (''operations.publish.chooseStrategy'', cp [0x9009, 0x62E9, 0x53D1, 0x5E03, 0x7B56, 0x7565]),
      (''operations.publish.strategyDescription'', cp [0x4F7F, 0x7528, 0x5168, 0x91CF, 0x53D1, 0x5E03, 0x8986, 0x76D6, 0x6240, 0x6709, 0x76EE, 0x6807, 0xFF0C, 0x6216, 0x4F7F, 0x7528, 0x7070, 0x5EA6, 0x53D1, 0x5E03, 0x9650, 0x5236, 0x53D1, 0x5E03, 0x8303, 0x56F4, 0x3002]),
      (''operations.publish.full'', cp [0x5168, 0x91CF, 0x53D1, 0x5E03]),
      (''operations.publish.gray'', cp [0x7070, 0x5EA6, 0x53D1, 0x5E03]),
      (''operations.publish.fullDescription'', cp [0x53D1, 0x5E03, 0x5230, 0x5E38, 0x89C4, 0x8303, 0x56F4, 0xFF0C, 0x65E0, 0x9700, 0x6307, 0x5B9A, 0x76EE, 0x6807, 0x3002]),
      (''operations.publish.grayDescription'', cp [0x6307, 0x5B9A, 0x4EE3, 0x7406, 0x8282, 0x70B9, 0x6216, 0x5B9E, 0x4F8B, 0xFF0C, 0x9650, 0x5236, 0x53D1, 0x5E03, 0x8303, 0x56F4, 0x3002]),
      (''operations.publish.defineTargets'', cp [0x6307, 0x5B9A, 0x53D1, 0x5E03, 0x76EE, 0x6807]),
      (''operations.publish.targetsDescription'', cp [0x4E3A, 0x6B64, 0x914D, 0x7F6E, 0x9009, 0x62E9, 0x4EE3, 0x7406, 0x8282, 0x70B9, 0x6216, 0x5B9E, 0x4F8B, 0x3002, 0x7070, 0x5EA6, 0x53D1, 0x5E03, 0x81F3, 0x5C11, 0x9700, 0x8981, 0x4E00, 0x4E2A, 0x76EE, 0x6807, 0x624D, 0x80FD, 0x7EE7, 0x7EED, 0x3002]),
      (''operations.publish.targetsRequired'', cp [0x7070, 0x5EA6, 0x53D1, 0x5E03, 0x81F3, 0x5C11, 0x9700, 0x8981, 0x4E00, 0x4E2A, 0x4EE3, 0x7406, 0x8282, 0x70B9, 0x6216, 0x5B9E, 0x4F8B, 0x76EE, 0x6807, 0x3002]),
      (''operations.publish.agentIds'', cp [0x4EE3, 0x7406, 0x8282, 0x70B9] @ '' ID''),
      (''operations.publish.instanceIds'', cp [0x5B9E, 0x4F8B] @ '' ID''),
      (''operations.publish.selectAgents'', cp [0x8BF7, 0x9009, 0x62E9, 0x4E00, 0x4E2A, 0x6216, 0x591A, 0x4E2A, 0x4EE3, 0x7406, 0x8282, 0x70B9, 0x3002]),
      (''operations.publish.noAgentCandidates'', cp [0x6CA1, 0x6709, 0x627E, 0x5230, 0x5019, 0x9009, 0x4EE3, 0x7406, 0x8282, 0x70B9, 0x3002]),
      (''operations.publish.selectInstances'', cp [0x8BF7, 0x9009, 0x62E9, 0x4E00, 0x4E2A, 0x6216, 0x591A, 0x4E2A, 0x5B9E, 0x4F8B, 0x3002]),
      (''operations.publish.noInstanceCandidates'', cp [0x6CA1, 0x6709, 0x627E, 0x5230, 0x6B64, 0x914D, 0x7F6E, 0x7684, 0x5019, 0x9009, 0x5B9E, 0x4F8B, 0x3002]),
      (''operations.publish.fullTargetsDescription'', cp [0x5168, 0x91CF, 0x53D1, 0x5E03, 0x65E0, 0x9700, 0x6307, 0x5B9A, 0x4EE3, 0x7406, 0x8282, 0x70B9, 0x6216, 0x5B9E, 0x4F8B, 0x3002, 0x7EE7, 0x7EED, 0x68C0, 0x67E5, 0x53D1, 0x5E03, 0x5185, 0x5BB9, 0x3002]),
      (''operations.publish.diffDescription'', cp [0x7EE7, 0x7EED, 0x4E4B, 0x524D, 0xFF0C, 0x8BF7, 0x68C0, 0x67E5, 0x5F53, 0x524D, 0x7EBF, 0x4E0A, 0x7248, 0x672C, 0x4E0E, 0x6240, 0x9009, 0x53D1, 0x5E03, 0x7248, 0x672C, 0x4E4B, 0x95F4, 0x7684, 0x5DEE, 0x5F02, 0x3002]),
      (''operations.publish.impactDescription'', cp [0x53D1, 0x9001, 0x5230, 0x63A7, 0x5236, 0x5E73, 0x9762, 0x4E4B, 0x524D, 0xFF0C, 0x8BF7, 0x786E, 0x8BA4, 0x53D1, 0x5E03, 0x5185, 0x5BB9, 0x3002]),
      (''operations.publish.noAgentTargets'', cp [0x672A, 0x6307, 0x5B9A, 0x4EE3, 0x7406, 0x8282, 0x70B9, 0x3002]),
      (''operations.publish.noInstanceTargets'', cp [0x672A, 0x6307, 0x5B9A, 0x5B9E, 0x4F8B, 0x3002]),
      (''operations.publish.resultDescription'', cp [0x9009, 0x62E9, 0x201C, 0x5B8C, 0x6210, 0x201D, 0x8FD4, 0x56DE, 0x914D, 0x7F6E, 0x8BE6, 0x60C5, 0x9875, 0xFF0C, 0x7EE7, 0x7EED, 0x67E5, 0x770B, 0x7248, 0x672C, 0x6216, 0x6267, 0x884C, 0x64CD, 0x4F5C, 0x3002]),
      (''operations.publish.loadFailed'', cp [0x52A0, 0x8F7D, 0x53D1, 0x5E03, 0x9009, 0x9879, 0x5931, 0x8D25]),
      (''operations.publish.selectVersion'', cp [0x8BF7, 0x5148, 0x9009, 0x62E9, 0x7248, 0x672C, 0x518D, 0x7EE7, 0x7EED]),
      (''operations.publish.noComparison'', cp [0x6CA1, 0x6709, 0x53EF, 0x7528, 0x4E8E, 0x68C0, 0x67E5, 0x6B64, 0x6B21, 0x53D1, 0x5E03, 0x7684, 0x5BF9, 0x6BD4, 0x6570, 0x636E, 0x3002]),
      (''operations.publish.queued'', cp [0x7248, 0x672C] @ '' {version} '' @ cp [0x5DF2, 0x52A0, 0x5165] @ ''{strategy}'' @ cp [0x961F, 0x5217, 0x3002]),
      (''operations.publish.failed'', cp [0x53D1, 0x5E03, 0x914D, 0x7F6E, 0x5931, 0x8D25]),
      (''operations.rollback.title'', cp [0x56DE, 0x6EDA, 0x914D, 0x7F6E]),
      (''operations.rollback.chooseVersion'', cp [0x9009, 0x62E9, 0x76EE, 0x6807, 0x7248, 0x672C]),
      (''operations.rollback.versionDescription'', cp [0x9009, 0x62E9, 0x8981, 0x6062, 0x590D, 0x7684, 0x65E7, 0x7248, 0x672C, 0x3002, 0x4E0B, 0x4E00, 0x6B65, 0x5C06, 0x52A0, 0x8F7D, 0x5F53, 0x524D, 0x7248, 0x672C, 0x4E0E, 0x76EE, 0x6807, 0x7248, 0x672C, 0x7684, 0x5DEE, 0x5F02, 0x3002]),
      (''operations.rollback.selectOlderVersion'', cp [0x8BF7, 0x9009, 0x62E9, 0x5DF2, 0x53D1, 0x5E03, 0x7684, 0x65E7, 0x7248, 0x672C, 0x3002]),
      (''operations.rollback.noPublishedVersion'', cp [0x6CA1, 0x6709, 0x53EF, 0x56DE, 0x6EDA, 0x7684, 0x5DF2, 0x53D1, 0x5E03, 0x7248, 0x672C, 0x3002]),
      (''operations.rollback.noTargetVersions'', cp [0x6CA1, 0x6709, 0x53EF, 0x56DE, 0x6EDA, 0x7684, 0x76EE, 0x6807, 0x7248, 0x672C]),
      (''operations.rollback.diffDescription'', cp [0x7EE7, 0x7EED, 0x4E4B, 0x524D, 0xFF0C, 0x8BF7, 0x68C0, 0x67E5, 0x5F53, 0x524D, 0x7EBF, 0x4E0A, 0x7248, 0x672C, 0x4E0E, 0x56DE, 0x6EDA, 0x76EE, 0x6807, 0x7248, 0x672C, 0x4E4B, 0x95F4, 0x7684, 0x5DEE, 0x5F02, 0x3002]),
      (''operations.rollback.impactDescription'', cp [0x5411, 0x540E, 0x7AEF, 0x63D0, 0x4EA4, 0x8BF7, 0x6C42, 0x4E4B, 0x524D, 0xFF0C, 0x8BF7, 0x786E, 0x8BA4, 0x56DE, 0x6EDA, 0x76EE, 0x6807, 0x3002]),
      (''operations.rollback.resultDescription'', cp [0x56DE, 0x6EDA, 0x8BF7, 0x6C42, 0x5DF2, 0x5B8C, 0x6210, 0x3002, 0x9009, 0x62E9, 0x201C, 0x5B8C, 0x6210, 0x201D, 0x8FD4, 0x56DE, 0x914D, 0x7F6E, 0x8BE6, 0x60C5, 0x9875, 0xFF0C, 0x7EE7, 0x7EED, 0x67E5, 0x770B, 0x914D, 0x7F6E, 0x72B6, 0x6001, 0x3002]),
      (''operations.rollback.loadFailed'', cp [0x52A0, 0x8F7D, 0x56DE, 0x6EDA, 0x7248, 0x672C, 0x5931, 0x8D25]),
      (''operations.rollback.selectVersion'', cp [0x8BF7, 0x5148, 0x9009, 0x62E9, 0x56DE, 0x6EDA, 0x76EE, 0x6807, 0x518D, 0x7EE7, 0x7EED]),
      (''operations.rollback.olderRequired'', cp [0x56DE, 0x6EDA, 0x76EE, 0x6807, 0x5FC5, 0x987B, 0x65E9, 0x4E8E, 0x5F53, 0x524D, 0x7EBF, 0x4E0A, 0x7248, 0x672C, 0x3002]),
      (''operations.rollback.noComparison'', cp [0x6CA1, 0x6709, 0x53EF, 0x7528, 0x4E8E, 0x68C0, 0x67E5, 0x6B64, 0x6B21, 0x56DE, 0x6EDA, 0x7684, 0x5BF9, 0x6BD4, 0x6570, 0x636E, 0x3002]),
      (''operations.rollback.success'', cp [0x5DF2, 0x6210, 0x529F, 0x56DE, 0x6EDA, 0x5230, 0x7248, 0x672C] @ '' {version}'' @ cp [0x3002]),
      (''operations.rollback.failed'', cp [0x56DE, 0x6EDA, 0x914D, 0x7F6E, 0x5931, 0x8D25]),
      (''operations.topology.title'', cp [0x62D3, 0x6251]),
      (''operations.topology.description'', cp [0x67E5, 0x770B, 0x6570, 0x636E, 0x5E93, 0x3001, 0x4EE3, 0x7406, 0x8282, 0x70B9, 0x4E0E, 0x5BA2, 0x6237, 0x7AEF, 0x5B9E, 0x4F8B, 0x4E4B, 0x95F4, 0x7684, 0x5173, 0x7CFB, 0x53CA, 0x5B9E, 0x65F6, 0x5065, 0x5EB7, 0x72B6, 0x6001, 0x3002]),
      (''operations.topology.refresh'', cp [0x5237, 0x65B0]),
      (''operations.topology.loading'', cp [0x6B63, 0x5728, 0x52A0, 0x8F7D, 0x96C6, 0x7FA4, 0x62D3, 0x6251]),
      (''operations.topology.emptyTitle'', cp [0x6CA1, 0x6709, 0x627E, 0x5230, 0x62D3, 0x6251, 0x8282, 0x70B9]),
      (''operations.topology.emptyDescription'', cp [0x540E, 0x7AEF, 0x672A, 0x8FD4, 0x56DE, 0x6570, 0x636E, 0x5E93, 0x3001, 0x4EE3, 0x7406, 0x8282, 0x70B9, 0x6216, 0x5B9E, 0x4F8B, 0x3002]),
      (''operations.topology.clusterTitle'', cp [0x96C6, 0x7FA4, 0x62D3, 0x6251]),
      (''operations.topology.clusterDescription'', cp [0x52A8, 0x6001, 0x5C55, 0x793A] @ '' cassemkv '' @ cp [0x7ECF, 0x4EE3, 0x7406, 0x8282, 0x70B9, 0x8FDE, 0x63A5, 0x5230, 0x5B9E, 0x4F8B, 0x7684, 0x5173, 0x7CFB, 0x3002]),
      (''operations.topology.dbCount'', ''{count} '' @ cp [0x4E2A, 0x6570, 0x636E, 0x5E93]),
      (''operations.topology.agentCount'', ''{count} '' @ cp [0x4E2A, 0x4EE3, 0x7406, 0x8282, 0x70B9]),
      (''operations.topology.instanceCount'', ''{count} '' @ cp [0x4E2A, 0x5B9E, 0x4F8B]),
      (''operations.topology.healthy'', cp [0x5065, 0x5EB7]),
      (''operations.topology.unhealthy'', cp [0x5F02, 0x5E38]),
      (''operations.topology.offline'', cp [0x79BB, 0x7EBF]),
      (''operations.topology.db'', cp [0x6570, 0x636E, 0x5E93]),
      (''operations.topology.agent'', cp [0x4EE3, 0x7406, 0x8282, 0x70B9]),
      (''operations.topology.instances'', cp [0x5B9E, 0x4F8B, 0x7EC4]),
      (''operations.topology.instance'', cp [0x5B9E, 0x4F8B]),
      (''operations.topology.type'', cp [0x7C7B, 0x578B, 0xFF1A] @ ''{type}''),
      (''operations.topology.id'', ''ID'' @ cp [0xFF1A] @ ''{id}''),
      (''operations.topology.health'', cp [0x5065, 0x5EB7, 0x72B6, 0x6001, 0xFF1A] @ ''{health}''),
      (''operations.topology.ip'', ''IP'' @ cp [0xFF1A] @ ''{ip}''),
      (''operations.topology.addr'', cp [0x5730, 0x5740, 0xFF1A] @ ''{addr}''),
      (''operations.topology.attachedTo'', cp [0x8FDE, 0x63A5, 0x5230] @ '' {agentId}''),
      (''operations.topology.unassigned'', cp [0x672A, 0x5206, 0x914D]),
      (''operations.topology.connection'', ''{from} '' @ cp [0x8FDE, 0x63A5, 0x5230] @ '' {to}''),
      (''operations.topology.instanceConnection'', ''{from} '' @ cp [0x8FDE, 0x63A5, 0x5230] @ '' {count} '' @ cp [0x4E2A, 0x5B9E, 0x4F8B]),
      (''operations.topology.loadFailed'', cp [0x52A0, 0x8F7D, 0x96C6, 0x7FA4, 0x62D3, 0x6251, 0x5931, 0x8D25]),
      (''operations.instances.title'', cp [0x5B9E, 0x4F8B]),
      (''operations.instances.description'', cp [0x67E5, 0x770B, 0x96C6, 0x7FA4, 0x5BA2, 0x6237, 0x7AEF, 0xFF0C, 0x6309, 0x6240, 0x5C5E, 0x914D, 0x7F6E, 0x7B5B, 0x9009, 0xFF0C, 0x5E76, 0x52A0, 0x8F7D, 0x5355, 0x4E2A, 0x5B9E, 0x4F8B, 0x7684, 0x8BE6, 0x60C5, 0x3002]),
      (''operations.instances.filterByElement'', cp [0x6309, 0x914D, 0x7F6E, 0x7B5B, 0x9009]),
      (''operations.instances.appHelp'', cp [0x8F93, 0x5165, 0x6216, 0x9009, 0x62E9, 0x5E94, 0x7528, 0x3002]),
      (''operations.instances.envHelp'', cp [0x9009, 0x62E9, 0x5E94, 0x7528, 0x540E, 0x518D, 0x9009, 0x62E9, 0x73AF, 0x5883, 0x3002]),
      (''operations.instances.keyHelp'', cp [0x9009, 0x62E9, 0x73AF, 0x5883, 0x540E, 0x518D, 0x9009, 0x62E9, 0x914D, 0x7F6E, 0x952E, 0x3002]),
      (''operations.instances.filter'', cp [0x7B5B, 0x9009]),
      (''operations.instances.refreshAll'', cp [0x5237, 0x65B0, 0x5168, 0x90E8]),
      (''operations.instances.loading'', cp [0x6B63, 0x5728, 0x52A0, 0x8F7D, 0x5B9E, 0x4F8B]),
      (''operations.instances.emptyTitle'', cp [0x6CA1, 0x6709, 0x627E, 0x5230, 0x5B9E, 0x4F8B]),
      (''operations.instances.emptyDescription'', cp [0x8BF7, 0x8C03, 0x6574, 0x7B5B, 0x9009, 0x6761, 0x4EF6, 0x6216, 0x5237, 0x65B0, 0x5168, 0x90E8, 0x96C6, 0x7FA4, 0x5B9E, 0x4F8B, 0x3002]),
      (''operations.instances.client'', cp [0x5BA2, 0x6237, 0x7AEF]),
      (''operations.instances.agent'', cp [0x4EE3, 0x7406, 0x8282, 0x70B9]),
      (''operations.instances.ip'', ''IP''),
      (''operations.instances.lastSeen'', cp [0x6700, 0x8FD1, 0x6D3B, 0x8DC3]),
      (''operations.instances.actions'', cp [0x64CD, 0x4F5C]),
      (''operations.instances.detail'', cp [0x8BE6, 0x60C5]),
      (''operations.instances.detailTitle'', cp [0x5B9E, 0x4F8B, 0x8BE6, 0x60C5]),
      (''operations.instances.loadingDetail'', cp [0x6B63, 0x5728, 0x52A0, 0x8F7D, 0x5B9E, 0x4F8B, 0x8BE6, 0x60C5]),
      (''operations.instances.hoursAgo'', ''{hours} '' @ cp [0x5C0F, 0x65F6] @ '' {minutes} '' @ cp [0x5206, 0x949F, 0x524D]),
      (''operations.instances.minutesAgo'', ''{minutes} '' @ cp [0x5206, 0x949F] @ '' {seconds} '' @ cp [0x79D2, 0x524D]),
      (''operations.instances.secondsAgo'', ''{seconds} '' @ cp [0x79D2, 0x524D]),
      (''operations.instances.loadFailed'', cp [0x52A0, 0x8F7D, 0x5B9E, 0x4F8B, 0x5931, 0x8D25]),
      (''operations.instances.filterFailed'', cp [0x7B5B, 0x9009, 0x5B9E, 0x4F8B, 0x5931, 0x8D25]),
      (''operations.instances.appsFailed'', cp [0x52A0, 0x8F7D, 0x5019, 0x9009, 0x5E94, 0x7528, 0x5931, 0x8D25]),
      (''operations.instances.envsFailed'', cp [0x52A0, 0x8F7D, 0x5019, 0x9009, 0x73AF, 0x5883, 0x5931, 0x8D25]),
      (''operations.instances.keysFailed'', cp [0x52A0, 0x8F7D, 0x5019, 0x9009, 0x914D, 0x7F6E, 0x952E, 0x5931, 0x8D25]),
      (''operations.instances.detailFailed'', cp [0x52A0, 0x8F7D, 0x5B9E, 0x4F8B, 0x8BE6, 0x60C5, 0x5931, 0x8D25])]"

definition docsEn :: message_list where
  "docsEn =
     [(''docs.title'', ''Cassem Guide''),
      (''docs.description'', ''Create your first configuration, publish it, and use it in your application.''),
      (''docs.start'', ''Start the walkthrough''),
      (''docs.openApps'', ''Open apps''),
      (''docs.contents'', ''On this page''),
      (''docs.concepts'', ''Concepts and responsibilities''),
      (''docs.quickstart'', ''Create your first configuration''),
      (''docs.consume'', ''Read and subscribe''),
      (''docs.updates'', ''Update, verify, and roll back''),
      (''docs.faq'', ''Common questions''),
      (''docs.copy'', ''Copy code''),
      (''docs.copyLabel'', ''Copy {title}''),
      (''docs.copied'', ''Code copied.''),
      (''docs.copyFailed'', ''Could not copy. Select the code and copy it manually.''),
      (''docs.codeLabel'', ''{title} code example''),
      (''docs.concepts.intro'', ''Cassem stores configuration outside your application code. You manage its contents and versions in the console; your application reads configuration through an Agent and decides how to apply it.''),
      (''docs.concepts.example'', ''In this guide''),
      (''docs.concepts.app'', ''App''),
      (''docs.concepts.appDescription'', ''The namespace for a service or project. It groups that service'' @ cp [0x2019] @ ''s environments and configuration items.''),
      (''docs.concepts.env'', ''Environment''),
      (''docs.concepts.envDescription'', ''Separates configurations for dev, test, stage, or prod within an app. The same key can have different contents in each environment.''),
      (''docs.concepts.element'', ''Element / Key''),
      (''docs.concepts.elementDescription'', ''One versioned configuration item. App + environment + key identify it. Its raw content can be a whole configuration document, not just a single field.''),
      (''docs.concepts.content'', ''Content type / Raw''),
      (''docs.concepts.contentDescription'', ''The format and contents of an element. Supported formats are JSON, TOML, INI, and PLAINTEXT. Your application parses the raw bytes using the matching format.''),
      (''docs.concepts.version'', ''Version''),
      (''docs.concepts.versionDescription'', ''A snapshot of the contents. Latest is the newest saved version, Draft is the unpublished version, and Using is the version selected by publishing or rollback.''),
      (''docs.concepts.versionExample'', ''Create v1 '' @ cp [0x2192] @ '' publish v1 '' @ cp [0x2192] @ '' save v2''),
      (''docs.concepts.instance'', ''Client instance''),
      (''docs.concepts.instanceDescription'', ''A running application process registered by the SDK. Its client ID, IP, Agent, and watched keys help you trace configuration consumers.''),
      (''docs.concepts.services'', ''Who does what?''),
      (''docs.concepts.adm'', ''Management: serves this console and its HTTP API, handles accounts, access permissions, configuration edits, publishing, and rollback.''),
      (''docs.concepts.kv'', ''Storage: persists configuration contents, version metadata, and cluster data, with Raft replication across nodes.''),
      (''docs.concepts.agent'', ''Application access: provides HTTP fetch and gRPC reads with user-bound token authorization, caches configuration, and delivers changes to connected gRPC subscribers.''),
      (''docs.concepts.managePath'', ''Manage: console '' @ cp [0x2192] @ '' cassemadm '' @ cp [0x2192] @ '' cassemkv''),
      (''docs.concepts.readPath'', ''Read: application / SDK '' @ cp [0x2192] @ '' cassemagent '' @ cp [0x2192] @ '' cassemkv''),
      (''docs.concepts.pushPath'', ''Notify: published change '' @ cp [0x2192] @ '' cassemagent '' @ cp [0x2192] @ '' subscribed application''),
      (''docs.quickstart.intro'', ''Use the same app, environment, and key throughout this walkthrough. Start in a development environment.''),
      (''docs.quickstart.before'', ''Before you begin''),
      (''docs.quickstart.prerequisites'', ''Sign in to a running Cassem console with an account allowed to create and publish configuration. Ask your administrator for access if needed. For the client steps, also obtain a reachable cassemagent address and a user-bound access token as described below.''),
      (''docs.quickstart.appTitle'', ''Create an app''),
      (''docs.quickstart.appBody'', ''Open Apps '' @ cp [0x2192] @ '' Add app. Set App ID to order-service and Description to '' @ cp [0x201C] @ ''Order service configuration'' @ cp [0x201D] @ '', then select Create. If this app already exists, open it directly.''),
      (''docs.quickstart.appResult'', ''You should see order-service in the app list.''),
      (''docs.quickstart.envTitle'', ''Create an environment''),
      (''docs.quickstart.envBody'', ''On the order-service row, select Envs '' @ cp [0x2192] @ '' Add environment. Enter dev and select Create. Environment names are saved lowercase.''),
      (''docs.quickstart.envResult'', ''You should see dev in this app'' @ cp [0x2019] @ ''s environment list.''),
      (''docs.quickstart.elementTitle'', ''Create a configuration item''),
      (''docs.quickstart.elementBody'', ''On the dev row, select Elements '' @ cp [0x2192] @ '' Add element. Set Key to app-config, select JSON as the content type, and paste the full example below into Raw. Select Create, then open Detail.''),
      (''docs.quickstart.elementResult'', ''Latest and Draft should be v1. Using has no published version yet.''),
      (''docs.quickstart.payload'', ''app-config '' @ cp [0xB7] @ '' JSON''),
      (''docs.quickstart.publishTitle'', ''Publish v1''),
      (''docs.quickstart.publishBody'', ''From the element detail page, select Publish. Choose v1 '' @ cp [0x2192] @ '' Full publish '' @ cp [0x2192] @ '' continue past Targets '' @ cp [0x2192] @ '' review the diff '' @ cp [0x2192] @ '' confirm the impact '' @ cp [0x2192] @ '' Publish. Finish the wizard and return to the detail page.''),
      (''docs.quickstart.publishResult'', ''Using should be v1 and Draft should be empty. You can now follow the client example below.''),
      (''docs.quickstart.publishNote'', ''Saving creates a version; publishing selects the version to use and initiates change delivery. Finish publishing before creating the next version. Check the client'' @ cp [0x2019] @ ''s received version to confirm delivery.''),
      (''docs.consume.intro'', ''First read configuration from cassemagent with HTTP fetch. Then use the Go SDK for GetElement reads and Watch subscriptions. Both methods require an access token bound to a user with permission to read the target app and environment.''),
      (''docs.consume.addressTitle'', ''Use the Agent address''),
      (''docs.consume.addressBody'', ''The local Compose setup exposes HTTP fetch at http://127.0.0.1:20219; the Go SDK uses 127.0.0.1:20219 on the same port, without http:// or /ui/. Token management uses cassemadm at http://127.0.0.1:20218. Replace these addresses with endpoints reachable from your process when using another deployment or a container.''),
      (''docs.consume.httpTitle'', ''1. Read configuration with HTTP fetch''),
      (''docs.consume.httpBody'', ''After publishing order-service / dev / app-config, replace TOKEN_FROM_CREATE_RESPONSE with your access token and run the request below. If you do not have one yet, follow '' @ cp [0x201C] @ ''Create and manage access tokens'' @ cp [0x201D] @ '' below first. HTTP fetch accepts exactly one key per request; request each additional key separately. The --include option displays the status and response headers so you can check the returned version.''),
      (''docs.consume.httpCommand'', ''HTTP fetch '' @ cp [0xB7] @ '' app-config''),
      (''docs.consume.httpResponse'', ''HTTP response '' @ cp [0xB7] @ '' headers and raw body '' @ cp [0xB7] @ '' v1''),
      (''docs.consume.httpResult'', ''Everything after the blank line is the original configuration content. A successful body has no errcode/data envelope or Base64 encoding; JSON content can be parsed directly. Whitespace and binary bytes are preserved, and an empty published value returns HTTP 200 with an empty body. Content-Type follows the element type: application/json, application/toml, text/plain for INI/plaintext, or application/octet-stream for an unknown type. X-CASSEM-Key, X-CASSEM-Version, and X-CASSEM-Published describe the returned element. HTTP fetch reads once; repeat the request for later values or use the SDK Watch API below for online changes.''),
      (''docs.consume.httpSaveBody'', ''To save the response as a configuration file, omit --include and use --output as shown below. The --fail option prevents an HTTP error response from being written as configuration. No extraction or Base64 decoding is needed.''),
      (''docs.consume.httpSaveCommand'', ''Save the raw configuration '' @ cp [0xB7] @ '' app-config.json''),
      (''docs.consume.httpErrors'', ''HTTP 400 means the app, environment, or key is invalid, or the request does not contain exactly one key; repeating the same key also returns 400. HTTP 404 means the key is missing or has no published version. HTTP 401 indicates a missing, invalid, expired, or revoked token, or a disabled/deleted user; HTTP 403 means the user lacks READ permission for the requested app/environment. Errors still return JSON with errcode/errmsg, so check the HTTP status before parsing configuration.''),
      (''docs.consume.tokenTitle'', ''Create and manage access tokens''),
      (''docs.consume.tokenPermissions'', ''HTTP and the Go SDK share the same user-bound tokens. In Users, create and enable a dedicated reader account, reader@example.com in these examples. In Manage access, bind that account to the visitor role for order-service/dev. A token inherits the current read permissions of its user; issuing it does not grant additional access.''),
      (''docs.consume.tokenLogin'', ''Use the management API to create and manage tokens. The operator needs cluster ACL write permission to create or revoke, and read permission to list tokens. Replace the account and password below with an authorized operator, sign in to cassemadm, and save data.session from the response.''),
      (''docs.consume.tokenLoginCommand'', ''Sign in for token management''),
      (''docs.consume.tokenCreate'', ''Set CASSEM_SESSION to data.session, replace reader@example.com with the enabled reader account, and issue a named token. This example expires in 86,400 seconds (1 day). expiresInSeconds defaults to 30 days when omitted and accepts 1 second through 365 days. Only a global superadmin can create or revoke tokens for a superadmin account.''),
      (''docs.consume.tokenCreateCommand'', ''Create a user access token''),
      (''docs.consume.tokenOnceTitle'', ''Save the token returned at creation''),
      (''docs.consume.tokenOnceBody'', ''Save data.token as CASSEM_TOKEN for the HTTP request above and the SDK below. Save data.id for revocation. The bearer value is returned only once; later lists contain metadata. Store it in an environment variable or secret manager. Management requests use X-CASSEM-SESSION; configuration reads use the access token.''),
      (''docs.consume.tokenManageTitle'', ''List, revoke, and rotate tokens''),
      (''docs.consume.tokenList'', ''List the same account to inspect data.tokens: id, name, account, creation time, and expiry time (Unix seconds). The list returns up to 100 entries. When data.hasMore is true, pass data.nextSeek as the next seek query parameter. Expired tokens remain listed until revoked.''),
      (''docs.consume.tokenListCommand'', ''List token metadata''),
      (''docs.consume.tokenRevoke'', ''Run the DELETE request only when you want to stop using this credential. Replace CASSEM_TOKEN_ID with data.id from creation or a list entry, keeping the same account in the URL. Repeating a revoke is safe. Subsequent reads with the revoked token fail even when configuration is cached.''),
      (''docs.consume.tokenRevokeCommand'', ''Revoke a token when no longer needed''),
      (''docs.consume.tokenLifecycle'', ''To rotate credentials, create a new token, update and verify the client, then revoke the old one. Expiry or disabling the bound user also blocks access; changing role bindings changes readable apps/environments. Watch checks again before each update. Password changes do not revoke access tokens; revoke them explicitly when needed.''),
      (''docs.consume.sdkTitle'', ''2. Read and subscribe with the Go SDK''),
      (''docs.consume.sdkSetup'', ''With Go 1.26+ installed, add a github.com/yeqown/cassem/sdk/go release compatible with your deployment. Replace SDK_VERSION with a released SDK version; the SDK module and server have separate version numbers. For this checkout, use the local SDK commands below. Keep CASSEM_TOKEN from the HTTP steps in the same terminal, save the example as main.go, and run go run . after downloading the dependency.''),
      (''docs.consume.install'', ''Add the SDK dependency''),
      (''docs.consume.localModule'', ''For a local checkout, replace /absolute/path/to/cassem with your repository path before running these commands.''),
      (''docs.consume.localCommand'', ''Use the local SDK''),
      (''docs.consume.code'', ''main.go '' @ cp [0xB7] @ '' read and watch''),
      (''docs.consume.parameters'', ''Replace the Agent address, app, environment, and key for your deployment. WithClientID and WithClientIP are required; give each running process its own identity and use its real IP outside this local example. WithToken reads the original token from CASSEM_TOKEN and adds Bearer metadata to fetch and watch requests. An invalid token returns Unauthenticated; insufficient app/environment permission returns PermissionDenied.''),
      (''docs.consume.apply'', ''Raw is already a byte slice in the Go SDK. This example parses JSON and prints logLevel and requestTimeoutMs. In your service, validate the decoded values, then safely update the logger, timeout settings, or feature switches used by business code. Receiving a change does not automatically reload your service.''),
      (''docs.consume.watchNote'', ''Watch delivers online changes and does not replay missed history. Keep the process alive. After a disconnect, re-establish the subscription and read the current configuration again; consider periodic reads to reconcile missed updates. Keep the last valid configuration if parsing a new value fails.''),
      (''docs.updates.intro'', ''Make a second change, then repeat HTTP fetch or keep the Go SDK example running to verify the full path.''),
      (''docs.updates.editTitle'', ''Save and publish v2''),
      (''docs.updates.editBody'', ''Open app-config '' @ cp [0x2192] @ '' New Version. Change logLevel from info to debug and save the complete JSON document. This creates draft v2; Using remains v1. Publish v2 with the same Full publish workflow.''),
      (''docs.updates.verifyTitle'', ''Verify on both sides''),
      (''docs.updates.verifyBody'', ''Confirm Using is v2 in the console. Run the HTTP command again with --include and check X-CASSEM-Version: 2 and logLevel=debug in the raw body. For the Go SDK, check the printed version and logLevel=debug, then open Cluster '' @ cp [0x2192] @ '' Instances or the element'' @ cp [0x2019] @ ''s Instances tab to inspect subscriptions for order-service / dev / app-config. An online SDK instance alone does not prove the application applied a value.''),
      (''docs.updates.rollbackTitle'', ''Roll back if needed''),
      (''docs.updates.rollbackBody'', ''From the element detail page, select Rollback, choose the earlier published v1, review the diff and impact, and confirm. Check Using and the client'' @ cp [0x2019] @ ''s received contents again. Rollback changes the version in use; it does not erase the newer history.''),
      (''docs.updates.grayTitle'', ''When to use gray publishing''),
      (''docs.updates.grayBody'', ''Use Full publish for this walkthrough. Gray publishing requires selecting at least one Agent or client instance and limits notification targets. It also changes the shared Using version, so it is not a separate configuration namespace or a guarantee that other clients cannot read the version.''),
      (''docs.faq.unpublishedTitle'', ''Why can'' @ cp [0x2019] @ ''t I create another version?''),
      (''docs.faq.unpublishedBody'', ''An unpublished version already exists. Review and publish that draft before creating another version. Check the Draft field on the detail page.''),
      (''docs.faq.readTitle'', ''Why is the value missing or different from the editor?''),
      (''docs.faq.readBody'', ''Check the Agent address and exact app / environment / key. Latest may be a draft while Using points to an older version. Reads can also briefly reflect Agent cache contents. Verify the published version, then retry and inspect the returned version and raw contents.''),
      (''docs.faq.draftTitle'', ''Does HTTP fetch return an unpublished draft?''),
      (''docs.faq.draftBody'', ''HTTP fetch returns 404 until a published version exists. After v1 is published, saving draft v2 still leaves HTTP reads on v1. The Go SDK retains its existing behavior: a first draft may be returned when no Using version exists. Verify Using in the console before relying on an SDK read as evidence of publishing.''),
      (''docs.faq.watchTitle'', ''Why didn'' @ cp [0x2019] @ ''t a change reach my application?''),
      (''docs.faq.watchBody'', ''Saving a draft is not publishing it. Check that you published, that the client is still connected and watching the same app / environment / key, and that any gray targets include it. Reconnect and read again after an interruption. Finally, check the application'' @ cp [0x2019] @ ''s parsing and reload logic.''),
      (''docs.faq.accessTitle'', ''Why am I getting a permission error?''),
      (''docs.faq.accessBody'', ''For configuration reads, check CASSEM_TOKEN first: 401 / Unauthenticated indicates a credential or user-state problem; 403 / PermissionDenied indicates missing READ permission for the requested app/environment. Ask an administrator to inspect the token-bound user in Users '' @ cp [0x2192] @ '' Manage access. Token management uses a login session with cluster ACL permissions; console access alone does not grant configuration access.'')]"

definition docsZhCN :: message_list where
  "docsZhCN =
     [(''docs.title'', ''Cassem '' @ cp [0x4F7F, 0x7528, 0x6307, 0x5357]),
      (''docs.description'', cp [0x4ECE, 0x521B, 0x5EFA, 0x7B2C, 0x4E00, 0x4E2A, 0x914D, 0x7F6E, 0x9879, 0x5F00, 0x59CB, 0xFF0C, 0x5B8C, 0x6210, 0x53D1, 0x5E03, 0xFF0C, 0x5E76, 0x8BA9, 0x4F60, 0x7684, 0x5E94, 0x7528, 0x8BFB, 0x53D6, 0x548C, 0x4F7F, 0x7528, 0x914D, 0x7F6E, 0x3002]),
      (''docs.start'', cp [0x5F00, 0x59CB, 0x4E0A, 0x624B]),
      (''docs.openApps'', cp [0x524D, 0x5F80, 0x5E94, 0x7528]),
      (''docs.contents'', cp [0x672C, 0x9875, 0x76EE, 0x5F55]),
      (''docs.concepts'', cp [0x6838, 0x5FC3, 0x6982, 0x5FF5, 0x4E0E, 0x804C, 0x8D23]),
      (''docs.quickstart'', cp [0x521B, 0x5EFA, 0x7B2C, 0x4E00, 0x4E2A, 0x914D, 0x7F6E, 0x9879]),
      (''docs.consume'', cp [0x8BFB, 0x53D6, 0x4E0E, 0x8BA2, 0x9605, 0x914D, 0x7F6E]),
      (''docs.updates'', cp [0x66F4, 0x65B0, 0x3001, 0x9A8C, 0x8BC1, 0x4E0E, 0x56DE, 0x6EDA]),
      (''docs.faq'', cp [0x5E38, 0x89C1, 0x95EE, 0x9898]),
      (''docs.copy'', cp [0x590D, 0x5236, 0x4EE3, 0x7801]),
      (''docs.copyLabel'', cp [0x590D, 0x5236] @ '' {title}''),
      (''docs.copied'', cp [0x4EE3, 0x7801, 0x5DF2, 0x590D, 0x5236, 0x3002]),
      (''docs.copyFailed'', cp [0x590D, 0x5236, 0x5931, 0x8D25, 0xFF0C, 0x8BF7, 0x9009, 0x4E2D, 0x4EE3, 0x7801, 0x624B, 0x52A8, 0x590D, 0x5236, 0x3002]),
      (''docs.codeLabel'', ''{title} '' @ cp [0x4EE3, 0x7801, 0x793A, 0x4F8B]),
      (''docs.concepts.intro'', ''Cassem '' @ cp [0x5C06, 0x914D, 0x7F6E, 0x96C6, 0x4E2D, 0x4FDD, 0x5B58, 0x5728, 0x5E94, 0x7528, 0x4EE3, 0x7801, 0x4E4B, 0x5916, 0x3002, 0x4F60, 0x5728, 0x63A7, 0x5236, 0x53F0, 0x7BA1, 0x7406, 0x914D, 0x7F6E, 0x5185, 0x5BB9, 0x548C, 0x7248, 0x672C, 0xFF0C, 0x4E1A, 0x52A1, 0x7A0B, 0x5E8F, 0x901A, 0x8FC7] @ '' Agent '' @ cp [0x8BFB, 0x53D6, 0x914D, 0x7F6E, 0xFF0C, 0x5E76, 0x51B3, 0x5B9A, 0x5982, 0x4F55, 0x5C06, 0x5B83, 0x5E94, 0x7528, 0x5230, 0x4E1A, 0x52A1, 0x4E2D, 0x3002]),
      (''docs.concepts.example'', cp [0x672C, 0x6587, 0x793A, 0x4F8B]),
      (''docs.concepts.app'', cp [0x5E94, 0x7528, 0xFF08] @ ''App'' @ cp [0xFF09]),
      (''docs.concepts.appDescription'', cp [0x4E00, 0x4E2A, 0x670D, 0x52A1, 0x6216, 0x9879, 0x76EE, 0x7684, 0x914D, 0x7F6E, 0x547D, 0x540D, 0x7A7A, 0x95F4, 0xFF0C, 0x7528, 0x4E8E, 0x7EC4, 0x7EC7, 0x8BE5, 0x670D, 0x52A1, 0x4E0B, 0x7684, 0x73AF, 0x5883, 0x548C, 0x914D, 0x7F6E, 0x9879, 0x3002]),
      (''docs.concepts.env'', cp [0x73AF, 0x5883, 0xFF08] @ ''Environment'' @ cp [0xFF09]),
      (''docs.concepts.envDescription'', cp [0x5728, 0x5E94, 0x7528, 0x5185, 0x9694, 0x79BB] @ '' dev'' @ cp [0x3001] @ ''test'' @ cp [0x3001] @ ''stage'' @ cp [0x3001] @ ''prod '' @ cp [0x7B49, 0x8FD0, 0x884C, 0x73AF, 0x5883, 0x3002, 0x540C, 0x4E00, 0x4E2A, 0x914D, 0x7F6E, 0x952E, 0x5728, 0x4E0D, 0x540C, 0x73AF, 0x5883, 0x4E2D, 0x53EF, 0x4EE5, 0x6709, 0x4E0D, 0x540C, 0x5185, 0x5BB9, 0x3002]),
      (''docs.concepts.element'', cp [0x914D, 0x7F6E, 0x9879] @ '' / '' @ cp [0x914D, 0x7F6E, 0x952E, 0xFF08] @ ''Element / Key'' @ cp [0xFF09]),
      (''docs.concepts.elementDescription'', cp [0x72EC, 0x7ACB, 0x7BA1, 0x7406, 0x7248, 0x672C, 0x7684, 0x4E00, 0x4EFD, 0x914D, 0x7F6E, 0xFF0C, 0x7531, 0x5E94, 0x7528] @ '' + '' @ cp [0x73AF, 0x5883] @ '' + '' @ cp [0x914D, 0x7F6E, 0x952E, 0x5171, 0x540C, 0x5B9A, 0x4F4D, 0x3002, 0x5185, 0x5BB9, 0x53EF, 0x4EE5, 0x662F, 0x4E00, 0x6574, 0x4EFD, 0x914D, 0x7F6E, 0x6587, 0x4EF6, 0xFF0C, 0x4E5F, 0x53EF, 0x4EE5, 0x662F, 0x4E00, 0x4E2A, 0x503C, 0x3002]),
      (''docs.concepts.content'', cp [0x5185, 0x5BB9, 0x7C7B, 0x578B] @ '' / '' @ cp [0x539F, 0x59CB, 0x5185, 0x5BB9]),
      (''docs.concepts.contentDescription'', cp [0x914D, 0x7F6E, 0x7684, 0x683C, 0x5F0F, 0x548C, 0x5177, 0x4F53, 0x5185, 0x5BB9, 0x3002, 0x652F, 0x6301] @ '' JSON'' @ cp [0x3001] @ ''TOML'' @ cp [0x3001] @ ''INI'' @ cp [0x3001] @ ''PLAINTEXT'' @ cp [0xFF0C, 0x4E1A, 0x52A1, 0x7A0B, 0x5E8F, 0x9700, 0x8981, 0x6309, 0x5BF9, 0x5E94, 0x683C, 0x5F0F, 0x89E3, 0x6790, 0x539F, 0x59CB, 0x5B57, 0x8282, 0x3002]),
      (''docs.concepts.version'', cp [0x7248, 0x672C, 0xFF08] @ ''Version'' @ cp [0xFF09]),
      (''docs.concepts.versionDescription'', cp [0x67D0, 0x6B21, 0x4FDD, 0x5B58, 0x7684, 0x5185, 0x5BB9, 0x5FEB, 0x7167, 0x3002, 0x201C, 0x6700, 0x65B0, 0x7248, 0x672C, 0x201D, 0x662F, 0x6700, 0x540E, 0x4FDD, 0x5B58, 0x7684, 0x7248, 0x672C, 0xFF0C, 0x201C, 0x8349, 0x7A3F, 0x201D, 0x662F, 0x5C1A, 0x672A, 0x53D1, 0x5E03, 0x7684, 0x7248, 0x672C, 0xFF0C, 0x201C, 0x4F7F, 0x7528, 0x4E2D] @ '' / '' @ cp [0x5F53, 0x524D, 0x7248, 0x672C, 0x201D, 0x662F, 0x53D1, 0x5E03, 0x6216, 0x56DE, 0x6EDA, 0x9009, 0x5B9A, 0x7684, 0x7248, 0x672C, 0x3002]),
      (''docs.concepts.versionExample'', cp [0x521B, 0x5EFA] @ '' v1 '' @ cp [0x2192] @ '' '' @ cp [0x53D1, 0x5E03] @ '' v1 '' @ cp [0x2192] @ '' '' @ cp [0x4FDD, 0x5B58] @ '' v2''),
      (''docs.concepts.instance'', cp [0x5BA2, 0x6237, 0x7AEF, 0x5B9E, 0x4F8B, 0xFF08] @ ''Instance'' @ cp [0xFF09]),
      (''docs.concepts.instanceDescription'', cp [0x7531] @ '' SDK '' @ cp [0x6CE8, 0x518C, 0x7684, 0x4E1A, 0x52A1, 0x8FDB, 0x7A0B, 0x3002, 0x901A, 0x8FC7, 0x5BA2, 0x6237, 0x7AEF] @ '' ID'' @ cp [0x3001] @ ''IP'' @ cp [0x3001, 0x6240, 0x5C5E] @ '' Agent '' @ cp [0x548C, 0x8BA2, 0x9605, 0x7684, 0x914D, 0x7F6E, 0x952E, 0xFF0C, 0x53EF, 0x4EE5, 0x8FFD, 0x8E2A, 0x914D, 0x7F6E, 0x7531, 0x54EA, 0x4E9B, 0x7A0B, 0x5E8F, 0x4F7F, 0x7528, 0x3002]),
      (''docs.concepts.services'', cp [0x5404, 0x7EC4, 0x4EF6, 0x8D1F, 0x8D23, 0x4EC0, 0x4E48, 0xFF1F]),
      (''docs.concepts.adm'', cp [0x7BA1, 0x7406, 0x5165, 0x53E3, 0xFF1A, 0x63D0, 0x4F9B, 0x5F53, 0x524D, 0x63A7, 0x5236, 0x53F0, 0x548C, 0x7BA1, 0x7406] @ '' HTTP API'' @ cp [0xFF0C, 0x8D1F, 0x8D23, 0x8D26, 0x53F7, 0x3001, 0x8BBF, 0x95EE, 0x6743, 0x9650, 0x3001, 0x914D, 0x7F6E, 0x7F16, 0x8F91, 0x3001, 0x53D1, 0x5E03, 0x4E0E, 0x56DE, 0x6EDA, 0x3002]),
      (''docs.concepts.kv'', cp [0x6301, 0x4E45, 0x5316, 0x5B58, 0x50A8, 0xFF1A, 0x4FDD, 0x5B58, 0x914D, 0x7F6E, 0x5185, 0x5BB9, 0x3001, 0x7248, 0x672C, 0x5143, 0x6570, 0x636E, 0x548C, 0x96C6, 0x7FA4, 0x6570, 0x636E, 0xFF0C, 0x901A, 0x8FC7] @ '' Raft '' @ cp [0x5728, 0x8282, 0x70B9, 0x95F4, 0x590D, 0x5236, 0x6570, 0x636E, 0x3002]),
      (''docs.concepts.agent'', cp [0x4E1A, 0x52A1, 0x63A5, 0x5165, 0xFF1A, 0x901A, 0x8FC7, 0x7528, 0x6237] @ '' token '' @ cp [0x9274, 0x6743, 0x63D0, 0x4F9B] @ '' HTTP fetch '' @ cp [0x548C] @ '' gRPC '' @ cp [0x914D, 0x7F6E, 0x8BFB, 0x53D6, 0x3001, 0x7F13, 0x5B58, 0x914D, 0x7F6E, 0xFF0C, 0x5E76, 0x5411, 0x4FDD, 0x6301, 0x8FDE, 0x63A5, 0x7684] @ '' gRPC '' @ cp [0x8BA2, 0x9605, 0x5BA2, 0x6237, 0x7AEF, 0x63A8, 0x9001, 0x53D8, 0x66F4, 0x3002]),
      (''docs.concepts.managePath'', cp [0x7BA1, 0x7406, 0xFF1A, 0x63A7, 0x5236, 0x53F0] @ '' '' @ cp [0x2192] @ '' cassemadm '' @ cp [0x2192] @ '' cassemkv''),
      (''docs.concepts.readPath'', cp [0x8BFB, 0x53D6, 0xFF1A, 0x4E1A, 0x52A1, 0x7A0B, 0x5E8F] @ '' / SDK '' @ cp [0x2192] @ '' cassemagent '' @ cp [0x2192] @ '' cassemkv''),
      (''docs.concepts.pushPath'', cp [0x901A, 0x77E5, 0xFF1A, 0x5DF2, 0x53D1, 0x5E03, 0x7684, 0x53D8, 0x66F4] @ '' '' @ cp [0x2192] @ '' cassemagent '' @ cp [0x2192] @ '' '' @ cp [0x8BA2, 0x9605, 0x7684, 0x4E1A, 0x52A1, 0x7A0B, 0x5E8F]),
      (''docs.quickstart.intro'', cp [0x4EE5, 0x4E0B, 0x6B65, 0x9AA4, 0x59CB, 0x7EC8, 0x4F7F, 0x7528, 0x540C, 0x4E00, 0x7EC4, 0x5E94, 0x7528, 0x3001, 0x73AF, 0x5883, 0x548C, 0x914D, 0x7F6E, 0x952E, 0x3002, 0x5EFA, 0x8BAE, 0x5148, 0x5728, 0x5F00, 0x53D1, 0x73AF, 0x5883, 0x8D70, 0x901A, 0x6574, 0x4E2A, 0x6D41, 0x7A0B, 0x3002]),
      (''docs.quickstart.before'', cp [0x5F00, 0x59CB, 0x524D]),
      (''docs.quickstart.prerequisites'', cp [0x4F7F, 0x7528, 0x6709, 0x914D, 0x7F6E, 0x521B, 0x5EFA, 0x548C, 0x53D1, 0x5E03, 0x6743, 0x9650, 0x7684, 0x8D26, 0x53F7, 0x767B, 0x5F55, 0x5DF2, 0x8FD0, 0x884C, 0x7684] @ '' Cassem '' @ cp [0x63A7, 0x5236, 0x53F0, 0xFF1B, 0x6743, 0x9650, 0x4E0D, 0x8DB3, 0x65F6, 0x8BF7, 0x8054, 0x7CFB, 0x7BA1, 0x7406, 0x5458, 0x3002, 0x63A5, 0x5165, 0x5BA2, 0x6237, 0x7AEF, 0x65F6, 0xFF0C, 0x8FD8, 0x9700, 0x8981, 0x4E1A, 0x52A1, 0x7A0B, 0x5E8F, 0x53EF, 0x4EE5, 0x8BBF, 0x95EE, 0x7684] @ '' cassemagent '' @ cp [0x5730, 0x5740, 0xFF0C, 0x4EE5, 0x53CA, 0x6309, 0x4E0B, 0x65B9, 0x6B65, 0x9AA4, 0x521B, 0x5EFA, 0x7684, 0x7528, 0x6237, 0x8BBF, 0x95EE] @ '' token'' @ cp [0x3002]),
      (''docs.quickstart.appTitle'', cp [0x521B, 0x5EFA, 0x5E94, 0x7528]),
      (''docs.quickstart.appBody'', cp [0x6253, 0x5F00, 0x300C, 0x5E94, 0x7528] @ '' '' @ cp [0x2192] @ '' '' @ cp [0x6DFB, 0x52A0, 0x5E94, 0x7528, 0x300D, 0xFF0C, 0x5E94, 0x7528] @ '' ID '' @ cp [0x586B, 0x5199] @ '' order-service'' @ cp [0xFF0C, 0x63CF, 0x8FF0, 0x586B, 0x5199, 0x201C, 0x8BA2, 0x5355, 0x670D, 0x52A1, 0x914D, 0x7F6E, 0x201D, 0xFF0C, 0x70B9, 0x51FB, 0x300C, 0x521B, 0x5EFA, 0x300D, 0x3002, 0x5982, 0x679C, 0x5E94, 0x7528, 0x5DF2, 0x7ECF, 0x5B58, 0x5728, 0xFF0C, 0x76F4, 0x63A5, 0x4F7F, 0x7528, 0x5373, 0x53EF, 0x3002]),
      (''docs.quickstart.appResult'', cp [0x5B8C, 0x6210, 0x540E, 0xFF0C, 0x5E94, 0x7528, 0x5217, 0x8868, 0x4E2D, 0x4F1A, 0x51FA, 0x73B0] @ '' order-service'' @ cp [0x3002]),
      (''docs.quickstart.envTitle'', cp [0x521B, 0x5EFA, 0x73AF, 0x5883]),
      (''docs.quickstart.envBody'', cp [0x5728] @ '' order-service '' @ cp [0x6240, 0x5728, 0x884C, 0x70B9, 0x51FB, 0x300C, 0x73AF, 0x5883] @ '' '' @ cp [0x2192] @ '' '' @ cp [0x6DFB, 0x52A0, 0x73AF, 0x5883, 0x300D, 0xFF0C, 0x8F93, 0x5165] @ '' dev'' @ cp [0xFF0C, 0x70B9, 0x51FB, 0x300C, 0x521B, 0x5EFA, 0x300D, 0x3002, 0x73AF, 0x5883, 0x540D, 0x79F0, 0x4F1A, 0x4EE5, 0x5C0F, 0x5199, 0x4FDD, 0x5B58, 0x3002]),
      (''docs.quickstart.envResult'', cp [0x5B8C, 0x6210, 0x540E, 0xFF0C, 0x6B64, 0x5E94, 0x7528, 0x7684, 0x73AF, 0x5883, 0x5217, 0x8868, 0x4E2D, 0x4F1A, 0x51FA, 0x73B0] @ '' dev'' @ cp [0x3002]),
      (''docs.quickstart.elementTitle'', cp [0x521B, 0x5EFA, 0x914D, 0x7F6E, 0x9879]),
      (''docs.quickstart.elementBody'', cp [0x5728] @ '' dev '' @ cp [0x6240, 0x5728, 0x884C, 0x70B9, 0x51FB, 0x300C, 0x914D, 0x7F6E, 0x9879] @ '' '' @ cp [0x2192] @ '' '' @ cp [0x6DFB, 0x52A0, 0x914D, 0x7F6E, 0x9879, 0x300D, 0xFF0C, 0x914D, 0x7F6E, 0x952E, 0x586B, 0x5199] @ '' app-config'' @ cp [0xFF0C, 0x5185, 0x5BB9, 0x7C7B, 0x578B, 0x9009, 0x62E9] @ '' JSON'' @ cp [0xFF0C, 0x5C06, 0x4E0B, 0x65B9, 0x5B8C, 0x6574, 0x793A, 0x4F8B, 0x7C98, 0x8D34, 0x5230, 0x300C, 0x539F, 0x59CB, 0x5185, 0x5BB9, 0x300D, 0x3002, 0x70B9, 0x51FB, 0x300C, 0x521B, 0x5EFA, 0x300D, 0xFF0C, 0x518D, 0x8FDB, 0x5165, 0x300C, 0x8BE6, 0x60C5, 0x300D, 0x3002]),
      (''docs.quickstart.elementResult'', cp [0x6B64, 0x65F6, 0x6700, 0x65B0, 0x7248, 0x672C, 0x548C, 0x8349, 0x7A3F, 0x5747, 0x4E3A] @ '' v1'' @ cp [0xFF0C, 0x4F7F, 0x7528, 0x4E2D, 0x7248, 0x672C, 0x5C1A, 0x672A, 0x8BBE, 0x7F6E, 0x3002]),
      (''docs.quickstart.payload'', ''app-config '' @ cp [0xB7] @ '' JSON''),
      (''docs.quickstart.publishTitle'', cp [0x53D1, 0x5E03] @ '' v1''),
      (''docs.quickstart.publishBody'', cp [0x5728, 0x914D, 0x7F6E, 0x8BE6, 0x60C5, 0x70B9, 0x51FB, 0x300C, 0x53D1, 0x5E03, 0x300D, 0xFF0C, 0x4F9D, 0x6B21, 0x9009, 0x62E9] @ '' v1 '' @ cp [0x2192] @ '' '' @ cp [0x5168, 0x91CF, 0x53D1, 0x5E03] @ '' '' @ cp [0x2192] @ '' '' @ cp [0x7EE7, 0x7EED, 0x901A, 0x8FC7, 0x76EE, 0x6807, 0x6B65, 0x9AA4] @ '' '' @ cp [0x2192] @ '' '' @ cp [0x68C0, 0x67E5, 0x5DEE, 0x5F02] @ '' '' @ cp [0x2192] @ '' '' @ cp [0x786E, 0x8BA4, 0x5F71, 0x54CD] @ '' '' @ cp [0x2192] @ '' '' @ cp [0x53D1, 0x5E03, 0x3002, 0x5B8C, 0x6210, 0x5411, 0x5BFC, 0x540E, 0x8FD4, 0x56DE, 0x914D, 0x7F6E, 0x8BE6, 0x60C5, 0x3002]),
      (''docs.quickstart.publishResult'', cp [0x786E, 0x8BA4, 0x4F7F, 0x7528, 0x4E2D, 0x7248, 0x672C, 0x4E3A] @ '' v1'' @ cp [0xFF0C, 0x8349, 0x7A3F, 0x4E3A, 0x7A7A, 0xFF0C, 0x7136, 0x540E, 0x7EE7, 0x7EED, 0x4E0B, 0x65B9, 0x7684, 0x5BA2, 0x6237, 0x7AEF, 0x63A5, 0x5165, 0x6B65, 0x9AA4, 0x3002]),
      (''docs.quickstart.publishNote'', cp [0x4FDD, 0x5B58, 0x4F1A, 0x751F, 0x6210, 0x7248, 0x672C, 0xFF1B, 0x53D1, 0x5E03, 0x4F1A, 0x9009, 0x5B9A, 0x4F7F, 0x7528, 0x7248, 0x672C, 0x5E76, 0x5F00, 0x59CB, 0x5206, 0x53D1, 0x53D8, 0x66F4, 0x3002, 0x5F53, 0x524D, 0x8349, 0x7A3F, 0x53D1, 0x5E03, 0x540E, 0x624D, 0x80FD, 0x521B, 0x5EFA, 0x4E0B, 0x4E00, 0x7248, 0x3002, 0x662F, 0x5426, 0x6210, 0x529F, 0x9001, 0x8FBE, 0xFF0C, 0x8FD8, 0x9700, 0x8981, 0x68C0, 0x67E5, 0x5BA2, 0x6237, 0x7AEF, 0x5B9E, 0x9645, 0x6536, 0x5230, 0x7684, 0x7248, 0x672C, 0x3002]),
      (''docs.consume.intro'', cp [0x5148, 0x901A, 0x8FC7] @ '' HTTP fetch '' @ cp [0x4ECE] @ '' cassemagent '' @ cp [0x8BFB, 0x53D6, 0x914D, 0x7F6E, 0xFF0C, 0x518D, 0x4F7F, 0x7528] @ '' Go SDK '' @ cp [0x7684] @ '' GetElement '' @ cp [0x8BFB, 0x53D6, 0x914D, 0x7F6E, 0x3001] @ ''Watch '' @ cp [0x8BA2, 0x9605, 0x53D8, 0x66F4, 0x3002, 0x4E24, 0x79CD, 0x65B9, 0x5F0F, 0x90FD, 0x9700, 0x8981, 0x8BBF, 0x95EE] @ '' token'' @ cp [0xFF1B] @ ''token '' @ cp [0x7ED1, 0x5B9A, 0x7684, 0x7528, 0x6237, 0x5FC5, 0x987B, 0x62E5, 0x6709, 0x76EE, 0x6807, 0x5E94, 0x7528, 0x548C, 0x73AF, 0x5883, 0x7684, 0x914D, 0x7F6E, 0x8BFB, 0x53D6, 0x6743, 0x9650, 0x3002]),
      (''docs.consume.addressTitle'', cp [0x8FDE, 0x63A5] @ '' Agent '' @ cp [0x5730, 0x5740]),
      (''docs.consume.addressBody'', cp [0x672C, 0x5730] @ '' Compose '' @ cp [0x793A, 0x4F8B, 0x7684] @ '' HTTP fetch '' @ cp [0x5730, 0x5740, 0x4E3A] @ '' http://127.0.0.1:20219'' @ cp [0xFF1B] @ ''Go SDK '' @ cp [0x4F7F, 0x7528, 0x540C, 0x4E00, 0x7AEF, 0x53E3, 0x7684] @ '' 127.0.0.1:20219'' @ cp [0xFF0C, 0x4E0D, 0x5E26] @ '' http:// '' @ cp [0x6216] @ '' /ui/'' @ cp [0x3002] @ ''token '' @ cp [0x7BA1, 0x7406, 0x8BF7, 0x6C42, 0x53D1, 0x5F80] @ '' cassemadm'' @ cp [0xFF1A] @ ''http://127.0.0.1:20218'' @ cp [0x3002, 0x4F7F, 0x7528, 0x5176, 0x4ED6, 0x90E8, 0x7F72, 0x6216, 0x5728, 0x5BB9, 0x5668, 0x5185, 0x8FD0, 0x884C, 0x65F6, 0xFF0C, 0x8BF7, 0x66FF, 0x6362, 0x4E3A, 0x8BE5, 0x8FDB, 0x7A0B, 0x80FD, 0x591F, 0x8BBF, 0x95EE, 0x7684, 0x5730, 0x5740, 0x3002]),
      (''docs.consume.httpTitle'', ''1. '' @ cp [0x901A, 0x8FC7] @ '' HTTP fetch '' @ cp [0x8BFB, 0x53D6, 0x914D, 0x7F6E]),
      (''docs.consume.httpBody'', cp [0x53D1, 0x5E03] @ '' order-service / dev / app-config '' @ cp [0x540E, 0xFF0C, 0x5C06] @ '' TOKEN_FROM_CREATE_RESPONSE '' @ cp [0x66FF, 0x6362, 0x4E3A, 0x8BBF, 0x95EE] @ '' token'' @ cp [0xFF0C, 0x518D, 0x8FD0, 0x884C, 0x4E0B, 0x65B9, 0x8BF7, 0x6C42, 0x3002, 0x8FD8, 0x6CA1, 0x6709] @ '' token '' @ cp [0x65F6, 0xFF0C, 0x5148, 0x5B8C, 0x6210, 0x4E0B, 0x65B9, 0x300C, 0x521B, 0x5EFA, 0x548C, 0x7BA1, 0x7406, 0x8BBF, 0x95EE] @ '' token'' @ cp [0x300D, 0x6B65, 0x9AA4, 0x3002] @ ''HTTP fetch '' @ cp [0x6BCF, 0x6B21, 0x53EA, 0x63A5, 0x53D7, 0x4E00, 0x4E2A] @ '' key'' @ cp [0xFF1B, 0x9700, 0x8981, 0x8BFB, 0x53D6, 0x591A, 0x4E2A, 0x914D, 0x7F6E, 0x952E, 0x65F6, 0xFF0C, 0x8BF7, 0x5206, 0x522B, 0x53D1, 0x8D77, 0x8BF7, 0x6C42, 0x3002, 0x547D, 0x4EE4, 0x4E2D, 0x7684] @ '' --include '' @ cp [0x4F1A, 0x4E00, 0x5E76, 0x663E, 0x793A] @ '' HTTP '' @ cp [0x72B6, 0x6001, 0x548C, 0x54CD, 0x5E94, 0x5934, 0xFF0C, 0x4FBF, 0x4E8E, 0x6838, 0x5BF9, 0x8FD4, 0x56DE, 0x7684, 0x7248, 0x672C, 0x3002]),
      (''docs.consume.httpCommand'', ''HTTP fetch '' @ cp [0xB7] @ '' app-config''),
      (''docs.consume.httpResponse'', ''HTTP '' @ cp [0x54CD, 0x5E94] @ '' '' @ cp [0xB7] @ '' '' @ cp [0x54CD, 0x5E94, 0x5934, 0x4E0E, 0x539F, 0x59CB, 0x5185, 0x5BB9] @ '' '' @ cp [0xB7] @ '' v1''),
      (''docs.consume.httpResult'', cp [0x7A7A, 0x884C, 0x4E4B, 0x540E, 0x5C31, 0x662F, 0x539F, 0x59CB, 0x914D, 0x7F6E, 0x5185, 0x5BB9, 0x3002, 0x6210, 0x529F, 0x54CD, 0x5E94, 0x7684] @ '' body '' @ cp [0x6CA1, 0x6709] @ '' errcode/data '' @ cp [0x5916, 0x5C42, 0x5C01, 0x88C5, 0xFF0C, 0x4E5F, 0x6CA1, 0x6709] @ '' Base64 '' @ cp [0x7F16, 0x7801, 0xFF1B] @ ''JSON '' @ cp [0x914D, 0x7F6E, 0x53EF, 0x4EE5, 0x76F4, 0x63A5, 0x89E3, 0x6790, 0x3002, 0x7A7A, 0x767D, 0x548C, 0x4E8C, 0x8FDB, 0x5236, 0x5B57, 0x8282, 0x4F1A, 0x539F, 0x6837, 0x4FDD, 0x7559, 0xFF0C, 0x5DF2, 0x53D1, 0x5E03, 0x7684, 0x7A7A, 0x914D, 0x7F6E, 0x8FD4, 0x56DE] @ '' HTTP 200 '' @ cp [0x548C, 0x7A7A] @ '' body'' @ cp [0x3002] @ ''Content-Type '' @ cp [0x6839, 0x636E, 0x914D, 0x7F6E, 0x7C7B, 0x578B, 0x8FD4, 0x56DE] @ '' application/json'' @ cp [0x3001] @ ''application/toml'' @ cp [0x3001] @ ''text/plain'' @ cp [0xFF08] @ ''INI '' @ cp [0x6216, 0x7EAF, 0x6587, 0x672C, 0xFF09, 0xFF0C, 0x672A, 0x77E5, 0x7C7B, 0x578B, 0x8FD4, 0x56DE] @ '' application/octet-stream'' @ cp [0x3002] @ ''X-CASSEM-Key'' @ cp [0x3001] @ ''X-CASSEM-Version '' @ cp [0x548C] @ '' X-CASSEM-Published '' @ cp [0x5206, 0x522B, 0x63D0, 0x4F9B, 0x914D, 0x7F6E, 0x952E, 0x3001, 0x7248, 0x672C, 0x548C, 0x53D1, 0x5E03, 0x72B6, 0x6001, 0x3002] @ ''HTTP fetch '' @ cp [0x6BCF, 0x6B21, 0x8BFB, 0x53D6, 0x4E00, 0x6B21, 0xFF1B, 0x9700, 0x8981, 0x65B0, 0x503C, 0x65F6, 0x91CD, 0x65B0, 0x8BF7, 0x6C42, 0xFF0C, 0x9700, 0x8981, 0x5728, 0x7EBF, 0x8BA2, 0x9605, 0x5219, 0x4F7F, 0x7528, 0x4E0B, 0x65B9] @ '' SDK '' @ cp [0x7684] @ '' Watch'' @ cp [0x3002]),
      (''docs.consume.httpSaveBody'', cp [0x9700, 0x8981, 0x4FDD, 0x5B58, 0x4E3A, 0x914D, 0x7F6E, 0x6587, 0x4EF6, 0x65F6, 0xFF0C, 0x53BB, 0x6389] @ '' --include'' @ cp [0xFF0C, 0x4F7F, 0x7528, 0x4E0B, 0x65B9, 0x7684] @ '' --output '' @ cp [0x547D, 0x4EE4, 0x3002] @ ''--fail '' @ cp [0x4F1A, 0x963B, 0x6B62, 0x5C06] @ '' HTTP '' @ cp [0x9519, 0x8BEF, 0x54CD, 0x5E94, 0x5199, 0x5165, 0x914D, 0x7F6E, 0x6587, 0x4EF6, 0xFF0C, 0x65E0, 0x9700, 0x63D0, 0x53D6, 0x5B57, 0x6BB5, 0x6216, 0x8FDB, 0x884C] @ '' Base64 '' @ cp [0x89E3, 0x7801, 0x3002]),
      (''docs.consume.httpSaveCommand'', cp [0x4FDD, 0x5B58, 0x539F, 0x59CB, 0x914D, 0x7F6E] @ '' '' @ cp [0xB7] @ '' app-config.json''),
      (''docs.consume.httpErrors'', ''HTTP 400 '' @ cp [0x8868, 0x793A, 0x5E94, 0x7528, 0x3001, 0x73AF, 0x5883, 0x6216] @ '' key '' @ cp [0x53C2, 0x6570, 0x65E0, 0x6548, 0xFF0C, 0x6216] @ '' key '' @ cp [0x6570, 0x91CF, 0x4E0D, 0x4E3A] @ '' 1'' @ cp [0xFF1B, 0x91CD, 0x590D, 0x4F20, 0x5165, 0x540C, 0x4E00, 0x4E2A] @ '' key '' @ cp [0x4E5F, 0x4F1A, 0x8FD4, 0x56DE] @ '' 400'' @ cp [0x3002] @ ''HTTP 404 '' @ cp [0x8868, 0x793A, 0x914D, 0x7F6E, 0x4E0D, 0x5B58, 0x5728, 0x6216, 0x5C1A, 0x65E0, 0x5DF2, 0x53D1, 0x5E03, 0x7248, 0x672C, 0x3002] @ ''HTTP 401 '' @ cp [0x8868, 0x793A] @ '' token '' @ cp [0x7F3A, 0x5931, 0x3001, 0x65E0, 0x6548, 0x3001, 0x8FC7, 0x671F, 0x3001, 0x5DF2, 0x64A4, 0x9500, 0xFF0C, 0x6216, 0x7ED1, 0x5B9A, 0x7528, 0x6237, 0x88AB, 0x7981, 0x7528, 0x3001, 0x5220, 0x9664, 0xFF1B] @ ''HTTP 403 '' @ cp [0x8868, 0x793A, 0x7528, 0x6237, 0x6CA1, 0x6709, 0x76EE, 0x6807, 0x5E94, 0x7528] @ ''/'' @ cp [0x73AF, 0x5883, 0x7684] @ '' READ '' @ cp [0x6743, 0x9650, 0x3002, 0x9519, 0x8BEF, 0x54CD, 0x5E94, 0x4ECD, 0x4E3A, 0x5305, 0x542B] @ '' errcode/errmsg '' @ cp [0x7684] @ '' JSON'' @ cp [0xFF0C, 0x89E3, 0x6790, 0x914D, 0x7F6E, 0x524D, 0x8BF7, 0x5148, 0x68C0, 0x67E5] @ '' HTTP '' @ cp [0x72B6, 0x6001, 0x3002]),
      (''docs.consume.tokenTitle'', cp [0x521B, 0x5EFA, 0x548C, 0x7BA1, 0x7406, 0x8BBF, 0x95EE] @ '' token''),
      (''docs.consume.tokenPermissions'', ''HTTP '' @ cp [0x4E0E] @ '' Go SDK '' @ cp [0x5171, 0x7528, 0x540C, 0x4E00, 0x79CD, 0x7528, 0x6237] @ '' token'' @ cp [0x3002, 0x5148, 0x5728, 0x300C, 0x7528, 0x6237, 0x300D, 0x4E2D, 0x521B, 0x5EFA, 0x5E76, 0x542F, 0x7528, 0x4E13, 0x7528, 0x8BFB, 0x53D6, 0x8D26, 0x53F7, 0xFF0C, 0x4E0B, 0x4F8B, 0x4F7F, 0x7528] @ '' reader@example.com'' @ cp [0xFF1B, 0x518D, 0x901A, 0x8FC7, 0x300C, 0x7BA1, 0x7406, 0x6743, 0x9650, 0x300D, 0x4E3A, 0x5B83, 0x7ED1, 0x5B9A] @ '' order-service/dev '' @ cp [0x7684] @ '' visitor'' @ cp [0xFF08, 0x53EA, 0x8BFB, 0xFF09, 0x89D2, 0x8272, 0x3002] @ ''token '' @ cp [0x7EE7, 0x627F, 0x8BE5, 0x7528, 0x6237, 0x5F53, 0x524D, 0x7684, 0x8BFB, 0x53D6, 0x6743, 0x9650, 0xFF0C, 0x7B7E, 0x53D1] @ '' token '' @ cp [0x4E0D, 0x4F1A, 0x989D, 0x5916, 0x6388, 0x4E88, 0x6743, 0x9650, 0x3002]),
      (''docs.consume.tokenLogin'', cp [0x901A, 0x8FC7, 0x7BA1, 0x7406] @ '' API '' @ cp [0x521B, 0x5EFA, 0x548C, 0x7BA1, 0x7406] @ '' token'' @ cp [0x3002, 0x64CD, 0x4F5C, 0x8D26, 0x53F7, 0x521B, 0x5EFA, 0x3001, 0x64A4, 0x9500] @ '' token '' @ cp [0x9700, 0x8981, 0x96C6, 0x7FA4] @ '' ACL '' @ cp [0x5199, 0x6743, 0x9650, 0xFF0C, 0x67E5, 0x8BE2, 0x9700, 0x8981, 0x8BFB, 0x6743, 0x9650, 0x3002, 0x5C06, 0x4E0B, 0x65B9, 0x8D26, 0x53F7, 0x548C, 0x5BC6, 0x7801, 0x66FF, 0x6362, 0x4E3A, 0x6709, 0x6743, 0x9650, 0x7684, 0x5B9E, 0x9645, 0x64CD, 0x4F5C, 0x8D26, 0x53F7, 0xFF0C, 0x767B, 0x5F55] @ '' cassemadm'' @ cp [0xFF0C, 0x4FDD, 0x5B58, 0x54CD, 0x5E94, 0x4E2D, 0x7684] @ '' data.session'' @ cp [0x3002]),
      (''docs.consume.tokenLoginCommand'', cp [0x767B, 0x5F55, 0x4EE5, 0x7BA1, 0x7406] @ '' token''),
      (''docs.consume.tokenCreate'', cp [0x5C06] @ '' CASSEM_SESSION '' @ cp [0x8BBE, 0x4E3A] @ '' data.session'' @ cp [0xFF0C, 0x628A] @ '' reader@example.com '' @ cp [0x66FF, 0x6362, 0x4E3A, 0x5DF2, 0x542F, 0x7528, 0x7684, 0x8BFB, 0x53D6, 0x8D26, 0x53F7, 0xFF0C, 0x4E3A, 0x5176, 0x7B7E, 0x53D1, 0x4E00, 0x4E2A, 0x5177, 0x540D] @ '' token'' @ cp [0x3002, 0x793A, 0x4F8B, 0x6709, 0x6548, 0x671F, 0x4E3A] @ '' 86400 '' @ cp [0x79D2, 0xFF08] @ ''1 '' @ cp [0x5929, 0xFF09, 0xFF1B] @ ''expiresInSeconds '' @ cp [0x7701, 0x7565, 0x65F6, 0x9ED8, 0x8BA4] @ '' 30 '' @ cp [0x5929, 0xFF0C, 0x53EF, 0x8BBE, 0x7F6E, 0x4E3A] @ '' 1 '' @ cp [0x79D2, 0x81F3] @ '' 365 '' @ cp [0x5929, 0x3002, 0x4E3A, 0x8D85, 0x7EA7, 0x7BA1, 0x7406, 0x5458, 0x8D26, 0x53F7, 0x521B, 0x5EFA, 0x6216, 0x64A4, 0x9500] @ '' token '' @ cp [0x7684, 0x64CD, 0x4F5C, 0x53EA, 0x80FD, 0x7531, 0x5168, 0x5C40, 0x8D85, 0x7EA7, 0x7BA1, 0x7406, 0x5458, 0x6267, 0x884C, 0x3002]),
      (''docs.consume.tokenCreateCommand'', cp [0x521B, 0x5EFA, 0x7528, 0x6237, 0x8BBF, 0x95EE] @ '' token''),
      (''docs.consume.tokenOnceTitle'', cp [0x4FDD, 0x5B58, 0x521B, 0x5EFA, 0x65F6, 0x8FD4, 0x56DE, 0x7684] @ '' token''),
      (''docs.consume.tokenOnceBody'', cp [0x5C06, 0x54CD, 0x5E94, 0x4E2D, 0x7684] @ '' data.token '' @ cp [0x4FDD, 0x5B58, 0x4E3A] @ '' CASSEM_TOKEN'' @ cp [0xFF0C, 0x4F9B, 0x4E0A, 0x65B9] @ '' HTTP '' @ cp [0x8BF7, 0x6C42, 0x548C, 0x4E0B, 0x65B9] @ '' SDK '' @ cp [0x4F7F, 0x7528, 0xFF1B, 0x4FDD, 0x5B58] @ '' data.id'' @ cp [0xFF0C, 0x7528, 0x4E8E, 0x64A4, 0x9500, 0x3002, 0x660E, 0x6587] @ '' token '' @ cp [0x4EC5, 0x5728, 0x521B, 0x5EFA, 0x65F6, 0x8FD4, 0x56DE, 0x4E00, 0x6B21, 0xFF0C, 0x540E, 0x7EED, 0x5217, 0x8868, 0x53EA, 0x8FD4, 0x56DE, 0x5143, 0x6570, 0x636E, 0x3002, 0x8BF7, 0x4F7F, 0x7528, 0x73AF, 0x5883, 0x53D8, 0x91CF, 0x6216, 0x5BC6, 0x94A5, 0x7BA1, 0x7406, 0x670D, 0x52A1, 0x4FDD, 0x5B58, 0x3002, 0x7BA1, 0x7406, 0x8BF7, 0x6C42, 0x4F7F, 0x7528] @ '' X-CASSEM-SESSION'' @ cp [0xFF0C, 0x914D, 0x7F6E, 0x8BFB, 0x53D6, 0x4F7F, 0x7528, 0x8BBF, 0x95EE] @ '' token'' @ cp [0x3002]),
      (''docs.consume.tokenManageTitle'', cp [0x67E5, 0x8BE2, 0x3001, 0x64A4, 0x9500, 0x4E0E, 0x8F6E, 0x6362]),
      (''docs.consume.tokenList'', cp [0x67E5, 0x8BE2, 0x540C, 0x4E00, 0x8D26, 0x53F7, 0x7684] @ '' token '' @ cp [0x5217, 0x8868, 0xFF0C, 0x5728] @ '' data.tokens '' @ cp [0x4E2D, 0x67E5, 0x770B] @ '' id'' @ cp [0x3001, 0x540D, 0x79F0, 0x3001, 0x6240, 0x5C5E, 0x8D26, 0x53F7, 0x3001, 0x521B, 0x5EFA, 0x65F6, 0x95F4, 0x548C, 0x8FC7, 0x671F, 0x65F6, 0x95F4, 0xFF08] @ ''Unix '' @ cp [0x79D2, 0xFF09, 0x3002, 0x6BCF, 0x9875, 0x6700, 0x591A] @ '' 100 '' @ cp [0x6761, 0xFF1B] @ ''data.hasMore '' @ cp [0x4E3A] @ '' true '' @ cp [0x65F6, 0xFF0C, 0x5C06] @ '' data.nextSeek '' @ cp [0x4F5C, 0x4E3A, 0x4E0B, 0x4E00, 0x6B21, 0x8BF7, 0x6C42, 0x7684] @ '' seek '' @ cp [0x53C2, 0x6570, 0x3002, 0x8FC7, 0x671F] @ '' token '' @ cp [0x5728, 0x64A4, 0x9500, 0x524D, 0x4ECD, 0x4F1A, 0x51FA, 0x73B0, 0x5728, 0x5217, 0x8868, 0x4E2D, 0x3002]),
      (''docs.consume.tokenListCommand'', cp [0x67E5, 0x8BE2] @ '' token '' @ cp [0x5143, 0x6570, 0x636E]),
      (''docs.consume.tokenRevoke'', cp [0x4EC5, 0x5728, 0x9700, 0x8981, 0x505C, 0x7528, 0x8BE5, 0x51ED, 0x8BC1, 0x65F6, 0x6267, 0x884C, 0x4E0B, 0x65B9] @ '' DELETE '' @ cp [0x8BF7, 0x6C42, 0x3002, 0x5C06] @ '' CASSEM_TOKEN_ID '' @ cp [0x66FF, 0x6362, 0x4E3A, 0x521B, 0x5EFA, 0x54CD, 0x5E94, 0x7684] @ '' data.id '' @ cp [0x6216, 0x5217, 0x8868, 0x9879, 0x4E2D, 0x7684] @ '' id'' @ cp [0xFF0C] @ ''URL '' @ cp [0x4E2D, 0x4FDD, 0x6301, 0x540C, 0x4E00, 0x8D26, 0x53F7, 0x3002, 0x91CD, 0x590D, 0x64A4, 0x9500, 0x540C, 0x4E00] @ '' token '' @ cp [0x662F, 0x5B89, 0x5168, 0x7684, 0xFF1B, 0x64A4, 0x9500, 0x540E, 0xFF0C, 0x5373, 0x4F7F, 0x914D, 0x7F6E, 0x5DF2, 0x7F13, 0x5B58, 0xFF0C, 0x540E, 0x7EED, 0x8BFB, 0x53D6, 0x4E5F, 0x4F1A, 0x88AB, 0x62D2, 0x7EDD, 0x3002]),
      (''docs.consume.tokenRevokeCommand'', cp [0x505C, 0x7528, 0x65F6, 0x64A4, 0x9500] @ '' token''),
      (''docs.consume.tokenLifecycle'', cp [0x8F6E, 0x6362, 0x65F6, 0x5148, 0x521B, 0x5EFA, 0x65B0] @ '' token'' @ cp [0xFF0C, 0x66F4, 0x65B0, 0x5BA2, 0x6237, 0x7AEF, 0x5E76, 0x9A8C, 0x8BC1, 0x53EF, 0x7528, 0x540E, 0xFF0C, 0x518D, 0x64A4, 0x9500, 0x65E7] @ '' token'' @ cp [0x3002] @ ''token '' @ cp [0x8FC7, 0x671F, 0x6216, 0x7ED1, 0x5B9A, 0x7528, 0x6237, 0x88AB, 0x7981, 0x7528, 0x4E5F, 0x4F1A, 0x963B, 0x6B62, 0x8BBF, 0x95EE, 0xFF1B, 0x4FEE, 0x6539, 0x89D2, 0x8272, 0x7ED1, 0x5B9A, 0x4F1A, 0x6539, 0x53D8, 0x53EF, 0x8BFB, 0x53D6, 0x7684, 0x5E94, 0x7528, 0x548C, 0x73AF, 0x5883, 0x3002] @ ''Watch '' @ cp [0x5728, 0x6BCF, 0x6B21, 0x63A8, 0x9001, 0x524D, 0x91CD, 0x65B0, 0x6821, 0x9A8C, 0x3002, 0x4FEE, 0x6539, 0x5BC6, 0x7801, 0x4E0D, 0x4F1A, 0x81EA, 0x52A8, 0x64A4, 0x9500, 0x8BBF, 0x95EE] @ '' token'' @ cp [0xFF0C, 0x9700, 0x8981, 0x65F6, 0x8BF7, 0x663E, 0x5F0F, 0x64A4, 0x9500, 0x3002]),
      (''docs.consume.sdkTitle'', ''2. '' @ cp [0x901A, 0x8FC7] @ '' Go SDK '' @ cp [0x8BFB, 0x53D6, 0x548C, 0x8BA2, 0x9605]),
      (''docs.consume.sdkSetup'', cp [0x5B89, 0x88C5] @ '' Go 1.26+'' @ cp [0xFF0C, 0x5728] @ '' Go '' @ cp [0x9879, 0x76EE, 0x4E2D, 0x6DFB, 0x52A0, 0x4E0E, 0x90E8, 0x7F72, 0x517C, 0x5BB9, 0x7684] @ '' github.com/yeqown/cassem/sdk/go '' @ cp [0x4F9D, 0x8D56, 0xFF0C, 0x5C06] @ '' SDK_VERSION '' @ cp [0x66FF, 0x6362, 0x4E3A, 0x5DF2, 0x53D1, 0x5E03, 0x7684] @ '' SDK '' @ cp [0x7248, 0x672C, 0x3002] @ ''SDK '' @ cp [0x6A21, 0x5757, 0x4E0E, 0x670D, 0x52A1, 0x7AEF, 0x72EC, 0x7ACB, 0x7F16, 0x53F7, 0xFF0C, 0x7248, 0x672C, 0x53F7, 0x4E0D, 0x4E00, 0x5B9A, 0x76F8, 0x540C, 0xFF1B, 0x4F7F, 0x7528, 0x5F53, 0x524D, 0x4ED3, 0x5E93, 0x6E90, 0x7801, 0x65F6, 0xFF0C, 0x8BF7, 0x6267, 0x884C, 0x4E0B, 0x65B9, 0x672C, 0x5730] @ '' SDK '' @ cp [0x547D, 0x4EE4, 0x3002, 0x5728, 0x540C, 0x4E00, 0x7EC8, 0x7AEF, 0x4FDD, 0x7559] @ '' HTTP '' @ cp [0x6B65, 0x9AA4, 0x4E2D, 0x7684] @ '' CASSEM_TOKEN'' @ cp [0xFF0C, 0x5C06, 0x793A, 0x4F8B, 0x4FDD, 0x5B58, 0x4E3A] @ '' main.go'' @ cp [0xFF0C, 0x4E0B, 0x8F7D, 0x4F9D, 0x8D56, 0x540E, 0x8FD0, 0x884C] @ '' go run .'' @ cp [0x3002]),
      (''docs.consume.install'', cp [0x6DFB, 0x52A0] @ '' SDK '' @ cp [0x4F9D, 0x8D56]),
      (''docs.consume.localModule'', cp [0x4F7F, 0x7528, 0x672C, 0x5730, 0x6E90, 0x7801, 0x65F6, 0xFF0C, 0x8BF7, 0x5148, 0x628A] @ '' /absolute/path/to/cassem '' @ cp [0x66FF, 0x6362, 0x4E3A, 0x4ED3, 0x5E93, 0x7684, 0x5B9E, 0x9645, 0x7EDD, 0x5BF9, 0x8DEF, 0x5F84, 0xFF0C, 0x518D, 0x6267, 0x884C, 0x4EE5, 0x4E0B, 0x547D, 0x4EE4, 0x3002]),
      (''docs.consume.localCommand'', cp [0x4F7F, 0x7528, 0x672C, 0x5730] @ '' SDK''),
      (''docs.consume.code'', ''main.go '' @ cp [0xB7] @ '' '' @ cp [0x8BFB, 0x53D6, 0x4E0E, 0x8BA2, 0x9605]),
      (''docs.consume.parameters'', cp [0x6309, 0x90E8, 0x7F72, 0x60C5, 0x51B5, 0x66FF, 0x6362] @ '' Agent '' @ cp [0x5730, 0x5740, 0x3001, 0x5E94, 0x7528, 0x3001, 0x73AF, 0x5883, 0x548C, 0x914D, 0x7F6E, 0x952E, 0x3002] @ ''WithClientID '' @ cp [0x4E0E] @ '' WithClientIP '' @ cp [0x5747, 0x4E3A, 0x5FC5, 0x586B, 0xFF1B, 0x6BCF, 0x4E2A, 0x4E1A, 0x52A1, 0x8FDB, 0x7A0B, 0x5E94, 0x4F7F, 0x7528, 0x81EA, 0x5DF1, 0x7684, 0x5B9E, 0x4F8B, 0x6807, 0x8BC6, 0xFF0C, 0x672C, 0x673A, 0x6F14, 0x793A, 0x4EE5, 0x5916, 0x8BF7, 0x586B, 0x5199, 0x5B9E, 0x9645] @ '' IP'' @ cp [0x3002, 0x793A, 0x4F8B, 0x4ECE] @ '' CASSEM_TOKEN '' @ cp [0x8BFB, 0x53D6, 0x539F, 0x59CB] @ '' token'' @ cp [0xFF0C] @ ''WithToken '' @ cp [0x81EA, 0x52A8, 0x4E3A, 0x8BFB, 0x53D6, 0x548C, 0x8BA2, 0x9605, 0x8BF7, 0x6C42, 0x6DFB, 0x52A0] @ '' Bearer metadata'' @ cp [0x3002] @ ''token '' @ cp [0x65E0, 0x6548, 0x8FD4, 0x56DE] @ '' Unauthenticated'' @ cp [0xFF0C, 0x5E94, 0x7528] @ ''/'' @ cp [0x73AF, 0x5883, 0x6743, 0x9650, 0x4E0D, 0x8DB3, 0x8FD4, 0x56DE] @ '' PermissionDenied'' @ cp [0x3002]),
      (''docs.consume.apply'', ''Go SDK '' @ cp [0x4E2D, 0x7684] @ '' Raw '' @ cp [0x5DF2, 0x7ECF, 0x662F, 0x5B57, 0x8282, 0x5207, 0x7247, 0x3002, 0x793A, 0x4F8B, 0x5C06] @ '' JSON '' @ cp [0x89E3, 0x6790, 0x540E, 0x6253, 0x5370] @ '' logLevel '' @ cp [0x548C] @ '' requestTimeoutMs'' @ cp [0x3002, 0x5728, 0x4E1A, 0x52A1, 0x4E2D, 0xFF0C, 0x5E94, 0x6821, 0x9A8C, 0x89E3, 0x6790, 0x540E, 0x7684, 0x503C, 0xFF0C, 0x518D, 0x4EE5, 0x5E76, 0x53D1, 0x5B89, 0x5168, 0x7684, 0x65B9, 0x5F0F, 0x66F4, 0x65B0, 0x65E5, 0x5FD7, 0x7EA7, 0x522B, 0x3001, 0x8BF7, 0x6C42, 0x8D85, 0x65F6, 0x6216, 0x529F, 0x80FD, 0x5F00, 0x5173, 0x3002, 0x6536, 0x5230, 0x53D8, 0x66F4, 0x4E0D, 0x4F1A, 0x81EA, 0x52A8, 0x91CD, 0x8F7D, 0x4E1A, 0x52A1, 0x670D, 0x52A1, 0x3002]),
      (''docs.consume.watchNote'', ''Watch '' @ cp [0x53EA, 0x63A8, 0x9001, 0x5728, 0x7EBF, 0x53D8, 0x66F4, 0xFF0C, 0x4E0D, 0x8865, 0x53D1, 0x65AD, 0x7EBF, 0x671F, 0x95F4, 0x7684, 0x5386, 0x53F2, 0x3002, 0x9700, 0x8981, 0x4FDD, 0x6301, 0x8FDB, 0x7A0B, 0x8FD0, 0x884C, 0xFF1B, 0x65AD, 0x7EBF, 0x540E, 0x91CD, 0x65B0, 0x5EFA, 0x7ACB, 0x8BA2, 0x9605, 0xFF0C, 0x5E76, 0x4E3B, 0x52A8, 0x8BFB, 0x53D6, 0x5F53, 0x524D, 0x914D, 0x7F6E, 0x3002, 0x53EF, 0x4EE5, 0x914D, 0x5408, 0x5B9A, 0x671F, 0x8BFB, 0x53D6, 0x8865, 0x9F50, 0x9057, 0x6F0F, 0x7684, 0x66F4, 0x65B0, 0x3002, 0x65B0, 0x5185, 0x5BB9, 0x89E3, 0x6790, 0x5931, 0x8D25, 0x65F6, 0xFF0C, 0x5E94, 0x4FDD, 0x7559, 0x4E0A, 0x4E00, 0x4EFD, 0x6709, 0x6548, 0x914D, 0x7F6E, 0x3002]),
      (''docs.updates.intro'', cp [0x518D, 0x505A, 0x4E00, 0x6B21, 0x914D, 0x7F6E, 0x4FEE, 0x6539, 0xFF0C, 0x7136, 0x540E, 0x91CD, 0x65B0, 0x6267, 0x884C] @ '' HTTP fetch'' @ cp [0xFF0C, 0x6216, 0x4FDD, 0x6301] @ '' Go SDK '' @ cp [0x793A, 0x4F8B, 0x8FD0, 0x884C, 0xFF0C, 0x9A8C, 0x8BC1, 0x4ECE, 0x63A7, 0x5236, 0x53F0, 0x5230, 0x4E1A, 0x52A1, 0x7A0B, 0x5E8F, 0x7684, 0x5B8C, 0x6574, 0x94FE, 0x8DEF, 0x3002]),
      (''docs.updates.editTitle'', cp [0x4FDD, 0x5B58, 0x5E76, 0x53D1, 0x5E03] @ '' v2''),
      (''docs.updates.editBody'', cp [0x6253, 0x5F00] @ '' app-config '' @ cp [0x2192] @ '' '' @ cp [0x65B0, 0x5EFA, 0x7248, 0x672C, 0xFF0C, 0x5C06] @ '' logLevel '' @ cp [0x4ECE] @ '' info '' @ cp [0x6539, 0x4E3A] @ '' debug'' @ cp [0xFF0C, 0x4FDD, 0x5B58, 0x5B8C, 0x6574] @ '' JSON '' @ cp [0x5185, 0x5BB9, 0x3002, 0x6B64, 0x65F6, 0x65B0, 0x589E, 0x8349, 0x7A3F] @ '' v2'' @ cp [0xFF0C, 0x4F7F, 0x7528, 0x4E2D, 0x4ECD, 0x4E3A] @ '' v1'' @ cp [0x3002, 0x518D, 0x6309, 0x76F8, 0x540C, 0x7684, 0x5168, 0x91CF, 0x53D1, 0x5E03, 0x6D41, 0x7A0B, 0x53D1, 0x5E03] @ '' v2'' @ cp [0x3002]),
      (''docs.updates.verifyTitle'', cp [0x5728, 0x4E24, 0x7AEF, 0x6838, 0x5BF9, 0x7ED3, 0x679C]),
      (''docs.updates.verifyBody'', cp [0x63A7, 0x5236, 0x53F0, 0x4E2D, 0x786E, 0x8BA4, 0x4F7F, 0x7528, 0x4E2D, 0x7248, 0x672C, 0x4E3A] @ '' v2'' @ cp [0x3002, 0x91CD, 0x65B0, 0x8FD0, 0x884C, 0x5E26] @ '' --include '' @ cp [0x7684] @ '' HTTP '' @ cp [0x547D, 0x4EE4, 0xFF0C, 0x6838, 0x5BF9, 0x54CD, 0x5E94, 0x5934] @ '' X-CASSEM-Version: 2'' @ cp [0xFF0C, 0x4EE5, 0x53CA, 0x539F, 0x59CB] @ '' body '' @ cp [0x4E2D, 0x7684] @ '' logLevel=debug'' @ cp [0x3002, 0x4F7F, 0x7528] @ '' Go SDK '' @ cp [0x65F6, 0xFF0C, 0x68C0, 0x67E5, 0x7EC8, 0x7AEF, 0x6253, 0x5370, 0x7684, 0x7248, 0x672C, 0x548C] @ '' logLevel=debug'' @ cp [0xFF0C, 0x5E76, 0x5728, 0x300C, 0x96C6, 0x7FA4] @ '' '' @ cp [0x2192] @ '' '' @ cp [0x5B9E, 0x4F8B, 0x300D, 0x6216, 0x914D, 0x7F6E, 0x8BE6, 0x60C5, 0x7684, 0x300C, 0x5B9E, 0x4F8B, 0x300D, 0x6807, 0x7B7E, 0x67E5, 0x770B] @ '' order-service / dev / app-config '' @ cp [0x7684, 0x8BA2, 0x9605, 0x5173, 0x7CFB, 0x3002] @ ''SDK '' @ cp [0x5B9E, 0x4F8B, 0x5728, 0x7EBF, 0x672C, 0x8EAB, 0x4E0D, 0x4EE3, 0x8868, 0x4E1A, 0x52A1, 0x5DF2, 0x7ECF, 0x5E94, 0x7528, 0x4E86, 0x914D, 0x7F6E, 0x3002]),
      (''docs.updates.rollbackTitle'', cp [0x9700, 0x8981, 0x65F6, 0x56DE, 0x6EDA]),
      (''docs.updates.rollbackBody'', cp [0x5728, 0x914D, 0x7F6E, 0x8BE6, 0x60C5, 0x70B9, 0x51FB, 0x300C, 0x56DE, 0x6EDA, 0x300D, 0xFF0C, 0x9009, 0x62E9, 0x8F83, 0x65E9, 0x4E14, 0x5DF2, 0x53D1, 0x5E03, 0x7684] @ '' v1'' @ cp [0xFF0C, 0x68C0, 0x67E5, 0x5DEE, 0x5F02, 0x548C, 0x5F71, 0x54CD, 0x540E, 0x786E, 0x8BA4, 0x3002, 0x518D, 0x6B21, 0x6838, 0x5BF9, 0x4F7F, 0x7528, 0x4E2D, 0x7248, 0x672C, 0x4E0E, 0x5BA2, 0x6237, 0x7AEF, 0x6536, 0x5230, 0x7684, 0x5185, 0x5BB9, 0x3002, 0x56DE, 0x6EDA, 0x4F1A, 0x5207, 0x6362, 0x4F7F, 0x7528, 0x7248, 0x672C, 0xFF0C, 0x8F83, 0x65B0, 0x7684, 0x5386, 0x53F2, 0x8BB0, 0x5F55, 0x4ECD, 0x7136, 0x4FDD, 0x7559, 0x3002]),
      (''docs.updates.grayTitle'', cp [0x4EC0, 0x4E48, 0x65F6, 0x5019, 0x4F7F, 0x7528, 0x7070, 0x5EA6, 0x53D1, 0x5E03, 0xFF1F]),
      (''docs.updates.grayBody'', cp [0x9996, 0x6B21, 0x4E0A, 0x624B, 0x4F7F, 0x7528, 0x5168, 0x91CF, 0x53D1, 0x5E03, 0x5373, 0x53EF, 0x3002, 0x7070, 0x5EA6, 0x53D1, 0x5E03, 0x9700, 0x8981, 0x9009, 0x62E9, 0x81F3, 0x5C11, 0x4E00, 0x4E2A] @ '' Agent '' @ cp [0x6216, 0x5BA2, 0x6237, 0x7AEF, 0x5B9E, 0x4F8B, 0xFF0C, 0x7528, 0x4E8E, 0x9650, 0x5236, 0x901A, 0x77E5, 0x76EE, 0x6807, 0xFF1B, 0x5B83, 0x540C, 0x6837, 0x4F1A, 0x4FEE, 0x6539, 0x5171, 0x4EAB, 0x7684, 0x4F7F, 0x7528, 0x4E2D, 0x7248, 0x672C, 0xFF0C, 0x56E0, 0x6B64, 0x4E0D, 0x7B49, 0x4E8E, 0x72EC, 0x7ACB, 0x7684, 0x914D, 0x7F6E, 0x7A7A, 0x95F4, 0xFF0C, 0x4E5F, 0x4E0D, 0x4FDD, 0x8BC1, 0x5176, 0x4ED6, 0x5BA2, 0x6237, 0x7AEF, 0x65E0, 0x6CD5, 0x8BFB, 0x53D6, 0x8BE5, 0x7248, 0x672C, 0x3002]),
      (''docs.faq.unpublishedTitle'', cp [0x4E3A, 0x4EC0, 0x4E48, 0x4E0D, 0x80FD, 0x7EE7, 0x7EED, 0x65B0, 0x5EFA, 0x7248, 0x672C, 0xFF1F]),
      (''docs.faq.unpublishedBody'', cp [0x5F53, 0x524D, 0x5DF2, 0x7ECF, 0x5B58, 0x5728, 0x5C1A, 0x672A, 0x53D1, 0x5E03, 0x7684, 0x7248, 0x672C, 0x3002, 0x5148, 0x68C0, 0x67E5, 0x8BE6, 0x60C5, 0x9875, 0x4E2D, 0x7684, 0x8349, 0x7A3F, 0xFF0C, 0x5BA1, 0x9605, 0x5E76, 0x5B8C, 0x6210, 0x53D1, 0x5E03, 0xFF0C, 0x7136, 0x540E, 0x518D, 0x521B, 0x5EFA, 0x4E0B, 0x4E00, 0x7248, 0x3002]),
      (''docs.faq.readTitle'', cp [0x4E3A, 0x4EC0, 0x4E48, 0x8BFB, 0x53D6, 0x4E0D, 0x5230, 0x914D, 0x7F6E, 0xFF0C, 0x6216, 0x8005, 0x5185, 0x5BB9, 0x4E0E, 0x7F16, 0x8F91, 0x5668, 0x4E2D, 0x4E0D, 0x540C, 0xFF1F]),
      (''docs.faq.readBody'', cp [0x6838, 0x5BF9] @ '' Agent '' @ cp [0x5730, 0x5740, 0x53CA, 0x5E94, 0x7528, 0x3001, 0x73AF, 0x5883, 0x3001, 0x914D, 0x7F6E, 0x952E, 0x662F, 0x5426, 0x5B8C, 0x5168, 0x4E00, 0x81F4, 0x3002, 0x6700, 0x65B0, 0x7248, 0x672C, 0x53EF, 0x80FD, 0x4ECD, 0x662F, 0x8349, 0x7A3F, 0xFF0C, 0x800C, 0x4F7F, 0x7528, 0x4E2D, 0x6307, 0x5411, 0x65E7, 0x7248, 0x672C, 0xFF1B, 0x8BFB, 0x53D6, 0x4E5F, 0x53EF, 0x80FD, 0x77ED, 0x6682, 0x547D, 0x4E2D] @ '' Agent '' @ cp [0x7F13, 0x5B58, 0x3002, 0x8BF7, 0x786E, 0x8BA4, 0x53D1, 0x5E03, 0x7248, 0x672C, 0x540E, 0x91CD, 0x8BD5, 0xFF0C, 0x5E76, 0x68C0, 0x67E5, 0x8FD4, 0x56DE, 0x7684, 0x7248, 0x672C, 0x53F7, 0x548C, 0x539F, 0x59CB, 0x5185, 0x5BB9, 0x3002]),
      (''docs.faq.draftTitle'', ''HTTP fetch '' @ cp [0x4F1A, 0x8FD4, 0x56DE, 0x5C1A, 0x672A, 0x53D1, 0x5E03, 0x7684, 0x8349, 0x7A3F, 0x5417, 0xFF1F]),
      (''docs.faq.draftBody'', cp [0x5C1A, 0x65E0, 0x5DF2, 0x53D1, 0x5E03, 0x7248, 0x672C, 0x65F6, 0xFF0C] @ ''HTTP fetch '' @ cp [0x8FD4, 0x56DE] @ '' 404'' @ cp [0xFF1B, 0x53D1, 0x5E03] @ '' v1 '' @ cp [0x540E, 0x518D, 0x4FDD, 0x5B58] @ '' v2 '' @ cp [0x8349, 0x7A3F, 0xFF0C] @ ''HTTP '' @ cp [0x4ECD, 0x8FD4, 0x56DE] @ '' v1'' @ cp [0x3002] @ ''Go SDK '' @ cp [0x4FDD, 0x7559, 0x65E2, 0x6709, 0x8BFB, 0x53D6, 0x884C, 0x4E3A, 0xFF0C, 0x5C1A, 0x65E0, 0x4F7F, 0x7528, 0x4E2D, 0x7248, 0x672C, 0x65F6, 0x53EF, 0x80FD, 0x8FD4, 0x56DE, 0x9996, 0x6B21, 0x8349, 0x7A3F, 0xFF1B, 0x4F7F, 0x7528] @ '' SDK '' @ cp [0x65F6, 0xFF0C, 0x4ECD, 0x9700, 0x5728, 0x63A7, 0x5236, 0x53F0, 0x68C0, 0x67E5, 0x300C, 0x4F7F, 0x7528, 0x4E2D, 0x300D, 0x7248, 0x672C, 0xFF0C, 0x786E, 0x8BA4, 0x662F, 0x5426, 0x5DF2, 0x53D1, 0x5E03, 0x3002]),
      (''docs.faq.watchTitle'', cp [0x4E3A, 0x4EC0, 0x4E48, 0x4E1A, 0x52A1, 0x6CA1, 0x6709, 0x6536, 0x5230, 0x53D8, 0x66F4, 0xFF1F]),
      (''docs.faq.watchBody'', cp [0x4FDD, 0x5B58, 0x8349, 0x7A3F, 0x4E0D, 0x7B49, 0x4E8E, 0x53D1, 0x5E03, 0x3002, 0x5148, 0x786E, 0x8BA4, 0x5DF2, 0x53D1, 0x5E03, 0x3001, 0x5BA2, 0x6237, 0x7AEF, 0x4ECD, 0x5728, 0x7EBF, 0xFF0C, 0x5E76, 0x4E14, 0x8BA2, 0x9605, 0x7684, 0x5E94, 0x7528, 0x3001, 0x73AF, 0x5883, 0x548C, 0x914D, 0x7F6E, 0x952E, 0x4E00, 0x81F4, 0xFF1B, 0x4F7F, 0x7528, 0x7070, 0x5EA6, 0x65F6, 0xFF0C, 0x8FD8, 0x5E94, 0x6838, 0x5BF9, 0x76EE, 0x6807, 0x8303, 0x56F4, 0x3002, 0x53D1, 0x751F, 0x65AD, 0x7EBF, 0x540E, 0x9700, 0x8981, 0x91CD, 0x8FDE, 0x5E76, 0x91CD, 0x65B0, 0x8BFB, 0x53D6, 0x3002, 0x6700, 0x540E, 0x68C0, 0x67E5, 0x4E1A, 0x52A1, 0x7A0B, 0x5E8F, 0x7684, 0x89E3, 0x6790, 0x4E0E, 0x91CD, 0x8F7D, 0x903B, 0x8F91, 0x3002]),
      (''docs.faq.accessTitle'', cp [0x4E3A, 0x4EC0, 0x4E48, 0x63D0, 0x793A, 0x6CA1, 0x6709, 0x6743, 0x9650, 0xFF1F]),
      (''docs.faq.accessBody'', cp [0x8BFB, 0x53D6, 0x914D, 0x7F6E, 0x65F6, 0xFF0C, 0x5148, 0x68C0, 0x67E5] @ '' CASSEM_TOKEN'' @ cp [0xFF1A] @ ''401 / Unauthenticated '' @ cp [0x8868, 0x793A, 0x51ED, 0x8BC1, 0x6216, 0x7528, 0x6237, 0x72B6, 0x6001, 0x5F02, 0x5E38, 0xFF1B] @ ''403 / PermissionDenied '' @ cp [0x8868, 0x793A, 0x7F3A, 0x5C11, 0x76EE, 0x6807, 0x5E94, 0x7528] @ ''/'' @ cp [0x73AF, 0x5883, 0x7684] @ '' READ '' @ cp [0x6743, 0x9650, 0x3002, 0x8BF7, 0x7BA1, 0x7406, 0x5458, 0x5728, 0x300C, 0x7528, 0x6237] @ '' '' @ cp [0x2192] @ '' '' @ cp [0x7BA1, 0x7406, 0x6743, 0x9650, 0x300D, 0x4E2D, 0x68C0, 0x67E5] @ '' token '' @ cp [0x6240, 0x5C5E, 0x7528, 0x6237, 0x7684, 0x7ED1, 0x5B9A, 0x3002, 0x7BA1, 0x7406] @ '' token '' @ cp [0x4F7F, 0x7528, 0x5177, 0x5907, 0x96C6, 0x7FA4] @ '' ACL '' @ cp [0x6743, 0x9650, 0x7684, 0x767B, 0x5F55] @ '' session'' @ cp [0xFF1B, 0x63A7, 0x5236, 0x53F0, 0x767B, 0x5F55, 0x6743, 0x9650, 0x4E0D, 0x4F1A, 0x81EA, 0x52A8, 0x6388, 0x4E88, 0x914D, 0x7F6E, 0x8BFB, 0x53D6, 0x6743, 0x9650, 0x3002])]"

subsection \<open>The catalogues\<close>

definition en :: catalogue where
  "en = map_of commonEn ++ map_of managementEn ++ map_of elementsEn ++ map_of operationsEn ++ map_of docsEn"

definition zhCN :: catalogue where
  "zhCN = map_of commonZhCN ++ map_of managementZhCN ++ map_of elementsZhCN ++ map_of operationsZhCN ++ map_of docsZhCN"

definition isOperationsMessageKey :: "string \<Rightarrow> bool" where
  "isOperationsMessageKey v = (v \<in> fst ` set operationsEn)"

subsection \<open>Placeholders\<close>

function placeholders :: "string \<Rightarrow> string list" where
  "placeholders [] = []"
| "placeholders (c # s) =
     (let name = takeWhile is_word s; rest = dropWhile is_word s in
      if c = CHR ''{'' \<and> name \<noteq> [] \<and> rest \<noteq> [] \<and> hd rest = CHR ''}''
      then name # placeholders (tl rest) else placeholders s)"
  by pat_completeness auto
termination
proof (relation "measure length")
  fix c s name rest
  assume "rest = dropWhile is_word s"
  then have "length (tl rest) < length (c # s)" using length_dropWhile_le [of is_word s] by simp
  then show "(tl rest, c # s) \<in> measure length" by simp
qed simp_all

lemma subst_agree: "(\<And>name. name \<in> set (placeholders s) \<Longrightarrow> f name = g name) \<Longrightarrow> subst_placeholders f s = subst_placeholders g s"
proof (induction s rule: placeholders.induct)
  case (2 c s)
  let ?name = "takeWhile is_word s" and ?rest = "dropWhile is_word s"
  show ?case
  proof (cases "c = CHR ''{'' \<and> ?name \<noteq> [] \<and> ?rest \<noteq> [] \<and> hd ?rest = CHR ''}''")
    case True
    then have ps: "placeholders (c # s) = ?name # placeholders (tl ?rest)" unfolding placeholders.simps(2) Let_def by (rule if_P)
    have "subst_placeholders f (tl ?rest) = subst_placeholders g (tl ?rest)"
      by (rule "2.IH"(1) [OF refl refl True]) (use "2.prems" ps in simp)
    moreover have "f ?name = g ?name" using "2.prems" ps by simp
    ultimately show ?thesis unfolding subst_placeholders.simps(2) Let_def by (simp only: if_P [OF True])
  next
    case False
    then have ps: "placeholders (c # s) = placeholders s" unfolding placeholders.simps(2) Let_def by (rule if_not_P)
    have "subst_placeholders f s = subst_placeholders g s"
      by (rule "2.IH"(2) [OF refl refl False]) (use "2.prems" ps in simp)
    then show ?thesis unfolding subst_placeholders.simps(2) Let_def by (simp only: if_not_P [OF False])
  qed
qed simp

lemma placeholders_other: "c \<noteq> CHR ''{'' \<Longrightarrow> placeholders (c # s) = placeholders s"
  by simp

lemma placeholders_skip: "CHR ''{'' \<notin> set w \<Longrightarrow> placeholders (w @ s) = placeholders s"
  by (induction w) auto

lemma high_byte: "128 \<le> n \<Longrightarrow> n < 256 \<Longrightarrow> char_of n \<noteq> CHR ''{''" for n :: nat
proof
  assume n: "128 \<le> n" "n < 256" and c: "char_of n = CHR ''{''"
  have "of_char (char_of n :: char) = (of_char (CHR ''{'') :: nat)" unfolding c ..
  with n show False by simp
qed

lemma code_point_no_brace: "128 \<le> n \<Longrightarrow> n < 0x110000 \<Longrightarrow> CHR ''{'' \<notin> set (code_point n)"
proof -
  assume n: "128 \<le> n" "n < 0x110000"
  have cont: "char_of (0x80 + m mod 64) \<noteq> CHR ''{''" for m :: nat by (rule high_byte) simp_all
  have lead: "char_of (b + m) \<noteq> CHR ''{''" if "128 \<le> b" "m < 256 - b" for b m :: nat
    using that by (intro high_byte) simp_all
  have "n < 0x800 \<Longrightarrow> n div 64 < 256 - 0xC0" "n < 0x10000 \<Longrightarrow> n div 4096 < 256 - 0xE0" "n div 262144 < 256 - 0xF0"
    using n by (simp_all add: less_mult_imp_div_less)
  with n cont lead show ?thesis unfolding code_point_def by (simp add: eq_commute [of "CHR ''{''"] del: char_of_def)
qed

lemma placeholders_cp:
  assumes "list_all (\<lambda>n. 128 \<le> n \<and> n < 0x110000) ns"
  shows "placeholders (cp ns @ s) = placeholders s" "placeholders (cp ns) = []"
proof -
  have "CHR ''{'' \<notin> set (cp ns)" using assms code_point_no_brace by (auto simp: cp_def list_all_iff)
  then show "placeholders (cp ns @ s) = placeholders s" by (rule placeholders_skip)
  from placeholders_skip [OF \<open>CHR ''{'' \<notin> set (cp ns)\<close>, of "[]"] show "placeholders (cp ns) = []" by simp
qed

definition same_message :: "string \<times> string \<Rightarrow> string \<times> string \<Rightarrow> bool" where
  "same_message x y = (fst x = fst y \<and> set (placeholders (snd x)) = set (placeholders (snd y)))"

lemma placeholders_append:
  "placeholders ((c # w) @ s) = placeholders (c # (w @ s))" "placeholders ([] @ s) = placeholders s"
  by simp_all

definition brace :: "string \<Rightarrow> string \<Rightarrow> string list" where
  \<comment> \<open>after an opening brace, with the characters since then in reverse order\<close>
  "brace acc s = placeholders (CHR ''{'' # rev acc @ s)"

lemma brace_open: "placeholders (CHR ''{'' # s) = brace [] s"
  by (simp add: brace_def del: placeholders.simps)

lemma brace_next: "c \<noteq> CHR ''}'' \<Longrightarrow> brace acc (c # s) = brace (c # acc) s"
  by (simp add: brace_def del: placeholders.simps)

lemma brace_close:
  assumes "acc \<noteq> []" and "list_all is_word acc"
  shows "brace acc (CHR ''}'' # s) = rev acc # placeholders s"
proof -
  have "\<forall>c \<in> set (rev acc). is_word c" using assms(2) by (simp add: list_all_iff)
  then have "takeWhile is_word (rev acc @ CHR ''}'' # s) = rev acc" "dropWhile is_word (rev acc @ CHR ''}'' # s) = CHR ''}'' # s"
    using not_word_brace by (simp_all add: takeWhile_append dropWhile_append)
  with assms(1) show ?thesis by (simp add: brace_def)
qed

lemma brace_append: "brace acc ((c # w) @ s) = brace acc (c # (w @ s))" "brace acc ([] @ s) = brace acc s"
  by simp_all

lemma text_weak_cong: "placeholders s = placeholders s" "brace acc s = brace acc s"
  by (rule refl)+

lemma same_message_pair: "same_message (k, m) (k', m') \<longleftrightarrow> k = k' \<and> set (placeholders m) = set (placeholders m')"
  by (simp add: same_message_def)

lemmas message_eval = same_message_pair placeholders_append placeholders_other placeholders_cp brace_open brace_next brace_close brace_append
  is_word_def is_alnum_def insert_commute

lemma common_parity: "list_all2 same_message commonEn commonZhCN"
  unfolding commonEn_def commonZhCN_def
  by (simp add: message_eval del: placeholders.simps(2) append_Cons append_Nil cong: text_weak_cong)

lemma management_parity: "list_all2 same_message managementEn managementZhCN"
  unfolding managementEn_def managementZhCN_def
  by (simp add: message_eval del: placeholders.simps(2) append_Cons append_Nil cong: text_weak_cong)

lemma elements_parity: "list_all2 same_message elementsEn elementsZhCN"
  unfolding elementsEn_def elementsZhCN_def
  by (simp add: message_eval del: placeholders.simps(2) append_Cons append_Nil cong: text_weak_cong)

lemma operations_parity: "list_all2 same_message operationsEn operationsZhCN"
  unfolding operationsEn_def operationsZhCN_def
  by (simp add: message_eval del: placeholders.simps(2) append_Cons append_Nil cong: text_weak_cong)

lemma docs_parity: "list_all2 same_message docsEn docsZhCN"
  unfolding docsEn_def docsZhCN_def
  by (simp add: message_eval del: placeholders.simps(2) append_Cons append_Nil cong: text_weak_cong)

lemmas parity = common_parity management_parity elements_parity operations_parity docs_parity

subsection \<open>Properties\<close>

definition same_messages :: "catalogue \<Rightarrow> catalogue \<Rightarrow> bool" where
  "same_messages a b = (\<forall>k. case (a k, b k) of
       (Some m, Some m') \<Rightarrow> set (placeholders m) = set (placeholders m')
     | (None, None) \<Rightarrow> True
     | _ \<Rightarrow> False)"

lemma same_messages_of: "list_all2 same_message xs ys \<Longrightarrow> same_messages (map_of xs) (map_of ys)"
  by (induction xs ys rule: list_all2_induct) (auto simp: same_messages_def same_message_def)

lemma same_messages_add:
  assumes "same_messages a b" and "same_messages c d"
  shows "same_messages (a ++ c) (b ++ d)"
  unfolding same_messages_def
proof
  fix k
  show "case ((a ++ c) k, (b ++ d) k) of (Some m, Some m') \<Rightarrow> set (placeholders m) = set (placeholders m') | (None, None) \<Rightarrow> True | _ \<Rightarrow> False"
    using spec [OF assms(1) [unfolded same_messages_def], of k] spec [OF assms(2) [unfolded same_messages_def], of k]
    by (cases "c k"; cases "d k") (simp_all add: map_add_def)
qed

lemma catalogues_same: "same_messages en zhCN"
  unfolding en_def zhCN_def by (intro same_messages_add same_messages_of parity)

lemma catalogues_keys: "zhCN k = None \<longleftrightarrow> en k = None"
  using spec [OF catalogues_same [unfolded same_messages_def], of k] by (cases "en k"; cases "zhCN k") simp_all

lemma catalogues_placeholders:
  "en k = Some m \<Longrightarrow> \<exists>m'. zhCN k = Some m' \<and> set (placeholders m') = set (placeholders m)"
  using spec [OF catalogues_same [unfolded same_messages_def], of k] by (cases "zhCN k") simp_all

text \<open>C23: The Chinese catalogue has a message for exactly the keys of the English one, and it mentions the same
  placeholders. So a call that gives a parameter for every placeholder of the English message shows a
  complete text in either language: no other parameter could change it.\<close>

theorem messages_complete:
  "dom zhCN = dom en \<and>
   (\<forall>k m m'. en k = Some m \<and> zhCN k = Some m' \<longrightarrow> set (placeholders m) = set (placeholders m')) \<and>
   (\<forall>k m params. en k = Some m \<and> set (placeholders m) \<subseteq> fst ` set params \<longrightarrow>
     (\<exists>m'. (case l of En \<Rightarrow> en k | ZhCN \<Rightarrow> zhCN k) = Some m' \<and>
        (\<forall>more. translate en zhCN l k (params @ more) = subst_placeholders (placeholder_value params) m')))"
proof -
  have "dom zhCN = dom en" using catalogues_keys by (auto simp: dom_def)
  moreover have "set (placeholders m) = set (placeholders m')" if "en k = Some m" "zhCN k = Some m'" for k m m'
    using catalogues_placeholders [OF that(1)] that(2) by auto
  moreover have "\<exists>m'. (case l of En \<Rightarrow> en k | ZhCN \<Rightarrow> zhCN k) = Some m' \<and>
      (\<forall>more. translate en zhCN l k (params @ more) = subst_placeholders (placeholder_value params) m')"
    if given: "en k = Some m" "set (placeholders m) \<subseteq> fst ` set params" for k m params
  proof -
    obtain m' where m': "(case l of En \<Rightarrow> en k | ZhCN \<Rightarrow> zhCN k) = Some m'" "set (placeholders m') = set (placeholders m)"
    proof (cases l)
      case En
      with given(1) show ?thesis by (intro that) simp_all
    next
      case ZhCN
      with catalogues_placeholders [OF given(1)] show ?thesis using that by auto
    qed
    have "placeholder_value (params @ more) name = placeholder_value params name" if "name \<in> set (placeholders m')" for name more
    proof -
      have "name \<in> fst ` set params" using that m'(2) given(2) by blast
      then obtain v where "map_of params name = Some v" by (metis domD dom_map_of_conv_image_fst)
      then show ?thesis by (simp add: placeholder_value_def)
    qed
    then have "subst_placeholders (placeholder_value (params @ more)) m' = subst_placeholders (placeholder_value params) m'" for more
      by (rule subst_agree)
    then have "translate en zhCN l k (params @ more) = subst_placeholders (placeholder_value params) m'" for more
      using m'(1) by (cases l) (simp_all add: translate_def)
    with m'(1) show ?thesis by blast
  qed
  ultimately show ?thesis by blast
qed

lemma map_of_weak_cong: "map_of xs = map_of xs" ..

lemma demo_message: "\<exists>m. en ''docs.copyLabel'' = Some m \<and> placeholders m = [''title'']"
proof -
  have "map_of docsEn ''docs.copyLabel'' = Some ''Copy {title}''"
    unfolding docsEn_def by (simp cong: map_of_weak_cong)
  moreover have "placeholders ''Copy {title}'' = [''title'']" by (simp add: is_word_def is_alnum_def)
  ultimately show ?thesis by (simp add: en_def del: placeholders.simps)
qed

theorem messages_complete_witness:
  "\<exists>m'. zhCN ''docs.copyLabel'' = Some m' \<and>
     translate en zhCN ZhCN ''docs.copyLabel'' [(''title'', PStr ''x''), (''y'', PNum 1)] = subst_placeholders (placeholder_value [(''title'', PStr ''x'')]) m'"
proof -
  obtain m where m: "en ''docs.copyLabel'' = Some m" "placeholders m = [''title'']" using demo_message by blast
  then have "en ''docs.copyLabel'' = Some m \<and> set (placeholders m) \<subseteq> fst ` set [(''title'', PStr ''x'')]" by (simp del: placeholders.simps)
  then have "\<exists>m'. (case ZhCN of En \<Rightarrow> en ''docs.copyLabel'' | ZhCN \<Rightarrow> zhCN ''docs.copyLabel'') = Some m' \<and>
    (\<forall>more. translate en zhCN ZhCN ''docs.copyLabel'' ([(''title'', PStr ''x'')] @ more) = subst_placeholders (placeholder_value [(''title'', PStr ''x'')]) m')"
    by (rule mp [OF spec [OF spec [OF spec [OF conjunct2 [OF conjunct2 [OF messages_complete]]]]]])
  then obtain m' where m': "zhCN ''docs.copyLabel'' = Some m'"
    and all: "\<forall>more. translate en zhCN ZhCN ''docs.copyLabel'' ([(''title'', PStr ''x'')] @ more) = subst_placeholders (placeholder_value [(''title'', PStr ''x'')]) m'"
    unfolding Locale.case by blast
  have "translate en zhCN ZhCN ''docs.copyLabel'' [(''title'', PStr ''x''), (''y'', PNum 1)] = subst_placeholders (placeholder_value [(''title'', PStr ''x'')]) m'"
    using spec [OF all, of "[(''y'', PNum 1)]"] unfolding append_Cons append_Nil .
  with m' show ?thesis by blast
qed

text \<open>Whether a key is in a list, so that the rest of the list is looked at only when its head is another key.\<close>

fun has_key :: "string \<Rightarrow> message_list \<Rightarrow> bool" where
  "has_key k [] \<longleftrightarrow> False"
| "has_key k (m # ms) \<longleftrightarrow> (if k = fst m then True else has_key k ms)"

lemma has_key_iff: "has_key k ms \<longleftrightarrow> k \<in> fst ` set ms"
  by (induction ms) auto

lemma has_key_weak_cong: "k = k' \<Longrightarrow> has_key k ms = has_key k' ms"
  by simp

lemma isOperationsMessageKey_has: "isOperationsMessageKey v \<longleftrightarrow> has_key v operationsEn"
  by (auto simp: isOperationsMessageKey_def has_key_iff)

lemma operations_keys:
  "isOperationsMessageKey ''operations.topology.loadFailed''" "isOperationsMessageKey ''operations.instances.loadFailed''"
  "isOperationsMessageKey ''operations.instances.filterFailed''" "isOperationsMessageKey ''operations.instances.appsFailed''"
  "isOperationsMessageKey ''operations.instances.envsFailed''" "isOperationsMessageKey ''operations.instances.keysFailed''"
  "isOperationsMessageKey ''operations.instances.detailFailed''"
  unfolding isOperationsMessageKey_has operationsEn_def by (simp_all cong: has_key_weak_cong)

end
