(* ===== verification/Page_Messages.thy ===== *)
theory Page_Messages
  imports Catalogues Instances_Page Topology
begin

section \<open>The catalogues on the pages: \<open>createLocaleFormatters\<close> and the errors of the cluster pages\<close>

text \<open>
  The value of the language context, and the pages of the cluster with the application's own
  catalogues. These pages keep the key of an error's text and not the text, and decide while rendering
  whether a message is a key. The facts: an error that brings no text of its own is shown as a message of
  the language in use, also when the language changes after it; a text of the server that is no key is shown as it is.
\<close>

subsection \<open>The value of the context\<close>

record 'd I18nContextValue =
  ic_locale :: Locale
  ic_t :: Translator
  ic_formatDateTime :: "'d \<Rightarrow> string"
  ic_formatNumber :: "int \<Rightarrow> string"

definition createLocaleFormatters ::
  "('d \<Rightarrow> int option) \<Rightarrow> (string \<Rightarrow> int \<Rightarrow> string) \<Rightarrow> (string \<Rightarrow> int \<Rightarrow> string) \<Rightarrow> Locale \<Rightarrow> 'd I18nContextValue" where
  \<comment> \<open>\<open>getTime\<close> is \<open>None\<close> for an invalid date; the formats of \<open>Intl\<close> are arguments\<close>
  "createLocaleFormatters getTime toLocaleString numberFormat l =
     \<lparr>ic_locale = l, ic_t = translate en zhCN l,
      ic_formatDateTime = (\<lambda>v. case getTime v of None \<Rightarrow> ''-'' | Some date \<Rightarrow> toLocaleString (locale_value l) date),
      ic_formatNumber = numberFormat (locale_value l)\<rparr>"

definition I18nContext_default ::
  "('d \<Rightarrow> int option) \<Rightarrow> (string \<Rightarrow> int \<Rightarrow> string) \<Rightarrow> (string \<Rightarrow> int \<Rightarrow> string) \<Rightarrow> 'd I18nContextValue" where
  "I18nContext_default getTime toLocaleString numberFormat = createLocaleFormatters getTime toLocaleString numberFormat En"

subsection \<open>Facts\<close>

abbreviation catalogue_of :: "Locale \<Rightarrow> catalogue" where
  "catalogue_of l \<equiv> (case l of En \<Rightarrow> en | ZhCN \<Rightarrow> zhCN)"

abbreviation shown_message :: "string \<Rightarrow> string" where
  "shown_message m \<equiv> subst_placeholders (placeholder_value []) m"

lemma operations_key_listed: "isOperationsMessageKey k \<Longrightarrow> \<exists>m. catalogue_of l k = Some m"
proof -
  assume "isOperationsMessageKey k"
  then have "map_of operationsEn k \<noteq> None" by (simp add: isOperationsMessageKey_def map_of_eq_None_iff)
  then have "en k \<noteq> None" by (auto simp: en_def map_add_def split: option.split)
  with catalogues_keys [of k] show ?thesis by (cases l) auto
qed

lemma translate_listed: "catalogue_of l k = Some m \<Longrightarrow> translate en zhCN l k [] = shown_message m"
  by (cases l) (simp_all add: translate_def opt_or_def)

lemma query_fallback_key: "isOperationsMessageKey (query_fallback q)" "query_fallback q \<noteq> []"
  by (cases q; simp add: query_fallback_def operations_keys)+

lemma candidate_fallback_key: "isOperationsMessageKey (candidate_fallback q)" "candidate_fallback q \<noteq> []"
  by (cases q; simp add: candidate_fallback_def operations_keys)+

lemma ins_message_key:
  assumes "isOperationsMessageKey k" and "k \<noteq> []"
  shows "\<exists>m. catalogue_of l k = Some m \<and> ins_message isOperationsMessageKey (translate en zhCN l) k = [UError (shown_message m)]"
  using operations_key_listed [OF assms(1), of l] translate_listed [of l k] assms by (auto simp: ins_message_def)

subsection \<open>Properties\<close>

text \<open>When the latest query of the instances page fails without a text of its own, a network failure for one, the
  page shows the message for that kind of query in the language in use, whichever it is when the page is
  rendered.\<close>

theorem instances_error_translated:
  assumes "is_mounted s" and "il_id load = is_requestSeq s" and "deref outcome = Inl (OtherFailure e)"
  shows "\<exists>m. catalogue_of l (query_fallback (il_query load)) = Some m \<and>
    UError (shown_message m) \<in> set (InstancesPage_view str isOperationsMessageKey (translate en zhCN l) fmt now (is_apply load outcome s))"
proof -
  obtain m where "catalogue_of l (query_fallback (il_query load)) = Some m"
    "ins_message isOperationsMessageKey (translate en zhCN l) (query_fallback (il_query load)) = [UError (shown_message m)]"
    using ins_message_key [OF query_fallback_key, of l "il_query load"] by blast
  with assms show ?thesis
    by (auto simp: InstancesPage_view_def is_apply_def getErrorMessage_def reportError_def)
qed

text \<open>The same of the topology, and an error with a text shows that text unless it is a key.\<close>

theorem topology_error_translated:
  assumes "tv_mounted s" and "AgentsPage_view isOperationsMessageKey host (translate en zhCN l) fmt (tv_apply (tv_requestSeq s) (Inl err) s) = Some shown"
  shows "case err of
      OtherFailure e \<Rightarrow> \<exists>m. catalogue_of l ''operations.topology.loadFailed'' = Some m \<and> UError (shown_message m) \<in> set shown
    | ApiFailure e \<Rightarrow> ae_message e \<noteq> [] \<and> \<not> isOperationsMessageKey (ae_message e) \<longrightarrow> UError (ae_message e) \<in> set shown"
proof (cases err)
  case (ApiFailure e)
  with assms show ?thesis by (auto simp: AgentsPage_view_def tv_apply_def reportError_def getErrorMessage_def Let_def)
next
  case (OtherFailure e)
  obtain m where m: "catalogue_of l ''operations.topology.loadFailed'' = Some m"
    using operations_key_listed [OF operations_keys(1)] by blast
  from OtherFailure assms translate_listed [OF m] have "UError (shown_message m) \<in> set shown"
    by (auto simp: AgentsPage_view_def tv_apply_def reportError_def getErrorMessage_def operations_keys(1) Let_def)
  with OtherFailure m show ?thesis by auto
qed

text \<open>Outside a provider the context speaks English, and an invalid date is a dash in every language.\<close>

theorem formatters_default:
  "ic_t (I18nContext_default g d n) = translate en zhCN En \<and> (g v = None \<longrightarrow> ic_formatDateTime (createLocaleFormatters g d n l) v = ''-'')"
  by (simp add: I18nContext_default_def createLocaleFormatters_def)

end
