(* ===== verification/Spec2Isabelle.thy ===== *)
theory Spec2Isabelle
  imports Publish_Wizard Rollback_Wizard Copy_Dialog Apps_Page Envs_Page Elements_Page Topology
    Users_Page Access_Page Page_Links Wizard_Pages App_Root Styles Page_Messages
begin

text \<open>
  A verification library for the administration console of cassem, the single-page application
  under \<open>src/web/src\<close>. The console manages applications, their environments and the elements
  (versioned configuration contents) in them, publishes versions to agents and instances and rolls
  them back, copies environments, administers users and their roles, and shows the cluster. It talks to the server through one function, \<open>apiRequest\<close>.

  \<^bold>\<open>How a page is modelled.\<close> A React page is a record of its state variables and refs, a datatype of
  events (clicks, inputs, the settling of a request, a timer, a change of the route, mounting and
  unmounting) and a step function that runs the handler of an event, and then the effects React
  runs after the rendering, and returns the new state with the effects (requests, toasts,
  navigation) in order. An \<open>async\<close> function is split at each \<open>await\<close>: what its closure captured is
  kept in a list of continuations, and an event resumes one of them with any outcome. So every
  interleaving of user input and responses is a list of events, and a property of all reachable
  states covers all of them. A control that is disabled or behind an open dialog does not react.
  What a page shows is a list of \<open>ui\<close> nodes (texts, inputs, buttons with their enabledness, tables)
  without layout and style. A string is its UTF-8 encoding; a number that is only compared or
  printed is an \<open>int\<close>; version numbers keep the non-finite values. The translator is an argument,
  and \<open>I18n\<close> models the one of the application.

  \<^bold>\<open>The theories.\<close>
  \<^item> \<open>Prelude\<close>: truthiness and defaults, decimal numerals, JavaScript sets, requests in flight, runs of
    a step function, and the locale \<open>guarded_component\<close> that lifts a one-step invariant and a bound
    on effects to every run; every page interprets it.
  \<^item> \<open>Latest_Loader\<close>: the locale \<open>latest_loader\<close>, the contract of numbered loads of which only the latest
    is applied; interpreted by the list pages, the detail page and the cluster pages (the instances page
    three times, for its three sequences of requests).
  \<^item> \<open>Js_Text\<close>, \<open>Js_Json\<close>, \<open>Js_Number\<close>: trimming, letter case, URL encoding, \<open>JSON.parse\<close> and
    \<open>JSON.stringify\<close>, \<open>Number\<close>.
  \<^item> \<open>Domain_Types\<close> (\<open>domain/types.ts\<close>), \<open>I18n\<close> (\<open>i18n\<close>), \<open>Api_Client\<close> (\<open>lib/api.ts\<close>, \<open>lib/session.ts\<close>,
    \<open>lib/assets.ts\<close>, \<open>lib/routerBase.ts\<close>), \<open>Raw_Codec\<close> (\<open>lib/raw.ts\<close>), \<open>Ui\<close> (the shared view
    components), \<open>Feedback\<close> (\<open>useErrorState\<close>, \<open>StateView\<close>, \<open>ToastProvider\<close>).
  \<^item> \<open>Catalogues\<close> (\<open>i18n/catalogs\<close>, \<open>i18n/messages.ts\<close>): every message of the two languages, text outside ASCII by its code
    points. \<open>Page_Messages\<close>: the value of the language context, and the cluster pages with these catalogues.
  \<^item> \<open>Workflow_Options\<close>, \<open>Wizard_Common\<close>, \<open>Publish_Wizard\<close>, \<open>Rollback_Wizard\<close> (\<open>features/publish\<close>), and \<open>Wizard_Pages\<close>: the two
    wizards under the router, with the locale \<open>keyed_flow\<close>, the contract of a component that is replaced when its key changes.
  \<^item> \<open>Copy_Pool\<close>, \<open>Copy_Dialog\<close> (\<open>features/envs/CopyEnvDialog.tsx\<close>): the pool of workers that copies the
    elements, and the dialog around it.
  \<^item> \<open>Apps_Page\<close>, \<open>Envs_Page\<close>, \<open>Elements_Page\<close>: the three list pages. \<open>Element_Detail\<close>
    (\<open>features/elements/ElementDetailPage.tsx\<close>): one element with its versions, comparison, history and editor.
  \<^item> \<open>Users_Page\<close> (\<open>features/users/UsersPage.tsx\<close>): users, passwords and the roles a user has in a domain.
  \<^item> \<open>Topology\<close> (\<open>features/cluster/AgentsPage.tsx\<close>): the request for the topology, the grouping of the instances and
    the graph; \<open>Instances_Page\<close> (\<open>features/cluster/InstancesPage.tsx\<close>): the list with its filter and details.
  \<^item> \<open>Content\<close>, \<open>Content_Registry\<close> (\<open>features/elements/content*.ts\<close>, \<open>ContentEditor\<close>, \<open>ContentViewer\<close>,
    \<open>components/DiffViewer.tsx\<close>): validation, diagnostics, editor configuration, highlighting.
  \<^item> \<open>Settings\<close> (\<open>lib/settings.ts\<close>, \<open>SettingsPage\<close>, \<open>AppThemeProvider\<close>), \<open>Auth\<close> (\<open>AuthProvider\<close>,
    \<open>RequireAuth\<close>, \<open>LoginPage\<close>, \<open>routes.tsx\<close>, \<open>AppShell\<close>), \<open>Language_Menu\<close> (\<open>LanguageSwitcher\<close> on the provider of
    the language).
  \<^item> \<open>Access_Page\<close> (\<open>features/acl/AclPage.tsx\<close>, which no route leads to), \<open>Guide\<close> (\<open>features/docs\<close>), and \<open>Page_Links\<close>,
    which composes the detail page with the page of the instances through the query of the address.
  \<^item> \<open>App_Root\<close> (\<open>main.tsx\<close>, the hooks of the contexts, the view of \<open>AppShell\<close>): the tree of providers and components of every
    route. \<open>Styles\<close> (\<open>theme.ts\<close>, the look of \<open>DiffViewer\<close>): the options handed to the component library and to the comparison.

  \<^bold>\<open>What is shown.\<close>
  \<^item> Publishing and rolling back: a modifying request is sent only for the version that was selected,
    is allowed, and whose difference from the version in use was loaded and shown; a wizard with a
    valid selection reaches its result; the confirmation lists what the request carries. However the route changes, that
    holds of the element of the route, as long as no name has a slash.
  \<^item> Copying: every chosen element gets exactly one result, requests create only chosen elements with
    the content their own fetch was answered with, a copy starts only with elements of the chosen source into a new
    environment (of the application shown, unless it has just changed and its load is under way), the pool ends and the page loop ends for a server that makes progress.
  \<^item> List pages: once the load a change of route queues has started, a response that changes a list answers a
    request for what the page shows; creating
    and deleting happen one at a time, from a dialog, on what it names, and an element only with a
    content that passes validation; loading more appends.
  \<^item> The detail page: a modifying request is for the element of the route and stores validated content or
    publishes the draft of the element just read back, or without a draft its newer latest version; publishing directly runs to its end; what is compared are listed versions.
  \<^item> Users: no request changes a superadmin or that role, a domain assigned is the whole cluster or one that was
    offered, the bindings shown are those of the user named, an accepted assignment ends with them read back if the first answer
    of the dialog was in.
  \<^item> The cluster: grouping is the partition by agent (and throws for inherited names), no instance is lost in the graph, its keys are
    unambiguous, its edges join nodes of it, its nodes are inside the drawing, an instance is joined to the agent it names or else to the
    first; a list of instances answers
    the latest query.
  \<^item> Content: INI validation accepts exactly the documents all of whose lines are in order and reports
    the first that is not, and accepts what is written from sections, pairs, comments and blank lines; JSON validation is the parser; ranges of diagnostics are in bounds.
  \<^item> Settings and session: what is read is well typed and what was written; the page and the
    storage implement two records of preferences, which only another tab can make different, and the theme follows the stored one; guarded pages need a session, signing in returns to the address asked for.
  \<^item> Client and texts: request outcomes on every branch, round trips of sessions, base64 contents and
    the chosen language, injectivity of paths, translation with placeholders; the language in use is the one the
    next visit starts with, whatever other tabs do. The two catalogues have the same keys and placeholders, and the
    errors of the cluster pages are shown in the language in use.
  \<^item> The application: on every route no context is read outside its provider and all texts are in the chosen language; two
    clicks lead to any page of the navigation; the theme in use is the one the next visit starts with.
  \<^item> Between pages: parsing a query inverts serialising it, the detail page's link opens the instances of that very
    element, every link of the guide has a route and every entry of its contents a heading, and its example passes
    the validation.
  \<^item> Where the code does not do what it means to: \<open>apps_double_next\<close> (a second click on Next),
    \<open>envs_stale_refresh\<close> (a copy that outlives its page), \<open>expired_session_unnoticed\<close> (the guard after a
    rejected request), \<open>highlight_failure_sticks\<close> (a script that failed once), \<open>detail_diff_mislabelled\<close> (a comparison
    under other versions' numbers), \<open>detail_missing_draft_message\<close> (a message never shown), \<open>detail_editor_follows_route\<close>
    (content saved into another element), \<open>topology_error_accepted\<close> (an error taken for an empty cluster),
    \<open>topology_prototype_crash\<close> (an agent with an inherited name), \<open>instances_apps_never_offered\<close> (options that are always
    dropped), \<open>instances_key_collision\<close> (a form that does not follow the address), \<open>users_access_overwritten\<close>
    (bindings undone by a late answer), \<open>rollback_page_collision\<close> (a version reviewed for one element and sent for another),
    \<open>copy_stale_application\<close> (elements of one application copied under another), \<open>settings_other_tab\<close> (a page that does not follow
    the storage).

  \<^bold>\<open>Bounds and fuel.\<close> The JSON parser takes fuel; \<open>json_value_fuel\<close> shows that the fuel \<open>json_parse\<close> gives,
  twice the length of the text and two, is enough, so \<open>None\<close> is a syntax error. The page loop of the
  copy dialog may run forever against a server that repeats its positions, and is a step function
  whose termination is a theorem under the assumption of progress. All other functions are total.

  \<^bold>\<open>Ghost fields.\<close> \<open>ap_started\<close>, \<open>ev_started\<close>, \<open>ep_started\<close>, \<open>ed_started\<close>, \<open>cd_from\<close>, \<open>cd_fromApp\<close>, \<open>is_lastQuery\<close>,
  \<open>is_lastCandidate\<close> and \<open>is_lastDetail\<close> are not in the code; they record what the latest load was started with, and no
  handler reads them.

  \<^bold>\<open>Not modelled.\<close> Layout, and styles beyond the theme and the comparison; the icons; the packages (React, component
  library, router, editor, TOML parser, comparison, highlighting, URL parsing, \<open>Intl\<close>), which are left out or are parameters
  with the behaviour relied on as named hypotheses. The Go server is another program.
\<close>

end
